(* ===== verification/Prelude.thy ===== *)
theory Prelude
  imports Main
begin

text \<open>
  Shared library of the development.

  \<^item> \<open>exn\<close>: the exceptions of the NestJS services (the HTTP exception classes the
    code throws, the plain \<open>Error\<close> of the domain classes, and the errors the
    database reports).
  \<^item> \<open>('s, 'a) M\<close>: a computation over a store \<open>'s\<close> that returns a value or throws. The
    store survives an exception, because a service method that throws after an
    earlier awaited repository call does not undo that call; only
    \<open>transaction\<close> (Prisma's \<open>$transaction\<close>) rolls back.
  \<^item> \<open>wp\<close>: its weakest precondition calculus; the rules are collected in \<open>wp_simps\<close>.
  \<^item> \<open>keeps\<close>: preservation of an invariant by a computation, with one rule per
    combinator (\<open>keeps_intros\<close>).
\<close>

named_theorems wp_simps \<open>weakest preconditions of the monad's operations\<close>

section \<open>Exceptions\<close>

datatype db_error =
    RecordNotFound        \<comment> \<open>Prisma P2025: update or delete of a missing row\<close>
  | UniqueViolation string \<comment> \<open>Prisma P2002: a unique index, by name\<close>
  | ExclusionViolation string \<comment> \<open>an EXCLUDE constraint, by name\<close>
  | ForeignKeyViolation string \<comment> \<open>Prisma P2003: a referenced row does not exist\<close>
  | MissingArgument string \<comment> \<open>Prisma rejects a row without a required column\<close>
  | RangeBoundsError       \<comment> \<open>PostgreSQL: range lower bound above upper bound\<close>
  | RowSecurityViolation   \<comment> \<open>PostgreSQL: a new row fails the check of a row level policy\<close>

datatype exn =
    NotFoundException string
  | BadRequestException string
  | ConflictException string
  | ForbiddenException string
  | UnauthorizedException string
  | ServiceUnavailableException string
  | DomainError string
  | InsufficientStock string int int
  | DbError db_error

section \<open>The monad\<close>

type_synonym ('s, 'a) M = "'s \<Rightarrow> (exn + 'a) \<times> 's"

definition ret :: "'a \<Rightarrow> ('s, 'a) M" where
  "ret x = (\<lambda>s. (Inr x, s))"

definition throw :: "exn \<Rightarrow> ('s, 'a) M" where
  "throw e = (\<lambda>s. (Inl e, s))"

definition bindM :: "('s, 'a) M \<Rightarrow> ('a \<Rightarrow> ('s, 'b) M) \<Rightarrow> ('s, 'b) M" where
  "bindM m k = (\<lambda>s. case m s of (Inl e, s') \<Rightarrow> (Inl e, s') | (Inr x, s') \<Rightarrow> k x s')"

definition thenM :: "('s, 'a) M \<Rightarrow> ('s, 'b) M \<Rightarrow> ('s, 'b) M" where
  "thenM m n = bindM m (\<lambda>_. n)"

definition reads :: "('s \<Rightarrow> 'a) \<Rightarrow> ('s, 'a) M" where
  "reads f = (\<lambda>s. (Inr (f s), s))"

definition modifyM :: "('s \<Rightarrow> 's) \<Rightarrow> ('s, unit) M" where
  "modifyM f = (\<lambda>s. (Inr (), f s))"

definition ensure :: "bool \<Rightarrow> exn \<Rightarrow> ('s, unit) M" where
  "ensure b e = (if b then ret () else throw e)"

definition require :: "exn \<Rightarrow> 'a option \<Rightarrow> ('s, 'a) M" where
  "require e x = (case x of None \<Rightarrow> throw e | Some a \<Rightarrow> ret a)"

definition whenM :: "bool \<Rightarrow> ('s, unit) M \<Rightarrow> ('s, unit) M" where
  "whenM b m = (if b then m else ret ())"

text \<open>All or nothing: an exception restores the store of the start.\<close>

definition transaction :: "('s, 'a) M \<Rightarrow> ('s, 'a) M" where
  "transaction m = (\<lambda>s. case m s of (Inl e, s') \<Rightarrow> (Inl e, s) | (Inr x, s') \<Rightarrow> (Inr x, s'))"

text \<open>\<open>try m catch (e) h\<close>: the store is not rolled back before the handler runs.\<close>

definition try_catch :: "('s, 'a) M \<Rightarrow> (exn \<Rightarrow> ('s, 'a) M) \<Rightarrow> ('s, 'a) M" where
  "try_catch m h = (\<lambda>s. case m s of (Inl e, s') \<Rightarrow> h e s' | (Inr x, s') \<Rightarrow> (Inr x, s'))"

primrec for_each :: "'x list \<Rightarrow> ('x \<Rightarrow> ('s, unit) M) \<Rightarrow> ('s, unit) M" where
  "for_each [] f = ret ()"
| "for_each (x # xs) f = thenM (f x) (for_each xs f)"

text \<open>The result of a method that throws, as a computation.\<close>

definition lift_sum :: "exn + 'a \<Rightarrow> ('s, 'a) M" where
  "lift_sum x = (case x of Inl e \<Rightarrow> throw e | Inr a \<Rightarrow> ret a)"

text \<open>A request whose answer does not matter.\<close>

definition ignore :: "('s, 'a) M \<Rightarrow> ('s, unit) M" where
  "ignore m = thenM m (ret ())"

lemmas monad_defs = ret_def throw_def bindM_def thenM_def reads_def modifyM_def ensure_def
  require_def whenM_def transaction_def try_catch_def

section \<open>Weakest preconditions\<close>

text \<open>
  \<open>wp m Q E s\<close>: started in \<open>s\<close>, \<open>m\<close> returns a value and a store that satisfy \<open>Q\<close>, or
  throws an exception that satisfies \<open>E\<close> with the store it leaves.
\<close>

definition wp :: "('s, 'a) M \<Rightarrow> ('a \<Rightarrow> 's \<Rightarrow> bool) \<Rightarrow> (exn \<Rightarrow> 's \<Rightarrow> bool) \<Rightarrow> 's \<Rightarrow> bool" where
  "wp m Q E s = (case m s of (Inl e, s') \<Rightarrow> E e s' | (Inr x, s') \<Rightarrow> Q x s')"

lemma wp_ret [wp_simps]: "wp (ret x) Q E s = Q x s"
  by (simp add: wp_def ret_def)

lemma wp_throw [wp_simps]: "wp (throw e) Q E s = E e s"
  by (simp add: wp_def throw_def)

lemma wp_bindM [wp_simps]: "wp (bindM m k) Q E s = wp m (\<lambda>x. wp (k x) Q E) E s"
  by (auto simp: wp_def bindM_def split: prod.splits sum.splits)

lemma wp_thenM [wp_simps]: "wp (thenM m n) Q E s = wp m (\<lambda>_. wp n Q E) E s"
  by (simp add: thenM_def wp_bindM)

lemma wp_reads [wp_simps]: "wp (reads f) Q E s = Q (f s) s"
  by (simp add: wp_def reads_def)

lemma wp_modifyM [wp_simps]: "wp (modifyM f) Q E s = Q () (f s)"
  by (simp add: wp_def modifyM_def)

lemma wp_ensure [wp_simps]: "wp (ensure b e) Q E s = (if b then Q () s else E e s)"
  by (simp add: ensure_def wp_simps)

lemma wp_require [wp_simps]:
  "wp (require e x) Q E s = (case x of None \<Rightarrow> E e s | Some a \<Rightarrow> Q a s)"
  by (simp add: require_def wp_simps split: option.split)

lemma wp_whenM [wp_simps]: "wp (whenM b m) Q E s = (if b then wp m Q E s else Q () s)"
  by (simp add: whenM_def wp_simps)

lemma wp_transaction [wp_simps]:
  "wp (transaction m) Q E s = wp m Q (\<lambda>e _. E e s) s"
  by (auto simp: wp_def transaction_def split: prod.splits sum.splits)

lemma wp_try_catch [wp_simps]:
  "wp (try_catch m h) Q E s = wp m Q (\<lambda>e. wp (h e) Q E) s"
  by (auto simp: wp_def try_catch_def split: prod.splits sum.splits)

lemma wp_lift_sum [wp_simps]:
  "wp (lift_sum x) Q E s = (case x of Inl e \<Rightarrow> E e s | Inr a \<Rightarrow> Q a s)"
  by (simp add: lift_sum_def wp_simps split: sum.split)

lemma wp_if [wp_simps]:
  "wp (if b then m else n) Q E s = (if b then wp m Q E s else wp n Q E s)"
  by simp

lemma wp_option [wp_simps]:
  "wp (case x of None \<Rightarrow> m | Some a \<Rightarrow> k a) Q E s =
     (case x of None \<Rightarrow> wp m Q E s | Some a \<Rightarrow> wp (k a) Q E s)"
  by (simp split: option.split)

lemma wp_mono:
  assumes "wp m Q E s"
    and "\<And>x s'. Q x s' \<Longrightarrow> Q' x s'" and "\<And>e s'. E e s' \<Longrightarrow> E' e s'"
  shows "wp m Q' E' s"
  using assms by (auto simp: wp_def split: prod.splits sum.splits)

lemma wp_conj:
  "wp m Q E s \<Longrightarrow> wp m Q' E' s \<Longrightarrow> wp m (\<lambda>x s'. Q x s' \<and> Q' x s') (\<lambda>e s'. E e s' \<and> E' e s') s"
  by (auto simp: wp_def split: prod.splits sum.splits)

text \<open>The same without the store, for the continuation of another \<open>wp\<close>.\<close>

lemma wp_funs:
  "wp (thenM m n) Q E = wp m (\<lambda>_. wp n Q E) E"
  "wp (bindM m k) Q E = wp m (\<lambda>x. wp (k x) Q E) E"
  "wp (ret x) Q E = Q x"
  by (simp_all add: fun_eq_iff wp_thenM wp_bindM wp_ret)

text \<open>A loop keeps what each of its rounds keeps.\<close>

lemma wp_for_each:
  assumes "\<And>x s. x \<in> set xs \<Longrightarrow> I s \<Longrightarrow> wp (f x) (\<lambda>_. I) E s" and "I s"
  shows "wp (for_each xs f) (\<lambda>_. I) E s"
  using assms
proof (induction xs arbitrary: s)
  case Nil
  then show ?case by (simp add: wp_simps)
next
  case (Cons x xs)
  have "wp (f x) (\<lambda>_. I) E s"
    using Cons.prems by simp
  then have "wp (f x) (\<lambda>_. wp (for_each xs f) (\<lambda>_. I) E) E s"
    by (rule wp_mono) (use Cons in auto)
  then show ?case by (simp add: wp_simps)
qed

text \<open>The same with an invariant about the rounds that are left.\<close>

lemma wp_for_each_rest:
  assumes "\<And>x xs s. I (x # xs) s \<Longrightarrow> wp (f x) (\<lambda>_. I xs) E s" and "I xs s"
  shows "wp (for_each xs f) (\<lambda>_. I []) E s"
  using assms(2)
proof (induction xs arbitrary: s)
  case Nil
  then show ?case by (simp add: wp_simps)
next
  case (Cons x xs)
  then have "wp (f x) (\<lambda>_. I xs) E s"
    by (intro assms(1))
  then have "wp (f x) (\<lambda>_. wp (for_each xs f) (\<lambda>_. I []) E) E s"
    by (rule wp_mono) (use Cons in auto)
  then show ?case by (simp add: wp_simps)
qed

text \<open>From a weakest precondition to a run, and back.\<close>

lemma wp_ok: "wp m Q E s \<Longrightarrow> m s = (Inr x, s') \<Longrightarrow> Q x s'"
  by (simp add: wp_def)

lemma wp_err: "wp m Q E s \<Longrightarrow> m s = (Inl e, s') \<Longrightarrow> E e s'"
  by (simp add: wp_def)

lemma wp_any: "wp m (\<lambda>_. I) (\<lambda>_. I) s \<longleftrightarrow> I (snd (m s))"
  by (auto simp: wp_def split: prod.splits sum.splits)

lemma wpI:
  "(\<And>x s'. m s = (Inr x, s') \<Longrightarrow> Q x s') \<Longrightarrow> (\<And>e s'. m s = (Inl e, s') \<Longrightarrow> E e s') \<Longrightarrow> wp m Q E s"
  by (auto simp: wp_def split: prod.splits sum.splits)

text \<open>The run returns a value: an executable test, for concrete runs.\<close>

definition returns :: "('s, 'a) M \<Rightarrow> 's \<Rightarrow> bool" where
  "returns m s = (case m s of (Inl e, s') \<Rightarrow> False | (Inr x, s') \<Rightarrow> True)"

lemma returnsE:
  assumes "returns m s" obtains x s' where "m s = (Inr x, s')"
  using assms by (auto simp: returns_def split: prod.splits sum.splits)

text \<open>A run that must end in a given exception, or in a given value, with a given store.\<close>

lemma fails_with: "wp m (\<lambda>_ _. False) (\<lambda>x s'. x = e \<and> s' = s) s \<Longrightarrow> m s = (Inl e, s)"
  by (auto simp: wp_def split: prod.splits sum.splits)

lemma returns_with: "wp m (\<lambda>y s'. y = x \<and> s' = s1) (\<lambda>_ _. False) s \<Longrightarrow> m s = (Inr x, s1)"
  by (auto simp: wp_def split: prod.splits sum.splits)

text \<open>\<open>keeps I m\<close>: \<open>m\<close> preserves \<open>I\<close>, whether it returns or throws.\<close>

definition keeps :: "('s \<Rightarrow> bool) \<Rightarrow> ('s, 'a) M \<Rightarrow> bool" where
  "keeps I m \<longleftrightarrow> (\<forall>s. I s \<longrightarrow> wp m (\<lambda>_. I) (\<lambda>_. I) s)"

lemma keepsI: "(\<And>s. I s \<Longrightarrow> wp m (\<lambda>_. I) (\<lambda>_. I) s) \<Longrightarrow> keeps I m"
  by (simp add: keeps_def)

lemma keeps_step: "keeps I m \<Longrightarrow> I s \<Longrightarrow> wp m (\<lambda>_. I) (\<lambda>_. I) s"
  by (simp add: keeps_def)

lemma keepsD: "keeps I m \<Longrightarrow> I s \<Longrightarrow> I (snd (m s))"
  by (simp add: keeps_def wp_any)

lemma keeps_run: "keeps I m \<Longrightarrow> I s \<Longrightarrow> m s = (r, s') \<Longrightarrow> I s'"
  by (auto dest: keepsD)

named_theorems keeps_intros \<open>composition rules for invariant preservation\<close>

lemma keeps_ret [keeps_intros]: "keeps I (ret x)"
  and keeps_throw [keeps_intros]: "keeps I (throw e)"
  and keeps_reads [keeps_intros]: "keeps I (reads f)"
  and keeps_ensure [keeps_intros]: "keeps I (ensure b e)"
  and keeps_require [keeps_intros]: "keeps I (require e opt)"
  by (auto simp: keeps_def wp_simps split: option.split)

lemma keeps_bindM [keeps_intros]:
  "keeps I m \<Longrightarrow> (\<And>x. keeps I (k x)) \<Longrightarrow> keeps I (bindM m k)"
  unfolding keeps_def wp_bindM by (blast intro: wp_mono)

lemma keeps_thenM [keeps_intros]: "keeps I m \<Longrightarrow> keeps I n \<Longrightarrow> keeps I (thenM m n)"
  unfolding thenM_def by (rule keeps_bindM)

lemma keeps_whenM [keeps_intros]: "(b \<Longrightarrow> keeps I m) \<Longrightarrow> keeps I (whenM b m)"
  by (auto simp: keeps_def wp_simps)

lemma keeps_if [keeps_intros]:
  "(b \<Longrightarrow> keeps I m) \<Longrightarrow> (\<not> b \<Longrightarrow> keeps I n) \<Longrightarrow> keeps I (if b then m else n)"
  by simp

lemma keeps_option [keeps_intros]:
  "keeps I m \<Longrightarrow> (\<And>a. keeps I (k a)) \<Longrightarrow> keeps I (case x of None \<Rightarrow> m | Some a \<Rightarrow> k a)"
  by (simp split: option.split)

lemma keeps_try_catch [keeps_intros]:
  "keeps I m \<Longrightarrow> (\<And>e. keeps I (h e)) \<Longrightarrow> keeps I (try_catch m h)"
  unfolding keeps_def wp_try_catch by (blast intro: wp_mono)

lemma keeps_transaction [keeps_intros]: "keeps I m \<Longrightarrow> keeps I (transaction m)"
  by (auto simp: keeps_def wp_def transaction_def split: prod.splits sum.splits)

lemma keeps_for_each [keeps_intros]:
  "(\<And>x. keeps I (f x)) \<Longrightarrow> keeps I (for_each xs f)"
  by (induction xs) (auto intro: keeps_intros)

lemma keeps_wp:
  "keeps I m \<Longrightarrow> I s \<Longrightarrow> (\<And>e s'. E e s') \<Longrightarrow> (\<And>x s'. I s' \<Longrightarrow> Q x s') \<Longrightarrow> wp m Q E s"
  unfolding keeps_def by (blast intro: wp_mono)

text \<open>
  In a transaction the invariant may be broken on the way: only a successful end has to
  restore it.
\<close>

lemma wp_transaction_inv:
  "I s \<Longrightarrow> wp m (\<lambda>_. I) (\<lambda>_ _. True) s \<Longrightarrow> wp (transaction m) (\<lambda>_. I) (\<lambda>_. I) s"
  unfolding wp_transaction by (rule wp_mono) auto

lemma keeps_lift_sum [keeps_intros]: "keeps I (lift_sum x)"
  unfolding lift_sum_def by (auto intro: keeps_intros split: sum.split)

lemma bind_known: "bindM (ret x) k = k x" "bindM (throw e) k = throw e"
  by (simp_all add: bindM_def ret_def throw_def)

lemma keeps_lift_bind: "(\<And>x. r = Inr x \<Longrightarrow> keeps I (k x)) \<Longrightarrow> keeps I (bindM (lift_sum r) k)"
  by (cases r) (simp_all add: keeps_def lift_sum_def wp_simps)

lemma wp_ignore: "wp (ignore m) (\<lambda>_. I) E s \<longleftrightarrow> wp m (\<lambda>_. I) E s"
  by (simp add: ignore_def wp_funs)

lemma keeps_ignore: "keeps I m \<Longrightarrow> keeps I (ignore m)"
  by (simp add: keeps_def wp_ignore)

text \<open>A transaction that throws leaves the store as it was.\<close>

lemma transaction_rollback: "transaction m s = (Inl e, s') \<Longrightarrow> s' = s"
  by (auto simp: transaction_def split: prod.splits sum.splits)

section \<open>All or nothing\<close>

text \<open>
  \<open>atomic m\<close>: when \<open>m\<close> throws, the store is as before; \<open>read_only\<close> and \<open>no_fail\<close> are the parts
  such a computation is composed of (reads and checks first, one transaction, then steps
  that cannot fail).
\<close>

definition atomic :: "('s, 'a) M \<Rightarrow> bool" where
  "atomic m \<longleftrightarrow> (\<forall>s e s'. m s = (Inl e, s') \<longrightarrow> s' = s)"

definition read_only :: "('s, 'a) M \<Rightarrow> bool" where
  "read_only m \<longleftrightarrow> (\<forall>s. snd (m s) = s)"

definition no_fail :: "('s, 'a) M \<Rightarrow> bool" where
  "no_fail m \<longleftrightarrow> (\<forall>s e s'. m s \<noteq> (Inl e, s'))"

named_theorems atomic_intros \<open>composition rules for reading, failing and all-or-nothing\<close>

lemma atomicD: "atomic m \<Longrightarrow> m s = (Inl e, s') \<Longrightarrow> s' = s"
  by (simp add: atomic_def)

lemma atomic_transaction [atomic_intros]: "atomic (transaction m)"
  by (auto simp: atomic_def dest: transaction_rollback)

lemma atomic_read_only: "read_only m \<Longrightarrow> atomic m"
  by (auto simp: atomic_def read_only_def) (metis snd_conv)

lemma atomic_bind_read [atomic_intros]:
  "read_only m \<Longrightarrow> (\<And>x. atomic (k x)) \<Longrightarrow> atomic (bindM m k)"
  by (auto simp: atomic_def read_only_def bindM_def split: prod.splits sum.splits) (metis snd_conv)+

lemma atomic_bind_last:
  "atomic m \<Longrightarrow> (\<And>x. no_fail (k x)) \<Longrightarrow> atomic (bindM m k)"
  by (auto simp: atomic_def no_fail_def bindM_def split: prod.splits sum.splits)

lemma atomic_then_read [atomic_intros]: "read_only m \<Longrightarrow> atomic n \<Longrightarrow> atomic (thenM m n)"
  unfolding thenM_def by (rule atomic_bind_read)

lemma atomic_then_last: "atomic m \<Longrightarrow> no_fail n \<Longrightarrow> atomic (thenM m n)"
  unfolding thenM_def by (rule atomic_bind_last)

lemma atomic_simple [atomic_intros]: "atomic (ret x)" "atomic (throw e)" "atomic (modifyM f)"
  by (auto simp: atomic_def monad_defs)

lemma atomic_if [atomic_intros]: "atomic m \<Longrightarrow> atomic n \<Longrightarrow> atomic (if b then m else n)"
  by simp

lemma atomic_option [atomic_intros]:
  "atomic m \<Longrightarrow> (\<And>a. atomic (k a)) \<Longrightarrow> atomic (case x of None \<Rightarrow> m | Some a \<Rightarrow> k a)"
  by (simp split: option.split)

lemma read_only_simple [atomic_intros]: "read_only (ret x)" "read_only (throw e)"
    "read_only (reads f)" "read_only (ensure b e)" "read_only (require e opt)" "read_only (lift_sum r)"
  by (auto simp: read_only_def monad_defs lift_sum_def split: option.split sum.split)

lemma read_only_bind [atomic_intros]:
  "read_only m \<Longrightarrow> (\<And>x. read_only (k x)) \<Longrightarrow> read_only (bindM m k)"
  by (auto simp: read_only_def bindM_def split: prod.splits sum.splits) (metis snd_conv)+

lemma read_only_then [atomic_intros]: "read_only m \<Longrightarrow> read_only n \<Longrightarrow> read_only (thenM m n)"
  unfolding thenM_def by (rule read_only_bind)

lemma read_only_if [atomic_intros]: "read_only m \<Longrightarrow> read_only n \<Longrightarrow> read_only (if b then m else n)"
  by simp

lemma read_only_whenM [atomic_intros]: "read_only m \<Longrightarrow> read_only (whenM b m)"
  unfolding whenM_def by (intro atomic_intros)

lemma read_only_option [atomic_intros]:
  "read_only m \<Longrightarrow> (\<And>a. read_only (k a)) \<Longrightarrow> read_only (case x of None \<Rightarrow> m | Some a \<Rightarrow> k a)"
  by (simp split: option.split)

lemma no_fail_simple [atomic_intros]: "no_fail (ret x)" "no_fail (modifyM f)" "no_fail (reads g)"
  by (auto simp: no_fail_def monad_defs)

lemma no_fail_bind [atomic_intros]:
  "no_fail m \<Longrightarrow> (\<And>x. no_fail (k x)) \<Longrightarrow> no_fail (bindM m k)"
  by (auto simp: no_fail_def bindM_def split: prod.splits sum.splits)

lemma no_fail_then [atomic_intros]: "no_fail m \<Longrightarrow> no_fail n \<Longrightarrow> no_fail (thenM m n)"
  unfolding thenM_def by (rule no_fail_bind)

lemma no_fail_whenM [atomic_intros]: "no_fail m \<Longrightarrow> no_fail (whenM b m)"
  by (simp add: whenM_def no_fail_simple)

text \<open>Steps whose outcome does not matter for the claim, and steps that only read.\<close>

lemma wp_any_first:
  "(\<And>x s. wp (k x) Q (\<lambda>_ _. True) s) \<Longrightarrow> wp (bindM n k) Q (\<lambda>_ _. True) s"
  "(\<And>s. wp m Q (\<lambda>_ _. True) s) \<Longrightarrow> wp (thenM n m) Q (\<lambda>_ _. True) s"
  unfolding thenM_def wp_bindM by (auto simp: wp_def split: prod.split sum.split)

lemma wp_read_bind:
  "read_only m \<Longrightarrow> (\<And>x. wp (k x) Q (\<lambda>_ _. True) s) \<Longrightarrow> wp (bindM m k) Q (\<lambda>_ _. True) s"
proof -
  assume m: "read_only m" and k: "\<And>x. wp (k x) Q (\<lambda>_ _. True) s"
  have "m s = (fst (m s), s)"
    using m by (simp add: read_only_def prod_eq_iff)
  then show ?thesis
    unfolding wp_bindM wp_def [of m] using k by (metis (no_types, lifting) case_prod_conv sum.case_eq_if)
qed

lemma wp_read_then:
  "read_only m \<Longrightarrow> wp n Q (\<lambda>_ _. True) s \<Longrightarrow> wp (thenM m n) Q (\<lambda>_ _. True) s"
  unfolding thenM_def by (rule wp_read_bind)

end
