(* ===== verification/Tables.thy ===== *)
theory Tables
  imports Prelude
begin

text \<open>
  Database tables as lists of rows in insertion order, with a primary key. The
  operations are those the repositories use through Prisma: \<open>findFirst\<close> by predicate,
  \<open>create\<close> (rejected when the key is taken), \<open>update\<close> and \<open>delete\<close> of the row with a key
  (an error when there is none). Locale \<open>keyed_store\<close> states the laws of a table; the
  list tables satisfy them for every key function (\<open>list_table\<close>), and theory Schema
  interprets it for each table of the program.
\<close>

section \<open>Rows\<close>

definition lookup_row :: "('r \<Rightarrow> 'k) \<Rightarrow> 'k \<Rightarrow> 'r list \<Rightarrow> 'r option" where
  "lookup_row key k rows = find (\<lambda>r. key r = k) rows"

definition insert_row :: "('r \<Rightarrow> 'k) \<Rightarrow> 'r \<Rightarrow> 'r list \<Rightarrow> 'r list option" where
  "insert_row key r rows = (if key r \<in> key ` set rows then None else Some (rows @ [r]))"

definition update_row :: "('r \<Rightarrow> 'k) \<Rightarrow> 'k \<Rightarrow> ('r \<Rightarrow> 'r) \<Rightarrow> 'r list \<Rightarrow> 'r list" where
  "update_row key k f rows = map (\<lambda>r. if key r = k then f r else r) rows"

definition delete_row :: "('r \<Rightarrow> 'k) \<Rightarrow> 'k \<Rightarrow> 'r list \<Rightarrow> 'r list" where
  "delete_row key k rows = filter (\<lambda>r. key r \<noteq> k) rows"

definition unique_rows :: "('r \<Rightarrow> 'k) \<Rightarrow> 'r list \<Rightarrow> bool" where
  "unique_rows key rows \<longleftrightarrow> distinct (map key rows)"

definition total :: "('r \<Rightarrow> int) \<Rightarrow> 'r list \<Rightarrow> int" where
  "total w rows = sum_list (map w rows)"

lemma total_Nil [simp]: "total w [] = 0"
  and total_Cons [simp]: "total w (r # rows) = w r + total w rows"
  and total_append [simp]: "total w (rows @ rows') = total w rows + total w rows'"
  by (simp_all add: total_def)

lemma total_cong: "(\<And>r. r \<in> set rows \<Longrightarrow> w r = w' r) \<Longrightarrow> total w rows = total w' rows"
  unfolding total_def by (metis map_cong)

lemma total_nonneg: "(\<And>r. r \<in> set rows \<Longrightarrow> 0 \<le> w r) \<Longrightarrow> 0 \<le> total w rows"
  by (induction rows) auto

lemma lookup_row_Nil [simp]: "lookup_row key k [] = None"
  and lookup_row_Cons [simp]:
    "lookup_row key k (r # rows) = (if key r = k then Some r else lookup_row key k rows)"
  by (simp_all add: lookup_row_def)

lemma lookup_row_key: "lookup_row key k rows = Some r \<Longrightarrow> key r = k"
  by (induction rows) (auto split: if_splits)

lemma lookup_row_mem: "lookup_row key k rows = Some r \<Longrightarrow> r \<in> set rows"
  by (induction rows) (auto split: if_splits)

lemma lookup_row_None: "lookup_row key k rows = None \<longleftrightarrow> k \<notin> key ` set rows"
  by (induction rows) auto

lemma find_SomeD: "find P rows = Some r \<Longrightarrow> P r \<and> r \<in> set rows"
  by (induction rows) (auto split: if_splits)

lemma find_NoneD: "find P rows = None \<Longrightarrow> r \<in> set rows \<Longrightarrow> \<not> P r"
  by (induction rows) (auto split: if_splits)

lemma lookup_row_unique:
  "unique_rows key rows \<Longrightarrow> r \<in> set rows \<Longrightarrow> lookup_row key (key r) rows = Some r"
  by (induction rows) (auto simp: unique_rows_def image_iff)

lemma find_and: "find P rows = Some r \<Longrightarrow> Q r \<Longrightarrow> find (\<lambda>x. P x \<and> Q x) rows = Some r"
  by (induction rows) (auto split: if_splits)

lemma find_append: "find P (xs @ ys) = (case find P xs of None \<Rightarrow> find P ys | Some x \<Rightarrow> Some x)"
  by (induction xs) auto

lemma unique_rows_eq:
  "unique_rows key rows \<Longrightarrow> a \<in> set rows \<Longrightarrow> b \<in> set rows \<Longrightarrow> key a = key b \<Longrightarrow> a = b"
  by (auto simp: unique_rows_def distinct_map dest: inj_onD)

lemma update_row_Nil [simp]: "update_row key k f [] = []"
  and update_row_Cons [simp]:
    "update_row key k f (r # rows) = (if key r = k then f r else r) # update_row key k f rows"
  by (simp_all add: update_row_def)

lemma delete_row_Nil [simp]: "delete_row key k [] = []"
  and delete_row_Cons [simp]:
    "delete_row key k (r # rows) = (if key r = k then delete_row key k rows
       else r # delete_row key k rows)"
  by (simp_all add: delete_row_def)

lemma update_row_absent: "k \<notin> key ` set rows \<Longrightarrow> update_row key k f rows = rows"
  by (induction rows) auto

lemma delete_row_absent: "k \<notin> key ` set rows \<Longrightarrow> delete_row key k rows = rows"
  by (induction rows) auto

lemma keys_update_row:
  "(\<And>r. key (f r) = key r) \<Longrightarrow> map key (update_row key k f rows) = map key rows"
  by (induction rows) auto

lemma map_update_row:
  "(\<And>r. g (f r) = g r) \<Longrightarrow> map g (update_row key k f rows) = map g rows"
  by (induction rows) auto

lemma image_update_row:
  "(\<And>r. g (f r) = g r) \<Longrightarrow> g ` set (update_row key k f rows) = g ` set rows"
  by (metis list.set_map map_update_row)

lemma set_update_row:
  "set (update_row key k f rows) = (\<lambda>r. if key r = k then f r else r) ` set rows"
  by (auto simp: update_row_def)

lemma list_all_update_row: "list_all P (update_row key k f rows) = list_all (\<lambda>r. P (if key r = k then f r else r)) rows"
  by (induction rows) auto

lemma list_all_update_rowI:
  "list_all P rows \<Longrightarrow> (\<And>r. key r = k \<Longrightarrow> r \<in> set rows \<Longrightarrow> P r \<Longrightarrow> P (f r)) \<Longrightarrow> list_all P (update_row key k f rows)"
  by (induction rows) auto

text \<open>A per-key quantity with \<open>q\<close> more at \<open>k\<close>.\<close>

definition shift :: "'k \<Rightarrow> int \<Rightarrow> ('k \<Rightarrow> int) \<Rightarrow> 'k \<Rightarrow> int" where
  "shift k q f = f(k := f k + q)"

lemma shift_0 [simp]: "shift k 0 f = f"
  and shift_shift [simp]: "shift k q (shift k r f) = shift k (q + r) f"
  by (auto simp: shift_def)

section \<open>The laws of a table\<close>

locale keyed_store =
  fixes lookup :: "'k \<Rightarrow> 't \<Rightarrow> 'r option"
    and insert :: "'r \<Rightarrow> 't \<Rightarrow> 't option"
    and update :: "'k \<Rightarrow> ('r \<Rightarrow> 'r) \<Rightarrow> 't \<Rightarrow> 't"
    and delete :: "'k \<Rightarrow> 't \<Rightarrow> 't"
    and sum :: "('r \<Rightarrow> int) \<Rightarrow> 't \<Rightarrow> int"
    and key :: "'r \<Rightarrow> 'k"
    and valid :: "'t \<Rightarrow> bool"
  assumes lookup_insert:
      "insert r t = Some t' \<Longrightarrow> lookup k t' = (if k = key r then Some r else lookup k t)"
    and insert_defined: "insert r t \<noteq> None \<longleftrightarrow> lookup (key r) t = None"
    and lookup_update: "(\<And>r. key (f r) = key r) \<Longrightarrow>
      lookup k' (update k f t) = (if k' = k then map_option f (lookup k t) else lookup k' t)"
    and lookup_delete: "lookup k' (delete k t) = (if k' = k then None else lookup k' t)"
    and valid_insert: "valid t \<Longrightarrow> insert r t = Some t' \<Longrightarrow> valid t'"
    and valid_update: "valid t \<Longrightarrow> (\<And>r. key (f r) = key r) \<Longrightarrow> valid (update k f t)"
    and valid_delete: "valid t \<Longrightarrow> valid (delete k t)"
    and sum_insert: "insert r t = Some t' \<Longrightarrow> sum w t' = sum w t + w r"
    and sum_update: "valid t \<Longrightarrow> lookup k t = Some r \<Longrightarrow> sum w (update k f t) = sum w t - w r + w (f r)"
    and sum_delete: "valid t \<Longrightarrow> lookup k t = Some r \<Longrightarrow> sum w (delete k t) = sum w t - w r"
begin

lemma insert_then_lookup: "insert r t = Some t' \<Longrightarrow> lookup (key r) t' = Some r"
  by (simp add: lookup_insert)

lemma insert_delete_sum:
  "valid t \<Longrightarrow> insert r t = Some t' \<Longrightarrow> sum w (delete (key r) t') = sum w t"
  using sum_delete [of t' "key r" r w] by (simp add: valid_insert insert_then_lookup sum_insert)

lemma update_sum_same:
  "valid t \<Longrightarrow> lookup k t = Some r \<Longrightarrow> w (f r) = w r \<Longrightarrow> sum w (update k f t) = sum w t"
  by (simp add: sum_update)

lemma update_lookup: "(\<And>r. key (f r) = key r) \<Longrightarrow> lookup k t = Some r \<Longrightarrow>
    lookup k (update k f t) = Some (f r)"
  by (simp add: lookup_update)

end

text \<open>The list tables satisfy the laws, for every key.\<close>

lemma lookup_update_row:
  "(\<And>r. key (f r) = key r) \<Longrightarrow> lookup_row key k' (update_row key k f rows) =
     (if k' = k then map_option f (lookup_row key k rows) else lookup_row key k' rows)"
  by (induction rows) auto

lemma lookup_insert_row: "insert_row key r rows = Some rows' \<Longrightarrow>
    lookup_row key k rows' = (if k = key r then Some r else lookup_row key k rows)"
proof -
  assume "insert_row key r rows = Some rows'"
  then have rows': "rows' = rows @ [r]" and fresh: "key r \<notin> key ` set rows"
    by (auto simp: insert_row_def split: if_splits)
  from fresh show ?thesis
    unfolding rows' by (induction rows) auto
qed

lemma lookup_delete_row:
  "lookup_row key k' (delete_row key k rows) = (if k' = k then None else lookup_row key k' rows)"
  by (induction rows) auto

lemma unique_insert_row:
  "unique_rows key rows \<Longrightarrow> insert_row key r rows = Some rows' \<Longrightarrow> unique_rows key rows'"
  by (auto simp: unique_rows_def insert_row_def split: if_splits)

lemma unique_update_row:
  "unique_rows key rows \<Longrightarrow> (\<And>r. key (f r) = key r) \<Longrightarrow> unique_rows key (update_row key k f rows)"
  by (simp add: unique_rows_def keys_update_row)

lemma unique_delete_row: "unique_rows key rows \<Longrightarrow> unique_rows key (delete_row key k rows)"
  by (auto simp: unique_rows_def delete_row_def distinct_map_filter)

lemma total_update_row:
  "unique_rows key rows \<Longrightarrow> lookup_row key k rows = Some r \<Longrightarrow>
    total w (update_row key k f rows) = total w rows - w r + w (f r)"
  by (induction rows) (auto simp: unique_rows_def update_row_absent split: if_splits)

lemma total_delete_row:
  "unique_rows key rows \<Longrightarrow> lookup_row key k rows = Some r \<Longrightarrow>
    total w (delete_row key k rows) = total w rows - w r"
  by (induction rows) (auto simp: unique_rows_def delete_row_absent split: if_splits)

lemma list_table:
  "keyed_store (lookup_row key) (insert_row key) (update_row key) (delete_row key) total key
     (unique_rows key)"
proof
  show "(insert_row key r t \<noteq> None) = (lookup_row key (key r) t = None)" for r t
    by (auto simp: insert_row_def lookup_row_None)
  show "insert_row key r t = Some t' \<Longrightarrow> total w t' = total w t + w r" for r t t' w
    by (auto simp: insert_row_def split: if_splits)
qed (fact lookup_insert_row lookup_update_row lookup_delete_row unique_insert_row
    unique_update_row unique_delete_row total_update_row total_delete_row | assumption)+

section \<open>Table operations on a store\<close>

text \<open>
  \<open>sel\<close> and \<open>upd\<close> select and update the table in the store; a \<open>where\<close> clause is a
  predicate on rows.
\<close>

definition find_first :: "('s \<Rightarrow> 'r list) \<Rightarrow> ('r \<Rightarrow> bool) \<Rightarrow> ('s, 'r option) M" where
  "find_first sel P = reads (\<lambda>s. find P (sel s))"

definition find_many :: "('s \<Rightarrow> 'r list) \<Rightarrow> ('r \<Rightarrow> bool) \<Rightarrow> ('s, 'r list) M" where
  "find_many sel P = reads (\<lambda>s. filter P (sel s))"

definition create_row ::
  "('s \<Rightarrow> 'r list) \<Rightarrow> (('r list \<Rightarrow> 'r list) \<Rightarrow> 's \<Rightarrow> 's) \<Rightarrow> ('r \<Rightarrow> 'k) \<Rightarrow> 'r \<Rightarrow> ('s, 'r) M" where
  "create_row sel upd key r = bindM (reads sel) (\<lambda>rows.
     case insert_row key r rows of
       None \<Rightarrow> throw (DbError (UniqueViolation ''pkey''))
     | Some rows' \<Rightarrow> thenM (modifyM (upd (\<lambda>_. rows'))) (ret r))"

definition update_by ::
  "('s \<Rightarrow> 'r list) \<Rightarrow> (('r list \<Rightarrow> 'r list) \<Rightarrow> 's \<Rightarrow> 's) \<Rightarrow> ('r \<Rightarrow> 'k) \<Rightarrow> 'k \<Rightarrow> ('r \<Rightarrow> 'r) \<Rightarrow> ('s, 'r) M"
  where
  "update_by sel upd key k f = bindM (reads sel) (\<lambda>rows.
     case lookup_row key k rows of
       None \<Rightarrow> throw (DbError RecordNotFound)
     | Some r \<Rightarrow> thenM (modifyM (upd (\<lambda>_. update_row key k f rows))) (ret (f r)))"

definition delete_by ::
  "('s \<Rightarrow> 'r list) \<Rightarrow> (('r list \<Rightarrow> 'r list) \<Rightarrow> 's \<Rightarrow> 's) \<Rightarrow> ('r \<Rightarrow> 'k) \<Rightarrow> 'k \<Rightarrow> ('s, 'r) M" where
  "delete_by sel upd key k = bindM (reads sel) (\<lambda>rows.
     case lookup_row key k rows of
       None \<Rightarrow> throw (DbError RecordNotFound)
     | Some r \<Rightarrow> thenM (modifyM (upd (\<lambda>_. delete_row key k rows))) (ret r))"

text \<open>\<open>UPDATE ... WHERE P\<close>: changes every row that satisfies \<open>P\<close>, returns how many.\<close>

definition update_where ::
  "('s \<Rightarrow> 'r list) \<Rightarrow> (('r list \<Rightarrow> 'r list) \<Rightarrow> 's \<Rightarrow> 's) \<Rightarrow> ('r \<Rightarrow> bool) \<Rightarrow> ('r \<Rightarrow> 'r) \<Rightarrow> ('s, nat) M"
  where
  "update_where sel upd P f = bindM (reads sel) (\<lambda>rows.
     thenM (modifyM (upd (\<lambda>_. map (\<lambda>r. if P r then f r else r) rows)))
       (ret (length (filter P rows))))"

lemma wp_update_where [wp_simps]:
  "wp (update_where sel upd P f) Q E s =
     Q (length (filter P (sel s))) (upd (\<lambda>_. map (\<lambda>r. if P r then f r else r) (sel s)) s)"
  by (simp add: update_where_def wp_simps)

text \<open>\<open>ORDER BY\<close>: rows that compare equal stay in insertion order.\<close>

fun insert_by :: "('a \<Rightarrow> 'a \<Rightarrow> bool) \<Rightarrow> 'a \<Rightarrow> 'a list \<Rightarrow> 'a list" where
  "insert_by le x [] = [x]"
| "insert_by le x (y # ys) = (if le x y then x # y # ys else y # insert_by le x ys)"

definition order_by :: "('a \<Rightarrow> 'a \<Rightarrow> bool) \<Rightarrow> 'a list \<Rightarrow> 'a list" where
  "order_by le xs = foldr (insert_by le) xs []"

lemma set_order_by [simp]: "set (order_by le xs) = set xs"
proof -
  have "set (insert_by le x ys) = insert x (set ys)" for x and ys :: "'a list"
    by (induction ys) auto
  then show ?thesis
    unfolding order_by_def by (induction xs) auto
qed

text \<open>With a condition on the key, at most the row with that key is changed.\<close>

lemma map_where_key:
  assumes "unique_rows key rows"
  shows "map (\<lambda>r. if key r = k \<and> C r then f r else r) rows =
     (case lookup_row key k rows of
        None \<Rightarrow> rows
      | Some r \<Rightarrow> if C r then update_row key k f rows else rows)"
  using assms
proof (induction rows)
  case Nil
  then show ?case by simp
next
  case (Cons r rows)
  then have IH: "map (\<lambda>r. if key r = k \<and> C r then f r else r) rows =
     (case lookup_row key k rows of None \<Rightarrow> rows
      | Some r \<Rightarrow> if C r then update_row key k f rows else rows)"
    and fresh: "key r \<notin> key ` set rows"
    by (auto simp: unique_rows_def)
  show ?case
  proof (cases "key r = k")
    case True
    with fresh have absent: "lookup_row key k rows = None"
      by (simp add: lookup_row_None)
    with fresh True have "update_row key k f rows = rows"
      by (intro update_row_absent) simp
    with True IH absent show ?thesis by simp
  next
    case False
    with IH show ?thesis by (simp split: option.split)
  qed
qed

lemma count_where_key:
  assumes "unique_rows key rows"
  shows "length (filter (\<lambda>r. key r = k \<and> C r) rows) =
     (case lookup_row key k rows of None \<Rightarrow> 0 | Some r \<Rightarrow> if C r then 1 else 0)"
  using assms
proof (induction rows)
  case Nil
  then show ?case by simp
next
  case (Cons r rows)
  then have IH: "length (filter (\<lambda>r. key r = k \<and> C r) rows) =
      (case lookup_row key k rows of None \<Rightarrow> 0 | Some r \<Rightarrow> if C r then 1 else 0)"
    and fresh: "key r \<notin> key ` set rows"
    by (auto simp: unique_rows_def)
  show ?case
  proof (cases "key r = k")
    case True
    with fresh have "lookup_row key k rows = None"
      by (simp add: lookup_row_None)
    with True IH show ?thesis by simp
  next
    case False
    with IH show ?thesis by simp
  qed
qed

lemma wp_find_first [wp_simps]: "wp (find_first sel P) Q E s = Q (find P (sel s)) s"
  by (simp add: find_first_def wp_simps)

lemma wp_find_many [wp_simps]: "wp (find_many sel P) Q E s = Q (filter P (sel s)) s"
  by (simp add: find_many_def wp_simps)

lemma wp_create_row [wp_simps]:
  "wp (create_row sel upd key r) Q E s =
     (if key r \<in> key ` set (sel s) then E (DbError (UniqueViolation ''pkey'')) s
      else Q r (upd (\<lambda>_. sel s @ [r]) s))"
  by (simp add: create_row_def insert_row_def wp_simps)

lemma wp_update_by [wp_simps]:
  "wp (update_by sel upd key k f) Q E s =
     (case lookup_row key k (sel s) of None \<Rightarrow> E (DbError RecordNotFound) s
      | Some r \<Rightarrow> Q (f r) (upd (\<lambda>_. update_row key k f (sel s)) s))"
  by (simp add: update_by_def wp_simps split: option.split)

lemma wp_delete_by [wp_simps]:
  "wp (delete_by sel upd key k) Q E s =
     (case lookup_row key k (sel s) of None \<Rightarrow> E (DbError RecordNotFound) s
      | Some r \<Rightarrow> Q r (upd (\<lambda>_. delete_row key k (sel s)) s))"
  by (simp add: delete_by_def wp_simps split: option.split)

text \<open>A row whose generated key no operation reads is appended.\<close>

definition add_row :: "(('r list \<Rightarrow> 'r list) \<Rightarrow> 's \<Rightarrow> 's) \<Rightarrow> 'r \<Rightarrow> ('s, 'r) M" where
  "add_row upd r = thenM (modifyM (upd (\<lambda>rows. rows @ [r]))) (ret r)"

text \<open>A unique index rejects a row when another one satisfies \<open>P\<close> (has the same columns).\<close>

definition unique_index :: "('s \<Rightarrow> 'r list) \<Rightarrow> string \<Rightarrow> ('r \<Rightarrow> bool) \<Rightarrow> ('s, unit) M" where
  "unique_index sel name P = bindM (reads sel) (\<lambda>rows.
     ensure (\<not> list_ex P rows) (DbError (UniqueViolation name)))"

lemma list_ex_key: "list_ex (\<lambda>x. f x = k) rows \<longleftrightarrow> k \<in> f ` set rows"
  by (auto simp: list_ex_iff)

lemma wp_add_row [wp_simps]: "wp (add_row upd r) Q E s = Q r (upd (\<lambda>rows. rows @ [r]) s)"
  by (simp add: add_row_def wp_simps)

lemma wp_unique_index [wp_simps]:
  "wp (unique_index sel name P) Q E s =
     (if list_ex P (sel s) then E (DbError (UniqueViolation name)) s else Q () s)"
  by (simp add: unique_index_def wp_simps)

lemma keeps_unique_index [keeps_intros]: "keeps I (unique_index sel name P)"
  by (auto simp: unique_index_def intro: keeps_intros)

lemma keeps_find_first [keeps_intros]: "keeps I (find_first sel P)"
  and keeps_find_many [keeps_intros]: "keeps I (find_many sel' P')"
  by (auto simp: keeps_def wp_simps)

text \<open>An invariant that does not look at a table is kept by every write to it.\<close>

named_theorems keeps_frame \<open>invariant preservation by writes to other tables\<close>

lemma keeps_create_row [keeps_frame]:
  "(\<And>f s. I (upd f s) = I s) \<Longrightarrow> keeps I (create_row sel upd key r)"
  and keeps_update_by [keeps_frame]:
  "(\<And>f s. I (upd f s) = I s) \<Longrightarrow> keeps I (update_by sel upd key k g)"
  and keeps_delete_by [keeps_frame]:
  "(\<And>f s. I (upd f s) = I s) \<Longrightarrow> keeps I (delete_by sel upd key k)"
  and keeps_update_where [keeps_frame]:
  "(\<And>f s. I (upd f s) = I s) \<Longrightarrow> keeps I (update_where sel upd P g)"
  and keeps_add_row [keeps_frame]:
  "(\<And>f s. I (upd f s) = I s) \<Longrightarrow> keeps I (add_row upd r)"
  by (auto simp: keeps_def wp_simps split: option.split)

end
