(* ===== verification/JsNumber.thy ===== *)
theory JsNumber
  imports Complex_Main "HOL-Library.Log_Nat"
begin

text \<open>
  JavaScript numbers and the money columns of the database.

  A \<open>number\<close> is an IEEE double. A finite double is modelled by the rational it denotes;
  every arithmetic operation is the exact operation followed by \<open>fl\<close>, rounding to the
  nearest double (53 significant bits, ties to even). The exponent range is not bounded:
  the amounts of the program are below \<open>10 ^ 10\<close> in absolute value (columns
  \<open>Decimal(12, 2)\<close>), so neither overflow nor underflow occurs. \<open>NaN\<close> and the infinities
  are excluded by the DTO validation.

  A \<open>Decimal(n, 2)\<close> column holds a whole number of hundredths, modelled by an \<open>int\<close>
  (\<open>cents\<close>); \<open>num_of_cents\<close> is \<open>Number(decimal)\<close>.

  Lemmas: the rounding error of one operation is at most \<open>2 powi (-53)\<close> of the result
  (\<open>fl_error\<close>), integers and halves below \<open>2 ^ 53\<close> are exact (\<open>fl_dyadic\<close>), and hence
  additions, subtractions and \<open>Math.round(x * 100)\<close> of cent amounts give the exact
  cent amounts (locale \<open>rounding\<close>, interpreted by \<open>fl\<close>).
\<close>

type_synonym number = rat
type_synonym cents = int

section \<open>Rounding to 53 bits\<close>

definition round_half_even :: "rat \<Rightarrow> int" where
  "round_half_even x =
     (let f = \<lfloor>x\<rfloor>; d = x - of_int f
      in if d < 1 / 2 then f else if 1 / 2 < d then f + 1 else if even f then f else f + 1)"

text \<open>\<open>expo x\<close> is the exponent \<open>e\<close> with \<open>2 ^ e \<le> x < 2 ^ (e + 1)\<close>.\<close>

definition expo :: "rat \<Rightarrow> int" where
  "expo x = (case quotient_of x of (p, q) \<Rightarrow>
     let k = bitlen p - bitlen q in if (2::rat) powi k \<le> x then k else k - 1)"

definition fl_pos :: "rat \<Rightarrow> rat" where
  "fl_pos x = (let u = 2 powi (expo x - 52) in of_int (round_half_even (x / u)) * u)"

definition fl :: "rat \<Rightarrow> number" where
  "fl x = (if x = 0 then 0 else if x < 0 then - fl_pos (- x) else fl_pos x)"

lemma round_half_even_int [simp]: "round_half_even (of_int n) = n"
  by (simp add: round_half_even_def)

lemma round_half_even_error: "\<bar>of_int (round_half_even x) - x\<bar> \<le> 1 / 2"
proof -
  have "of_int \<lfloor>x\<rfloor> \<le> x" and "x < of_int \<lfloor>x\<rfloor> + 1"
    by linarith+
  then show ?thesis
    by (auto simp: round_half_even_def Let_def abs_le_iff)
qed

lemma bitlen_powi_bounds:
  assumes "0 < p"
  shows "(2::rat) powi (bitlen p - 1) \<le> of_int p" and "of_int p < (2::rat) powi (bitlen p)"
proof -
  have b: "1 \<le> bitlen p"
    using assms by (simp add: bitlen_alt_def)
  have "2 ^ nat (bitlen p - 1) \<le> p" and "p < 2 ^ nat (bitlen p)"
    using bitlen_bounds [OF assms] by simp_all
  then have "of_int (2 ^ nat (bitlen p - 1)) \<le> (of_int p :: rat)"
    and "(of_int p :: rat) < of_int (2 ^ nat (bitlen p))"
    by (simp_all only: of_int_le_iff of_int_less_iff)
  then show "(2::rat) powi (bitlen p - 1) \<le> of_int p" and "of_int p < (2::rat) powi (bitlen p)"
    using b by (simp_all add: power_int_def)
qed

lemma expo_bounds:
  assumes "0 < x"
  shows "(2::rat) powi (expo x) \<le> x" and "x < 2 powi (expo x + 1)"
proof -
  obtain p q where pq: "quotient_of x = (p, q)"
    by (cases "quotient_of x")
  then have q: "0 < q" and x: "x = of_int p / of_int q"
    by (auto dest: quotient_of_denom_pos quotient_of_div)
  have p: "0 < p"
    using assms q by (simp add: x zero_less_divide_iff)
  let ?k = "bitlen p - bitlen q"
  have lo: "(2::rat) powi (?k - 1) \<le> x"
  proof -
    have "(2::rat) powi (?k - 1) = 2 powi (bitlen p - 1) / 2 powi (bitlen q)"
      by (simp add: power_int_diff power_int_add field_simps)
    also have "\<dots> \<le> of_int p / of_int q"
      by (rule frac_le) (use p q bitlen_powi_bounds in \<open>auto intro: less_imp_le\<close>)
    finally show ?thesis by (simp add: x)
  qed
  have hi: "x < (2::rat) powi (?k + 1)"
  proof -
    have "x < 2 powi (bitlen p) / 2 powi (bitlen q - 1)"
      unfolding x by (rule frac_less) (use p q bitlen_powi_bounds in auto)
    also have "\<dots> = 2 powi (?k + 1)"
      by (simp add: power_int_diff power_int_add algebra_simps)
    finally show ?thesis .
  qed
  show "(2::rat) powi (expo x) \<le> x" and "x < 2 powi (expo x + 1)"
    using lo hi by (auto simp: expo_def pq Let_def not_le)
qed

lemma fl_pos_error:
  assumes "0 < x"
  shows "\<bar>fl_pos x - x\<bar> \<le> x * 2 powi (- 53)"
proof -
  let ?u = "(2::rat) powi (expo x - 52)"
  have u: "0 < ?u" by simp
  have "fl_pos x - x = (of_int (round_half_even (x / ?u)) - x / ?u) * ?u"
    using u by (simp add: fl_pos_def Let_def field_simps)
  then have "\<bar>fl_pos x - x\<bar> = \<bar>of_int (round_half_even (x / ?u)) - x / ?u\<bar> * ?u"
    by (simp add: abs_mult)
  also have "\<dots> \<le> 1 / 2 * ?u"
    using u round_half_even_error by (intro mult_right_mono) auto
  also have "\<dots> = 2 powi (expo x) * 2 powi (- 53)"
    by (simp add: power_int_diff power_int_minus field_simps)
  also have "\<dots> \<le> x * 2 powi (- 53)"
    using expo_bounds [OF assms] by (intro mult_right_mono) auto
  finally show ?thesis .
qed

lemma fl_error: "\<bar>fl x - x\<bar> \<le> \<bar>x\<bar> * 2 powi (- 53)"
proof (cases x "0::rat" rule: linorder_cases)
  case less
  then have "\<bar>fl_pos (- x) - (- x)\<bar> \<le> - x * 2 powi (- 53)"
    by (intro fl_pos_error) simp
  moreover have "\<bar>- fl_pos (- x) - x\<bar> = \<bar>fl_pos (- x) - (- x)\<bar>"
    by simp
  ultimately show ?thesis
    using less by (simp only: fl_def abs_of_neg if_True if_False less_irrefl order_less_imp_not_eq)
next
  case equal
  then show ?thesis by (simp add: fl_def)
next
  case greater
  then show ?thesis
    using fl_pos_error [of x] by (simp add: fl_def)
qed

lemma fl_0 [simp]: "fl 0 = 0"
  by (simp add: fl_def)

text \<open>Values with at most 53 significant bits are kept.\<close>

lemma fl_pos_dyadic:
  assumes "0 < m" and "m < 2 ^ 53"
  shows "fl_pos (of_int m * 2 powi k) = of_int m * 2 powi k"
proof -
  let ?x = "of_int m * (2::rat) powi k"
  have x: "0 < ?x" using assms by simp
  have "of_int m < (of_int (2 ^ 53) :: rat)"
    using assms by (simp only: of_int_less_iff)
  then have "?x < 2 powi 53 * 2 powi k"
    by (intro mult_strict_right_mono) (simp_all add: power_int_def)
  also have "\<dots> = 2 powi (53 + k)"
    by (simp add: power_int_add)
  finally have "(2::rat) powi (expo ?x) < 2 powi (53 + k)"
    using expo_bounds(1) [OF x] by simp
  then have lt: "expo ?x < 53 + k"
  proof (rule contrapos_pp)
    assume "\<not> expo ?x < 53 + k"
    then have "(2::rat) powi (53 + k) \<le> 2 powi (expo ?x)"
      by (intro power_int_increasing) auto
    then show "\<not> (2::rat) powi (expo ?x) < 2 powi (53 + k)" by simp
  qed
  define n where "n = nat (k - (expo ?x - 52))"
  have n: "k - (expo ?x - 52) = int n"
    using lt by (simp add: n_def)
  have "?x / 2 powi (expo ?x - 52) = of_int m * 2 powi (k - (expo ?x - 52))"
    by (simp add: power_int_diff)
  also have "\<dots> = of_int (m * 2 ^ n)"
    by (simp add: n)
  finally have "round_half_even (?x / 2 powi (expo ?x - 52)) = m * 2 ^ n"
    by (simp only: round_half_even_int)
  moreover have "of_int (m * 2 ^ n) * (2::rat) powi (expo ?x - 52) = of_int m * 2 powi k"
  proof -
    have "(2::rat) powi k = 2 powi (int n + (expo ?x - 52))"
      by (simp add: n [symmetric])
    then show ?thesis by (simp add: power_int_add)
  qed
  ultimately show ?thesis
    by (simp add: fl_pos_def Let_def)
qed

lemma fl_dyadic:
  assumes "\<bar>m\<bar> < 2 ^ 53"
  shows "fl (of_int m * 2 powi k) = of_int m * 2 powi k"
proof (cases m "0::int" rule: linorder_cases)
  case less
  then have "fl_pos (of_int (- m) * 2 powi k) = of_int (- m) * 2 powi k"
    using assms by (intro fl_pos_dyadic) auto
  then show ?thesis
    using less by (simp add: fl_def mult_less_0_iff)
next
  case equal
  then show ?thesis by simp
next
  case greater
  then have "\<not> of_int m * (2::rat) powi k < 0"
    by (simp add: not_less)
  with greater show ?thesis
    using assms fl_pos_dyadic [of m k] by (simp add: fl_def)
qed

lemma fl_of_int: "\<bar>n\<bar> < 2 ^ 53 \<Longrightarrow> fl (of_int n) = of_int n"
  using fl_dyadic [of n 0] by simp

section \<open>Number operations of the code\<close>

definition fadd :: "number \<Rightarrow> number \<Rightarrow> number" where "fadd x y = fl (x + y)"
definition fsub :: "number \<Rightarrow> number \<Rightarrow> number" where "fsub x y = fl (x - y)"
definition fmul :: "number \<Rightarrow> number \<Rightarrow> number" where "fmul x y = fl (x * y)"
definition fdiv :: "number \<Rightarrow> number \<Rightarrow> number" where "fdiv x y = fl (x / y)"

text \<open>\<open>Math.round\<close>: the nearest integer, ties upwards.\<close>

definition math_round :: "number \<Rightarrow> int" where
  "math_round x = \<lfloor>x + 1 / 2\<rfloor>"

text \<open>\<open>Number(decimal)\<close> for a column of two decimals, and the number of an \<open>Int\<close> column.\<close>

definition num_of_cents :: "cents \<Rightarrow> number" where
  "num_of_cents c = fl (of_int c / 100)"

definition num_of_int :: "int \<Rightarrow> number" where
  "num_of_int n = fl (of_int n)"

text \<open>\<open>x\<close> is within a tenth of a cent of the amount \<open>c\<close>.\<close>

definition near :: "rat \<Rightarrow> cents \<Rightarrow> bool" where
  "near x c \<longleftrightarrow> \<bar>x * 100 - of_int c\<bar> \<le> 1 / 10"

text \<open>
  Storing a number in a \<open>Decimal(n, 2)\<close> column is done by Prisma and PostgreSQL, which are
  not part of the repository: the model takes the conversion as a parameter. Documented
  behaviour: the value is rounded to the nearest hundredth, so a number within a tenth of
  a cent of an amount is stored as that amount, and a number that is not negative is not
  stored as a negative one.
\<close>

definition rounds_to_cents :: "(number \<Rightarrow> cents) \<Rightarrow> bool" where
  "rounds_to_cents dec2 \<longleftrightarrow> (\<forall>x c. near x c \<longrightarrow> dec2 x = c) \<and> (\<forall>x. 0 \<le> x \<longrightarrow> 0 \<le> dec2 x)"

lemma rounds_to_centsD: "rounds_to_cents dec2 \<Longrightarrow> near x c \<Longrightarrow> dec2 x = c"
  and rounds_to_cents_nonneg: "rounds_to_cents dec2 \<Longrightarrow> 0 \<le> x \<Longrightarrow> 0 \<le> dec2 x"
  by (simp_all add: rounds_to_cents_def)

text \<open>A conversion with that behaviour, for the concrete runs of the witnesses.\<close>

definition nearest_cent :: "number \<Rightarrow> cents" where
  "nearest_cent x = \<lfloor>x * 100 + 1 / 2\<rfloor>"

lemma nearest_cent_rounds: "rounds_to_cents nearest_cent"
  unfolding rounds_to_cents_def nearest_cent_def near_def
proof (intro conjI allI impI)
  show "0 \<le> x \<Longrightarrow> 0 \<le> \<lfloor>x * 100 + 1 / 2\<rfloor>" for x :: rat
    by simp
next
  fix x :: rat and c :: int
  assume "\<bar>x * 100 - of_int c\<bar> \<le> 1 / 10"
  then have "of_int c \<le> x * 100 + 1 / 2" and "x * 100 + 1 / 2 < of_int c + 1"
    by linarith+
  then show "\<lfloor>x * 100 + 1 / 2\<rfloor> = c" by (simp add: floor_eq_iff)
qed

lemma math_round_near:
  assumes "\<bar>x - of_int n\<bar> < 1 / 2"
  shows "math_round x = n"
proof -
  have "of_int n \<le> x + 1 / 2" and "x + 1 / 2 < of_int n + 1"
    using assms by linarith+
  then show ?thesis by (simp add: math_round_def floor_eq_iff)
qed

lemma math_round_of_int [simp]: "math_round (of_int n) = n"
  by (rule math_round_near) simp

text \<open>Amounts that fit a \<open>Decimal(12, 2)\<close> column.\<close>

definition money :: "cents \<Rightarrow> bool" where
  "money c \<longleftrightarrow> \<bar>c\<bar> \<le> 1000000000000"

lemma money_rat: "money c \<Longrightarrow> \<bar>of_int c :: rat\<bar> \<le> 1000000000000"
proof -
  assume "money c"
  then have "\<bar>of_int c :: rat\<bar> \<le> of_int 1000000000000"
    unfolding money_def by (simp only: of_int_abs [symmetric] of_int_le_iff)
  then show ?thesis by simp
qed

section \<open>Cent amounts survive double arithmetic\<close>

text \<open>
  Any rounding with a relative error of \<open>2 powi (-53)\<close> that fixes short binary fractions
  computes exactly on cent amounts of the size of a \<open>Decimal(12, 2)\<close> column, once the
  result is rounded to cents again.
\<close>

locale rounding =
  fixes rnd :: "rat \<Rightarrow> rat"
  assumes rnd_error: "\<bar>rnd x - x\<bar> \<le> \<bar>x\<bar> * 2 powi (- 53)"
    and rnd_dyadic: "\<bar>m\<bar> < 2 ^ 53 \<Longrightarrow> rnd (of_int m * 2 powi k) = of_int m * 2 powi k"
begin

lemma rnd_0: "rnd 0 = 0"
  using rnd_error [of 0] by simp

lemma rnd_close: "\<bar>x\<bar> \<le> b \<Longrightarrow> \<bar>rnd x - x\<bar> \<le> b / 9007199254740992"
  using rnd_error [of x] by simp

lemma rnd_pos: "0 < x \<Longrightarrow> 0 < rnd x"
  using rnd_close [of x x] by linarith

lemma rnd_neg: "x < 0 \<Longrightarrow> rnd x < 0"
  using rnd_close [of x "- x"] by linarith

lemma rnd_le_0_iff: "rnd x \<le> 0 \<longleftrightarrow> x \<le> 0"
  using rnd_pos [of x] rnd_neg [of x] rnd_0 by (cases x "0::rat" rule: linorder_cases) auto

lemma rnd_nonneg: "0 \<le> x \<Longrightarrow> 0 \<le> rnd x"
  using rnd_pos [of x] rnd_0 by (cases "x = 0") auto

lemma cents_close: "money c \<Longrightarrow> \<bar>rnd (of_int c / 100) - of_int c / 100\<bar> \<le> 1 / 500000"
  using rnd_close [of "of_int c / 100" 10000000000] money_rat [of c] by simp

lemma cents_add_close:
  assumes "money a" and "\<bar>x\<bar> \<le> 10000000000" and "\<bar>x - of_int b / 100\<bar> \<le> 1 / 100000"
  shows "\<bar>rnd (rnd (of_int a / 100) + x) - of_int (a + b) / 100\<bar> \<le> 1 / 50000"
proof -
  note a = cents_close [OF assms(1)] and A = money_rat [OF assms(1)]
  have "\<bar>rnd (of_int a / 100) + x\<bar> \<le> 30000000000"
    using a A assms(2) by linarith
  from rnd_close [OF this] have "\<bar>rnd (rnd (of_int a / 100) + x) - (rnd (of_int a / 100) + x)\<bar> \<le> 1 / 200000"
    by linarith
  moreover have "of_int (a + b) / 100 = (of_int a / 100 + of_int b / 100 :: rat)"
    by (simp add: add_divide_distrib)
  ultimately show ?thesis
    using a assms(3) by linarith
qed

lemma round_times_100:
  assumes "\<bar>x - of_int c / 100\<bar> \<le> 1 / 50000" and "\<bar>x\<bar> \<le> 30000000000"
  shows "math_round (rnd (x * 100)) = c"
proof (rule math_round_near)
  have "\<bar>rnd (x * 100) - x * 100\<bar> \<le> 3000000000000 / 9007199254740992"
    by (rule rnd_close) (use assms(2) in linarith)
  then show "\<bar>rnd (x * 100) - of_int c\<bar> < 1 / 2"
    using assms(1) by linarith
qed

text \<open>\<open>Math.round((Number(a) + x) * 100)\<close> is the exact sum in cents.\<close>

lemma round_cents_add:
  assumes "money a" and "\<bar>x\<bar> \<le> 10000000000" and "\<bar>x - of_int b / 100\<bar> \<le> 1 / 100000"
  shows "math_round (rnd (rnd (rnd (of_int a / 100) + x) * 100)) = a + b"
proof (rule round_times_100)
  show close: "\<bar>rnd (rnd (of_int a / 100) + x) - of_int (a + b) / 100\<bar> \<le> 1 / 50000"
    by (rule cents_add_close [OF assms])
  have "of_int (a + b) / 100 = (of_int a / 100 + of_int b / 100 :: rat)"
    by (simp add: add_divide_distrib)
  then show "\<bar>rnd (rnd (of_int a / 100) + x)\<bar> \<le> 30000000000"
    using close money_rat [OF assms(1)] assms(2,3) by linarith
qed

text \<open>\<open>Number(a) - Number(b)\<close> has the sign of the exact difference and is near it.\<close>

lemma cents_mono:
  assumes "money a" and "money b" and "a < b"
  shows "rnd (of_int a / 100) < rnd (of_int b / 100)"
proof -
  have "of_int (a + 1) \<le> (of_int b :: rat)"
    using assms(3) by (simp only: of_int_le_iff)
  then have "of_int a + 1 \<le> (of_int b :: rat)" by simp
  then show ?thesis
    using cents_close [OF assms(1)] cents_close [OF assms(2)] by linarith
qed

lemma cents_less_iff:
  "money a \<Longrightarrow> money b \<Longrightarrow> rnd (of_int a / 100) < rnd (of_int b / 100) \<longleftrightarrow> a < b"
  using cents_mono [of a b] cents_mono [of b a] by (cases a b rule: linorder_cases) auto

lemma sub_cents_le_0_iff:
  "money a \<Longrightarrow> money b \<Longrightarrow> rnd (rnd (of_int a / 100) - rnd (of_int b / 100)) \<le> 0 \<longleftrightarrow> a \<le> b"
  using cents_less_iff [of b a] by (auto simp: rnd_le_0_iff not_less)

lemma sub_cents_close:
  assumes "money a" and "money b"
  shows "\<bar>rnd (rnd (of_int a / 100) - rnd (of_int b / 100)) - (of_int a / 100 - of_int b / 100)\<bar>
    \<le> 1 / 100000"
proof -
  note close = cents_close [OF assms(1)] cents_close [OF assms(2)]
    and bound = money_rat [OF assms(1)] money_rat [OF assms(2)]
  have "\<bar>rnd (of_int a / 100) - rnd (of_int b / 100)\<bar> \<le> 30000000000"
    using close bound by linarith
  from rnd_close [OF this] show ?thesis
    using close by linarith
qed

lemma sub_cents_near:
  "money a \<Longrightarrow> money b \<Longrightarrow> near (rnd (rnd (of_int a / 100) - rnd (of_int b / 100))) (a - b)"
  using sub_cents_close [of a b] unfolding near_def of_int_diff by linarith

text \<open>\<open>max(0, Number(a) - Number(b)) - Number(c)\<close>, for \<open>a\<close> not below \<open>b\<close>.\<close>

lemma sub_sub_near:
  assumes "money a" and "money b" and "money c" and "b \<le> a"
  shows "near (rnd (max 0 (rnd (rnd (of_int a / 100) - rnd (of_int b / 100))) - rnd (of_int c / 100)))
    (a - b - c)"
proof -
  let ?x = "rnd (rnd (of_int a / 100) - rnd (of_int b / 100))"
  have diff: "0 \<le> (of_int a / 100 - of_int b / 100 :: rat)"
    using assms(4) by (simp add: divide_right_mono)
  have max: "\<bar>max 0 ?x - (of_int a / 100 - of_int b / 100)\<bar> \<le> 1 / 100000"
    using sub_cents_close [OF assms(1,2)] diff by linarith
  note c = cents_close [OF assms(3)]
  have "\<bar>max 0 ?x - rnd (of_int c / 100)\<bar> \<le> 50000000000"
    using max c money_rat [OF assms(1)] money_rat [OF assms(2)] money_rat [OF assms(3)] by linarith
  from rnd_close [OF this]
  have "\<bar>rnd (max 0 ?x - rnd (of_int c / 100)) - (max 0 ?x - rnd (of_int c / 100))\<bar> \<le> 1 / 100000"
    by linarith
  then show ?thesis
    using max c unfolding near_def of_int_diff by linarith
qed

lemma sub_max_near:
  assumes "money a" and "money b" and "b \<le> a"
  shows "near (max 0 (rnd (rnd (of_int a / 100) - rnd (of_int b / 100)))) (a - b)"
proof -
  have "0 \<le> (of_int a / 100 - of_int b / 100 :: rat)"
    using assms(3) by (simp add: divide_right_mono)
  then show ?thesis
    using sub_cents_close [OF assms(1,2)] unfolding near_def of_int_diff by linarith
qed

lemma near_cents: "money a \<Longrightarrow> near (rnd (of_int a / 100)) a"
  using cents_close [of a] unfolding near_def by linarith

end

interpretation double: rounding fl
  by unfold_locales (fact fl_error, fact fl_dyadic)

end
