(* ===== verification/Schema.thy ===== *)
theory Schema
  imports Tables JsNumber
begin

text \<open>
  The data of the program (\<open>prisma/schema.prisma\<close>): enums as datatypes, models as
  records, the database as a record of tables, and what every request reads from outside
  (\<open>ctx\<close>). Columns no modelled operation reads or writes (creation timestamps, contact
  data of other modules) are left out. A nullable column is an \<open>option\<close>; a money column
  \<open>Decimal(n, 2)\<close> is an \<open>int\<close> of hundredths; an instant is an \<open>int\<close> of milliseconds; a
  \<open>@db.Date\<close> column is the number of the day.

  Non-ASCII letters of messages are written in ASCII.
\<close>

section \<open>Strings\<close>

type_synonym uuid = string

definition is_space :: "char \<Rightarrow> bool" where
  "is_space c \<longleftrightarrow> c \<in> {CHR '' '', CHR 0x09, CHR 0x0A, CHR 0x0B, CHR 0x0C, CHR 0x0D}"

text \<open>\<open>String.prototype.trim\<close> on ASCII text.\<close>

definition js_trim :: "string \<Rightarrow> string" where
  "js_trim s = rev (dropWhile is_space (rev (dropWhile is_space s)))"

text \<open>\<open>s.split(c)\<close>.\<close>

fun split_on :: "char \<Rightarrow> string \<Rightarrow> string list" where
  "split_on c [] = [[]]"
| "split_on c (x # xs) = (if x = c then [] # split_on c xs
     else (case split_on c xs of [] \<Rightarrow> [[x]] | p # ps \<Rightarrow> (x # p) # ps))"

lemma split_on_none: "c \<notin> set xs \<Longrightarrow> split_on c xs = [xs]"
  by (induction xs) auto

lemma split_on_one: "c \<notin> set xs \<Longrightarrow> split_on c (xs @ c # ys) = xs # split_on c ys"
  by (induction xs) auto

lemma split_on_first: "c \<notin> set xs \<Longrightarrow> hd (split_on c (xs @ c # ys)) = xs"
  by (simp add: split_on_one)

text \<open>JavaScript truthiness of an optional string: \<open>undefined\<close>, \<open>null\<close> and \<open>''\<close> are falsy.\<close>

definition truthy :: "string option \<Rightarrow> bool" where
  "truthy x \<longleftrightarrow> (case x of None \<Rightarrow> False | Some s \<Rightarrow> s \<noteq> [])"

text \<open>\<open>x || null\<close> of an optional string.\<close>

definition or_null :: "string option \<Rightarrow> string option" where
  "or_null x = (if truthy x then x else None)"

definition or_else :: "string option \<Rightarrow> string \<Rightarrow> string" where
  "or_else x d = (case x of None \<Rightarrow> d | Some s \<Rightarrow> if s = [] then d else s)"

lemma or_null_simps [simp]: "or_null None = None" "or_null (Some []) = None"
    "s \<noteq> [] \<Longrightarrow> or_null (Some s) = Some s"
  by (simp_all add: or_null_def truthy_def)

lemma or_null_Some [simp]: "or_null x = Some s \<longleftrightarrow> x = Some s \<and> s \<noteq> []"
  by (auto simp: or_null_def truthy_def split: option.splits)

fun nat_str :: "nat \<Rightarrow> string" where
  "nat_str n = (if n < 10 then [char_of (48 + n)] else nat_str (n div 10) @ [char_of (48 + n mod 10)])"

declare nat_str.simps [simp del]

definition int_str :: "int \<Rightarrow> string" where
  "int_str i = (if i < 0 then ''-'' @ nat_str (nat (- i)) else nat_str (nat i))"

definition pad_start :: "nat \<Rightarrow> string \<Rightarrow> string" where
  "pad_start n s = replicate (n - length s) (CHR ''0'') @ s"

definition digits_value :: "string \<Rightarrow> nat" where
  "digits_value s = foldl (\<lambda>a c. 10 * a + (of_char c - 48)) 0 s"

lemma digits_value_snoc:
  "digits_value (s @ [char_of (48 + d)]) = 10 * digits_value s + d" if "d < 10"
  using that by (simp add: digits_value_def)

lemma digits_value_nat_str: "digits_value (nat_str n) = n"
proof (induction n rule: nat_str.induct)
  case (1 n)
  show ?case
  proof (cases "n < 10")
    case True
    then show ?thesis
      using digits_value_snoc [of n "[]"] by (simp add: nat_str.simps [of n] digits_value_def)
  next
    case False
    with 1 show ?thesis
      using digits_value_snoc [of "n mod 10" "nat_str (n div 10)"] by (simp add: nat_str.simps [of n])
  qed
qed

lemma nat_str_inj [simp]: "nat_str i = nat_str j \<longleftrightarrow> i = j"
  by (metis digits_value_nat_str)

definition decimal_digit :: "char \<Rightarrow> bool" where
  "decimal_digit c \<longleftrightarrow> 48 \<le> (of_char c :: nat) \<and> (of_char c :: nat) \<le> 57"

lemma nat_str_digits: "list_all decimal_digit (nat_str n)"
proof (induction n rule: nat_str.induct)
  case (1 n)
  have "decimal_digit (char_of (48 + d))" if "d < 10" for d :: nat
    using that by (simp add: decimal_digit_def)
  with 1 show ?case
    by (cases "n < 10") (simp_all add: nat_str.simps [of n])
qed

lemma digits_value_zeros: "digits_value (replicate k (CHR ''0'') @ s) = digits_value s"
proof -
  have "foldl (\<lambda>a c. 10 * a + (of_char c - 48)) 0 (replicate k (CHR ''0'')) = (0::nat)"
    by (induction k) simp_all
  then show ?thesis by (simp add: digits_value_def)
qed

lemma pad_start_inj: "pad_start k (nat_str m) = pad_start k (nat_str n) \<Longrightarrow> m = n"
  by (metis digits_value_nat_str digits_value_zeros pad_start_def)

section \<open>Enums\<close>

datatype WorkOrderStatus = QUEUE | IN_PROGRESS | COMPLETED | CANCELLED
datatype WorkOrderItemType = SERVICE | PART
datatype WorkOrderPhotoType = CHECKIN | DAMAGE | PHOTO_COMPLETED
datatype AppointmentStatus =
  A_PENDING | A_CONFIRMED | A_IN_SERVICE | A_COMPLETED | A_CANCELLED | A_NO_SHOW
datatype StockMovementType = IN_PURCHASE | OUT_WORK_ORDER | ADJUSTMENT | RETURN
datatype InvoiceStatus = UNPAID | PARTIALLY_PAID | PAID | I_CANCELLED
datatype PaymentMethod = ADVANCE_OFFSET | CASH | POS | BANK_TRANSFER | ONLINE
datatype CariReferenceType = CARI_INVOICE | CARI_PAYMENT | MANUAL_COLLECTION
datatype LeaveStatus = L_APPROVED | L_PENDING | L_CANCELLED
datatype LeaveType = ANNUAL | SICK | COMPASSIONATE | UNPAID_LEAVE | OTHER_LEAVE
datatype UserRole =
  SUPER_ADMIN | OWNER | SERVICE_MANAGER | TECHNICIAN | CASHIER | WAREHOUSE_KEEPER
datatype CustomerType = INDIVIDUAL | CORPORATE
datatype FuelType = GASOLINE | DIESEL | LPG | HYBRID | ELECTRIC
datatype TransmissionType = TM_MANUAL | TM_AUTOMATIC | TM_SEMI_AUTOMATIC
datatype DocType = DOC_WORK_ORDER | DOC_INVOICE
datatype InvoiceProviderType = INTERNAL | PARASUT | NILVERA | BIZIMHESAP | KOLAYBI | QNB_EFINANS

section \<open>Models\<close>

record tenant =
  t_id :: uuid
  t_slug :: string
  t_title :: string
  t_phone :: string
  t_email :: string
  t_isActive :: bool
  t_autoInvoiceOnComplete :: bool
  t_activeLiftCount :: int
  t_onboardingCompleted :: bool
  t_b2bConsentAccepted :: bool
  t_b2bConsentAcceptedAt :: "int option"
  t_logoUrl :: "string option"

record user =
  u_id :: uuid
  u_tenantId :: "uuid option"
  u_branchId :: "uuid option"
  u_name :: string
  u_surname :: string
  u_phone :: string
  u_email :: "string option"
  u_passwordHash :: "string option"
  u_role :: UserRole
  u_isActive :: bool
  u_annualLeaveDays :: int
  u_transferredLeaveDays :: int

record refresh_token =
  rt_id :: uuid
  rt_userId :: uuid
  rt_tokenHash :: string
  rt_familyId :: uuid
  rt_isRevoked :: bool
  rt_expiresAt :: int

record customer =
  c_id :: uuid
  c_tenantId :: uuid
  c_type :: CustomerType
  c_firstName :: string
  c_lastName :: string
  c_companyTitle :: "string option"
  c_phone :: string
  c_email :: "string option"
  c_taxNumber :: "string option"
  c_taxOffice :: "string option"
  c_address :: "string option"
  c_city :: "string option"
  c_district :: "string option"
  c_creditLimit :: cents
  c_notes :: "string option"
  c_isAnonymized :: bool
  c_isLead :: bool
  c_deletedAt :: "int option"

record vehicle =
  v_id :: uuid
  v_tenantId :: uuid
  v_customerId :: uuid
  v_plate :: string
  v_brand :: string
  v_model :: string
  v_year :: int
  v_vin :: "string option"
  v_engineNo :: "string option"
  v_color :: "string option"
  v_fuelType :: FuelType
  v_transmission :: TransmissionType
  v_currentKm :: int
  v_deletedAt :: "int option"

record customer_consent =
  cc_id :: uuid
  cc_tenantId :: uuid
  cc_customerId :: uuid
  cc_consentType :: string
  cc_isGranted :: bool
  cc_grantedAt :: int
  cc_revokedAt :: "int option"
  cc_channel :: string
  cc_policyVersion :: string
  cc_verificationToken :: "string option"
  cc_expiresAt :: "int option"

text \<open>An audit row the customers module writes, with the personal data in its changes.\<close>

record audit_row =
  al_id :: uuid
  al_tenantId :: uuid
  al_action :: string
  al_entityName :: string
  al_entityId :: uuid
  al_before :: "string list"
  al_after :: "string list"

record redaction_log =
  rl_redactedCustomerId :: uuid
  rl_authorizedByUserId :: uuid
  rl_legalRequestRef :: string
  rl_affectedAuditLogIds :: "uuid list"
  rl_previousHash :: string
  rl_currentHash :: string

record mechanic =
  m_id :: uuid
  m_tenantId :: uuid
  m_userId :: uuid
  m_specialty :: string
  m_assignedLift :: "string option"
  m_dailyCapacityHours :: int

record staff_leave =
  l_id :: uuid
  l_tenantId :: uuid
  l_userId :: uuid
  l_leaveType :: LeaveType
  l_startDate :: int
  l_endDate :: int
  l_totalDays :: int          \<comment> \<open>tenths of a day, \<open>Decimal(4, 1)\<close>\<close>
  l_reason :: "string option"
  l_status :: LeaveStatus
  l_approvedById :: "uuid option"

record workshop_bay =
  b_id :: uuid
  b_tenantId :: uuid
  b_name :: string
  b_code :: "string option"
  b_category :: string
  b_isActive :: bool
  b_isAvailableForOnline :: bool
  b_orderIndex :: int

record service =
  sv_id :: uuid
  sv_tenantId :: uuid
  sv_name :: string
  sv_code :: string
  sv_category :: string
  sv_defaultDurationMin :: int
  sv_basePrice :: cents
  sv_kdvRate :: cents
  sv_isActive :: bool

record branch =
  br_id :: uuid
  br_tenantId :: uuid
  br_code :: string

record tenant_consent =
  tc_id :: uuid
  tc_tenantId :: uuid
  tc_signedByUserId :: uuid
  tc_verifiedVia :: string
  tc_payloadHash :: string
  tc_saasTermsAccepted :: bool
  tc_dataProcessingAccepted :: bool
  tc_marketingAccepted :: bool
  tc_signedAt :: int

record appointment =
  a_id :: uuid
  a_tenantId :: uuid
  a_customerId :: uuid
  a_vehicleId :: uuid
  a_serviceId :: "uuid option"
  a_assignedMechanicId :: "uuid option"
  a_assignedLift :: "string option"
  a_slotDate :: int
  a_slotStartTime :: int
  a_slotEndTime :: int
  a_status :: AppointmentStatus
  a_customerNotes :: "string option"
  a_cancellationReason :: "string option"

record work_order =
  wo_id :: uuid
  wo_tenantId :: uuid
  wo_workOrderNumber :: string
  wo_appointmentId :: "uuid option"
  wo_customerId :: uuid
  wo_vehicleId :: uuid
  wo_assignedMechanicId :: "uuid option"
  wo_assignedLift :: "string option"
  wo_status :: WorkOrderStatus
  wo_initialKm :: int
  wo_subtotal :: cents
  wo_kdvAmount :: cents
  wo_grandTotal :: cents
  wo_completedAt :: "int option"
  wo_updatedAt :: int
  wo_lastNotifiedAt :: "int option"
  wo_customerRating :: "int option"
  wo_customerComment :: "string option"
  wo_customerRatedAt :: "int option"

record work_order_item =
  woi_id :: uuid
  woi_workOrderId :: uuid
  woi_itemType :: WorkOrderItemType
  woi_itemId :: "uuid option"
  woi_name :: string
  woi_quantity :: int
  woi_unitPrice :: cents
  woi_kdvRate :: cents
  woi_totalPrice :: cents

record work_order_note =
  n_id :: uuid
  n_workOrderId :: uuid
  n_authorId :: "uuid option"
  n_authorName :: string
  n_text :: string
  n_isInternal :: bool

record work_order_photo =
  ph_id :: uuid
  ph_workOrderId :: uuid
  ph_url :: string
  ph_caption :: string
  ph_photoType :: WorkOrderPhotoType
  ph_uploadedBy :: string

record product =
  p_id :: uuid
  p_tenantId :: uuid
  p_name :: string
  p_oemCode :: string
  p_barcode :: "string option"
  p_category :: string
  p_brand :: string
  p_stockQuantity :: int
  p_minStockLevel :: int
  p_shelfLocation :: string
  p_purchasePrice :: cents
  p_salePrice :: cents
  p_kdvRate :: cents
  p_deletedAt :: "int option"
  p_shelfId :: "uuid option"
  p_shelfCellId :: "uuid option"
  p_aisle :: "string option"
  p_rack :: "string option"
  p_tier :: "string option"
  p_bin :: "string option"

record stock_movement =
  sm_tenantId :: uuid
  sm_productId :: uuid
  sm_movementType :: StockMovementType
  sm_quantity :: int
  sm_referenceId :: "string option"
  sm_note :: string
  sm_createdBy :: string

record warehouse_shelf =
  sh_id :: uuid
  sh_tenantId :: uuid
  sh_name :: string
  sh_code :: string
  sh_zone :: "string option"
  sh_rows :: nat
  sh_columns :: nat

record shelf_cell =
  sc_id :: uuid
  sc_shelfId :: uuid
  sc_cellCode :: string
  sc_rowNumber :: nat
  sc_colNumber :: nat

record invoice =
  i_id :: uuid
  i_tenantId :: uuid
  i_workOrderId :: "uuid option"
  i_customerId :: uuid
  i_invoiceNumber :: string
  i_issueDate :: int
  i_dueDate :: int
  i_subtotal :: cents
  i_kdvAmount :: cents
  i_grandTotal :: cents
  i_paidAmount :: cents
  i_remainingAmount :: cents
  i_status :: InvoiceStatus
  i_eInvoiceUuid :: "string option"
  i_eInvoiceStatus :: "string option"
  i_gibInvoiceNumber :: "string option"

record invoice_item =
  ii_invoiceId :: uuid
  ii_itemType :: WorkOrderItemType
  ii_name :: string
  ii_quantity :: int
  ii_unitPrice :: cents
  ii_kdvRate :: cents
  ii_totalPrice :: cents

record payment =
  pay_id :: uuid
  pay_tenantId :: uuid
  pay_invoiceId :: "uuid option"
  pay_customerId :: uuid
  pay_amount :: cents
  pay_paymentMethod :: PaymentMethod
  pay_paymentDate :: int
  pay_cashierName :: string
  pay_posSlipNo :: "string option"
  pay_notes :: "string option"
  pay_gatewayProvider :: "string option"
  pay_transactionId :: "string option"

record payment_attempt =
  pa_id :: string
  pa_tenantId :: uuid
  pa_invoiceId :: uuid
  pa_amount :: cents
  pa_status :: string

record current_account =
  ca_id :: uuid
  ca_tenantId :: uuid
  ca_customerId :: uuid
  ca_totalDebits :: cents
  ca_totalCredits :: cents
  ca_balance :: cents
  ca_creditLimit :: cents
  ca_isBlocked :: bool

record cari_movement =
  cm_tenantId :: uuid
  cm_currentAccountId :: uuid
  cm_description :: string
  cm_referenceType :: CariReferenceType
  cm_referenceNo :: "string option"
  cm_debit :: cents
  cm_credit :: cents
  cm_balanceAfter :: cents

record document_sequence =
  ds_tenantId :: uuid
  ds_docType :: DocType
  ds_year :: nat
  ds_lastNumber :: nat

record tenant_invoice_setting =
  ts_tenantId :: uuid
  ts_provider :: InvoiceProviderType
  ts_encryptedApiKey :: "string option"
  ts_encryptedApiSecret :: "string option"
  ts_encryptedUsername :: "string option"
  ts_encryptedPassword :: "string option"
  ts_companyTaxId :: "string option"
  ts_taxOffice :: "string option"
  ts_seriesPrefix :: "string option"
  ts_isTestMode :: bool
  ts_autoSendOnCompletion :: bool

datatype NotificationType = N_INFO | N_SUCCESS | N_WARNING | N_ERROR | N_CRITICAL

record notification =
  nt_id :: uuid
  nt_tenantId :: "uuid option"
  nt_userId :: "uuid option"
  nt_type :: NotificationType
  nt_category :: string
  nt_title :: string
  nt_message :: string
  nt_link :: "string option"
  nt_isRead :: bool
  nt_readAt :: "int option"

datatype NotificationStrategy = FALLBACK | BROADCAST | SINGLE

datatype NotificationChannel = CH_WHATSAPP | CH_EMAIL | CH_SMS

record notification_setting =
  ns_tenantId :: uuid
  ns_strategy :: NotificationStrategy
  ns_channelPriority :: "NotificationChannel list"
  ns_singleChannel :: "NotificationChannel option"
  ns_whatsappEnabled :: bool
  ns_emailEnabled :: bool
  ns_smsEnabled :: bool
  ns_whatsappDeviceId :: "string option"

section \<open>Effects outside the database\<close>

text \<open>
  What the services send out, in order: WebSocket events (\<open>EventsGateway\<close>), audit log rows
  (\<open>AuditService.log\<close>, which never throws), notifications
  (\<open>NotificationsService.createNotification\<close>, which never throws) and delayed reminder
  jobs. The bodies of the messages are not modelled, only their kind and key.
\<close>

datatype effect =
    WsEmit uuid string string        \<comment> \<open>tenant, event, entity\<close>
  | AuditLog uuid string string string \<comment> \<open>tenant, action, entity name, entity\<close>
  | Notify uuid string string        \<comment> \<open>tenant, category, title\<close>
  | Reminder uuid int                \<comment> \<open>appointment, delay\<close>
  | SendSms string string            \<comment> \<open>number, code\<close>
  | SendEmail string uuid            \<comment> \<open>address, tenant\<close>
  | QueueJob string string nat       \<comment> \<open>job, recipient, delay in milliseconds\<close>
  | WsUser uuid string string        \<comment> \<open>user, event, key\<close>
  | WsStaff uuid "uuid option" "UserRole list" string \<comment> \<open>tenant, user left out, roles, event\<close>
  | WsAdmin string                   \<comment> \<open>event\<close>
  | StorePut string                  \<comment> \<open>object key\<close>
  | StoreDelete string               \<comment> \<open>object key\<close>

section \<open>The database\<close>

record db =
  tenants :: "tenant list"
  users :: "user list"
  refresh_tokens :: "refresh_token list"
  customers :: "customer list"
  vehicles :: "vehicle list"
  customer_consents :: "customer_consent list"
  customer_audits :: "audit_row list"
  redaction_logs :: "redaction_log list"
  mechanics :: "mechanic list"
  staff_leaves :: "staff_leave list"
  workshop_bays :: "workshop_bay list"
  services :: "service list"
  branches :: "branch list"
  tenant_consents :: "tenant_consent list"
  appointments :: "appointment list"
  work_orders :: "work_order list"
  work_order_items :: "work_order_item list"
  work_order_notes :: "work_order_note list"
  work_order_photos :: "work_order_photo list"
  products :: "product list"
  stock_movements :: "stock_movement list"
  warehouse_shelves :: "warehouse_shelf list"
  shelf_cells :: "shelf_cell list"
  invoices :: "invoice list"
  invoice_items :: "invoice_item list"
  payments :: "payment list"
  payment_attempts :: "payment_attempt list"
  current_accounts :: "current_account list"
  cari_movements :: "cari_movement list"
  document_sequences :: "document_sequence list"
  invoice_settings :: "tenant_invoice_setting list"
  notifications :: "notification list"
  notification_settings :: "notification_setting list"
  redis :: "string \<Rightarrow> (string \<times> int) option"
  id_supply :: nat
  outbox :: "effect list"

type_synonym 'a dbM = "(db, 'a) M"

definition empty_db :: db where
  "empty_db = \<lparr>tenants = [], users = [], refresh_tokens = [], customers = [], vehicles = [],
     customer_consents = [], customer_audits = [], redaction_logs = [], mechanics = [], staff_leaves = [],
     workshop_bays = [], services = [], branches = [], tenant_consents = [], appointments = [],
     work_orders = [], work_order_items = [], work_order_notes = [], work_order_photos = [],
     products = [], stock_movements = [], warehouse_shelves = [], shelf_cells = [], invoices = [],
     invoice_items = [], payments = [], payment_attempts = [], current_accounts = [],
     cari_movements = [], document_sequences = [], invoice_settings = [], notifications = [],
     notification_settings = [], redis = Map.empty,
     id_supply = 0, outbox = []\<rparr>"

text \<open>
  What a request reads from outside the repository: the clock, the conversion of a number
  to a \<open>Decimal(n, 2)\<close> column (in cents) and a \<open>Decimal(n, 1)\<close> column (in tenths) and the supply of random identifiers.
\<close>

record ctx =
  now :: int
  year :: nat
  dec2 :: "number \<Rightarrow> cents"
  dec1 :: "number \<Rightarrow> int"
  gen_id :: "nat \<Rightarrow> uuid"

definition fresh_id :: "ctx \<Rightarrow> uuid dbM" where
  "fresh_id cx = bindM (reads id_supply) (\<lambda>n.
     thenM (modifyM (id_supply_update (\<lambda>_. Suc n))) (ret (gen_id cx n)))"

definition emit :: "effect \<Rightarrow> unit dbM" where
  "emit e = modifyM (outbox_update (\<lambda>es. es @ [e]))"

lemma wp_fresh_id [wp_simps]:
  "wp (fresh_id cx) Q E s = Q (gen_id cx (id_supply s)) (s\<lparr>id_supply := Suc (id_supply s)\<rparr>)"
  by (simp add: fresh_id_def wp_simps)

lemma wp_emit [wp_simps]: "wp (emit e) Q E s = Q () (outbox_update (\<lambda>es. es @ [e]) s)"
  by (simp add: emit_def wp_simps)

section \<open>The tables satisfy the laws of a keyed store\<close>

interpretation product_rows: keyed_store "lookup_row p_id" "insert_row p_id" "update_row p_id"
    "delete_row p_id" total p_id "unique_rows p_id"
  by (rule list_table)

interpretation order_rows: keyed_store "lookup_row wo_id" "insert_row wo_id" "update_row wo_id"
    "delete_row wo_id" total wo_id "unique_rows wo_id"
  by (rule list_table)

interpretation item_rows: keyed_store "lookup_row woi_id" "insert_row woi_id" "update_row woi_id"
    "delete_row woi_id" total woi_id "unique_rows woi_id"
  by (rule list_table)

interpretation invoice_rows: keyed_store "lookup_row i_id" "insert_row i_id" "update_row i_id"
    "delete_row i_id" total i_id "unique_rows i_id"
  by (rule list_table)

interpretation account_rows: keyed_store "lookup_row ca_id" "insert_row ca_id" "update_row ca_id"
    "delete_row ca_id" total ca_id "unique_rows ca_id"
  by (rule list_table)

interpretation payment_rows: keyed_store "lookup_row pay_id" "insert_row pay_id"
    "update_row pay_id" "delete_row pay_id" total pay_id "unique_rows pay_id"
  by (rule list_table)

interpretation appointment_rows: keyed_store "lookup_row a_id" "insert_row a_id" "update_row a_id"
    "delete_row a_id" total a_id "unique_rows a_id"
  by (rule list_table)

end
