(* ===== verification/WorkOrderDomain.thy ===== *)
theory WorkOrderDomain
  imports Schema
begin

text \<open>
  \<open>modules/work-orders/domain\<close>: the status value object (\<open>WorkOrderStatusVO\<close>) and the
  aggregate (\<open>WorkOrderEntity\<close>) with its item guard, status transitions and totals. The
  life cycle is also given as a step relation, so that facts about whole histories are
  proved by rule induction.
\<close>

section \<open>WorkOrderStatusVO\<close>

fun status_name :: "WorkOrderStatus \<Rightarrow> string" where
  "status_name QUEUE = ''QUEUE''"
| "status_name IN_PROGRESS = ''IN_PROGRESS''"
| "status_name COMPLETED = ''COMPLETED''"
| "status_name CANCELLED = ''CANCELLED''"

text \<open>The constructor: \<open>PENDING\<close> is an alias of \<open>QUEUE\<close>, other strings are rejected.\<close>

definition status_vo :: "string \<Rightarrow> exn + WorkOrderStatus" where
  "status_vo status =
     (let normalized = (if status = ''PENDING'' then status_name QUEUE else status) in
      case find (\<lambda>v. status_name v = normalized) [QUEUE, IN_PROGRESS, COMPLETED, CANCELLED] of
        None \<Rightarrow> Inl (DomainError ''Gecersiz is emri durumu'')
      | Some v \<Rightarrow> Inr v)"

definition isCompleted :: "WorkOrderStatus \<Rightarrow> bool" where
  "isCompleted v \<longleftrightarrow> v = COMPLETED"

definition isCancelled :: "WorkOrderStatus \<Rightarrow> bool" where
  "isCancelled v \<longleftrightarrow> v = CANCELLED"

definition isQueue :: "WorkOrderStatus \<Rightarrow> bool" where
  "isQueue v \<longleftrightarrow> v = QUEUE"

definition isInProgress :: "WorkOrderStatus \<Rightarrow> bool" where
  "isInProgress v \<longleftrightarrow> v = IN_PROGRESS"

definition canTransitionTo :: "WorkOrderStatus \<Rightarrow> WorkOrderStatus \<Rightarrow> bool" where
  "canTransitionTo v nxt =
     (if v = nxt then True
      else if isCompleted v \<or> isCancelled v then False
      else if isQueue v then nxt = IN_PROGRESS \<or> nxt = CANCELLED
      else if isInProgress v then nxt = COMPLETED \<or> nxt = CANCELLED \<or> nxt = QUEUE
      else False)"

definition getPreviousStatus :: "WorkOrderStatus \<Rightarrow> exn + WorkOrderStatus" where
  "getPreviousStatus v =
     (if isCompleted v then Inr IN_PROGRESS
      else if isInProgress v then Inr QUEUE
      else Inl (DomainError ''Kuyruktaki bir is emri daha geri alinamaz.''))"

lemmas status_defs = isCompleted_def isCancelled_def isQueue_def isInProgress_def
  canTransitionTo_def getPreviousStatus_def

lemma status_vo_name [simp]: "status_vo (status_name v) = Inr v"
  by (cases v) (simp_all add: status_vo_def)

lemma status_vo_ok:
  "status_vo str = Inr v \<longleftrightarrow> str = status_name v \<or> (str = ''PENDING'' \<and> v = QUEUE)"
  by (cases v) (auto simp: status_vo_def Let_def split: if_splits)

section \<open>WorkOrderEntity\<close>

record entity_item =
  ei_unitPrice :: number
  ei_quantity :: number
  ei_kdvRate :: number

record order_entity =
  e_status :: WorkOrderStatus
  e_completedAt :: "int option"
  e_subtotal :: number
  e_kdvAmount :: number
  e_grandTotal :: number
  e_items :: "entity_item list"

definition canModifyItems :: "order_entity \<Rightarrow> bool" where
  "canModifyItems e \<longleftrightarrow> \<not> isCompleted (e_status e) \<and> \<not> isCancelled (e_status e)"

definition assertCanModifyItems :: "order_entity \<Rightarrow> exn + unit" where
  "assertCanModifyItems e =
     (if canModifyItems e then Inr () else Inl (DomainError ''WorkOrderClosedError''))"

definition transitionStatus :: "ctx \<Rightarrow> WorkOrderStatus \<Rightarrow> order_entity \<Rightarrow> exn + order_entity" where
  "transitionStatus cx nxt e =
     (if \<not> canTransitionTo (e_status e) nxt then Inl (DomainError ''InvalidStatusTransitionError'')
      else Inr (e\<lparr>e_status := nxt,
             e_completedAt := (if nxt = COMPLETED then Some (now cx) else None)\<rparr>))"

definition rollbackStatus :: "order_entity \<Rightarrow> exn + order_entity" where
  "rollbackStatus e =
     (case getPreviousStatus (e_status e) of
        Inl x \<Rightarrow> Inl x
      | Inr prev \<Rightarrow> Inr (e\<lparr>e_status := prev, e_completedAt := None\<rparr>))"

text \<open>\<open>x || d\<close> on numbers: 0 is falsy.\<close>

definition or_num :: "number \<Rightarrow> number \<Rightarrow> number" where
  "or_num x d = (if x = 0 then d else x)"

fun entity_sums :: "entity_item list \<Rightarrow> number \<Rightarrow> number \<Rightarrow> number \<times> number" where
  "entity_sums [] subtotal kdvAmount = (subtotal, kdvAmount)"
| "entity_sums (item # items) subtotal kdvAmount =
     (let lineBase = fmul (ei_unitPrice item) (ei_quantity item);
          lineKdv = fdiv (fmul lineBase (or_num (ei_kdvRate item) 20)) 100
      in entity_sums items (fadd subtotal lineBase) (fadd kdvAmount lineKdv))"

definition round_cents :: "number \<Rightarrow> number" where
  "round_cents x = fdiv (of_int (math_round (fmul x 100))) 100"

definition recalculateTotals :: "order_entity \<Rightarrow> order_entity" where
  "recalculateTotals e =
     (let (subtotal, kdvAmount) = entity_sums (e_items e) 0 0 in
      e\<lparr>e_subtotal := round_cents subtotal,
        e_kdvAmount := round_cents kdvAmount,
        e_grandTotal := round_cents (fadd subtotal kdvAmount)\<rparr>)"

lemma round_cents_num_of_cents: "round_cents x = num_of_cents (math_round (fmul x 100))"
  by (simp add: round_cents_def fdiv_def num_of_cents_def)

section \<open>The life cycle of an order\<close>

text \<open>
  What the statuses of an order may do, written down without the code: work on a queued order
  is started, work in progress is finished or put back into the queue, and an order that is not
  finished is cancelled (\<open>advance\<close>); a rollback reopens a finished order, or puts one in
  progress back into the queue (\<open>undo\<close>). The tables of the code are proved to be these.
\<close>

inductive advance :: "WorkOrderStatus \<Rightarrow> WorkOrderStatus \<Rightarrow> bool" where
  start: "advance QUEUE IN_PROGRESS"
| finish: "advance IN_PROGRESS COMPLETED"
| requeue: "advance IN_PROGRESS QUEUE"
| cancel_queued: "advance QUEUE CANCELLED"
| cancel_running: "advance IN_PROGRESS CANCELLED"

inductive undo :: "WorkOrderStatus \<Rightarrow> WorkOrderStatus \<Rightarrow> bool" where
  reopen: "undo COMPLETED IN_PROGRESS"
| unstart: "undo IN_PROGRESS QUEUE"

inductive_simps advance_iff: "advance v w"
inductive_simps undo_iff: "undo v w"

lemma transitions_advance: "canTransitionTo v w \<longleftrightarrow> v = w \<or> advance v w"
  by (cases v; cases w) (simp_all add: status_defs advance_iff)

lemma previous_undo: "getPreviousStatus v = Inr w \<longleftrightarrow> undo v w"
  by (cases v; cases w) (simp_all add: status_defs undo_iff)

inductive status_history :: "WorkOrderStatus \<Rightarrow> WorkOrderStatus \<Rightarrow> bool" where
  here: "status_history v v"
| forward: "status_history u v \<Longrightarrow> advance v w \<Longrightarrow> status_history u w"
| rollback: "status_history u v \<Longrightarrow> undo v w \<Longrightarrow> status_history u w"

lemma cancelled_stays: "status_history v w \<Longrightarrow> v = CANCELLED \<Longrightarrow> w = CANCELLED"
  by (induction rule: status_history.induct) (auto simp: advance_iff undo_iff)

lemma open_reaches_all: "v \<noteq> CANCELLED \<Longrightarrow> status_history v w"
proof -
  assume v: "v \<noteq> CANCELLED"
  have step: "status_history v IN_PROGRESS"
    using v by (cases v) (auto intro: here forward [OF here start] rollback [OF here reopen])
  show ?thesis
    by (cases w) (auto intro: step forward [OF step requeue] forward [OF step finish]
      forward [OF step cancel_running])
qed

end
