(* ===== verification/WorkOrderRepo.thy ===== *)
theory WorkOrderRepo
  imports WorkOrderDomain
begin

text \<open>
  \<open>modules/work-orders/infrastructure/persistence/prisma-work-order.repository.ts\<close>: the
  repository of work orders, their items, notes and photos, with the stock deductions and
  returns it makes in the same transaction. Quantities are integers (the columns are
  \<open>Int\<close>, so the database rejects a fraction); an identifier is absent or a well-formed
  UUID.\<close>

section \<open>Table access\<close>

abbreviation update_order :: "ctx \<Rightarrow> uuid \<Rightarrow> (work_order \<Rightarrow> work_order) \<Rightarrow> work_order dbM" where
  "update_order cx k f \<equiv> update_by work_orders work_orders_update wo_id k
     (\<lambda>w. (f w)\<lparr>wo_updatedAt := now cx\<rparr>)"

abbreviation update_product :: "uuid \<Rightarrow> (product \<Rightarrow> product) \<Rightarrow> product dbM" where
  "update_product k f \<equiv> update_by products products_update p_id k f"

abbreviation add_movement :: "stock_movement \<Rightarrow> stock_movement dbM" where
  "add_movement r \<equiv> add_row stock_movements_update r"

definition findById_WorkOrder :: "uuid \<Rightarrow> uuid \<Rightarrow> work_order option dbM" where
  "findById_WorkOrder tenantId ident =
     find_first work_orders (\<lambda>w. wo_id w = ident \<and> wo_tenantId w = tenantId)"

section \<open>Document numbers\<close>

text \<open>
  \<open>documentSequence.upsert\<close>: the counter of (tenant, document type, year), created at 1,
  incremented otherwise.
\<close>

definition is_sequence :: "uuid \<Rightarrow> DocType \<Rightarrow> nat \<Rightarrow> document_sequence \<Rightarrow> bool" where
  "is_sequence tenantId docType yr d \<longleftrightarrow>
     ds_tenantId d = tenantId \<and> ds_docType d = docType \<and> ds_year d = yr"

definition next_sequence :: "uuid \<Rightarrow> DocType \<Rightarrow> nat \<Rightarrow> nat dbM" where
  "next_sequence tenantId docType yr =
     bindM (find_first document_sequences (is_sequence tenantId docType yr)) (\<lambda>found.
       case found of
         None \<Rightarrow> thenM (add_row document_sequences_update
             \<lparr>ds_tenantId = tenantId, ds_docType = docType, ds_year = yr, ds_lastNumber = 1\<rparr>) (ret 1)
       | Some d \<Rightarrow> thenM (update_where document_sequences document_sequences_update
             (is_sequence tenantId docType yr) (\<lambda>d. d\<lparr>ds_lastNumber := ds_lastNumber d + 1\<rparr>))
           (ret (ds_lastNumber d + 1)))"

definition work_order_number :: "nat \<Rightarrow> nat \<Rightarrow> string" where
  "work_order_number yr n = ''WO-'' @ nat_str yr @ ''-'' @ pad_start 5 (nat_str n)"

definition getNextWorkOrderNumber :: "ctx \<Rightarrow> uuid \<Rightarrow> string dbM" where
  "getNextWorkOrderNumber cx tenantId =
     bindM (next_sequence tenantId DOC_WORK_ORDER (year cx)) (\<lambda>n.
       ret (work_order_number (year cx) n))"

section \<open>Stock movements of an order\<close>

text \<open>The raw \<open>UPDATE products ... WHERE stock_quantity >= q\<close>; its count is 0 or not.\<close>

definition take_stock :: "uuid \<Rightarrow> uuid \<Rightarrow> int \<Rightarrow> nat dbM" where
  "take_stock tenantId pid q =
     update_where products products_update
       (\<lambda>p. p_id p = pid \<and> p_tenantId p = tenantId \<and> q \<le> p_stockQuantity p)
       (\<lambda>p. p\<lparr>p_stockQuantity := p_stockQuantity p - q\<rparr>)"

definition find_product :: "uuid \<Rightarrow> uuid \<Rightarrow> product option dbM" where
  "find_product tenantId pid =
     find_first products (\<lambda>p. p_id p = pid \<and> p_tenantId p = tenantId)"

definition movement ::
  "uuid \<Rightarrow> uuid \<Rightarrow> StockMovementType \<Rightarrow> int \<Rightarrow> uuid \<Rightarrow> string \<Rightarrow> string \<Rightarrow> stock_movement" where
  "movement tenantId pid kind q ref note author =
     \<lparr>sm_tenantId = tenantId, sm_productId = pid, sm_movementType = kind, sm_quantity = q,
      sm_referenceId = Some ref, sm_note = note, sm_createdBy = author\<rparr>"

text \<open>
  The block \<open>create\<close> and \<open>addItem\<close> share: deduct the part, or tell a missing product from
  missing stock, then record the consumption.
\<close>

definition consume_part ::
  "uuid \<Rightarrow> uuid \<Rightarrow> int \<Rightarrow> string \<Rightarrow> uuid \<Rightarrow> string \<Rightarrow> unit dbM" where
  "consume_part tenantId pid q number orderId author =
     bindM (take_stock tenantId pid q) (\<lambda>updatedCount.
       thenM (whenM (updatedCount = 0)
         (bindM (find_product tenantId pid) (\<lambda>p.
            case p of
              None \<Rightarrow> throw (NotFoundException ''Belirtilen yedek parca depoda bulunamadi.'')
            | Some product \<Rightarrow> throw (BadRequestException
                (''Yetersiz stok! '' @ p_name product @ '' icin mevcut stok ('' @
                 int_str (p_stockQuantity product) @ '') talep edilen miktari ('' @ int_str q @
                 '') karsilamiyor.'')))))
       (thenM (add_movement (movement tenantId pid OUT_WORK_ORDER q orderId
           (''Is Emri Sarfiyati: '' @ number) author))
        (ret ())))"

text \<open>The update of a return names the part only by its key, without the workshop.\<close>

definition give_back ::
  "uuid \<Rightarrow> uuid \<Rightarrow> int \<Rightarrow> string \<Rightarrow> uuid \<Rightarrow> string \<Rightarrow> unit dbM" where
  "give_back tenantId pid q note orderId author =
     thenM (update_product pid (\<lambda>p. p\<lparr>p_stockQuantity := p_stockQuantity p + q\<rparr>))
     (thenM (add_movement (movement tenantId pid RETURN q orderId note author)) (ret ()))"

section \<open>Order totals\<close>

text \<open>The loop at the end of \<open>addItem\<close>, \<open>updateItem\<close> and \<open>removeItem\<close>.\<close>

fun item_sums :: "work_order_item list \<Rightarrow> number \<Rightarrow> number \<Rightarrow> number \<times> number" where
  "item_sums [] newSubtotal newKdvTotal = (newSubtotal, newKdvTotal)"
| "item_sums (it # its) newSubtotal newKdvTotal =
     (let itemBase = fmul (num_of_cents (woi_unitPrice it)) (num_of_int (woi_quantity it));
          itemKdv = fdiv (fmul itemBase (num_of_cents (woi_kdvRate it))) 100
      in item_sums its (fadd newSubtotal itemBase) (fadd newKdvTotal itemKdv))"

definition with_totals :: "ctx \<Rightarrow> work_order_item list \<Rightarrow> work_order \<Rightarrow> work_order" where
  "with_totals cx its w =
     (let (newSubtotal, newKdvTotal) = item_sums its 0 0;
          newGrandTotal = fadd newSubtotal newKdvTotal
      in w\<lparr>wo_subtotal := dec2 cx newSubtotal, wo_kdvAmount := dec2 cx newKdvTotal,
           wo_grandTotal := dec2 cx newGrandTotal\<rparr>)"

definition recalculate :: "ctx \<Rightarrow> uuid \<Rightarrow> work_order dbM" where
  "recalculate cx orderId =
     bindM (find_many work_order_items (\<lambda>it. woi_workOrderId it = orderId)) (\<lambda>allItems.
       update_order cx orderId (with_totals cx allItems))"

section \<open>create\<close>

record item_data =
  id_itemType :: WorkOrderItemType
  id_itemId :: "uuid option"
  id_name :: string
  id_quantity :: int
  id_unitPrice :: number
  id_kdvRate :: "number option"
  id_totalPrice :: number

record order_data =
  od_workOrderNumber :: string
  od_appointmentId :: "uuid option"
  od_customerId :: uuid
  od_vehicleId :: uuid
  od_assignedMechanicId :: "uuid option"
  od_assignedLift :: "string option"
  od_initialKm :: int
  od_subtotal :: number
  od_kdvAmount :: number
  od_grandTotal :: number
  od_status :: WorkOrderStatus
  od_author :: "string option"
  od_items :: "item_data list"

text \<open>The number of the day of an instant, as Prisma compares it with a \<open>@db.Date\<close> column.\<close>

definition day_of :: "int \<Rightarrow> int" where
  "day_of t = t div 86400000"

definition check_customer_vehicle :: "uuid \<Rightarrow> order_data \<Rightarrow> vehicle dbM" where
  "check_customer_vehicle tenantId dat =
     bindM (find_first customers (\<lambda>c. c_id c = od_customerId dat \<and> c_tenantId c = tenantId \<and>
         c_deletedAt c = None)) (\<lambda>customer.
     thenM (ensure (customer \<noteq> None) (BadRequestException
         ''Secilen musteri bulunamadi veya bu isletmeye ait degil.''))
     (bindM (find_first vehicles (\<lambda>v. v_id v = od_vehicleId dat \<and> v_tenantId v = tenantId \<and>
         v_deletedAt v = None)) (\<lambda>found.
     bindM (require (BadRequestException
         ''Secilen arac bulunamadi veya bu isletmeye ait degil.'') found) (\<lambda>vehicle.
     thenM (ensure (v_customerId vehicle = od_customerId dat) (BadRequestException
         ''Secilen arac ile musteri eslesmiyor.''))
     (ret vehicle)))))"

definition check_mechanic :: "ctx \<Rightarrow> uuid \<Rightarrow> uuid \<Rightarrow> unit dbM" where
  "check_mechanic cx tenantId mechanicId =
     bindM (find_first mechanics (\<lambda>m. m_id m = mechanicId \<and> m_tenantId m = tenantId)) (\<lambda>found.
     bindM (require (BadRequestException
         ''Secilen teknisyen bulunamadi veya bu isletmeye ait degil.'') found) (\<lambda>mechanic.
     bindM (find_first users (\<lambda>u. u_id u = m_userId mechanic)) (\<lambda>account.
     thenM (ensure (\<not> (case account of None \<Rightarrow> False | Some u \<Rightarrow> \<not> u_isActive u)) (BadRequestException
         ''Secilen personel pasif durumdadir, is emrine atanamaz.''))
     (bindM (find_first staff_leaves (\<lambda>l. l_tenantId l = tenantId \<and>
         l_userId l = m_userId mechanic \<and> l_status l \<noteq> L_CANCELLED \<and>
         l_startDate l \<le> day_of (now cx) \<and> day_of (now cx) \<le> l_endDate l)) (\<lambda>activeLeave.
     ensure (activeLeave = None) (BadRequestException
         ''Secilen teknisyen su anda izinli/raporlu oldugu icin is emrine atanamaz.''))))))"

text \<open>
  The exclusion constraints of the appointments
  (\<open>prisma/migrations/20260915090000_payment_attempts_and_rls\<close>): two appointments of a tenant
  that are neither cancelled nor missed and have the same mechanic, or the same lift, must
  not overlap. PostgreSQL rejects a range whose bounds are in the wrong order, and an
  empty range overlaps nothing.
\<close>

definition booked :: "appointment \<Rightarrow> bool" where
  "booked a \<longleftrightarrow> a_status a \<noteq> A_CANCELLED \<and> a_status a \<noteq> A_NO_SHOW"

definition ranges_overlap :: "appointment \<Rightarrow> appointment \<Rightarrow> bool" where
  "ranges_overlap a b \<longleftrightarrow> a_slotStartTime a < a_slotEndTime a \<and> a_slotStartTime b < a_slotEndTime b \<and>
     a_slotStartTime a < a_slotEndTime b \<and> a_slotStartTime b < a_slotEndTime a"

definition clash :: "(appointment \<Rightarrow> 'k option) \<Rightarrow> appointment \<Rightarrow> appointment \<Rightarrow> bool" where
  "clash sel a b \<longleftrightarrow> a_tenantId a = a_tenantId b \<and> booked a \<and> booked b \<and> sel a \<noteq> None \<and>
     sel a = sel b \<and> ranges_overlap a b"

definition exclude_on :: "(appointment \<Rightarrow> 'k option) \<Rightarrow> string \<Rightarrow> appointment \<Rightarrow> unit dbM" where
  "exclude_on sel name a = bindM (reads appointments) (\<lambda>rows.
     thenM (ensure (\<not> (booked a \<and> sel a \<noteq> None \<and> a_slotEndTime a < a_slotStartTime a)) (DbError RangeBoundsError))
     (ensure (\<not> list_ex (\<lambda>b. a_id b \<noteq> a_id a \<and> clash sel a b) rows) (DbError (ExclusionViolation name))))"

definition exclusion :: "appointment \<Rightarrow> unit dbM" where
  "exclusion a = thenM (exclude_on a_assignedMechanicId ''no_overlapping_mechanic'' a)
     (exclude_on a_assignedLift ''no_overlapping_lift'' a)"

definition update_appointment :: "uuid \<Rightarrow> (appointment \<Rightarrow> appointment) \<Rightarrow> appointment dbM" where
  "update_appointment k f = bindM (reads appointments) (\<lambda>rows.
     bindM (require (DbError RecordNotFound) (lookup_row a_id k rows)) (\<lambda>a.
     thenM (exclusion (f a)) (update_by appointments appointments_update a_id k f)))"

definition take_appointment :: "uuid \<Rightarrow> uuid \<Rightarrow> unit dbM" where
  "take_appointment tenantId appointmentId =
     bindM (find_first appointments (\<lambda>a. a_id a = appointmentId \<and> a_tenantId a = tenantId))
       (\<lambda>appt.
     thenM (ensure (appt \<noteq> None) (BadRequestException
         ''Secilen randevu bulunamadi veya bu isletmeye ait degil.''))
     (thenM (update_appointment appointmentId (\<lambda>a. a\<lparr>a_status := A_IN_SERVICE\<rparr>))
      (ret ())))"

text \<open>The insert with the unique indexes of the table.\<close>

definition insert_order :: "work_order \<Rightarrow> work_order dbM" where
  "insert_order w =
     thenM (unique_index work_orders ''work_orders_tenant_id_work_order_number_key''
       (\<lambda>x. wo_tenantId x = wo_tenantId w \<and> wo_workOrderNumber x = wo_workOrderNumber w))
     (thenM (unique_index work_orders ''work_orders_appointment_id_key''
       (\<lambda>x. wo_appointmentId w \<noteq> None \<and> wo_appointmentId x = wo_appointmentId w))
     (create_row work_orders work_orders_update wo_id w))"

definition new_order :: "ctx \<Rightarrow> uuid \<Rightarrow> uuid \<Rightarrow> order_data \<Rightarrow> work_order" where
  "new_order cx ident tenantId dat =
     \<lparr>wo_id = ident, wo_tenantId = tenantId, wo_workOrderNumber = od_workOrderNumber dat,
      wo_appointmentId = od_appointmentId dat, wo_customerId = od_customerId dat,
      wo_vehicleId = od_vehicleId dat, wo_assignedMechanicId = od_assignedMechanicId dat,
      wo_assignedLift = od_assignedLift dat, wo_status = od_status dat,
      wo_initialKm = od_initialKm dat, wo_subtotal = dec2 cx (od_subtotal dat),
      wo_kdvAmount = dec2 cx (od_kdvAmount dat), wo_grandTotal = dec2 cx (od_grandTotal dat),
      wo_completedAt = None, wo_updatedAt = now cx, wo_lastNotifiedAt = None,
      wo_customerRating = None, wo_customerComment = None, wo_customerRatedAt = None\<rparr>"

definition insert_item ::
  "ctx \<Rightarrow> uuid \<Rightarrow> item_data \<Rightarrow> number \<Rightarrow> work_order_item dbM" where
  "insert_item cx orderId item kdvRate =
     bindM (fresh_id cx) (\<lambda>ident.
       create_row work_order_items work_order_items_update woi_id
         \<lparr>woi_id = ident, woi_workOrderId = orderId, woi_itemType = id_itemType item,
          woi_itemId = or_null (id_itemId item), woi_name = id_name item,
          woi_quantity = id_quantity item, woi_unitPrice = dec2 cx (id_unitPrice item),
          woi_kdvRate = dec2 cx kdvRate, woi_totalPrice = dec2 cx (id_totalPrice item)\<rparr>)"

text \<open>\<open>item.itemType === 'PART' && item.itemId\<close>\<close>

definition part_of :: "item_data \<Rightarrow> uuid option" where
  "part_of item = (if id_itemType item = PART then or_null (id_itemId item) else None)"

definition insert_line :: "ctx \<Rightarrow> uuid \<Rightarrow> string \<Rightarrow> uuid \<Rightarrow> string \<Rightarrow> item_data \<Rightarrow> unit dbM" where
  "insert_line cx tenantId number orderId author item =
     thenM (case part_of item of
         None \<Rightarrow> ret ()
       | Some pid \<Rightarrow> consume_part tenantId pid (id_quantity item) number orderId author)
     (thenM (insert_item cx orderId item
        (case id_kdvRate item of None \<Rightarrow> 20 | Some r \<Rightarrow> or_num r 20))
      (ret ()))"

definition create_WorkOrder :: "ctx \<Rightarrow> uuid \<Rightarrow> order_data \<Rightarrow> work_order dbM" where
  "create_WorkOrder cx tenantId dat = transaction
     (bindM (check_customer_vehicle tenantId dat) (\<lambda>vehicle.
      thenM (case or_null (od_assignedMechanicId dat) of
          None \<Rightarrow> ret () | Some m \<Rightarrow> check_mechanic cx tenantId m)
      (thenM (case or_null (od_appointmentId dat) of
          None \<Rightarrow> ret () | Some a \<Rightarrow> take_appointment tenantId a)
      (bindM (fresh_id cx) (\<lambda>ident.
      bindM (insert_order (new_order cx ident tenantId dat)) (\<lambda>workOrder.
      thenM (whenM (od_initialKm dat > 0 \<and> od_initialKm dat > v_currentKm vehicle)
          (thenM (update_by vehicles vehicles_update v_id (od_vehicleId dat)
             (\<lambda>v. v\<lparr>v_currentKm := od_initialKm dat\<rparr>)) (ret ())))
      (thenM (for_each (od_items dat)
          (insert_line cx tenantId (od_workOrderNumber dat) (wo_id workOrder)
             (or_else (od_author dat) ''SYSTEM'')))
      (bindM (find_first work_orders (\<lambda>w. wo_id w = wo_id workOrder)) (\<lambda>found.
         require (DbError RecordNotFound) found)))))))))"

section \<open>Status\<close>

text \<open>The outer \<open>None\<close> of \<open>completedAt\<close> is \<open>undefined\<close>: the column is left as it is.\<close>

definition updateStatus_WorkOrder ::
  "ctx \<Rightarrow> uuid \<Rightarrow> uuid \<Rightarrow> WorkOrderStatus \<Rightarrow> int option option \<Rightarrow> work_order dbM" where
  "updateStatus_WorkOrder cx tenantId ident status completedAt =
     bindM (findById_WorkOrder tenantId ident) (\<lambda>existing.
     thenM (ensure (existing \<noteq> None) (NotFoundException
         ''Is emri bulunamadi veya bu isletmeye ait degil.''))
     (update_order cx ident (\<lambda>w. w\<lparr>wo_status := status,
         wo_completedAt := (case completedAt of None \<Rightarrow> wo_completedAt w | Some c \<Rightarrow> c)\<rparr>)))"

definition rollbackStatus_WorkOrder ::
  "ctx \<Rightarrow> uuid \<Rightarrow> uuid \<Rightarrow> WorkOrderStatus \<Rightarrow> work_order dbM" where
  "rollbackStatus_WorkOrder cx tenantId ident prevStatus =
     bindM (findById_WorkOrder tenantId ident) (\<lambda>existing.
     thenM (ensure (existing \<noteq> None) (NotFoundException
         ''Is emri bulunamadi veya bu isletmeye ait degil.''))
     (update_order cx ident (\<lambda>w. w\<lparr>wo_status := prevStatus, wo_completedAt := None\<rparr>)))"

section \<open>Items\<close>

definition addItem :: "ctx \<Rightarrow> uuid \<Rightarrow> uuid \<Rightarrow> item_data \<Rightarrow> number \<Rightarrow> string \<Rightarrow> work_order dbM" where
  "addItem cx tenantId workOrderId item kdvRate author = transaction
     (bindM (findById_WorkOrder tenantId workOrderId) (\<lambda>found.
      bindM (require (NotFoundException ''Is emri bulunamadi.'') found) (\<lambda>wo.
      thenM (case part_of item of
          None \<Rightarrow> ret ()
        | Some pid \<Rightarrow> consume_part tenantId pid (id_quantity item) (wo_workOrderNumber wo)
            (wo_id wo) author)
      (thenM (insert_item cx (wo_id wo) item kdvRate)
      (recalculate cx (wo_id wo))))))"

record item_update =
  iu_name :: "string option"
  iu_unitPrice :: "number option"
  iu_quantity :: "int option"

text \<open>\<open>item.itemType === PART && item.itemId\<close> of a stored item.\<close>

definition stock_part :: "work_order_item \<Rightarrow> uuid option" where
  "stock_part item = (if woi_itemType item = PART then or_null (woi_itemId item) else None)"

definition find_item :: "uuid \<Rightarrow> uuid \<Rightarrow> work_order_item option dbM" where
  "find_item workOrderId itemId =
     find_first work_order_items (\<lambda>it. woi_id it = itemId \<and> woi_workOrderId it = workOrderId)"

text \<open>The stock side of a changed quantity (\<open>diff\<close> is not 0).\<close>

definition change_part :: "uuid \<Rightarrow> uuid \<Rightarrow> int \<Rightarrow> work_order \<Rightarrow> string \<Rightarrow> unit dbM" where
  "change_part tenantId pid diff wo author =
     (if diff > 0 then
        bindM (take_stock tenantId pid diff) (\<lambda>updatedCount.
        thenM (whenM (updatedCount = 0)
          (bindM (find_product tenantId pid) (\<lambda>p. throw (BadRequestException
             (''Yetersiz stok! '' @
              (case p of None \<Rightarrow> ''Urun'' | Some x \<Rightarrow> or_else (Some (p_name x)) ''Urun'') @
              '' icin mevcut stok ('' @
              int_str (case p of None \<Rightarrow> 0 | Some x \<Rightarrow> p_stockQuantity x) @
              '') eklenen '' @ int_str diff @ '' adedi karsilamiyor.'')))))
        (thenM (add_movement (movement tenantId pid OUT_WORK_ORDER diff (wo_id wo)
            (''Is Emri Sarfiyat Artisi (+'' @ int_str diff @ ''): '' @ wo_workOrderNumber wo) author))
         (ret ())))
      else give_back tenantId pid \<bar>diff\<bar>
        (''Is Emri Sarfiyat Azaltimi (-'' @ int_str \<bar>diff\<bar> @ ''): '' @ wo_workOrderNumber wo)
        (wo_id wo) author)"

definition line_total :: "number \<Rightarrow> int \<Rightarrow> number \<Rightarrow> number" where
  "line_total newUnitPrice newQuantity itemKdvRate =
     (let baseItemPrice = fmul newUnitPrice (num_of_int newQuantity);
          itemKdvAmount = fdiv (fmul baseItemPrice itemKdvRate) 100
      in fadd baseItemPrice itemKdvAmount)"

definition changed_item :: "ctx \<Rightarrow> item_update \<Rightarrow> int \<Rightarrow> work_order_item \<Rightarrow> work_order_item" where
  "changed_item cx dat newQuantity item =
     (let newUnitPrice = (case iu_unitPrice dat of
            None \<Rightarrow> num_of_cents (woi_unitPrice item) | Some u \<Rightarrow> u)
      in item\<lparr>woi_name := (case iu_name dat of None \<Rightarrow> woi_name item | Some n \<Rightarrow> js_trim n),
              woi_unitPrice := dec2 cx newUnitPrice,
              woi_quantity := newQuantity,
              woi_totalPrice := dec2 cx
                (line_total newUnitPrice newQuantity (num_of_cents (woi_kdvRate item)))\<rparr>)"

definition updateItem ::
  "ctx \<Rightarrow> uuid \<Rightarrow> uuid \<Rightarrow> uuid \<Rightarrow> item_update \<Rightarrow> string \<Rightarrow> work_order dbM" where
  "updateItem cx tenantId workOrderId itemId dat author = transaction
     (bindM (findById_WorkOrder tenantId workOrderId) (\<lambda>found.
      bindM (require (NotFoundException ''Is emri bulunamadi.'') found) (\<lambda>wo.
      bindM (find_item workOrderId itemId) (\<lambda>foundItem.
      bindM (require (NotFoundException ''Is emri kalemi bulunamadi.'') foundItem) (\<lambda>item.
      thenM (ensure (case iu_quantity dat of None \<Rightarrow> True | Some q \<Rightarrow> q > 0)
          (BadRequestException ''Kalem adedi en az 1 olmalidir.''))
      (let newQuantity = (case iu_quantity dat of None \<Rightarrow> woi_quantity item | Some q \<Rightarrow> q);
           diff = newQuantity - woi_quantity item
       in thenM (if diff = 0 then ret () else
             (case stock_part item of
                None \<Rightarrow> ret () | Some pid \<Rightarrow> change_part tenantId pid diff wo author))
          (thenM (update_by work_order_items work_order_items_update woi_id itemId
             (changed_item cx dat newQuantity))
          (recalculate cx (wo_id wo)))))))))"

definition updateItemQuantity ::
  "ctx \<Rightarrow> uuid \<Rightarrow> uuid \<Rightarrow> uuid \<Rightarrow> int \<Rightarrow> string \<Rightarrow> work_order dbM" where
  "updateItemQuantity cx tenantId workOrderId itemId quantity author =
     updateItem cx tenantId workOrderId itemId
       \<lparr>iu_name = None, iu_unitPrice = None, iu_quantity = Some quantity\<rparr> author"

definition removeItem :: "ctx \<Rightarrow> uuid \<Rightarrow> uuid \<Rightarrow> uuid \<Rightarrow> string \<Rightarrow> work_order dbM" where
  "removeItem cx tenantId workOrderId itemId author = transaction
     (bindM (findById_WorkOrder tenantId workOrderId) (\<lambda>found.
      bindM (require (NotFoundException ''Is emri bulunamadi.'') found) (\<lambda>wo.
      bindM (find_item workOrderId itemId) (\<lambda>foundItem.
      bindM (require (NotFoundException ''Is emri kalemi bulunamadi.'') foundItem) (\<lambda>item.
      thenM (case stock_part item of
          None \<Rightarrow> ret ()
        | Some pid \<Rightarrow> give_back tenantId pid (woi_quantity item)
            (''Is Emrinden Iade: '' @ wo_workOrderNumber wo) (wo_id wo) author)
      (thenM (delete_by work_order_items work_order_items_update woi_id itemId)
      (recalculate cx (wo_id wo))))))))"

section \<open>Returning the parts of a cancelled order\<close>

definition return_line :: "uuid \<Rightarrow> uuid \<Rightarrow> string \<Rightarrow> string \<Rightarrow> work_order_item \<Rightarrow> unit dbM" where
  "return_line tenantId workOrderId number author item =
     (case stock_part item of
        None \<Rightarrow> ret ()
      | Some pid \<Rightarrow> give_back tenantId pid (woi_quantity item)
          (''Is emri iptali nedeniyle stok iadesi (#'' @ number @ '')'') workOrderId author)"

definition restoreCancelledStock :: "uuid \<Rightarrow> uuid \<Rightarrow> string option \<Rightarrow> unit dbM" where
  "restoreCancelledStock tenantId workOrderId userId =
     bindM (findById_WorkOrder tenantId workOrderId) (\<lambda>found.
       case found of
         None \<Rightarrow> ret ()
       | Some wo \<Rightarrow>
           bindM (find_many work_order_items (\<lambda>it. woi_workOrderId it = wo_id wo)) (\<lambda>items.
             transaction (for_each items
               (return_line tenantId workOrderId (wo_workOrderNumber wo) (or_else userId ''SYSTEM'')))))"

section \<open>Notes, photos, feedback and lookups\<close>

definition addPhoto ::
  "ctx \<Rightarrow> uuid \<Rightarrow> string \<Rightarrow> string \<Rightarrow> WorkOrderPhotoType \<Rightarrow> string \<Rightarrow> work_order_photo dbM" where
  "addPhoto cx ident url caption photoType uploadedBy =
     bindM (find_first work_orders (\<lambda>w. wo_id w = ident)) (\<lambda>wo.
     thenM (ensure (wo \<noteq> None) (DbError (ForeignKeyViolation ''work_order_photos_work_order_id_fkey'')))
     (bindM (fresh_id cx) (\<lambda>photoId.
      create_row work_order_photos work_order_photos_update ph_id
       \<lparr>ph_id = photoId, ph_workOrderId = ident, ph_url = url, ph_caption = caption, ph_photoType = photoType,
        ph_uploadedBy = uploadedBy\<rparr>)))"

definition addNote ::
  "ctx \<Rightarrow> uuid \<Rightarrow> uuid \<Rightarrow> uuid option \<Rightarrow> string \<Rightarrow> string \<Rightarrow> bool \<Rightarrow> work_order_note dbM" where
  "addNote cx tenantId workOrderId authorId authorName txt isInternal =
     bindM (findById_WorkOrder tenantId workOrderId) (\<lambda>wo.
     thenM (ensure (wo \<noteq> None) (NotFoundException ''Is emri bulunamadi.''))
     (bindM (fresh_id cx) (\<lambda>ident.
       create_row work_order_notes work_order_notes_update n_id
         \<lparr>n_id = ident, n_workOrderId = workOrderId, n_authorId = authorId,
          n_authorName = authorName, n_text = txt, n_isInternal = isInternal\<rparr>)))"

text \<open>The relation filter \<open>workOrder: { tenantId }\<close>.\<close>

definition findNoteById :: "uuid \<Rightarrow> uuid \<Rightarrow> work_order_note option dbM" where
  "findNoteById tenantId noteId =
     bindM (reads work_orders) (\<lambda>orders.
       find_first work_order_notes (\<lambda>n. n_id n = noteId \<and>
         list_ex (\<lambda>w. wo_id w = n_workOrderId n \<and> wo_tenantId w = tenantId) orders))"

definition updateNote :: "uuid \<Rightarrow> uuid \<Rightarrow> uuid \<Rightarrow> string \<Rightarrow> work_order_note dbM" where
  "updateNote tenantId workOrderId noteId txt =
     bindM (findNoteById tenantId noteId) (\<lambda>note.
     thenM (ensure (case note of None \<Rightarrow> False | Some n \<Rightarrow> n_workOrderId n = workOrderId)
         (NotFoundException ''Not bulunamadi.''))
     (update_by work_order_notes work_order_notes_update n_id noteId (\<lambda>n. n\<lparr>n_text := txt\<rparr>)))"

definition deleteNote :: "uuid \<Rightarrow> uuid \<Rightarrow> uuid \<Rightarrow> work_order_note dbM" where
  "deleteNote tenantId workOrderId noteId =
     bindM (findNoteById tenantId noteId) (\<lambda>note.
     thenM (ensure (case note of None \<Rightarrow> False | Some n \<Rightarrow> n_workOrderId n = workOrderId)
         (NotFoundException ''Not bulunamadi.''))
     (delete_by work_order_notes work_order_notes_update n_id noteId))"

definition getTenantAutoInvoiceConfig :: "uuid \<Rightarrow> bool dbM" where
  "getTenantAutoInvoiceConfig tenantId =
     bindM (find_first tenants (\<lambda>t. t_id t = tenantId)) (\<lambda>tenant.
       ret (case tenant of None \<Rightarrow> False | Some t \<Rightarrow> t_autoInvoiceOnComplete t))"

definition findInvoiceByWorkOrder :: "uuid \<Rightarrow> uuid \<Rightarrow> invoice option dbM" where
  "findInvoiceByWorkOrder tenantId workOrderId =
     find_first invoices (\<lambda>i. i_tenantId i = tenantId \<and> i_workOrderId i = Some workOrderId)"

text \<open>\<open>updateMany\<close> in a \<open>try\<close> that ignores the error.\<close>

definition syncAppointmentStatus :: "uuid \<Rightarrow> uuid \<Rightarrow> AppointmentStatus \<Rightarrow> unit dbM" where
  "syncAppointmentStatus tenantId appointmentId status =
     try_catch (bindM (find_first appointments (\<lambda>a. a_id a = appointmentId \<and> a_tenantId a = tenantId)) (\<lambda>found.
       case found of
         None \<Rightarrow> ret ()
       | Some _ \<Rightarrow> thenM (update_appointment appointmentId (\<lambda>a. a\<lparr>a_status := status\<rparr>)) (ret ())))
     (\<lambda>_. ret ())"

lemma keeps_exclusion [keeps_intros]: "keeps I (exclusion a)"
  unfolding exclusion_def exclude_on_def by (intro keeps_intros)

lemma keeps_update_appointment [keeps_frame]:
  "(\<And>f s. I (appointments_update f s) = I s) \<Longrightarrow> keeps I (update_appointment k g)"
  unfolding update_appointment_def by (intro keeps_intros keeps_frame) auto

definition is_hex :: "char \<Rightarrow> bool" where
  "is_hex c \<longleftrightarrow> c \<in> set ''0123456789abcdefABCDEF''"

text \<open>The regular expression of a UUID: blocks of 8, 4, 4, 4 and 12 hexadecimal digits.\<close>

fun hex_blocks :: "nat list \<Rightarrow> string \<Rightarrow> bool" where
  "hex_blocks [] s = False"
| "hex_blocks [n] s = (length s = n \<and> list_all is_hex s)"
| "hex_blocks (n # m # ns) s = (length (take n s) = n \<and> list_all is_hex (take n s) \<and>
     (case drop n s of [] \<Rightarrow> False | c # rest \<Rightarrow> c = CHR ''-'' \<and> hex_blocks (m # ns) rest))"

definition is_uuid :: "string \<Rightarrow> bool" where
  "is_uuid s \<longleftrightarrow> hex_blocks [8, 4, 4, 4, 12] s"

text \<open>PostgreSQL compares \<open>uuid\<close> values, so letter case does not matter.\<close>

definition uuid_value :: "string \<Rightarrow> uuid" where
  "uuid_value s = map (\<lambda>c. if c \<in> set ''ABCDEF'' then char_of ((of_char c :: nat) + 32) else c) s"

definition findPublicTrackByTokenOrNumber :: "string \<Rightarrow> work_order option dbM" where
  "findPublicTrackByTokenOrNumber tokenOrNumber =
     (let raw = js_trim tokenOrNumber in
      if \<not> is_uuid raw then ret None
      else find_first work_orders (\<lambda>w. wo_id w = uuid_value raw))"

definition findActiveByVehicleId :: "uuid \<Rightarrow> uuid \<Rightarrow> work_order option dbM" where
  "findActiveByVehicleId tenantId vehicleId =
     find_first work_orders (\<lambda>w. wo_tenantId w = tenantId \<and> wo_vehicleId w = vehicleId \<and>
       wo_status w \<in> {QUEUE, IN_PROGRESS})"

definition updateLastNotifiedAt :: "ctx \<Rightarrow> uuid \<Rightarrow> int \<Rightarrow> unit dbM" where
  "updateLastNotifiedAt cx ident notifiedAt =
     thenM (update_order cx ident (\<lambda>w. w\<lparr>wo_lastNotifiedAt := Some notifiedAt\<rparr>)) (ret ())"

definition updateCustomerFeedback ::
  "ctx \<Rightarrow> uuid \<Rightarrow> int \<Rightarrow> string option \<Rightarrow> work_order dbM" where
  "updateCustomerFeedback cx workOrderId rating comment =
     update_order cx workOrderId (\<lambda>w. w\<lparr>wo_customerRating := Some rating,
       wo_customerComment := or_null (map_option js_trim comment),
       wo_customerRatedAt := Some (now cx)\<rparr>)"

text \<open>\<open>findAll\<close>: newest first, clamped page and limit; a limit or page of 0 is not given.\<close>

definition clamp_limit :: "int option \<Rightarrow> int" where
  "clamp_limit limit = min (max (case limit of None \<Rightarrow> 100 | Some l \<Rightarrow> if l = 0 then 100 else l) 1) 200"

definition clamp_page :: "int option \<Rightarrow> int" where
  "clamp_page page = max (case page of None \<Rightarrow> 1 | Some p \<Rightarrow> if p = 0 then 1 else p) 1"

record 'r page_result =
  pr_data :: "'r list"
  pr_meta :: "(nat \<times> int \<times> int \<times> int) option"  \<comment> \<open>total, page, limit, totalPages\<close>

definition findAll_WorkOrder ::
  "uuid \<Rightarrow> WorkOrderStatus option \<Rightarrow> int option \<Rightarrow> int option \<Rightarrow> work_order page_result dbM" where
  "findAll_WorkOrder tenantId status page limit =
     (let isExplicitPagination = (page \<noteq> None \<or> limit \<noteq> None);
          safeLimit = clamp_limit limit;
          safePage = clamp_page page;
          skip = (safePage - 1) * safeLimit
      in bindM (find_many work_orders (\<lambda>w. wo_tenantId w = tenantId \<and>
           (case status of None \<Rightarrow> True | Some st \<Rightarrow> wo_status w = st))) (\<lambda>rows.
         let items = take (nat safeLimit)
               (drop (nat (if isExplicitPagination then skip else 0)) (rev rows));
             total = length rows
         in ret \<lparr>pr_data = items, pr_meta = (if isExplicitPagination
              then Some (total, safePage, safeLimit, - ((- int total) div safeLimit)) else None)\<rparr>))"

end
