(* ===== verification/WorkOrderStock.thy ===== *)
theory WorkOrderStock
  imports WorkOrderRepo
begin

text \<open>
  Parts on the shelf and parts in open orders. \<open>stock_of\<close> is the shelf stock of a product,
  \<open>held\<close> what the orders that are not cancelled have taken of it, \<open>committed\<close> their sum.
  The lemmas say how each piece of the repository's transactions moves parts between the two;
  the operations then conserve the sum.
\<close>

section \<open>The quantities\<close>

definition stock_of :: "db \<Rightarrow> uuid \<Rightarrow> int" where
  "stock_of s pid = total (\<lambda>p. if p_id p = pid then p_stockQuantity p else 0) (products s)"

definition open_order :: "work_order list \<Rightarrow> uuid \<Rightarrow> bool" where
  "open_order orders ident \<longleftrightarrow>
     (case lookup_row wo_id ident orders of None \<Rightarrow> False | Some w \<Rightarrow> wo_status w \<noteq> CANCELLED)"

definition part_quantity :: "uuid \<Rightarrow> work_order_item \<Rightarrow> int" where
  "part_quantity pid it = (if stock_part it = Some pid then woi_quantity it else 0)"

definition held_in :: "work_order list \<Rightarrow> work_order_item list \<Rightarrow> uuid \<Rightarrow> int" where
  "held_in orders its pid =
     total (\<lambda>it. if open_order orders (woi_workOrderId it) then part_quantity pid it else 0) its"

definition held :: "db \<Rightarrow> uuid \<Rightarrow> int" where
  "held s pid = held_in (work_orders s) (work_order_items s) pid"

definition committed :: "db \<Rightarrow> uuid \<Rightarrow> int" where
  "committed s pid = stock_of s pid + held s pid"

text \<open>
  Well-formed tables: primary keys are unique, an item belongs to an order and a part item
  names a product.
\<close>

definition stock_wf :: "db \<Rightarrow> bool" where
  "stock_wf s \<longleftrightarrow> unique_rows p_id (products s) \<and> unique_rows wo_id (work_orders s) \<and>
     unique_rows woi_id (work_order_items s) \<and>
     list_all (\<lambda>it. woi_workOrderId it \<in> wo_id ` set (work_orders s)) (work_order_items s) \<and>
     list_all (\<lambda>it. pred_option (\<lambda>pid. pid \<in> p_id ` set (products s)) (stock_part it))
       (work_order_items s)"

text \<open>No negative stock and no negative quantity.\<close>

definition stock_nonneg :: "db \<Rightarrow> bool" where
  "stock_nonneg s \<longleftrightarrow> list_all (\<lambda>p. 0 \<le> p_stockQuantity p) (products s) \<and>
     list_all (\<lambda>it. 0 \<le> woi_quantity it) (work_order_items s)"

lemma total_filter: "total (\<lambda>r. if P r then w r else 0) rows = total w (filter P rows)"
  by (induction rows) auto

lemma stock_of_lookup: "unique_rows p_id (products s) \<Longrightarrow>
    stock_of s pid = (case lookup_row p_id pid (products s) of None \<Rightarrow> 0 | Some p \<Rightarrow> p_stockQuantity p)"
  unfolding stock_of_def
proof (induction "products s" arbitrary: s)
  case Nil
  then show ?case by (metis total_Nil lookup_row_Nil option.case(1))
next
  case (Cons p ps)
  have tail: "total (\<lambda>p. if p_id p = pid then p_stockQuantity p else 0) ps =
      (case lookup_row p_id pid ps of None \<Rightarrow> 0 | Some p \<Rightarrow> p_stockQuantity p)"
    using Cons.hyps(1) [of "s\<lparr>products := ps\<rparr>"] Cons.prems Cons.hyps(2) [symmetric]
    by (simp add: unique_rows_def)
  have "p_id p = pid \<Longrightarrow> lookup_row p_id pid ps = None"
    using Cons.prems Cons.hyps(2) [symmetric] by (auto simp: unique_rows_def lookup_row_None)
  with tail show ?case
    unfolding Cons.hyps(2) [symmetric] by auto
qed

section \<open>Moving stock\<close>

text \<open>\<open>q\<close> more of product \<open>pid\<close> on the shelf, orders and items as before.\<close>

definition stock_moved :: "uuid \<Rightarrow> int \<Rightarrow> db \<Rightarrow> db \<Rightarrow> bool" where
  "stock_moved pid q s s' \<longleftrightarrow>
     stock_of s' = shift pid q (stock_of s) \<and> pid \<in> p_id ` set (products s') \<and>
     map p_id (products s') = map p_id (products s) \<and>
     work_orders s' = work_orders s \<and> work_order_items s' = work_order_items s \<and>
     (stock_nonneg s \<longrightarrow> 0 \<le> stock_of s pid + q \<longrightarrow> stock_nonneg s')"

abbreviation add_stock :: "int \<Rightarrow> product \<Rightarrow> product" where
  "add_stock q \<equiv> \<lambda>p. p\<lparr>p_stockQuantity := p_stockQuantity p + q\<rparr>"

lemma stock_wf_cong:
  "stock_wf s \<Longrightarrow> map p_id (products s') = map p_id (products s) \<Longrightarrow>
     map wo_id (work_orders s') = map wo_id (work_orders s) \<Longrightarrow>
     work_order_items s' = work_order_items s \<Longrightarrow> stock_wf s'"
proof -
  assume *: "stock_wf s" "map p_id (products s') = map p_id (products s)"
    "map wo_id (work_orders s') = map wo_id (work_orders s)" "work_order_items s' = work_order_items s"
  have "p_id ` set (products s') = p_id ` set (products s)"
    "wo_id ` set (work_orders s') = wo_id ` set (work_orders s)"
    using *(2,3) by (metis list.set_map)+
  with * show ?thesis by (simp add: stock_wf_def unique_rows_def)
qed

lemma stock_moved_wf: "stock_wf s \<Longrightarrow> stock_moved pid q s s' \<Longrightarrow> stock_wf s'"
  by (rule stock_wf_cong) (auto simp: stock_moved_def)

lemma add_stock_moved:
  assumes wf: "stock_wf s" and row: "lookup_row p_id pid (products s) = Some r"
    and rows': "products s' = update_row p_id pid (add_stock q) (products s)"
    and same: "work_orders s' = work_orders s" "work_order_items s' = work_order_items s"
  shows "stock_moved pid q s s'"
  unfolding stock_moved_def
proof (intro conjI impI)
  have unique: "unique_rows p_id (products s)"
    using wf by (simp add: stock_wf_def)
  have key: "p_id r = pid" and mem: "r \<in> set (products s)"
    using row by (auto dest: lookup_row_key lookup_row_mem)
  show keys: "map p_id (products s') = map p_id (products s)"
    unfolding rows' by (rule keys_update_row) simp
  show "pid \<in> p_id ` set (products s')"
    using keys key mem by (metis imageI list.set_map)
  show "stock_of s' = shift pid q (stock_of s)"
    using key by (auto simp: fun_eq_iff stock_of_def rows' shift_def total_update_row [OF unique row])
  show "stock_nonneg s'" if nn: "stock_nonneg s" and ge: "0 \<le> stock_of s pid + q"
  proof -
    have "stock_of s pid = p_stockQuantity r"
      using row by (simp add: stock_of_lookup [OF unique])
    with ge have r_ok: "0 \<le> p_stockQuantity r + q" by simp
    have "p = r" if "p \<in> set (products s)" "p_id p = pid" for p
      using lookup_row_unique [OF unique that(1)] row that(2) by simp
    then have "0 \<le> p_stockQuantity p" if "p \<in> set (products s')" for p
      using that nn r_ok by (auto simp: rows' set_update_row stock_nonneg_def list_all_iff)
    then show ?thesis
      using nn same by (simp add: stock_nonneg_def list_all_iff)
  qed
qed (use same in auto)

lemma wp_take_stock:
  assumes wf: "stock_wf s"
    and none: "Q 0 s"
    and some: "\<And>s'. stock_moved pid (- q) s s' \<Longrightarrow> (stock_nonneg s \<longrightarrow> stock_nonneg s') \<Longrightarrow> Q 1 s'"
  shows "wp (take_stock tenantId pid q) Q E s"
proof -
  let ?C = "\<lambda>p. p_tenantId p = tenantId \<and> q \<le> p_stockQuantity p"
  let ?f = "\<lambda>p. p\<lparr>p_stockQuantity := p_stockQuantity p - q\<rparr>"
  have unique: "unique_rows p_id (products s)"
    using wf by (simp add: stock_wf_def)
  show ?thesis
  proof (cases "lookup_row p_id pid (products s)")
    case None
    then show ?thesis
      using none map_where_key [OF unique, of pid ?C ?f]
        count_where_key [OF unique, of pid ?C]
      by (simp add: take_stock_def wp_simps)
  next
    case (Some r)
    show ?thesis
    proof (cases "?C r")
      case False
      then show ?thesis
        using none Some map_where_key [OF unique, of pid ?C ?f]
          count_where_key [OF unique, of pid ?C]
        by (auto simp: take_stock_def wp_simps)
    next
      case True
      let ?s' = "s\<lparr>products := update_row p_id pid ?f (products s)\<rparr>"
      have moved: "stock_moved pid (- q) s ?s'"
        by (rule add_stock_moved [OF wf Some]) simp_all
      have "stock_of s pid = p_stockQuantity r"
        using Some by (simp add: stock_of_lookup [OF unique])
      with moved True have "stock_nonneg s \<longrightarrow> stock_nonneg ?s'"
        by (simp add: stock_moved_def)
      with moved have "Q 1 ?s'" by (rule some)
      then show ?thesis
        using Some True map_where_key [OF unique, of pid ?C ?f]
          count_where_key [OF unique, of pid ?C]
        by (simp add: take_stock_def wp_simps)
    qed
  qed
qed

lemma stock_movements_frame [simp]:
  "stock_of (stock_movements_update f s) = stock_of s"
  "stock_nonneg (stock_movements_update f s) = stock_nonneg s"
  "stock_moved pid q s (stock_movements_update f s') = stock_moved pid q s s'"
  by (simp_all add: stock_moved_def stock_nonneg_def stock_of_def fun_eq_iff)

lemma wp_consume_part:
  assumes wf: "stock_wf s" and err: "\<And>e s'. E e s'"
    and ok: "\<And>s'. stock_moved pid (- q) s s' \<Longrightarrow> (stock_nonneg s \<longrightarrow> stock_nonneg s') \<Longrightarrow> Q () s'"
  shows "wp (consume_part tenantId pid q number orderId author) Q E s"
  unfolding consume_part_def wp_bindM
  by (rule wp_take_stock [OF wf])
    (auto simp: wp_simps err find_product_def split: option.split intro!: ok)

lemma wp_give_back:
  assumes wf: "stock_wf s" and err: "\<And>e s'. E e s'"
    and ok: "\<And>s'. stock_moved pid q s s' \<Longrightarrow> Q () s'"
  shows "wp (give_back tenantId pid q note orderId author) Q E s"
  using add_stock_moved [OF wf, of pid _ "products_update (\<lambda>_. update_row p_id pid (add_stock q) (products s)) s" q]
  by (auto simp: give_back_def wp_simps err split: option.split intro!: ok)

section \<open>The invariant\<close>

text \<open>
  \<open>stock_inv b c s\<close>: the tables are well formed and each product's committed quantity is
  the one of \<open>c\<close>; with \<open>b\<close>, nothing is negative.
\<close>

definition stock_inv :: "bool \<Rightarrow> (uuid \<Rightarrow> int) \<Rightarrow> db \<Rightarrow> bool" where
  "stock_inv b c s \<longleftrightarrow> stock_wf s \<and> committed s = c \<and> (b \<longrightarrow> stock_nonneg s)"

definition shift_opt :: "uuid option \<Rightarrow> int \<Rightarrow> (uuid \<Rightarrow> int) \<Rightarrow> uuid \<Rightarrow> int" where
  "shift_opt x q f = (case x of None \<Rightarrow> f | Some pid \<Rightarrow> shift pid q f)"

lemma shift_opt_simps [simp]: "shift_opt None q f = f" "shift_opt (Some pid) q f = shift pid q f"
  and shift_opt_0 [simp]: "shift_opt x 0 f = f"
  by (auto simp: shift_def shift_opt_def split: option.split)

lemma shift_opt_shift_opt [simp]: "shift_opt x q (shift_opt x r f) = shift_opt x (q + r) f"
  by (cases x) auto

text \<open>The conserved quantity only depends on the products, the orders and the items.\<close>

lemma held_cong:
  "work_orders s' = work_orders s \<Longrightarrow> work_order_items s' = work_order_items s \<Longrightarrow>
     held s' = held s"
  by (simp add: held_def fun_eq_iff)

lemma stock_of_cong: "products s' = products s \<Longrightarrow> stock_of s' = stock_of s"
  by (simp add: stock_of_def fun_eq_iff)

lemma stock_inv_frame:
  "stock_inv b c s \<Longrightarrow> products s' = products s \<Longrightarrow> work_orders s' = work_orders s \<Longrightarrow>
     work_order_items s' = work_order_items s \<Longrightarrow> stock_inv b c s'"
  unfolding stock_inv_def stock_wf_def committed_def [abs_def] held_def stock_of_def stock_nonneg_def
  by simp

lemma stock_moved_inv:
  "stock_inv b c s \<Longrightarrow> stock_moved pid q s s' \<Longrightarrow> (b \<longrightarrow> stock_nonneg s \<longrightarrow> stock_nonneg s') \<Longrightarrow>
     stock_inv b (shift pid q c) s'"
  using stock_moved_wf [of s pid q s'] held_cong [of s' s]
  by (auto simp: stock_inv_def committed_def [abs_def] shift_def stock_moved_def)

text \<open>An update of an order that keeps its status keeps what is held.\<close>

lemma open_order_update:
  "(\<And>w. wo_id (f w) = wo_id w) \<Longrightarrow>
     (\<And>w. w \<in> set orders \<Longrightarrow> wo_id w = k \<Longrightarrow> (wo_status (f w) \<noteq> CANCELLED) = (wo_status w \<noteq> CANCELLED)) \<Longrightarrow>
     open_order (update_row wo_id k f orders) = open_order orders"
  by (auto simp: open_order_def fun_eq_iff lookup_update_row split: option.split
      dest: lookup_row_mem lookup_row_key)

lemma stock_inv_update_order:
  assumes inv: "stock_inv b c s" and key: "\<And>w. wo_id (f w) = wo_id w"
    and status: "\<And>w. w \<in> set (work_orders s) \<Longrightarrow> wo_id w = k \<Longrightarrow>
      (wo_status (f w) \<noteq> CANCELLED) = (wo_status w \<noteq> CANCELLED)"
  shows "stock_inv b c (s\<lparr>work_orders := update_row wo_id k f (work_orders s)\<rparr>)"
proof -
  let ?s' = "s\<lparr>work_orders := update_row wo_id k f (work_orders s)\<rparr>"
  have "stock_wf ?s'"
    by (rule stock_wf_cong [of s]) (use inv key in \<open>auto simp: stock_inv_def keys_update_row\<close>)
  moreover have "held ?s' = held s"
    by (simp add: held_def held_in_def fun_eq_iff open_order_update [OF key status])
  ultimately show ?thesis
    using inv stock_of_cong [of ?s' s]
    by (simp add: stock_inv_def committed_def [abs_def] stock_nonneg_def)
qed

lemma keeps_update_order [keeps_intros]:
  assumes "\<And>w. wo_id (f w) = wo_id w" and "\<And>w. wo_status (f w) = wo_status w"
  shows "keeps (stock_inv b c) (update_order cx k f)"
  by (rule keepsI)
    (auto simp: wp_simps assms split: option.split intro!: stock_inv_update_order)

lemma with_totals_frame [simp]:
  "wo_id (with_totals cx its w) = wo_id w" "wo_status (with_totals cx its w) = wo_status w"
  by (simp_all add: with_totals_def Let_def split: prod.split)

lemma keeps_recalculate [keeps_intros]: "keeps (stock_inv b c) (recalculate cx k)"
  unfolding recalculate_def by (intro keeps_intros) simp_all

section \<open>Item rows\<close>

lemma or_null_idem [simp]: "or_null (or_null x) = or_null x"
  by (auto simp: or_null_def truthy_def split: option.split)

lemma held_in_append:
  "held_in orders (its @ [it]) = shift_opt (if open_order orders (woi_workOrderId it)
     then stock_part it else None) (woi_quantity it) (held_in orders its)"
  by (auto simp: held_in_def part_quantity_def shift_def fun_eq_iff shift_opt_def split: option.split)

lemma held_in_delete:
  assumes "unique_rows woi_id its" "lookup_row woi_id k its = Some it"
    "open_order orders (woi_workOrderId it)"
  shows "held_in orders (delete_row woi_id k its) =
    shift_opt (stock_part it) (- woi_quantity it) (held_in orders its)"
  using assms(3) by (auto simp: held_in_def total_delete_row [OF assms(1,2)] part_quantity_def
      shift_def fun_eq_iff shift_opt_def split: option.split)

lemma held_in_update:
  assumes "unique_rows woi_id its" "lookup_row woi_id k its = Some it"
    "open_order orders (woi_workOrderId it)" "stock_part (f it) = stock_part it"
    "woi_workOrderId (f it) = woi_workOrderId it"
  shows "held_in orders (update_row woi_id k f its) =
    shift_opt (stock_part it) (woi_quantity (f it) - woi_quantity it) (held_in orders its)"
  using assms(3-5) by (auto simp: held_in_def total_update_row [OF assms(1,2)] part_quantity_def
      shift_def fun_eq_iff shift_opt_def split: option.split)

lemma held_shift: "held s' = shift_opt x q (held s) \<Longrightarrow> products s' = products s \<Longrightarrow>
    committed s' = shift_opt x q (committed s)"
  using stock_of_cong [of s' s]
  by (auto simp: committed_def [abs_def] shift_opt_def shift_def split: option.split)

text \<open>What a new line needs: an order that is not cancelled.\<close>

definition line_inv :: "bool \<Rightarrow> (uuid \<Rightarrow> int) \<Rightarrow> uuid \<Rightarrow> db \<Rightarrow> bool" where
  "line_inv b c orderId s \<longleftrightarrow> stock_inv b c s \<and> open_order (work_orders s) orderId"

lemma open_order_mem: "open_order orders k \<Longrightarrow> k \<in> wo_id ` set orders"
  by (auto simp: open_order_def lookup_row_None [symmetric] split: option.splits)
    (metis lookup_row_None option.distinct(1))

lemma wp_insert_item:
  assumes inv: "line_inv b c orderId s" and b: "b \<longrightarrow> 0 \<le> id_quantity item"
    and known: "pred_option (\<lambda>pid. pid \<in> p_id ` set (products s)) (part_of item)"
    and err: "\<And>e s'. E e s'"
    and ok: "\<And>x s'. line_inv b (shift_opt (part_of item) (id_quantity item) c) orderId s' \<Longrightarrow> Q x s'"
  shows "wp (insert_item cx orderId item rate) Q E s"
proof -
  let ?it = "\<lparr>woi_id = gen_id cx (id_supply s), woi_workOrderId = orderId,
    woi_itemType = id_itemType item, woi_itemId = or_null (id_itemId item), woi_name = id_name item,
    woi_quantity = id_quantity item, woi_unitPrice = dec2 cx (id_unitPrice item),
    woi_kdvRate = dec2 cx rate, woi_totalPrice = dec2 cx (id_totalPrice item)\<rparr>"
  let ?s' = "s\<lparr>id_supply := Suc (id_supply s), work_order_items := work_order_items s @ [?it]\<rparr>"
  have part: "stock_part ?it = part_of item"
    by (simp add: stock_part_def part_of_def)
  have open': "open_order (work_orders s) orderId" and "stock_inv b c s"
    using inv by (simp_all add: line_inv_def)
  have wf: "stock_wf s" and c: "committed s = c" and nn: "b \<longrightarrow> stock_nonneg s"
    using inv by (simp_all add: line_inv_def stock_inv_def)
  have "line_inv b (shift_opt (part_of item) (id_quantity item) c) orderId ?s'"
    if "gen_id cx (id_supply s) \<notin> woi_id ` set (work_order_items s)"
  proof -
    have "stock_wf ?s'"
      using wf that known part open_order_mem [OF open'] by (auto simp: stock_wf_def unique_rows_def)
    moreover have "held ?s' = shift_opt (part_of item) (id_quantity item) (held s)"
      using part open' by (simp add: held_def [abs_def] held_in_append)
    then have "committed ?s' = shift_opt (part_of item) (id_quantity item) c"
      using held_shift [of ?s'] c by simp
    moreover have "b \<longrightarrow> stock_nonneg ?s'"
      using nn b by (simp add: stock_nonneg_def)
    ultimately show ?thesis
      using open' by (simp add: line_inv_def stock_inv_def)
  qed
  then show ?thesis
    by (auto simp: insert_item_def wp_simps err intro!: ok)
qed

text \<open>A line with its stock: what leaves the shelf is held by the order.\<close>

lemma stock_moved_line:
  "line_inv b c orderId s \<Longrightarrow> stock_moved pid q s s' \<Longrightarrow> (stock_nonneg s \<longrightarrow> stock_nonneg s') \<Longrightarrow>
     line_inv b (shift pid q c) orderId s'"
  using stock_moved_inv [of b c s pid q s'] by (auto simp: line_inv_def stock_moved_def)

lemma line_inv_wf: "line_inv b c orderId s \<Longrightarrow> stock_wf s"
  by (simp add: line_inv_def stock_inv_def)

lemma wp_new_line:
  assumes inv: "line_inv b c orderId s" and b: "b \<longrightarrow> 0 \<le> id_quantity item"
    and err: "\<And>e s'. E e s'"
    and ok: "\<And>x s'. line_inv b c orderId s' \<Longrightarrow> Q x s'"
  shows "wp (thenM (case part_of item of None \<Rightarrow> ret ()
       | Some pid \<Rightarrow> consume_part tenantId pid (id_quantity item) number ref author)
     (insert_item cx orderId item rate)) Q E s"
proof (cases "part_of item")
  case None
  then show ?thesis
    using wp_insert_item [OF inv b, where Q = Q and E = E] err ok by (simp add: wp_simps)
next
  case (Some pid)
  let ?q = "id_quantity item"
  have "wp (insert_item cx orderId item rate) Q E s'"
    if "stock_moved pid (- ?q) s s'" "stock_nonneg s \<longrightarrow> stock_nonneg s'" for s'
  proof (rule wp_insert_item [of b "shift pid (- ?q) c" orderId s' item])
    show "line_inv b (shift pid (- ?q) c) orderId s'"
      by (rule stock_moved_line [OF inv that])
    show "pred_option (\<lambda>pid. pid \<in> p_id ` set (products s')) (part_of item)"
      using that(1) Some by (simp add: stock_moved_def)
  qed (use b err ok Some in auto)
  then have "wp (consume_part tenantId pid ?q number ref author)
      (\<lambda>_. wp (insert_item cx orderId item rate) Q E) E s"
    by (intro wp_consume_part line_inv_wf [OF inv] err) auto
  with Some show ?thesis by (simp add: wp_thenM)
qed

text \<open>The lookups every item operation starts with.\<close>

lemma wp_with_order:
  assumes "E e s"
    and "\<And>w. w \<in> set (work_orders s) \<Longrightarrow> wo_id w = orderId \<Longrightarrow> wo_tenantId w = tenantId \<Longrightarrow> wp (k w) Q E s"
  shows "wp (bindM (findById_WorkOrder tenantId orderId) (\<lambda>found. bindM (require e found) k)) Q E s"
  using assms
  by (auto simp: wp_simps findById_WorkOrder_def split: option.split dest!: find_SomeD)

lemma find_item_row:
  assumes "stock_wf s" and "find (\<lambda>it. woi_id it = k \<and> woi_workOrderId it = oid) (work_order_items s) = Some it"
  shows "lookup_row woi_id k (work_order_items s) = Some it" and "woi_workOrderId it = oid"
  using assms lookup_row_unique [of woi_id "work_order_items s" it]
  by (auto simp: stock_wf_def dest!: find_SomeD)

lemma wp_with_item:
  assumes "stock_wf s" and "E e s"
    and "\<And>it. lookup_row woi_id itemId (work_order_items s) = Some it \<Longrightarrow> woi_workOrderId it = orderId \<Longrightarrow>
      wp (k it) Q E s"
  shows "wp (bindM (find_item orderId itemId) (\<lambda>found. bindM (require e found) k)) Q E s"
  using assms find_item_row [OF assms(1), of itemId orderId]
  by (auto simp: wp_simps find_item_def split: option.split)

lemma wp_addItem:
  assumes inv: "stock_inv b c s" and open': "open_order (work_orders s) orderId"
    and b: "b \<longrightarrow> 0 \<le> id_quantity item"
  shows "wp (addItem cx tenantId orderId item rate author)
     (\<lambda>_. stock_inv b c) (\<lambda>_. stock_inv b c) s"
proof -
  have tail: "wp (thenM (insert_item cx orderId item rate) (recalculate cx orderId))
      (\<lambda>_. stock_inv b c) (\<lambda>_ _. True) s'"
    if "wp (insert_item cx orderId item rate) (\<lambda>_. line_inv b c orderId) (\<lambda>_ _. True) s'" for s'
    unfolding wp_thenM using that
    by (rule wp_mono) (auto simp: line_inv_def intro: keeps_wp [OF keeps_recalculate])
  let ?stock = "\<lambda>number. case part_of item of None \<Rightarrow> ret ()
    | Some pid \<Rightarrow> consume_part tenantId pid (id_quantity item) number orderId author"
  have "wp (thenM (?stock number) (insert_item cx orderId item rate))
      (\<lambda>_. line_inv b c orderId) (\<lambda>_ _. True) s" for number
    by (rule wp_new_line) (use inv open' b in \<open>auto simp: line_inv_def\<close>)
  then have "wp (?stock number) (\<lambda>_. wp (insert_item cx orderId item rate)
      (\<lambda>_. line_inv b c orderId) (\<lambda>_ _. True)) (\<lambda>_ _. True) s" for number
    unfolding wp_thenM .
  then have "wp (?stock number) (\<lambda>_. wp (thenM (insert_item cx orderId item rate)
      (recalculate cx orderId)) (\<lambda>_. stock_inv b c) (\<lambda>_ _. True)) (\<lambda>_ _. True) s" for number
    by (rule wp_mono) (use tail in auto)
  then have "wp (thenM (?stock number) (thenM (insert_item cx orderId item rate)
      (recalculate cx orderId))) (\<lambda>_. stock_inv b c) (\<lambda>_ _. True) s" for number
    unfolding wp_thenM [of "?stock number"] .
  then show ?thesis
    unfolding addItem_def
    by (intro wp_transaction_inv [of "stock_inv b c"] inv wp_with_order) auto
qed

section \<open>Removing and changing items\<close>

lemma line_inv_delete:
  assumes inv: "line_inv b c (woi_workOrderId it) s"
    and row: "lookup_row woi_id k (work_order_items s) = Some it"
  shows "line_inv b (shift_opt (stock_part it) (- woi_quantity it) c) (woi_workOrderId it)
    (s\<lparr>work_order_items := delete_row woi_id k (work_order_items s)\<rparr>)" (is "line_inv b _ _ ?s'")
proof -
  have open': "open_order (work_orders s) (woi_workOrderId it)" and wf: "stock_wf s"
    and c: "committed s = c" and nn: "b \<longrightarrow> stock_nonneg s"
    using inv by (simp_all add: line_inv_def stock_inv_def)
  have unique: "unique_rows woi_id (work_order_items s)"
    using wf by (simp add: stock_wf_def)
  have sub: "set (delete_row woi_id k (work_order_items s)) \<subseteq> set (work_order_items s)"
    by (auto simp: delete_row_def)
  have "stock_wf ?s'"
    using wf sub unique_delete_row [OF unique, of k] by (auto simp: stock_wf_def list_all_iff)
  moreover have "held ?s' = shift_opt (stock_part it) (- woi_quantity it) (held s)"
    by (simp add: held_def [abs_def] held_in_delete [OF unique row open'])
  then have "committed ?s' = shift_opt (stock_part it) (- woi_quantity it) c"
    using held_shift [of ?s'] c by simp
  moreover have "b \<longrightarrow> stock_nonneg ?s'"
    using nn sub by (auto simp: stock_nonneg_def list_all_iff)
  ultimately show ?thesis
    using open' by (simp add: line_inv_def stock_inv_def)
qed

lemma line_inv_update:
  assumes inv: "line_inv b c (woi_workOrderId it) s"
    and row: "lookup_row woi_id k (work_order_items s) = Some it"
    and frame: "\<And>r. woi_id (f r) = woi_id r" "\<And>r. stock_part (f r) = stock_part r"
      "\<And>r. woi_workOrderId (f r) = woi_workOrderId r"
    and b: "b \<longrightarrow> 0 \<le> woi_quantity (f it)"
  shows "line_inv b (shift_opt (stock_part it) (woi_quantity (f it) - woi_quantity it) c)
    (woi_workOrderId it) (s\<lparr>work_order_items := update_row woi_id k f (work_order_items s)\<rparr>)"
    (is "line_inv b _ _ ?s'")
proof -
  have open': "open_order (work_orders s) (woi_workOrderId it)" and wf: "stock_wf s"
    and c: "committed s = c" and nn: "b \<longrightarrow> stock_nonneg s"
    using inv by (simp_all add: line_inv_def stock_inv_def)
  have unique: "unique_rows woi_id (work_order_items s)"
    using wf by (simp add: stock_wf_def)
  have "stock_wf ?s'"
    using wf unique_update_row [OF unique, of f k] frame
    by (auto simp: stock_wf_def list_all_iff set_update_row)
  moreover have "held ?s' = shift_opt (stock_part it) (woi_quantity (f it) - woi_quantity it) (held s)"
    by (simp add: held_def [abs_def] held_in_update [OF unique row open'] frame)
  then have "committed ?s' = shift_opt (stock_part it) (woi_quantity (f it) - woi_quantity it) c"
    using held_shift [of ?s'] c by simp
  moreover have "r = it" if "r \<in> set (work_order_items s)" "woi_id r = k" for r
    using lookup_row_unique [OF unique that(1)] row that(2) by simp
  then have "b \<longrightarrow> stock_nonneg ?s'"
    using nn b by (auto simp: stock_nonneg_def list_all_iff set_update_row)
  ultimately show ?thesis
    using open' by (simp add: line_inv_def stock_inv_def)
qed

lemma wp_give_back_line:
  assumes inv: "line_inv b c orderId s" and q: "b \<longrightarrow> 0 \<le> q"
    and err: "\<And>e s'. E e s'"
    and ok: "\<And>s'. line_inv b (shift pid q c) orderId s' \<Longrightarrow>
      work_order_items s' = work_order_items s \<Longrightarrow> Q () s'"
  shows "wp (give_back tenantId pid q note ref author) Q E s"
proof (rule wp_give_back [OF line_inv_wf [OF inv] err])
  fix s' assume moved: "stock_moved pid q s s'"
  have unique: "unique_rows p_id (products s)"
    using line_inv_wf [OF inv] by (simp add: stock_wf_def)
  have "0 \<le> stock_of s pid" if "stock_nonneg s"
    using that unfolding stock_of_def
    by (intro total_nonneg) (auto simp: stock_nonneg_def list_all_iff)
  with q moved have nn: "b \<longrightarrow> stock_nonneg s \<longrightarrow> stock_nonneg s'"
    by (simp add: stock_moved_def)
  have "line_inv b (shift pid q c) orderId s'"
    using inv stock_moved_inv [OF _ moved nn] moved by (simp add: line_inv_def stock_moved_def)
  with moved show "Q () s'"
    by (intro ok) (auto simp: stock_moved_def)
qed

lemma wp_line_recalculate:
  assumes "line_inv b c orderId s" and "\<And>e s'. E e s'" and "\<And>x s'. stock_inv b c s' \<Longrightarrow> Q x s'"
  shows "wp (recalculate cx k) Q E s"
  by (rule keeps_wp [OF keeps_recalculate [of b c]]) (use assms in \<open>auto simp: line_inv_def\<close>)

lemma wp_removeItem:
  assumes inv: "stock_inv b c s" and open': "open_order (work_orders s) orderId"
  shows "wp (removeItem cx tenantId orderId itemId author)
     (\<lambda>_. stock_inv b c) (\<lambda>_. stock_inv b c) s"
proof -
  have line: "line_inv b c orderId s"
    using inv open' by (simp add: line_inv_def)
  have delete: "wp (thenM (delete_by work_order_items work_order_items_update woi_id itemId)
      (recalculate cx k)) (\<lambda>_. stock_inv b c) (\<lambda>_ _. True) s'"
    if "line_inv b (shift_opt (stock_part it) (woi_quantity it) c) orderId s'"
      "lookup_row woi_id itemId (work_order_items s') = Some it" "woi_workOrderId it = orderId"
    for s' it k
    using line_inv_delete [of b _ it s' itemId] that
    by (auto simp: wp_thenM wp_delete_by intro!: wp_line_recalculate)
  have main: "wp (thenM (case stock_part it of None \<Rightarrow> ret ()
        | Some pid \<Rightarrow> give_back tenantId pid (woi_quantity it) nt ref author)
      (thenM (delete_by work_order_items work_order_items_update woi_id itemId)
      (recalculate cx k))) (\<lambda>_. stock_inv b c) (\<lambda>_ _. True) s"
    if row: "lookup_row woi_id itemId (work_order_items s) = Some it" "woi_workOrderId it = orderId"
    for it nt ref k
  proof (cases "stock_part it")
    case None
    with delete [of it s] row line show ?thesis by (simp add: wp_simps)
  next
    case (Some pid)
    have "b \<longrightarrow> 0 \<le> woi_quantity it"
      using inv row by (auto simp: stock_inv_def stock_nonneg_def list_all_iff dest: lookup_row_mem)
    with Some row show ?thesis
      by (auto simp: wp_thenM [of "give_back _ _ _ _ _ _"]
          intro!: wp_give_back_line [OF line] delete [of it])
  qed
  show ?thesis
    unfolding removeItem_def
    by (intro wp_transaction_inv [of "stock_inv b c"] inv wp_with_order wp_with_item
        line_inv_wf [OF line]) (rule main TrueI; assumption?)+
qed

lemma wp_change_part:
  assumes line: "line_inv b c orderId s"
    and diff: "diff \<noteq> 0" and err: "\<And>e s'. E e s'"
    and ok: "\<And>s'. line_inv b (shift pid (- diff) c) orderId s' \<Longrightarrow>
      work_order_items s' = work_order_items s \<Longrightarrow> Q () s'"
  shows "wp (change_part tenantId pid diff wo author) Q E s"
proof (cases "diff > 0")
  case True
  have moved: "line_inv b (shift pid (- diff) c) orderId s' \<and> work_order_items s' = work_order_items s"
    if "stock_moved pid (- diff) s s'" "stock_nonneg s \<longrightarrow> stock_nonneg s'" for s'
    using stock_moved_line [OF line that] that(1) by (simp add: stock_moved_def)
  have frame: "line_inv b c' orderId (stock_movements_update f s') = line_inv b c' orderId s'" for c' f s'
    by (auto simp: line_inv_def intro: stock_inv_frame)
  from True have eq: "(if 0 < diff then m else n) = m" for m n :: "unit dbM"
    by simp
  show ?thesis
    unfolding change_part_def eq wp_bindM [of "take_stock _ _ _"]
    by (rule wp_take_stock [OF line_inv_wf [OF line]])
      (auto simp: wp_simps find_product_def err frame intro!: ok dest: moved)
next
  case False
  with diff show ?thesis
    by (auto simp: change_part_def intro!: wp_give_back_line [OF line] err ok)
qed

lemma changed_item_frame [simp]:
  "woi_id (changed_item cx dat q it) = woi_id it"
  "woi_workOrderId (changed_item cx dat q it) = woi_workOrderId it"
  "stock_part (changed_item cx dat q it) = stock_part it"
  "woi_quantity (changed_item cx dat q it) = q"
  by (simp_all add: changed_item_def Let_def stock_part_def)

lemma wp_updateItem:
  assumes inv: "stock_inv b c s" and open': "open_order (work_orders s) orderId"
  shows "wp (updateItem cx tenantId orderId itemId dat author)
     (\<lambda>_. stock_inv b c) (\<lambda>_. stock_inv b c) s"
proof -
  have line: "line_inv b c orderId s"
    using inv open' by (simp add: line_inv_def)
  have update: "wp (thenM (update_by work_order_items work_order_items_update woi_id itemId
        (changed_item cx dat q)) (recalculate cx k)) (\<lambda>_. stock_inv b c) (\<lambda>_ _. True) s'"
    if "line_inv b (shift_opt (stock_part it) (woi_quantity it - q) c) orderId s'"
      "lookup_row woi_id itemId (work_order_items s') = Some it" "woi_workOrderId it = orderId"
      "b \<longrightarrow> 0 \<le> q"
    for s' it k q
    using line_inv_update [of b "shift_opt (stock_part it) (woi_quantity it - q) c" it s' itemId
        "changed_item cx dat q"] that
    by (auto simp: wp_thenM wp_update_by intro!: wp_line_recalculate)
  have main: "wp (thenM (if q - woi_quantity it = 0 then ret () else
             (case stock_part it of
                None \<Rightarrow> ret () | Some pid \<Rightarrow> change_part tenantId pid (q - woi_quantity it) wo author))
      (thenM (update_by work_order_items work_order_items_update woi_id itemId
        (changed_item cx dat q)) (recalculate cx k))) (\<lambda>_. stock_inv b c) (\<lambda>_ _. True) s"
    if row: "lookup_row woi_id itemId (work_order_items s) = Some it" "woi_workOrderId it = orderId"
      and q: "b \<longrightarrow> 0 \<le> q" for it wo q k
  proof (cases "q = woi_quantity it \<or> stock_part it = None")
    case True
    with update [of it q s] row line q show ?thesis by (auto simp: wp_simps split: option.split)
  next
    case False
    then obtain pid where pid: "stock_part it = Some pid" and q_ne: "q - woi_quantity it \<noteq> 0"
      by auto
    have "wp (change_part tenantId pid (q - woi_quantity it) wo author)
        (\<lambda>_. wp (thenM (update_by work_order_items work_order_items_update woi_id itemId
          (changed_item cx dat q)) (recalculate cx k)) (\<lambda>_. stock_inv b c) (\<lambda>_ _. True))
        (\<lambda>_ _. True) s"
      by (rule wp_change_part [OF line q_ne]) (use row q pid in \<open>auto intro!: update [of it]\<close>)
    with pid q_ne show ?thesis
      by (simp add: wp_thenM [of "change_part _ _ _ _ _"])
  qed
  have old: "b \<longrightarrow> 0 \<le> woi_quantity it" if "lookup_row woi_id itemId (work_order_items s) = Some it" for it
    using inv that by (auto simp: stock_inv_def stock_nonneg_def list_all_iff dest: lookup_row_mem)
  have checked: "wp (thenM (ensure (case iu_quantity dat of None \<Rightarrow> True | Some q \<Rightarrow> q > 0) e)
      (let newQuantity = (case iu_quantity dat of None \<Rightarrow> woi_quantity it | Some q \<Rightarrow> q);
           diff = newQuantity - woi_quantity it
       in thenM (if diff = 0 then ret () else
             (case stock_part it of
                None \<Rightarrow> ret () | Some pid \<Rightarrow> change_part tenantId pid diff wo author))
          (thenM (update_by work_order_items work_order_items_update woi_id itemId
             (changed_item cx dat newQuantity))
          (recalculate cx k)))) (\<lambda>_. stock_inv b c) (\<lambda>_ _. True) s"
    if row: "lookup_row woi_id itemId (work_order_items s) = Some it" "woi_workOrderId it = orderId"
    for it e wo k
    using main [OF row] main [OF row, of "woi_quantity it"] old [OF row(1)]
    by (cases "iu_quantity dat") (simp_all add: wp_thenM [of "ensure _ _"] wp_ensure Let_def)
  show ?thesis
    unfolding updateItem_def
    by (intro wp_transaction_inv [of "stock_inv b c"] inv wp_with_order wp_with_item
        line_inv_wf [OF line]) (rule checked TrueI; assumption?)+
qed

section \<open>Status changes\<close>

text \<open>The other tables do not matter.\<close>

lemma stock_inv_other [simp]:
  "stock_inv b c (tenants_update f1 s) = stock_inv b c s"
  "stock_inv b c (customers_update f2 s) = stock_inv b c s"
  "stock_inv b c (vehicles_update f3 s) = stock_inv b c s"
  "stock_inv b c (appointments_update f4 s) = stock_inv b c s"
  "stock_inv b c (work_order_notes_update f5 s) = stock_inv b c s"
  "stock_inv b c (work_order_photos_update f6 s) = stock_inv b c s"
  "stock_inv b c (stock_movements_update f7 s) = stock_inv b c s"
  "stock_inv b c (invoices_update f8 s) = stock_inv b c s"
  "stock_inv b c (invoice_items_update f9 s) = stock_inv b c s"
  "stock_inv b c (payments_update f10 s) = stock_inv b c s"
  "stock_inv b c (payment_attempts_update f11 s) = stock_inv b c s"
  "stock_inv b c (current_accounts_update f12 s) = stock_inv b c s"
  "stock_inv b c (cari_movements_update f13 s) = stock_inv b c s"
  "stock_inv b c (document_sequences_update f14 s) = stock_inv b c s"
  "stock_inv b c (id_supply_update f15 s) = stock_inv b c s"
  "stock_inv b c (outbox_update f16 s) = stock_inv b c s"
  by (rule iffI; erule stock_inv_frame; simp)+

lemma keeps_stock_emit [keeps_intros]: "keeps (stock_inv b c) (emit e)"
  and keeps_stock_fresh_id [keeps_intros]: "keeps (stock_inv b c) (fresh_id cx)"
  by (auto simp: keeps_def wp_simps)

lemma keeps_stock_next_sequence [keeps_intros]:
  "keeps (stock_inv b c) (next_sequence tenantId docType yr)"
  unfolding next_sequence_def by (intro keeps_intros keeps_frame) simp_all

lemma keeps_stock_getNextWorkOrderNumber [keeps_intros]:
  "keeps (stock_inv b c) (getNextWorkOrderNumber cx tenantId)"
  unfolding getNextWorkOrderNumber_def by (intro keeps_intros)

lemma keeps_stock_syncAppointmentStatus [keeps_intros]:
  "keeps (stock_inv b c) (syncAppointmentStatus tenantId appointmentId status)"
  unfolding syncAppointmentStatus_def by (intro keeps_intros keeps_frame) simp_all

definition order_parts :: "db \<Rightarrow> uuid \<Rightarrow> uuid \<Rightarrow> int" where
  "order_parts s orderId pid =
     total (part_quantity pid) (filter (\<lambda>it. woi_workOrderId it = orderId) (work_order_items s))"

text \<open>Cancelling an open order releases what it holds.\<close>

lemma held_in_cancel:
  assumes "open_order orders k" and "\<not> open_order orders' k"
    and "\<And>x. x \<noteq> k \<Longrightarrow> open_order orders' x = open_order orders x"
  shows "held_in orders' its pid =
    held_in orders its pid - total (part_quantity pid) (filter (\<lambda>it. woi_workOrderId it = k) its)"
proof (induction its)
  case (Cons it its)
  then show ?case
    using assms by (cases "woi_workOrderId it = k") (auto simp: held_in_def)
qed (simp add: held_in_def)

lemma stock_inv_cancel:
  assumes inv: "stock_inv b c s" and open': "open_order (work_orders s) k"
    and key: "\<And>w. wo_id (f w) = wo_id w" and status: "\<And>w. wo_status (f w) = CANCELLED"
  shows "stock_inv b (\<lambda>pid. c pid - order_parts s k pid)
    (s\<lparr>work_orders := update_row wo_id k f (work_orders s)\<rparr>)" (is "stock_inv b _ ?s'")
proof -
  have "stock_wf ?s'"
    by (rule stock_wf_cong [of s]) (use inv key in \<open>auto simp: stock_inv_def keys_update_row\<close>)
  moreover have "held ?s' pid = held s pid - order_parts s k pid" for pid
    unfolding held_def order_parts_def
    by (simp, rule held_in_cancel [OF open'])
      (auto simp: open_order_def lookup_update_row key status split: option.split)
  ultimately show ?thesis
    using inv stock_of_cong [of ?s' s]
    by (auto simp: stock_inv_def committed_def [abs_def] stock_nonneg_def fun_eq_iff)
qed

text \<open>Giving parts back cannot fail while every part names a product.\<close>

lemma wp_give_back_known:
  assumes inv: "stock_inv b c s" and known: "pid \<in> p_id ` set (products s)" and q: "b \<longrightarrow> 0 \<le> q"
    and ok: "\<And>s'. stock_inv b (shift pid q c) s' \<Longrightarrow> work_orders s' = work_orders s \<Longrightarrow>
      work_order_items s' = work_order_items s \<Longrightarrow> map p_id (products s') = map p_id (products s) \<Longrightarrow>
      Q () s'"
  shows "wp (give_back tenantId pid q nt ref author) Q E s"
proof -
  obtain r where row: "lookup_row p_id pid (products s) = Some r"
    using known by (metis lookup_row_None not_None_eq)
  let ?s' = "s\<lparr>products := update_row p_id pid (add_stock q) (products s)\<rparr>"
  have wf: "stock_wf s" and unique: "unique_rows p_id (products s)"
    using inv by (simp_all add: stock_inv_def stock_wf_def)
  have moved: "stock_moved pid q s ?s'"
    by (rule add_stock_moved [OF wf row]) simp_all
  have "0 \<le> stock_of s pid" if "stock_nonneg s"
    using that unfolding stock_of_def
    by (intro total_nonneg) (auto simp: stock_nonneg_def list_all_iff)
  with q moved have "b \<longrightarrow> stock_nonneg s \<longrightarrow> stock_nonneg ?s'"
    by (simp add: stock_moved_def)
  from stock_moved_inv [OF inv moved this] moved row show ?thesis
    by (simp add: give_back_def wp_simps stock_moved_def ok)
qed

text \<open>The loop of \<open>restoreCancelledStock\<close> puts back what the lines held.\<close>

definition lines_known :: "db \<Rightarrow> work_order_item list \<Rightarrow> bool" where
  "lines_known s its \<longleftrightarrow>
     list_all (\<lambda>it. pred_option (\<lambda>pid. pid \<in> p_id ` set (products s)) (stock_part it)) its"

lemma lines_known_cong:
  "map p_id (products s') = map p_id (products s) \<Longrightarrow> lines_known s' its = lines_known s its"
  unfolding lines_known_def by (metis list.set_map)

lemma part_quantity_shift:
  "(\<lambda>pid. c pid - total (part_quantity pid) its) =
     shift_opt (stock_part it) (woi_quantity it) (\<lambda>pid. c pid - total (part_quantity pid) (it # its))"
  by (auto simp: fun_eq_iff shift_opt_def shift_def part_quantity_def split: option.split)

lemma wp_return_lines:
  assumes "stock_inv b (\<lambda>pid. c pid - total (part_quantity pid) its) s" and "lines_known s its"
    and "b \<longrightarrow> list_all (\<lambda>it. 0 \<le> woi_quantity it) its"
  shows "wp (for_each its (return_line tenantId orderId number author))
     (\<lambda>_. stock_inv b c) (\<lambda>_ _. False) s"
proof -
  let ?I = "\<lambda>its s. stock_inv b (\<lambda>pid. c pid - total (part_quantity pid) its) s \<and>
    lines_known s its \<and> (b \<longrightarrow> list_all (\<lambda>it. 0 \<le> woi_quantity it) its)"
  have "wp (for_each its (return_line tenantId orderId number author))
     (\<lambda>_. ?I []) (\<lambda>_ _. False) s"
  proof (rule wp_for_each_rest [where I = ?I])
    fix it its s assume I: "?I (it # its) s"
    let ?c = "\<lambda>pid. c pid - total (part_quantity pid) (it # its)"
    have inv: "stock_inv b ?c s" and known: "lines_known s its" and q: "b \<longrightarrow> 0 \<le> woi_quantity it"
      and rest: "b \<longrightarrow> list_all (\<lambda>it. 0 \<le> woi_quantity it) its"
      using I by (auto simp: lines_known_def)
    show "wp (return_line tenantId orderId number author it) (\<lambda>_. ?I its) (\<lambda>_ _. False) s"
    proof (cases "stock_part it")
      case None
      then have "(\<lambda>pid. c pid - total (part_quantity pid) its) = ?c"
        using part_quantity_shift [of c its it] by simp
      then show ?thesis
        using inv known rest None by (simp add: return_line_def wp_simps)
    next
      case (Some pid)
      with I have pid: "pid \<in> p_id ` set (products s)"
        by (simp add: lines_known_def)
      have "(\<lambda>pid. c pid - total (part_quantity pid) its) = shift pid (woi_quantity it) ?c"
        using part_quantity_shift [of c its it] Some by simp
      moreover have "lines_known s' its" if "map p_id (products s') = map p_id (products s)" for s'
        using lines_known_cong [OF that] known by simp
      ultimately have "wp (give_back tenantId pid (woi_quantity it) nt orderId author)
          (\<lambda>_. ?I its) (\<lambda>_ _. False) s" for nt
        by (intro wp_give_back_known [OF inv pid q]) (simp add: rest)
      with Some show ?thesis
        by (simp add: return_line_def)
    qed
  qed (use assms in simp)
  then show ?thesis by (rule wp_mono) auto
qed

text \<open>What is due to the shelf after an order was cancelled, and is then put back.\<close>

lemma wp_restoreCancelledStock:
  assumes inv: "stock_inv b (\<lambda>pid. c pid - order_parts s orderId pid) s"
    and w: "w \<in> set (work_orders s)" "wo_id w = orderId" "wo_tenantId w = tenantId"
  shows "wp (restoreCancelledStock tenantId orderId userId)
     (\<lambda>_. stock_inv b c) (\<lambda>_ _. False) s"
proof -
  let ?its = "filter (\<lambda>it. woi_workOrderId it = orderId) (work_order_items s)"
  have "lines_known s ?its" and "b \<longrightarrow> list_all (\<lambda>it. 0 \<le> woi_quantity it) ?its"
    using inv by (auto simp: lines_known_def stock_inv_def stock_wf_def stock_nonneg_def list_all_iff)
  with inv have loop: "wp (for_each ?its (return_line tenantId orderId number author))
      (\<lambda>_. stock_inv b c) (\<lambda>_ _. False) s" for number author
    by (intro wp_return_lines) (simp_all add: order_parts_def)
  obtain w' where w': "find (\<lambda>w. wo_id w = orderId \<and> wo_tenantId w = tenantId) (work_orders s) = Some w'"
    using w by (metis (mono_tags, lifting) find_NoneD not_None_eq)
  then have "wo_id w' = orderId" by (auto dest: find_SomeD)
  with w' loop show ?thesis
    by (simp add: restoreCancelledStock_def findById_WorkOrder_def wp_simps)
qed

section \<open>Creating an order\<close>

lemma keeps_check_customer_vehicle [keeps_intros]: "keeps I (check_customer_vehicle tenantId dat)"
  unfolding check_customer_vehicle_def by (intro keeps_intros)

lemma keeps_check_mechanic [keeps_intros]: "keeps I (check_mechanic cx tenantId m)"
  unfolding check_mechanic_def by (intro keeps_intros)

lemma keeps_take_appointment [keeps_intros]: "keeps (stock_inv b c) (take_appointment tenantId a)"
  unfolding take_appointment_def by (intro keeps_intros keeps_frame) simp_all

lemma stock_inv_new_order:
  assumes inv: "stock_inv b c s" and fresh: "wo_id w \<notin> wo_id ` set (work_orders s)"
    and open': "wo_status w \<noteq> CANCELLED"
  shows "line_inv b c (wo_id w) (s\<lparr>work_orders := work_orders s @ [w]\<rparr>)" (is "line_inv b c _ ?s'")
proof -
  have insert: "insert_row wo_id w (work_orders s) = Some (work_orders s @ [w])"
    using fresh by (simp add: insert_row_def)
  have lookup: "lookup_row wo_id k (work_orders s @ [w]) =
      (if k = wo_id w then Some w else lookup_row wo_id k (work_orders s))" for k
    by (rule lookup_insert_row [OF insert])
  have wf: "stock_wf s"
    using inv by (simp add: stock_inv_def)
  then have wf': "stock_wf ?s'"
    using unique_insert_row [OF _ insert] by (auto simp: stock_wf_def list_all_iff)
  have "woi_workOrderId it \<noteq> wo_id w" if "it \<in> set (work_order_items s)" for it
    using wf that fresh unfolding stock_wf_def list_all_iff by metis
  then have "held ?s' = held s"
    unfolding held_def [abs_def] held_in_def
    by (simp add: open_order_def lookup cong: total_cong) (auto intro!: ext total_cong simp: lookup)
  then have "stock_inv b c ?s'"
    using inv wf' stock_of_cong [of ?s' s]
    by (simp add: stock_inv_def committed_def [abs_def] stock_nonneg_def)
  moreover have "open_order (work_orders ?s') (wo_id w)"
    using open' by (simp add: open_order_def lookup)
  ultimately show ?thesis by (simp add: line_inv_def)
qed

lemma wp_insert_order:
  assumes "stock_inv b c s" and "wo_status w \<noteq> CANCELLED" and "\<And>e s'. E e s'"
    and "\<And>s'. line_inv b c (wo_id w) s' \<Longrightarrow> Q w s'"
  shows "wp (insert_order w) Q E s"
  using assms stock_inv_new_order [OF assms(1) _ assms(2)]
  by (auto simp: insert_order_def wp_simps)

lemma line_inv_other [simp]:
  "line_inv b c k (vehicles_update f s) = line_inv b c k s"
  by (simp add: line_inv_def)

lemma wp_insert_lines:
  assumes inv: "line_inv b c orderId s" and q: "b \<longrightarrow> list_all (\<lambda>it. 0 \<le> id_quantity it) items"
  shows "wp (for_each items (insert_line cx tenantId number orderId author))
     (\<lambda>_. line_inv b c orderId) (\<lambda>_ _. True) s"
proof (rule wp_for_each [where I = "line_inv b c orderId", OF _ inv])
  fix item s assume item: "item \<in> set items" and I: "line_inv b c orderId s"
  have "wp (thenM (case part_of item of None \<Rightarrow> ret ()
       | Some pid \<Rightarrow> consume_part tenantId pid (id_quantity item) number orderId author)
     (insert_item cx orderId item rate)) (\<lambda>_. line_inv b c orderId) (\<lambda>_ _. True) s" for rate
    by (rule wp_new_line [OF I]) (use q item in \<open>auto simp: list_all_iff\<close>)
  then show "wp (insert_line cx tenantId number orderId author item)
      (\<lambda>_. line_inv b c orderId) (\<lambda>_ _. True) s"
    by (simp add: insert_line_def wp_funs)
qed

lemma wp_create_WorkOrder:
  assumes inv: "stock_inv b c s" and q: "b \<longrightarrow> list_all (\<lambda>it. 0 \<le> id_quantity it) (od_items dat)"
    and open': "od_status dat \<noteq> CANCELLED"
  shows "wp (create_WorkOrder cx tenantId dat) (\<lambda>_. stock_inv b c) (\<lambda>_. stock_inv b c) s"
proof -
  have finish: "wp (bindM (find_first work_orders P) (require e)) (\<lambda>_. stock_inv b c) (\<lambda>_ _. True) s'"
    if "line_inv b c k s'" for P e k s'
    using that by (auto simp: wp_simps line_inv_def split: option.split)
  have lines: "wp (thenM (whenM cond (thenM (update_by vehicles vehicles_update v_id k' g) (ret ())))
        (thenM (for_each (od_items dat) (insert_line cx tenantId number k author))
        (bindM (find_first work_orders P) (require e)))) (\<lambda>_. stock_inv b c) (\<lambda>_ _. True) s'"
    if k: "line_inv b c k s'" for cond k' g number k author P e s'
  proof -
    have "wp (thenM (for_each (od_items dat) (insert_line cx tenantId number k author))
        (bindM (find_first work_orders P) (require e))) (\<lambda>_. stock_inv b c) (\<lambda>_ _. True) s''"
      if "line_inv b c k s''" for s''
      unfolding wp_thenM by (rule wp_mono [OF wp_insert_lines [OF that q]]) (auto intro: finish)
    with k show ?thesis
      by (auto simp: wp_thenM [of "whenM _ _"] wp_whenM wp_thenM [of "update_by _ _ _ _ _"]
          wp_update_by wp_ret split: option.split)
  qed
  have order: "wp (bindM (insert_order (new_order cx ident tenantId dat)) k) (\<lambda>_. stock_inv b c)
      (\<lambda>_ _. True) s'"
    if "stock_inv b c s'" "\<And>w s'. line_inv b c (wo_id w) s' \<Longrightarrow> wp (k w) (\<lambda>_. stock_inv b c) (\<lambda>_ _. True) s'"
    for ident k s'
    unfolding wp_bindM
    by (rule wp_insert_order) (use that open' in \<open>auto simp: new_order_def\<close>)
  show ?thesis
    unfolding create_WorkOrder_def
    apply (rule wp_transaction_inv [where I = "stock_inv b c", OF inv])
    apply (subst wp_bindM, rule keeps_wp [where I = "stock_inv b c"], rule keeps_check_customer_vehicle, rule inv, simp)
    apply (subst wp_thenM, rule keeps_wp [where I = "stock_inv b c"], intro keeps_intros, assumption, simp)
    apply (subst wp_thenM, rule keeps_wp [where I = "stock_inv b c"], intro keeps_intros, assumption, simp)
    apply (subst wp_bindM, rule keeps_wp [where I = "stock_inv b c"], intro keeps_intros, assumption, simp)
    apply (rule order, assumption)
    apply (rule lines, assumption)
    done
qed

end
