(* ===== verification/Invoices.thy ===== *)
theory Invoices
  imports WorkOrderRepo
begin

text \<open>
  \<open>modules/invoices\<close>: line totals in cents (\<open>invoice-totals.ts\<close>), the invoice entity, the
  e-invoice providers, the repository with the ledger movements it makes in the same
  transaction (\<open>prisma-invoice.repository.ts\<close>) and the use cases that create and cancel an
  invoice. A number that is \<open>undefined\<close> or \<open>NaN\<close> is \<open>None\<close>; infinities do not occur in
  JSON. Advisory locks only order concurrent transactions and have no effect here. The
  columns \<open>profileId\<close>, \<open>invoiceTypeCode\<close> and \<open>notes\<close> of an invoice are left out.
\<close>

section \<open>Line totals (invoice-totals.ts)\<close>

record inv_line =
  il_itemType :: "WorkOrderItemType option"
  il_name :: "string option"
  il_quantity :: number
  il_unitPrice :: number
  il_kdvRate :: "number option"

record inv_totals =
  tot_subtotal :: number
  tot_kdvAmount :: number
  tot_grandTotal :: number

definition is_integer :: "number \<Rightarrow> bool" where
  "is_integer x \<longleftrightarrow> x = of_int \<lfloor>x\<rfloor>"

definition rate_of :: "inv_line \<Rightarrow> number" where
  "rate_of item = (case il_kdvRate item of None \<Rightarrow> 20 | Some r \<Rightarrow> r)"

definition bad_line :: "inv_line \<Rightarrow> bool" where
  "bad_line item \<longleftrightarrow> \<not> is_integer (il_quantity item) \<or> il_quantity item < 1 \<or>
     il_unitPrice item < 0 \<or> rate_of item < 0 \<or> rate_of item > 100"

definition line_cents :: "inv_line \<Rightarrow> number" where
  "line_cents item = fmul (of_int (math_round (fmul (il_unitPrice item) 100))) (il_quantity item)"

fun totals_loop :: "inv_line list \<Rightarrow> number \<Rightarrow> number \<Rightarrow> exn + number \<times> number" where
  "totals_loop [] subtotalCents taxCents = Inr (subtotalCents, taxCents)"
| "totals_loop (item # items) subtotalCents taxCents =
     (if bad_line item
      then Inl (DomainError ''Invalid invoice line quantity, price or tax rate.'')
      else totals_loop items (fadd subtotalCents (line_cents item))
        (fadd taxCents (of_int (math_round (fdiv (fmul (line_cents item) (rate_of item)) 100)))))"

definition calculateInvoiceTotals :: "inv_line list \<Rightarrow> exn + inv_totals" where
  "calculateInvoiceTotals items =
     (case totals_loop items 0 0 of
        Inl e \<Rightarrow> Inl e
      | Inr (subtotalCents, taxCents) \<Rightarrow> Inr
          \<lparr>tot_subtotal = fdiv subtotalCents 100, tot_kdvAmount = fdiv taxCents 100,
           tot_grandTotal = fdiv (fadd subtotalCents taxCents) 100\<rparr>)"

section \<open>The entity (invoice.entity.ts)\<close>

record invoice_entity =
  ie_id :: "uuid option"
  ie_tenantId :: uuid
  ie_workOrderId :: "uuid option"
  ie_customerId :: uuid
  ie_invoiceNumber :: string
  ie_issueDate :: int
  ie_dueDate :: int
  ie_subtotal :: "number option"
  ie_kdvAmount :: "number option"
  ie_grandTotal :: "number option"
  ie_paidAmount :: number
  ie_remainingAmount :: number
  ie_status :: InvoiceStatus
  ie_gibInvoiceNumber :: "string option"
  ie_eInvoiceStatus :: "string option"
  ie_eInvoiceUuid :: "string option"
  ie_items :: "inv_line list option"

definition num_or_zero :: "number option \<Rightarrow> number" where
  "num_or_zero x = (case x of None \<Rightarrow> 0 | Some v \<Rightarrow> v)"

definition canCancel :: "invoice_entity \<Rightarrow> bool" where
  "canCancel e \<longleftrightarrow> ie_status e \<noteq> I_CANCELLED"

definition cancel_entity :: "invoice_entity \<Rightarrow> exn + invoice_entity" where
  "cancel_entity e = (if \<not> canCancel e then Inl (DomainError ''Bu fatura zaten iptal edilmistir.'')
     else Inr (e\<lparr>ie_status := I_CANCELLED\<rparr>))"

text \<open>\<open>Number(x.toFixed(2))\<close>: the nearest hundredth of the exact value, ties away from zero.\<close>

definition to_fixed2 :: "number \<Rightarrow> int" where
  "to_fixed2 x = (if x < 0 then - \<lfloor>- x * 100 + 1 / 2\<rfloor> else \<lfloor>x * 100 + 1 / 2\<rfloor>)"

definition recordPayment :: "number \<Rightarrow> invoice_entity \<Rightarrow> exn + invoice_entity" where
  "recordPayment amount e =
     (if amount \<le> 0 then Inl (DomainError ''Odeme miktari 0 dan buyuk olmalidir.'')
      else if amount > ie_remainingAmount e
      then Inl (DomainError ''Odeme tutari kalan bakiyeden fazla olamaz.'')
      else
        let paid = fadd (ie_paidAmount e) amount;
            remaining = num_of_cents (to_fixed2 (fsub (num_or_zero (ie_grandTotal e)) paid))
        in Inr (e\<lparr>ie_paidAmount := paid, ie_remainingAmount := remaining,
             ie_status := (if remaining \<le> 0 then PAID else PARTIALLY_PAID)\<rparr>))"

definition isOverdue :: "ctx \<Rightarrow> invoice_entity \<Rightarrow> bool" where
  "isOverdue cx e \<longleftrightarrow> ie_status e \<noteq> PAID \<and> ie_status e \<noteq> I_CANCELLED \<and> now cx > ie_dueDate e"

text \<open>\<open>mapToEntity\<close>: the row as an entity; the date columns are days, read at midnight.\<close>

definition day_start :: "int \<Rightarrow> int" where
  "day_start d = d * 86400000"

definition line_of_item :: "invoice_item \<Rightarrow> inv_line" where
  "line_of_item it = \<lparr>il_itemType = Some (ii_itemType it), il_name = Some (ii_name it),
     il_quantity = num_of_int (ii_quantity it), il_unitPrice = num_of_cents (ii_unitPrice it),
     il_kdvRate = Some (num_of_cents (ii_kdvRate it))\<rparr>"

definition mapToEntity :: "invoice_item list option \<Rightarrow> invoice \<Rightarrow> invoice_entity" where
  "mapToEntity items i =
     \<lparr>ie_id = Some (i_id i), ie_tenantId = i_tenantId i, ie_workOrderId = i_workOrderId i,
      ie_customerId = i_customerId i, ie_invoiceNumber = i_invoiceNumber i,
      ie_issueDate = day_start (i_issueDate i), ie_dueDate = day_start (i_dueDate i),
      ie_subtotal = Some (num_of_cents (i_subtotal i)),
      ie_kdvAmount = Some (num_of_cents (i_kdvAmount i)),
      ie_grandTotal = Some (num_of_cents (i_grandTotal i)),
      ie_paidAmount = num_of_cents (i_paidAmount i),
      ie_remainingAmount = num_of_cents (i_remainingAmount i), ie_status = i_status i,
      ie_gibInvoiceNumber = i_gibInvoiceNumber i, ie_eInvoiceStatus = i_eInvoiceStatus i,
      ie_eInvoiceUuid = i_eInvoiceUuid i, ie_items = map_option (map line_of_item) items\<rparr>"

section \<open>E-invoice providers\<close>

record einvoice_result =
  er_success :: bool
  er_uuid :: string
  er_gibNumber :: string
  er_status :: string

text \<open>
  \<open>getProvider\<close>: the provider the tenant configured. The four external ones are
  placeholders that report failure; the default is the internal draft provider, which draws
  a random identifier. The credentials (decrypted, never used) are left out.
\<close>

definition getProvider :: "uuid \<Rightarrow> InvoiceProviderType dbM" where
  "getProvider tenantId =
     bindM (find_first invoice_settings (\<lambda>t. ts_tenantId t = tenantId)) (\<lambda>config.
       ret (case config of None \<Rightarrow> INTERNAL
            | Some c \<Rightarrow> if ts_provider c \<in> {PARASUT, NILVERA, BIZIMHESAP, KOLAYBI}
                then ts_provider c else INTERNAL))"

definition provider_createInvoice :: "ctx \<Rightarrow> InvoiceProviderType \<Rightarrow> einvoice_result dbM" where
  "provider_createInvoice cx provider =
     (if provider = INTERNAL then
        bindM (fresh_id cx) (\<lambda>draftUuid. ret
          \<lparr>er_success = True, er_uuid = draftUuid, er_gibNumber = [], er_status = ''DRAFT''\<rparr>)
      else ret \<lparr>er_success = False, er_uuid = [], er_gibNumber = [], er_status = ''FAILED''\<rparr>)"

definition provider_cancelInvoice :: "InvoiceProviderType \<Rightarrow> bool \<times> string" where
  "provider_cancelInvoice provider =
     (if provider = INTERNAL then (True, ''Dahili fatura basariyla iptal edildi.'')
      else (False, ''Live invoice cancellation is not implemented for this provider.''))"

section \<open>The repository: lookups\<close>

abbreviation update_invoice :: "uuid \<Rightarrow> (invoice \<Rightarrow> invoice) \<Rightarrow> invoice dbM" where
  "update_invoice k f \<equiv> update_by invoices invoices_update i_id k f"

abbreviation update_account :: "uuid \<Rightarrow> (current_account \<Rightarrow> current_account) \<Rightarrow> current_account dbM" where
  "update_account k f \<equiv> update_by current_accounts current_accounts_update ca_id k f"

definition find_invoice :: "uuid \<Rightarrow> uuid \<Rightarrow> invoice option dbM" where
  "find_invoice tenantId ident = find_first invoices (\<lambda>i. i_id i = ident \<and> i_tenantId i = tenantId)"

definition findById_Invoice :: "uuid \<Rightarrow> uuid \<Rightarrow> invoice_entity option dbM" where
  "findById_Invoice tenantId ident =
     bindM (find_invoice tenantId ident) (\<lambda>dat.
     bindM (find_many invoice_items (\<lambda>it. ii_invoiceId it = ident)) (\<lambda>items.
       ret (map_option (mapToEntity (Some items)) dat)))"

definition findByWorkOrderId :: "uuid \<Rightarrow> uuid \<Rightarrow> invoice_entity option dbM" where
  "findByWorkOrderId tenantId workOrderId =
     bindM (find_first invoices (\<lambda>i. i_tenantId i = tenantId \<and> i_workOrderId i = Some workOrderId))
       (\<lambda>dat. ret (map_option (mapToEntity None) dat))"

definition invoice_number :: "nat \<Rightarrow> nat \<Rightarrow> string" where
  "invoice_number yr n = ''INV-'' @ nat_str yr @ ''-'' @ pad_start 5 (nat_str n)"

definition gib_number :: "nat \<Rightarrow> nat \<Rightarrow> string" where
  "gib_number yr n = ''GIB'' @ nat_str yr @ pad_start 9 (nat_str n)"

definition getNextInvoiceNumber :: "ctx \<Rightarrow> uuid \<Rightarrow> (string \<times> string) dbM" where
  "getNextInvoiceNumber cx tenantId =
     bindM (next_sequence tenantId DOC_INVOICE (year cx)) (\<lambda>n.
       ret (invoice_number (year cx) n, gib_number (year cx) n))"

section \<open>The repository: createWithCariMovement\<close>

definition line_of_order_item :: "work_order_item \<Rightarrow> inv_line" where
  "line_of_order_item it = \<lparr>il_itemType = Some (woi_itemType it), il_name = Some (woi_name it),
     il_quantity = num_of_int (woi_quantity it), il_unitPrice = num_of_cents (woi_unitPrice it),
     il_kdvRate = Some (num_of_cents (woi_kdvRate it))\<rparr>"

text \<open>Steps 1 and 2: the customer, and the lines of the linked order.\<close>

definition invoice_customer :: "invoice_entity \<Rightarrow> customer dbM" where
  "invoice_customer invo =
     bindM (find_first customers (\<lambda>c. c_id c = ie_customerId invo \<and>
         c_tenantId c = ie_tenantId invo \<and> c_deletedAt c = None)) (\<lambda>customer.
     require (BadRequestException
       ''Faturanin ait oldugu musteri bulunamadi veya bu isletmeye ait degil.'') customer)"

definition invoice_order :: "invoice_entity \<Rightarrow> work_order_item list dbM" where
  "invoice_order invo =
     (case or_null (ie_workOrderId invo) of
        None \<Rightarrow> ret []
      | Some orderId \<Rightarrow>
          bindM (findById_WorkOrder (ie_tenantId invo) orderId) (\<lambda>found.
          bindM (require (BadRequestException
            ''Faturanin ait oldugu is emri bulunamadi veya bu isletmeye ait degil.'') found) (\<lambda>workOrder.
          thenM (ensure (wo_customerId workOrder = ie_customerId invo) (BadRequestException
            ''Is emri ile faturanin musterisi ayni olmalidir.''))
          (thenM (ensure (wo_status workOrder \<noteq> CANCELLED) (BadRequestException
            ''Iptal edilmis bir is emrine fatura kesilemez.''))
          (bindM (find_first invoices (\<lambda>i. i_workOrderId i = Some orderId \<and>
              i_tenantId i = ie_tenantId invo \<and> i_status i \<noteq> I_CANCELLED)) (\<lambda>existing.
          thenM (ensure (existing = None) (BadRequestException
            ''Bu is emrine ait aktif bir fatura zaten mevcuttur.''))
          (find_many work_order_items (\<lambda>it. woi_workOrderId it = wo_id workOrder))))))))"

definition effective_items :: "invoice_entity \<Rightarrow> work_order_item list \<Rightarrow> inv_line list" where
  "effective_items invo orderItems =
     (let given = (case ie_items invo of None \<Rightarrow> [] | Some its \<Rightarrow> its);
          chosen = (if given \<noteq> [] then given else map line_of_order_item orderItems)
      in if chosen \<noteq> [] then chosen
         else
           let fallbackSubtotal = or_num (num_or_zero (ie_subtotal invo))
             (fdiv (of_int (math_round (fmul (fdiv (num_or_zero (ie_grandTotal invo)) (fl (6 / 5))) 100))) 100)
           in [\<lparr>il_itemType = None, il_name = Some ''Genel Servis & Bakim Bedeli'', il_quantity = 1,
                il_unitPrice = fallbackSubtotal, il_kdvRate = Some 20\<rparr>])"

text \<open>A given total may differ from the lines by at most 3 cents; the lines win.\<close>

definition total_agrees :: "number option \<Rightarrow> number \<Rightarrow> bool" where
  "total_agrees given computed \<longleftrightarrow>
     (case given of None \<Rightarrow> True
      | Some x \<Rightarrow> \<bar>math_round (fmul x 100) - math_round (fmul computed 100)\<bar> \<le> 3)"

definition agreed_totals :: "invoice_entity \<Rightarrow> inv_line list \<Rightarrow> exn + inv_totals" where
  "agreed_totals invo items =
     (case calculateInvoiceTotals items of
        Inl (DomainError m) \<Rightarrow> Inl (BadRequestException m)
      | Inl e \<Rightarrow> Inl e
      | Inr t \<Rightarrow>
          if total_agrees (ie_subtotal invo) (tot_subtotal t) \<and>
             total_agrees (ie_kdvAmount invo) (tot_kdvAmount t) \<and>
             total_agrees (ie_grandTotal invo) (tot_grandTotal t)
          then Inr t
          else Inl (BadRequestException ''Fatura toplamlari kalemler ile uyusmuyor.''))"

text \<open>Step 3: the account of the customer, opened when there is none.\<close>

definition open_account :: "ctx \<Rightarrow> uuid \<Rightarrow> uuid \<Rightarrow> current_account dbM" where
  "open_account cx tenantId customerId =
     bindM (find_first current_accounts (\<lambda>a. ca_customerId a = customerId \<and> ca_tenantId a = tenantId))
       (\<lambda>found. case found of
          Some a \<Rightarrow> ret a
        | None \<Rightarrow>
            thenM (unique_index current_accounts ''current_accounts_customer_id_key''
              (\<lambda>a. ca_customerId a = customerId))
            (bindM (fresh_id cx) (\<lambda>ident.
              create_row current_accounts current_accounts_update ca_id
                \<lparr>ca_id = ident, ca_tenantId = tenantId, ca_customerId = customerId,
                 ca_totalDebits = 0, ca_totalCredits = 0, ca_balance = 0, ca_creditLimit = 0,
                 ca_isBlocked = False\<rparr>)))"

definition advance_paid :: "number \<Rightarrow> cents \<Rightarrow> number option \<Rightarrow> number" where
  "advance_paid grandTotal balance offsetAdvanceAmount =
     (let currentBalance = num_of_cents balance in
      case offsetAdvanceAmount of
        None \<Rightarrow> 0
      | Some a \<Rightarrow> if a > 0 \<and> currentBalance < 0
          then min grandTotal (min \<bar>currentBalance\<bar> a) else 0)"

definition initial_remaining :: "number \<Rightarrow> number \<Rightarrow> number" where
  "initial_remaining grandTotal advancePaid = max 0 (fsub grandTotal advancePaid)"

definition initial_status :: "number \<Rightarrow> number \<Rightarrow> InvoiceStatus \<Rightarrow> InvoiceStatus" where
  "initial_status initialRemaining advancePaid status =
     (if initialRemaining \<le> 0 then PAID
      else if advancePaid > 0 then PARTIALLY_PAID
      else status)"

definition insert_invoice :: "invoice \<Rightarrow> invoice dbM" where
  "insert_invoice i =
     thenM (unique_index invoices ''invoices_tenant_id_invoice_number_key''
       (\<lambda>x. i_tenantId x = i_tenantId i \<and> i_invoiceNumber x = i_invoiceNumber i))
     (thenM (unique_index invoices ''invoices_work_order_id_key''
       (\<lambda>x. i_workOrderId i \<noteq> None \<and> i_workOrderId x = i_workOrderId i))
     (create_row invoices invoices_update i_id i))"

definition invoice_numbers :: "ctx \<Rightarrow> invoice_entity \<Rightarrow> (string \<times> string option) dbM" where
  "invoice_numbers cx invo =
     (if ie_invoiceNumber invo = [] \<or> ie_invoiceNumber invo = ''PENDING'' then
        bindM (getNextInvoiceNumber cx (ie_tenantId invo)) (\<lambda>(number, gib). ret (number, Some gib))
      else ret (ie_invoiceNumber invo, ie_gibInvoiceNumber invo))"

definition new_invoice ::
  "ctx \<Rightarrow> uuid \<Rightarrow> string \<times> string option \<Rightarrow> invoice_entity \<Rightarrow> inv_totals \<Rightarrow> number \<Rightarrow> invoice" where
  "new_invoice cx ident numbers invo t advancePaid =
     (let initialRemaining = initial_remaining (tot_grandTotal t) advancePaid in
      \<lparr>i_id = ident, i_tenantId = ie_tenantId invo, i_workOrderId = ie_workOrderId invo,
       i_customerId = ie_customerId invo, i_invoiceNumber = fst numbers,
       i_issueDate = day_of (ie_issueDate invo), i_dueDate = day_of (ie_dueDate invo),
       i_subtotal = dec2 cx (tot_subtotal t), i_kdvAmount = dec2 cx (tot_kdvAmount t),
       i_grandTotal = dec2 cx (tot_grandTotal t), i_paidAmount = dec2 cx advancePaid,
       i_remainingAmount = dec2 cx initialRemaining,
       i_status = initial_status initialRemaining advancePaid (ie_status invo),
       i_eInvoiceUuid = ie_eInvoiceUuid invo,
       i_eInvoiceStatus = Some (or_else (ie_eInvoiceStatus invo) ''COMPLETED''),
       i_gibInvoiceNumber = snd numbers\<rparr>)"

definition snapshot_item :: "ctx \<Rightarrow> uuid \<Rightarrow> inv_line \<Rightarrow> invoice_item" where
  "snapshot_item cx invoiceId item =
     \<lparr>ii_invoiceId = invoiceId,
      ii_itemType = (case il_itemType item of None \<Rightarrow> SERVICE | Some t \<Rightarrow> t),
      ii_name = or_else (il_name item) ''Hizmet / Kalem'',
      ii_quantity = \<lfloor>or_num (il_quantity item) 1\<rfloor>,
      ii_unitPrice = dec2 cx (il_unitPrice item),
      ii_kdvRate = dec2 cx (rate_of item),
      ii_totalPrice = dec2 cx (fdiv (line_cents item) 100)\<rparr>"

text \<open>Posting the invoice on the account, with the movement that records it.\<close>

definition post_debit :: "ctx \<Rightarrow> uuid \<Rightarrow> current_account \<Rightarrow> cents \<Rightarrow> string \<Rightarrow> cents dbM" where
  "post_debit cx tenantId account amount number =
     bindM (update_account (ca_id account) (\<lambda>a. a\<lparr>ca_totalDebits := ca_totalDebits a + amount,
         ca_balance := ca_balance a + amount\<rparr>)) (\<lambda>updatedCA.
     thenM (add_row cari_movements_update
       \<lparr>cm_tenantId = tenantId, cm_currentAccountId = ca_id account,
        cm_description = ''Fatura Kesildi (#'' @ number @ '')'', cm_referenceType = CARI_INVOICE,
        cm_referenceNo = Some number, cm_debit = amount, cm_credit = 0,
        cm_balanceAfter = ca_balance updatedCA\<rparr>)
     (ret (ca_balance updatedCA)))"

definition add_advance_payment :: "ctx \<Rightarrow> invoice_entity \<Rightarrow> uuid \<Rightarrow> number \<Rightarrow> unit dbM" where
  "add_advance_payment cx invo invoiceId advancePaid =
     bindM (fresh_id cx) (\<lambda>ident.
     thenM (create_row payments payments_update pay_id
       \<lparr>pay_id = ident, pay_tenantId = ie_tenantId invo, pay_invoiceId = Some invoiceId,
        pay_customerId = ie_customerId invo, pay_amount = dec2 cx advancePaid,
        pay_paymentMethod = ADVANCE_OFFSET, pay_paymentDate = now cx,
        pay_cashierName = ''Sistem (Cari Avans Mahsubu)'', pay_posSlipNo = None,
        pay_notes = Some (''Fatura #'' @ ie_invoiceNumber invo @
          '' icin musteri cari avansindan mahsup edildi.''),
        pay_gatewayProvider = None, pay_transactionId = None\<rparr>)
     (ret ()))"

definition complete_order :: "ctx \<Rightarrow> uuid \<Rightarrow> unit dbM" where
  "complete_order cx orderId =
     thenM (update_order cx orderId (\<lambda>w. w\<lparr>wo_status := COMPLETED, wo_completedAt := Some (now cx)\<rparr>))
       (ret ())"

record create_result =
  cr_invoice :: invoice_entity
  cr_newBalance :: cents
  cr_creditLimit :: cents

definition createWithCariMovement ::
  "ctx \<Rightarrow> invoice_entity \<Rightarrow> number option \<Rightarrow> create_result dbM" where
  "createWithCariMovement cx invo offsetAdvanceAmount = transaction
     (bindM (invoice_customer invo) (\<lambda>customer.
      bindM (invoice_order invo) (\<lambda>orderItems.
      let effectiveItems = effective_items invo orderItems in
      bindM (lift_sum (agreed_totals invo effectiveItems)) (\<lambda>t.
      bindM (open_account cx (ie_tenantId invo) (ie_customerId invo)) (\<lambda>account.
      thenM (ensure (\<not> ca_isBlocked account) (BadRequestException
        ''Bu musterinin cari hesabi bloke durumdadir. Yeni fatura kesilemez.''))
      (let advancePaid = advance_paid (tot_grandTotal t) (ca_balance account) offsetAdvanceAmount in
      bindM (invoice_numbers cx invo) (\<lambda>numbers.
      bindM (fresh_id cx) (\<lambda>ident.
      bindM (insert_invoice (new_invoice cx ident numbers invo t advancePaid)) (\<lambda>created.
      thenM (modifyM (invoice_items_update
        (\<lambda>rows. rows @ map (snapshot_item cx (i_id created)) effectiveItems)))
      (thenM (whenM (advancePaid > 0) (add_advance_payment cx invo (i_id created) advancePaid))
      (bindM (post_debit cx (ie_tenantId invo) account (dec2 cx (tot_grandTotal t)) (fst numbers))
        (\<lambda>newBalance.
      thenM (case or_null (ie_workOrderId invo) of None \<Rightarrow> ret () | Some w \<Rightarrow> complete_order cx w)
      (bindM (find_many invoice_items (\<lambda>it. ii_invoiceId it = i_id created)) (\<lambda>items.
        ret \<lparr>cr_invoice = mapToEntity (Some items) created, cr_newBalance = newBalance,
             cr_creditLimit = c_creditLimit customer\<rparr>))))))))))))))"

section \<open>The repository: cancelWithCariReversal\<close>

definition post_reversal :: "ctx \<Rightarrow> uuid \<Rightarrow> current_account \<Rightarrow> invoice \<Rightarrow> string \<Rightarrow> unit dbM" where
  "post_reversal cx tenantId account cancelled reason =
     (let newTotalDebits = max 0 (fsub (num_of_cents (ca_totalDebits account))
            (num_of_cents (i_grandTotal cancelled)));
          newTotalCredits = num_of_cents (ca_totalCredits account);
          newBalance = fsub newTotalDebits newTotalCredits
      in thenM (update_account (ca_id account) (\<lambda>a. a\<lparr>ca_totalDebits := dec2 cx newTotalDebits,
            ca_balance := dec2 cx newBalance\<rparr>))
         (thenM (add_row cari_movements_update
            \<lparr>cm_tenantId = tenantId, cm_currentAccountId = ca_id account,
             cm_description = ''Fatura Iptal Edildi (#'' @ i_invoiceNumber cancelled @
               '') - Neden: '' @ reason,
             cm_referenceType = CARI_INVOICE, cm_referenceNo = Some (i_invoiceNumber cancelled),
             cm_debit = 0, cm_credit = dec2 cx (num_of_cents (i_grandTotal cancelled)),
             cm_balanceAfter = dec2 cx newBalance\<rparr>)
          (ret ())))"

text \<open>The payments of the invoice are kept; only their note changes.\<close>

definition note_transfer :: "invoice \<Rightarrow> payment \<Rightarrow> unit dbM" where
  "note_transfer cancelled p =
     thenM (update_by payments payments_update pay_id (pay_id p) (\<lambda>r. r\<lparr>pay_notes :=
       Some (if truthy (pay_notes p)
         then the (pay_notes p) @ '' (Fatura #'' @ i_invoiceNumber cancelled @
           '' iptali nedeniyle avansa aktarildi)''
         else ''Fatura #'' @ i_invoiceNumber cancelled @
           '' iptali nedeniyle musteri avansina aktarildi'')\<rparr>)) (ret ())"

definition reopen_order :: "ctx \<Rightarrow> uuid \<Rightarrow> unit dbM" where
  "reopen_order cx orderId =
     thenM (update_order cx orderId (\<lambda>w. w\<lparr>wo_status := IN_PROGRESS, wo_completedAt := None\<rparr>)) (ret ())"

definition reverse_account :: "ctx \<Rightarrow> uuid \<Rightarrow> payment list \<Rightarrow> invoice \<Rightarrow> string \<Rightarrow> unit dbM" where
  "reverse_account cx tenantId attachedPayments cancelled reason =
     bindM (find_first current_accounts (\<lambda>a. ca_customerId a = i_customerId cancelled \<and>
         ca_tenantId a = tenantId)) (\<lambda>found.
       case found of
         None \<Rightarrow> ret ()
       | Some account \<Rightarrow>
           thenM (post_reversal cx tenantId account cancelled reason)
             (for_each attachedPayments (note_transfer cancelled)))"

definition cancelWithCariReversal :: "ctx \<Rightarrow> uuid \<Rightarrow> uuid \<Rightarrow> string \<Rightarrow> invoice_entity dbM" where
  "cancelWithCariReversal cx tenantId ident reason = transaction
     (bindM (find_invoice tenantId ident) (\<lambda>owner.
      thenM (ensure (owner \<noteq> None) (NotFoundException ''Fatura bulunamadi.''))
      (bindM (find_invoice tenantId ident) (\<lambda>found.
      bindM (require (NotFoundException
        ''Fatura bulunamadi veya bu isletmeye ait degil.'') found) (\<lambda>existing.
      thenM (ensure (i_status existing \<noteq> I_CANCELLED)
        (BadRequestException ''Bu fatura zaten iptal edilmistir.''))
      (bindM (find_many payments (\<lambda>p. pay_invoiceId p = Some (i_id existing) \<and>
          pay_tenantId p = tenantId)) (\<lambda>attachedPayments.
      bindM (update_invoice (i_id existing) (\<lambda>i. i\<lparr>i_status := I_CANCELLED, i_remainingAmount := 0,
          i_workOrderId := None\<rparr>)) (\<lambda>cancelled.
      thenM (reverse_account cx tenantId attachedPayments cancelled reason)
      (thenM (case or_null (i_workOrderId existing) of None \<Rightarrow> ret () | Some w \<Rightarrow> reopen_order cx w)
      (ret (mapToEntity None cancelled)))))))))))"

record einvoice_update =
  eu_eInvoiceUuid :: "string option"
  eu_gibInvoiceNumber :: "string option"
  eu_eInvoiceStatus :: "string option"

definition or_keep :: "'a option \<Rightarrow> 'a option \<Rightarrow> 'a option" where
  "or_keep new old = (case new of None \<Rightarrow> old | Some x \<Rightarrow> Some x)"

definition updateEInvoiceDetails :: "uuid \<Rightarrow> uuid \<Rightarrow> einvoice_update \<Rightarrow> unit dbM" where
  "updateEInvoiceDetails tenantId ident dat =
     bindM (find_invoice tenantId ident) (\<lambda>found.
     thenM (ensure (found \<noteq> None) (DbError RecordNotFound))
     (thenM (update_invoice ident (\<lambda>i. i\<lparr>
         i_eInvoiceUuid := or_keep (eu_eInvoiceUuid dat) (i_eInvoiceUuid i),
         i_gibInvoiceNumber := or_keep (eu_gibInvoiceNumber dat) (i_gibInvoiceNumber i),
         i_eInvoiceStatus := or_keep (eu_eInvoiceStatus dat) (i_eInvoiceStatus i)\<rparr>))
      (ret ())))"

section \<open>CreateInvoiceUseCase\<close>

record invoice_input =
  in_workOrderId :: "uuid option"
  in_customerId :: uuid
  in_dueDate :: int   \<comment> \<open>the instant \<open>new Date(dto.dueDate)\<close>\<close>
  in_subtotal :: "number option"
  in_kdvAmount :: "number option"
  in_grandTotal :: "number option"
  in_offsetAdvanceAmount :: "number option"
  in_invoiceNumber :: "string option"
  in_gibInvoiceNumber :: "string option"
  in_items :: "inv_line list option"

definition entity_of_input :: "ctx \<Rightarrow> uuid \<Rightarrow> invoice_input \<Rightarrow> invoice_entity" where
  "entity_of_input cx tenantId dto =
     \<lparr>ie_id = None, ie_tenantId = tenantId, ie_workOrderId = in_workOrderId dto,
      ie_customerId = in_customerId dto,
      ie_invoiceNumber = or_else (in_invoiceNumber dto) ''PENDING'',
      ie_issueDate = now cx, ie_dueDate = in_dueDate dto,
      ie_subtotal = in_subtotal dto, ie_kdvAmount = in_kdvAmount dto,
      ie_grandTotal = in_grandTotal dto, ie_paidAmount = 0,
      ie_remainingAmount = num_or_zero (in_grandTotal dto), ie_status = UNPAID,
      ie_gibInvoiceNumber = Some (or_else (in_gibInvoiceNumber dto) ''PENDING''),
      ie_eInvoiceStatus = Some ''DRAFT'', ie_eInvoiceUuid = None, ie_items = in_items dto\<rparr>"

definition submit_einvoice :: "ctx \<Rightarrow> uuid \<Rightarrow> uuid \<Rightarrow> invoice_entity \<Rightarrow> invoice_entity dbM" where
  "submit_einvoice cx tenantId ident e =
     try_catch
       (bindM (getProvider tenantId) (\<lambda>provider.
        bindM (provider_createInvoice cx provider) (\<lambda>res.
        if er_success res \<or> er_status res = ''FAILED'' then
          thenM (updateEInvoiceDetails tenantId ident
            \<lparr>eu_eInvoiceUuid = Some (er_uuid res), eu_gibInvoiceNumber = Some (er_gibNumber res),
             eu_eInvoiceStatus = Some (er_status res)\<rparr>)
          (ret (e\<lparr>ie_gibInvoiceNumber := Some (er_gibNumber res),
             ie_eInvoiceStatus := Some (er_status res), ie_eInvoiceUuid := Some (er_uuid res)\<rparr>))
        else ret e)))
       (\<lambda>_. thenM (updateEInvoiceDetails tenantId ident
          \<lparr>eu_eInvoiceUuid = None, eu_gibInvoiceNumber = None, eu_eInvoiceStatus = Some ''FAILED''\<rparr>)
          (ret (e\<lparr>ie_eInvoiceStatus := Some ''FAILED''\<rparr>)))"

definition createInvoice :: "ctx \<Rightarrow> uuid \<Rightarrow> invoice_input \<Rightarrow> invoice_entity dbM" where
  "createInvoice cx tenantId dto =
     bindM (createWithCariMovement cx (entity_of_input cx tenantId dto) (in_offsetAdvanceAmount dto))
       (\<lambda>result.
     let ident = the (ie_id (cr_invoice result)) in
     bindM (submit_einvoice cx tenantId ident (cr_invoice result)) (\<lambda>e.
     thenM (whenM (cr_creditLimit result > 0 \<and> cr_newBalance result > cr_creditLimit result)
       (emit (Notify tenantId ''FINANCE'' ''Borc Limiti Asildi'')))
     (thenM (emit (AuditLog tenantId ''invoice.created'' ''Invoice'' ident))
     (thenM (emit (Notify tenantId ''FINANCE'' ''Faturaniz Duzenlendi''))
     (ret e)))))"

section \<open>CancelInvoiceUseCase\<close>

definition forty_eight_hours :: int where
  "forty_eight_hours = 48 * 60 * 60 * 1000"

text \<open>\<open>inv.workOrder?.completedAt || inv.issueDate\<close>\<close>

definition lock_reference :: "work_order list \<Rightarrow> invoice_entity \<Rightarrow> int" where
  "lock_reference orders e =
     (case ie_workOrderId e of
        None \<Rightarrow> ie_issueDate e
      | Some w \<Rightarrow>
          (case lookup_row wo_id w orders of
             None \<Rightarrow> ie_issueDate e
           | Some wo \<Rightarrow>
               (case wo_completedAt wo of None \<Rightarrow> ie_issueDate e | Some t \<Rightarrow> t)))"

definition cancelInvoice :: "ctx \<Rightarrow> uuid \<Rightarrow> uuid \<Rightarrow> string \<Rightarrow> invoice_entity dbM" where
  "cancelInvoice cx tenantId ident reason =
     bindM (findById_Invoice tenantId ident) (\<lambda>found.
     bindM (require (NotFoundException ''Fatura bulunamadi.'') found) (\<lambda>invo.
     thenM (ensure (length (js_trim reason) \<ge> 5) (BadRequestException
       ''Fatura iptal gerekcesi zorunludur ve en az 5 karakter olmalidir.''))
     (thenM (ensure (canCancel invo) (BadRequestException ''Bu fatura zaten iptal edilmistir.''))
     (bindM (reads work_orders) (\<lambda>orders.
     thenM (ensure (now cx - lock_reference orders invo \<le> forty_eight_hours) (BadRequestException
       ''Bu is emri tamamlanali 48 saatten fazla oldugu icin geri acilamaz.''))
     (thenM (whenM (truthy (ie_eInvoiceUuid invo) \<and> ie_eInvoiceStatus invo \<noteq> Some ''DRAFT'')
        (bindM (getProvider tenantId) (\<lambda>provider.
          ensure (fst (provider_cancelInvoice provider))
            (BadRequestException (snd (provider_cancelInvoice provider))))))
     (bindM (cancelWithCariReversal cx tenantId ident (js_trim reason)) (\<lambda>cancelled.
     thenM (emit (AuditLog tenantId ''invoice.cancelled'' ''Invoice'' ident))
     (ret cancelled)))))))))"

end
