(* ===== verification/Service.thy ===== *)
theory Service
  imports Prelude
begin

text \<open>
  A service as its clients see it: requests handled one after the other on a shared store,
  each returning or failing. \<open>run\<close> is the store after a sequence of requests, whatever each
  of them answered. Locale \<open>service_contract\<close> is the interface between the components'
  step lemmas and facts about whole histories: a component that discharges the step law for
  its handler gets the facts for all request sequences.
\<close>

primrec run :: "('q \<Rightarrow> ('s, 'a) M) \<Rightarrow> 'q list \<Rightarrow> 's \<Rightarrow> 's" where
  "run handle [] s = s"
| "run handle (q # qs) s = run handle qs (snd (handle q s))"

text \<open>Every request of the sequence meets its condition when its turn comes.\<close>

primrec admissible :: "('q \<Rightarrow> ('s, 'a) M) \<Rightarrow> ('q \<Rightarrow> 's \<Rightarrow> bool) \<Rightarrow> 'q list \<Rightarrow> 's \<Rightarrow> bool" where
  "admissible handle ok [] s \<longleftrightarrow> True"
| "admissible handle ok (q # qs) s \<longleftrightarrow> ok q s \<and> admissible handle ok qs (snd (handle q s))"

text \<open>A condition that does not look at the store can be checked on the list.\<close>

lemma admissible_const:
  "list_all P qs \<Longrightarrow> admissible handle (\<lambda>q _. P q) qs s"
  by (induction qs arbitrary: s) auto

locale service_contract =
  fixes handle :: "'q \<Rightarrow> ('s, 'a) M"
    and ok :: "'q \<Rightarrow> 's \<Rightarrow> bool"
    and inv :: "'s \<Rightarrow> bool"
  assumes step: "inv s \<Longrightarrow> ok q s \<Longrightarrow> wp (handle q) (\<lambda>_. inv) (\<lambda>_. inv) s"
begin

lemma step_inv: "inv s \<Longrightarrow> ok q s \<Longrightarrow> inv (snd (handle q s))"
  using step [of s q] by (simp add: wp_any)

lemma run_inv: "inv s \<Longrightarrow> admissible handle ok qs s \<Longrightarrow> inv (run handle qs s)"
  by (induction qs arbitrary: s) (auto simp: step_inv)

lemma run_append_inv:
  "inv s \<Longrightarrow> admissible handle ok (qs @ rs) s \<Longrightarrow> inv (run handle qs s)"
  by (induction qs arbitrary: s) (auto simp: step_inv)

end

text \<open>Requests that need no condition on the store.\<close>

locale closed_service = service_contract +
  assumes total_ok: "ok q s"
begin

lemma always_admissible: "admissible handle ok qs s"
  by (induction qs arbitrary: s) (auto simp: total_ok)

lemma run_always: "inv s \<Longrightarrow> inv (run handle qs s)"
  by (rule run_inv [OF _ always_admissible])

end

end
