(* ===== verification/WorkOrders.thy ===== *)
theory WorkOrders
  imports WorkOrderStock Invoices Service
begin

text \<open>
  \<open>modules/work-orders/application/use-cases\<close>: opening an order, its items, status changes
  and rollback, notes, photos, notifications, customer feedback and the public tracking
  page. Each repository call commits on its own; only the repository's transactions roll
  back. Message texts are not modelled.
\<close>

section \<open>CreateWorkOrderUseCase\<close>

record order_item_input =
  oi_itemType :: "WorkOrderItemType option"
  oi_itemId :: "uuid option"
  oi_name :: string
  oi_quantity :: int
  oi_unitPrice :: number
  oi_kdvRate :: "number option"

record order_input =
  ow_appointmentId :: "uuid option"
  ow_customerId :: uuid
  ow_vehicleId :: uuid
  ow_assignedMechanicId :: "uuid option"
  ow_assignedLift :: "string option"
  ow_initialKm :: int
  ow_items :: "order_item_input list"

definition item_rate :: "order_item_input \<Rightarrow> number" where
  "item_rate item = (case oi_kdvRate item of None \<Rightarrow> 20 | Some r \<Rightarrow> r)"

definition input_line_total :: "order_item_input \<Rightarrow> number" where
  "input_line_total item = fmul (num_of_int (oi_quantity item)) (oi_unitPrice item)"

fun input_sums :: "order_item_input list \<Rightarrow> number \<Rightarrow> number \<Rightarrow> number \<times> number" where
  "input_sums [] subtotal kdvTotal = (subtotal, kdvTotal)"
| "input_sums (item # items) subtotal kdvTotal =
     (let lineTotal = input_line_total item;
          kdv = fmul lineTotal (fdiv (item_rate item) 100)
      in input_sums items (fadd subtotal lineTotal) (fadd kdvTotal kdv))"

definition formatted_item :: "order_item_input \<Rightarrow> item_data" where
  "formatted_item item =
     \<lparr>id_itemType = (case oi_itemType item of None \<Rightarrow> SERVICE | Some t \<Rightarrow> t),
      id_itemId = oi_itemId item, id_name = oi_name item, id_quantity = oi_quantity item,
      id_unitPrice = oi_unitPrice item, id_kdvRate = Some (item_rate item),
      id_totalPrice = input_line_total item\<rparr>"

definition order_data_of :: "order_input \<Rightarrow> string \<Rightarrow> string \<Rightarrow> order_data" where
  "order_data_of input woNumber author =
     (let (subtotal, kdvTotal) = input_sums (ow_items input) 0 0 in
      \<lparr>od_workOrderNumber = woNumber, od_appointmentId = ow_appointmentId input,
       od_customerId = ow_customerId input, od_vehicleId = ow_vehicleId input,
       od_assignedMechanicId = ow_assignedMechanicId input,
       od_assignedLift = ow_assignedLift input, od_initialKm = ow_initialKm input,
       od_subtotal = subtotal, od_kdvAmount = kdvTotal, od_grandTotal = fadd subtotal kdvTotal,
       od_status = QUEUE, od_author = Some author,
       od_items = map formatted_item (ow_items input)\<rparr>)"

definition createWorkOrder :: "ctx \<Rightarrow> uuid \<Rightarrow> order_input \<Rightarrow> string \<Rightarrow> work_order dbM" where
  "createWorkOrder cx tenantId input author =
     bindM (findActiveByVehicleId tenantId (ow_vehicleId input)) (\<lambda>existingActiveOrder.
     thenM (ensure (existingActiveOrder = None) (BadRequestException
       ''Bu araca ait halen devam eden bir is emri bulunmaktadir.''))
     (bindM (getNextWorkOrderNumber cx tenantId) (\<lambda>woNumber.
     bindM (create_WorkOrder cx tenantId (order_data_of input woNumber author)) (\<lambda>created.
     thenM (emit (WsEmit tenantId ''work_order:created'' (wo_id created)))
     (thenM (emit (Notify tenantId ''WORK_ORDER'' ''Yeni Is Emri Acildi''))
     (ret created))))))"

section \<open>Items\<close>

definition closed_status :: "WorkOrderStatus \<Rightarrow> bool" where
  "closed_status v \<longleftrightarrow> isCompleted v \<or> isCancelled v"

definition audit_and_emit :: "uuid \<Rightarrow> string \<Rightarrow> string \<Rightarrow> uuid \<Rightarrow> unit dbM" where
  "audit_and_emit tenantId action event ident =
     thenM (emit (AuditLog tenantId action ''WorkOrder'' ident)) (emit (WsEmit tenantId event ident))"

record add_item_dto =
  ad_itemType :: WorkOrderItemType
  ad_itemId :: "uuid option"
  ad_name :: string
  ad_quantity :: int
  ad_unitPrice :: number
  ad_kdvRate :: "number option"

definition added_item :: "add_item_dto \<Rightarrow> number \<Rightarrow> item_data" where
  "added_item dto kdvRate =
     (let basePrice = fmul (ad_unitPrice dto) (num_of_int (ad_quantity dto));
          kdvAmount = fdiv (fmul basePrice kdvRate) 100;
          totalPrice = fadd basePrice kdvAmount
      in \<lparr>id_itemType = ad_itemType dto, id_itemId = or_null (ad_itemId dto), id_name = ad_name dto,
          id_quantity = ad_quantity dto, id_unitPrice = ad_unitPrice dto, id_kdvRate = Some kdvRate,
          id_totalPrice = totalPrice\<rparr>)"

definition addWorkOrderItem ::
  "ctx \<Rightarrow> uuid \<Rightarrow> uuid \<Rightarrow> add_item_dto \<Rightarrow> string \<Rightarrow> work_order dbM" where
  "addWorkOrderItem cx tenantId workOrderId dto author =
     bindM (findById_WorkOrder tenantId workOrderId) (\<lambda>found.
     bindM (require (NotFoundException ''Is emri bulunamadi.'') found) (\<lambda>wo.
     thenM (ensure (\<not> closed_status (wo_status wo)) (BadRequestException
       ''Tamamlanmis veya iptal edilmis is emrine yeni kalem eklenemez.''))
     (let kdvRate = (case ad_kdvRate dto of None \<Rightarrow> 20 | Some r \<Rightarrow> r) in
      bindM (addItem cx tenantId workOrderId (added_item dto kdvRate) kdvRate author) (\<lambda>result.
      thenM (audit_and_emit tenantId ''work_order.item_added'' ''work_order:item_added'' (wo_id wo))
      (ret result)))))"

definition updateWorkOrderItem ::
  "ctx \<Rightarrow> uuid \<Rightarrow> uuid \<Rightarrow> uuid \<Rightarrow> item_update \<Rightarrow> string \<Rightarrow> UserRole option \<Rightarrow> work_order dbM" where
  "updateWorkOrderItem cx tenantId workOrderId itemId dto author userRole =
     thenM (ensure (\<not> (userRole = Some TECHNICIAN \<and> iu_unitPrice dto \<noteq> None)) (BadRequestException
       ''Teknisyenler is emrindeki birim fiyatlari degistiremez.''))
     (bindM (findById_WorkOrder tenantId workOrderId) (\<lambda>found.
     bindM (require (NotFoundException ''Is emri bulunamadi.'') found) (\<lambda>wo.
     thenM (ensure (\<not> closed_status (wo_status wo)) (BadRequestException
       ''Tamamlanmis veya iptal edilmis is emrinde kalem guncellenemez.''))
     (bindM (find_item (wo_id wo) itemId) (\<lambda>item.
     thenM (ensure (item \<noteq> None) (NotFoundException ''Is emri kalemi bulunamadi.''))
     (bindM (updateItem cx tenantId workOrderId itemId dto author) (\<lambda>updated.
     thenM (audit_and_emit tenantId ''work_order.item_quantity_updated'' ''work_order:item_updated''
       (wo_id wo))
     (ret updated))))))))"

definition removeWorkOrderItem ::
  "ctx \<Rightarrow> uuid \<Rightarrow> uuid \<Rightarrow> uuid \<Rightarrow> string \<Rightarrow> work_order dbM" where
  "removeWorkOrderItem cx tenantId workOrderId itemId author =
     bindM (findById_WorkOrder tenantId workOrderId) (\<lambda>found.
     bindM (require (NotFoundException ''Is emri bulunamadi.'') found) (\<lambda>wo.
     thenM (ensure (\<not> closed_status (wo_status wo)) (BadRequestException
       ''Tamamlanmis veya iptal edilmis is emrinden kalem silinemez.''))
     (bindM (find_item (wo_id wo) itemId) (\<lambda>item.
     thenM (ensure (item \<noteq> None) (NotFoundException ''Is emri kalemi bulunamadi.''))
     (bindM (removeItem cx tenantId workOrderId itemId author) (\<lambda>updated.
     thenM (audit_and_emit tenantId ''work_order.item_removed'' ''work_order:item_removed'' (wo_id wo))
     (ret updated)))))))"

section \<open>UpdateWorkOrderStatusUseCase and RollbackWorkOrderUseCase\<close>

definition sync_appointment :: "uuid \<Rightarrow> work_order \<Rightarrow> WorkOrderStatus \<Rightarrow> unit dbM" where
  "sync_appointment tenantId wo targetStatus =
     (case or_null (wo_appointmentId wo) of
        None \<Rightarrow> ret ()
      | Some a \<Rightarrow>
          if targetStatus = COMPLETED then syncAppointmentStatus tenantId a A_COMPLETED
          else if targetStatus = IN_PROGRESS then syncAppointmentStatus tenantId a A_IN_SERVICE
          else ret ())"

definition seven_days :: int where
  "seven_days = 7 * 24 * 60 * 60 * 1000"

definition auto_invoice_input :: "ctx \<Rightarrow> work_order \<Rightarrow> invoice_input" where
  "auto_invoice_input cx wo =
     \<lparr>in_workOrderId = Some (wo_id wo), in_customerId = wo_customerId wo,
      in_dueDate = day_start (day_of (now cx + seven_days)),
      in_subtotal = Some (num_of_cents (wo_subtotal wo)),
      in_kdvAmount = Some (num_of_cents (wo_kdvAmount wo)),
      in_grandTotal = Some (num_of_cents (wo_grandTotal wo)), in_offsetAdvanceAmount = None,
      in_invoiceNumber = None, in_gibInvoiceNumber = None, in_items = None\<rparr>"

definition auto_invoice :: "ctx \<Rightarrow> uuid \<Rightarrow> work_order \<Rightarrow> unit dbM" where
  "auto_invoice cx tenantId wo =
     bindM (getTenantAutoInvoiceConfig tenantId) (\<lambda>isAutoInvoice.
     whenM isAutoInvoice
       (bindM (findInvoiceByWorkOrder tenantId (wo_id wo)) (\<lambda>existingInv.
        whenM (existingInv = None \<and> num_of_cents (wo_grandTotal wo) > 0)
          (bindM (createInvoice cx tenantId (auto_invoice_input cx wo)) (\<lambda>invo.
           emit (AuditLog tenantId ''invoice.auto_created_on_wo_complete'' ''Invoice''
             (the (ie_id invo))))))))"

definition updateWorkOrderStatus ::
  "ctx \<Rightarrow> uuid \<Rightarrow> uuid \<Rightarrow> string \<Rightarrow> string option \<Rightarrow> work_order dbM" where
  "updateWorkOrderStatus cx tenantId ident newStatus userId =
     bindM (lift_sum (status_vo newStatus)) (\<lambda>targetStatus.
     bindM (findById_WorkOrder tenantId ident) (\<lambda>found.
     bindM (require (NotFoundException ''Is emri bulunamadi.'') found) (\<lambda>wo.
     thenM (ensure (canTransitionTo (wo_status wo) targetStatus) (BadRequestException
       ''Is emri bu durumdan dogrudan bu duruma gecirilemez.''))
     (let completedAt = (if targetStatus = COMPLETED then Some (now cx) else None) in
      bindM (updateStatus_WorkOrder cx tenantId ident targetStatus (Some completedAt)) (\<lambda>updated.
      thenM (emit (AuditLog tenantId ''work_order.status_changed'' ''WorkOrder'' ident))
      (thenM (whenM (targetStatus = CANCELLED \<and> wo_status wo \<noteq> CANCELLED)
         (restoreCancelledStock tenantId ident userId))
      (thenM (sync_appointment tenantId wo targetStatus)
      (thenM (whenM (targetStatus = COMPLETED) (auto_invoice cx tenantId wo))
      (thenM (emit (WsEmit tenantId ''work_order:status_changed'' ident))
      (thenM (whenM (targetStatus = COMPLETED)
         (emit (WsEmit tenantId ''work_order:completed'' ident)))
      (ret updated)))))))))))"

text \<open>The domain error of \<open>getPreviousStatus\<close> becomes a bad request.\<close>

definition previous_status :: "WorkOrderStatus \<Rightarrow> WorkOrderStatus dbM" where
  "previous_status v =
     (case getPreviousStatus v of
        Inl (DomainError m) \<Rightarrow> throw (BadRequestException m)
      | Inl e \<Rightarrow> throw e
      | Inr prev \<Rightarrow> ret prev)"

lemma wp_previous_status:
  "wp (previous_status v) Q (\<lambda>_. E) s \<longleftrightarrow>
    (case getPreviousStatus v of Inl _ \<Rightarrow> E s | Inr prev \<Rightarrow> Q prev s)"
  by (auto simp: previous_status_def wp_simps split: sum.split exn.split)

definition rollbackWorkOrder :: "ctx \<Rightarrow> uuid \<Rightarrow> uuid \<Rightarrow> work_order dbM" where
  "rollbackWorkOrder cx tenantId ident =
     bindM (findById_WorkOrder tenantId ident) (\<lambda>found.
     bindM (require (NotFoundException ''Is emri bulunamadi.'') found) (\<lambda>wo.
     bindM (previous_status (wo_status wo)) (\<lambda>prevStatus.
     bindM (rollbackStatus_WorkOrder cx tenantId ident prevStatus) (\<lambda>rolledBack.
     thenM (emit (WsEmit tenantId ''work_order:status_changed'' ident))
     (ret rolledBack)))))"

section \<open>Notes and photos\<close>

record note_author =
  na_id :: "uuid option"
  na_name :: string
  na_surname :: "string option"
  na_role :: "UserRole option"

definition full_name :: "string \<Rightarrow> note_author \<Rightarrow> string" where
  "full_name missing u =
     js_trim (or_else (Some (na_name u)) missing @ '' '' @ or_else (na_surname u) [])"

definition addWorkOrderNote ::
  "ctx \<Rightarrow> uuid \<Rightarrow> uuid \<Rightarrow> string \<Rightarrow> bool option \<Rightarrow> note_author \<Rightarrow> work_order_note dbM" where
  "addWorkOrderNote cx tenantId workOrderId txt isInternal authorUser =
     bindM (findById_WorkOrder tenantId workOrderId) (\<lambda>found.
     bindM (require (NotFoundException ''Is emri bulunamadi.'') found) (\<lambda>wo.
     thenM (ensure (\<not> isCancelled (wo_status wo)) (BadRequestException
       ''Iptal edilmis is emrine not eklenemez.''))
     (bindM (addNote cx tenantId workOrderId (or_null (na_id authorUser))
         (full_name ''Personel'' authorUser) (js_trim txt)
         (case isInternal of None \<Rightarrow> True | Some b \<Rightarrow> b)) (\<lambda>note.
     thenM (audit_and_emit tenantId ''ADD_WORK_ORDER_NOTE'' ''workOrderNoteAdded'' workOrderId)
     (ret note)))))"

text \<open>\<open>note.authorId ? note.authorId === user.id : note.authorName === fullName\<close>\<close>

definition owns_note :: "note_author \<Rightarrow> work_order_note \<Rightarrow> bool" where
  "owns_note u note \<longleftrightarrow> (case or_null (n_authorId note) of
     Some a \<Rightarrow> na_id u = Some a | None \<Rightarrow> n_authorName note = full_name [] u)"

definition updateWorkOrderNote ::
  "uuid \<Rightarrow> uuid \<Rightarrow> uuid \<Rightarrow> string \<Rightarrow> note_author \<Rightarrow> work_order_note dbM" where
  "updateWorkOrderNote tenantId workOrderId noteId txt authorUser =
     bindM (findNoteById tenantId noteId) (\<lambda>found.
     bindM (require (NotFoundException ''Not bulunamadi.'') found) (\<lambda>note.
     thenM (ensure (n_workOrderId note = workOrderId) (NotFoundException ''Not bulunamadi.''))
     (thenM (ensure (owns_note authorUser note) (ForbiddenException
       ''Yalnizca kendi mesajlarinizi duzenleyebilirsiniz.''))
     (bindM (updateNote tenantId workOrderId noteId (js_trim txt)) (\<lambda>updatedNote.
     thenM (audit_and_emit tenantId ''UPDATE_WORK_ORDER_NOTE'' ''workOrderNoteUpdated'' workOrderId)
     (ret updatedNote))))))"

definition deleteWorkOrderNote :: "uuid \<Rightarrow> uuid \<Rightarrow> uuid \<Rightarrow> note_author \<Rightarrow> uuid dbM" where
  "deleteWorkOrderNote tenantId workOrderId noteId user =
     bindM (findNoteById tenantId noteId) (\<lambda>found.
     bindM (require (NotFoundException ''Not bulunamadi.'') found) (\<lambda>note.
     thenM (ensure (n_workOrderId note = workOrderId) (NotFoundException ''Not bulunamadi.''))
     (thenM (ensure (owns_note user note \<or> na_role user = Some OWNER \<or>
         na_role user = Some SERVICE_MANAGER) (ForbiddenException
       ''Bu mesaji silme yetkiniz bulunmamaktadir.''))
     (thenM (deleteNote tenantId workOrderId noteId)
     (thenM (audit_and_emit tenantId ''DELETE_WORK_ORDER_NOTE'' ''workOrderNoteDeleted'' workOrderId)
     (ret noteId))))))"

definition addWorkOrderPhoto ::
  "ctx \<Rightarrow> uuid \<Rightarrow> uuid \<Rightarrow> string \<Rightarrow> string \<Rightarrow> WorkOrderPhotoType \<Rightarrow> string \<Rightarrow> work_order_photo dbM" where
  "addWorkOrderPhoto cx tenantId ident url caption photoType uploadedBy =
     bindM (findById_WorkOrder tenantId ident) (\<lambda>wo.
     thenM (ensure (wo \<noteq> None) (NotFoundException ''Is emri bulunamadi.''))
     (addPhoto cx ident url caption photoType uploadedBy))"

section \<open>Queries\<close>

definition getWorkOrders_findOne :: "uuid \<Rightarrow> uuid \<Rightarrow> work_order dbM" where
  "getWorkOrders_findOne tenantId ident =
     bindM (findById_WorkOrder tenantId ident) (\<lambda>wo.
       require (NotFoundException ''Is emri bulunamadi.'') wo)"

section \<open>Telling the customer\<close>

datatype channel = EMAIL | WHATSAPP | SMS

definition chosen_channels :: "channel list \<Rightarrow> customer \<Rightarrow> bool \<times> bool \<times> bool" where
  "chosen_channels channels c =
     (let requested = (if channels \<noteq> [] then channels else [EMAIL, WHATSAPP, SMS])
      in (EMAIL \<in> set requested \<and> truthy (c_email c),
          WHATSAPP \<in> set requested \<and> c_phone c \<noteq> [],
          SMS \<in> set requested \<and> c_phone c \<noteq> []))"

definition notifyWorkOrderStatus ::
  "ctx \<Rightarrow> uuid \<Rightarrow> uuid \<Rightarrow> channel list \<Rightarrow> (bool \<times> bool \<times> bool) dbM" where
  "notifyWorkOrderStatus cx tenantId workOrderId channels =
     bindM (findById_WorkOrder tenantId workOrderId) (\<lambda>found.
     bindM (require (NotFoundException ''Is emri bulunamadi.'') found) (\<lambda>wo.
     bindM (find_first customers (\<lambda>c. c_id c = wo_customerId wo)) (\<lambda>foundCustomer.
     bindM (require (BadRequestException ''Is emrine atanmis bir musteri bulunamadi.'') foundCustomer)
       (\<lambda>c.
     let (sendEmail, sendWhatsApp, sendSms) = chosen_channels channels c in
     thenM (ensure (sendEmail \<or> sendWhatsApp \<or> sendSms) (BadRequestException
       ''Musterinin secilen kanallar icin iletisim bilgisi bulunmuyor.''))
     (thenM (emit (Notify tenantId ''WORK_ORDER'' ''Is Emri Durumu''))
     (thenM (updateLastNotifiedAt cx workOrderId (now cx))
     (thenM (emit (AuditLog tenantId ''WORK_ORDER_STATUS_NOTIFIED'' ''WORK_ORDER'' workOrderId))
     (ret (sendEmail, sendWhatsApp, sendSms)))))))))"

definition submitCustomerFeedback :: "ctx \<Rightarrow> string \<Rightarrow> int \<Rightarrow> string option \<Rightarrow> bool dbM" where
  "submitCustomerFeedback cx tokenOrNumber rating comment =
     bindM (findPublicTrackByTokenOrNumber tokenOrNumber) (\<lambda>found.
     bindM (require (NotFoundException ''Is emri veya arac takip kaydi bulunamadi.'') found) (\<lambda>wo.
     let isPositive = (rating \<ge> 4) in
     thenM (updateCustomerFeedback cx (wo_id wo) rating comment)
     (thenM (emit (Notify (wo_tenantId wo) ''WORK_ORDER'' ''Musteri Puani''))
     (thenM (emit (AuditLog (wo_tenantId wo) ''CUSTOMER_FEEDBACK_SUBMITTED'' ''WORK_ORDER'' (wo_id wo)))
     (ret isPositive)))))"

section \<open>GetPublicWorkOrderTrackUseCase\<close>

definition maskName :: "string option \<Rightarrow> string" where
  "maskName name =
     (if \<not> truthy name then ''Degerli Musterimiz''
      else let trimmed = js_trim (the name) in
        if length trimmed \<le> 2 then trimmed @ ''*''
        else take 2 trimmed @ replicate (max 2 (length trimmed - 2)) (CHR ''*''))"

definition digits_of :: "string \<Rightarrow> string" where
  "digits_of s = filter (\<lambda>c. c \<in> set ''0123456789'') s"

definition maskPhone :: "string option \<Rightarrow> string" where
  "maskPhone phone =
     (if \<not> truthy phone then ''05** *** ** **''
      else let clean = digits_of (the phone) in
        if length clean < 10 then ''05** *** ** **''
        else let last2 = drop (length clean - 2) clean;
                 first3 = take 3 (drop (length clean - 10) clean)
             in ''0'' @ first3 @ '' *** ** '' @ last2)"

definition one_day :: int where
  "one_day = 24 * 60 * 60 * 1000"

definition track_expired :: "ctx \<Rightarrow> work_order \<Rightarrow> bool" where
  "track_expired cx wo \<longleftrightarrow>
     (wo_status wo = COMPLETED \<and>
        now cx - (case wo_completedAt wo of Some t \<Rightarrow> t | None \<Rightarrow> wo_updatedAt wo) > seven_days) \<or>
     (wo_status wo = CANCELLED \<and> now cx - wo_updatedAt wo > one_day)"

record public_track =
  tr_expired :: bool
  tr_status :: WorkOrderStatus
  tr_workOrderNumber :: string
  tr_customerName :: string
  tr_customerPhone :: string
  tr_plate :: string
  tr_services :: "(uuid \<times> string \<times> bool) list"
  tr_parts :: "(uuid \<times> string \<times> int) list"
  tr_photos :: "string list"
  tr_invoice :: "(string \<times> number \<times> number \<times> number \<times> InvoiceStatus) option"

definition customer_name :: "customer option \<Rightarrow> string" where
  "customer_name c =
     (let rawName = (case c of None \<Rightarrow> [] | Some x \<Rightarrow> js_trim (c_firstName x @ '' '' @ c_lastName x))
      in if rawName \<noteq> [] then maskName (Some rawName) else ''Degerli Musterimiz'')"

definition getPublicWorkOrderTrack :: "ctx \<Rightarrow> string \<Rightarrow> public_track dbM" where
  "getPublicWorkOrderTrack cx tokenOrNumber =
     bindM (findPublicTrackByTokenOrNumber tokenOrNumber) (\<lambda>found.
     bindM (require (NotFoundException ''Is emri veya arac takip kaydi bulunamadi.'') found) (\<lambda>wo.
     bindM (find_first customers (\<lambda>c. c_id c = wo_customerId wo)) (\<lambda>c.
     bindM (find_first vehicles (\<lambda>v. v_id v = wo_vehicleId wo)) (\<lambda>v.
     bindM (find_many work_order_items (\<lambda>it. woi_workOrderId it = wo_id wo)) (\<lambda>items.
     bindM (find_many work_order_photos (\<lambda>ph. ph_workOrderId ph = wo_id wo)) (\<lambda>photos.
     bindM (find_first invoices (\<lambda>i. i_workOrderId i = Some (wo_id wo))) (\<lambda>invo.
     let base = \<lparr>tr_expired = True, tr_status = wo_status wo,
           tr_workOrderNumber = wo_workOrderNumber wo, tr_customerName = customer_name c,
           tr_customerPhone = maskPhone (map_option c_phone c),
           tr_plate = or_else (map_option v_plate v) ''Plaka Belirtilmedi'',
           tr_services = [], tr_parts = [], tr_photos = [], tr_invoice = None\<rparr>
     in ret (if track_expired cx wo then base
        else base\<lparr>tr_expired := False,
           tr_services := map (\<lambda>it. (woi_id it, woi_name it, wo_status wo = COMPLETED))
             (filter (\<lambda>it. woi_itemType it = SERVICE) items),
           tr_parts := map (\<lambda>it. (woi_id it, woi_name it, woi_quantity it))
             (filter (\<lambda>it. woi_itemType it = PART) items),
           tr_photos := map ph_url photos,
           tr_invoice := map_option (\<lambda>i. (i_invoiceNumber i, num_of_cents (i_grandTotal i),
             num_of_cents (i_paidAmount i), num_of_cents (i_remainingAmount i), i_status i)) invo\<rparr>))))))))"

end
