(* ===== verification/StockService.thy ===== *)
theory StockService
  imports WorkOrders
begin

text \<open>
  The stock of parts under every history of work-order requests: opening orders, adding,
  changing and removing items, changing and rolling back the status (with the automatic
  invoice). What is on the shelf and what open orders hold always add up to the same.
\<close>

section \<open>Invoicing an open order\<close>

text \<open>The order that is invoiced, if any, is not cancelled.\<close>

definition bill_inv :: "bool \<Rightarrow> (uuid \<Rightarrow> int) \<Rightarrow> uuid option \<Rightarrow> db \<Rightarrow> bool" where
  "bill_inv b c w s \<longleftrightarrow> stock_inv b c s \<and> pred_option (open_order (work_orders s)) w"

lemma bill_inv_other [simp]:
  "bill_inv b c w (invoices_update f1 s) = bill_inv b c w s"
  "bill_inv b c w (invoice_items_update f2 s) = bill_inv b c w s"
  "bill_inv b c w (payments_update f3 s) = bill_inv b c w s"
  "bill_inv b c w (current_accounts_update f4 s) = bill_inv b c w s"
  "bill_inv b c w (cari_movements_update f5 s) = bill_inv b c w s"
  "bill_inv b c w (document_sequences_update f6 s) = bill_inv b c w s"
  "bill_inv b c w (id_supply_update f7 s) = bill_inv b c w s"
  "bill_inv b c w (outbox_update f8 s) = bill_inv b c w s"
  by (simp_all add: bill_inv_def)

lemma keeps_bill_fresh_id: "keeps (bill_inv b c w) (fresh_id cx)"
  and keeps_modify: "(\<And>s. I (f s) = I s) \<Longrightarrow> keeps I (modifyM f)"
  by (auto simp: keeps_def wp_simps)

lemma open_order_unique:
  assumes "unique_rows wo_id orders" and "w \<in> set orders" and "open_order orders (wo_id w)"
  shows "wo_status w \<noteq> CANCELLED"
  using lookup_row_unique [OF assms(1,2)] assms(3) by (simp add: open_order_def)

lemma keeps_bill_complete_order: "keeps (bill_inv b c (Some k)) (complete_order cx k)"
proof (rule keepsI)
  fix s assume inv: "bill_inv b c (Some k) s"
  let ?f = "\<lambda>w. w\<lparr>wo_status := COMPLETED, wo_completedAt := Some (now cx), wo_updatedAt := now cx\<rparr>"
  let ?s' = "s\<lparr>work_orders := update_row wo_id k ?f (work_orders s)\<rparr>"
  have opn: "open_order (work_orders s) k" and unique: "unique_rows wo_id (work_orders s)"
    and stock: "stock_inv b c s"
    using inv by (simp_all add: bill_inv_def stock_inv_def stock_wf_def)
  have "stock_inv b c ?s'"
    by (rule stock_inv_update_order [OF stock])
      (use open_order_unique [OF unique] opn in auto)
  moreover have "open_order (work_orders ?s') k"
    using opn by (simp add: open_order_def lookup_update_row split: option.splits)
  ultimately show "wp (complete_order cx k) (\<lambda>_. bill_inv b c (Some k)) (\<lambda>_. bill_inv b c (Some k)) s"
    using inv by (auto simp: complete_order_def wp_simps bill_inv_def split: option.split)
qed

lemma wp_invoice_order:
  assumes inv: "stock_inv b c s"
    and ok: "\<And>its. bill_inv b c (or_null (ie_workOrderId invo)) s \<Longrightarrow> Q its s"
  shows "wp (invoice_order invo) Q (\<lambda>_ _. True) s"
proof (cases "or_null (ie_workOrderId invo)")
  case None
  then show ?thesis
    using ok inv by (simp add: invoice_order_def wp_simps bill_inv_def)
next
  case (Some k)
  have unique: "unique_rows wo_id (work_orders s)"
    using inv by (simp add: stock_inv_def stock_wf_def)
  have "bill_inv b c (Some k) s"
    if "find (\<lambda>w. wo_id w = k \<and> wo_tenantId w = t) (work_orders s) = Some w" "wo_status w \<noteq> CANCELLED" for w t
    using that inv lookup_row_unique [OF unique] find_SomeD [OF that(1)]
    by (auto simp: bill_inv_def open_order_def)
  with ok Some show ?thesis
    by (auto simp: invoice_order_def findById_WorkOrder_def wp_bindM wp_find_first wp_require wp_thenM
        wp_ensure wp_find_many split: option.split)
qed

lemma keeps_stock_createWithCariMovement:
  "keeps (stock_inv b c) (createWithCariMovement cx invo off)"
proof (rule keepsI)
  fix s assume inv: "stock_inv b c s"
  let ?I = "bill_inv b c (or_null (ie_workOrderId invo))"
  have complete: "keeps ?I (case or_null (ie_workOrderId invo) of None \<Rightarrow> ret () | Some w \<Rightarrow> complete_order cx w)"
    using keeps_bill_complete_order by (auto simp: keeps_ret split: option.split)
  have rest: "wp m (\<lambda>_. stock_inv b c) (\<lambda>_ _. True) s'" if "keeps ?I m" "?I s'" for m :: "create_result dbM" and s'
    by (rule keeps_wp [OF that(1)]) (use that(2) in \<open>auto simp: bill_inv_def\<close>)
  have customer: "wp (bindM (invoice_customer invo) k) (\<lambda>_. stock_inv b c) (\<lambda>_ _. True) s"
    if "\<And>x. wp (k x) (\<lambda>_. stock_inv b c) (\<lambda>_ _. True) s" for k
    using that by (auto simp: invoice_customer_def wp_simps split: option.split)
  show "wp (createWithCariMovement cx invo off) (\<lambda>_. stock_inv b c) (\<lambda>_. stock_inv b c) s"
    unfolding createWithCariMovement_def
    apply (rule wp_transaction_inv [where I = "stock_inv b c", OF inv])
    apply (rule customer)
    apply (subst wp_bindM, rule wp_invoice_order [OF inv])
    apply (rule rest)
     apply (unfold Let_def open_account_def invoice_numbers_def getNextInvoiceNumber_def
       next_sequence_def insert_invoice_def add_advance_payment_def post_debit_def)
     apply (rule complete keeps_bill_fresh_id keeps_modify keeps_frame keeps_intros
       | simp split: prod.split | rule allI impI)+
    done
qed

lemma keeps_stock_updateEInvoiceDetails:
  "keeps (stock_inv b c) (updateEInvoiceDetails tenantId ident dat)"
  unfolding updateEInvoiceDetails_def find_invoice_def by (intro keeps_intros keeps_frame) simp_all

lemma keeps_stock_createInvoice [keeps_intros]: "keeps (stock_inv b c) (createInvoice cx tenantId dto)"
  unfolding createInvoice_def submit_einvoice_def getProvider_def provider_createInvoice_def Let_def
  by (intro keeps_intros keeps_stock_createWithCariMovement keeps_stock_updateEInvoiceDetails)

lemma keeps_stock_auto_invoice [keeps_intros]: "keeps (stock_inv b c) (auto_invoice cx tenantId wo)"
  unfolding auto_invoice_def getTenantAutoInvoiceConfig_def findInvoiceByWorkOrder_def
  by (intro keeps_intros)

lemma keeps_stock_sync_appointment [keeps_intros]:
  "keeps (stock_inv b c) (sync_appointment tenantId wo v)"
  unfolding sync_appointment_def by (intro keeps_intros)

lemma keeps_audit_and_emit [keeps_intros]:
  "keeps (stock_inv b c) (audit_and_emit tenantId action event ident)"
  unfolding audit_and_emit_def by (intro keeps_intros)

section \<open>The use cases\<close>

text \<open>An order that is found and not closed is open.\<close>

lemma found_open_order:
  assumes inv: "stock_inv b c s"
    and found: "find (\<lambda>w. wo_id w = k \<and> wo_tenantId w = t) (work_orders s) = Some w"
    and status: "wo_status w \<noteq> CANCELLED"
  shows "open_order (work_orders s) k"
proof -
  have "unique_rows wo_id (work_orders s)"
    using inv by (simp add: stock_inv_def stock_wf_def)
  from lookup_row_unique [OF this, of w] find_SomeD [OF found] status show ?thesis
    by (auto simp: open_order_def)
qed

lemma wp_stock_tail:
  assumes "wp m (\<lambda>_. stock_inv b c) (\<lambda>_. stock_inv b c) s"
    and "\<And>x. keeps (stock_inv b c) (k x)"
  shows "wp (bindM m k) (\<lambda>_. stock_inv b c) (\<lambda>_. stock_inv b c) s"
  unfolding wp_bindM by (rule wp_mono [OF assms(1)]) (use assms(2) in \<open>auto simp: keeps_def\<close>)

lemma wp_createWorkOrder:
  assumes inv: "stock_inv b c s" and q: "b \<longrightarrow> list_all (\<lambda>it. 0 \<le> oi_quantity it) (ow_items input)"
  shows "wp (createWorkOrder cx tenantId input author) (\<lambda>_. stock_inv b c) (\<lambda>_. stock_inv b c) s"
proof -
  have items: "b \<longrightarrow> list_all (\<lambda>it. 0 \<le> id_quantity it) (od_items (order_data_of input n author))"
    and queue: "od_status (order_data_of input n author) \<noteq> CANCELLED" for n
    using q by (auto simp: order_data_of_def formatted_item_def list_all_iff split: prod.split)
  have create: "wp (bindM (create_WorkOrder cx tenantId (order_data_of input n author)) k)
      (\<lambda>_. stock_inv b c) (\<lambda>_. stock_inv b c) s'"
    if "stock_inv b c s'" "\<And>x. keeps (stock_inv b c) (k x)" for n s' k
    by (rule wp_stock_tail [OF wp_create_WorkOrder [OF that(1) items queue] that(2)])
  have number: "wp (bindM (getNextWorkOrderNumber cx tenantId) k) (\<lambda>_. stock_inv b c) (\<lambda>_. stock_inv b c) s"
    if "\<And>n s'. stock_inv b c s' \<Longrightarrow> wp (k n) (\<lambda>_. stock_inv b c) (\<lambda>_. stock_inv b c) s'" for k
    unfolding wp_bindM
    by (rule wp_mono [OF keeps_stock_getNextWorkOrderNumber [unfolded keeps_def, rule_format, OF inv]])
      (use that in auto)
  show ?thesis
    unfolding createWorkOrder_def findActiveByVehicleId_def
    by (simp add: wp_bindM [of "find_first _ _"] wp_find_first wp_thenM [of "ensure _ _"] wp_ensure inv)
      (auto intro!: number create keeps_intros)
qed

lemma wp_addWorkOrderItem:
  assumes inv: "stock_inv b c s" and q: "b \<longrightarrow> 0 \<le> ad_quantity dto"
  shows "wp (addWorkOrderItem cx tenantId k dto author) (\<lambda>_. stock_inv b c) (\<lambda>_. stock_inv b c) s"
proof -
  have add: "wp (addItem cx tenantId k (added_item dto r) r author) (\<lambda>_. stock_inv b c) (\<lambda>_. stock_inv b c) s"
    if "find (\<lambda>w. wo_id w = k \<and> wo_tenantId w = tenantId) (work_orders s) = Some w"
      "\<not> closed_status (wo_status w)" for w r
    by (rule wp_addItem [OF inv found_open_order [OF inv that(1)]])
      (use that(2) q in \<open>auto simp: added_item_def Let_def closed_status_def isCancelled_def\<close>)
  show ?thesis
    unfolding addWorkOrderItem_def findById_WorkOrder_def Let_def
    by (auto simp: wp_bindM [of "find_first _ _"] wp_find_first wp_bindM [of "require _ _"] wp_require
        wp_thenM [of "ensure _ _"] wp_ensure inv split: option.split
        intro!: wp_stock_tail add keeps_intros)
qed

lemma wp_updateWorkOrderItem:
  assumes inv: "stock_inv b c s"
  shows "wp (updateWorkOrderItem cx tenantId k itemId dto author role)
    (\<lambda>_. stock_inv b c) (\<lambda>_. stock_inv b c) s"
proof -
  have update: "wp (updateItem cx tenantId k itemId dto author) (\<lambda>_. stock_inv b c) (\<lambda>_. stock_inv b c) s"
    if "find (\<lambda>w. wo_id w = k \<and> wo_tenantId w = tenantId) (work_orders s) = Some w"
      "\<not> closed_status (wo_status w)" for w
    by (rule wp_updateItem [OF inv found_open_order [OF inv that(1)]])
      (use that(2) in \<open>auto simp: closed_status_def isCancelled_def\<close>)
  show ?thesis
    unfolding updateWorkOrderItem_def findById_WorkOrder_def find_item_def
    by (auto simp: wp_bindM [of "find_first _ _"] wp_find_first wp_bindM [of "require _ _"] wp_require
        wp_thenM [of "ensure _ _"] wp_ensure inv split: option.split
        intro!: wp_stock_tail update keeps_intros)
qed

lemma wp_removeWorkOrderItem:
  assumes inv: "stock_inv b c s"
  shows "wp (removeWorkOrderItem cx tenantId k itemId author)
    (\<lambda>_. stock_inv b c) (\<lambda>_. stock_inv b c) s"
proof -
  have remove: "wp (removeItem cx tenantId k itemId author) (\<lambda>_. stock_inv b c) (\<lambda>_. stock_inv b c) s"
    if "find (\<lambda>w. wo_id w = k \<and> wo_tenantId w = tenantId) (work_orders s) = Some w"
      "\<not> closed_status (wo_status w)" for w
    by (rule wp_removeItem [OF inv found_open_order [OF inv that(1)]])
      (use that(2) in \<open>auto simp: closed_status_def isCancelled_def\<close>)
  show ?thesis
    unfolding removeWorkOrderItem_def findById_WorkOrder_def find_item_def
    by (auto simp: wp_bindM [of "find_first _ _"] wp_find_first wp_bindM [of "require _ _"] wp_require
        wp_thenM [of "ensure _ _"] wp_ensure inv split: option.split
        intro!: wp_stock_tail remove keeps_intros)
qed

text \<open>A status update to anything but \<open>CANCELLED\<close>, or of an order already cancelled.\<close>

lemma stock_inv_set_status:
  assumes inv: "stock_inv b c s"
    and found: "find (\<lambda>w. wo_id w = k \<and> wo_tenantId w = t) (work_orders s) = Some w"
    and same: "(v = CANCELLED) = (wo_status w = CANCELLED)"
    and f: "\<And>w. wo_id (f w) = wo_id w" "\<And>w. wo_status (f w) = v"
  shows "stock_inv b c (s\<lparr>work_orders := update_row wo_id k f (work_orders s)\<rparr>)"
proof (rule stock_inv_update_order [OF inv f(1)])
  have unique: "unique_rows wo_id (work_orders s)"
    using inv by (simp add: stock_inv_def stock_wf_def)
  fix x assume "x \<in> set (work_orders s)" "wo_id x = k"
  then have "x = w"
    using lookup_row_unique [OF unique] find_SomeD [OF found] by (metis option.inject)
  then show "(wo_status (f x) \<noteq> CANCELLED) = (wo_status x \<noteq> CANCELLED)"
    using same f(2) by simp
qed

lemma wp_rollbackWorkOrder:
  assumes inv: "stock_inv b c s"
  shows "wp (rollbackWorkOrder cx tenantId k) (\<lambda>_. stock_inv b c) (\<lambda>_. stock_inv b c) s"
proof -
  have set: "stock_inv b c (s\<lparr>work_orders := update_row wo_id k
      (\<lambda>w. w\<lparr>wo_status := prev, wo_completedAt := None, wo_updatedAt := now cx\<rparr>) (work_orders s)\<rparr>)"
    if "find (\<lambda>w. wo_id w = k \<and> wo_tenantId w = tenantId) (work_orders s) = Some w"
      "getPreviousStatus (wo_status w) = Inr prev" for w prev
    by (rule stock_inv_set_status [OF inv that(1), of prev])
      (use that(2) in \<open>auto simp: status_defs split: if_splits\<close>)
  show ?thesis
    unfolding rollbackWorkOrder_def rollbackStatus_WorkOrder_def findById_WorkOrder_def
    by (auto simp: wp_bindM [of "find_first _ _"] wp_find_first wp_bindM [of "require _ _"] wp_require
        wp_bindM [of "previous_status _"] wp_previous_status wp_bindM wp_thenM wp_ret wp_ensure
        wp_update_by wp_emit wp_funs inv set
        split: option.split sum.split)
qed

text \<open>
  Cancelling an open order: what it held is released by the status change and put back on
  the shelf by \<open>restoreCancelledStock\<close>.
\<close>

lemma wp_status_and_restore:
  assumes inv: "stock_inv b c s"
    and found: "find (\<lambda>w. wo_id w = k \<and> wo_tenantId w = t) (work_orders s) = Some w"
    and ok: "canTransitionTo (wo_status w) v"
    and tail: "\<And>x. keeps (stock_inv b c) (tail x)"
  shows "wp (bindM (updateStatus_WorkOrder cx t k v done_at) (\<lambda>updated.
      thenM (emit e) (thenM (whenM (v = CANCELLED \<and> wo_status w \<noteq> CANCELLED)
        (restoreCancelledStock t k user)) (tail updated))))
    (\<lambda>_. stock_inv b c) (\<lambda>_. stock_inv b c) s"
proof -
  let ?f = "\<lambda>w. w\<lparr>wo_status := v,
    wo_completedAt := (case done_at of None \<Rightarrow> wo_completedAt w | Some c \<Rightarrow> c), wo_updatedAt := now cx\<rparr>"
  let ?s1 = "s\<lparr>work_orders := update_row wo_id k ?f (work_orders s)\<rparr>"
  let ?s2 = "outbox_update (\<lambda>es. es @ [e]) ?s1"
  have unique: "unique_rows wo_id (work_orders s)"
    using inv by (simp add: stock_inv_def stock_wf_def)
  have row: "lookup_row wo_id k (work_orders s) = Some w" and w: "w \<in> set (work_orders s)" "wo_id w = k" "wo_tenantId w = t"
    using lookup_row_unique [OF unique] find_SomeD [OF found] by auto
  have rest: "wp (tail x) (\<lambda>_. stock_inv b c) (\<lambda>_. stock_inv b c) s'" if "stock_inv b c s'" for x s'
    using tail [of x] that by (simp add: keeps_def)
  show ?thesis
  proof (cases "v = CANCELLED \<and> wo_status w \<noteq> CANCELLED")
    case True
    have "stock_inv b (\<lambda>pid. c pid - order_parts s k pid) ?s1"
      by (rule stock_inv_cancel [OF inv]) (use row True in \<open>auto simp: open_order_def\<close>)
    then have inv2: "stock_inv b (\<lambda>pid. c pid - order_parts ?s2 k pid) ?s2"
      by (simp add: order_parts_def)
    have mem: "?f w \<in> set (work_orders ?s2)"
      using w by (auto simp: update_row_def)
    have "wp (restoreCancelledStock t k user) (\<lambda>_. stock_inv b c) (\<lambda>_ _. False) ?s2"
      by (rule wp_restoreCancelledStock [OF inv2 mem]) (use w in auto)
    then have "wp (thenM (restoreCancelledStock t k user) (tail x))
      (\<lambda>_. stock_inv b c) (\<lambda>_. stock_inv b c) ?s2" for x
      unfolding wp_thenM by (rule wp_mono) (auto intro: rest)
    then show ?thesis
      using True by (simp add: updateStatus_WorkOrder_def findById_WorkOrder_def
        wp_bindM wp_thenM wp_find_first found wp_ensure wp_update_by row wp_emit whenM_def)
  next
    case False
    have "(v = CANCELLED) = (wo_status w = CANCELLED)"
      using False ok by (auto simp: status_defs split: if_splits)
    then have "stock_inv b c ?s1"
      by (intro stock_inv_set_status [OF inv found]) simp_all
    then have "stock_inv b c ?s2"
      by simp
    then show ?thesis
      unfolding Eq_FalseI [OF False]
      by (simp add: updateStatus_WorkOrder_def findById_WorkOrder_def
        wp_bindM wp_thenM wp_find_first found wp_ensure wp_update_by row wp_emit whenM_def wp_ret rest)
  qed
qed

lemma wp_updateWorkOrderStatus:
  assumes inv: "stock_inv b c s"
  shows "wp (updateWorkOrderStatus cx t k status user) (\<lambda>_. stock_inv b c) (\<lambda>_. stock_inv b c) s"
proof -
  have main: "wp (bindM (updateStatus_WorkOrder cx t k v done_at) (\<lambda>updated.
      thenM (emit e) (thenM (whenM (v = CANCELLED \<and> wo_status w \<noteq> CANCELLED)
        (restoreCancelledStock t k user))
      (thenM (sync_appointment t w v)
      (thenM (whenM (v = COMPLETED) (auto_invoice cx t w))
      (thenM (emit e1) (thenM (whenM (v = COMPLETED) (emit e2)) (ret updated))))))))
    (\<lambda>_. stock_inv b c) (\<lambda>_. stock_inv b c) s"
    if "find (\<lambda>w. wo_id w = k \<and> wo_tenantId w = t) (work_orders s) = Some w"
      "canTransitionTo (wo_status w) v" for w v done_at e e1 e2
    by (rule wp_status_and_restore [OF inv that]) (intro keeps_intros)
  have ensure: "wp (ensure b' e) Q E s' \<longleftrightarrow> (b' \<longrightarrow> Q () s') \<and> (\<not> b' \<longrightarrow> E e s')"
    for b' e Q and E :: "exn \<Rightarrow> db \<Rightarrow> bool" and s'
    by (simp add: wp_ensure)
  show ?thesis
    unfolding updateWorkOrderStatus_def findById_WorkOrder_def Let_def
    by (simp only: wp_bindM [of "lift_sum _"] wp_lift_sum wp_bindM [of "find_first _ _"] wp_find_first
        wp_bindM [of "require _ _"] wp_require wp_thenM [of "ensure _ _"] ensure inv
        split: option.split sum.split) (blast intro: main)
qed

section \<open>The service\<close>

text \<open>The requests that touch parts, with the tenant and the user they come from.\<close>

datatype stock_request =
    CreateOrder uuid order_input string
  | AddLine uuid uuid add_item_dto string
  | UpdateLine uuid uuid uuid item_update string "UserRole option"
  | RemoveLine uuid uuid uuid string
  | SetStatus uuid uuid string "string option"
  | Rollback uuid uuid

fun handle_stock :: "ctx \<Rightarrow> stock_request \<Rightarrow> unit dbM" where
  "handle_stock cx (CreateOrder t input author) = ignore (createWorkOrder cx t input author)"
| "handle_stock cx (AddLine t k dto author) = ignore (addWorkOrderItem cx t k dto author)"
| "handle_stock cx (UpdateLine t k i dto author role) =
     ignore (updateWorkOrderItem cx t k i dto author role)"
| "handle_stock cx (RemoveLine t k i author) = ignore (removeWorkOrderItem cx t k i author)"
| "handle_stock cx (SetStatus t k status user) = ignore (updateWorkOrderStatus cx t k status user)"
| "handle_stock cx (Rollback t k) = ignore (rollbackWorkOrder cx t k)"

text \<open>No negative quantity is asked for.\<close>

fun quantities_ok :: "stock_request \<Rightarrow> bool" where
  "quantities_ok (CreateOrder t input author) = list_all (\<lambda>it. 0 \<le> oi_quantity it) (ow_items input)"
| "quantities_ok (AddLine t k dto author) = (0 \<le> ad_quantity dto)"
| "quantities_ok _ = True"

lemma handle_stock_wp:
  assumes "stock_inv b c s" and "b \<longrightarrow> quantities_ok q"
  shows "wp (handle_stock cx q) (\<lambda>_. stock_inv b c) (\<lambda>_. stock_inv b c) s"
  using assms
  by (cases q) (simp_all add: wp_ignore wp_createWorkOrder wp_addWorkOrderItem wp_updateWorkOrderItem
    wp_removeWorkOrderItem wp_updateWorkOrderStatus wp_rollbackWorkOrder)

text \<open>
  Conservation holds for every history of requests, whatever the quantities; stock and
  quantities stay non-negative when no request asks for a negative quantity.
\<close>

interpretation stock_service: closed_service "handle_stock cx" "\<lambda>_ _. True" "stock_inv False c" for cx c
  by unfold_locales (simp_all add: handle_stock_wp)

interpretation stock_level: service_contract "handle_stock cx" "\<lambda>q _. quantities_ok q" "stock_inv True c"
  for cx c
  by unfold_locales (simp_all add: handle_stock_wp)

section \<open>What a cancellation does\<close>

text \<open>The orders and lines that the return of the parts does not touch.\<close>

lemma keeps_orders_restore:
  "keeps (\<lambda>s. work_orders s = ws \<and> work_order_items s = its) (restoreCancelledStock t k user)"
  unfolding restoreCancelledStock_def return_line_def give_back_def findById_WorkOrder_def
  by (intro keeps_intros keeps_frame allI) simp_all

lemma stock_of_other [simp]: "stock_of (outbox_update f s) = stock_of s"
  "stock_of (work_orders_update g s) = stock_of s"
  and held_other: "held (outbox_update f s) = held s"
  by (simp_all add: fun_eq_iff stock_of_def held_def)

lemma wp_restore_stock_of:
  assumes wf: "stock_wf s" and opn: "open_order (work_orders s) k"
    and w: "w \<in> set (work_orders s)" "wo_id w = k" "wo_tenantId w = t"
    and f: "\<And>w. wo_id (f w) = wo_id w" "\<And>w. wo_status (f w) = CANCELLED" "\<And>w. wo_tenantId (f w) = wo_tenantId w"
  shows "wp (restoreCancelledStock t k user)
    (\<lambda>_ s'. \<forall>pid. stock_of s' pid = stock_of s pid + order_parts s k pid) (\<lambda>_ _. False)
    (outbox_update g (s\<lparr>work_orders := update_row wo_id k f (work_orders s)\<rparr>))" (is "wp _ _ _ ?s2")
proof -
  let ?s1 = "s\<lparr>work_orders := update_row wo_id k f (work_orders s)\<rparr>"
  have "stock_inv False (committed s) s"
    using wf by (simp add: stock_inv_def)
  from stock_inv_cancel [OF this opn f(1,2)]
  have inv1: "stock_inv False (\<lambda>pid. committed s pid - order_parts s k pid) ?s1" .
  then have held: "held ?s2 pid = held s pid - order_parts s k pid" for pid
    unfolding stock_inv_def committed_def by (simp add: held_other fun_eq_iff)
  have inv2: "stock_inv False (\<lambda>pid. committed s pid - order_parts ?s2 k pid) ?s2"
    using inv1 by (simp add: order_parts_def)
  have mem: "f w \<in> set (work_orders ?s2)"
    using w by (auto simp: update_row_def)
  have restored: "wp (restoreCancelledStock t k user) (\<lambda>_. stock_inv False (committed s)) (\<lambda>_ _. False) ?s2"
    by (rule wp_restoreCancelledStock [OF inv2 mem]) (use w f in auto)
  have frame: "wp (restoreCancelledStock t k user)
      (\<lambda>_ s'. work_orders s' = work_orders ?s2 \<and> work_order_items s' = work_order_items ?s2)
      (\<lambda>_ s'. work_orders s' = work_orders ?s2 \<and> work_order_items s' = work_order_items ?s2) ?s2"
    using keeps_orders_restore by (rule keeps_def [THEN iffD1, rule_format]) simp
  show ?thesis
  proof (rule wp_mono [OF wp_conj [OF restored frame]])
    fix x s' assume "stock_inv False (committed s) s' \<and>
      work_orders s' = work_orders ?s2 \<and> work_order_items s' = work_order_items ?s2"
    then have "committed s' = committed s" and "held s' = held ?s2"
      by (auto simp: stock_inv_def held_def)
    then show "\<forall>pid. stock_of s' pid = stock_of s pid + order_parts s k pid"
      using held by (simp add: committed_def fun_eq_iff) (metis add.commute add_diff_cancel_left' add_diff_eq)
  qed simp
qed

lemma wp_cancel_order:
  assumes wf: "stock_wf s" 
    and found: "find (\<lambda>w. wo_id w = k \<and> wo_tenantId w = t) (work_orders s) = Some w"
    and status: "wo_status w \<in> {QUEUE, IN_PROGRESS}"
  shows "wp (updateWorkOrderStatus cx t k ''CANCELLED'' user)
    (\<lambda>x s'. wo_status x = CANCELLED \<and> (\<forall>pid. stock_of s' pid = stock_of s pid + order_parts s k pid))
    (\<lambda>_ _. False) s"
proof -
  have unique: "unique_rows wo_id (work_orders s)"
    using wf by (simp add: stock_wf_def)
  have row: "lookup_row wo_id k (work_orders s) = Some w"
    and w: "w \<in> set (work_orders s)" "wo_id w = k" "wo_tenantId w = t"
    using lookup_row_unique [OF unique] find_SomeD [OF found] by auto
  have opn: "open_order (work_orders s) k"
    using row status by (auto simp: open_order_def)
  have "canTransitionTo (wo_status w) CANCELLED" and "wo_status w \<noteq> CANCELLED"
    using status by (auto simp: status_defs)
  with wp_restore_stock_of [OF wf opn w] show ?thesis
    using status_vo_name [of CANCELLED] row found
    by (simp add: updateWorkOrderStatus_def updateStatus_WorkOrder_def findById_WorkOrder_def
        sync_appointment_def wp_simps wp_funs split: option.split)
qed

end
