(* ===== verification/OrderLife.thy ===== *)
theory OrderLife
  imports StockService
begin

text \<open>
  The statuses of all stored orders under the requests on orders. The life cycle of
  \<open>WorkOrderDomain\<close> (\<open>advance\<close> and \<open>undo\<close>), labelled with the request that may cause the change,
  says what each request does to the status of each order; the requests are proved to do exactly
  that, the failing ones included.
\<close>

section \<open>What a request may do to the status of an order\<close>

fun life_cycle :: "stock_request \<Rightarrow> work_order \<Rightarrow> WorkOrderStatus \<Rightarrow> bool" where
  "life_cycle (SetStatus t k str user) w v \<longleftrightarrow> wo_id w = k \<and> wo_tenantId w = t \<and>
     (str = status_name v \<or> str = ''PENDING'' \<and> v = QUEUE) \<and> advance (wo_status w) v"
| "life_cycle (Rollback t k) w v \<longleftrightarrow> wo_id w = k \<and> wo_tenantId w = t \<and> undo (wo_status w) v"
| "life_cycle _ w v \<longleftrightarrow> False"

text \<open>The order after a request: with the status of the life cycle, or as it was when the life cycle has
  none for it.\<close>

definition follows :: "stock_request \<Rightarrow> work_order \<Rightarrow> work_order \<Rightarrow> bool" where
  "follows q w w' \<longleftrightarrow> wo_id w' = wo_id w \<and> wo_tenantId w' = wo_tenantId w \<and>
     (life_cycle q w (wo_status w') \<or> wo_status w' = wo_status w \<and> (\<forall>v. \<not> life_cycle q w v))"

section \<open>The statuses of the orders\<close>

definition order_state :: "work_order \<Rightarrow> uuid \<times> uuid \<times> WorkOrderStatus" where
  "order_state w = (wo_id w, wo_tenantId w, wo_status w)"

definition order_states :: "db \<Rightarrow> (uuid \<times> uuid \<times> WorkOrderStatus) list" where
  "order_states s = map order_state (work_orders s)"

lemma order_states_other [simp]:
  "order_states (products_update f1 s) = order_states s"
  "order_states (stock_movements_update f2 s) = order_states s"
  "order_states (work_order_items_update f3 s) = order_states s"
  "order_states (appointments_update f4 s) = order_states s"
  "order_states (vehicles_update f5 s) = order_states s"
  "order_states (invoices_update f6 s) = order_states s"
  "order_states (invoice_items_update f7 s) = order_states s"
  "order_states (payments_update f8 s) = order_states s"
  "order_states (current_accounts_update f9 s) = order_states s"
  "order_states (cari_movements_update f10 s) = order_states s"
  "order_states (document_sequences_update f11 s) = order_states s"
  "order_states (id_supply_update f12 s) = order_states s"
  "order_states (outbox_update f13 s) = order_states s"
  by (simp_all add: order_states_def)

abbreviation has_states :: "(uuid \<times> uuid \<times> WorkOrderStatus) list \<Rightarrow> db \<Rightarrow> bool" where
  "has_states xs s \<equiv> order_states s = xs"

lemma map_update_row_same:
  "(\<And>w. w \<in> set rows \<Longrightarrow> key w = k \<Longrightarrow> g (f w) = g w) \<Longrightarrow> map g (update_row key k f rows) = map g rows"
  by (simp add: update_row_def)

lemma keeps_states_order:
  assumes "\<And>w. order_state (f w) = order_state w"
  shows "keeps (has_states xs) (update_order cx k f)"
  using assms by (auto simp: keeps_def wp_simps order_states_def order_state_def
    intro!: map_update_row_same split: option.split)

lemma keeps_states_complete:
  assumes "\<forall>(i, t, v) \<in> set xs. i = k \<longrightarrow> v = COMPLETED"
  shows "keeps (has_states xs) (complete_order cx k)"
  unfolding complete_order_def
proof (intro keeps_intros keepsI)
  fix s assume "has_states xs s"
  with assms have "wo_status w = COMPLETED" if "w \<in> set (work_orders s)" "wo_id w = k" for w
    using that by (auto simp: order_states_def order_state_def)
  then have "map order_state (update_row wo_id k
      (\<lambda>w. w\<lparr>wo_status := COMPLETED, wo_completedAt := c, wo_updatedAt := d\<rparr>) (work_orders s)) = order_states s" for c d
    unfolding order_states_def by (intro map_update_row_same) (simp add: order_state_def)
  then show "wp (update_order cx k (\<lambda>w. w\<lparr>wo_status := COMPLETED, wo_completedAt := Some (now cx)\<rparr>))
      (\<lambda>_. has_states xs) (\<lambda>_. has_states xs) s"
    using \<open>has_states xs s\<close> by (auto simp: wp_simps order_states_def split: option.split)
qed

lemma keeps_states_fresh_id [keeps_intros]: "keeps (has_states xs) (fresh_id cx)"
  and keeps_states_emit [keeps_intros]: "keeps (has_states xs) (emit e)"
  by (auto simp: keeps_def wp_simps)

lemma keeps_states_parts [keeps_intros]:
  "keeps (has_states xs) (consume_part t pid q n k author)"
  "keeps (has_states xs) (give_back t pid q n k author)"
  unfolding consume_part_def take_stock_def find_product_def give_back_def
  by (intro keeps_intros keeps_frame; simp)+

lemma keeps_states_recalculate [keeps_intros]: "keeps (has_states xs) (recalculate cx k)"
  unfolding recalculate_def
  by (intro keeps_intros keeps_states_order)
    (simp add: with_totals_def Let_def order_state_def split: prod.split)

lemma keeps_states_insert_item [keeps_intros]: "keeps (has_states xs) (insert_item cx k item r)"
  unfolding insert_item_def by (intro keeps_intros keeps_frame) simp

lemma keeps_states_addItem [keeps_intros]: "keeps (has_states xs) (addItem cx t k item r author)"
  unfolding addItem_def findById_WorkOrder_def by (intro keeps_intros)

lemma keeps_states_updateItem [keeps_intros]: "keeps (has_states xs) (updateItem cx t k i dat author)"
  unfolding updateItem_def findById_WorkOrder_def find_item_def change_part_def take_stock_def
    find_product_def Let_def
  by (intro keeps_intros keeps_frame; simp)+

lemma keeps_states_removeItem [keeps_intros]: "keeps (has_states xs) (removeItem cx t k i author)"
  unfolding removeItem_def findById_WorkOrder_def find_item_def
  by (intro keeps_intros keeps_frame; simp)+

lemma keeps_states_audit [keeps_intros]: "keeps (has_states xs) (audit_and_emit t a e i)"
  unfolding audit_and_emit_def by (intro keeps_intros)

lemma keeps_states_lines:
  "keeps (has_states xs) (addWorkOrderItem cx t k dto author)"
  "keeps (has_states xs) (updateWorkOrderItem cx t k i upd author role)"
  "keeps (has_states xs) (removeWorkOrderItem cx t k i author)"
  unfolding addWorkOrderItem_def updateWorkOrderItem_def removeWorkOrderItem_def
    findById_WorkOrder_def find_item_def Let_def
  by (intro keeps_intros)+

lemma keeps_states_restore [keeps_intros]: "keeps (has_states xs) (restoreCancelledStock t k user)"
  unfolding restoreCancelledStock_def return_line_def findById_WorkOrder_def
  by (intro keeps_intros)

lemma keeps_states_appointment [keeps_intros]:
  "keeps (has_states xs) (update_appointment k f)"
  "keeps (has_states xs) (sync_appointment t w v)"
  unfolding sync_appointment_def syncAppointmentStatus_def update_appointment_def
  by (intro keeps_intros keeps_frame; simp)+

section \<open>Invoicing a finished order\<close>

lemma keeps_states_createWithCariMovement:
  assumes "\<And>w. or_null (ie_workOrderId invo) = Some w \<Longrightarrow> \<forall>(i, t, v) \<in> set xs. i = w \<longrightarrow> v = COMPLETED"
  shows "keeps (has_states xs) (createWithCariMovement cx invo off)"
proof -
  have order: "keeps (has_states xs) (case or_null (ie_workOrderId invo) of None \<Rightarrow> ret () | Some w \<Rightarrow> complete_order cx w)"
    using keeps_states_complete [OF assms] by (auto simp: keeps_ret split: option.split)
  show ?thesis
    unfolding createWithCariMovement_def invoice_customer_def invoice_order_def findById_WorkOrder_def
      open_account_def invoice_numbers_def getNextInvoiceNumber_def next_sequence_def insert_invoice_def
      add_advance_payment_def post_debit_def Let_def
    by (rule order keeps_intros keeps_frame keeps_modify | simp split: prod.split | rule allI impI)+
qed

lemma keeps_states_auto_invoice:
  assumes "\<forall>(i, t, v) \<in> set xs. i = wo_id wo \<longrightarrow> v = COMPLETED"
  shows "keeps (has_states xs) (auto_invoice cx t wo)"
proof -
  have "keeps (has_states xs) (createWithCariMovement cx (entity_of_input cx t (auto_invoice_input cx wo)) off)" for off
    by (rule keeps_states_createWithCariMovement)
      (use assms in \<open>auto simp: entity_of_input_def auto_invoice_input_def or_null_def split: if_splits\<close>)
  then show ?thesis
    unfolding auto_invoice_def getTenantAutoInvoiceConfig_def findInvoiceByWorkOrder_def createInvoice_def
      submit_einvoice_def getProvider_def provider_createInvoice_def updateEInvoiceDetails_def find_invoice_def Let_def
    by (intro keeps_intros keeps_frame; simp)
qed

section \<open>Status and rollback requests\<close>

definition with_status :: "uuid \<Rightarrow> WorkOrderStatus \<Rightarrow> db \<Rightarrow> (uuid \<times> uuid \<times> WorkOrderStatus) list" where
  "with_status k v s = map (\<lambda>w. (wo_id w, wo_tenantId w, if wo_id w = k then v else wo_status w)) (work_orders s)"

lemma states_update_row:
  "(\<And>w. wo_id (f w) = wo_id w) \<Longrightarrow> (\<And>w. wo_tenantId (f w) = wo_tenantId w) \<Longrightarrow> (\<And>w. wo_status (f w) = v) \<Longrightarrow>
    order_states (s\<lparr>work_orders := update_row wo_id k f (work_orders s)\<rparr>) = with_status k v s"
  by (simp add: order_states_def order_state_def with_status_def update_row_def)

lemma wp_states_set:
  assumes "find (\<lambda>w. wo_id w = k \<and> wo_tenantId w = t) (work_orders s) = Some w"
    and "\<And>x s'. has_states (with_status k v s) s' \<Longrightarrow> wp (r x) (\<lambda>_. has_states (with_status k v s)) (\<lambda>_. has_states (with_status k v s)) s'"
  shows "wp (bindM (updateStatus_WorkOrder cx t k v done_at) r)
      (\<lambda>_. has_states (with_status k v s)) (\<lambda>_. has_states (with_status k v s)) s"
    and "wp (bindM (rollbackStatus_WorkOrder cx t k v) r)
      (\<lambda>_. has_states (with_status k v s)) (\<lambda>_. has_states (with_status k v s)) s"
proof -
  obtain w' where row: "lookup_row wo_id k (work_orders s) = Some w'"
    using find_SomeD [OF assms(1)] by (cases "lookup_row wo_id k (work_orders s)") (auto simp: lookup_row_def find_None_iff)
  show "wp (bindM (updateStatus_WorkOrder cx t k v done_at) r)
      (\<lambda>_. has_states (with_status k v s)) (\<lambda>_. has_states (with_status k v s)) s"
    unfolding updateStatus_WorkOrder_def findById_WorkOrder_def
    by (simp add: wp_bindM wp_thenM wp_find_first assms(1) wp_ensure wp_update_by row states_update_row assms(2))
  show "wp (bindM (rollbackStatus_WorkOrder cx t k v) r)
      (\<lambda>_. has_states (with_status k v s)) (\<lambda>_. has_states (with_status k v s)) s"
    unfolding rollbackStatus_WorkOrder_def findById_WorkOrder_def
    by (simp add: wp_bindM wp_thenM wp_find_first assms(1) wp_ensure wp_update_by row states_update_row assms(2))
qed

text \<open>What may come out for the order \<open>k\<close>: nothing, when nothing is allowed; or its new status.\<close>

definition outcome :: "uuid \<Rightarrow> uuid \<Rightarrow> (WorkOrderStatus \<Rightarrow> WorkOrderStatus \<Rightarrow> bool) \<Rightarrow> db \<Rightarrow> db \<Rightarrow> bool" where
  "outcome t k may s s' \<longleftrightarrow>
     order_states s' = order_states s \<and> (\<forall>w v. find (\<lambda>w. wo_id w = k \<and> wo_tenantId w = t) (work_orders s) = Some w \<longrightarrow>
       \<not> may (wo_status w) v) \<or>
     (\<exists>w v. find (\<lambda>w. wo_id w = k \<and> wo_tenantId w = t) (work_orders s) = Some w \<and>
       (v = wo_status w \<and> (\<forall>u. \<not> may v u) \<or> may (wo_status w) v) \<and> order_states s' = with_status k v s)"

lemma outcome_none:
  "(\<And>w v. find (\<lambda>w. wo_id w = k \<and> wo_tenantId w = t) (work_orders s) = Some w \<Longrightarrow> \<not> may (wo_status w) v) \<Longrightarrow>
    outcome t k may s s"
  by (auto simp: outcome_def)

lemma outcome_moved:
  "find (\<lambda>w. wo_id w = k \<and> wo_tenantId w = t) (work_orders s) = Some w \<Longrightarrow>
    v = wo_status w \<and> (\<forall>u. \<not> may v u) \<or> may (wo_status w) v \<Longrightarrow>
    order_states s' = with_status k v s \<Longrightarrow> outcome t k may s s'"
  by (auto simp: outcome_def)

definition status_request :: "string \<Rightarrow> WorkOrderStatus \<Rightarrow> WorkOrderStatus \<Rightarrow> bool" where
  "status_request str v w \<longleftrightarrow> status_vo str = Inr w \<and> advance v w"

lemma wp_states_status:
  "wp (updateWorkOrderStatus cx t k str user)
    (\<lambda>_. outcome t k (status_request str) s) (\<lambda>_. outcome t k (status_request str) s) s" (is "wp _ (\<lambda>_. ?P) _ s")
proof -
  have main: "wp (bindM (updateStatus_WorkOrder cx t k v done_at) (\<lambda>updated.
      thenM (emit e) (thenM (whenM (v = CANCELLED \<and> wo_status w \<noteq> CANCELLED) (restoreCancelledStock t k user))
      (thenM (sync_appointment t w v)
      (thenM (whenM (v = COMPLETED) (auto_invoice cx t w))
      (thenM (emit e1) (thenM (whenM (v = COMPLETED) (emit e2)) (ret updated))))))))
    (\<lambda>_. ?P) (\<lambda>_. ?P) s"
    if found: "find (\<lambda>w. wo_id w = k \<and> wo_tenantId w = t) (work_orders s) = Some w"
      and v: "status_vo str = Inr v" "wo_status w = v \<or> advance (wo_status w) v" for w v done_at e e1 e2
  proof -
    let ?I = "has_states (with_status k v s)"
    have bill: "keeps ?I (auto_invoice cx t w)" if "v = COMPLETED"
      by (rule keeps_states_auto_invoice)
        (use that find_SomeD [OF found] in \<open>auto simp: with_status_def\<close>)
    have "keeps ?I (thenM (emit e) (thenM (whenM (v = CANCELLED \<and> wo_status w \<noteq> CANCELLED) (restoreCancelledStock t k user))
      (thenM (sync_appointment t w v) (thenM (whenM (v = COMPLETED) (auto_invoice cx t w))
      (thenM (emit e1) (thenM (whenM (v = COMPLETED) (emit e2)) (ret x)))))))" for x
      by (intro keeps_intros bill)
    note rest = keeps_step [OF this]
    have may: "v = wo_status w \<and> (\<forall>u. \<not> status_request str v u) \<or> status_request str (wo_status w) v"
      using v by (auto simp: status_request_def advance_iff)
    show ?thesis
      by (rule wp_mono, rule wp_states_set(1) [OF found], erule rest) (erule outcome_moved [OF found may])+
  qed
  have ensure: "wp (ensure b' e) Q E s' \<longleftrightarrow> (b' \<longrightarrow> Q () s') \<and> (\<not> b' \<longrightarrow> E e s')"
    for b' e Q and E :: "exn \<Rightarrow> db \<Rightarrow> bool" and s'
    by (simp add: wp_ensure)
  have refused: "?P s"
    if "\<And>w v. find (\<lambda>w. wo_id w = k \<and> wo_tenantId w = t) (work_orders s) = Some w \<Longrightarrow> status_vo str = Inr v \<Longrightarrow>
      \<not> advance (wo_status w) v"
    using that by (intro outcome_none) (auto simp: status_request_def)
  show ?thesis
    unfolding updateWorkOrderStatus_def findById_WorkOrder_def Let_def
    by (simp only: wp_bindM [of "lift_sum _"] wp_lift_sum wp_bindM [of "find_first _ _"] wp_find_first
        wp_bindM [of "require _ _"] wp_require wp_thenM [of "ensure _ _"] ensure transitions_advance
        split: option.split sum.split) (intro conjI allI impI; (rule main; assumption)?; rule refused; simp)
qed

lemma wp_states_rollback:
  "wp (rollbackWorkOrder cx t k) (\<lambda>_. outcome t k undo s) (\<lambda>_. outcome t k undo s) s" (is "wp _ (\<lambda>_. ?P) _ s")
proof -
  have main: "wp (bindM (rollbackStatus_WorkOrder cx t k v) (\<lambda>x. thenM (emit e) (ret x))) (\<lambda>_. ?P) (\<lambda>_. ?P) s"
    if found: "find (\<lambda>w. wo_id w = k \<and> wo_tenantId w = t) (work_orders s) = Some w"
      and v: "getPreviousStatus (wo_status w) = Inr v" for w v e
  proof -
    have "keeps (has_states (with_status k v s)) (thenM (emit e) (ret x))" for x
      by (intro keeps_intros)
    note rest = keeps_step [OF this]
    have may: "v = wo_status w \<and> (\<forall>u. \<not> undo v u) \<or> undo (wo_status w) v"
      using v by (simp add: previous_undo)
    show ?thesis
      by (rule wp_mono, rule wp_states_set(2) [OF found], erule rest) (erule outcome_moved [OF found may])+
  qed
  have refused: "?P s"
    if "\<And>w v. find (\<lambda>w. wo_id w = k \<and> wo_tenantId w = t) (work_orders s) = Some w \<Longrightarrow> getPreviousStatus (wo_status w) \<noteq> Inr v"
    using that by (intro outcome_none) (auto simp flip: previous_undo)
  show ?thesis
    unfolding rollbackWorkOrder_def findById_WorkOrder_def
    by (simp only: wp_bindM [of "find_first _ _"] wp_find_first wp_bindM [of "require _ _"] wp_require
        wp_bindM [of "previous_status _"] wp_previous_status split: option.split sum.split)
      (intro conjI allI impI; (rule main; assumption)?; rule refused; simp)
qed

lemma unique_found:
  assumes "unique_rows wo_id (work_orders s)"
    and "find (\<lambda>w. wo_id w = k \<and> wo_tenantId w = t) (work_orders s) = Some w"
    and "x \<in> set (work_orders s)" and "wo_id x = k"
  shows "x = w"
  using unique_rows_eq [OF assms(1,3)] find_SomeD [OF assms(2)] assms(4) by auto

lemma outcome_follows:
  assumes ids: "unique_rows wo_id (work_orders s)" and out: "outcome t k may s s'"
    and law: "\<And>w v. life_cycle q w v \<longleftrightarrow> wo_id w = k \<and> wo_tenantId w = t \<and> may (wo_status w) v"
  shows "list_all2 (follows q) (work_orders s) (work_orders s')"
proof -
  let ?F = "\<lambda>w (i, t', v). i = wo_id w \<and> t' = wo_tenantId w \<and>
     (life_cycle q w v \<or> v = wo_status w \<and> (\<forall>v. \<not> life_cycle q w v))"
  have lift: "list_all2 (follows q) (work_orders s) (work_orders s') \<longleftrightarrow>
      list_all2 ?F (work_orders s) (order_states s')"
    by (simp add: order_states_def list_all2_map2 order_state_def follows_def [abs_def])
  have held: "find (\<lambda>w. wo_id w = k \<and> wo_tenantId w = t) (work_orders s) = Some w"
    if "w \<in> set (work_orders s)" "wo_id w = k" "wo_tenantId w = t" for w
  proof -
    have "find (\<lambda>w. wo_id w = k \<and> wo_tenantId w = t) (work_orders s) \<noteq> None"
      using that by (auto simp: find_None_iff)
    then obtain w' where w': "find (\<lambda>w. wo_id w = k \<and> wo_tenantId w = t) (work_orders s) = Some w'"
      by blast
    with unique_found [OF ids w' that(1,2)] show ?thesis by simp
  qed
  from out consider
      (same) "order_states s' = order_states s" "\<And>w v. find (\<lambda>w. wo_id w = k \<and> wo_tenantId w = t) (work_orders s) = Some w \<Longrightarrow>
        \<not> may (wo_status w) v"
    | (moved) w v where "find (\<lambda>w. wo_id w = k \<and> wo_tenantId w = t) (work_orders s) = Some w"
        "v = wo_status w \<and> (\<forall>u. \<not> may v u) \<or> may (wo_status w) v" "order_states s' = with_status k v s"
    unfolding outcome_def by blast
  then show ?thesis
  proof cases
    case same
    show ?thesis
      unfolding lift same(1) unfolding order_states_def list_all2_map2
      by (rule list.rel_refl_strong) (use held same(2) in \<open>auto simp: order_state_def law\<close>)
  next
    case (moved w v)
    show ?thesis
      unfolding lift moved(3) with_status_def list_all2_map2
      by (rule list.rel_refl_strong)
        (use unique_found [OF ids moved(1)] find_SomeD [OF moved(1)] moved(2) in \<open>auto simp: law\<close>)
  qed
qed

section \<open>Opening an order\<close>

definition opened :: "(uuid \<times> uuid \<times> WorkOrderStatus) list \<Rightarrow> db \<Rightarrow> bool" where
  "opened xs s \<longleftrightarrow> (\<exists>new. order_states s = xs @ new \<and> (\<forall>(i, t, v) \<in> set new. v = QUEUE))"

lemma keeps_opened: "(\<And>ys. keeps (has_states ys) m) \<Longrightarrow> keeps (opened xs) m"
proof (rule keepsI)
  fix s assume step: "\<And>ys. keeps (has_states ys) m" and "opened xs s"
  then obtain new where "has_states (xs @ new) s" "\<forall>(i, t, v) \<in> set new. v = QUEUE"
    by (auto simp: opened_def)
  with keeps_step [OF step this(1)] show "wp m (\<lambda>_. opened xs) (\<lambda>_. opened xs) s"
    by (elim wp_mono) (auto simp: opened_def)
qed

lemma keeps_states_open [keeps_intros]:
  "keeps (has_states xs) (check_customer_vehicle t dat)" "keeps (has_states xs) (check_mechanic cx t m)"
  "keeps (has_states xs) (take_appointment t a)" "keeps (has_states xs) (insert_line cx t n k author item)"
  "keeps (has_states xs) (next_sequence t docType yr)"
  unfolding check_customer_vehicle_def check_mechanic_def take_appointment_def insert_line_def next_sequence_def
  by (intro keeps_intros keeps_frame; simp)+

lemma keeps_opened_insert:
  "wo_status w = QUEUE \<Longrightarrow> keeps (opened xs) (insert_order w)"
  unfolding insert_order_def
  by (intro keeps_intros keepsI) (auto simp: wp_simps opened_def order_states_def order_state_def)

lemma keeps_opened_create:
  assumes "od_status dat = QUEUE"
  shows "keeps (opened xs) (create_WorkOrder cx t dat)"
  unfolding create_WorkOrder_def
  by (rule keeps_opened_insert | (rule keeps_opened, (intro keeps_intros keeps_frame; simp; fail)) | rule keeps_intros
    | simp add: new_order_def assms)+

lemma keeps_opened_createWorkOrder: "keeps (opened xs) (createWorkOrder cx t input author)"
proof -
  have queue: "od_status (order_data_of input n author) = QUEUE" for n
    by (simp add: order_data_of_def split: prod.split)
  show ?thesis
    unfolding createWorkOrder_def findActiveByVehicleId_def getNextWorkOrderNumber_def
    by (rule keeps_opened_create [OF queue] | (rule keeps_opened, (intro keeps_intros; fail)) | rule keeps_intros)+
qed

section \<open>Every request follows the life cycle\<close>

lemma same_follows:
  assumes "order_states s' = order_states s" and "\<And>w v. \<not> life_cycle q w v"
  shows "list_all2 (follows q) (work_orders s) (work_orders s')"
proof -
  have "list_all2 (\<lambda>w w'. order_state w' = order_state w) (work_orders s) (work_orders s')"
    using assms(1) by (simp add: order_states_def list_all2_conv_all_nth list_eq_iff_nth_eq)
  then show ?thesis
    by (rule list_all2_mono) (simp add: order_state_def follows_def assms(2))
qed

lemma requests_follow:
  assumes "unique_rows wo_id (work_orders s)" and "s' = snd (handle_stock cx q s)"
  shows "\<exists>old new. work_orders s' = old @ new \<and> list_all2 (follows q) (work_orders s) old \<and>
    (\<forall>w \<in> set new. wo_status w = QUEUE)"
proof -
  have settled: ?thesis if "list_all2 (follows q) (work_orders s) (work_orders s')"
    using that by (intro exI [of _ "work_orders s'"] exI [of _ "[]"]) simp
  have same: "list_all2 (follows q) (work_orders s) (work_orders s')"
    if "keeps (has_states (order_states s)) (handle_stock cx q)" "\<And>w v. \<not> life_cycle q w v"
    using same_follows [OF _ that(2)] keepsD [OF that(1) refl] assms(2) by simp
  show ?thesis
  proof (cases q)
    case (CreateOrder t input author)
    have "opened (order_states s) s'"
      using keepsD [OF keeps_ignore [OF keeps_opened_createWorkOrder [of "order_states s" cx t input author]], of s] assms(2) CreateOrder
      by (simp add: opened_def)
    then obtain new where new: "order_states s' = order_states s @ new" "\<forall>(i, t, v) \<in> set new. v = QUEUE"
      by (auto simp: opened_def)
    then obtain old rest where split: "work_orders s' = old @ rest" "map order_state old = order_states s" "map order_state rest = new"
      by (auto simp: order_states_def map_eq_append_conv)
    have "list_all2 (follows q) (work_orders s) (work_orders (s\<lparr>work_orders := old\<rparr>))"
      by (rule same_follows) (simp_all add: order_states_def split(2) [unfolded order_states_def] CreateOrder)
    with split new(2) show ?thesis
      by (intro exI [of _ old] exI [of _ rest]) (auto simp: order_state_def)
  next
    case (SetStatus t k str user)
    have "outcome t k (status_request str) s s'"
      using wp_ignore [THEN iffD2, OF wp_states_status [of cx t k str user s]] assms(2) SetStatus by (simp add: wp_any)
    from outcome_follows [OF assms(1) this, of q] show ?thesis
      by (intro settled) (auto simp: SetStatus status_request_def status_vo_ok)
  next
    case (Rollback t k)
    have "outcome t k undo s s'"
      using wp_ignore [THEN iffD2, OF wp_states_rollback [of cx t k s]] assms(2) Rollback by (simp add: wp_any)
    from outcome_follows [OF assms(1) this, of q] show ?thesis
      by (intro settled) (auto simp: Rollback)
  qed (intro settled same; simp add: keeps_ignore keeps_states_lines)+
qed

end
