(* ===== verification/Auth.thy ===== *)
theory Auth
  imports WorkOrderRepo
begin

text \<open>
  \<open>modules/auth\<close>: login with a code sent by SMS, registration of a workshop, refresh tokens with
  rotation by family, logout, the profile with the leave balance, and the check of an access
  token (\<open>jwt.strategy.ts\<close>, \<open>shared/security/access-identity.ts\<close>). Redis is a table of entries
  with the instant at which they expire; a Redis that is down reads nothing and forgets every
  write, as \<open>RedisService\<close> does. Signing and verifying tokens, SHA-256, random codes and the SMS
  provider are functions of the environment (record \<open>auth_env\<close>). Texts of messages and log
  lines are left out. The requests come before a tenant is known, so no tenant filter applies.
\<close>

section \<open>The environment\<close>

text \<open>The claims of a token, without the issue and expiry instants, which \<open>sign\<close> adds.\<close>

record claims =
  cl_sub :: uuid
  cl_phone :: string
  cl_email :: "string option"
  cl_role :: UserRole
  cl_tenantId :: "uuid option"
  cl_branchId :: "uuid option"
  cl_name :: string
  cl_tokenType :: string
  cl_familyId :: "uuid option"
  cl_jti :: "uuid option"

text \<open>
  \<open>en_sign c at s\<close> is the token for \<open>c\<close>, issued at instant \<open>at\<close> for \<open>s\<close> seconds; \<open>en_verify at x\<close> its
  claims when the signature is right and \<open>x\<close> has not expired at instant \<open>at\<close>. \<open>en_randomInt\<close> numbers
  the draws of \<open>crypto.randomInt(100000, 1000000)\<close>.
\<close>

record auth_env =
  en_ctx :: ctx
  en_nodeEnv :: string
  en_devBypass :: bool
  en_redisUp :: bool
  en_sign :: "claims \<Rightarrow> int \<Rightarrow> int \<Rightarrow> string"
  en_verify :: "int \<Rightarrow> string \<Rightarrow> claims option"
  en_sha256 :: "string \<Rightarrow> string"
  en_randomInt :: "nat \<Rightarrow> nat"
  en_sendSms :: "string \<Rightarrow> string \<Rightarrow> bool"

abbreviation en_now :: "auth_env \<Rightarrow> int" where
  "en_now env \<equiv> now (en_ctx env)"

section \<open>RedisService\<close>

definition redis_get :: "auth_env \<Rightarrow> string \<Rightarrow> string option dbM" where
  "redis_get env key = reads (\<lambda>s. if \<not> en_redisUp env then None
     else case redis s key of None \<Rightarrow> None
       | Some (v, expiry) \<Rightarrow> if en_now env < expiry then Some v else None)"

definition redis_set :: "auth_env \<Rightarrow> string \<Rightarrow> string \<Rightarrow> int \<Rightarrow> unit dbM" where
  "redis_set env key v ttlSeconds = whenM (en_redisUp env)
     (modifyM (\<lambda>s. s\<lparr>redis := (redis s)(key \<mapsto> (v, en_now env + ttlSeconds * 1000))\<rparr>))"

definition redis_del :: "auth_env \<Rightarrow> string \<Rightarrow> unit dbM" where
  "redis_del env key = whenM (en_redisUp env) (modifyM (\<lambda>s. s\<lparr>redis := (redis s)(key := None)\<rparr>))"

text \<open>\<open>parseInt((await redis.get(key)) || '0', 10)\<close> of a counter the service wrote itself.\<close>

definition redis_count :: "auth_env \<Rightarrow> string \<Rightarrow> nat dbM" where
  "redis_count env key = bindM (redis_get env key) (\<lambda>v. ret (digits_value (or_else v ''0'')))"

section \<open>Telephone numbers\<close>

definition normalizePhone :: "string \<Rightarrow> string" where
  "normalizePhone rawPhone =
     (let digits = filter (\<lambda>c. c \<in> set ''0123456789'') rawPhone in
      if length digits = 10 \<and> take 1 digits = ''5'' then ''90'' @ digits
      else if length digits = 11 \<and> take 2 digits = ''05'' then ''9'' @ digits
      else if length digits = 12 \<and> take 2 digits = ''90'' then digits
      else digits)"

definition slice :: "nat \<Rightarrow> nat \<Rightarrow> string \<Rightarrow> string" where
  "slice from to s = take (to - from) (drop from s)"

definition last10 :: "string \<Rightarrow> string" where
  "last10 s = drop (length s - 10) s"

text \<open>The spellings of a number that may be stored with an account.\<close>

definition spellings :: "string \<Rightarrow> string list" where
  "spellings normalizedPhone =
     (let raw10 = last10 normalizedPhone in
      [normalizedPhone, ''+'' @ normalizedPhone, raw10,
       slice 0 3 raw10 @ '' '' @ slice 3 6 raw10 @ '' '' @ slice 6 8 raw10 @ '' '' @ slice 8 10 raw10,
       slice 0 3 raw10 @ '' '' @ slice 3 6 raw10 @ '' '' @ drop 6 raw10])"

definition user_by_phone :: "string \<Rightarrow> user option dbM" where
  "user_by_phone normalizedPhone =
     find_first users (\<lambda>u. u_phone u \<in> set (spellings normalizedPhone) \<and> u_isActive u)"

definition tenant_of :: "user \<Rightarrow> tenant option dbM" where
  "tenant_of u = (case u_tenantId u of None \<Rightarrow> ret None | Some t \<Rightarrow> find_first tenants (\<lambda>x. t_id x = t))"

definition suspended :: "tenant option \<Rightarrow> bool" where
  "suspended x = (case x of None \<Rightarrow> False | Some t \<Rightarrow> \<not> t_isActive t)"

section \<open>Codes by SMS\<close>

record otp_answer =
  oa_phone :: string
  oa_devCode :: "string option"

definition cooldown_key :: "string \<Rightarrow> string" where "cooldown_key p = ''rate:otp:cooldown:'' @ p"
definition hourly_key :: "string \<Rightarrow> string" where "hourly_key p = ''rate:otp:hourly:'' @ p"
definition otp_key :: "string \<Rightarrow> string" where "otp_key p = ''otp:'' @ p"
definition attempt_key :: "string \<Rightarrow> string" where "attempt_key p = ''otp_attempts:'' @ p"

definition draw_code :: "auth_env \<Rightarrow> string dbM" where
  "draw_code env =
     (if en_nodeEnv env = ''production''
      then bindM (reads id_supply) (\<lambda>n. thenM (modifyM (\<lambda>s. s\<lparr>id_supply := Suc n\<rparr>))
        (ret (nat_str (en_randomInt env n))))
      else ret ''123456'')"

definition sendOtp :: "auth_env \<Rightarrow> string \<Rightarrow> otp_answer dbM" where
  "sendOtp env phone =
     (let normalizedPhone = normalizePhone phone in
      thenM (ensure (\<not> (normalizedPhone = [] \<or> length normalizedPhone < 10)) (BadRequestException
        ''Lutfen gecerli bir cep telefonu numarasi giriniz.''))
      (bindM (redis_get env (cooldown_key normalizedPhone)) (\<lambda>isCoolingDown.
      thenM (ensure (\<not> truthy isCoolingDown) (BadRequestException
        ''Lutfen yeni bir SMS kodu istemeden once 60 saniye bekleyiniz.''))
      (bindM (redis_count env (hourly_key normalizedPhone)) (\<lambda>hourlyCount.
      thenM (ensure (\<not> hourlyCount \<ge> 5) (BadRequestException
        ''Bu telefon numarasi icin saatlik SMS gonderim limiti (5) asildi.''))
      (bindM (user_by_phone normalizedPhone) (\<lambda>found.
       case found of
         None \<Rightarrow> ret \<lparr>oa_phone = normalizedPhone, oa_devCode = None\<rparr>
       | Some user \<Rightarrow> bindM (tenant_of user) (\<lambda>tenant.
           if suspended tenant then ret \<lparr>oa_phone = normalizedPhone, oa_devCode = None\<rparr>
           else bindM (draw_code env) (\<lambda>otpCode.
             thenM (redis_set env (otp_key normalizedPhone) otpCode 180)
             (thenM (emit (SendSms normalizedPhone otpCode))
             (thenM (if en_sendSms env normalizedPhone otpCode \<or> en_nodeEnv env \<noteq> ''production'' \<or> en_devBypass env
                then ret ()
                else thenM (redis_del env (otp_key normalizedPhone)) (throw (ServiceUnavailableException
                  ''Dogrulama kodu gonderilemedi. Lutfen tekrar deneyiniz.'')))
             (thenM (redis_set env (cooldown_key normalizedPhone) ''1'' 60)
             (thenM (redis_set env (hourly_key normalizedPhone) (nat_str (hourlyCount + 1)) 3600)
             (ret \<lparr>oa_phone = normalizedPhone, oa_devCode =
               (if en_nodeEnv env = ''development'' \<and> en_devBypass env then Some otpCode else None)\<rparr>))))))))))))))"

section \<open>Tokens\<close>

record token_pair =
  tp_accessToken :: string
  tp_refreshToken :: string
  tp_expiresIn :: int

definition thirty_days :: int where
  "thirty_days = 30 * 24 * 60 * 60"

text \<open>\<open>setDate(getDate() + 30)\<close> is 30 days of 24 hours, on a server without clock changes.\<close>

definition generateTokens :: "auth_env \<Rightarrow> user \<Rightarrow> uuid option \<Rightarrow> string option \<Rightarrow> token_pair dbM" where
  "generateTokens env user tenantId existingFamilyId =
     bindM (case or_null existingFamilyId of Some f \<Rightarrow> ret f | None \<Rightarrow> fresh_id (en_ctx env)) (\<lambda>familyId.
     let payload = \<lparr>cl_sub = u_id user, cl_phone = u_phone user, cl_email = u_email user, cl_role = u_role user,
           cl_tenantId = tenantId, cl_branchId = u_branchId user, cl_name = u_name user @ '' '' @ u_surname user,
           cl_tokenType = ''access'', cl_familyId = Some familyId, cl_jti = None\<rparr>;
         isSuperAdmin = (u_role user = SUPER_ADMIN);
         accessToken = en_sign env payload (en_now env) (if isSuperAdmin then 12 * 3600 else 15 * 60)
     in bindM (fresh_id (en_ctx env)) (\<lambda>jti.
     let refreshToken = en_sign env (payload\<lparr>cl_tokenType := ''refresh'', cl_jti := Some jti\<rparr>) (en_now env) thirty_days;
         hashedToken = en_sha256 env refreshToken
     in bindM (fresh_id (en_ctx env)) (\<lambda>ident.
     thenM (unique_index refresh_tokens ''refresh_tokens_token_hash_key'' (\<lambda>r. rt_tokenHash r = hashedToken))
     (bindM (create_row refresh_tokens refresh_tokens_update rt_id
       \<lparr>rt_id = ident, rt_userId = u_id user, rt_tokenHash = hashedToken, rt_familyId = familyId,
        rt_isRevoked = False, rt_expiresAt = en_now env + thirty_days * 1000\<rparr>) (\<lambda>_.
     ret \<lparr>tp_accessToken = accessToken, tp_refreshToken = refreshToken,
       tp_expiresIn = (if isSuperAdmin then 12 * 3600 else 900)\<rparr>)))))"

section \<open>Login\<close>

record login =
  lg_user :: user
  lg_tenantTitle :: string
  lg_tokens :: token_pair

text \<open>A wrong code counts as an attempt; the fifth one withdraws the code.\<close>

definition wrong_code :: "auth_env \<Rightarrow> string \<Rightarrow> nat \<Rightarrow> unit dbM" where
  "wrong_code env normalizedPhone attempts =
     (let newAttempts = attempts + 1 in
      thenM (redis_set env (attempt_key normalizedPhone) (nat_str newAttempts) 900)
      (if newAttempts \<ge> 5
       then thenM (redis_del env (otp_key normalizedPhone)) (throw (UnauthorizedException
         ''Cok fazla hatali kod denemesi yapildi.''))
       else throw (UnauthorizedException
         (''Girdiginiz dogrulama kodu hatali. Kalan deneme hakki: '' @ nat_str (5 - newAttempts)))))"

definition master_code :: "auth_env \<Rightarrow> string \<Rightarrow> bool" where
  "master_code env code \<longleftrightarrow> en_nodeEnv env = ''development'' \<and> en_devBypass env \<and> code = ''123456''"

definition check_code :: "auth_env \<Rightarrow> string \<Rightarrow> string \<Rightarrow> unit dbM" where
  "check_code env normalizedPhone code =
     bindM (redis_count env (attempt_key normalizedPhone)) (\<lambda>attempts.
     if attempts \<ge> 5
     then thenM (redis_del env (otp_key normalizedPhone)) (throw (UnauthorizedException
       ''Cok fazla hatali kod denemesi yapildi.''))
     else bindM (redis_get env (otp_key normalizedPhone)) (\<lambda>cachedCode.
       thenM (ensure (\<not> (\<not> truthy cachedCode \<and> \<not> master_code env code)) (UnauthorizedException
         ''Dogrulama kodunun suresi dolmus veya hic istenmemis.''))
       (thenM (whenM (truthy cachedCode \<and> cachedCode \<noteq> Some code \<and> \<not> master_code env code)
         (wrong_code env normalizedPhone attempts))
       (thenM (redis_del env (otp_key normalizedPhone))
         (redis_del env (attempt_key normalizedPhone))))))"

text \<open>\<open>user.tenant.title\<close> throws when the account belongs to no tenant, after the session is stored.\<close>

definition verifyOtp :: "auth_env \<Rightarrow> string \<Rightarrow> string \<Rightarrow> login dbM" where
  "verifyOtp env phone code =
     (let normalizedPhone = normalizePhone phone in
      bindM (user_by_phone normalizedPhone) (\<lambda>found.
      bindM (require (UnauthorizedException
        ''Bu telefon numarasina ait kullanici hesabi bulunamadi.'') found) (\<lambda>user.
      bindM (tenant_of user) (\<lambda>tenant.
      thenM (ensure (\<not> suspended tenant) (UnauthorizedException
        ''Bagli oldugunuz oto servisinin lisansi askiya alinmistir.''))
      (thenM (check_code env normalizedPhone code)
      (bindM (generateTokens env user (u_tenantId user) None) (\<lambda>tokens.
      bindM (require (DomainError ''Cannot read properties of null (title)'') tenant) (\<lambda>t.
      ret \<lparr>lg_user = user, lg_tenantTitle = t_title t, lg_tokens = tokens\<rparr>))))))))"

section \<open>Registration\<close>

record register_dto =
  rd_tenantTitle :: string
  rd_slug :: string
  rd_phone :: string
  rd_firstName :: string
  rd_lastName :: string
  rd_email :: "string option"

text \<open>The e-mail is optional in the request and required by the table \<open>tenants\<close>.\<close>

definition register_rows :: "auth_env \<Rightarrow> register_dto \<Rightarrow> string \<Rightarrow> (tenant \<times> user) dbM" where
  "register_rows env dto normalizedPhone = transaction
     (bindM (require (DbError (MissingArgument ''email'')) (rd_email dto)) (\<lambda>email.
      bindM (fresh_id (en_ctx env)) (\<lambda>tid.
      thenM (unique_index tenants ''tenants_slug_key'' (\<lambda>t. t_slug t = rd_slug dto))
      (bindM (create_row tenants tenants_update t_id
        \<lparr>t_id = tid, t_slug = rd_slug dto, t_title = rd_tenantTitle dto, t_phone = normalizedPhone,
         t_email = email, t_isActive = True, t_autoInvoiceOnComplete = False, t_activeLiftCount = 3, t_onboardingCompleted = False,
         t_b2bConsentAccepted = False, t_b2bConsentAcceptedAt = None, t_logoUrl = None\<rparr>) (\<lambda>createdTenant.
      bindM (fresh_id (en_ctx env)) (\<lambda>uid.
      thenM (unique_index users ''users_phone_key'' (\<lambda>u. u_phone u = normalizedPhone))
      (bindM (create_row users users_update u_id
        \<lparr>u_id = uid, u_tenantId = Some (t_id createdTenant), u_branchId = None, u_name = rd_firstName dto,
         u_surname = rd_lastName dto, u_phone = normalizedPhone, u_email = rd_email dto, u_passwordHash = None, u_role = OWNER,
         u_isActive = True, u_annualLeaveDays = 14, u_transferredLeaveDays = 0\<rparr>) (\<lambda>createdUser.
      ret (createdTenant, createdUser)))))))))"

definition registerTenant :: "auth_env \<Rightarrow> register_dto \<Rightarrow> (tenant \<times> user \<times> token_pair) dbM" where
  "registerTenant env dto =
     bindM (find_first tenants (\<lambda>t. t_slug t = rd_slug dto)) (\<lambda>existingSlug.
     thenM (ensure (existingSlug = None) (ConflictException
       ''Bu servis URL kodu (slug) zaten kullanimda.''))
     (bindM (register_rows env dto (normalizePhone (rd_phone dto))) (\<lambda>(tenant, user).
     bindM (generateTokens env user (Some (t_id tenant)) None) (\<lambda>tokens.
     thenM (case or_null (u_email user) of None \<Rightarrow> ret () | Some e \<Rightarrow> emit (SendEmail e (t_id tenant)))
     (ret (tenant, user, tokens))))))"

section \<open>Refresh and logout\<close>

definition find_token :: "auth_env \<Rightarrow> string \<Rightarrow> refresh_token option dbM" where
  "find_token env token =
     bindM (find_first refresh_tokens (\<lambda>r. rt_tokenHash r = en_sha256 env token)) (\<lambda>hashed.
     case hashed of Some r \<Rightarrow> ret (Some r)
     | None \<Rightarrow> find_first refresh_tokens (\<lambda>r. rt_tokenHash r = token))"

definition revoke_family :: "uuid \<Rightarrow> nat dbM" where
  "revoke_family familyId = update_where refresh_tokens refresh_tokens_update
     (\<lambda>r. rt_familyId r = familyId) (\<lambda>r. r\<lparr>rt_isRevoked := True\<rparr>)"

text \<open>The part of \<open>refreshToken\<close> inside \<open>try\<close>, up to \<open>return this.generateTokens(...)\<close>.\<close>

definition claim_token :: "auth_env \<Rightarrow> string \<Rightarrow> (user \<times> uuid) dbM" where
  "claim_token env token =
     bindM (require (DomainError ''invalid token'') (en_verify env (en_now env) token)) (\<lambda>refreshClaims.
     thenM (ensure (cl_tokenType refreshClaims = ''refresh'') (UnauthorizedException ''A refresh token is required.''))
     (bindM (find_token env token) (\<lambda>found.
     bindM (require (UnauthorizedException ''Gecersiz yenileme belirteci.'') found) (\<lambda>tokenRecord.
     thenM (whenM (rt_isRevoked tokenRecord \<or> rt_expiresAt tokenRecord \<le> en_now env)
       (thenM (revoke_family (rt_familyId tokenRecord))
         (throw (UnauthorizedException ''Guvenlik uyarisi: Oturumunuz sonlandirildi.''))))
     (bindM (update_where refresh_tokens refresh_tokens_update
       (\<lambda>r. rt_id r = rt_id tokenRecord \<and> \<not> rt_isRevoked r) (\<lambda>r. r\<lparr>rt_isRevoked := True\<rparr>)) (\<lambda>claimed.
     thenM (ensure (claimed = 1) (UnauthorizedException ''Refresh token already used.''))
     (bindM (find_first users (\<lambda>u. u_id u = rt_userId tokenRecord)) (\<lambda>account.
     bindM (require (UnauthorizedException ''Kullanici hesabi bulunamadi veya pasif durumda.'') account) (\<lambda>user.
     thenM (ensure (u_isActive user) (UnauthorizedException
       ''Kullanici hesabi bulunamadi veya pasif durumda.''))
     (bindM (tenant_of user) (\<lambda>tenant.
     thenM (ensure (\<not> suspended tenant) (UnauthorizedException
       ''Bagli oldugunuz oto servisinin lisansi askiya alinmistir.''))
     (ret (user, rt_familyId tokenRecord)))))))))))))"

definition refreshToken :: "auth_env \<Rightarrow> string \<Rightarrow> token_pair dbM" where
  "refreshToken env token =
     bindM (try_catch (claim_token env token) (\<lambda>_. throw (UnauthorizedException
       ''30 gunluk oturum sureniz doldu. Lutfen SMS ile tekrar giris yapiniz.''))) (\<lambda>(user, familyId).
     generateTokens env user (u_tenantId user) (Some familyId))"

definition revokeRefreshToken :: "auth_env \<Rightarrow> string option \<Rightarrow> unit dbM" where
  "revokeRefreshToken env token =
     (case or_null token of
        None \<Rightarrow> ret ()
      | Some tok \<Rightarrow>
          bindM (find_first refresh_tokens (\<lambda>r. rt_tokenHash r = en_sha256 env tok \<or> rt_tokenHash r = tok)) (\<lambda>found.
          case found of
            None \<Rightarrow> ret ()
          | Some r \<Rightarrow> thenM (revoke_family (rt_familyId r)) (ret ())))"

section \<open>Checking an access token\<close>

text \<open>\<open>validateAccessIdentity\<close>: the account is looked up again at every request.\<close>

definition validateAccessIdentity :: "auth_env \<Rightarrow> claims \<Rightarrow> user dbM" where
  "validateAccessIdentity env payload =
     thenM (ensure (\<not> (cl_tokenType payload \<noteq> ''access'' \<or> cl_sub payload = [])) (UnauthorizedException
       ''An access token is required.''))
     (bindM (find_first users (\<lambda>u. u_id u = cl_sub payload)) (\<lambda>found.
      bindM (case found of None \<Rightarrow> ret None | Some u \<Rightarrow> tenant_of u) (\<lambda>tenant.
      bindM (require (UnauthorizedException ''This account or its permissions are no longer active.'')
        (case found of None \<Rightarrow> None
         | Some u \<Rightarrow> if \<not> u_isActive u \<or> u_role u \<noteq> cl_role payload \<or>
               or_null (u_tenantId u) \<noteq> or_null (cl_tenantId payload) \<or>
               (truthy (u_tenantId u) \<and> \<not> (case tenant of None \<Rightarrow> False | Some t \<Rightarrow> t_isActive t))
             then None else Some u)) (\<lambda>user.
      thenM (whenM (u_role user \<noteq> SUPER_ADMIN)
        (bindM (require (UnauthorizedException ''Session is missing.'') (or_null (cl_familyId payload))) (\<lambda>familyId.
         bindM (find_first refresh_tokens (\<lambda>r. rt_userId r = u_id user \<and> rt_familyId r = familyId \<and>
             \<not> rt_isRevoked r \<and> rt_expiresAt r > en_now env)) (\<lambda>session.
         ensure (session \<noteq> None) (UnauthorizedException ''Session has been revoked.'')))))
      (ret user)))))"

text \<open>What the strategy leaves in the request and in the context of the tenant.\<close>

record identity =
  id_userId :: uuid
  id_role :: UserRole
  id_tenantId :: "uuid option"

definition validate :: "auth_env \<Rightarrow> claims \<Rightarrow> identity dbM" where
  "validate env payload =
     bindM (validateAccessIdentity env payload) (\<lambda>_.
     thenM (ensure (cl_sub payload \<noteq> []) (UnauthorizedException
       ''Gecersiz oturum belirteci (sub eksik).''))
     (thenM (ensure (\<not> (cl_role payload \<noteq> SUPER_ADMIN \<and> \<not> truthy (cl_tenantId payload))) (UnauthorizedException
       ''Gecersiz oturum belirteci (tenantId eksik).''))
     (thenM (case or_null (cl_tenantId payload) of
         None \<Rightarrow> ret ()
       | Some t \<Rightarrow> bindM (find_first tenants (\<lambda>x. t_id x = t)) (\<lambda>tenant.
           ensure (case tenant of None \<Rightarrow> False | Some x \<Rightarrow> t_isActive x) (UnauthorizedException
             ''Bu oto servisinin lisansi askiya alinmistir.'')))
     (ret \<lparr>id_userId = cl_sub payload, id_role = cl_role payload, id_tenantId = or_null (cl_tenantId payload)\<rparr>))))"

text \<open>A request with a bearer token: signature and expiry first, then the strategy.\<close>

definition authenticate :: "auth_env \<Rightarrow> string \<Rightarrow> identity dbM" where
  "authenticate env token =
     bindM (require (UnauthorizedException ''Gecersiz veya suresi dolmus oturum belirteci.'')
       (en_verify env (en_now env) token)) (validate env)"

section \<open>The profile\<close>

record leave_balance =
  lb_annualDays :: int
  lb_transferredDays :: int
  lb_totalDays :: int
  lb_usedDays :: number
  lb_remainingDays :: number

text \<open>\<open>Number(l.totalDays)\<close> of a column of one decimal.\<close>

definition leave_days :: "staff_leave \<Rightarrow> number" where
  "leave_days l = fl (of_int (l_totalDays l) / 10)"

definition tenths :: "number \<Rightarrow> number" where
  "tenths x = fdiv (of_int (math_round (fmul x 10))) 10"

definition used_days :: "staff_leave list \<Rightarrow> number" where
  "used_days leaves = foldl (\<lambda>sum l. fadd sum (leave_days l)) 0 leaves"

definition leave_balance_of :: "user \<Rightarrow> staff_leave list \<Rightarrow> leave_balance" where
  "leave_balance_of user leaves =
     (let usedDays = used_days leaves;
          totalDays = u_annualLeaveDays user + u_transferredLeaveDays user
      in \<lparr>lb_annualDays = u_annualLeaveDays user, lb_transferredDays = u_transferredLeaveDays user,
          lb_totalDays = totalDays, lb_usedDays = tenths usedDays,
          lb_remainingDays = max 0 (tenths (fsub (num_of_int totalDays) usedDays))\<rparr>)"

definition approved_annual :: "uuid \<Rightarrow> uuid \<Rightarrow> staff_leave \<Rightarrow> bool" where
  "approved_annual tenantId userId l \<longleftrightarrow> l_tenantId l = tenantId \<and> l_userId l = userId \<and>
     l_leaveType l = ANNUAL \<and> l_status l = L_APPROVED"

record profile =
  pf_user :: user
  pf_tenant :: "tenant option"
  pf_mechanic :: "mechanic option"
  pf_leaveBalance :: "leave_balance option"
  pf_todayLeave :: "staff_leave option"

definition getProfile :: "auth_env \<Rightarrow> uuid \<Rightarrow> profile dbM" where
  "getProfile env userId =
     bindM (find_first users (\<lambda>u. u_id u = userId)) (\<lambda>found.
     bindM (require (UnauthorizedException ''Kullanici bulunamadi.'') found) (\<lambda>user.
     bindM (tenant_of user) (\<lambda>tenant.
     bindM (find_first mechanics (\<lambda>m. m_userId m = u_id user)) (\<lambda>mechanic.
     thenM (ensure (\<not> suspended tenant) (UnauthorizedException
       ''Bagli oldugunuz oto servisinin lisansi askiya alinmistir.''))
     (case or_null (u_tenantId user) of
        None \<Rightarrow> ret \<lparr>pf_user = user, pf_tenant = tenant, pf_mechanic = mechanic,
          pf_leaveBalance = None, pf_todayLeave = None\<rparr>
      | Some t \<Rightarrow>
          bindM (find_many staff_leaves (approved_annual t (u_id user))) (\<lambda>approvedAnnualLeaves.
          let todayDate = day_of (en_now env) in
          bindM (find_first staff_leaves (\<lambda>l. l_tenantId l = t \<and> l_userId l = u_id user \<and>
            l_status l = L_APPROVED \<and> l_startDate l \<le> todayDate \<and> todayDate \<le> l_endDate l)) (\<lambda>todayLeave.
          ret \<lparr>pf_user = user, pf_tenant = tenant, pf_mechanic = mechanic,
            pf_leaveBalance = Some (leave_balance_of user approvedAnnualLeaves), pf_todayLeave = todayLeave\<rparr>)))))))"

end
