(* ===== verification/Sessions.thy ===== *)
theory Sessions
  imports Auth Service
begin

text \<open>
  What the login keeps over histories of requests: a used refresh token never works again, an
  ended session stays ended (its refresh tokens and its access tokens), and a code sent by SMS
  can be guessed at most five times. Requests carry the instant at which they arrive.
\<close>

section \<open>Requests\<close>

definition at_time :: "auth_env \<Rightarrow> int \<Rightarrow> auth_env" where
  "at_time env t = env\<lparr>en_ctx := (en_ctx env)\<lparr>now := t\<rparr>\<rparr>"

lemma at_time_simps [simp]:
  "en_now (at_time env t) = t" "gen_id (en_ctx (at_time env t)) = gen_id (en_ctx env)" "en_sha256 (at_time env t) = en_sha256 env"
  "en_verify (at_time env t) = en_verify env" "en_redisUp (at_time env t) = en_redisUp env" "en_sign (at_time env t) = en_sign env"
  "en_nodeEnv (at_time env t) = en_nodeEnv env" "en_devBypass (at_time env t) = en_devBypass env"
  "en_randomInt (at_time env t) = en_randomInt env" "en_sendSms (at_time env t) = en_sendSms env"
  by (simp_all add: at_time_def)

datatype auth_request =
    SendCode string
  | VerifyCode string string
  | Register register_dto
  | Refresh string
  | Logout "string option"
  | Call string
  | ViewProfile uuid

fun handle_auth :: "auth_env \<Rightarrow> int \<times> auth_request \<Rightarrow> unit dbM" where
  "handle_auth env (t, SendCode phone) = ignore (sendOtp (at_time env t) phone)"
| "handle_auth env (t, VerifyCode phone code) = ignore (verifyOtp (at_time env t) phone code)"
| "handle_auth env (t, Register dto) = ignore (registerTenant (at_time env t) dto)"
| "handle_auth env (t, Refresh token) = ignore (refreshToken (at_time env t) token)"
| "handle_auth env (t, Logout token) = revokeRefreshToken (at_time env t) token"
| "handle_auth env (t, Call token) = ignore (authenticate (at_time env t) token)"
| "handle_auth env (t, ViewProfile k) = ignore (getProfile (at_time env t) k)"

section \<open>Invariants of the login\<close>

text \<open>
  An invariant of the store that the steps of the login keep: the accesses to Redis, new tokens,
  the rows of a registration, and the two requests on sessions. It is then kept by every request,
  and by every sequence of requests.
\<close>

lemma keeps_auth_reads [keeps_intros]: "keeps I (tenant_of u)" "keeps I (user_by_phone p)"
  by (auto simp: tenant_of_def user_by_phone_def intro: keeps_intros)

locale auth_keeper =
  fixes I :: "db \<Rightarrow> bool" and env :: auth_env
  assumes cache: "keeps I (redis_get (at_time env t) key)" "keeps I (redis_set (at_time env t) key v ttl)"
      "keeps I (redis_del (at_time env t) key)"
    and sends: "keeps I (emit e)" "keeps I (draw_code (at_time env t))"
    and tokens: "keeps I (generateTokens (at_time env t) u tn None)"
    and registration: "keeps I (registerTenant (at_time env t) dto)"
    and sessions: "keeps I (refreshToken (at_time env t) tok)" "keeps I (revokeRefreshToken (at_time env t) tok')"
begin

lemma flows:
  "keeps I (sendOtp (at_time env t) phone)" "keeps I (verifyOtp (at_time env t) phone code)"
  "keeps I (authenticate (at_time env t) access)" "keeps I (getProfile (at_time env t) k)"
  unfolding sendOtp_def verifyOtp_def check_code_def wrong_code_def redis_count_def
    authenticate_def validate_def validateAccessIdentity_def getProfile_def Let_def
  by (rule cache sends tokens keeps_intros | rule allI impI)+

lemma handle_keeps: "keeps I (handle_auth env q)"
proof (cases q)
  case (Pair t r)
  then show ?thesis
    by (cases r) (simp_all add: keeps_ignore flows registration sessions)
qed

end

sublocale auth_keeper \<subseteq> closed_service "handle_auth env" "\<lambda>_ _. True" I
  by unfold_locales (use handle_keeps in \<open>simp_all add: keeps_def\<close>)

section \<open>What can happen to the stored tokens\<close>

text \<open>Rows are revoked in place and appended with new hashes; ids are drawn in order.\<close>

definition revokes :: "refresh_token list \<Rightarrow> refresh_token list \<Rightarrow> bool" where
  "revokes rs rs' \<longleftrightarrow> list_all2 (\<lambda>r r'. r' = r \<or> r' = r\<lparr>rt_isRevoked := True\<rparr>) rs rs'"

lemma revokes_refl [simp]: "revokes rs rs"
  by (simp add: revokes_def list_all2_refl)

lemma revokes_map: "revokes rs (map (\<lambda>r. if P r then r\<lparr>rt_isRevoked := True\<rparr> else r) rs)"
  by (simp add: revokes_def list_all2_map2 list_all2_same)

lemma revokes_trans: "revokes rs rs' \<Longrightarrow> revokes rs' rs'' \<Longrightarrow> revokes rs rs''"
  unfolding revokes_def by (rule list_all2_trans) auto

text \<open>The first row with a hash stays the first row with that hash.\<close>

lemma revokes_find:
  assumes "revokes rs rs'" and "find (\<lambda>r. rt_tokenHash r = h) rs = Some r"
  obtains r' where "find (\<lambda>r. rt_tokenHash r = h) rs' = Some r'" and "r' = r \<or> r' = r\<lparr>rt_isRevoked := True\<rparr>"
proof -
  have "\<exists>r'. find (\<lambda>r. rt_tokenHash r = h) rs' = Some r' \<and> (r' = r \<or> r' = r\<lparr>rt_isRevoked := True\<rparr>)"
    using assms unfolding revokes_def by (induction rs rs' rule: list_all2_induct) (auto split: if_splits)
  with that show ?thesis by blast
qed

section \<open>Invariants of the token table\<close>

text \<open>The first row with hash \<open>h\<close> belongs to family \<open>fam\<close> and is revoked.\<close>

definition used_up :: "string \<Rightarrow> uuid \<Rightarrow> db \<Rightarrow> bool" where
  "used_up h fam s \<longleftrightarrow> (case find (\<lambda>r. rt_tokenHash r = h) (refresh_tokens s) of
     None \<Rightarrow> False | Some r \<Rightarrow> rt_isRevoked r \<and> rt_familyId r = fam)"

text \<open>Every row of family \<open>fam\<close> is revoked, and the family will not be drawn again.\<close>

definition ended :: "(nat \<Rightarrow> uuid) \<Rightarrow> uuid \<Rightarrow> db \<Rightarrow> bool" where
  "ended gen fam s \<longleftrightarrow> list_all (\<lambda>r. rt_familyId r = fam \<longrightarrow> rt_isRevoked r) (refresh_tokens s) \<and>
     fam \<noteq> [] \<and> (\<forall>n\<ge>id_supply s. gen n \<noteq> fam)"

lemma used_up_revokes: "used_up h fam s \<Longrightarrow> revokes (refresh_tokens s) (refresh_tokens s') \<Longrightarrow> used_up h fam s'"
  unfolding used_up_def
  by (cases "find (\<lambda>r. rt_tokenHash r = h) (refresh_tokens s)") (auto elim!: revokes_find)

lemma ended_revokes:
  "ended gen fam s \<Longrightarrow> id_supply s \<le> id_supply s' \<Longrightarrow> revokes (refresh_tokens s) (refresh_tokens s') \<Longrightarrow> ended gen fam s'"
proof -
  assume s: "ended gen fam s" "id_supply s \<le> id_supply s'" and "revokes (refresh_tokens s) (refresh_tokens s')"
  from this(3) have "list_all (\<lambda>r. rt_familyId r = fam \<longrightarrow> rt_isRevoked r) (refresh_tokens s) \<Longrightarrow>
      list_all (\<lambda>r. rt_familyId r = fam \<longrightarrow> rt_isRevoked r) (refresh_tokens s')"
    unfolding revokes_def by (induction rule: list_all2_induct) auto
  with s show ?thesis
    by (simp add: ended_def)
qed

lemma used_up_frame: "refresh_tokens s' = refresh_tokens s \<Longrightarrow> used_up h fam s' = used_up h fam s"
  by (simp add: used_up_def)

lemma ended_frame: "refresh_tokens s' = refresh_tokens s \<Longrightarrow> id_supply s' = id_supply s \<Longrightarrow> ended gen fam s' = ended gen fam s"
  by (simp add: ended_def)

lemma token_frames [simp]:
  "used_up h fam (users_update f s) = used_up h fam s" "ended gen fam (users_update f s) = ended gen fam s"
  "used_up h fam (tenants_update f' s) = used_up h fam s" "ended gen fam (tenants_update f' s) = ended gen fam s"
  "used_up h fam (redis_update f'' s) = used_up h fam s" "ended gen fam (redis_update f'' s) = ended gen fam s"
  "used_up h fam (outbox_update g s) = used_up h fam s" "ended gen fam (outbox_update g s) = ended gen fam s"
  "used_up h fam (id_supply_update g' s) = used_up h fam s"
  by (simp_all add: used_up_def ended_def)

lemma used_up_revoke:
  "used_up h fam s \<Longrightarrow> used_up h fam (s\<lparr>refresh_tokens :=
     map (\<lambda>r. if P r then r\<lparr>rt_isRevoked := True\<rparr> else r) (refresh_tokens s)\<rparr>)"
  by (erule used_up_revokes) (simp add: revokes_map)

lemma ended_revoke:
  "ended gen fam s \<Longrightarrow> ended gen fam (s\<lparr>refresh_tokens :=
     map (\<lambda>r. if P r then r\<lparr>rt_isRevoked := True\<rparr> else r) (refresh_tokens s)\<rparr>)"
  by (erule ended_revokes) (simp_all add: revokes_map)

section \<open>Both invariants are kept\<close>

lemma ended_supply: "ended gen fam s \<Longrightarrow> id_supply s \<le> n \<Longrightarrow> ended gen fam (s\<lparr>id_supply := n\<rparr>)"
  by (simp add: ended_def)

lemmas auth_steps = redis_get_def redis_set_def redis_del_def redis_count_def draw_code_def
  tenant_of_def user_by_phone_def find_token_def revoke_family_def

lemma keeps_used_up_small [keeps_intros]:
  "keeps (used_up h fam) (redis_get env key)" "keeps (used_up h fam) (redis_set env key v ttl)"
  "keeps (used_up h fam) (redis_del env key)" "keeps (used_up h fam) (redis_count env key)"
  "keeps (used_up h fam) (emit e)" "keeps (used_up h fam) (fresh_id cx)" "keeps (used_up h fam) (draw_code env)"
  "keeps (used_up h fam) (tenant_of u)" "keeps (used_up h fam) (user_by_phone p)"
  "keeps (used_up h fam) (find_token env tok)" "keeps (used_up h fam) (revoke_family k)"
  by (auto simp: keeps_def wp_simps auth_steps used_up_revoke split: option.split)

lemma keeps_ended_small [keeps_intros]:
  "keeps (ended gen fam) (redis_get env key)" "keeps (ended gen fam) (redis_set env key v ttl)"
  "keeps (ended gen fam) (redis_del env key)" "keeps (ended gen fam) (redis_count env key)"
  "keeps (ended gen fam) (emit e)" "keeps (ended gen fam) (fresh_id cx)" "keeps (ended gen fam) (draw_code env)"
  "keeps (ended gen fam) (tenant_of u)" "keeps (ended gen fam) (user_by_phone p)"
  "keeps (ended gen fam) (find_token env tok)" "keeps (ended gen fam) (revoke_family k)"
  by (auto simp: keeps_def wp_simps auth_steps ended_revoke ended_supply split: option.split)

text \<open>New tokens.\<close>

lemma wp_generateTokens:
  "wp (generateTokens env u t k) (\<lambda>x s'. \<exists>r. refresh_tokens s' = refresh_tokens s @ [r] \<and> id_supply s \<le> id_supply s' \<and>
      rt_familyId r = (case or_null k of Some f \<Rightarrow> f | None \<Rightarrow> gen_id (en_ctx env) (id_supply s)) \<and>
      rt_tokenHash r = en_sha256 env (tp_refreshToken x))
    (\<lambda>_ s'. refresh_tokens s' = refresh_tokens s \<and> id_supply s \<le> id_supply s') s"
  by (cases "or_null k") (simp_all add: generateTokens_def Let_def wp_simps)

lemma keeps_used_up_tokens [keeps_intros]: "keeps (used_up h fam) (generateTokens env u t k)"
  by (rule keepsI, rule wp_mono [OF wp_generateTokens])
    (auto simp: used_up_def find_append split: option.splits)

lemma ended_append:
  assumes "ended gen fam s" and "refresh_tokens s' = refresh_tokens s @ rs" and "id_supply s \<le> id_supply s'"
    and "list_all (\<lambda>r. rt_familyId r \<noteq> fam) rs"
  shows "ended gen fam s'"
proof -
  have "gen n \<noteq> fam" if "id_supply s' \<le> n" for n
    using assms(1,3) that by (meson ended_def order_trans)
  with assms show ?thesis
    by (auto simp: ended_def list_all_iff)
qed

lemma wp_generate_ended:
  assumes s: "ended gen fam s" and "or_null k \<noteq> Some fam" and "gen = gen_id (en_ctx env)"
  shows "wp (generateTokens env u t k) (\<lambda>_. ended gen fam) (\<lambda>_. ended gen fam) s"
proof (rule wp_mono [OF wp_generateTokens], goal_cases)
  case (1 x s')
  then obtain r where r: "refresh_tokens s' = refresh_tokens s @ [r]" "id_supply s \<le> id_supply s'"
    and fam: "rt_familyId r = (case or_null k of Some f \<Rightarrow> f | None \<Rightarrow> gen (id_supply s))"
    using assms(3) by auto
  have "gen (id_supply s) \<noteq> fam"
    using s by (simp add: ended_def)
  with fam assms(2) show ?case
    by (intro ended_append [OF s r]) (auto split: option.splits)
next
  case (2 e s')
  then show ?case
    using ended_append [OF s, of s' "[]"] by simp
qed

lemma wp_claim_ended:
  assumes s: "ended gen fam s"
  shows "wp (claim_token env tok) (\<lambda>x s'. snd x \<noteq> fam \<and> ended gen fam s') (\<lambda>_. ended gen fam) s"
proof -
  have live: "rt_familyId r \<noteq> fam" if "find P (refresh_tokens s) = Some r" "\<not> rt_isRevoked r" for P r
    using that s find_SomeD [OF that(1)] by (auto simp: ended_def list_all_iff)
  show ?thesis
    unfolding claim_token_def auth_steps
    by (auto simp: wp_simps s live ended_revoke split: option.split)
qed

lemma keeps_used_up_claim [keeps_intros]: "keeps (used_up h fam) (claim_token env tok)"
  unfolding claim_token_def
  by (intro keeps_intros) (auto simp: keeps_def wp_simps used_up_revoke)

lemma keeps_ended_tokens [keeps_intros]:
  "gen = gen_id (en_ctx env) \<Longrightarrow> keeps (ended gen fam) (generateTokens env u t None)"
  by (rule keepsI) (auto intro: wp_generate_ended)

lemma keeps_ended_refresh: "gen = gen_id (en_ctx env) \<Longrightarrow> keeps (ended gen fam) (refreshToken env tok)"
  unfolding refreshToken_def
  by (rule keepsI, unfold wp_bindM wp_try_catch wp_throw, rule wp_mono [OF wp_claim_ended])
    (auto simp: or_null_def intro!: wp_generate_ended split: prod.split if_splits)

lemma keeps_register:
  assumes "\<And>e. keeps I (emit e)" "\<And>cx. keeps I (fresh_id cx)" "\<And>u t. keeps I (generateTokens env u t None)"
    "\<And>f s. I (tenants_update f s) = I s" "\<And>f s. I (users_update f s) = I s"
  shows "keeps I (registerTenant env dto)"
  unfolding registerTenant_def register_rows_def Let_def
  by (rule assms keeps_intros keeps_frame | rule allI impI | simp add: assms split: prod.split)+

lemma keeps_used_up_revoke: "keeps (used_up h fam) (revokeRefreshToken env tok)"
    "keeps (used_up h fam) (refreshToken env tok')"
  unfolding revokeRefreshToken_def refreshToken_def
  by (rule keeps_intros | simp split: prod.split | rule allI impI)+

lemma keeps_ended_revoke: "keeps (ended gen fam) (revokeRefreshToken env tok)"
  unfolding revokeRefreshToken_def by (rule keeps_intros)+

interpretation used_tokens: auth_keeper "used_up h fam" env for env h fam
  by unfold_locales (simp_all add: keeps_used_up_small keeps_used_up_tokens keeps_used_up_revoke keeps_register)

interpretation ended_sessions: auth_keeper "ended (gen_id (en_ctx env)) fam" env for env fam
  by unfold_locales (simp_all add: keeps_ended_small keeps_ended_tokens keeps_ended_refresh keeps_ended_revoke keeps_register)

section \<open>What the end of a token and of a session means\<close>

lemma wp_refresh_used:
  assumes "used_up (en_sha256 env tok) fam s"
  shows "wp (refreshToken env tok) (\<lambda>_ _. False) (\<lambda>e s'.
      e = UnauthorizedException ''30 gunluk oturum sureniz doldu. Lutfen SMS ile tekrar giris yapiniz.'' \<and>
      (map_option cl_tokenType (en_verify env (en_now env) tok) = Some ''refresh'' \<longrightarrow>
        list_all (\<lambda>r. rt_familyId r = fam \<longrightarrow> rt_isRevoked r) (refresh_tokens s') \<and> id_supply s' = id_supply s)) s"
proof -
  obtain r where "find (\<lambda>r. rt_tokenHash r = en_sha256 env tok) (refresh_tokens s) = Some r"
      "rt_isRevoked r" "rt_familyId r = fam"
    using assms by (auto simp: used_up_def split: option.splits)
  then show ?thesis
    by (auto simp: refreshToken_def claim_token_def find_token_def revoke_family_def wp_simps list_all_iff
      split: option.split)
qed

lemma wp_access_ended:
  assumes "ended gen fam s" and "cl_familyId c = Some fam" and "cl_role c \<noteq> SUPER_ADMIN"
  shows "wp (validateAccessIdentity env c) (\<lambda>_ _. False) (\<lambda>_ s'. s' = s) s"
proof -
  have "find (\<lambda>r. rt_userId r = k \<and> rt_familyId r = fam \<and> \<not> rt_isRevoked r \<and> rt_expiresAt r > t)
      (refresh_tokens s) = None" for k t
    using assms(1) by (auto simp: find_None_iff ended_def list_all_iff)
  moreover have "or_null (Some fam) = Some fam"
    using assms(1) by (simp add: ended_def or_null_def truthy_def)
  ultimately show ?thesis
    using assms(2,3) by (auto simp: validateAccessIdentity_def tenant_of_def wp_simps split: option.split)
qed

lemma wp_authenticate_ended:
  assumes "ended gen fam s" and "en_verify env (en_now env) tok = Some c" and "cl_familyId c = Some fam"
    and "cl_role c \<noteq> SUPER_ADMIN"
  shows "wp (authenticate env tok) (\<lambda>_ _. False) (\<lambda>_ s'. s' = s) s"
  unfolding authenticate_def validate_def wp_bindM wp_require assms(2) option.case wp_funs
  by (rule wp_mono [OF wp_access_ended [OF assms(1,3,4)]]) simp_all

text \<open>A successful refresh uses its token up; a logout ends the session.\<close>

lemma wp_refresh_uses:
  assumes row: "find (\<lambda>r. rt_tokenHash r = en_sha256 env tok) (refresh_tokens s) = Some r"
  shows "wp (refreshToken env tok) (\<lambda>_. used_up (en_sha256 env tok) (rt_familyId r)) (\<lambda>_ _. True) s"
proof -
  have "wp (claim_token env tok) (\<lambda>_. used_up (en_sha256 env tok) (rt_familyId r)) (\<lambda>_ _. True) s"
  proof -
    have "find (\<lambda>x. rt_tokenHash x = h) (map (\<lambda>x. if rt_id x = rt_id r \<and> \<not> rt_isRevoked x
        then x\<lparr>rt_isRevoked := True\<rparr> else x) rows) = Some (r\<lparr>rt_isRevoked := True\<rparr>)"
      if "find (\<lambda>r. rt_tokenHash r = h) rows = Some r" "\<not> rt_isRevoked r" for rows h
      using that by (induction rows) (auto split: if_splits)
    note this [OF row]
    then show ?thesis
      by (auto simp: claim_token_def find_token_def tenant_of_def revoke_family_def wp_simps row used_up_def split: option.split)
  qed
  then show ?thesis
    unfolding refreshToken_def wp_bindM wp_try_catch wp_throw
    by (rule wp_mono) (auto intro!: keeps_wp [OF keeps_used_up_tokens] split: prod.split)
qed

lemma logout_ends:
  assumes "find (\<lambda>r. rt_tokenHash r = en_sha256 env tok \<or> rt_tokenHash r = tok) (refresh_tokens s) = Some r"
    and "tok \<noteq> []" and "rt_familyId r \<noteq> []" and "\<forall>n\<ge>id_supply s. gen n \<noteq> rt_familyId r"
  shows "ended gen (rt_familyId r) (snd (revokeRefreshToken env (Some tok) s))"
  unfolding wp_any [symmetric] using assms
  by (auto simp: revokeRefreshToken_def revoke_family_def or_null_def truthy_def wp_simps ended_def list_all_iff)

end
