(* ===== verification/LoginCodes.thy ===== *)
theory LoginCodes
  imports Sessions
begin

text \<open>
  The codes sent by SMS: a login needs the stored code and uses it up, a code can be compared
  with at most five wrong guesses, and what a caller without an account learns from \<open>sendOtp\<close>.
\<close>

section \<open>Entries of Redis\<close>

lemma nat_str_not_Nil [simp]: "nat_str n \<noteq> []"
  by (subst nat_str.simps) simp

lemma count_of_nat_str [simp]: "digits_value (or_else (Some (nat_str k)) d) = k"
  by (simp add: or_else_def digits_value_nat_str)

lemma count_of_None [simp]: "digits_value (or_else None ''0'') = 0"
  by (simp add: or_else_def digits_value_def)

lemma otp_keys [simp]:
  "otp_key p \<noteq> attempt_key q" "attempt_key q \<noteq> otp_key p" "cooldown_key p \<noteq> hourly_key q"
  "hourly_key q \<noteq> cooldown_key p" "cooldown_key p \<noteq> otp_key q" "otp_key q \<noteq> cooldown_key p"
  by (simp_all add: otp_key_def attempt_key_def cooldown_key_def hourly_key_def)

lemma wp_redis [wp_simps]:
  "wp (redis_get env key) Q E s = Q (if \<not> en_redisUp env then None else case redis s key of None \<Rightarrow> None
     | Some (v, expiry) \<Rightarrow> if en_now env < expiry then Some v else None) s"
  "wp (redis_set env key v ttl) Q' E' s = (if en_redisUp env
     then Q' () (s\<lparr>redis := (redis s)(key \<mapsto> (v, en_now env + ttl * 1000))\<rparr>) else Q' () s)"
  "wp (redis_del env key) Q' E' s = (if en_redisUp env then Q' () (s\<lparr>redis := (redis s)(key := None)\<rparr>) else Q' () s)"
  by (simp_all add: redis_get_def redis_set_def redis_del_def wp_simps)

section \<open>A login needs the code\<close>

lemma keeps_redis_tokens: "keeps (\<lambda>s. redis s = r) (generateTokens env u t k)"
  by (auto simp: keeps_def generateTokens_def Let_def wp_simps split: option.split)

lemma wp_check_code:
  assumes "\<not> master_code env code"
  shows "wp (check_code env p code) (\<lambda>_ s'. en_redisUp env \<and> (\<exists>expiry. redis s (otp_key p) = Some (code, expiry) \<and>
      en_now env < expiry) \<and> redis s' (otp_key p) = None) (\<lambda>_ _. True) s"
  using assms unfolding check_code_def wrong_code_def redis_count_def Let_def
  by (auto simp: wp_simps truthy_def split: option.splits prod.splits if_splits)

lemma wp_verifyOtp_code:
  assumes "\<not> master_code env code"
  shows "wp (verifyOtp env phone code) (\<lambda>_ s'. en_redisUp env \<and>
      (\<exists>expiry. redis s (otp_key (normalizePhone phone)) = Some (code, expiry) \<and> en_now env < expiry) \<and>
      redis s' (otp_key (normalizePhone phone)) = None) (\<lambda>_ _. True) s"
proof -
  let ?p = "normalizePhone phone"
  let ?Q = "\<lambda>s'. en_redisUp env \<and> (\<exists>expiry. redis s (otp_key ?p) = Some (code, expiry) \<and> en_now env < expiry) \<and>
      redis s' (otp_key ?p) = None"
  have tokens: "wp (generateTokens env u t k) (\<lambda>_. ?Q) (\<lambda>_ _. True) s'" if "?Q s'" for u t k s'
    by (rule keeps_wp [OF keeps_redis_tokens [of "redis s'"]]) (use that in simp_all)
  have after: "wp (check_code env ?p code) (\<lambda>_. wp (bindM (generateTokens env u k None) (\<lambda>tokens.
      bindM (require e tn) (\<lambda>t. ret (f tokens t)))) (\<lambda>_. ?Q) (\<lambda>_ _. True)) (\<lambda>_ _. True) s"
    for u k e tn and f :: "token_pair \<Rightarrow> tenant \<Rightarrow> login"
    by (rule wp_mono [OF wp_check_code [OF assms, of ?p s]])
      (auto simp: wp_bindM wp_require wp_ret intro!: wp_mono [OF tokens] split: option.split)
  show ?thesis
    unfolding verifyOtp_def Let_def user_by_phone_def tenant_of_def
    by (auto simp: wp_bindM wp_thenM wp_find_first wp_require wp_ensure wp_ret split: option.split)
      (rule after)+
qed

section \<open>Guessing a code\<close>

text \<open>One of a list of guesses, each at its instant, leads to a login.\<close>

fun any_login :: "auth_env \<Rightarrow> string \<Rightarrow> (int \<times> string) list \<Rightarrow> db \<Rightarrow> bool" where
  "any_login env phone [] s = False"
| "any_login env phone ((t, code) # guesses) s =
     (case verifyOtp (at_time env t) phone code s of
        (Inr _, _) \<Rightarrow> True | (Inl _, s') \<Rightarrow> any_login env phone guesses s')"

text \<open>The code of \<open>p\<close>, when there is one, has expired at \<open>t\<close>.\<close>

definition expired :: "string \<Rightarrow> int \<Rightarrow> db \<Rightarrow> bool" where
  "expired p t s \<longleftrightarrow> (case redis s (otp_key p) of None \<Rightarrow> True | Some (v, expiry) \<Rightarrow> expiry \<le> t)"

text \<open>The code is \<open>c\<close>, \<open>k\<close> wrong guesses have been counted, and the counter outlives the code.\<close>

definition counted :: "string \<Rightarrow> string \<Rightarrow> int \<Rightarrow> nat \<Rightarrow> db \<Rightarrow> bool" where
  "counted p c expiry k s \<longleftrightarrow> redis s (otp_key p) = Some (c, expiry) \<and>
     (if k = 0 then redis s (attempt_key p) = None
      else case redis s (attempt_key p) of None \<Rightarrow> False | Some (v, x) \<Rightarrow> v = nat_str k \<and> expiry \<le> x)"

text \<open>The number belongs to an active account of an active workshop.\<close>

definition has_account :: "string \<Rightarrow> db \<Rightarrow> bool" where
  "has_account p s \<longleftrightarrow> (case find (\<lambda>u. u_phone u \<in> set (spellings p) \<and> u_isActive u) (users s) of
     None \<Rightarrow> False
   | Some u \<Rightarrow> \<not> suspended (case u_tenantId u of None \<Rightarrow> None | Some t \<Rightarrow> find (\<lambda>x. t_id x = t) (tenants s)))"

lemma wp_verify_fails:
  assumes "wp (check_code env (normalizePhone phone) code) (\<lambda>_ _. False) (\<lambda>_. I) s"
    and "I s \<or> has_account (normalizePhone phone) s"
  shows "wp (verifyOtp env phone code) (\<lambda>_ _. False) (\<lambda>_. I) s"
proof -
  have "wp (check_code env (normalizePhone phone) code) Q (\<lambda>_. I) s" for Q
    by (rule wp_mono [OF assms(1)]) auto
  then show ?thesis
    unfolding verifyOtp_def Let_def user_by_phone_def tenant_of_def
    using assms(2) by (auto simp: wp_bindM wp_thenM wp_find_first wp_require wp_ensure wp_ret has_account_def
      split: option.splits)
qed

lemma guess_expired:
  assumes "\<not> master_code env code" and "expired (normalizePhone phone) t0 s" and "t0 \<le> en_now env"
  shows "wp (verifyOtp env phone code) (\<lambda>_ _. False) (\<lambda>_. expired (normalizePhone phone) t0) s"
  by (rule wp_verify_fails)
    (use assms in \<open>auto simp: check_code_def redis_count_def wp_simps expired_def truthy_def
      split: option.splits prod.splits if_splits\<close>)

lemma guess_counted:
  assumes "\<not> master_code env code" and up: "en_redisUp env" and k: "k < 5" and c: "code \<noteq> c" "c \<noteq> []"
    and s: "counted p c expiry k s" and p: "p = normalizePhone phone"
    and t: "en_now env < expiry" "expiry \<le> en_now env + 900000" and account: "has_account p s"
  shows "wp (verifyOtp env phone code) (\<lambda>_ _. False) (\<lambda>_ s'. users s' = users s \<and> tenants s' = tenants s \<and>
    (if k = 4 then redis s' (otp_key p) = None else counted p c expiry (Suc k) s')) s"
proof -
  have count: "wp (redis_count env (attempt_key p)) Q E s = Q k s" for Q E
    using s t up by (auto simp: redis_count_def wp_simps counted_def split: if_splits option.splits prod.splits)
  show ?thesis
    unfolding p
    by (rule wp_verify_fails, unfold p [symmetric] check_code_def wp_bindM count)
      (use assms in \<open>auto simp: wrong_code_def wp_simps counted_def truthy_def Let_def split: if_splits\<close>)
qed

text \<open>After the fifth guess, or when the code has expired, no guess works; before, only the code does.\<close>

lemma no_login_expired:
  assumes "en_nodeEnv env = ''production''"
    and "expired (normalizePhone phone) t0 s" and "list_all (\<lambda>g. t0 \<le> fst g) guesses"
  shows "\<not> any_login env phone guesses s"
  using assms(2,3)
proof (induction guesses arbitrary: s)
  case Nil
  then show ?case by simp
next
  case (Cons g guesses)
  obtain t code where g: "g = (t, code)"
    by (cases g)
  have "\<not> master_code (at_time env t) code"
    using assms(1) by (simp add: master_code_def)
  then have "wp (verifyOtp (at_time env t) phone code) (\<lambda>_ _. False)
      (\<lambda>_. expired (normalizePhone phone) t0) s"
    using Cons.prems by (intro guess_expired) (simp_all add: g)
  then show ?case
    using Cons by (auto simp: g wp_def split: prod.splits sum.splits)
qed

lemma no_login_counted:
  assumes env: "en_nodeEnv env = ''production''" "en_redisUp env" and c: "c \<noteq> []"
    and "expiry \<le> t0 + 900000"
  shows "counted (normalizePhone phone) c expiry k s \<Longrightarrow> has_account (normalizePhone phone) s \<Longrightarrow> k < 5 \<Longrightarrow>
    sorted_wrt (\<lambda>g h. fst g \<le> fst h) guesses \<Longrightarrow> list_all (\<lambda>g. t0 \<le> fst g) guesses \<Longrightarrow>
    c \<notin> snd ` set (take (5 - k) guesses) \<Longrightarrow> \<not> any_login env phone guesses s"
proof (induction guesses arbitrary: k s)
  case Nil
  then show ?case by simp
next
  case (Cons g guesses)
  obtain t code where g: "g = (t, code)"
    by (cases g)
  let ?p = "normalizePhone phone"
  have no_master: "\<not> master_code (at_time env t) code"
    using env(1) by (simp add: master_code_def)
  show ?case
  proof (cases "expiry \<le> t")
    case True
    with Cons.prems(1) have "expired ?p t s"
      by (simp add: counted_def expired_def)
    then show ?thesis
      by (rule no_login_expired [rotated]) (use Cons.prems(4) env in \<open>auto simp: g list_all_iff\<close>)
  next
    case False
    have "code \<noteq> c"
      using Cons.prems(3,6) by (cases "5 - k") (auto simp: g)
    then have "wp (verifyOtp (at_time env t) phone code) (\<lambda>_ _. False) (\<lambda>_ s'. users s' = users s \<and>
        tenants s' = tenants s \<and> (if k = 4 then redis s' (otp_key ?p) = None else counted ?p c expiry (Suc k) s')) s"
      using False Cons.prems assms no_master by (intro guess_counted) (auto simp: g)
    then obtain e s' where run: "verifyOtp (at_time env t) phone code s = (Inl e, s')"
      and s': "users s' = users s" "tenants s' = tenants s"
        "if k = 4 then redis s' (otp_key ?p) = None else counted ?p c expiry (Suc k) s'"
      by (auto simp: wp_def split: prod.splits sum.splits)
    have "\<not> any_login env phone guesses s'"
    proof (cases "k = 4")
      case True
      then have "expired ?p t0 s'"
        using s'(3) by (simp add: expired_def)
      then show ?thesis
        by (rule no_login_expired [rotated]) (use Cons.prems(5) env in simp_all)
    next
      case False
      have "take (5 - Suc k) guesses = take (5 - k - 1) guesses"
        by simp
      with Cons.prems(3,6) have "c \<notin> snd ` set (take (5 - Suc k) guesses)"
        by (cases "5 - k") (auto simp: g)
      moreover have "has_account ?p s'"
        using Cons.prems(2) unfolding has_account_def s' .
      ultimately show ?thesis
        using False s' Cons.prems by (intro Cons.IH [of "Suc k" s']) auto
    qed
    then show ?thesis
      by (simp add: g run)
  qed
qed

section \<open>Sending a code\<close>

definition sent_code :: "auth_env \<Rightarrow> db \<Rightarrow> string" where
  "sent_code env s = nat_str (en_randomInt env (id_supply s))"

lemma wp_sendOtp_counted:
  assumes env: "en_nodeEnv env = ''production''" "en_redisUp env" and account: "has_account (normalizePhone phone) s"
    and first: "redis s (attempt_key (normalizePhone phone)) = None"
  shows "wp (sendOtp env phone) (\<lambda>_ s'. counted (normalizePhone phone) (sent_code env s) (en_now env + 180000) 0 s' \<and>
      has_account (normalizePhone phone) s' \<and> redis s' (cooldown_key (normalizePhone phone)) = Some (''1'', en_now env + 60000)) (\<lambda>_ _. True) s"
proof -
  have keys: "attempt_key p \<noteq> cooldown_key p" "attempt_key p \<noteq> hourly_key p" "otp_key p \<noteq> hourly_key p" for p
    by (simp_all add: attempt_key_def cooldown_key_def hourly_key_def otp_key_def)
  note k = keys keys [symmetric]
  show ?thesis
    using env account first unfolding sendOtp_def Let_def redis_count_def user_by_phone_def tenant_of_def draw_code_def has_account_def
    by (auto simp: wp_simps k counted_def sent_code_def split: option.split)
qed

text \<open>A number without an account gets the same answer every time; nothing is stored.\<close>

lemma sendOtp_unknown:
  assumes "length (normalizePhone phone) \<ge> 10" and "redis s (cooldown_key (normalizePhone phone)) = None"
    and "redis s (hourly_key (normalizePhone phone)) = None"
    and "find (\<lambda>u. u_phone u \<in> set (spellings (normalizePhone phone)) \<and> u_isActive u) (users s) = None"
  shows "sendOtp env phone s = (Inr \<lparr>oa_phone = normalizePhone phone, oa_devCode = None\<rparr>, s)"
  by (rule returns_with)
    (use assms in \<open>auto simp: sendOtp_def Let_def redis_count_def user_by_phone_def wp_simps truthy_def\<close>)

lemma sendOtp_cooling:
  assumes "redis s (cooldown_key (normalizePhone phone)) = Some (''1'', expiry)" and "en_redisUp env" and "en_now env < expiry"
    and "length (normalizePhone phone) \<ge> 10"
  shows "sendOtp env phone s = (Inl (BadRequestException
      ''Lutfen yeni bir SMS kodu istemeden once 60 saniye bekleyiniz.''), s)"
  by (rule fails_with) (use assms in \<open>auto simp: sendOtp_def Let_def wp_simps truthy_def\<close>)

lemma wp_sendOtp_answer:
  assumes "en_nodeEnv env \<noteq> ''development''"
  shows "wp (sendOtp env phone) (\<lambda>x _. x = \<lparr>oa_phone = normalizePhone phone, oa_devCode = None\<rparr>) (\<lambda>_ _. True) s"
  unfolding sendOtp_def Let_def
  by (rule wp_any_first | simp only: wp_option wp_if wp_ret assms if_False simp_thms split: option.split if_split | intro conjI allI impI)+

end
