(* ===== verification/Staff.thy ===== *)
theory Staff
  imports Auth Service
begin

text \<open>
  \<open>modules/staff\<close>: accounts and mechanic profiles of a workshop, and leaves. The controller lets
  owners and service managers through (\<open>RolesGuard\<close>; removal is for owners), so \<open>PrismaService\<close>
  adds the tenant to every clause outside \<open>$transaction\<close>. \<open>remove\<close> commits its two deletes one by
  one. Deleting an account deletes its refresh tokens, leaves and mechanic profile (ON DELETE
  CASCADE), clears \<open>approvedById\<close> and the mechanic of orders and appointments (SET NULL), and is
  refused when the account signed a contract of the platform (RESTRICT). Optional fields that are
  \<open>null\<close> in the request are modelled where the column accepts it (\<open>email\<close>, \<open>assignedLift\<close>);
  counts of days and hours are whole numbers. The listing of audit rows is left out.
\<close>

section \<open>Telephone numbers\<close>

definition starts_with :: "string \<Rightarrow> string \<Rightarrow> bool" where
  "starts_with p s \<longleftrightarrow> take (length p) s = p"

definition staff_normalizePhone :: "string \<Rightarrow> string" where
  "staff_normalizePhone phone =
     (let digits = filter (\<lambda>c. c \<in> set ''0123456789'') phone;
          clean = (if starts_with ''90'' digits then drop 2 digits else digits);
          clean10 = (if starts_with ''0'' clean then drop 1 clean else clean)
      in if starts_with ''5'' clean10 \<and> length clean10 = 10 then ''+90'' @ clean10 else digits)"

section \<open>Reading\<close>

record member =
  mb_user :: user
  mb_mechanic :: "mechanic option"
  mb_leaveBalance :: leave_balance

definition member_row :: "uuid \<Rightarrow> uuid \<Rightarrow> user option dbM" where
  "member_row tenantId k = find_first users (\<lambda>u. u_id u = k \<and> u_tenantId u = Some tenantId)"

definition mechanic_of :: "uuid \<Rightarrow> mechanic option dbM" where
  "mechanic_of k = find_first mechanics (\<lambda>m. m_userId m = k)"

definition findOne_staff :: "uuid \<Rightarrow> uuid \<Rightarrow> member dbM" where
  "findOne_staff tenantId k =
     bindM (member_row tenantId k) (\<lambda>found.
     bindM (mechanic_of k) (\<lambda>mechanic.
     bindM (require (NotFoundException ''Personel bulunamadi.'') found) (\<lambda>user.
     bindM (find_many staff_leaves (approved_annual tenantId k)) (\<lambda>approvedAnnualLeaves.
     ret \<lparr>mb_user = user, mb_mechanic = mechanic,
       mb_leaveBalance = leave_balance_of user approvedAnnualLeaves\<rparr>))))"

text \<open>\<open>usedDaysMap\<close>: one pass over the leaves of all accounts.\<close>

definition used_map :: "staff_leave list \<Rightarrow> uuid \<Rightarrow> number" where
  "used_map leaves = foldl (\<lambda>days l. days(l_userId l := fadd (days (l_userId l)) (leave_days l))) (\<lambda>_. 0) leaves"

definition listed_balance :: "(uuid \<Rightarrow> number) \<Rightarrow> user \<Rightarrow> leave_balance" where
  "listed_balance days user =
     (let totalDays = u_annualLeaveDays user + u_transferredLeaveDays user;
          usedDays = tenths (days (u_id user))
      in \<lparr>lb_annualDays = u_annualLeaveDays user, lb_transferredDays = u_transferredLeaveDays user,
          lb_totalDays = totalDays, lb_usedDays = usedDays,
          lb_remainingDays = max 0 (tenths (fsub (num_of_int totalDays) usedDays))\<rparr>)"

definition findAll_staff :: "uuid \<Rightarrow> member list dbM" where
  "findAll_staff tenantId =
     bindM (find_many users (\<lambda>u. u_tenantId u = Some tenantId)) (\<lambda>accounts.
     bindM (find_many staff_leaves (\<lambda>l. l_tenantId l = tenantId \<and> l_userId l \<in> u_id ` set accounts \<and>
       l_leaveType l = ANNUAL \<and> l_status l = L_APPROVED)) (\<lambda>approvedAnnualLeaves.
     bindM (reads mechanics) (\<lambda>rows.
     ret (map (\<lambda>user. \<lparr>mb_user = user, mb_mechanic = find (\<lambda>m. m_userId m = u_id user) rows,
       mb_leaveBalance = listed_balance (used_map approvedAnnualLeaves) user\<rparr>) accounts))))"

section \<open>Creating an account\<close>

record staff_dto =
  sd_name :: string
  sd_surname :: string
  sd_phone :: string
  sd_email :: "string option"
  sd_role :: UserRole
  sd_specialty :: "string option"
  sd_assignedLift :: "string option"
  sd_dailyCapacityHours :: "int option"
  sd_annualLeaveDays :: "int option"
  sd_transferredLeaveDays :: "int option"

definition number_or :: "int option \<Rightarrow> int \<Rightarrow> int" where
  "number_or x d = (case x of None \<Rightarrow> d | Some n \<Rightarrow> if n = 0 then d else n)"

definition create_mechanic ::
  "ctx \<Rightarrow> uuid \<Rightarrow> uuid \<Rightarrow> string option \<Rightarrow> string option \<Rightarrow> int option \<Rightarrow> mechanic dbM" where
  "create_mechanic cx tenantId userId specialty lift hours =
     bindM (fresh_id cx) (\<lambda>mid.
     thenM (unique_index mechanics ''mechanics_user_id_key'' (\<lambda>m. m_userId m = userId))
     (create_row mechanics mechanics_update m_id
       \<lparr>m_id = mid, m_tenantId = tenantId, m_userId = userId, m_specialty = or_else specialty ''Genel Mekanik'',
        m_assignedLift = or_null lift, m_dailyCapacityHours = number_or hours 8\<rparr>))"

definition owner_like :: "UserRole option \<Rightarrow> bool" where
  "owner_like role \<longleftrightarrow> \<not> (role \<noteq> Some OWNER \<and> role \<noteq> Some SUPER_ADMIN)"

definition same_number :: "uuid \<Rightarrow> string \<Rightarrow> user \<Rightarrow> bool" where
  "same_number tenantId p u \<longleftrightarrow> (u_phone u = p \<or> u_phone u = ''+'' @ p) \<and> u_tenantId u = Some tenantId"

definition create_staff :: "ctx \<Rightarrow> uuid \<Rightarrow> staff_dto \<Rightarrow> UserRole option \<Rightarrow> (user \<times> mechanic option) dbM" where
  "create_staff cx tenantId dto currentUserRole =
     thenM (ensure (sd_role dto \<noteq> SUPER_ADMIN) (BadRequestException
       ''Super Admin hesabi isletme icerisinden olusturulamaz.''))
     (thenM (ensure (\<not> (sd_role dto = OWNER \<and> \<not> owner_like currentUserRole)) (ForbiddenException
       ''Yalnizca isletme sahibi yeni bir Isletme Sahibi (OWNER) hesabi tanimlayabilir.''))
     (thenM (ensure (\<not> (currentUserRole = Some SERVICE_MANAGER \<and> (sd_role dto = SERVICE_MANAGER \<or> sd_role dto = OWNER)))
       (ForbiddenException ''Servis mudurleri yalnizca teknisyen, veznedar veya depo sorumlusu hesaplari acabilir.''))
     (let normalizedPhone = staff_normalizePhone (sd_phone dto) in
      bindM (find_first users (same_number tenantId normalizedPhone)) (\<lambda>existing.
      thenM (ensure (existing = None) (ConflictException
        ''Bu telefon numarasiyla kayitli bir personel zaten var.''))
      (transaction
        (bindM (fresh_id cx) (\<lambda>uid.
         thenM (unique_index users ''users_phone_key'' (\<lambda>u. u_phone u = normalizedPhone))
         (bindM (create_row users users_update u_id
           \<lparr>u_id = uid, u_tenantId = Some tenantId, u_branchId = None, u_name = sd_name dto, u_surname = sd_surname dto,
            u_phone = normalizedPhone, u_email = or_null (sd_email dto), u_passwordHash = None, u_role = sd_role dto,
            u_isActive = True, u_annualLeaveDays = (case sd_annualLeaveDays dto of None \<Rightarrow> 14 | Some d \<Rightarrow> d),
            u_transferredLeaveDays = (case sd_transferredLeaveDays dto of None \<Rightarrow> 0 | Some d \<Rightarrow> d)\<rparr>) (\<lambda>user.
         thenM (whenM (sd_role dto = TECHNICIAN) (ignore (create_mechanic cx tenantId (u_id user) (sd_specialty dto)
           (sd_assignedLift dto) (sd_dailyCapacityHours dto))))
         (thenM (emit (AuditLog tenantId ''staff.created'' ''User'' (u_id user)))
         (bindM (find_first users (\<lambda>u. u_id u = u_id user)) (\<lambda>stored.
          bindM (mechanic_of (u_id user)) (\<lambda>mechanic.
          bindM (require (DbError RecordNotFound) stored) (\<lambda>row.
          ret (row, mechanic)))))))))))))))"

section \<open>Changing an account\<close>

record staff_update =
  ud_name :: "string option"
  ud_surname :: "string option"
  ud_phone :: "string option"
  ud_email :: "string option option"
  ud_role :: "UserRole option"
  ud_specialty :: "string option"
  ud_assignedLift :: "string option option"
  ud_dailyCapacityHours :: "int option"
  ud_isActive :: "bool option"
  ud_annualLeaveDays :: "int option"
  ud_transferredLeaveDays :: "int option"

definition updated_user :: "staff_update \<Rightarrow> string option \<Rightarrow> user \<Rightarrow> user" where
  "updated_user dto normalizedPhone u = u\<lparr>
     u_name := (case or_null (ud_name dto) of None \<Rightarrow> u_name u | Some x \<Rightarrow> x),
     u_surname := (case or_null (ud_surname dto) of None \<Rightarrow> u_surname u | Some x \<Rightarrow> x),
     u_phone := (case or_null normalizedPhone of None \<Rightarrow> u_phone u | Some x \<Rightarrow> x),
     u_email := (case ud_email dto of None \<Rightarrow> u_email u | Some x \<Rightarrow> x),
     u_role := (case ud_role dto of None \<Rightarrow> u_role u | Some x \<Rightarrow> x),
     u_isActive := (case ud_isActive dto of None \<Rightarrow> u_isActive u | Some x \<Rightarrow> x),
     u_annualLeaveDays := (case ud_annualLeaveDays dto of None \<Rightarrow> u_annualLeaveDays u | Some x \<Rightarrow> x),
     u_transferredLeaveDays := (case ud_transferredLeaveDays dto of None \<Rightarrow> u_transferredLeaveDays u | Some x \<Rightarrow> x)\<rparr>"

definition updated_mechanic :: "staff_update \<Rightarrow> mechanic \<Rightarrow> mechanic" where
  "updated_mechanic dto m = m\<lparr>
     m_specialty := (case ud_specialty dto of None \<Rightarrow> m_specialty m | Some x \<Rightarrow> x),
     m_assignedLift := (case ud_assignedLift dto of None \<Rightarrow> m_assignedLift m | Some x \<Rightarrow> x),
     m_dailyCapacityHours := (case ud_dailyCapacityHours dto of None \<Rightarrow> m_dailyCapacityHours m | Some x \<Rightarrow> x)\<rparr>"

definition lift_name :: "mechanic option \<Rightarrow> string" where
  "lift_name m = or_else (case m of None \<Rightarrow> None | Some x \<Rightarrow> m_assignedLift x) ''Atanmamis''"

definition write_mechanic :: "ctx \<Rightarrow> uuid \<Rightarrow> uuid \<Rightarrow> staff_update \<Rightarrow> bool \<Rightarrow> mechanic option \<Rightarrow> mechanic option dbM" where
  "write_mechanic cx tenantId k dto isTechnician prevMechanic =
     (if isTechnician \<or> ud_specialty dto \<noteq> None \<or> ud_assignedLift dto \<noteq> None
      then bindM (mechanic_of k) (\<lambda>existingMechanic.
        case existingMechanic of
          Some m \<Rightarrow> bindM (update_by mechanics mechanics_update m_userId k (updated_mechanic dto)) (\<lambda>x. ret (Some x))
        | None \<Rightarrow> if isTechnician
            then bindM (create_mechanic cx tenantId k (ud_specialty dto)
              (case ud_assignedLift dto of None \<Rightarrow> None | Some x \<Rightarrow> x) (ud_dailyCapacityHours dto)) (\<lambda>x. ret (Some x))
            else ret prevMechanic)
      else ret prevMechanic)"

definition update_action :: "staff_update \<Rightarrow> user \<Rightarrow> mechanic option \<Rightarrow> mechanic option \<Rightarrow> string" where
  "update_action dto previousUser prevMechanic updatedMechanic =
     (let isLiftChanged = ud_assignedLift dto \<noteq> None \<and> lift_name prevMechanic \<noteq> lift_name updatedMechanic;
          isRoleChanged = (ud_role dto \<noteq> None \<and> ud_role dto \<noteq> Some (u_role previousUser));
          isStatusChanged = (ud_isActive dto \<noteq> None \<and> ud_isActive dto \<noteq> Some (u_isActive previousUser))
      in if isLiftChanged \<and> \<not> isRoleChanged \<and> \<not> isStatusChanged then ''staff.lift_changed'' else ''staff.updated'')"

definition may_update :: "staff_update \<Rightarrow> UserRole option \<Rightarrow> user \<Rightarrow> unit dbM" where
  "may_update dto currentUserRole previousUser =
     thenM (ensure (ud_role dto \<noteq> Some SUPER_ADMIN) (BadRequestException
       ''Super Admin rolu isletme icerisinden atanamaz.''))
     (thenM (ensure (\<not> (ud_role dto = Some OWNER \<and> \<not> owner_like currentUserRole)) (ForbiddenException
       ''Yalnizca isletme sahibi bir personeli Isletme Sahibi (OWNER) yapabilir.''))
     (thenM (ensure (\<not> (currentUserRole = Some SERVICE_MANAGER \<and>
         (ud_role dto = Some SERVICE_MANAGER \<or> ud_role dto = Some OWNER))) (ForbiddenException
       ''Servis mudurleri rolu servis muduru veya dukkan sahibi olarak degistiremez.''))
     (ensure (\<not> (u_role previousUser = OWNER \<and> \<not> owner_like currentUserRole)) (ForbiddenException
       ''Isletme sahibi hesabinda degisiklik yapma yetkiniz bulunmamaktadir.''))))"

definition changed_phone :: "uuid \<Rightarrow> uuid \<Rightarrow> staff_update \<Rightarrow> string option dbM" where
  "changed_phone tenantId k dto =
     (case or_null (ud_phone dto) of
        None \<Rightarrow> ret None
      | Some phone \<Rightarrow>
          let normalizedPhone = staff_normalizePhone phone in
          bindM (find_first users (\<lambda>u. u_id u \<noteq> k \<and> same_number tenantId normalizedPhone u)) (\<lambda>existing.
          thenM (ensure (existing = None) (ConflictException
            ''Bu telefon numarasi zaten baska bir personele kayitlidir.''))
          (ret (Some normalizedPhone))))"

text \<open>The transaction of \<open>update\<close>.\<close>

definition write_account ::
  "ctx \<Rightarrow> uuid \<Rightarrow> uuid \<Rightarrow> staff_update \<Rightarrow> string option \<Rightarrow> member \<Rightarrow> (user \<times> mechanic option) dbM" where
  "write_account cx tenantId k dto normalizedPhone previous =
     thenM (case or_null normalizedPhone of None \<Rightarrow> ret ()
       | Some p \<Rightarrow> unique_index users ''users_phone_key'' (\<lambda>u. u_phone u = p \<and> u_id u \<noteq> k))
     (bindM (update_by users users_update u_id k (updated_user dto normalizedPhone)) (\<lambda>user.
      bindM (write_mechanic cx tenantId k dto
        ((case ud_role dto of None \<Rightarrow> u_role user | Some r \<Rightarrow> r) = TECHNICIAN) (mb_mechanic previous)) (\<lambda>updatedMechanic.
      thenM (emit (AuditLog tenantId (update_action dto (mb_user previous) (mb_mechanic previous) updatedMechanic)
        ''User'' k))
      (bindM (find_first users (\<lambda>u. u_id u = k)) (\<lambda>stored.
       bindM (mechanic_of k) (\<lambda>mechanic.
       bindM (require (DbError RecordNotFound) stored) (\<lambda>row.
       ret (row, mechanic))))))))"

definition update_staff ::
  "ctx \<Rightarrow> uuid \<Rightarrow> uuid \<Rightarrow> staff_update \<Rightarrow> UserRole option \<Rightarrow> (user \<times> mechanic option) dbM" where
  "update_staff cx tenantId k dto currentUserRole =
     bindM (findOne_staff tenantId k) (\<lambda>previous.
     thenM (may_update dto currentUserRole (mb_user previous))
     (bindM (changed_phone tenantId k dto) (\<lambda>normalizedPhone.
     transaction (write_account cx tenantId k dto normalizedPhone previous))))"

section \<open>Removing an account\<close>

text \<open>The foreign keys that refer to \<open>mechanics\<close> and to \<open>users\<close>.\<close>

definition release_mechanic :: "uuid \<Rightarrow> db \<Rightarrow> db" where
  "release_mechanic mid s = s\<lparr>
     work_orders := map (\<lambda>w. if wo_assignedMechanicId w = Some mid then w\<lparr>wo_assignedMechanicId := None\<rparr> else w) (work_orders s),
     appointments := map (\<lambda>a. if a_assignedMechanicId a = Some mid then a\<lparr>a_assignedMechanicId := None\<rparr> else a) (appointments s)\<rparr>"

definition delete_mechanic :: "uuid \<Rightarrow> uuid \<Rightarrow> unit dbM" where
  "delete_mechanic tenantId mid =
     bindM (find_first mechanics (\<lambda>m. m_id m = mid \<and> m_tenantId m = tenantId)) (\<lambda>found.
     thenM (ensure (found \<noteq> None) (DbError RecordNotFound))
     (thenM (ignore (delete_by mechanics mechanics_update m_id mid)) (modifyM (release_mechanic mid))))"

definition forget_user :: "uuid \<Rightarrow> db \<Rightarrow> db" where
  "forget_user k s = s\<lparr>
     refresh_tokens := filter (\<lambda>r. rt_userId r \<noteq> k) (refresh_tokens s),
     staff_leaves := map (\<lambda>l. if l_approvedById l = Some k then l\<lparr>l_approvedById := None\<rparr> else l)
       (filter (\<lambda>l. l_userId l \<noteq> k) (staff_leaves s))\<rparr>"

definition delete_user_row :: "uuid \<Rightarrow> unit dbM" where
  "delete_user_row k =
     bindM (find_first tenant_consents (\<lambda>c. tc_signedByUserId c = k)) (\<lambda>signed.
     thenM (ensure (signed = None) (DbError (ForeignKeyViolation ''tenant_consents_signed_by_user_id_fkey'')))
     (bindM (mechanic_of k) (\<lambda>mechanic.
     thenM (case mechanic of None \<Rightarrow> ret ()
       | Some m \<Rightarrow> thenM (ignore (delete_by mechanics mechanics_update m_id (m_id m))) (modifyM (release_mechanic (m_id m))))
     (thenM (modifyM (forget_user k))
     (ignore (delete_by users users_update u_id k))))))"

definition delete_user :: "uuid \<Rightarrow> uuid \<Rightarrow> unit dbM" where
  "delete_user tenantId k =
     bindM (member_row tenantId k) (\<lambda>found.
     thenM (ensure (found \<noteq> None) (DbError RecordNotFound)) (delete_user_row k))"

definition has_references :: "uuid \<Rightarrow> mechanic option \<Rightarrow> bool dbM" where
  "has_references tenantId mechanic =
     (case mechanic of
        None \<Rightarrow> ret False
      | Some m \<Rightarrow>
          bindM (find_many work_orders (\<lambda>w. wo_assignedMechanicId w = Some (m_id m) \<and> wo_tenantId w = tenantId)) (\<lambda>woRows.
          bindM (find_many appointments (\<lambda>a. a_assignedMechanicId a = Some (m_id m) \<and> a_tenantId a = tenantId)) (\<lambda>appRows.
          ret (length woRows > 0 \<or> length appRows > 0))))"

datatype removal = RemovedForGood | Deactivated

definition remove_staff :: "uuid \<Rightarrow> uuid \<Rightarrow> removal dbM" where
  "remove_staff tenantId k =
     bindM (findOne_staff tenantId k) (\<lambda>user.
     bindM (has_references tenantId (mb_mechanic user)) (\<lambda>hasReferences.
     thenM (emit (AuditLog tenantId (if hasReferences then ''staff.deactivated'' else ''staff.deleted'') ''User'' k))
     (if \<not> hasReferences
      then thenM (case mb_mechanic user of None \<Rightarrow> ret () | Some m \<Rightarrow> delete_mechanic tenantId (m_id m))
        (thenM (delete_user tenantId k) (ret RemovedForGood))
      else thenM (ignore (update_by users users_update u_id k (\<lambda>u. u\<lparr>u_isActive := False\<rparr>)))
        (ret Deactivated))))"

section \<open>Leaves\<close>

text \<open>The instants are those of \<open>new Date(...)\<close>, \<open>None\<close> when the text is no date.\<close>

record leave_dto =
  ld_userId :: uuid
  ld_leaveType :: LeaveType
  ld_startDate :: "int option"
  ld_endDate :: "int option"
  ld_totalDays :: "number option"
  ld_reason :: "string option"

definition getLeaves :: "uuid \<Rightarrow> uuid option \<Rightarrow> staff_leave list dbM" where
  "getLeaves tenantId userId =
     bindM (find_many staff_leaves (\<lambda>l. l_tenantId l = tenantId \<and>
       (case or_null userId of None \<Rightarrow> True | Some k \<Rightarrow> l_userId l = k))) (\<lambda>rows.
     ret (order_by (\<lambda>a b. l_startDate a \<ge> l_startDate b) rows))"

definition days_between :: "int \<Rightarrow> int \<Rightarrow> number" where
  "days_between start finish =
     max (1 / 2) (num_of_int (math_round (fdiv (fsub (num_of_int finish) (num_of_int start)) 86400000) + 1))"

definition leave_overlap :: "uuid \<Rightarrow> uuid \<Rightarrow> int \<Rightarrow> int \<Rightarrow> staff_leave \<Rightarrow> bool" where
  "leave_overlap tenantId userId start finish l \<longleftrightarrow> l_tenantId l = tenantId \<and> l_userId l = userId \<and>
     l_status l \<noteq> L_CANCELLED \<and> l_startDate l \<le> day_of finish \<and> l_endDate l \<ge> day_of start"

definition createLeave :: "ctx \<Rightarrow> uuid \<Rightarrow> leave_dto \<Rightarrow> uuid option \<Rightarrow> staff_leave dbM" where
  "createLeave cx tenantId dto actorUserId =
     bindM (member_row tenantId (ld_userId dto)) (\<lambda>found.
     bindM (require (NotFoundException ''Personel bulunamadi.'') found) (\<lambda>_.
     bindM (require (BadRequestException ''Gecersiz tarih formati.'') (ld_startDate dto)) (\<lambda>start.
     bindM (require (BadRequestException ''Gecersiz tarih formati.'') (ld_endDate dto)) (\<lambda>finish.
     thenM (ensure (\<not> start > finish) (BadRequestException ''Baslangic tarihi bitis tarihinden sonra olamaz.''))
     (bindM (find_first staff_leaves (leave_overlap tenantId (ld_userId dto) start finish)) (\<lambda>overlap.
     thenM (ensure (overlap = None) (ConflictException
       ''Personelin bu tarih araliginda cakisan aktif bir izni zaten bulunmaktadir.''))
     (let diffDays = (case ld_totalDays dto of None \<Rightarrow> days_between start finish | Some d \<Rightarrow> d) in
      bindM (fresh_id cx) (\<lambda>lid.
      bindM (create_row staff_leaves staff_leaves_update l_id
        \<lparr>l_id = lid, l_tenantId = tenantId, l_userId = ld_userId dto, l_leaveType = ld_leaveType dto,
         l_startDate = day_of start, l_endDate = day_of finish, l_totalDays = dec1 cx diffDays,
         l_reason = or_null (ld_reason dto), l_status = L_APPROVED, l_approvedById = or_null actorUserId\<rparr>) (\<lambda>leave.
      thenM (emit (AuditLog tenantId ''staff.leave_created'' ''StaffLeave'' (l_id leave)))
      (ret leave))))))))))"

definition cancelLeave :: "uuid \<Rightarrow> uuid \<Rightarrow> staff_leave dbM" where
  "cancelLeave tenantId leaveId =
     bindM (find_first staff_leaves (\<lambda>l. l_id l = leaveId \<and> l_tenantId l = tenantId)) (\<lambda>found.
     bindM (require (NotFoundException ''Izin kaydi bulunamadi.'') found) (\<lambda>leave.
     thenM (ensure (l_status leave \<noteq> L_CANCELLED) (BadRequestException ''Bu izin zaten iptal edilmis.''))
     (bindM (update_by staff_leaves staff_leaves_update l_id leaveId (\<lambda>l. l\<lparr>l_status := L_CANCELLED\<rparr>)) (\<lambda>updated.
     thenM (emit (AuditLog tenantId ''staff.leave_cancelled'' ''StaffLeave'' leaveId))
     (ret updated)))))"

section \<open>The controller\<close>

definition roles_guard :: "UserRole list \<Rightarrow> UserRole \<Rightarrow> unit dbM" where
  "roles_guard requiredRoles role = ensure (role \<in> set requiredRoles) (ForbiddenException
     ''Bu islemi gerceklestirmek icin yetkiniz yok.'')"

datatype staff_request =
    ListStaff
  | ViewStaff uuid
  | OpenAccount staff_dto
  | ChangeAccount uuid staff_update
  | RemoveAccount uuid
  | ListLeaves "uuid option"
  | TakeLeave leave_dto
  | CancelLeave uuid

text \<open>A request of the account \<open>actor\<close> of workshop \<open>t\<close>, which has the given role.\<close>

record staff_caller =
  by_tenant :: uuid
  by_user :: uuid
  by_role :: UserRole

fun handle_staff :: "ctx \<Rightarrow> staff_caller \<times> staff_request \<Rightarrow> unit dbM" where
  "handle_staff cx (c, ListStaff) = thenM (roles_guard [OWNER, SERVICE_MANAGER, CASHIER] (by_role c))
     (ignore (findAll_staff (by_tenant c)))"
| "handle_staff cx (c, ViewStaff k) = thenM (roles_guard [OWNER, SERVICE_MANAGER] (by_role c))
     (ignore (findOne_staff (by_tenant c) k))"
| "handle_staff cx (c, OpenAccount dto) = thenM (roles_guard [OWNER, SERVICE_MANAGER] (by_role c))
     (ignore (create_staff cx (by_tenant c) dto (Some (by_role c))))"
| "handle_staff cx (c, ChangeAccount k dto) = thenM (roles_guard [OWNER, SERVICE_MANAGER] (by_role c))
     (ignore (update_staff cx (by_tenant c) k dto (Some (by_role c))))"
| "handle_staff cx (c, RemoveAccount k) = thenM (roles_guard [OWNER] (by_role c))
     (ignore (remove_staff (by_tenant c) k))"
| "handle_staff cx (c, ListLeaves k) = thenM (roles_guard [OWNER, SERVICE_MANAGER, CASHIER] (by_role c))
     (ignore (getLeaves (by_tenant c) k))"
| "handle_staff cx (c, TakeLeave dto) = thenM (roles_guard [OWNER, SERVICE_MANAGER] (by_role c))
     (ignore (createLeave cx (by_tenant c) dto (Some (by_user c))))"
| "handle_staff cx (c, CancelLeave k) = thenM (roles_guard [OWNER, SERVICE_MANAGER] (by_role c))
     (ignore (cancelLeave (by_tenant c) k))"

end
