(* ===== verification/StaffRules.thy ===== *)
theory StaffRules
  imports Staff Sessions
begin

text \<open>
  What the staff component keeps: leaves of an account never overlap, only owners touch accounts
  of owners and appoint managers, an account that has been shut stays shut for every request of
  the login, and the leave balances, which three places compute in doubles, are exact.
\<close>

section \<open>Leave balances\<close>

text \<open>Tenths of days as a double.\<close>

definition num_of_tenths :: "int \<Rightarrow> number" where
  "num_of_tenths n = fl (of_int n / 10)"

definition leave_total :: "staff_leave list \<Rightarrow> int" where
  "leave_total leaves = sum_list (map l_totalDays leaves)"

text \<open>What a \<open>Decimal(4, 1)\<close> column can hold of a duration.\<close>

definition leave_fits :: "staff_leave \<Rightarrow> bool" where
  "leave_fits l \<longleftrightarrow> 0 \<le> l_totalDays l \<and> l_totalDays l \<le> 9999"

definition exact_balance :: "user \<Rightarrow> staff_leave list \<Rightarrow> leave_balance" where
  "exact_balance user leaves =
     (let totalDays = u_annualLeaveDays user + u_transferredLeaveDays user in
      \<lparr>lb_annualDays = u_annualLeaveDays user, lb_transferredDays = u_transferredLeaveDays user,
       lb_totalDays = totalDays, lb_usedDays = num_of_tenths (leave_total leaves),
       lb_remainingDays = num_of_tenths (max 0 (10 * totalDays - leave_total leaves))\<rparr>)"

lemma rat_le_of_int: "\<bar>n\<bar> \<le> b \<Longrightarrow> \<bar>of_int n :: rat\<bar> \<le> of_int b"
  by (simp only: of_int_abs [symmetric] of_int_le_iff)

lemma used_days_close:
  assumes "list_all leave_fits leaves" and "length leaves + n \<le> 1000" and "0 \<le> c" and "c \<le> 9999 * int n"
    and "\<bar>x - of_int c / 10\<bar> \<le> of_nat n / 1000000000"
  shows "\<bar>foldl (\<lambda>sum l. fadd sum (leave_days l)) x leaves - of_int (c + leave_total leaves) / 10\<bar> \<le> 1 / 1000000"
  using assms
proof (induction leaves arbitrary: c n x)
  case Nil
  have "(of_nat n :: rat) \<le> of_nat 1000"
    using Nil(2) by (simp only: of_nat_le_iff)
  then show ?case
    using Nil(5) by (simp add: leave_total_def)
next
  case (Cons l leaves)
  let ?d = "l_totalDays l"
  have d: "0 \<le> ?d" "?d \<le> 9999" and rest: "list_all leave_fits leaves"
    using Cons.prems(1) by (simp_all add: leave_fits_def [of l])
  have n: "(of_nat n :: rat) \<le> 1000"
    using Cons.prems(2) by simp
  define C D :: rat where "C = of_int c" and "D = of_int ?d"
  have CD: "0 \<le> C" "C \<le> 9999000" "0 \<le> D" "D \<le> 9999"
    using Cons.prems(2-4) d unfolding C_def D_def by (simp_all only: of_int_0_le_iff of_int_le_numeral_iff)
  have ld: "\<bar>leave_days l - D / 10\<bar> \<le> 1 / 10000000000"
    using double.rnd_close [of "D / 10" 1000] CD unfolding leave_days_def D_def by simp
  have x: "\<bar>x - C / 10\<bar> \<le> of_nat n / 1000000000"
    using Cons.prems(5) by (simp add: C_def)
  have "\<bar>x + leave_days l\<bar> \<le> 2000000"
    using ld x n CD by linarith
  from double.rnd_close [OF this]
  have "\<bar>fadd x (leave_days l) - (x + leave_days l)\<bar> \<le> 3 / 10000000000"
    unfolding fadd_def by linarith
  then have "\<bar>fadd x (leave_days l) - (C / 10 + D / 10)\<bar> \<le> of_nat n / 1000000000 + 1 / 1000000000"
    unfolding abs_le_iff using ld x unfolding abs_le_iff by (intro conjI; linarith)
  then have step: "\<bar>fadd x (leave_days l) - of_int (c + ?d) / 10\<bar> \<le> of_nat (Suc n) / 1000000000"
    by (simp add: C_def D_def add_divide_distrib)
  show ?case
    using Cons.IH [OF rest _ _ _ step] Cons.prems(2-4) d by (simp add: leave_total_def add.assoc)
qed

lemma tenths_close:
  assumes "\<bar>x - of_int n / 10\<bar> \<le> 1 / 100000" and "\<bar>x\<bar> \<le> 10000000"
  shows "tenths x = num_of_tenths n"
proof -
  have "\<bar>fl (x * 10) - x * 10\<bar> \<le> 100000000 / 9007199254740992"
    by (rule double.rnd_close) (use assms(2) in linarith)
  then have "\<bar>fl (x * 10) - of_int n\<bar> < 1 / 2"
    using assms(1) by linarith
  from math_round_near [OF this] show ?thesis
    by (simp add: tenths_def num_of_tenths_def fmul_def fdiv_def)
qed

lemma leave_total_bounds:
  "list_all leave_fits leaves \<Longrightarrow> 0 \<le> leave_total leaves \<and> leave_total leaves \<le> 9999 * int (length leaves)"
  by (induction leaves) (auto simp: leave_total_def leave_fits_def)

lemma used_days_exact:
  assumes "list_all leave_fits leaves" and "length leaves \<le> 1000"
  shows "\<bar>used_days leaves - of_int (leave_total leaves) / 10\<bar> \<le> 1 / 1000000"
    "\<bar>used_days leaves\<bar> \<le> 1000000" "tenths (used_days leaves) = num_of_tenths (leave_total leaves)"
proof -
  show close: "\<bar>used_days leaves - of_int (leave_total leaves) / 10\<bar> \<le> 1 / 1000000"
    using used_days_close [OF assms(1), of 0 0 0] assms(2) by (simp add: used_days_def)
  have "\<bar>of_int (leave_total leaves) :: rat\<bar> \<le> of_int 9999000"
    by (rule rat_le_of_int) (use leave_total_bounds [OF assms(1)] assms(2) in linarith)
  then show bound: "\<bar>used_days leaves\<bar> \<le> 1000000"
    using close unfolding of_int_numeral by linarith
  show "tenths (used_days leaves) = num_of_tenths (leave_total leaves)"
    by (rule tenths_close) (use close bound in linarith)+
qed

lemma num_of_tenths_nonneg: "max 0 (num_of_tenths n) = num_of_tenths (max 0 n)"
  using double.rnd_le_0_iff [of "of_int n / 10"] double.rnd_nonneg [of "of_int n / 10"]
  by (cases "0 \<le> n") (simp_all add: num_of_tenths_def max_def divide_le_0_iff)

lemma remaining_exact:
  assumes "\<bar>days\<bar> \<le> 1000000" and "\<bar>x - of_int used / 10\<bar> \<le> 1 / 500000" and "\<bar>x\<bar> \<le> 2000000"
  shows "max 0 (tenths (fsub (num_of_int days) x)) = num_of_tenths (max 0 (10 * days - used))"
proof -
  have t: "num_of_int days = of_int days" "\<bar>of_int days :: rat\<bar> \<le> 1000000"
    using assms(1) rat_le_of_int [OF assms(1)] by (simp_all add: num_of_int_def fl_of_int)
  have b: "\<bar>of_int days - x\<bar> \<le> 3000000"
    using t(2) assms(3) by linarith
  from double.rnd_close [OF this]
  have r: "\<bar>fsub (num_of_int days) x - (of_int days - x)\<bar> \<le> 1 / 1000000000"
    unfolding fsub_def t(1) by linarith
  have n: "of_int (10 * days - used) / 10 = (of_int days - of_int used / 10 :: rat)"
    by (simp add: diff_divide_distrib)
  have "\<bar>fsub (num_of_int days) x - of_int (10 * days - used) / 10\<bar> \<le> 1 / 100000"
    unfolding n using r assms(2) by linarith
  then have "tenths (fsub (num_of_int days) x) = num_of_tenths (10 * days - used)"
    by (rule tenths_close) (use r b in linarith)
  then show ?thesis
    by (simp add: num_of_tenths_nonneg)
qed

lemma balance_exact:
  assumes "list_all leave_fits leaves" and "length leaves \<le> 1000"
    and "\<bar>u_annualLeaveDays u + u_transferredLeaveDays u\<bar> \<le> 1000000"
  shows "leave_balance_of u leaves = exact_balance u leaves"
  using used_days_exact [OF assms(1,2)] remaining_exact [OF assms(3), of "used_days leaves" "leave_total leaves"]
  by (simp add: leave_balance_of_def exact_balance_def Let_def)

text \<open>The list of the staff rounds before it subtracts.\<close>

lemma used_map_days: "used_map leaves k = used_days (filter (\<lambda>l. l_userId l = k) leaves)"
proof -
  have "foldl (\<lambda>days l. days(l_userId l := fadd (days (l_userId l)) (leave_days l))) f leaves k =
      foldl (\<lambda>sum l. fadd sum (leave_days l)) (f k) (filter (\<lambda>l. l_userId l = k) leaves)" for f
    by (induction leaves arbitrary: f) auto
  then show ?thesis
    by (simp add: used_map_def used_days_def)
qed

lemma listed_exact:
  assumes "list_all leave_fits leaves" and "length leaves \<le> 1000"
    and "\<bar>u_annualLeaveDays u + u_transferredLeaveDays u\<bar> \<le> 1000000" and "days (u_id u) = used_days leaves"
  shows "listed_balance days u = exact_balance u leaves"
proof -
  have "\<bar>of_int (leave_total leaves) :: rat\<bar> \<le> of_int 9999000"
    by (rule rat_le_of_int) (use leave_total_bounds [OF assms(1)] assms(2) in linarith)
  then have b: "\<bar>of_int (leave_total leaves) / 10 :: rat\<bar> \<le> 999900"
    by simp
  have close: "\<bar>num_of_tenths (leave_total leaves) - of_int (leave_total leaves) / 10\<bar> \<le> 1 / 1000000"
    using double.rnd_close [OF b] unfolding num_of_tenths_def by linarith
  have "\<bar>num_of_tenths (leave_total leaves)\<bar> \<le> 2000000"
    using close b by linarith
  with close show ?thesis
    using used_days_exact(3) [OF assms(1,2)]
      remaining_exact [OF assms(3), of "num_of_tenths (leave_total leaves)" "leave_total leaves"]
    by (simp add: listed_balance_def exact_balance_def Let_def assms(4))
qed

section \<open>Operations that only read, and writes to mechanics\<close>

lemma keeps_staff_reads [keeps_intros]:
  "keeps I (member_row t k)" "keeps I (mechanic_of k)" "keeps I (findOne_staff t k)" "keeps I (findAll_staff t)"
  "keeps I (getLeaves t w)" "keeps I (roles_guard rs r)" "keeps I (may_update dto role u)"
  "keeps I (changed_phone t k dto)" "keeps I (has_references t m)"
  unfolding member_row_def mechanic_of_def findOne_staff_def findAll_staff_def getLeaves_def roles_guard_def
    may_update_def changed_phone_def has_references_def Let_def
  by (rule keeps_intros)+

lemma keeps_mechanic_writes:
  assumes "\<And>f s. I (mechanics_update f s) = I s" and "keeps I (fresh_id cx)"
  shows "keeps I (create_mechanic cx t k sp lift hours)" "keeps I (write_mechanic cx t k dto tech prev)"
  unfolding create_mechanic_def write_mechanic_def
  by (rule keeps_intros keeps_frame assms)+

lemma keeps_removal:
  assumes "\<And>f s. I (mechanics_update f s) = I s" and "\<And>mid s. I (release_mechanic mid s) = I s"
  shows "keeps I (delete_mechanic t k)"
  unfolding delete_mechanic_def
  by (rule keeps_intros keeps_frame keeps_ignore assms | simp add: keeps_def wp_simps assms)+

section \<open>Leaves do not overlap\<close>

definition leaves_apart :: "staff_leave \<Rightarrow> staff_leave \<Rightarrow> bool" where
  "leaves_apart a b \<longleftrightarrow> \<not> (l_tenantId a = l_tenantId b \<and> l_userId a = l_userId b \<and>
     l_status a \<noteq> L_CANCELLED \<and> l_status b \<noteq> L_CANCELLED \<and>
     l_startDate a \<le> l_endDate b \<and> l_startDate b \<le> l_endDate a)"

definition leaves_ok :: "db \<Rightarrow> bool" where
  "leaves_ok s \<longleftrightarrow> sorted_wrt leaves_apart (staff_leaves s) \<and>
     list_all (\<lambda>l. l_startDate l \<le> l_endDate l) (staff_leaves s)"

lemma leaves_frames [simp]:
  "leaves_ok (users_update f s) = leaves_ok s" "leaves_ok (mechanics_update f' s) = leaves_ok s"
  "leaves_ok (outbox_update g s) = leaves_ok s" "leaves_ok (id_supply_update g' s) = leaves_ok s"
  "leaves_ok (release_mechanic mid s) = leaves_ok s"
  by (simp_all add: leaves_ok_def release_mechanic_def)

lemma apart_map:
  assumes "\<And>l. l_tenantId (f l) = l_tenantId l \<and> l_userId (f l) = l_userId l \<and> l_startDate (f l) = l_startDate l \<and>
      l_endDate (f l) = l_endDate l \<and> (l_status (f l) = l_status l \<or> l_status (f l) = L_CANCELLED)"
  shows "sorted_wrt leaves_apart ls \<Longrightarrow> sorted_wrt leaves_apart (map f ls)"
    "list_all (\<lambda>l. l_startDate l \<le> l_endDate l) ls \<Longrightarrow> list_all (\<lambda>l. l_startDate l \<le> l_endDate l) (map f ls)"
proof -
  have "leaves_apart a b \<Longrightarrow> leaves_apart (f a) (f b)" for a b
    using assms [of a] assms [of b] by (auto simp: leaves_apart_def)
  then show "sorted_wrt leaves_apart ls \<Longrightarrow> sorted_wrt leaves_apart (map f ls)"
    by (induction ls) auto
  show "list_all (\<lambda>l. l_startDate l \<le> l_endDate l) ls \<Longrightarrow> list_all (\<lambda>l. l_startDate l \<le> l_endDate l) (map f ls)"
    using assms by (induction ls) auto
qed

lemma leaves_forget: "leaves_ok s \<Longrightarrow> leaves_ok (forget_user k s)"
  unfolding leaves_ok_def forget_user_def
  by (auto intro!: apart_map sorted_wrt_filter simp: list_all_iff)

lemma keeps_leaves_small [keeps_intros]:
  "keeps leaves_ok (emit e)" "keeps leaves_ok (fresh_id cx)" "keeps leaves_ok (modifyM (forget_user k))"
  "keeps leaves_ok (modifyM (release_mechanic mid))"
  by (auto simp: keeps_def wp_simps leaves_forget)

lemma leaves_createLeave: "keeps leaves_ok (createLeave cx t dto actor)"
  by (auto simp: keeps_def createLeave_def member_row_def wp_simps leaves_ok_def sorted_wrt_append Let_def find_None_iff
      leave_overlap_def leaves_apart_def day_of_def zdiv_mono1 split: option.split)

lemma leaves_cancelLeave: "keeps leaves_ok (cancelLeave t k)"
  by (auto simp: keeps_def cancelLeave_def wp_simps leaves_ok_def update_row_def intro!: apart_map split: option.split)

lemma keeps_leaves_accounts:
  "keeps leaves_ok (create_staff cx t dto role)" "keeps leaves_ok (update_staff cx t k ud role)"
  "keeps leaves_ok (remove_staff t k)"
  unfolding create_staff_def update_staff_def write_account_def remove_staff_def delete_user_def delete_user_row_def Let_def
  by (rule keeps_intros keeps_frame keeps_ignore keeps_mechanic_writes keeps_removal leaves_frames)+

lemma handle_staff_leaves: "keeps leaves_ok (handle_staff cx q)"
proof (cases q)
  case (Pair c r)
  then show ?thesis
    by (cases r) (simp_all add: keeps_thenM keeps_ignore keeps_staff_reads leaves_createLeave leaves_cancelLeave
      keeps_leaves_accounts)
qed

interpretation leave_book: closed_service "handle_staff cx" "\<lambda>_ _. True" leaves_ok for cx
  by unfold_locales (use handle_staff_leaves in \<open>simp_all add: keeps_def\<close>)

section \<open>What requests do to the table of accounts\<close>

lemma keeps_users_small [keeps_intros]:
  "keeps (\<lambda>s. users s = us) (emit e)" "keeps (\<lambda>s. users s = us) (fresh_id cx)"
  "keeps (\<lambda>s. users s = us) (createLeave cx t ld actor)" "keeps (\<lambda>s. users s = us) (cancelLeave t k)"
  by (auto simp: keeps_def wp_simps createLeave_def cancelLeave_def member_row_def Let_def split: option.split)

lemma keeps_users_mechanics [keeps_intros]:
  "keeps (\<lambda>s. users s = us) (create_mechanic cx t k sp lift hours)"
  "keeps (\<lambda>s. users s = us) (write_mechanic cx t k ud tech prev)" "keeps (\<lambda>s. users s = us) (delete_mechanic t k)"
  by (rule keeps_mechanic_writes keeps_removal keeps_users_small | simp add: release_mechanic_def)+

definition may_grant :: "UserRole option \<Rightarrow> UserRole option \<Rightarrow> bool" where
  "may_grant granted role \<longleftrightarrow> granted \<noteq> Some SUPER_ADMIN \<and> (granted = Some OWNER \<longrightarrow> owner_like role) \<and>
     (role = Some SERVICE_MANAGER \<longrightarrow> granted \<noteq> Some SERVICE_MANAGER \<and> granted \<noteq> Some OWNER)"

lemma wp_create_staff_users:
  "wp (create_staff cx t dto role)
     (\<lambda>_ s'. may_grant (Some (sd_role dto)) role \<and> (\<exists>u. users s' = users s @ [u] \<and> u_role u = sd_role dto \<and>
        u_id u = gen_id cx (id_supply s) \<and> u_id u \<notin> u_id ` set (users s) \<and>
        u_phone u = staff_normalizePhone (sd_phone dto) \<and> u_isActive u))
     (\<lambda>_ s'. s' = s) s"
  unfolding create_staff_def Let_def
  by (auto simp: wp_simps may_grant_def mechanic_of_def create_mechanic_def wp_ignore ignore_def list_ex_iff find_append
    split: option.split)

lemma wp_write_account:
  "wp (write_account cx t k dto p previous) (\<lambda>_ s'. users s' = update_row u_id k (updated_user dto p) (users s)) (\<lambda>_ _. True) s"
proof -
  have rest: "wp (write_mechanic cx t k dto tech prev) (\<lambda>m. wp (emit (a m)) (\<lambda>_. wp (find_first users P) (\<lambda>st.
      wp (mechanic_of k) (\<lambda>mech. wp (require e st) (\<lambda>row s'. users s' = us) (\<lambda>_ _. True)) (\<lambda>_ _. True)) (\<lambda>_ _. True))
      (\<lambda>_ _. True)) (\<lambda>_ _. True) s1" if "users s1 = us" for us tech prev a P e s1
    by (rule keeps_wp [OF keeps_users_mechanics(2) that]) (simp_all add: wp_simps mechanic_of_def split: option.split)
  show ?thesis
    unfolding write_account_def wp_thenM wp_bindM wp_option wp_unique_index wp_update_by wp_ret wp_funs
    by (auto split: option.split intro!: rest)
qed

lemma wp_update_staff_users:
  "wp (update_staff cx t k dto role)
     (\<lambda>_ s'. may_grant (ud_role dto) role \<and> (\<exists>u p. find (\<lambda>u. u_id u = k \<and> u_tenantId u = Some t) (users s) = Some u \<and>
        (u_role u = OWNER \<longrightarrow> owner_like role) \<and> users s' = update_row u_id k (updated_user dto p) (users s)))
     (\<lambda>_ s'. s' = s) s"
  unfolding update_staff_def findOne_staff_def member_row_def mechanic_of_def may_update_def changed_phone_def
  by (auto simp: wp_simps may_grant_def Let_def split: option.split intro!: wp_mono [OF wp_write_account])

section \<open>Ranks\<close>

text \<open>
  The rows of the owners are exactly \<open>owners\<close>, and whoever is a service manager or an
  administrator of the platform is one of \<open>ranks\<close>.
\<close>

definition ranks_kept :: "user list \<Rightarrow> (uuid \<times> UserRole) set \<Rightarrow> db \<Rightarrow> bool" where
  "ranks_kept owners ranks s \<longleftrightarrow> unique_rows u_id (users s) \<and> filter (\<lambda>u. u_role u = OWNER) (users s) = owners \<and>
     list_all (\<lambda>u. u_role u = SERVICE_MANAGER \<or> u_role u = SUPER_ADMIN \<longrightarrow> (u_id u, u_role u) \<in> ranks) (users s)"

lemma filter_update_row:
  "(\<And>r. r \<in> set rows \<Longrightarrow> key r = k \<Longrightarrow> \<not> P r \<and> \<not> P (f r)) \<Longrightarrow> filter P (update_row key k f rows) = filter P rows"
  by (induction rows) auto

lemma updated_user_simps [simp]:
  "u_id (updated_user dto p u) = u_id u"
  "u_role (updated_user dto p u) = (case ud_role dto of None \<Rightarrow> u_role u | Some r \<Rightarrow> r)"
  "u_isActive (updated_user dto p u) = (case ud_isActive dto of None \<Rightarrow> u_isActive u | Some b \<Rightarrow> b)"
  by (simp_all add: updated_user_def)

lemma ranks_update:
  assumes s: "ranks_kept owners ranks s" and role: "\<not> owner_like role" and grant: "may_grant (ud_role dto) role"
    and manager: "role = Some SERVICE_MANAGER"
    and found: "find (\<lambda>u. u_id u = k \<and> u_tenantId u = Some t) (users s) = Some u"
    and low: "u_role u = OWNER \<longrightarrow> owner_like role"
    and users': "users s' = update_row u_id k (updated_user dto p) (users s)"
  shows "ranks_kept owners ranks s'"
proof -
  have only: "r = u" if "r \<in> set (users s)" "u_id r = k" for r
  proof -
    have "u \<in> set (users s)" "u_id u = k"
      using find_SomeD [OF found] by simp_all
    with that s show ?thesis
      using lookup_row_unique [of u_id "users s" r] lookup_row_unique [of u_id "users s" u] by (simp add: ranks_kept_def)
  qed
  have "filter (\<lambda>u. u_role u = OWNER) (users s') = filter (\<lambda>u. u_role u = OWNER) (users s)"
    unfolding users' by (rule filter_update_row) (use only low role grant in \<open>auto simp: may_grant_def split: option.split\<close>)
  moreover have "list_all (\<lambda>u. u_role u = SERVICE_MANAGER \<or> u_role u = SUPER_ADMIN \<longrightarrow> (u_id u, u_role u) \<in> ranks) (users s')"
    using s grant manager unfolding users' ranks_kept_def
    by (auto simp: list_all_iff set_update_row may_grant_def split: option.splits)
  ultimately show ?thesis
    using s users' by (simp add: ranks_kept_def unique_update_row)
qed

lemma ranks_create:
  assumes "ranks_kept owners ranks s" and "\<not> owner_like role" and "may_grant (Some (u_role u)) role"
    and "role = Some SERVICE_MANAGER" and "users s' = users s @ [u]" and "u_id u \<notin> u_id ` set (users s)"
  shows "ranks_kept owners ranks s'"
  using assms by (auto simp: ranks_kept_def may_grant_def unique_rows_def)

lemma ranks_frame: "users s' = users s \<Longrightarrow> ranks_kept owners ranks s' = ranks_kept owners ranks s"
  by (simp add: ranks_kept_def)

lemma handle_staff_ranks:
  assumes s: "ranks_kept owners ranks s" and "by_role (fst q) \<noteq> OWNER"
  shows "wp (handle_staff cx q) (\<lambda>_. ranks_kept owners ranks) (\<lambda>_. ranks_kept owners ranks) s"
proof -
  obtain c r where q: "q = (c, r)"
    by (cases q)
  have same: "wp m (\<lambda>_. ranks_kept owners ranks) (\<lambda>_. ranks_kept owners ranks) s"
    if "keeps (\<lambda>s'. users s' = users s) m" for m :: "'x dbM"
    by (rule wp_mono [OF that [unfolded keeps_def, rule_format, OF refl]]) (simp_all add: s ranks_frame [of _ s])
  have update: "wp (update_staff cx t k dto (Some SERVICE_MANAGER)) (\<lambda>_. ranks_kept owners ranks) (\<lambda>_. ranks_kept owners ranks) s"
    for t k dto
    by (rule wp_mono [OF wp_update_staff_users]) (auto simp: s owner_like_def intro: ranks_update [OF s, of "Some SERVICE_MANAGER"])
  have create: "wp (create_staff cx t dto (Some SERVICE_MANAGER)) (\<lambda>_. ranks_kept owners ranks) (\<lambda>_. ranks_kept owners ranks) s"
    for t dto
    by (rule wp_mono [OF wp_create_staff_users]) (auto simp: s owner_like_def intro!: ranks_create [OF s, of "Some SERVICE_MANAGER"])
  note same = same [OF keeps_staff_reads(3)] same [OF keeps_staff_reads(4)] same [OF keeps_staff_reads(5)]
    same [OF keeps_users_small(3)] same [OF keeps_users_small(4)]
  show ?thesis
    unfolding q using assms(2) s
    by (cases r) (auto simp: q wp_thenM wp_ignore roles_guard_def wp_ensure same update create)
qed

interpretation managers: service_contract "handle_staff cx" "\<lambda>q _. by_role (fst q) \<noteq> OWNER" "ranks_kept owners ranks"
  for cx owners ranks
  by unfold_locales (rule handle_staff_ranks)

section \<open>Shut accounts\<close>

text \<open>No active account has the identifier \<open>k\<close>, and it will not be drawn again.\<close>

definition shut :: "(nat \<Rightarrow> uuid) \<Rightarrow> uuid \<Rightarrow> db \<Rightarrow> bool" where
  "shut gen k s \<longleftrightarrow> list_all (\<lambda>u. u_id u = k \<longrightarrow> \<not> u_isActive u) (users s) \<and> (\<forall>n\<ge>id_supply s. gen n \<noteq> k)"

lemma shut_frames [simp]:
  "shut gen k (tenants_update f s) = shut gen k s" "shut gen k (redis_update f' s) = shut gen k s"
  "shut gen k (outbox_update g s) = shut gen k s" "shut gen k (refresh_tokens_update g' s) = shut gen k s"
  by (simp_all add: shut_def)

lemma keeps_shut_small [keeps_intros]:
  "keeps (shut gen k) (redis_get env key)" "keeps (shut gen k) (redis_set env key v ttl)"
  "keeps (shut gen k) (redis_del env key)" "keeps (shut gen k) (redis_count env key)"
  "keeps (shut gen k) (emit e)" "keeps (shut gen k) (fresh_id cx)" "keeps (shut gen k) (draw_code env)"
  "keeps (shut gen k) (tenant_of u)" "keeps (shut gen k) (user_by_phone p)"
  "keeps (shut gen k) (find_token env tok)" "keeps (shut gen k) (revoke_family fam)"
  by (auto simp: keeps_def wp_simps auth_steps shut_def split: option.split)

lemma keeps_shut_tokens [keeps_intros]: "keeps (shut gen k) (generateTokens env u t fam)"
  unfolding generateTokens_def Let_def
  by (rule keeps_intros keeps_frame shut_frames)+

lemma keeps_shut_sessions [keeps_intros]:
  "keeps (shut gen k) (claim_token env tok)" "keeps (shut gen k) (revokeRefreshToken env tok')"
  unfolding claim_token_def revokeRefreshToken_def
  by (rule keeps_intros keeps_frame shut_frames)+

lemma keeps_shut_refresh: "keeps (shut gen k) (refreshToken env tok)"
  unfolding refreshToken_def by (rule keeps_intros | simp split: prod.split | rule allI impI)+

lemma shut_rows:
  "gen = gen_id (en_ctx env) \<Longrightarrow> keeps (shut gen k) (register_rows env dto p)"
  by (auto simp: keeps_def register_rows_def wp_simps shut_def split: option.split)

lemma shut_register:
  "gen = gen_id (en_ctx env) \<Longrightarrow> keeps (shut gen k) (registerTenant env dto)"
  unfolding registerTenant_def by (rule keeps_intros shut_rows | assumption | simp split: prod.split | rule allI impI)+

interpretation shut_accounts: auth_keeper "shut (gen_id (en_ctx env)) k" env for env k
  by unfold_locales (simp_all add: keeps_shut_small keeps_shut_tokens shut_register keeps_shut_refresh keeps_shut_sessions)

text \<open>A shut account has no access, gets no new tokens and no login.\<close>

lemma shut_find: "shut gen k s \<Longrightarrow> find P (users s) = Some u \<Longrightarrow> u_isActive u \<Longrightarrow> u_id u \<noteq> k"
  using find_SomeD [of P "users s" u] by (auto simp: shut_def list_all_iff)

lemma wp_authenticate_shut:
  assumes "shut gen k s" and "en_verify env (en_now env) tok = Some c" and "cl_sub c = k"
  shows "wp (authenticate env tok) (\<lambda>_ _. False) (\<lambda>_ s'. s' = s) s"
proof -
  have "\<not> u_isActive u" if "find (\<lambda>u. u_id u = k) (users s) = Some u" for u
    using shut_find [OF assms(1) that] find_SomeD [OF that] by auto
  then have "wp (validateAccessIdentity env c) (\<lambda>_ _. False) (\<lambda>_ s'. s' = s) s"
    using assms(3) by (auto simp: validateAccessIdentity_def tenant_of_def wp_simps split: option.split)
  then show ?thesis
    unfolding authenticate_def validate_def wp_bindM wp_require assms(2) option.case wp_funs
    by (rule wp_mono) simp_all
qed

lemma wp_refresh_shut:
  assumes s: "shut gen k s" and r: "find (\<lambda>r. rt_tokenHash r = en_sha256 env tok) (refresh_tokens s) = Some r"
    and k: "rt_userId r = k"
  shows "wp (refreshToken env tok) (\<lambda>_ _. False) (\<lambda>_ _. True) s"
proof -
  have "\<not> u_isActive u" if "find (\<lambda>u. u_id u = k) (users s) = Some u" for u
    using shut_find [OF s that] find_SomeD [OF that] by auto
  then have "wp (claim_token env tok) (\<lambda>_ _. False) (\<lambda>_ _. True) s"
    using r k by (auto simp: claim_token_def find_token_def revoke_family_def tenant_of_def wp_simps split: option.split)
  then show ?thesis
    unfolding refreshToken_def wp_bindM wp_try_catch wp_throw by (rule wp_mono) simp_all
qed

lemma wp_login_user:
  "wp (thenM (ensure b e1) (thenM (check_code env p code) (bindM (generateTokens env u t None) (\<lambda>tokens.
      bindM (require e2 tn) (\<lambda>t. ret \<lparr>lg_user = u, lg_tenantTitle = t_title t, lg_tokens = tokens\<rparr>)))))
      (\<lambda>x _. lg_user x = u) (\<lambda>_ _. True) s"
  by (rule wp_any_first)+ (simp add: wp_simps split: option.split)

lemma wp_verifyOtp_shut:
  assumes "shut gen k s"
  shows "wp (verifyOtp env phone code) (\<lambda>x _. u_id (lg_user x) \<noteq> k) (\<lambda>_ _. True) s"
proof (cases "find (\<lambda>u. u_phone u \<in> set (spellings (normalizePhone phone)) \<and> u_isActive u) (users s)")
  case None
  then show ?thesis
    by (simp add: verifyOtp_def Let_def user_by_phone_def wp_simps)
next
  case (Some u)
  have "u_id u \<noteq> k"
    using shut_find [OF assms Some] find_SomeD [OF Some] by simp
  then have "wp (bindM (tenant_of u) f) (\<lambda>x _. u_id (lg_user x) \<noteq> k) (\<lambda>_ _. True) s"
    if "\<And>tn s. wp (f tn) (\<lambda>x _. lg_user x = u) (\<lambda>_ _. True) s" for f
    by (intro wp_any_first(1) wp_mono [OF that]) auto
  from this [OF wp_login_user] show ?thesis
    using Some unfolding verifyOtp_def Let_def user_by_phone_def wp_bindM [of "find_first users _"] wp_find_first
    by (simp add: wp_bindM [of "require _ _"] wp_require)
qed

section \<open>Removal\<close>

lemma shut_update:
  assumes "users s' = update_row u_id k f (users s)" and "\<And>u. u_id (f u) = u_id u \<and> \<not> u_isActive (f u)"
    and "id_supply s \<le> id_supply s'" and "\<forall>n\<ge>id_supply s. gen n \<noteq> k"
  shows "shut gen k s'"
proof -
  have "\<forall>n\<ge>id_supply s'. gen n \<noteq> k"
    using assms(3,4) le_trans by blast
  with assms(1,2) show ?thesis
    by (auto simp: shut_def list_all_iff set_update_row)
qed

lemma wp_remove_shut:
  assumes "\<forall>n\<ge>id_supply s. gen n \<noteq> k"
  shows "wp (remove_staff t k) (\<lambda>_. shut gen k) (\<lambda>_ _. True) s"
proof -
  have user: "wp (delete_user t k) (\<lambda>_. shut gen k) (\<lambda>_ _. True) s'" if "id_supply s' = id_supply s" for s'
    using assms that by (auto simp: delete_user_def delete_user_row_def member_row_def mechanic_of_def ignore_def wp_simps shut_def
      release_mechanic_def forget_user_def list_all_iff delete_row_def split: option.split)
  have mech: "wp (delete_mechanic t mid) (\<lambda>_ s'. id_supply s' = id_supply s) (\<lambda>_ _. True) s'"
    if "id_supply s' = id_supply s" for mid s'
    using that by (auto simp: delete_mechanic_def ignore_def wp_simps release_mechanic_def split: option.split)
  have gone: "wp (thenM (case m of None \<Rightarrow> ret () | Some x \<Rightarrow> delete_mechanic t (m_id x))
      (thenM (delete_user t k) (ret y))) (\<lambda>_. shut gen k) (\<lambda>_ _. True) s'"
    if "id_supply s' = id_supply s" for m and y :: removal and s'
  proof (cases m)
    case None
    with user [OF that] show ?thesis
      by (simp add: wp_thenM wp_ret wp_funs)
  next
    case (Some x)
    then show ?thesis
      unfolding wp_thenM wp_option wp_ret wp_funs by (simp, intro wp_mono [OF mech [OF that]] user) simp_all
  qed
  have off: "wp (thenM (ignore (update_by users users_update u_id k (\<lambda>u. u\<lparr>u_isActive := False\<rparr>))) (ret y))
      (\<lambda>_. shut gen k) (\<lambda>_ _. True) s'" if "id_supply s' = id_supply s" for y :: removal and s'
    using assms that unfolding ignore_def
    by (cases "lookup_row u_id k (users s')")
      (simp_all add: wp_simps shut_update [of _ k "\<lambda>u. u\<lparr>u_isActive := False\<rparr>" s'])
  have reads: "read_only (findOne_staff t k)" "read_only (has_references t m)" for m
    unfolding findOne_staff_def member_row_def mechanic_of_def has_references_def
    by (rule atomic_intros | simp add: find_first_def find_many_def)+
  show ?thesis
    unfolding remove_staff_def
    by (rule wp_read_bind [OF reads(1)], rule wp_read_bind [OF reads(2)], unfold wp_thenM [of "emit _"] wp_emit wp_if)
      (simp add: gone off)
qed

lemma keeps_supply: "keeps (\<lambda>s. n \<le> id_supply s) (emit e)" "keeps (\<lambda>s. n \<le> id_supply s) (fresh_id cx)"
  by (simp_all add: keeps_def wp_simps)

lemma wp_update_shut:
  assumes "\<forall>n\<ge>id_supply s. gen n \<noteq> k" and "ud_isActive dto = Some False"
  shows "wp (update_staff cx t k dto role) (\<lambda>_. shut gen k) (\<lambda>_ _. True) s"
proof -
  have drawn: "keeps (\<lambda>s'. id_supply s \<le> id_supply s') (update_staff cx t k dto role)"
    unfolding update_staff_def write_account_def
    by (rule keeps_intros keeps_frame keeps_mechanic_writes keeps_supply | simp)+
  have "wp (update_staff cx t k dto role) (\<lambda>_ s'. id_supply s \<le> id_supply s') (\<lambda>_ _. True) s"
    by (rule keeps_wp [OF drawn]) simp_all
  from wp_conj [OF wp_update_staff_users this] show ?thesis
  proof (rule wp_mono, goal_cases)
    case (1 x s')
    then obtain p where "users s' = update_row u_id k (updated_user dto p) (users s)" "id_supply s \<le> id_supply s'"
      by blast
    then show ?case
      using assms by (intro shut_update [of s' k "updated_user dto p" s]) simp_all
  qed simp
qed

end
