(* ===== verification/Inventory.thy ===== *)
theory Inventory
  imports WorkOrders
begin

text \<open>
  \<open>modules/inventory\<close> without the shelves: the stock item entity, its Prisma repository and
  the use cases on parts (open, change, delete, list, decrement, increment, manual movement).
  An optional field of a request or of the entity is absent (\<open>undefined\<close>) or a value; only
  \<open>shelfCellId\<close> can also be \<open>null\<close>. Shelf cells are filtered by the row level security policy
  of \<open>shelf_cells\<close>: a cell of another tenant's shelf is invisible to a query, while a foreign
  key accepts it.
\<close>

section \<open>StockItemEntity\<close>

record stock_item_props =
  sp_id :: "uuid option"
  sp_tenantId :: uuid
  sp_name :: string
  sp_oemCode :: string
  sp_barcode :: "string option"
  sp_category :: "string option"
  sp_brand :: string
  sp_stockQuantity :: int
  sp_minStockLevel :: "int option"
  sp_shelfLocation :: "string option"
  sp_purchasePrice :: number
  sp_salePrice :: number
  sp_kdvRate :: "number option"
  sp_aisle :: "string option"
  sp_rack :: "string option"
  sp_tier :: "string option"
  sp_bin :: "string option"
  sp_shelfId :: "uuid option"
  sp_shelfCellId :: "uuid option"

text \<open>In \<open>si_shelfCellId\<close> the outer \<open>None\<close> is \<open>undefined\<close>, the inner one is \<open>null\<close>.\<close>

record stock_item =
  si_id :: "uuid option"
  si_tenantId :: uuid
  si_name :: string
  si_oemCode :: string
  si_barcode :: "string option"
  si_category :: string
  si_brand :: string
  si_stockQuantity :: int
  si_minStockLevel :: int
  si_shelfLocation :: "string option"
  si_purchasePrice :: number
  si_salePrice :: number
  si_kdvRate :: number
  si_aisle :: "string option"
  si_rack :: "string option"
  si_tier :: "string option"
  si_bin :: "string option"
  si_shelfId :: "uuid option"
  si_shelfCellId :: "uuid option option"

text \<open>\<open>String.prototype.toUpperCase\<close> on ASCII text.\<close>

definition to_upper :: "string \<Rightarrow> string" where
  "to_upper = map (\<lambda>c. if c \<in> set ''abcdefghijklmnopqrstuvwxyz'' then char_of ((of_char c :: nat) - 32) else c)"

definition new_StockItemEntity :: "stock_item_props \<Rightarrow> stock_item" where
  "new_StockItemEntity props =
     \<lparr>si_id = sp_id props, si_tenantId = sp_tenantId props, si_name = sp_name props,
      si_oemCode = js_trim (to_upper (sp_oemCode props)), si_barcode = sp_barcode props,
      si_category = or_else (sp_category props) ''GENERAL'', si_brand = sp_brand props,
      si_stockQuantity = sp_stockQuantity props,
      si_minStockLevel = (case sp_minStockLevel props of None \<Rightarrow> 5 | Some m \<Rightarrow> m),
      si_shelfLocation = sp_shelfLocation props, si_purchasePrice = sp_purchasePrice props,
      si_salePrice = sp_salePrice props,
      si_kdvRate = (case sp_kdvRate props of None \<Rightarrow> 20 | Some r \<Rightarrow> r),
      si_aisle = sp_aisle props, si_rack = sp_rack props, si_tier = sp_tier props,
      si_bin = sp_bin props, si_shelfId = sp_shelfId props,
      si_shelfCellId = map_option Some (sp_shelfCellId props)\<rparr>"

definition canDecrement :: "stock_item \<Rightarrow> int \<Rightarrow> bool" where
  "canDecrement item qty = (if qty \<le> 0 then False else si_stockQuantity item \<ge> qty)"

definition decrement :: "stock_item \<Rightarrow> int \<Rightarrow> exn + stock_item" where
  "decrement item qty =
     (if qty \<le> 0 then Inl (DomainError ''Dusulecek miktar 0 dan buyuk olmalidir.'')
      else if \<not> canDecrement item qty then Inl (DomainError
        (''Yetersiz stok! Mevcut stok: '' @ int_str (si_stockQuantity item) @ '', istenen: '' @ int_str qty))
      else Inr (item\<lparr>si_stockQuantity := si_stockQuantity item - qty\<rparr>))"

definition increment :: "stock_item \<Rightarrow> int \<Rightarrow> exn + stock_item" where
  "increment item qty =
     (if qty \<le> 0 then Inl (DomainError ''Eklenecek miktar 0 dan buyuk olmalidir.'')
      else Inr (item\<lparr>si_stockQuantity := si_stockQuantity item + qty\<rparr>))"

definition isLowStock :: "stock_item \<Rightarrow> bool" where
  "isLowStock item \<longleftrightarrow> si_stockQuantity item \<le> si_minStockLevel item"

section \<open>PrismaInventoryRepository\<close>

text \<open>\<open>shelfCell: { include: { shelf } }\<close>, as the tenant sees it.\<close>

definition visible_cell :: "uuid \<Rightarrow> uuid \<Rightarrow> db \<Rightarrow> (shelf_cell \<times> warehouse_shelf) option" where
  "visible_cell tenantId cellId s =
     (case find (\<lambda>c. sc_id c = cellId) (shelf_cells s) of
        None \<Rightarrow> None
      | Some cell \<Rightarrow> map_option (Pair cell)
          (find (\<lambda>sh. sh_id sh = sc_shelfId cell \<and> sh_tenantId sh = tenantId) (warehouse_shelves s)))"

definition tier_name :: "shelf_cell \<Rightarrow> string" where "tier_name c = ''Kat '' @ nat_str (sc_rowNumber c)"
definition bin_name :: "shelf_cell \<Rightarrow> string" where "bin_name c = ''Goz '' @ nat_str (sc_colNumber c)"

definition mapToStockItem :: "product \<Rightarrow> (shelf_cell \<times> warehouse_shelf) option \<Rightarrow> stock_item" where
  "mapToStockItem p cell = new_StockItemEntity
     \<lparr>sp_id = Some (p_id p), sp_tenantId = p_tenantId p, sp_name = p_name p, sp_oemCode = p_oemCode p,
      sp_barcode = p_barcode p, sp_category = Some (p_category p), sp_brand = p_brand p,
      sp_stockQuantity = p_stockQuantity p, sp_minStockLevel = Some (p_minStockLevel p),
      sp_shelfLocation = Some (p_shelfLocation p),
      sp_purchasePrice = num_of_cents (p_purchasePrice p), sp_salePrice = num_of_cents (p_salePrice p),
      sp_kdvRate = Some (num_of_cents (p_kdvRate p)),
      sp_aisle = or_keep (p_aisle p) (map_option (\<lambda>(c, sh). case sh_zone sh of Some z \<Rightarrow> z | None \<Rightarrow> sh_name sh) cell),
      sp_rack = or_keep (p_rack p) (map_option (\<lambda>(c, sh). sh_code sh) cell),
      sp_tier = or_keep (p_tier p) (map_option (\<lambda>(c, sh). tier_name c) cell),
      sp_bin = or_keep (p_bin p) (map_option (\<lambda>(c, sh). bin_name c) cell),
      sp_shelfId = or_keep (p_shelfId p) (map_option (\<lambda>(c, sh). sc_shelfId c) cell),
      sp_shelfCellId = or_keep (p_shelfCellId p) (map_option (\<lambda>(c, sh). sc_id c) cell)\<rparr>"

definition cell_of :: "uuid \<Rightarrow> uuid option \<Rightarrow> (shelf_cell \<times> warehouse_shelf) option dbM" where
  "cell_of tenantId cellId =
     (case cellId of None \<Rightarrow> ret None | Some c \<Rightarrow> reads (visible_cell tenantId c))"

definition findById_StockItem :: "uuid \<Rightarrow> uuid \<Rightarrow> stock_item option dbM" where
  "findById_StockItem tenantId ident =
     bindM (find_first products (\<lambda>p. p_id p = ident \<and> p_tenantId p = tenantId \<and> p_deletedAt p = None)) (\<lambda>found.
       case found of
         None \<Rightarrow> ret None
       | Some p \<Rightarrow> bindM (cell_of tenantId (p_shelfCellId p)) (\<lambda>cell. ret (Some (mapToStockItem p cell))))"

text \<open>
  \<open>findAll\<close>: the search is case insensitive except on the barcode; the order by name is the
  one of the database's collation, an argument here.
\<close>

fun contains_at :: "string \<Rightarrow> string \<Rightarrow> bool" where
  "contains_at pat [] = (pat = [])"
| "contains_at pat (c # s) = (take (length pat) (c # s) = pat \<or> contains_at pat s)"

definition contains_ci :: "string \<Rightarrow> string \<Rightarrow> bool" where
  "contains_ci pat s = contains_at (to_upper pat) (to_upper s)"

definition matches_search :: "string option \<Rightarrow> product \<Rightarrow> bool" where
  "matches_search search p \<longleftrightarrow> (case or_null search of
     None \<Rightarrow> True
   | Some q \<Rightarrow> contains_ci q (p_name p) \<or> contains_ci q (p_oemCode p) \<or>
       (case p_barcode p of None \<Rightarrow> False | Some b \<Rightarrow> contains_at q b) \<or> contains_ci q (p_brand p))"

definition findAll_StockItem ::
  "(string \<Rightarrow> string \<Rightarrow> bool) \<Rightarrow> uuid \<Rightarrow> string option \<Rightarrow> string option \<Rightarrow> stock_item list dbM" where
  "findAll_StockItem collate tenantId search category =
     bindM (find_many products (\<lambda>p. p_tenantId p = tenantId \<and> p_deletedAt p = None \<and>
         (case or_null category of None \<Rightarrow> True | Some c \<Rightarrow> p_category p = c) \<and> matches_search search p))
       (\<lambda>rows. reads (\<lambda>s. map (\<lambda>p. mapToStockItem p (Option.bind (p_shelfCellId p) (\<lambda>c. visible_cell tenantId c s)))
          (order_by (\<lambda>p q. collate (p_name p) (p_name q)) rows)))"

text \<open>The columns that say where a part lies, as \<open>create\<close> and \<open>save\<close> resolve them.\<close>

record location =
  lo_shelfId :: "uuid option"
  lo_shelfLocation :: "string option"
  lo_aisle :: "string option"
  lo_rack :: "string option"
  lo_tier :: "string option"
  lo_bin :: "string option"

definition item_location :: "uuid option \<Rightarrow> stock_item \<Rightarrow> location" where
  "item_location shelfId item = \<lparr>lo_shelfId = shelfId, lo_shelfLocation = si_shelfLocation item,
     lo_aisle = si_aisle item, lo_rack = si_rack item, lo_tier = si_tier item, lo_bin = si_bin item\<rparr>"

definition in_cell :: "(shelf_cell \<times> warehouse_shelf) option \<Rightarrow> location \<Rightarrow> location" where
  "in_cell found lo = (case found of
     None \<Rightarrow> lo
   | Some (cell, shelf) \<Rightarrow> lo\<lparr>lo_shelfId := Some (sc_shelfId cell), lo_shelfLocation := Some (sc_cellCode cell),
       lo_aisle := or_keep (or_null (sh_zone shelf)) (or_keep (or_null (Some (sh_name shelf))) (lo_aisle lo)),
       lo_rack := or_keep (or_null (Some (sh_code shelf))) (lo_rack lo),
       lo_tier := Some (tier_name cell), lo_bin := Some (bin_name cell)\<rparr>)"

text \<open>The given cell, if any: \<open>undefined\<close> and \<open>null\<close> name none.\<close>

definition given_cell :: "stock_item \<Rightarrow> uuid option" where
  "given_cell item = or_null (case si_shelfCellId item of None \<Rightarrow> None | Some c \<Rightarrow> c)"

definition check_product ::
  "(product \<Rightarrow> bool) \<Rightarrow> uuid \<Rightarrow> string \<Rightarrow> uuid option \<Rightarrow> unit dbM" where
  "check_product other tenantId oemCode cellId =
     thenM (unique_index products ''products_tenant_id_oem_code_key''
       (\<lambda>x. other x \<and> p_tenantId x = tenantId \<and> p_oemCode x = oemCode))
     (bindM (reads shelf_cells) (\<lambda>cells.
       ensure (case cellId of None \<Rightarrow> True | Some c \<Rightarrow> c \<in> sc_id ` set cells)
         (DbError (ForeignKeyViolation ''products_shelf_cell_id_fkey''))))"

definition product_of :: "ctx \<Rightarrow> uuid \<Rightarrow> stock_item \<Rightarrow> location \<Rightarrow> string \<Rightarrow> product" where
  "product_of cx ident item lo shelfLocation =
     \<lparr>p_id = ident, p_tenantId = si_tenantId item, p_name = si_name item, p_oemCode = si_oemCode item,
      p_barcode = si_barcode item, p_category = or_else (Some (si_category item)) ''GENERAL'',
      p_brand = si_brand item, p_stockQuantity = si_stockQuantity item,
      p_minStockLevel = si_minStockLevel item, p_shelfLocation = shelfLocation,
      p_purchasePrice = dec2 cx (si_purchasePrice item), p_salePrice = dec2 cx (si_salePrice item),
      p_kdvRate = dec2 cx (si_kdvRate item), p_deletedAt = None, p_shelfId = lo_shelfId lo,
      p_shelfCellId = given_cell item, p_aisle = lo_aisle lo, p_rack = lo_rack lo,
      p_tier = lo_tier lo, p_bin = lo_bin lo\<rparr>"

definition stock_row :: "uuid \<Rightarrow> uuid \<Rightarrow> StockMovementType \<Rightarrow> int \<Rightarrow> string option \<Rightarrow> string \<Rightarrow> string \<Rightarrow> stock_movement" where
  "stock_row tenantId pid kind q ref remark author =
     \<lparr>sm_tenantId = tenantId, sm_productId = pid, sm_movementType = kind, sm_quantity = q,
      sm_referenceId = ref, sm_note = remark, sm_createdBy = author\<rparr>"

text \<open>\<open>shelfLocation\<close> is a required column without default.\<close>

definition create_StockItem :: "ctx \<Rightarrow> stock_item \<Rightarrow> string \<Rightarrow> stock_item dbM" where
  "create_StockItem cx item author = transaction
     (bindM (cell_of (si_tenantId item) (given_cell item)) (\<lambda>cell.
      let lo = in_cell cell (item_location (si_shelfId item) item) in
      bindM (require (DbError (MissingArgument ''shelfLocation'')) (lo_shelfLocation lo)) (\<lambda>shelfLocation.
      bindM (fresh_id cx) (\<lambda>ident.
      thenM (check_product (\<lambda>_. True) (si_tenantId item) (si_oemCode item) (given_cell item))
      (bindM (create_row products products_update p_id (product_of cx ident item lo shelfLocation)) (\<lambda>created.
      thenM (whenM (si_stockQuantity item > 0)
        (thenM (add_movement (stock_row (si_tenantId item) (p_id created) IN_PURCHASE (si_stockQuantity item) None
            ''Ilk stok girisi (Acilis bakiyesi)'' author)) (ret ())))
      (ret (mapToStockItem created None))))))))"

text \<open>An \<open>undefined\<close> field of an update leaves the column as it is.\<close>

definition saved_product :: "ctx \<Rightarrow> stock_item \<Rightarrow> location \<Rightarrow> product \<Rightarrow> product" where
  "saved_product cx item lo p =
     p\<lparr>p_name := si_name item, p_oemCode := si_oemCode item,
       p_barcode := or_keep (si_barcode item) (p_barcode p), p_category := si_category item,
       p_brand := si_brand item, p_stockQuantity := si_stockQuantity item,
       p_minStockLevel := si_minStockLevel item,
       p_shelfLocation := (case lo_shelfLocation lo of None \<Rightarrow> p_shelfLocation p | Some l \<Rightarrow> l),
       p_purchasePrice := dec2 cx (si_purchasePrice item), p_salePrice := dec2 cx (si_salePrice item),
       p_kdvRate := dec2 cx (si_kdvRate item), p_aisle := or_keep (lo_aisle lo) (p_aisle p),
       p_rack := or_keep (lo_rack lo) (p_rack p), p_tier := or_keep (lo_tier lo) (p_tier p),
       p_bin := or_keep (lo_bin lo) (p_bin p), p_shelfId := lo_shelfId lo,
       p_shelfCellId := (case si_shelfCellId item of None \<Rightarrow> p_shelfCellId p | Some c \<Rightarrow> c)\<rparr>"

definition save_StockItem :: "ctx \<Rightarrow> stock_item \<Rightarrow> stock_item dbM" where
  "save_StockItem cx item =
     bindM (find_first products (\<lambda>p. Some (p_id p) = si_id item \<and> p_tenantId p = si_tenantId item \<and>
         p_deletedAt p = None)) (\<lambda>found.
     bindM (require (BadRequestException ''Urun bulunamadi veya bu isletmeye ait degil.'') found) (\<lambda>existing.
     bindM (cell_of (si_tenantId item) (given_cell item)) (\<lambda>cell.
     let shelfId = (if si_shelfCellId item = Some None then None else p_shelfId existing);
         lo = in_cell cell (item_location shelfId item)
     in thenM (check_product (\<lambda>x. p_id x \<noteq> p_id existing) (si_tenantId item) (si_oemCode item) (given_cell item))
     (bindM (update_product (p_id existing) (saved_product cx item lo)) (\<lambda>updated.
     bindM (cell_of (si_tenantId item) (p_shelfCellId updated)) (\<lambda>newCell.
     ret (mapToStockItem updated newCell)))))))"

definition delete_StockItem :: "ctx \<Rightarrow> uuid \<Rightarrow> uuid \<Rightarrow> unit dbM" where
  "delete_StockItem cx tenantId ident =
     bindM (find_first products (\<lambda>p. p_id p = ident \<and> p_tenantId p = tenantId \<and> p_deletedAt p = None)) (\<lambda>existing.
     thenM (ensure (existing \<noteq> None) (BadRequestException ''Silinmek istenen parca bulunamadi.''))
     (thenM (update_product ident (\<lambda>p. p\<lparr>p_deletedAt := Some (now cx), p_shelfCellId := None\<rparr>)) (ret ())))"

definition decrementAtomic :: "uuid \<Rightarrow> uuid \<Rightarrow> int \<Rightarrow> string \<Rightarrow> string \<Rightarrow> stock_item dbM" where
  "decrementAtomic tenantId productId quantity refId author = transaction
     (bindM (take_stock tenantId productId quantity) (\<lambda>updated.
      thenM (ensure (updated \<noteq> 0) (BadRequestException
        ''Yetersiz stok! Talep edilen miktar mevcut stoktan fazladir.''))
      (thenM (add_movement (stock_row tenantId productId OUT_WORK_ORDER quantity (Some refId)
         (''Is Emri (#'' @ refId @ '') kapsaminda stoktan dusuldu.'') author))
      (bindM (find_first products (\<lambda>p. p_id p = productId)) (\<lambda>found.
      bindM (require (DbError RecordNotFound) found) (\<lambda>product.
      ret (mapToStockItem product None)))))))"

definition incrementAtomic :: "uuid \<Rightarrow> uuid \<Rightarrow> int \<Rightarrow> string \<Rightarrow> string \<Rightarrow> stock_item dbM" where
  "incrementAtomic tenantId productId quantity refId author = transaction
     (bindM (find_product tenantId productId) (\<lambda>existing.
      thenM (ensure (existing \<noteq> None) (BadRequestException ''Urun bulunamadi veya bu isletmeye ait degil.''))
      (bindM (update_product productId (\<lambda>p. p\<lparr>p_stockQuantity := p_stockQuantity p + quantity\<rparr>)) (\<lambda>updated.
      thenM (add_movement (stock_row tenantId productId RETURN quantity (Some refId)
         (''Iptal / Iade islemi: #'' @ refId) author))
      (ret (mapToStockItem updated None))))))"

definition addStockMovement_row ::
  "uuid \<Rightarrow> uuid \<Rightarrow> StockMovementType \<Rightarrow> int \<Rightarrow> string option \<Rightarrow> string \<Rightarrow> string \<Rightarrow> unit dbM" where
  "addStockMovement_row tenantId productId movementType quantity refId remark author =
     bindM (find_product tenantId productId) (\<lambda>product.
     thenM (ensure (product \<noteq> None) (BadRequestException ''Urun bulunamadi veya bu isletmeye ait degil.''))
     (thenM (add_movement (stock_row tenantId productId movementType quantity refId remark author)) (ret ())))"

text \<open>Newest first.\<close>

definition getMovements_row :: "uuid \<Rightarrow> uuid \<Rightarrow> stock_movement list dbM" where
  "getMovements_row tenantId productId =
     bindM (find_many stock_movements (\<lambda>m. sm_tenantId m = tenantId \<and> sm_productId m = productId)) (\<lambda>rows.
       ret (rev rows))"

section \<open>Use cases\<close>

record stock_item_input =
  ci_name :: string
  ci_oemCode :: string
  ci_barcode :: "string option"
  ci_category :: "string option"
  ci_brand :: string
  ci_stockQuantity :: int
  ci_minStockLevel :: "int option"
  ci_shelfLocation :: "string option"
  ci_purchasePrice :: number
  ci_salePrice :: number
  ci_kdvRate :: "number option"
  ci_aisle :: "string option"
  ci_rack :: "string option"
  ci_tier :: "string option"
  ci_bin :: "string option"
  ci_shelfCellId :: "uuid option"

definition createStockItem :: "ctx \<Rightarrow> uuid \<Rightarrow> stock_item_input \<Rightarrow> string \<Rightarrow> stock_item dbM" where
  "createStockItem cx tenantId dto author = create_StockItem cx (new_StockItemEntity
     \<lparr>sp_id = None, sp_tenantId = tenantId, sp_name = ci_name dto, sp_oemCode = ci_oemCode dto,
      sp_barcode = ci_barcode dto, sp_category = ci_category dto, sp_brand = ci_brand dto,
      sp_stockQuantity = ci_stockQuantity dto,
      sp_minStockLevel = Some (case ci_minStockLevel dto of None \<Rightarrow> 5 | Some m \<Rightarrow> m),
      sp_shelfLocation = ci_shelfLocation dto, sp_purchasePrice = ci_purchasePrice dto,
      sp_salePrice = ci_salePrice dto,
      sp_kdvRate = Some (case ci_kdvRate dto of None \<Rightarrow> 20 | Some r \<Rightarrow> r),
      sp_aisle = ci_aisle dto, sp_rack = ci_rack dto, sp_tier = ci_tier dto, sp_bin = ci_bin dto,
      sp_shelfId = None, sp_shelfCellId = ci_shelfCellId dto\<rparr>) author"

record stock_item_patch =
  up_name :: "string option"
  up_oemCode :: "string option"
  up_barcode :: "string option"
  up_category :: "string option"
  up_brand :: "string option"
  up_stockQuantity :: "int option"
  up_minStockLevel :: "int option"
  up_shelfLocation :: "string option"
  up_purchasePrice :: "number option"
  up_salePrice :: "number option"
  up_kdvRate :: "number option"
  up_shelfCellId :: "uuid option option"
  up_aisle :: "string option"
  up_rack :: "string option"
  up_tier :: "string option"
  up_bin :: "string option"

definition given :: "'a option \<Rightarrow> 'a \<Rightarrow> 'a" where
  "given x old = (case x of None \<Rightarrow> old | Some a \<Rightarrow> a)"

definition patched_item :: "stock_item_patch \<Rightarrow> stock_item \<Rightarrow> stock_item" where
  "patched_item dto e =
     e\<lparr>si_name := given (up_name dto) (si_name e), si_oemCode := given (up_oemCode dto) (si_oemCode e),
       si_barcode := or_keep (up_barcode dto) (si_barcode e),
       si_category := given (up_category dto) (si_category e), si_brand := given (up_brand dto) (si_brand e),
       si_stockQuantity := given (up_stockQuantity dto) (si_stockQuantity e),
       si_minStockLevel := given (up_minStockLevel dto) (si_minStockLevel e),
       si_shelfLocation := or_keep (up_shelfLocation dto) (si_shelfLocation e),
       si_purchasePrice := given (up_purchasePrice dto) (si_purchasePrice e),
       si_salePrice := given (up_salePrice dto) (si_salePrice e),
       si_kdvRate := given (up_kdvRate dto) (si_kdvRate e),
       si_shelfCellId := or_keep (up_shelfCellId dto) (si_shelfCellId e),
       si_aisle := or_keep (up_aisle dto) (si_aisle e), si_rack := or_keep (up_rack dto) (si_rack e),
       si_tier := or_keep (up_tier dto) (si_tier e), si_bin := or_keep (up_bin dto) (si_bin e)\<rparr>"

definition updateStockItem :: "ctx \<Rightarrow> uuid \<Rightarrow> uuid \<Rightarrow> stock_item_patch \<Rightarrow> stock_item dbM" where
  "updateStockItem cx tenantId ident dto =
     bindM (findById_StockItem tenantId ident) (\<lambda>found.
     bindM (require (NotFoundException ''Guncellenmek istenen parca bulunamadi.'') found) (\<lambda>existing.
     save_StockItem cx (patched_item dto existing)))"

definition deleteStockItem :: "ctx \<Rightarrow> uuid \<Rightarrow> uuid \<Rightarrow> unit dbM" where
  "deleteStockItem cx tenantId ident =
     bindM (findById_StockItem tenantId ident) (\<lambda>existing.
     thenM (ensure (existing \<noteq> None) (NotFoundException ''Silinmek istenen parca bulunamadi.''))
     (delete_StockItem cx tenantId ident))"

definition getStockItem :: "uuid \<Rightarrow> uuid \<Rightarrow> stock_item dbM" where
  "getStockItem tenantId ident =
     bindM (findById_StockItem tenantId ident) (\<lambda>item.
       require (NotFoundException ''Parca / Urun bulunamadi.'') item)"

definition getMovements :: "uuid \<Rightarrow> uuid \<Rightarrow> stock_movement list dbM" where
  "getMovements tenantId productId =
     bindM (getStockItem tenantId productId) (\<lambda>_. getMovements_row tenantId productId)"

definition low_stock_alarm :: "uuid \<Rightarrow> stock_item \<Rightarrow> unit dbM" where
  "low_stock_alarm tenantId item = whenM (isLowStock item)
     (thenM (emit (WsEmit tenantId ''inventory:low_stock'' (the (si_id item))))
       (emit (Notify tenantId ''INVENTORY'' ''Kritik Stok Uyarisi'')))"

definition decrementStock :: "uuid \<Rightarrow> uuid \<Rightarrow> int \<Rightarrow> string \<Rightarrow> string \<Rightarrow> stock_item dbM" where
  "decrementStock tenantId productId quantity refId author =
     bindM (findById_StockItem tenantId productId) (\<lambda>found.
     bindM (require (NotFoundException ''Urun bulunamadi.'') found) (\<lambda>item.
     thenM (ensure (canDecrement item quantity) (BadRequestException
       (''Yetersiz stok! Mevcut stok: '' @ int_str (si_stockQuantity item) @ '', istenen: '' @ int_str quantity)))
     (bindM (decrementAtomic tenantId productId quantity refId author) (\<lambda>updatedItem.
     thenM (emit (WsEmit tenantId ''inventory:stock_changed'' (the (si_id updatedItem))))
     (thenM (low_stock_alarm tenantId updatedItem)
     (ret updatedItem))))))"

definition incrementStock :: "uuid \<Rightarrow> uuid \<Rightarrow> int \<Rightarrow> string \<Rightarrow> string \<Rightarrow> stock_item dbM" where
  "incrementStock tenantId productId quantity refId author =
     thenM (ensure (quantity > 0) (BadRequestException ''Eklenecek miktar 0 dan buyuk olmalidir.''))
     (bindM (findById_StockItem tenantId productId) (\<lambda>item.
     thenM (ensure (item \<noteq> None) (NotFoundException ''Urun bulunamadi.''))
     (bindM (incrementAtomic tenantId productId quantity refId author) (\<lambda>updatedItem.
     thenM (emit (WsEmit tenantId ''inventory:stock_changed'' (the (si_id updatedItem))))
     (ret updatedItem)))))"

text \<open>
  The manual movement: the item is read (\<open>movement_item\<close>), changed in memory (\<open>moved_item\<close>) and
  written back as a whole before the movement is recorded (\<open>write_movement\<close>).
\<close>

record movement_input =
  mi_movementType :: StockMovementType
  mi_quantity :: int
  mi_referenceId :: "string option"
  mi_note :: "string option"

definition movement_item :: "uuid \<Rightarrow> uuid \<Rightarrow> stock_item dbM" where
  "movement_item tenantId productId =
     bindM (findById_StockItem tenantId productId) (\<lambda>item.
       require (NotFoundException ''Parca / Urun bulunamadi.'') item)"

definition moved_item :: "movement_input \<Rightarrow> stock_item \<Rightarrow> exn + stock_item" where
  "moved_item input item =
     (case mi_movementType input of
        OUT_WORK_ORDER \<Rightarrow>
          if \<not> canDecrement item (mi_quantity input) then Inl (BadRequestException
            (''Yetersiz stok! Mevcut: '' @ int_str (si_stockQuantity item) @
             '', Cikis yapilmak istenen: '' @ int_str (mi_quantity input)))
          else decrement item (mi_quantity input)
      | IN_PURCHASE \<Rightarrow> increment item (mi_quantity input)
      | RETURN \<Rightarrow> increment item (mi_quantity input)
      | ADJUSTMENT \<Rightarrow> Inr (item\<lparr>si_stockQuantity := mi_quantity input\<rparr>))"

definition movement_name :: "StockMovementType \<Rightarrow> string" where
  "movement_name t = (case t of IN_PURCHASE \<Rightarrow> ''IN_PURCHASE'' | OUT_WORK_ORDER \<Rightarrow> ''OUT_WORK_ORDER''
     | ADJUSTMENT \<Rightarrow> ''ADJUSTMENT'' | RETURN \<Rightarrow> ''RETURN'')"

definition write_movement ::
  "ctx \<Rightarrow> uuid \<Rightarrow> uuid \<Rightarrow> movement_input \<Rightarrow> string \<Rightarrow> stock_item \<Rightarrow> stock_item dbM" where
  "write_movement cx tenantId productId input author read =
     bindM (lift_sum (moved_item input read)) (\<lambda>item.
     bindM (save_StockItem cx item) (\<lambda>saved.
     thenM (addStockMovement_row tenantId productId (mi_movementType input) (mi_quantity input)
       (or_null (mi_referenceId input))
       (or_else (mi_note input) (''Stok Hareketi: '' @ movement_name (mi_movementType input))) author)
     (thenM (emit (WsEmit tenantId ''inventory:stock_changed'' (the (si_id saved))))
     (thenM (low_stock_alarm tenantId saved)
     (ret saved)))))"

definition addStockMovement ::
  "ctx \<Rightarrow> uuid \<Rightarrow> uuid \<Rightarrow> movement_input \<Rightarrow> string \<Rightarrow> stock_item dbM" where
  "addStockMovement cx tenantId productId input author =
     bindM (movement_item tenantId productId) (write_movement cx tenantId productId input author)"

end
