(* ===== verification/Platform.thy ===== *)
theory Platform
  imports StaffRules Inventory
begin

text \<open>
  \<open>modules/admin\<close>: the control plane of the platform. Administrators log in with a password, open
  workshops (tenant, central branch and owner account), switch them on and off, and manage each
  other. Every route but the login needs a token of an active administrator
  (\<open>AuthGuard('jwt')\<close>, \<open>RolesGuard\<close>), so no tenant filter applies. Password hashing (bcrypt) is a
  parameter. Texts are ASCII, on which the replacement of Turkish letters in a slug does nothing.
  Columns for address and tax and the listing with its search are left out. Deleting a workshop
  is one \<open>DELETE\<close> on \<open>tenants\<close>; what goes with it, and what stands in its way, is what the foreign
  keys of the migrations say.
\<close>

section \<open>Workshops\<close>

text \<open>\<open>String.prototype.toLowerCase\<close> on ASCII text.\<close>

definition to_lower :: "string \<Rightarrow> string" where
  "to_lower = map (\<lambda>c. if c \<in> set ''ABCDEFGHIJKLMNOPQRSTUVWXYZ'' then char_of ((of_char c :: nat) + 32) else c)"

fun one_dash :: "string \<Rightarrow> string" where
  "one_dash (c # d # s) = (if c = CHR ''-'' \<and> d = CHR ''-'' then one_dash (d # s) else c # one_dash (d # s))"
| "one_dash s = s"

definition trim_dash :: "string \<Rightarrow> string" where
  "trim_dash s =
     (let s1 = (if s \<noteq> [] \<and> hd s = CHR ''-'' then tl s else s)
      in if s1 \<noteq> [] \<and> last s1 = CHR ''-'' then butlast s1 else s1)"

fun base36 :: "nat \<Rightarrow> string" where
  "base36 n = (if n < 36 then [''0123456789abcdefghijklmnopqrstuvwxyz'' ! n]
     else base36 (n div 36) @ [''0123456789abcdefghijklmnopqrstuvwxyz'' ! (n mod 36)])"

definition base_slug :: "int \<Rightarrow> string \<Rightarrow> string" where
  "base_slug clock title =
     (let baseSlug = trim_dash (one_dash (map (\<lambda>c. if c \<in> set ''abcdefghijklmnopqrstuvwxyz0123456789'' then c else CHR ''-'')
        (js_trim (to_lower title))))
      in if baseSlug = [] then ''servis-'' @ base36 (nat clock) else baseSlug)"

text \<open>
  \<open>while (await findUnique({ where: { slug } })) slug = baseSlug-counter\<close>. The loop ends: each turn
  uses up one of the finitely many taken slugs.
\<close>

definition slugs_left :: "string list \<Rightarrow> string \<Rightarrow> nat \<Rightarrow> nat" where
  "slugs_left taken base counter = card {x \<in> set taken. \<exists>i\<ge>counter. x = base @ ''-'' @ nat_str i}"

lemma slugs_left_Suc:
  "slugs_left taken base counter =
     slugs_left taken base (Suc counter) + (if base @ ''-'' @ nat_str counter \<in> set taken then 1 else 0)"
proof -
  let ?s = "base @ ''-'' @ nat_str counter"
  let ?rest = "{x \<in> set taken. \<exists>i\<ge>Suc counter. x = base @ ''-'' @ nat_str i}"
  have "(\<exists>i\<ge>counter. P i) \<longleftrightarrow> P counter \<or> (\<exists>i\<ge>Suc counter. P i)" for P
    by (metis Suc_leD not_less_eq_eq order_antisym order_refl)
  then have "{x \<in> set taken. \<exists>i\<ge>counter. x = base @ ''-'' @ nat_str i} = ?rest \<union> (if ?s \<in> set taken then {?s} else {})"
    by auto
  moreover have "?s \<notin> ?rest" "finite ?rest"
    by simp_all
  ultimately show ?thesis
    unfolding slugs_left_def by simp
qed

lemma slugs_left_less:
  "slugs_left taken base (Suc counter) + (if base @ ''-'' @ nat_str counter \<in> set taken then 1 else 0) <
     Suc (slugs_left taken base counter)"
  by (subst slugs_left_Suc [of taken base counter]) simp

function free_slug :: "string list \<Rightarrow> string \<Rightarrow> string \<Rightarrow> nat \<Rightarrow> string" where
  "free_slug taken base slug counter =
     (if slug \<in> set taken then free_slug taken base (base @ ''-'' @ nat_str counter) (counter + 1) else slug)"
  by auto
termination
  by (relation "measure (\<lambda>(taken, base, slug, counter).
        slugs_left taken base counter + (if slug \<in> set taken then 1 else 0))")
    (use slugs_left_less in simp_all)

declare free_slug.simps [simp del]

record tenant_dto =
  td_title :: string
  td_ownerName :: string
  td_ownerSurname :: string
  td_phone :: string
  td_email :: string
  td_isActive :: "bool option"

definition tenant_phone :: "string \<Rightarrow> string" where
  "tenant_phone phone =
     (let rawPhone = filter (\<lambda>c. c \<in> set ''0123456789'') phone;
          cleanPhone = (if starts_with ''90'' rawPhone then drop 2 rawPhone else rawPhone)
      in ''+90'' @ cleanPhone)"

definition tenant_rows :: "ctx \<Rightarrow> tenant_dto \<Rightarrow> string \<Rightarrow> string \<Rightarrow> (tenant \<times> user) dbM" where
  "tenant_rows cx dto formattedPhone slug = transaction
     (bindM (fresh_id cx) (\<lambda>tid.
      thenM (unique_index tenants ''tenants_slug_key'' (\<lambda>t. t_slug t = slug))
      (bindM (create_row tenants tenants_update t_id
        \<lparr>t_id = tid, t_slug = slug, t_title = js_trim (td_title dto), t_phone = formattedPhone,
         t_email = to_lower (js_trim (td_email dto)), t_isActive = (case td_isActive dto of None \<Rightarrow> True | Some b \<Rightarrow> b),
         t_autoInvoiceOnComplete = False, t_activeLiftCount = 3, t_onboardingCompleted = False,
         t_b2bConsentAccepted = False, t_b2bConsentAcceptedAt = None, t_logoUrl = None\<rparr>) (\<lambda>tenant.
      bindM (fresh_id cx) (\<lambda>bid.
      thenM (unique_index branches ''branches_tenant_id_code_key'' (\<lambda>b. br_tenantId b = tid \<and> br_code b = ''MKZ''))
      (bindM (create_row branches branches_update br_id \<lparr>br_id = bid, br_tenantId = tid, br_code = ''MKZ''\<rparr>) (\<lambda>branch.
      bindM (fresh_id cx) (\<lambda>uid.
      thenM (unique_index users ''users_phone_key'' (\<lambda>u. u_phone u = formattedPhone))
      (bindM (create_row users users_update u_id
        \<lparr>u_id = uid, u_tenantId = Some tid, u_branchId = Some (br_id branch), u_name = js_trim (td_ownerName dto),
         u_surname = js_trim (td_ownerSurname dto), u_phone = formattedPhone, u_email = Some (to_lower (js_trim (td_email dto))),
         u_passwordHash = None, u_role = OWNER, u_isActive = True, u_annualLeaveDays = 14, u_transferredLeaveDays = 0\<rparr>) (\<lambda>owner.
      thenM (emit (AuditLog tid ''TENANT_CREATED'' ''Tenant'' tid))
      (ret (tenant, owner))))))))))))"

definition createTenant :: "ctx \<Rightarrow> tenant_dto \<Rightarrow> (tenant \<times> user) dbM" where
  "createTenant cx dto =
     (let formattedPhone = tenant_phone (td_phone dto) in
      bindM (find_first users (\<lambda>u. u_phone u = formattedPhone)) (\<lambda>existingUser.
      thenM (ensure (existingUser = None) (BadRequestException
        ''Bu telefon numarasi ile kayitli bir kullanici zaten mevcut.''))
      (bindM (reads (\<lambda>s. free_slug (map t_slug (tenants s)) (base_slug (now cx) (td_title dto))
          (base_slug (now cx) (td_title dto)) 1)) (\<lambda>slug.
       tenant_rows cx dto formattedPhone slug))))"

definition getTenantDetail :: "uuid \<Rightarrow> (tenant \<times> user list) dbM" where
  "getTenantDetail tenantId =
     bindM (find_first tenants (\<lambda>t. t_id t = tenantId)) (\<lambda>found.
     bindM (require (NotFoundException ''Servis kaydi bulunamadi.'') found) (\<lambda>tenant.
     bindM (find_many users (\<lambda>u. u_tenantId u = Some tenantId)) (\<lambda>accounts.
     ret (tenant, accounts))))"

definition updateTenantStatus :: "uuid \<Rightarrow> bool \<Rightarrow> tenant dbM" where
  "updateTenantStatus tenantId isActive =
     bindM (find_first tenants (\<lambda>t. t_id t = tenantId)) (\<lambda>found.
     bindM (require (NotFoundException ''Servis kaydi bulunamadi.'') found) (\<lambda>tenant.
     bindM (update_by tenants tenants_update t_id tenantId (\<lambda>t. t\<lparr>t_isActive := isActive\<rparr>)) (\<lambda>updated.
     thenM (emit (AuditLog tenantId (if isActive then ''TENANT_ACTIVATED'' else ''TENANT_SUSPENDED'') ''Tenant'' tenantId))
     (ret updated))))"

record tenant_patch =
  tq_title :: "string option"
  tq_phone :: "string option"
  tq_email :: "string option"

definition patched_tenant :: "tenant_patch \<Rightarrow> tenant \<Rightarrow> tenant" where
  "patched_tenant dto t = t\<lparr>
     t_title := (case tq_title dto of None \<Rightarrow> t_title t | Some x \<Rightarrow> js_trim x),
     t_phone := (case tq_phone dto of None \<Rightarrow> t_phone t | Some x \<Rightarrow> js_trim x),
     t_email := (case tq_email dto of None \<Rightarrow> t_email t | Some x \<Rightarrow> to_lower (js_trim x))\<rparr>"

definition updateTenant :: "uuid \<Rightarrow> tenant_patch \<Rightarrow> tenant dbM" where
  "updateTenant tenantId dto =
     bindM (find_first tenants (\<lambda>t. t_id t = tenantId)) (\<lambda>found.
     bindM (require (NotFoundException ''Servis kaydi bulunamadi.'') found) (\<lambda>tenant.
     bindM (update_by tenants tenants_update t_id tenantId (patched_tenant dto)) (\<lambda>updated.
     thenM (emit (AuditLog tenantId ''TENANT_UPDATED'' ''Tenant'' tenantId))
     (ret updated))))"

section \<open>Deleting a workshop\<close>

text \<open>
  The rows the cascades from \<open>tenants\<close> reach (\<open>prisma/migrations\<close>): those that name the workshop, and
  those that name a row that goes.
\<close>

definition user_goes :: "uuid \<Rightarrow> db \<Rightarrow> uuid \<Rightarrow> bool" where
  "user_goes t s k \<longleftrightarrow> list_ex (\<lambda>u. u_id u = k \<and> u_tenantId u = Some t) (users s)"

definition customer_goes :: "uuid \<Rightarrow> db \<Rightarrow> uuid \<Rightarrow> bool" where
  "customer_goes t s k \<longleftrightarrow> list_ex (\<lambda>c. c_id c = k \<and> c_tenantId c = t) (customers s)"

definition vehicle_goes :: "uuid \<Rightarrow> db \<Rightarrow> uuid \<Rightarrow> bool" where
  "vehicle_goes t s k \<longleftrightarrow> list_ex (\<lambda>v. v_id v = k \<and> (v_tenantId v = t \<or> customer_goes t s (v_customerId v))) (vehicles s)"

definition mechanic_goes :: "uuid \<Rightarrow> db \<Rightarrow> uuid \<Rightarrow> bool" where
  "mechanic_goes t s k \<longleftrightarrow> list_ex (\<lambda>m. m_id m = k \<and> (m_tenantId m = t \<or> user_goes t s (m_userId m))) (mechanics s)"

definition service_goes :: "uuid \<Rightarrow> db \<Rightarrow> uuid \<Rightarrow> bool" where
  "service_goes t s k \<longleftrightarrow> list_ex (\<lambda>v. sv_id v = k \<and> sv_tenantId v = t) (services s)"

definition appointment_stays :: "uuid \<Rightarrow> db \<Rightarrow> appointment \<Rightarrow> bool" where
  "appointment_stays t s a \<longleftrightarrow> a_tenantId a \<noteq> t \<and> \<not> customer_goes t s (a_customerId a) \<and> \<not> vehicle_goes t s (a_vehicleId a)"

definition order_goes :: "uuid \<Rightarrow> db \<Rightarrow> uuid \<Rightarrow> bool" where
  "order_goes t s k \<longleftrightarrow> list_ex (\<lambda>w. wo_id w = k \<and> wo_tenantId w = t) (work_orders s)"

definition product_goes :: "uuid \<Rightarrow> db \<Rightarrow> uuid \<Rightarrow> bool" where
  "product_goes t s k \<longleftrightarrow> list_ex (\<lambda>p. p_id p = k \<and> p_tenantId p = t) (products s)"

definition shelf_goes :: "uuid \<Rightarrow> db \<Rightarrow> uuid \<Rightarrow> bool" where
  "shelf_goes t s k \<longleftrightarrow> list_ex (\<lambda>h. sh_id h = k \<and> sh_tenantId h = t) (warehouse_shelves s)"

definition cell_goes :: "uuid \<Rightarrow> db \<Rightarrow> uuid \<Rightarrow> bool" where
  "cell_goes t s k \<longleftrightarrow> list_ex (\<lambda>c. sc_id c = k \<and> shelf_goes t s (sc_shelfId c)) (shelf_cells s)"

definition invoice_goes :: "uuid \<Rightarrow> db \<Rightarrow> uuid \<Rightarrow> bool" where
  "invoice_goes t s k \<longleftrightarrow> list_ex (\<lambda>i. i_id i = k \<and> i_tenantId i = t) (invoices s)"

definition account_goes :: "uuid \<Rightarrow> db \<Rightarrow> uuid \<Rightarrow> bool" where
  "account_goes t s k \<longleftrightarrow> list_ex (\<lambda>a. ca_id a = k \<and> ca_tenantId a = t) (current_accounts s)"

text \<open>
  \<open>ON DELETE RESTRICT\<close> is checked when the row goes, and the keys on \<open>tenants\<close> act in the order of
  their creation: users, customers and vehicles before orders, invoices, payments, accounts,
  contracts and payment attempts, so a row of these that names one of those stops the deletion.
\<close>

definition restricted :: "uuid \<Rightarrow> unit dbM" where
  "restricted t = bindM (reads id) (\<lambda>s.
     thenM (ensure (\<not> list_ex (\<lambda>c. user_goes t s (tc_signedByUserId c)) (tenant_consents s))
       (DbError (ForeignKeyViolation ''tenant_consents_signed_by_user_id_fkey'')))
     (thenM (ensure (\<not> list_ex (\<lambda>w. vehicle_goes t s (wo_vehicleId w)) (work_orders s))
       (DbError (ForeignKeyViolation ''work_orders_vehicle_id_fkey'')))
     (thenM (ensure (\<not> list_ex (\<lambda>w. customer_goes t s (wo_customerId w)) (work_orders s))
       (DbError (ForeignKeyViolation ''work_orders_customer_id_fkey'')))
     (thenM (ensure (\<not> list_ex (\<lambda>i. customer_goes t s (i_customerId i)) (invoices s))
       (DbError (ForeignKeyViolation ''invoices_customer_id_fkey'')))
     (thenM (ensure (\<not> list_ex (\<lambda>p. customer_goes t s (pay_customerId p)) (payments s))
       (DbError (ForeignKeyViolation ''payments_customer_id_fkey'')))
     (thenM (ensure (\<not> list_ex (\<lambda>a. customer_goes t s (ca_customerId a)) (current_accounts s))
       (DbError (ForeignKeyViolation ''current_accounts_customer_id_fkey'')))
     (ensure (\<not> list_ex (\<lambda>a. invoice_goes t s (pa_invoiceId a)) (payment_attempts s))
       (DbError (ForeignKeyViolation ''payment_attempts_invoice_id_fkey'')))))))))"

text \<open>\<open>ON DELETE SET NULL\<close>\<close>

definition unless_gone :: "(uuid \<Rightarrow> bool) \<Rightarrow> uuid option \<Rightarrow> uuid option" where
  "unless_gone goes k = (case k of None \<Rightarrow> None | Some x \<Rightarrow> if goes x then None else Some x)"

definition without_tenant :: "uuid \<Rightarrow> db \<Rightarrow> db" where
  "without_tenant t s = s\<lparr>
     tenants := filter (\<lambda>x. t_id x \<noteq> t) (tenants s),
     branches := filter (\<lambda>b. br_tenantId b \<noteq> t) (branches s),
     users := filter (\<lambda>u. u_tenantId u \<noteq> Some t) (users s),
     refresh_tokens := filter (\<lambda>r. \<not> user_goes t s (rt_userId r)) (refresh_tokens s),
     customers := filter (\<lambda>c. c_tenantId c \<noteq> t) (customers s),
     vehicles := filter (\<lambda>v. v_tenantId v \<noteq> t \<and> \<not> customer_goes t s (v_customerId v)) (vehicles s),
     services := filter (\<lambda>v. sv_tenantId v \<noteq> t) (services s),
     mechanics := filter (\<lambda>m. m_tenantId m \<noteq> t \<and> \<not> user_goes t s (m_userId m)) (mechanics s),
     staff_leaves := map (\<lambda>l. l\<lparr>l_approvedById := unless_gone (user_goes t s) (l_approvedById l)\<rparr>)
       (filter (\<lambda>l. l_tenantId l \<noteq> t \<and> \<not> user_goes t s (l_userId l)) (staff_leaves s)),
     appointments := map (\<lambda>a. a\<lparr>a_serviceId := unless_gone (service_goes t s) (a_serviceId a),
         a_assignedMechanicId := unless_gone (mechanic_goes t s) (a_assignedMechanicId a)\<rparr>)
       (filter (appointment_stays t s) (appointments s)),
     work_orders := map (\<lambda>w. w\<lparr>wo_appointmentId := unless_gone
           (\<lambda>k. list_ex (\<lambda>a. a_id a = k \<and> \<not> appointment_stays t s a) (appointments s)) (wo_appointmentId w),
         wo_assignedMechanicId := unless_gone (mechanic_goes t s) (wo_assignedMechanicId w)\<rparr>)
       (filter (\<lambda>w. wo_tenantId w \<noteq> t) (work_orders s)),
     work_order_items := filter (\<lambda>it. \<not> order_goes t s (woi_workOrderId it)) (work_order_items s),
     work_order_notes := filter (\<lambda>n. \<not> order_goes t s (n_workOrderId n)) (work_order_notes s),
     work_order_photos := filter (\<lambda>p. \<not> order_goes t s (ph_workOrderId p)) (work_order_photos s),
     warehouse_shelves := filter (\<lambda>h. sh_tenantId h \<noteq> t) (warehouse_shelves s),
     shelf_cells := filter (\<lambda>c. \<not> shelf_goes t s (sc_shelfId c)) (shelf_cells s),
     products := map (\<lambda>p. p\<lparr>p_shelfCellId := unless_gone (cell_goes t s) (p_shelfCellId p)\<rparr>)
       (filter (\<lambda>p. p_tenantId p \<noteq> t) (products s)),
     stock_movements := filter (\<lambda>m. sm_tenantId m \<noteq> t \<and> \<not> product_goes t s (sm_productId m)) (stock_movements s),
     invoices := map (\<lambda>i. i\<lparr>i_workOrderId := unless_gone (order_goes t s) (i_workOrderId i)\<rparr>)
       (filter (\<lambda>i. i_tenantId i \<noteq> t) (invoices s)),
     invoice_items := filter (\<lambda>it. \<not> invoice_goes t s (ii_invoiceId it)) (invoice_items s),
     payments := map (\<lambda>p. p\<lparr>pay_invoiceId := unless_gone (invoice_goes t s) (pay_invoiceId p)\<rparr>)
       (filter (\<lambda>p. pay_tenantId p \<noteq> t) (payments s)),
     payment_attempts := filter (\<lambda>a. pa_tenantId a \<noteq> t) (payment_attempts s),
     current_accounts := filter (\<lambda>a. ca_tenantId a \<noteq> t) (current_accounts s),
     cari_movements := filter (\<lambda>m. cm_tenantId m \<noteq> t \<and> \<not> account_goes t s (cm_currentAccountId m)) (cari_movements s),
     customer_consents := filter (\<lambda>c. cc_tenantId c \<noteq> t \<and> \<not> customer_goes t s (cc_customerId c)) (customer_consents s),
     customer_audits := filter (\<lambda>a. al_tenantId a \<noteq> t) (customer_audits s),
     workshop_bays := filter (\<lambda>b. b_tenantId b \<noteq> t) (workshop_bays s),
     tenant_consents := filter (\<lambda>c. tc_tenantId c \<noteq> t) (tenant_consents s),
     invoice_settings := filter (\<lambda>x. ts_tenantId x \<noteq> t) (invoice_settings s),
     notification_settings := filter (\<lambda>x. ns_tenantId x \<noteq> t) (notification_settings s),
     notifications := filter (\<lambda>n. nt_tenantId n \<noteq> Some t \<and>
       \<not> (case nt_userId n of None \<Rightarrow> False | Some k \<Rightarrow> user_goes t s k)) (notifications s)\<rparr>"

definition deleteTenant :: "uuid \<Rightarrow> unit dbM" where
  "deleteTenant tenantId =
     bindM (find_first tenants (\<lambda>t. t_id t = tenantId)) (\<lambda>tenant.
     thenM (ensure (tenant \<noteq> None) (NotFoundException ''Silinecek servis kaydi bulunamadi.''))
     (thenM (restricted tenantId) (modifyM (without_tenant tenantId))))"

section \<open>Administrators\<close>

definition admin_phone :: "string \<Rightarrow> string" where
  "admin_phone phone =
     (let digits = filter (\<lambda>c. c \<in> set ''0123456789'') phone in
      if length digits = 10 \<and> starts_with ''5'' digits then ''+90'' @ digits
      else if length digits = 11 \<and> starts_with ''05'' digits then ''+9'' @ digits
      else if length digits = 12 \<and> starts_with ''905'' digits then ''+'' @ digits
      else if starts_with ''+'' phone then phone else ''+'' @ phone)"

record admin_dto =
  ad_email :: string
  ad_password :: string
  ad_firstName :: string
  ad_surname :: "string option"
  ad_phone :: string

definition is_admin :: "user \<Rightarrow> bool" where
  "is_admin u \<longleftrightarrow> u_role u = SUPER_ADMIN"

definition findAll_admins :: "user list dbM" where
  "findAll_admins = bindM (find_many users is_admin) (\<lambda>rows. ret (rev rows))"

text \<open>The surname is optional in the request and required by the table.\<close>

definition create_admin :: "ctx \<Rightarrow> (string \<Rightarrow> string) \<Rightarrow> admin_dto \<Rightarrow> user dbM" where
  "create_admin cx hash dto =
     (let emailNormalized = to_lower (js_trim (ad_email dto));
          phoneNormalized = admin_phone (ad_phone dto)
      in bindM (find_first users (\<lambda>u. u_email u = Some emailNormalized)) (\<lambda>existingEmail.
      thenM (ensure (existingEmail = None) (ConflictException
        ''Bu e-posta adresiyle kayitli bir kullanici zaten mevcut.''))
      (bindM (find_first users (\<lambda>u. u_phone u = phoneNormalized)) (\<lambda>existingPhone.
      thenM (ensure (existingPhone = None) (ConflictException
        ''Bu telefon numarasiyla kayitli bir kullanici zaten mevcut.''))
      (bindM (require (DbError (MissingArgument ''surname''))
        (or_null (map_option js_trim (ad_surname dto)))) (\<lambda>surname.
      bindM (fresh_id cx) (\<lambda>uid.
      thenM (unique_index users ''users_phone_key'' (\<lambda>u. u_phone u = phoneNormalized))
      (bindM (create_row users users_update u_id
        \<lparr>u_id = uid, u_tenantId = None, u_branchId = None, u_name = js_trim (ad_firstName dto), u_surname = surname,
         u_phone = phoneNormalized, u_email = Some emailNormalized, u_passwordHash = Some (hash (ad_password dto)),
         u_role = SUPER_ADMIN, u_isActive = True, u_annualLeaveDays = 14, u_transferredLeaveDays = 0\<rparr>) (\<lambda>user.
      ret user)))))))))"

definition updateStatus_admin :: "uuid \<Rightarrow> bool \<Rightarrow> uuid option \<Rightarrow> user dbM" where
  "updateStatus_admin k isActive currentAdminId =
     bindM (find_first users (\<lambda>u. u_id u = k \<and> is_admin u)) (\<lambda>found.
     bindM (require (NotFoundException ''Yonetici bulunamadi.'') found) (\<lambda>target.
     thenM (ensure (\<not> (truthy currentAdminId \<and> Some (u_id target) = currentAdminId \<and> \<not> isActive)) (BadRequestException
       ''Kendi hesabinizi askiya alamazsiniz.''))
     (thenM (whenM (\<not> isActive)
       (bindM (find_many users (\<lambda>u. is_admin u \<and> u_isActive u)) (\<lambda>active.
        ensure (\<not> length active \<le> 1) (BadRequestException
          ''Sistemdeki son aktif Super Admin hesabi askiya alinamaz.''))))
     (update_by users users_update u_id k (\<lambda>u. u\<lparr>u_isActive := isActive\<rparr>)))))"

definition remove_admin :: "uuid \<Rightarrow> uuid option \<Rightarrow> unit dbM" where
  "remove_admin k currentAdminId =
     bindM (find_first users (\<lambda>u. u_id u = k \<and> is_admin u)) (\<lambda>found.
     bindM (require (NotFoundException ''Yonetici bulunamadi.'') found) (\<lambda>target.
     thenM (ensure (\<not> (truthy currentAdminId \<and> Some (u_id target) = currentAdminId)) (BadRequestException
       ''Kendi yonetici hesabinizi silemezsiniz.''))
     (bindM (find_many users is_admin) (\<lambda>admins.
     thenM (ensure (\<not> length admins \<le> 1) (BadRequestException
       ''Sistemdeki son Super Admin hesabi silinemez.''))
     (delete_user_row k)))))"

text \<open>Failed attempts write audit rows; the token names no workshop and no session.\<close>

definition admin_login :: "auth_env \<Rightarrow> (string \<Rightarrow> string \<Rightarrow> bool) \<Rightarrow> string \<Rightarrow> string \<Rightarrow> (string \<times> user) dbM" where
  "admin_login env compare email password =
     (let emailNormalized = to_lower (js_trim email) in
      bindM (find_first users (\<lambda>u. u_email u = Some emailNormalized \<and> u_isActive u)) (\<lambda>found.
      case (case found of None \<Rightarrow> None | Some u \<Rightarrow> if u_role u \<noteq> SUPER_ADMIN then None else Some u) of
        None \<Rightarrow> thenM (emit (AuditLog [] ''SECURITY_LOGIN_FAILED'' ''SecurityAuth'' ''unauthorized''))
          (throw (UnauthorizedException ''Gecersiz yonetici kimlik bilgileri veya yetkisiz hesap.''))
      | Some user \<Rightarrow>
          bindM (require (UnauthorizedException ''Bu hesap icin parola tanimlanmamistir.'') (or_null (u_passwordHash user))) (\<lambda>stored.
          if \<not> compare password stored
          then thenM (emit (AuditLog [] ''SECURITY_LOGIN_FAILED'' ''SecurityAuth'' (u_id user)))
            (throw (UnauthorizedException ''Girdiginiz sifre hatali.''))
          else
            let payload = \<lparr>cl_sub = u_id user, cl_phone = [], cl_email = u_email user, cl_role = u_role user,
                  cl_tenantId = None, cl_branchId = None, cl_name = u_name user, cl_tokenType = ''access'',
                  cl_familyId = None, cl_jti = None\<rparr>
            in thenM (emit (AuditLog [] ''SECURITY_LOGIN_SUCCESS'' ''SecurityAuth'' (u_id user)))
              (ret (en_sign env payload (en_now env) (12 * 3600), user)))))"

section \<open>The controller\<close>

datatype admin_request =
    OpenTenant tenant_dto
  | ViewTenant uuid
  | SwitchTenant uuid bool
  | EditTenant uuid tenant_patch
  | DropTenant uuid
  | ListAdmins
  | OpenAdmin admin_dto
  | SwitchAdmin uuid bool
  | RemoveAdmin uuid

fun admin_route :: "auth_env \<Rightarrow> (string \<Rightarrow> string) \<Rightarrow> uuid \<Rightarrow> admin_request \<Rightarrow> unit dbM" where
  "admin_route env hash me (OpenTenant dto) = ignore (createTenant (en_ctx env) dto)"
| "admin_route env hash me (ViewTenant t) = ignore (getTenantDetail t)"
| "admin_route env hash me (SwitchTenant t b) = ignore (updateTenantStatus t b)"
| "admin_route env hash me (EditTenant t dto) = ignore (updateTenant t dto)"
| "admin_route env hash me (DropTenant t) = deleteTenant t"
| "admin_route env hash me ListAdmins = ignore findAll_admins"
| "admin_route env hash me (OpenAdmin dto) = ignore (create_admin (en_ctx env) hash dto)"
| "admin_route env hash me (SwitchAdmin k b) = ignore (updateStatus_admin k b (Some me))"
| "admin_route env hash me (RemoveAdmin k) = remove_admin k (Some me)"

text \<open>A request with a token, at an instant.\<close>

definition handle_admin :: "auth_env \<Rightarrow> (string \<Rightarrow> string) \<Rightarrow> int \<times> string \<times> admin_request \<Rightarrow> unit dbM" where
  "handle_admin env hash q =
     (case q of (i, token, r) \<Rightarrow>
        bindM (authenticate (at_time env i) token) (\<lambda>me.
        thenM (roles_guard [SUPER_ADMIN] (id_role me)) (admin_route (at_time env i) hash (id_userId me) r)))"

end
