(* ===== verification/PlatformRules.thy ===== *)
theory PlatformRules
  imports Platform
begin

text \<open>
  What the control plane keeps: the search for a free slug ends and finds one, the platform never
  loses its last active administrator, a suspended workshop stays closed to every request of the
  login, and which spellings of a number the login recognises.
\<close>

section \<open>Slugs\<close>

lemma free_slug_free: "free_slug taken base slug counter \<notin> set taken"
  by (induction taken base slug counter rule: free_slug.induct) (subst free_slug.simps, simp)

lemma free_slug_range:
  "free_slug taken base slug counter = slug \<or>
     (\<exists>k. counter \<le> k \<and> k \<le> counter + slugs_left taken base counter \<and>
        free_slug taken base slug counter = base @ ''-'' @ nat_str k)"
proof (induction taken base slug counter rule: free_slug.induct)
  case (1 taken base slug counter)
  show ?case
  proof (cases "slug \<in> set taken")
    case False
    then show ?thesis
      by (subst (1) free_slug.simps) simp
  next
    case True
    let ?next = "base @ ''-'' @ nat_str counter"
    have step: "free_slug taken base slug counter = free_slug taken base ?next (Suc counter)"
      using True by (subst (1) free_slug.simps) simp
    have "slugs_left taken base (Suc counter) < slugs_left taken base counter" if "?next \<in> set taken"
      using slugs_left_less [of taken base counter] that by simp
    moreover have "free_slug taken base ?next (Suc counter) = ?next" if "?next \<notin> set taken"
      using that by (subst free_slug.simps) simp
    ultimately show ?thesis
      using 1 [OF True] unfolding step by fastforce
  qed
qed

text \<open>The search takes the first slug that is free.\<close>

lemma free_slug_first:
  "slug \<in> set taken \<Longrightarrow> \<exists>k\<ge>counter. free_slug taken base slug counter = base @ ''-'' @ nat_str k \<and>
     (\<forall>j\<in>{counter..<k}. base @ ''-'' @ nat_str j \<in> set taken)"
proof (induction taken base slug counter rule: free_slug.induct)
  case (1 taken base slug counter)
  let ?next = "base @ ''-'' @ nat_str counter"
  have step: "free_slug taken base slug counter = free_slug taken base ?next (Suc counter)"
    using 1(2) by (subst (1) free_slug.simps) simp
  show ?case
  proof (cases "?next \<in> set taken")
    case True
    from 1(1) [OF 1(2)] True obtain k where k: "Suc counter \<le> k"
        "free_slug taken base ?next (Suc counter) = base @ ''-'' @ nat_str k"
        "\<forall>j\<in>{Suc counter..<k}. base @ ''-'' @ nat_str j \<in> set taken"
      by auto
    have "\<forall>j\<in>{counter..<k}. base @ ''-'' @ nat_str j \<in> set taken"
      using k(3) True by (metis Suc_leI atLeastLessThan_iff le_neq_implies_less)
    with k(1,2) show ?thesis
      unfolding step by (intro exI [of _ k]) simp
  next
    case False
    then have "free_slug taken base ?next (Suc counter) = ?next"
      by (subst free_slug.simps) simp
    then show ?thesis
      unfolding step by (intro exI [of _ counter]) simp
  qed
qed

lemma free_slug_base: "slug \<notin> set taken \<Longrightarrow> free_slug taken base slug counter = slug"
  by (subst free_slug.simps) simp

lemma slugs_left_length: "slugs_left taken base counter \<le> length taken"
proof -
  have "slugs_left taken base counter \<le> card (set taken)"
    unfolding slugs_left_def by (rule card_mono) auto
  also have "\<dots> \<le> length taken"
    by (rule card_length)
  finally show ?thesis .
qed

lemma wp_createTenant:
  assumes "tenant_phone (td_phone dto) \<notin> u_phone ` set (users s)"
    and "gen_id cx (id_supply s) \<notin> t_id ` set (tenants s)"
    and "gen_id cx (id_supply s + 1) \<notin> br_id ` set (branches s)"
    and "gen_id cx (id_supply s) \<notin> br_tenantId ` set (branches s)"
    and "gen_id cx (id_supply s + 2) \<notin> u_id ` set (users s)"
  shows "wp (createTenant cx dto) (\<lambda>x s'. tenants s' = tenants s @ [fst x] \<and> users s' = users s @ [snd x] \<and>
      t_slug (fst x) = free_slug (map t_slug (tenants s)) (base_slug (now cx) (td_title dto)) (base_slug (now cx) (td_title dto)) 1 \<and>
      u_role (snd x) = OWNER \<and> u_tenantId (snd x) = Some (t_id (fst x)) \<and> u_phone (snd x) = tenant_phone (td_phone dto))
    (\<lambda>_ _. False) s"
proof -
  let ?slug = "free_slug (map t_slug (tenants s)) (base_slug (now cx) (td_title dto)) (base_slug (now cx) (td_title dto)) 1"
  have slug: "\<not> list_ex (\<lambda>t. t_slug t = ?slug) (tenants s)"
    unfolding list_ex_key using free_slug_free [of "map t_slug (tenants s)"] by simp
  have "find (\<lambda>u. u_phone u = tenant_phone (td_phone dto)) (users s) = None"
    unfolding find_None_iff using assms(1) by (metis image_eqI)
  moreover have "\<not> list_ex (\<lambda>u. u_phone u = tenant_phone (td_phone dto)) (users s)"
    "\<not> list_ex (\<lambda>b. br_tenantId b = gen_id cx (id_supply s) \<and> br_code b = ''MKZ'') (branches s)"
    unfolding list_ex_key using assms by (auto simp: list_ex_iff image_iff)
  ultimately show ?thesis
    using assms slug by (simp add: createTenant_def tenant_rows_def Let_def wp_simps)
qed

section \<open>Administrators\<close>

text \<open>Administrators belong to no workshop, and one of them is active.\<close>

definition admin_present :: "db \<Rightarrow> bool" where
  "admin_present s \<longleftrightarrow> list_ex (\<lambda>u. is_admin u \<and> u_isActive u) (users s) \<and>
     list_all (\<lambda>u. is_admin u \<longrightarrow> u_tenantId u = None) (users s)"

lemma admin_frames [simp]:
  "admin_present (tenants_update f s) = admin_present s" "admin_present (branches_update f' s) = admin_present s"
  "admin_present (outbox_update g s) = admin_present s" "admin_present (id_supply_update g' s) = admin_present s"
  "admin_present (mechanics_update h s) = admin_present s"
  "admin_present (forget_user k s) = admin_present s" "admin_present (release_mechanic mid s) = admin_present s"
  by (simp_all add: admin_present_def forget_user_def release_mechanic_def)

lemma wp_identity:
  "wp (authenticate env token) (\<lambda>me s'. s' = s \<and> id_userId me \<noteq> [] \<and>
      (id_role me = SUPER_ADMIN \<longrightarrow> (\<exists>u \<in> set (users s). u_id u = id_userId me \<and> is_admin u \<and> u_isActive u)))
    (\<lambda>_ s'. s' = s) s"
  unfolding authenticate_def validate_def validateAccessIdentity_def tenant_of_def
  by (auto simp: wp_simps is_admin_def dest!: find_SomeD split: option.splits if_splits)

text \<open>An active administrator who is not the one that is changed keeps the platform.\<close>

lemma present_keeps_me:
  assumes "me \<in> set (users s)" "is_admin me" "u_isActive me" "u_id me \<noteq> k" "admin_present s"
  shows "admin_present (s\<lparr>users := update_row u_id k (\<lambda>u. u\<lparr>u_isActive := b\<rparr>) (users s)\<rparr>) \<and>
    admin_present (s\<lparr>users := delete_row u_id k (users s)\<rparr>)"
  using assms by (auto simp: admin_present_def list_ex_iff list_all_iff update_row_def delete_row_def is_admin_def)

lemma present_switched_on:
  "admin_present s \<Longrightarrow> admin_present (s\<lparr>users := update_row u_id k (\<lambda>u. u\<lparr>u_isActive := True\<rparr>) (users s)\<rparr>)"
proof -
  assume present: "admin_present s"
  then obtain u where "u \<in> set (users s)" "is_admin u" "u_isActive u"
    by (auto simp: admin_present_def list_ex_iff)
  then have "\<exists>v \<in> set (update_row u_id k (\<lambda>u. u\<lparr>u_isActive := True\<rparr>) (users s)). is_admin v \<and> u_isActive v"
    by (intro bexI [of _ "if u_id u = k then u\<lparr>u_isActive := True\<rparr> else u"]) (auto simp: is_admin_def set_update_row)
  with present show ?thesis
    by (auto simp: admin_present_def list_ex_iff list_all_iff update_row_def is_admin_def)
qed

lemma keeps_present_small [keeps_intros]:
  "keeps admin_present (emit e)" "keeps admin_present (fresh_id cx)"
  by (simp_all add: keeps_def wp_simps)

lemma present_append:
  "admin_present s \<Longrightarrow> (is_admin u \<Longrightarrow> u_tenantId u = None) \<Longrightarrow> admin_present (s\<lparr>users := users s @ [u]\<rparr>)"
  by (simp add: admin_present_def)

lemma keeps_present_create:
  "(is_admin u \<Longrightarrow> u_tenantId u = None) \<Longrightarrow> keeps admin_present (create_row users users_update u_id u)"
  "keeps admin_present (update_by tenants tenants_update t_id k f)"
  by (auto simp: keeps_def wp_simps present_append split: option.split)

text \<open>The accounts that go with a workshop are no administrators.\<close>

lemma present_without_tenant: "admin_present s \<Longrightarrow> admin_present (without_tenant t s)"
  by (auto simp: admin_present_def without_tenant_def list_ex_iff list_all_iff)

lemma keeps_present_routes:
  "keeps admin_present (createTenant cx dto)" "keeps admin_present (getTenantDetail t)"
  "keeps admin_present (updateTenantStatus t b)" "keeps admin_present (updateTenant t patch)"
  "keeps admin_present (deleteTenant t)"
  "keeps admin_present findAll_admins" "keeps admin_present (create_admin cx hash ad)"
  unfolding createTenant_def tenant_rows_def getTenantDetail_def updateTenantStatus_def updateTenant_def findAll_admins_def
    create_admin_def deleteTenant_def restricted_def Let_def
  by (rule keeps_intros keeps_present_create keeps_frame admin_frames
    | simp add: keeps_def wp_simps is_admin_def present_without_tenant)+

lemma wp_delete_user_row:
  assumes "me \<in> set (users s)" "is_admin me" "u_isActive me" "u_id me \<noteq> k" "admin_present s"
  shows "wp (delete_user_row k) (\<lambda>_. admin_present) (\<lambda>_. admin_present) s"
proof -
  have present: "admin_present s'" if "users s' = users s" for s'
    using assms(5) that by (simp add: admin_present_def)
  have gone: "admin_present (s'\<lparr>users := delete_row u_id k (users s)\<rparr>)" if "users s' = users s" for s'
    using present_keeps_me [of me s' k] assms that present [OF that] by simp
  show ?thesis
    unfolding delete_user_row_def mechanic_of_def ignore_def
    by (auto simp: wp_simps release_mechanic_def forget_user_def intro!: present gone split: option.split)
qed

lemma admin_route_present:
  assumes "admin_present s" and me: "me \<in> set (users s)" "is_admin me" "u_isActive me" "u_id me \<noteq> []"
  shows "wp (admin_route env hash (u_id me) r) (\<lambda>_. admin_present) (\<lambda>_. admin_present) s"
proof (cases r)
  case (SwitchAdmin k b)
  have "admin_present (s\<lparr>users := update_row u_id k (\<lambda>u. u\<lparr>u_isActive := b\<rparr>) (users s)\<rparr>)" if "k \<noteq> u_id me \<or> b"
    using that present_keeps_me [OF me(1-3) _ assms(1), of k] present_switched_on [OF assms(1)] by (cases b) auto
  then show ?thesis
    using assms(1) me(4) by (auto simp: SwitchAdmin updateStatus_admin_def wp_ignore wp_simps truthy_def
      dest!: find_SomeD split: option.split)
next
  case (RemoveAdmin k)
  show ?thesis
  proof (cases "k = u_id me")
    case True
    then show ?thesis
      using assms(1) me(4) by (auto simp: RemoveAdmin remove_admin_def wp_simps truthy_def dest!: find_SomeD split: option.split)
  next
    case False
    then show ?thesis
      using assms(1) wp_delete_user_row [OF me(1-3) _ assms(1), of k]
      by (auto simp: RemoveAdmin remove_admin_def wp_simps split: option.split)
  qed
qed (use assms(1) keeps_present_routes in \<open>simp_all add: wp_ignore keeps_def\<close>)

lemma handle_admin_present:
  assumes "admin_present s"
  shows "wp (handle_admin env hash q) (\<lambda>_. admin_present) (\<lambda>_. admin_present) s"
proof -
  obtain i token r where q: "q = (i, token, r)"
    by (cases q)
  show ?thesis
    unfolding handle_admin_def q prod.case wp_bindM
  proof (rule wp_mono [OF wp_identity], goal_cases)
    case (1 me s')
    then have "wp (admin_route (at_time env i) hash (id_userId me) r) (\<lambda>_. admin_present) (\<lambda>_. admin_present) s"
      if "id_role me = SUPER_ADMIN"
      using that assms admin_route_present [of s] by metis
    with 1 show ?case
      using assms by (simp add: wp_thenM roles_guard_def wp_ensure)
  next
    case (2 e s')
    then show ?case
      using assms by simp
  qed
qed

interpretation administrators: closed_service "handle_admin env hash" "\<lambda>_ _. True" admin_present for env hash
  by unfold_locales (simp_all add: handle_admin_present)

text \<open>A workshop with books cannot be deleted.\<close>

lemma signed_tenant_stays:
  assumes "find (\<lambda>x. t_id x = t) (tenants s) = Some x"
    and "c \<in> set (tenant_consents s)" and "u \<in> set (users s)" and "u_id u = tc_signedByUserId c" and "u_tenantId u = Some t"
  shows "deleteTenant t s = (Inl (DbError (ForeignKeyViolation ''tenant_consents_signed_by_user_id_fkey'')), s)"
proof (rule fails_with)
  have "list_ex (\<lambda>c. user_goes t s (tc_signedByUserId c)) (tenant_consents s)"
    using assms(2-5) by (force simp: list_ex_iff user_goes_def)
  then show "wp (deleteTenant t) (\<lambda>_ _. False)
      (\<lambda>x s'. x = DbError (ForeignKeyViolation ''tenant_consents_signed_by_user_id_fkey'') \<and> s' = s) s"
    by (simp add: deleteTenant_def restricted_def wp_simps assms(1))
qed

section \<open>Spellings of a number\<close>

text \<open>The digits of a text, and the three ways to type a mobile number with subscriber digits \<open>5d\<close>.\<close>

definition typed_digits :: "string \<Rightarrow> string" where
  "typed_digits phone = filter (\<lambda>c. c \<in> set ''0123456789'') phone"

definition mobile :: "string \<Rightarrow> string \<Rightarrow> bool" where
  "mobile d phone \<longleftrightarrow> length d = 9 \<and>
     (typed_digits phone = ''5'' @ d \<or> typed_digits phone = ''05'' @ d \<or> typed_digits phone = ''905'' @ d)"

lemma mobile_normal: "mobile d phone \<Longrightarrow> normalizePhone phone = ''905'' @ d"
  unfolding mobile_def normalizePhone_def typed_digits_def [symmetric] by (auto simp: Let_def)

lemma mobile_stored:
  "mobile d phone \<Longrightarrow> staff_normalizePhone phone = ''+905'' @ d"
  "mobile d phone \<Longrightarrow> admin_phone phone = ''+905'' @ d"
  "mobile d phone \<Longrightarrow> tenant_phone phone = (if typed_digits phone = ''05'' @ d then ''+9005'' @ d else ''+905'' @ d)"
  unfolding mobile_def staff_normalizePhone_def admin_phone_def tenant_phone_def typed_digits_def [symmetric] starts_with_def
  by (auto simp: Let_def)

lemma mobile_spellings:
  assumes "length d = 9"
  shows "''905'' @ d \<in> set (spellings (''905'' @ d))" "''+905'' @ d \<in> set (spellings (''905'' @ d))"
    "''+9005'' @ d \<notin> set (spellings (''905'' @ d))"
proof -
  show "''905'' @ d \<in> set (spellings (''905'' @ d))" "''+905'' @ d \<in> set (spellings (''905'' @ d))"
    by (simp_all add: spellings_def Let_def)
  have "length x \<le> 13" if "x \<in> set (spellings (''905'' @ d))" for x
    using that assms by (auto simp: spellings_def Let_def last10_def slice_def)
  then show "''+9005'' @ d \<notin> set (spellings (''905'' @ d))"
    using assms by fastforce
qed

section \<open>Suspended workshops\<close>

definition closed_shop :: "(nat \<Rightarrow> uuid) \<Rightarrow> uuid \<Rightarrow> db \<Rightarrow> bool" where
  "closed_shop gen t s \<longleftrightarrow> list_all (\<lambda>x. t_id x = t \<longrightarrow> \<not> t_isActive x) (tenants s) \<and> (\<forall>n\<ge>id_supply s. gen n \<noteq> t)"

lemma closed_frames [simp]:
  "closed_shop gen t (users_update f s) = closed_shop gen t s" "closed_shop gen t (redis_update f' s) = closed_shop gen t s"
  "closed_shop gen t (outbox_update g s) = closed_shop gen t s" "closed_shop gen t (refresh_tokens_update g' s) = closed_shop gen t s"
  by (simp_all add: closed_shop_def)

lemma keeps_closed_small [keeps_intros]:
  "keeps (closed_shop gen t) (redis_get env key)" "keeps (closed_shop gen t) (redis_set env key v ttl)"
  "keeps (closed_shop gen t) (redis_del env key)" "keeps (closed_shop gen t) (redis_count env key)"
  "keeps (closed_shop gen t) (emit e)" "keeps (closed_shop gen t) (fresh_id cx)" "keeps (closed_shop gen t) (draw_code env)"
  "keeps (closed_shop gen t) (tenant_of u)" "keeps (closed_shop gen t) (user_by_phone p)"
  "keeps (closed_shop gen t) (find_token env tok)" "keeps (closed_shop gen t) (revoke_family fam)"
  by (auto simp: keeps_def wp_simps auth_steps closed_shop_def split: option.split)

lemma keeps_closed_tokens [keeps_intros]: "keeps (closed_shop gen t) (generateTokens env u t' fam)"
  unfolding generateTokens_def Let_def by (rule keeps_intros keeps_frame closed_frames)+

lemma keeps_closed_sessions:
  "keeps (closed_shop gen t) (refreshToken env tok)" "keeps (closed_shop gen t) (revokeRefreshToken env tok')"
  unfolding refreshToken_def claim_token_def revokeRefreshToken_def
  by (rule keeps_intros keeps_frame closed_frames | simp split: prod.split | rule allI impI)+

lemma closed_rows:
  "gen = gen_id (en_ctx env) \<Longrightarrow> keeps (closed_shop gen t) (register_rows env dto p)"
  by (auto simp: keeps_def register_rows_def wp_simps closed_shop_def split: option.split)

lemma closed_register: "gen = gen_id (en_ctx env) \<Longrightarrow> keeps (closed_shop gen t) (registerTenant env dto)"
  unfolding registerTenant_def by (rule keeps_intros closed_rows | assumption | simp split: prod.split | rule allI impI)+

interpretation closed_shops: auth_keeper "closed_shop (gen_id (en_ctx env)) t" env for env t
  by unfold_locales (simp_all add: keeps_closed_small keeps_closed_tokens closed_register keeps_closed_sessions)

lemma closed_find: "closed_shop gen t s \<Longrightarrow> find (\<lambda>x. t_id x = t) (tenants s) = Some x \<Longrightarrow> \<not> t_isActive x"
  using find_SomeD [of "\<lambda>x. t_id x = t" "tenants s" x] by (auto simp: closed_shop_def list_all_iff)

lemma wp_authenticate_closed:
  assumes s: "closed_shop gen t s" and "en_verify env (en_now env) tok = Some c" and "cl_tenantId c = Some t" and "t \<noteq> []"
  shows "wp (authenticate env tok) (\<lambda>_ _. False) (\<lambda>_ s'. s' = s) s"
proof -
  have "wp (validateAccessIdentity env c) (\<lambda>_ _. False) (\<lambda>_ s'. s' = s) s"
    using assms(3,4) closed_find [OF s]
    by (auto simp: validateAccessIdentity_def tenant_of_def wp_simps or_null_def truthy_def split: option.splits if_splits)
  then show ?thesis
    unfolding authenticate_def validate_def wp_bindM wp_require assms(2) option.case wp_funs
    by (rule wp_mono) simp_all
qed

lemma wp_suspend:
  assumes "\<forall>n\<ge>id_supply s. gen n \<noteq> t"
  shows "wp (updateTenantStatus t False) (\<lambda>_. closed_shop gen t) (\<lambda>_ _. True) s"
proof -
  have "closed_shop gen t (s\<lparr>tenants := update_row t_id t (\<lambda>x. x\<lparr>t_isActive := False\<rparr>) (tenants s)\<rparr>)"
    unfolding closed_shop_def
  proof (rule conjI)
    show "list_all (\<lambda>x. t_id x = t \<longrightarrow> \<not> t_isActive x)
        (tenants (s\<lparr>tenants := update_row t_id t (\<lambda>x. x\<lparr>t_isActive := False\<rparr>) (tenants s)\<rparr>))"
      by (simp add: list_all_update_row) (simp add: list_all_iff)
  qed (use assms in simp)
  then show ?thesis
    by (simp add: updateTenantStatus_def wp_simps split: option.split)
qed

end
