(* ===== verification/Payments.thy ===== *)
theory Payments
  imports Invoices
begin

text \<open>
  \<open>modules/payments\<close>: collecting a payment (\<open>PaymentsService.create\<close>), the daily cash
  report, and online payments through PayTR (token, signed webhook). The HMAC, the basket
  encoding and the token request are functions of the environment (record \<open>paytr\<close>). The
  audit entry of a payment is written over a connection of its own; here it is part of the
  outbox, so when the step after it (marking the attempt) fails, it goes with the transaction.
\<close>

section \<open>PaymentsService.create\<close>

record payment_dto =
  pd_invoiceId :: "uuid option"
  pd_customerId :: "uuid option"
  pd_amount :: number
  pd_paymentMethod :: "PaymentMethod option"
  pd_method :: "PaymentMethod option"
  pd_posSlipNo :: "string option"
  pd_notes :: "string option"

definition valid_amount :: "number \<Rightarrow> bool" where
  "valid_amount amount \<longleftrightarrow> amount > 0 \<and>
     \<not> \<bar>fsub (fmul amount 100) (of_int (math_round (fmul amount 100)))\<bar> > fl (1 / 1000000)"

definition method_of :: "payment_dto \<Rightarrow> PaymentMethod" where
  "method_of dto = (case pd_paymentMethod dto of Some m \<Rightarrow> m
     | None \<Rightarrow> (case pd_method dto of Some m \<Rightarrow> m | None \<Rightarrow> CASH))"

definition find_gateway_payment :: "uuid \<Rightarrow> string \<Rightarrow> payment option dbM" where
  "find_gateway_payment tenantId attemptId =
     find_first payments (\<lambda>p. pay_tenantId p = tenantId \<and> pay_gatewayProvider p = Some ''PAYTR'' \<and>
       pay_transactionId p = Some attemptId)"

text \<open>The checks of a payment for an invoice; the result is the customer who pays.\<close>

definition check_invoice :: "uuid \<Rightarrow> payment_dto \<Rightarrow> uuid \<Rightarrow> uuid option dbM" where
  "check_invoice tenantId dto invoiceId =
     bindM (find_invoice tenantId invoiceId) (\<lambda>found.
     bindM (require (BadRequestException
       ''Belirtilen fatura bulunamadi veya bu isletmeye ait degil.'') found) (\<lambda>i.
     thenM (ensure (i_status i \<noteq> I_CANCELLED) (BadRequestException
       ''Iptal edilmis bir faturaya tahsilat eklenemez.''))
     (thenM (ensure (\<not> (i_status i = PAID \<or> num_of_cents (i_remainingAmount i) \<le> 0))
       (BadRequestException ''Bu faturanin odemesi zaten tamamlanmistir.''))
     (thenM (ensure (\<not> pd_amount dto > num_of_cents (i_remainingAmount i)) (BadRequestException
       ''Tahsilat tutari, faturanin kalan acik bakiyesinden fazla olamaz.''))
     (case or_null (pd_customerId dto) of
        None \<Rightarrow> ret (Some (i_customerId i))
      | Some c \<Rightarrow> thenM (ensure (c = i_customerId i) (BadRequestException
          ''Faturanin ait oldugu musteri ile odeme yapilan musteri uyusmuyor.''))
          (ret (Some c)))))))"

definition recheck_invoice :: "uuid \<Rightarrow> number \<Rightarrow> uuid \<Rightarrow> unit dbM" where
  "recheck_invoice tenantId amount invoiceId =
     bindM (find_invoice tenantId invoiceId) (\<lambda>found.
       ensure (case found of None \<Rightarrow> False
          | Some i \<Rightarrow> i_status i \<noteq> I_CANCELLED \<and> \<not> amount > num_of_cents (i_remainingAmount i))
         (BadRequestException ''Fatura bakiyesi degisti. Lutfen guncel bakiyeyi kontrol ediniz.''))"

definition paid_invoice :: "ctx \<Rightarrow> number \<Rightarrow> invoice \<Rightarrow> invoice \<Rightarrow> invoice" where
  "paid_invoice cx amount current i =
     (let newPaid = fdiv (of_int (math_round (fmul (fadd (num_of_cents (i_paidAmount current)) amount) 100))) 100;
          newRemaining = fsub (num_of_cents (i_grandTotal current)) newPaid
      in i\<lparr>i_paidAmount := dec2 cx newPaid, i_remainingAmount := dec2 cx (max 0 newRemaining),
           i_status := (if newRemaining \<le> 0 then PAID else PARTIALLY_PAID)\<rparr>)"

definition apply_to_invoice :: "ctx \<Rightarrow> uuid \<Rightarrow> number \<Rightarrow> uuid \<Rightarrow> unit dbM" where
  "apply_to_invoice cx tenantId amount invoiceId =
     bindM (find_invoice tenantId invoiceId) (\<lambda>found.
       case found of
         None \<Rightarrow> ret ()
       | Some i \<Rightarrow> thenM (update_invoice invoiceId (paid_invoice cx amount i)) (ret ()))"

definition method_name :: "PaymentMethod \<Rightarrow> string" where
  "method_name m = (case m of ADVANCE_OFFSET \<Rightarrow> ''ADVANCE_OFFSET'' | CASH \<Rightarrow> ''CASH'' | POS \<Rightarrow> ''POS''
     | BANK_TRANSFER \<Rightarrow> ''BANK_TRANSFER'' | ONLINE \<Rightarrow> ''ONLINE'')"

definition post_credit ::
  "ctx \<Rightarrow> uuid \<Rightarrow> current_account \<Rightarrow> cents \<Rightarrow> PaymentMethod \<Rightarrow> uuid \<Rightarrow> unit dbM" where
  "post_credit cx tenantId account amount paymentMethod paymentId =
     bindM (update_account (ca_id account) (\<lambda>a. a\<lparr>ca_totalCredits := ca_totalCredits a + amount,
         ca_balance := ca_balance a - amount\<rparr>)) (\<lambda>updatedCA.
     thenM (add_row cari_movements_update
       \<lparr>cm_tenantId = tenantId, cm_currentAccountId = ca_id account,
        cm_description = ''Tahsilat Alindi ('' @ method_name paymentMethod @ '')'',
        cm_referenceType = CARI_PAYMENT, cm_referenceNo = Some (take 8 paymentId),
        cm_debit = 0, cm_credit = amount, cm_balanceAfter = ca_balance updatedCA\<rparr>)
     (ret ()))"

definition insert_payment :: "payment \<Rightarrow> payment dbM" where
  "insert_payment p =
     thenM (unique_index payments ''payments_tenant_id_gateway_provider_transaction_id_key''
       (\<lambda>x. pay_gatewayProvider p \<noteq> None \<and> pay_transactionId p \<noteq> None \<and>
          pay_tenantId x = pay_tenantId p \<and> pay_gatewayProvider x = pay_gatewayProvider p \<and>
          pay_transactionId x = pay_transactionId p))
     (create_row payments payments_update pay_id p)"

definition new_payment ::
  "ctx \<Rightarrow> uuid \<Rightarrow> uuid \<Rightarrow> uuid \<Rightarrow> payment_dto \<Rightarrow> string \<Rightarrow> string option \<Rightarrow> payment" where
  "new_payment cx ident tenantId customerId dto cashierName attemptId =
     \<lparr>pay_id = ident, pay_tenantId = tenantId, pay_invoiceId = pd_invoiceId dto,
      pay_customerId = customerId, pay_amount = dec2 cx (pd_amount dto),
      pay_paymentMethod = method_of dto, pay_paymentDate = now cx, pay_cashierName = cashierName,
      pay_posSlipNo = pd_posSlipNo dto, pay_notes = pd_notes dto,
      pay_gatewayProvider = (if attemptId \<noteq> None then Some ''PAYTR'' else None),
      pay_transactionId = attemptId\<rparr>"

text \<open>The body of the transaction: an earlier payment of the attempt, or else a new one.\<close>

definition record_payment ::
  "ctx \<Rightarrow> uuid \<Rightarrow> uuid \<Rightarrow> payment_dto \<Rightarrow> string \<Rightarrow> string option \<Rightarrow> payment dbM" where
  "record_payment cx tenantId customerId dto cashierName attemptId =
     bindM (case attemptId of None \<Rightarrow> ret None | Some a \<Rightarrow> find_gateway_payment tenantId a) (\<lambda>existing.
     case existing of
       Some p \<Rightarrow> ret p
     | None \<Rightarrow>
        thenM (case or_null (pd_invoiceId dto) of None \<Rightarrow> ret ()
          | Some i \<Rightarrow> recheck_invoice tenantId (pd_amount dto) i)
        (bindM (fresh_id cx) (\<lambda>ident.
        bindM (insert_payment (new_payment cx ident tenantId customerId dto cashierName attemptId))
          (\<lambda>payment.
        thenM (case or_null (pd_invoiceId dto) of None \<Rightarrow> ret ()
          | Some i \<Rightarrow> apply_to_invoice cx tenantId (pd_amount dto) i)
        (bindM (open_account cx tenantId customerId) (\<lambda>account.
        thenM (post_credit cx tenantId account (dec2 cx (pd_amount dto)) (method_of dto) (pay_id payment))
        (thenM (emit (AuditLog tenantId ''payment.created'' ''Payment'' (pay_id payment)))
        (thenM (case attemptId of None \<Rightarrow> ret ()
          | Some a \<Rightarrow> thenM (update_by payment_attempts payment_attempts_update pa_id a
              (\<lambda>r. r\<lparr>pa_status := ''PAID''\<rparr>)) (ret ()))
        (ret payment)))))))))"

definition createPayment ::
  "ctx \<Rightarrow> uuid \<Rightarrow> payment_dto \<Rightarrow> string \<Rightarrow> string option \<Rightarrow> payment dbM" where
  "createPayment cx tenantId dto cashierName attemptId0 =
     (let attemptId = or_null attemptId0 in
      thenM (ensure (valid_amount (pd_amount dto)) (BadRequestException
        ''Tahsilat tutari 0 dan buyuk bir deger olmalidir.''))
      (bindM (case attemptId of None \<Rightarrow> ret None | Some a \<Rightarrow> find_gateway_payment tenantId a) (\<lambda>existing.
      case existing of
        Some p \<Rightarrow> ret p
      | None \<Rightarrow>
          bindM (case or_null (pd_invoiceId dto) of
              None \<Rightarrow> ret (or_null (pd_customerId dto))
            | Some i \<Rightarrow> check_invoice tenantId dto i) (\<lambda>payer.
          bindM (require (BadRequestException ''Musteri ID (customerId) belirtilmelidir.'') payer)
            (\<lambda>customerId.
          thenM (ensure (truthy (pd_invoiceId dto) \<or>
              length (js_trim (or_else (pd_posSlipNo dto) (or_else (pd_notes dto) []))) \<ge> 3)
            (BadRequestException
              ''Faturasiz tahsilatlarda dekont/fis no veya aciklama girilmesi zorunludur.''))
          (bindM (find_first customers (\<lambda>c. c_id c = customerId \<and> c_tenantId c = tenantId \<and>
              c_deletedAt c = None)) (\<lambda>customer.
          thenM (ensure (customer \<noteq> None) (BadRequestException
            ''Belirtilen musteri bulunamadi veya bu isletmeye ait degil.''))
          (bindM (transaction (record_payment cx tenantId customerId dto cashierName attemptId))
            (\<lambda>createdPayment.
          thenM (emit (WsEmit tenantId ''payment:received'' (pay_id createdPayment)))
          (thenM (emit (Notify tenantId ''FINANCE'' ''Yeni Tahsilat Alindi''))
          (thenM (emit (Notify tenantId ''FINANCE'' ''Odemeniz Alindi (Makbuz)''))
          (ret createdPayment))))))))))))"

section \<open>The lists and the daily cash report\<close>

definition findAll_Payment :: "uuid \<Rightarrow> int option \<Rightarrow> int option \<Rightarrow> payment page_result dbM" where
  "findAll_Payment tenantId page limit =
     (let isExplicitPagination = (page \<noteq> None \<or> limit \<noteq> None);
          safeLimit = clamp_limit limit;
          safePage = clamp_page page;
          skip = (safePage - 1) * safeLimit
      in bindM (find_many payments (\<lambda>p. pay_tenantId p = tenantId)) (\<lambda>rows.
         let items = take (nat safeLimit) (drop (nat (if isExplicitPagination then skip else 0))
               (sort_key (\<lambda>p. - pay_paymentDate p) rows));
             total = length rows
         in ret \<lparr>pr_data = items, pr_meta = (if isExplicitPagination
              then Some (total, safePage, safeLimit, - ((- int total) div safeLimit)) else None)\<rparr>))"

record cash_report =
  rep_totalCash :: number
  rep_totalPos :: number
  rep_totalTransfer :: number
  rep_totalOnline :: number
  rep_grandTotal :: number
  rep_transactionCount :: nat
  rep_payments :: "payment list"

definition method_total :: "PaymentMethod \<Rightarrow> payment list \<Rightarrow> number" where
  "method_total m ps = foldl (\<lambda>acc p. if pay_paymentMethod p = m
     then fadd acc (num_of_cents (pay_amount p)) else acc) 0 ps"

text \<open>\<open>startOfDay\<close> is local midnight of the requested date; the day ends 1 ms before the next.\<close>

definition getDailySummary :: "uuid \<Rightarrow> int \<Rightarrow> cash_report dbM" where
  "getDailySummary tenantId startOfDay =
     bindM (find_many payments (\<lambda>p. pay_tenantId p = tenantId \<and> startOfDay \<le> pay_paymentDate p \<and>
         pay_paymentDate p \<le> startOfDay + 86399999 \<and> pay_paymentMethod p \<noteq> ADVANCE_OFFSET)) (\<lambda>found.
     let ps = sort_key (\<lambda>p. - pay_paymentDate p) found;
         totalCash = method_total CASH ps;
         totalPos = method_total POS ps;
         totalTransfer = method_total BANK_TRANSFER ps;
         totalOnline = method_total ONLINE ps
     in ret \<lparr>rep_totalCash = totalCash, rep_totalPos = totalPos, rep_totalTransfer = totalTransfer,
          rep_totalOnline = totalOnline,
          rep_grandTotal = fadd (fadd (fadd totalCash totalPos) totalTransfer) totalOnline,
          rep_transactionCount = length ps, rep_payments = ps\<rparr>)"

section \<open>PayTR (paytr.service.ts)\<close>

record paytr_request =
  pt_merchantOid :: string
  pt_email :: string
  pt_paymentAmount :: number
  pt_userName :: string
  pt_userAddress :: "string option"
  pt_userPhone :: string
  pt_userIp :: string
  pt_basket :: "string \<times> string"  \<comment> \<open>name and price of the one line\<close>
  pt_returnUrl :: "string option"

text \<open>
  The environment: configuration, HMAC-SHA256 in base64 of a key and a message, the base64
  of the JSON basket, and the answer of the token service to (hash, amount).
\<close>

record paytr =
  merchantId :: string
  merchantKey :: string
  merchantSalt :: string
  isTestMode :: bool
  hmac :: "string \<Rightarrow> string \<Rightarrow> string"
  basket64 :: "string \<times> string \<Rightarrow> string"
  get_token :: "string \<Rightarrow> int \<Rightarrow> string option"

definition createIframeToken :: "paytr \<Rightarrow> paytr_request \<Rightarrow> exn + string" where
  "createIframeToken pt req =
     (if merchantId pt = [] \<or> merchantKey pt = [] \<or> merchantSalt pt = []
      then Inl (DomainError ''PayTR is not configured.'')
      else if \<not> truthy (pt_userAddress req) \<or> \<not> truthy (pt_returnUrl req)
      then Inl (DomainError ''Payment address and return URLs are required.'')
      else
        let kurusAmount = math_round (fmul (pt_paymentAmount req) 100);
            hashStr = merchantId pt @ pt_userIp req @ pt_merchantOid req @ pt_email req @
              int_str kurusAmount @ basket64 pt (pt_basket req) @ ''1'' @ ''0'' @ ''TL'' @
              (if isTestMode pt then ''1'' else ''0'');
            paytrToken = hmac pt (merchantKey pt) (hashStr @ merchantSalt pt)
        in case get_token pt paytrToken kurusAmount of
             None \<Rightarrow> Inl (DomainError ''PayTR could not create a payment session.'')
           | Some token \<Rightarrow> Inr token)"

record webhook_payload =
  wh_merchant_oid :: string
  wh_status :: string
  wh_total_amount :: string
  wh_hash :: string

definition is_digit :: "char \<Rightarrow> bool" where
  "is_digit c \<longleftrightarrow> c \<in> set ''0123456789''"

definition verifyWebhook :: "paytr \<Rightarrow> webhook_payload \<Rightarrow> bool" where
  "verifyWebhook pt payload \<longleftrightarrow>
     wh_merchant_oid payload \<noteq> [] \<and> wh_status payload \<noteq> [] \<and> wh_total_amount payload \<noteq> [] \<and>
     wh_hash payload \<noteq> [] \<and> merchantKey pt \<noteq> [] \<and> merchantSalt pt \<noteq> [] \<and>
     wh_status payload \<in> {''success'', ''failed''} \<and> list_all is_digit (wh_total_amount payload) \<and>
     wh_hash payload = hmac pt (merchantKey pt)
       (wh_merchant_oid payload @ merchantSalt pt @ wh_status payload @ wh_total_amount payload)"

text \<open>A decimal with two digits, as \<open>toFixed(2)\<close> prints it.\<close>

definition cents_str :: "int \<Rightarrow> string" where
  "cents_str c = (if c < 0 then ''-'' else []) @ nat_str (nat (\<bar>c\<bar> div 100)) @ ''.'' @
     pad_start 2 (nat_str (nat (\<bar>c\<bar> mod 100)))"

definition createPayTrPaymentToken ::
  "ctx \<Rightarrow> paytr \<Rightarrow> string \<Rightarrow> uuid \<Rightarrow> string \<Rightarrow> (number \<times> string) dbM" where
  "createPayTrPaymentToken cx pt baseUrl invoiceId clientIp =
     bindM (find_first invoices (\<lambda>i. i_id i = invoiceId)) (\<lambda>found.
     bindM (require (BadRequestException ''Fatura bulunamadi.'') found) (\<lambda>i.
     thenM (ensure (i_status i \<noteq> I_CANCELLED \<and> i_status i \<noteq> PAID)
       (BadRequestException ''Bu fatura zaten tamamen odenmistir.''))
     (let remainingAmount = fsub (num_of_cents (i_grandTotal i)) (num_of_cents (i_paidAmount i)) in
      thenM (ensure (\<not> remainingAmount \<le> 0) (BadRequestException ''Odenecek kalan bakiye bulunmuyor.''))
      (bindM (find_first customers (\<lambda>c. c_id c = i_customerId i)) (\<lambda>foundCustomer.
      bindM (require (BadRequestException
        ''Online odeme icin musteri e-posta, telefon ve adres bilgileri gereklidir.'') foundCustomer)
        (\<lambda>c.
      thenM (ensure (truthy (c_email c) \<and> c_phone c \<noteq> [] \<and> truthy (c_address c)) (BadRequestException
        ''Online odeme icin musteri e-posta, telefon ve adres bilgileri gereklidir.''))
      (bindM (fresh_id cx) (\<lambda>raw.
      bindM (create_row payment_attempts payment_attempts_update pa_id
        \<lparr>pa_id = filter (\<lambda>ch. ch \<noteq> CHR ''-'') raw, pa_tenantId = i_tenantId i, pa_invoiceId = i_id i,
         pa_amount = dec2 cx remainingAmount, pa_status = ''PENDING''\<rparr>) (\<lambda>attempt.
      bindM (lift_sum (createIframeToken pt
        \<lparr>pt_merchantOid = pa_id attempt, pt_email = the (c_email c), pt_paymentAmount = remainingAmount,
         pt_userName = or_else (Some (js_trim (c_firstName c @ '' '' @ c_lastName c)))
           ''Degerli Musterimiz'',
         pt_userAddress = c_address c, pt_userPhone = c_phone c,
         pt_userIp = or_else (Some clientIp) ''127.0.0.1'',
         pt_basket = (''Fatura kalan bakiyesi ('' @ i_invoiceNumber i @ '')'',
           cents_str (to_fixed2 remainingAmount)),
         pt_returnUrl = Some (baseUrl @ ''/pay/'' @ i_id i)\<rparr>)) (\<lambda>token.
      ret (remainingAmount, token)))))))))))"

definition handlePayTrWebhook :: "ctx \<Rightarrow> paytr \<Rightarrow> webhook_payload \<Rightarrow> string dbM" where
  "handlePayTrWebhook cx pt payload =
     thenM (ensure (verifyWebhook pt payload) (BadRequestException ''PAYTR_SIGNATURE_INVALID''))
     (bindM (find_first payment_attempts (\<lambda>a. pa_id a = wh_merchant_oid payload)) (\<lambda>foundAttempt.
     bindM (require (BadRequestException ''Unknown payment attempt.'') foundAttempt) (\<lambda>attempt.
     if pa_status attempt = ''PAID'' then ret ''OK''
     else
       bindM (find_first invoices (\<lambda>i. i_id i = pa_invoiceId attempt)) (\<lambda>foundInvoice.
       bindM (require (BadRequestException ''Payment invoice was not found.'') foundInvoice) (\<lambda>i.
       thenM (ensure (\<not> (wh_status payload = ''success'' \<and> i_status i = PAID))
         (BadRequestException ''PAYMENT_RECONCILIATION_REQUIRED''))
       (if wh_status payload = ''success'' then
          let paidTl = fdiv (fl (of_nat (digits_value (wh_total_amount payload)))) 100 in
          thenM (ensure (paidTl = num_of_cents (pa_amount attempt))
            (BadRequestException ''PAYMENT_AMOUNT_MISMATCH''))
          (thenM (createPayment cx (i_tenantId i)
             \<lparr>pd_invoiceId = Some (i_id i), pd_customerId = Some (i_customerId i), pd_amount = paidTl,
              pd_paymentMethod = Some ONLINE, pd_method = None, pd_posSlipNo = None,
              pd_notes = Some (''PayTR Online 3D-Secure Tahsilat (Siparis: '' @
                wh_merchant_oid payload @ '')'')\<rparr>
             ''PayTR Sanal POS'' (Some (pa_id attempt)))
           (ret ''OK''))
        else ret ''OK''))))))"

end
