(* ===== verification/CurrentAccounts.thy ===== *)
theory CurrentAccounts
  imports Payments
begin

text \<open>
  \<open>modules/current-accounts\<close>: the account entity, its repository and the query that opens
  a missing account. The entity computes with numbers (doubles); the columns are cents.
\<close>

section \<open>The entity (current-account.entity.ts)\<close>

record account_movement =
  am_description :: string
  am_referenceType :: string
  am_referenceNo :: "string option"
  am_debit :: number
  am_credit :: number
  am_balanceAfter :: number

record account_entity =
  ae_id :: "uuid option"
  ae_tenantId :: uuid
  ae_customerId :: uuid
  ae_totalDebits :: number
  ae_totalCredits :: number
  ae_balance :: number
  ae_creditLimit :: number
  ae_isBlocked :: bool
  ae_movements :: "account_movement list"

definition hasSufficientCreditLimit :: "number \<Rightarrow> account_entity \<Rightarrow> bool" where
  "hasSufficientCreditLimit amount e \<longleftrightarrow>
     (if ae_creditLimit e \<le> 0 then True else fadd (ae_balance e) amount \<le> ae_creditLimit e)"

definition addDebit ::
  "number \<Rightarrow> string \<Rightarrow> string \<Rightarrow> string option \<Rightarrow> account_entity \<Rightarrow> exn + account_entity" where
  "addDebit amount description referenceType referenceNo e =
     (if amount \<le> 0 then Inl (DomainError ''Borc tutari pozitif olmalidir.'')
      else if ae_isBlocked e
      then Inl (DomainError ''Cari hesap blokelidir, yeni borc kaydi acilamaz.'')
      else
        let newBalance = fadd (ae_balance e) amount
        in Inr (e\<lparr>ae_totalDebits := fadd (ae_totalDebits e) amount, ae_balance := newBalance,
             ae_movements := \<lparr>am_description = description, am_referenceType = referenceType,
               am_referenceNo = referenceNo, am_debit = amount, am_credit = 0,
               am_balanceAfter = newBalance\<rparr> # ae_movements e\<rparr>))"

definition addCredit ::
  "number \<Rightarrow> string \<Rightarrow> string \<Rightarrow> string option \<Rightarrow> account_entity \<Rightarrow> exn + account_entity" where
  "addCredit amount description referenceType referenceNo e =
     (if amount \<le> 0 then Inl (DomainError ''Alacak tutari pozitif olmalidir.'')
      else
        let newBalance = fsub (ae_balance e) amount
        in Inr (e\<lparr>ae_totalCredits := fadd (ae_totalCredits e) amount, ae_balance := newBalance,
             ae_movements := \<lparr>am_description = description, am_referenceType = referenceType,
               am_referenceNo = referenceNo, am_debit = 0, am_credit = amount,
               am_balanceAfter = newBalance\<rparr> # ae_movements e\<rparr>))"

definition recalculateBalance :: "account_entity \<Rightarrow> account_entity" where
  "recalculateBalance e = e\<lparr>ae_balance := fsub (ae_totalDebits e) (ae_totalCredits e)\<rparr>"

definition setBlockStatus :: "bool \<Rightarrow> account_entity \<Rightarrow> account_entity" where
  "setBlockStatus blocked e = e\<lparr>ae_isBlocked := blocked\<rparr>"

section \<open>The repository (prisma-current-account.repository.ts)\<close>

definition entity_of_account :: "cari_movement list \<Rightarrow> current_account \<Rightarrow> account_entity" where
  "entity_of_account movements a =
     \<lparr>ae_id = Some (ca_id a), ae_tenantId = ca_tenantId a, ae_customerId = ca_customerId a,
      ae_totalDebits = num_of_cents (ca_totalDebits a),
      ae_totalCredits = num_of_cents (ca_totalCredits a), ae_balance = num_of_cents (ca_balance a),
      ae_creditLimit = num_of_cents (ca_creditLimit a), ae_isBlocked = ca_isBlocked a,
      ae_movements = map (\<lambda>m. \<lparr>am_description = cm_description m,
          am_referenceType = (case cm_referenceType m of CARI_INVOICE \<Rightarrow> ''INVOICE''
            | CARI_PAYMENT \<Rightarrow> ''PAYMENT'' | MANUAL_COLLECTION \<Rightarrow> ''MANUAL_COLLECTION''),
          am_referenceNo = cm_referenceNo m, am_debit = num_of_cents (cm_debit m),
          am_credit = num_of_cents (cm_credit m),
          am_balanceAfter = num_of_cents (cm_balanceAfter m)\<rparr>)
        (rev (filter (\<lambda>m. cm_currentAccountId m = ca_id a) movements))\<rparr>"

definition findAll_Account :: "uuid \<Rightarrow> account_entity list dbM" where
  "findAll_Account tenantId =
     bindM (find_many current_accounts (\<lambda>a. ca_tenantId a = tenantId)) (\<lambda>records.
     bindM (reads cari_movements) (\<lambda>movements.
       ret (map (entity_of_account movements) (sort_key (\<lambda>a. - ca_balance a) records))))"

definition findByCustomerId :: "uuid \<Rightarrow> uuid \<Rightarrow> account_entity option dbM" where
  "findByCustomerId tenantId customerId =
     bindM (find_first current_accounts (\<lambda>a. ca_tenantId a = tenantId \<and> ca_customerId a = customerId))
       (\<lambda>found.
     bindM (reads cari_movements) (\<lambda>movements.
       ret (map_option (entity_of_account movements) found)))"

definition live_customer :: "uuid \<Rightarrow> uuid \<Rightarrow> customer \<Rightarrow> bool" where
  "live_customer tenantId customerId c \<longleftrightarrow>
     c_id c = customerId \<and> c_tenantId c = tenantId \<and> c_deletedAt c = None"

definition customerExists :: "uuid \<Rightarrow> uuid \<Rightarrow> bool dbM" where
  "customerExists tenantId customerId =
     bindM (find_many customers (live_customer tenantId customerId)) (\<lambda>cs. ret (length cs > 0))"

definition create_Account :: "ctx \<Rightarrow> account_entity \<Rightarrow> account_entity dbM" where
  "create_Account cx e =
     bindM (find_first customers (live_customer (ae_tenantId e) (ae_customerId e))) (\<lambda>customer.
     thenM (ensure (customer \<noteq> None) (BadRequestException
       ''Musteri bulunamadi veya bu isletmeye ait degil.''))
     (thenM (unique_index current_accounts ''current_accounts_customer_id_key''
       (\<lambda>a. ca_customerId a = ae_customerId e))
     (bindM (fresh_id cx) (\<lambda>ident.
     bindM (create_row current_accounts current_accounts_update ca_id
       \<lparr>ca_id = ident, ca_tenantId = ae_tenantId e, ca_customerId = ae_customerId e,
        ca_totalDebits = dec2 cx (ae_totalDebits e), ca_totalCredits = dec2 cx (ae_totalCredits e),
        ca_balance = dec2 cx (ae_balance e), ca_creditLimit = dec2 cx (ae_creditLimit e),
        ca_isBlocked = ae_isBlocked e\<rparr>) (\<lambda>a.
       ret (entity_of_account [] a))))))"

definition save_Account :: "ctx \<Rightarrow> account_entity \<Rightarrow> account_entity dbM" where
  "save_Account cx e =
     (case or_null (ae_id e) of
        None \<Rightarrow> create_Account cx e
      | Some ident \<Rightarrow>
          bindM (find_first current_accounts (\<lambda>a. ca_id a = ident \<and> ca_tenantId a = ae_tenantId e))
            (\<lambda>existing.
          thenM (ensure (existing \<noteq> None) (BadRequestException
            ''Cari hesap bulunamadi veya bu isletmeye ait degil.''))
          (bindM (update_account ident (\<lambda>a. a\<lparr>
              ca_totalDebits := dec2 cx (ae_totalDebits e),
              ca_totalCredits := dec2 cx (ae_totalCredits e), ca_balance := dec2 cx (ae_balance e),
              ca_creditLimit := dec2 cx (ae_creditLimit e), ca_isBlocked := ae_isBlocked e\<rparr>)) (\<lambda>a.
          bindM (reads cari_movements) (\<lambda>movements.
            ret (entity_of_account movements a))))))"

section \<open>GetCustomerCurrentAccountUseCase\<close>

definition getCustomerCurrentAccount :: "ctx \<Rightarrow> uuid \<Rightarrow> uuid \<Rightarrow> account_entity dbM" where
  "getCustomerCurrentAccount cx tenantId customerId =
     bindM (findByCustomerId tenantId customerId) (\<lambda>account.
     case account of
       Some a \<Rightarrow> ret a
     | None \<Rightarrow>
         bindM (customerExists tenantId customerId) (\<lambda>there.
         thenM (ensure there (NotFoundException ''Musteri bulunamadi.''))
         (create_Account cx
           \<lparr>ae_id = None, ae_tenantId = tenantId, ae_customerId = customerId, ae_totalDebits = 0,
            ae_totalCredits = 0, ae_balance = 0, ae_creditLimit = 0, ae_isBlocked = False,
            ae_movements = []\<rparr>)))"

end
