(* ===== verification/Ledger.thy ===== *)
theory Ledger
  imports CurrentAccounts Service
begin

text \<open>
  The books of the customers. An account's debits are the grand totals of the customer's
  invoices that are not cancelled, its credits the payments collected from the customer
  (an advance offset is not new money), its balance the difference, and the movements of
  the account add up to the balance. Every operation of the invoice, payment and account
  modules keeps these equations; the lemmas say what each write inside a transaction does
  to them.
\<close>

section \<open>The equations\<close>

definition account_sum :: "(current_account \<Rightarrow> int) \<Rightarrow> db \<Rightarrow> uuid \<Rightarrow> int" where
  "account_sum w s c = total (\<lambda>a. if ca_customerId a = c then w a else 0) (current_accounts s)"

definition invoiced :: "db \<Rightarrow> uuid \<Rightarrow> int" where
  "invoiced s c = total (\<lambda>i. if i_customerId i = c \<and> i_status i \<noteq> I_CANCELLED
     then i_grandTotal i else 0) (invoices s)"

definition collected :: "db \<Rightarrow> uuid \<Rightarrow> int" where
  "collected s c = total (\<lambda>p. if pay_customerId p = c \<and> pay_paymentMethod p \<noteq> ADVANCE_OFFSET
     then pay_amount p else 0) (payments s)"

definition moved :: "cari_movement list \<Rightarrow> uuid \<Rightarrow> int" where
  "moved ms k = total (\<lambda>m. if cm_currentAccountId m = k then cm_debit m - cm_credit m else 0) ms"

definition account_ok :: "cari_movement list \<Rightarrow> current_account \<Rightarrow> bool" where
  "account_ok ms a \<longleftrightarrow> ca_balance a = ca_totalDebits a - ca_totalCredits a \<and>
     ca_balance a = moved ms (ca_id a)"

text \<open>Keys are unique, references exist, an invoice has an account and no negative total.\<close>

definition ledger_wf :: "db \<Rightarrow> bool" where
  "ledger_wf s \<longleftrightarrow> unique_rows ca_id (current_accounts s) \<and>
     unique_rows ca_customerId (current_accounts s) \<and> unique_rows i_id (invoices s) \<and>
     list_all (\<lambda>m. cm_currentAccountId m \<in> ca_id ` set (current_accounts s)) (cari_movements s) \<and>
     list_all (\<lambda>i. 0 \<le> i_grandTotal i \<and> (i_customerId i, i_tenantId i) \<in>
       (\<lambda>a. (ca_customerId a, ca_tenantId a)) ` set (current_accounts s)) (invoices s)"

text \<open>\<open>d\<close> and \<open>e\<close>: by how much the debits and credits exceed invoices and payments.\<close>

definition ledger_inv :: "(uuid \<Rightarrow> int) \<Rightarrow> (uuid \<Rightarrow> int) \<Rightarrow> db \<Rightarrow> bool" where
  "ledger_inv d e s \<longleftrightarrow> ledger_wf s \<and>
     list_all (account_ok (cari_movements s)) (current_accounts s) \<and>
     account_sum ca_totalDebits s = (\<lambda>c. invoiced s c + d c) \<and>
     account_sum ca_totalCredits s = (\<lambda>c. collected s c + e c)"

definition ledger_ok :: "db \<Rightarrow> bool" where
  "ledger_ok s \<longleftrightarrow> ledger_inv (\<lambda>_. 0) (\<lambda>_. 0) s"

text \<open>The other tables do not matter.\<close>

lemmas ledger_defs = ledger_inv_def ledger_wf_def account_sum_def [abs_def] invoiced_def [abs_def]
  collected_def [abs_def]

lemma ledger_inv_other [simp]:
  "ledger_inv d e (customers_update f1 s) = ledger_inv d e s"
  "ledger_inv d e (vehicles_update f2 s) = ledger_inv d e s"
  "ledger_inv d e (appointments_update f3 s) = ledger_inv d e s"
  "ledger_inv d e (work_orders_update f4 s) = ledger_inv d e s"
  "ledger_inv d e (work_order_items_update f5 s) = ledger_inv d e s"
  "ledger_inv d e (products_update f6 s) = ledger_inv d e s"
  "ledger_inv d e (stock_movements_update f7 s) = ledger_inv d e s"
  "ledger_inv d e (invoice_items_update f8 s) = ledger_inv d e s"
  "ledger_inv d e (payment_attempts_update f9 s) = ledger_inv d e s"
  "ledger_inv d e (document_sequences_update f10 s) = ledger_inv d e s"
  "ledger_inv d e (id_supply_update f11 s) = ledger_inv d e s"
  "ledger_inv d e (outbox_update f12 s) = ledger_inv d e s"
  by (simp_all add: ledger_defs)

lemma keeps_ledger_emit [keeps_intros]: "keeps (ledger_inv d e) (emit f)"
  and keeps_ledger_fresh_id [keeps_intros]: "keeps (ledger_inv d e) (fresh_id cx)"
  by (auto simp: keeps_def wp_simps)

lemma keeps_ledger_next_sequence [keeps_intros]:
  "keeps (ledger_inv d e) (next_sequence tenantId docType yr)"
  unfolding next_sequence_def by (intro keeps_intros keeps_frame) simp_all

lemma keeps_ledger_getNextInvoiceNumber [keeps_intros]:
  "keeps (ledger_inv d e) (getNextInvoiceNumber cx tenantId)"
  unfolding getNextInvoiceNumber_def by (intro keeps_intros)

section \<open>Opening an account\<close>

lemma total_zero: "(\<And>r. r \<in> set rows \<Longrightarrow> w r = 0) \<Longrightarrow> total w rows = 0"
  by (induction rows) auto

definition zero_account :: "current_account \<Rightarrow> bool" where
  "zero_account a \<longleftrightarrow> ca_totalDebits a = 0 \<and> ca_totalCredits a = 0 \<and> ca_balance a = 0"

lemma ledger_inv_new_account:
  assumes inv: "ledger_inv d e s" and zero: "zero_account a"
    and fresh: "ca_id a \<notin> ca_id ` set (current_accounts s)"
      "ca_customerId a \<notin> ca_customerId ` set (current_accounts s)"
  shows "ledger_inv d e (s\<lparr>current_accounts := current_accounts s @ [a]\<rparr>)" (is "ledger_inv d e ?s'")
proof -
  have "cm_currentAccountId m \<noteq> ca_id a" if "m \<in> set (cari_movements s)" for m
    using inv fresh(1) that unfolding ledger_inv_def ledger_wf_def list_all_iff by metis
  then have "moved (cari_movements s) (ca_id a) = 0"
    unfolding moved_def by (intro total_zero) simp
  moreover have "ledger_wf ?s'"
    using inv fresh by (auto simp: ledger_inv_def ledger_wf_def unique_rows_def list_all_iff)
  ultimately show ?thesis
    using inv zero
    by (simp add: ledger_inv_def account_ok_def zero_account_def account_sum_def [abs_def]
        invoiced_def [abs_def] collected_def [abs_def] fun_eq_iff)
qed

lemma wp_open_account:
  assumes inv: "ledger_inv d e s" and err: "\<And>x s'. E x s'"
    and ok: "\<And>a s'. ledger_inv d e s' \<Longrightarrow> a \<in> set (current_accounts s') \<Longrightarrow> ca_customerId a = c \<Longrightarrow>
      ca_tenantId a = t \<Longrightarrow> invoices s' = invoices s \<Longrightarrow> payments s' = payments s \<Longrightarrow> Q a s'"
  shows "wp (open_account cx t c) Q E s"
proof -
  let ?a = "\<lparr>ca_id = gen_id cx (id_supply s), ca_tenantId = t, ca_customerId = c, ca_totalDebits = 0,
    ca_totalCredits = 0, ca_balance = 0, ca_creditLimit = 0, ca_isBlocked = False\<rparr>"
  have "ledger_inv d e ((s\<lparr>id_supply := Suc (id_supply s)\<rparr>)\<lparr>current_accounts := current_accounts s @ [?a]\<rparr>)"
    if "ca_id ?a \<notin> ca_id ` set (current_accounts s)" "\<not> list_ex (\<lambda>x. ca_customerId x = c) (current_accounts s)"
    using ledger_inv_new_account [of d e "s\<lparr>id_supply := Suc (id_supply s)\<rparr>" ?a] inv that
    by (auto simp: zero_account_def list_ex_iff)
  then show ?thesis
    by (auto simp: open_account_def wp_simps err inv split: option.split dest!: find_SomeD intro!: ok)
qed

section \<open>Writing invoices, payments and postings\<close>

lemma ledger_inv_new_invoice:
  assumes inv: "ledger_inv d e s" and fresh: "i_id i \<notin> i_id ` set (invoices s)"
    and account: "a \<in> set (current_accounts s)" "ca_customerId a = i_customerId i"
      "ca_tenantId a = i_tenantId i"
    and i: "0 \<le> i_grandTotal i" "i_status i \<noteq> I_CANCELLED"
  shows "ledger_inv (shift (i_customerId i) (- i_grandTotal i) d) e
    (s\<lparr>invoices := invoices s @ [i]\<rparr>)" (is "ledger_inv ?d e ?s'")
proof -
  have "(i_customerId i, i_tenantId i) \<in> (\<lambda>a. (ca_customerId a, ca_tenantId a)) ` set (current_accounts s)"
    using account by force
  then have "ledger_wf ?s'"
    using inv fresh i by (auto simp: ledger_inv_def ledger_wf_def unique_rows_def)
  then show ?thesis
    using inv i by (auto simp: ledger_inv_def account_sum_def [abs_def] invoiced_def [abs_def]
        collected_def [abs_def] shift_def fun_eq_iff)
qed

lemma ledger_inv_new_payment:
  "ledger_inv d e s \<Longrightarrow> ledger_inv d
     (if pay_paymentMethod p = ADVANCE_OFFSET then e else shift (pay_customerId p) (- pay_amount p) e)
     (s\<lparr>payments := payments s @ [p]\<rparr>)"
  by (auto simp: ledger_inv_def ledger_wf_def account_sum_def [abs_def] invoiced_def [abs_def]
      collected_def [abs_def] shift_def fun_eq_iff)

lemma ledger_inv_advance:
  "ledger_inv d e s \<Longrightarrow> pay_paymentMethod p = ADVANCE_OFFSET \<Longrightarrow>
     ledger_inv d e (s\<lparr>id_supply := n, payments := payments s @ [p]\<rparr>)"
  using ledger_inv_new_payment [of d e "s\<lparr>id_supply := n\<rparr>" p] by simp

lemma moved_snoc:
  "moved (ms @ [m]) k = moved ms k + (if cm_currentAccountId m = k then cm_debit m - cm_credit m else 0)"
  by (simp add: moved_def)

text \<open>
  A posting: the account changes by debits \<open>p\<close> and credits \<open>q\<close>, and a movement records the
  difference.
\<close>

lemma ledger_inv_posting:
  assumes inv: "ledger_inv d e s" and row: "lookup_row ca_id k (current_accounts s) = Some a"
    and f: "f a = a\<lparr>ca_totalDebits := ca_totalDebits a + p, ca_totalCredits := ca_totalCredits a + q,
      ca_balance := ca_balance a + p - q\<rparr>"
    and frame: "\<And>a. ca_id (f a) = ca_id a" "\<And>a. ca_customerId (f a) = ca_customerId a"
      "\<And>a. ca_tenantId (f a) = ca_tenantId a"
    and m: "cm_currentAccountId m = k" "cm_debit m - cm_credit m = p - q"
  shows "ledger_inv (shift (ca_customerId a) p d) (shift (ca_customerId a) q e)
    (cari_movements_update (\<lambda>rows. rows @ [m])
       (s\<lparr>current_accounts := update_row ca_id k f (current_accounts s)\<rparr>))" (is "ledger_inv ?d ?e ?s'")
proof -
  let ?as = "current_accounts s"
  have unique: "unique_rows ca_id ?as" and wf: "ledger_wf s"
    using inv by (simp_all add: ledger_inv_def ledger_wf_def)
  have k: "ca_id a = k" "a \<in> set ?as"
    using row by (auto dest: lookup_row_key lookup_row_mem)
  have same: "x = a" if "x \<in> set ?as" "ca_id x = k" for x
    using lookup_row_unique [OF unique that(1)] row that(2) by simp
  have "ca_id ` set (update_row ca_id k f ?as) = ca_id ` set ?as"
    "map ca_id (update_row ca_id k f ?as) = map ca_id ?as"
    "map ca_customerId (update_row ca_id k f ?as) = map ca_customerId ?as"
    "(\<lambda>a. (ca_customerId a, ca_tenantId a)) ` set (update_row ca_id k f ?as) =
      (\<lambda>a. (ca_customerId a, ca_tenantId a)) ` set ?as"
    by (intro image_update_row map_update_row; simp add: frame)+
  note keys = this
  have "ledger_wf ?s'"
    using wf k m(1) by (auto simp: ledger_wf_def unique_rows_def keys)
  moreover have "list_all (account_ok (cari_movements ?s')) (current_accounts ?s')"
  proof -
    have ok: "account_ok (cari_movements s) x" if "x \<in> set ?as" for x
      using inv that by (simp add: ledger_inv_def list_all_iff)
    have "account_ok (cari_movements s @ [m]) (f a)"
      using ok [OF k(2)] k(1) m unfolding account_ok_def moved_snoc by (simp add: f)
    moreover have "account_ok (cari_movements s @ [m]) x" if "x \<in> set ?as" "ca_id x \<noteq> k" for x
      using ok [OF that(1)] that(2) m(1) unfolding account_ok_def moved_snoc by simp
    ultimately show ?thesis
      using same by (force simp: list_all_iff set_update_row)
  qed
  moreover have "account_sum ca_totalDebits ?s' c = account_sum ca_totalDebits s c +
      (if ca_customerId a = c then p else 0)"
    and "account_sum ca_totalCredits ?s' c = account_sum ca_totalCredits s c +
      (if ca_customerId a = c then q else 0)" for c
    by (simp_all add: account_sum_def total_update_row [OF unique row] f)
  then have "account_sum ca_totalDebits ?s' = (\<lambda>c. invoiced ?s' c + ?d c)"
    and "account_sum ca_totalCredits ?s' = (\<lambda>c. collected ?s' c + ?e c)"
    using inv by (auto simp: ledger_inv_def fun_eq_iff shift_def invoiced_def collected_def)
  ultimately show ?thesis by (simp add: ledger_inv_def)
qed

section \<open>createWithCariMovement keeps the books\<close>

lemma fl_nonneg: "0 \<le> x \<Longrightarrow> 0 \<le> fl x"
  by (rule double.rnd_nonneg)

lemma math_round_nonneg: "0 \<le> x \<Longrightarrow> 0 \<le> math_round x"
  by (simp add: math_round_def)

lemma line_cents_nonneg: "\<not> bad_line item \<Longrightarrow> 0 \<le> line_cents item"
  unfolding line_cents_def fmul_def
  by (intro fl_nonneg mult_nonneg_nonneg of_int_nonneg math_round_nonneg) (auto simp: bad_line_def)

lemma totals_loop_nonneg:
  "totals_loop items a b = Inr (a', b') \<Longrightarrow> 0 \<le> a \<Longrightarrow> 0 \<le> b \<Longrightarrow> 0 \<le> a' \<and> 0 \<le> b'"
proof (induction items arbitrary: a b)
  case (Cons item items)
  then have line: "\<not> bad_line item"
    by (auto split: if_splits)
  have "0 \<le> fadd a (line_cents item)"
    "0 \<le> fadd b (of_int (math_round (fdiv (fmul (line_cents item) (rate_of item)) 100)))"
    using line Cons.prems(2,3) line_cents_nonneg [OF line] unfolding fadd_def fdiv_def fmul_def
    by (auto intro!: fl_nonneg add_nonneg_nonneg of_int_nonneg math_round_nonneg divide_nonneg_nonneg
        mult_nonneg_nonneg simp: bad_line_def)
  with Cons.IH Cons.prems(1) line show ?case by auto
qed simp

lemma totals_nonneg: "calculateInvoiceTotals items = Inr t \<Longrightarrow> 0 \<le> tot_grandTotal t"
  by (auto simp: calculateInvoiceTotals_def fdiv_def fadd_def split: sum.splits
      dest!: totals_loop_nonneg intro!: fl_nonneg divide_nonneg_nonneg)

lemma agreed_totals_Inr: "agreed_totals invo items = Inr t \<Longrightarrow> calculateInvoiceTotals items = Inr t"
  by (auto simp: agreed_totals_def split: sum.splits exn.splits if_splits)

text \<open>With the account at hand.\<close>

definition acct_inv ::
  "(uuid \<Rightarrow> int) \<Rightarrow> (uuid \<Rightarrow> int) \<Rightarrow> current_account \<Rightarrow> db \<Rightarrow> bool" where
  "acct_inv d e a s \<longleftrightarrow> ledger_inv d e s \<and> a \<in> set (current_accounts s)"

lemma acct_inv_other [simp]:
  "acct_inv d e a (work_orders_update f1 s) = acct_inv d e a s"
  "acct_inv d e a (invoice_items_update f2 s) = acct_inv d e a s"
  "acct_inv d e a (document_sequences_update f3 s) = acct_inv d e a s"
  "acct_inv d e a (id_supply_update f4 s) = acct_inv d e a s"
  by (simp_all add: acct_inv_def)

lemma keeps_acct_invoice_numbers: "keeps (acct_inv d e a) (invoice_numbers cx invo)"
  unfolding invoice_numbers_def getNextInvoiceNumber_def next_sequence_def
  by (auto intro!: keeps_intros keeps_frame split: prod.split)

lemma keeps_ledger_invoice_customer: "keeps I (invoice_customer invo)"
  unfolding invoice_customer_def by (intro keeps_intros)

lemma keeps_ledger_invoice_order: "keeps I (invoice_order invo)"
  unfolding invoice_order_def findById_WorkOrder_def by (intro keeps_intros)

lemma wp_insert_invoice:
  assumes inv: "acct_inv d e a s" and account: "ca_customerId a = i_customerId i" "ca_tenantId a = i_tenantId i"
    and i: "0 \<le> i_grandTotal i" "i_status i \<noteq> I_CANCELLED" and err: "\<And>x s'. E x s'"
    and ok: "\<And>s'. acct_inv (shift (i_customerId i) (- i_grandTotal i) d) e a s' \<Longrightarrow> Q i s'"
  shows "wp (insert_invoice i) Q E s"
proof -
  have "acct_inv (shift (i_customerId i) (- i_grandTotal i) d) e a (s\<lparr>invoices := invoices s @ [i]\<rparr>)"
    if "i_id i \<notin> i_id ` set (invoices s)"
    using inv ledger_inv_new_invoice [of d e s i a] that account i by (simp add: acct_inv_def)
  then show ?thesis
    by (auto simp: insert_invoice_def wp_simps err intro!: ok)
qed

lemma wp_post_debit:
  assumes inv: "acct_inv d e a s"
    and ok: "\<And>x s'. ledger_inv (shift (ca_customerId a) amount d) e s' \<Longrightarrow> Q x s'"
  shows "wp (post_debit cx tenantId a amount number) Q E s"
proof -
  have row: "lookup_row ca_id (ca_id a) (current_accounts s) = Some a"
    using inv by (auto simp: acct_inv_def ledger_inv_def ledger_wf_def intro: lookup_row_unique)
  have "ledger_inv d e s"
    using inv by (simp add: acct_inv_def)
  note posting = ledger_inv_posting [OF this row, where p = amount and q = 0]
  show ?thesis
    unfolding post_debit_def
    by (simp add: wp_bindM wp_thenM wp_update_by wp_add_row wp_ret row, rule ok)
      (use posting in simp)
qed

lemma wp_add_advance_payment:
  assumes inv: "acct_inv d e a s" and err: "\<And>x s'. E x s'"
    and ok: "\<And>s'. acct_inv d e a s' \<Longrightarrow> Q () s'"
  shows "wp (add_advance_payment cx invo k x) Q E s"
  using inv
  by (auto simp: add_advance_payment_def wp_simps err acct_inv_def intro!: ok ledger_inv_advance)

lemma keeps_complete_order: "keeps (ledger_inv d e) (complete_order cx k)"
  and keeps_reopen_order: "keeps (ledger_inv d e) (reopen_order cx k)"
  unfolding complete_order_def reopen_order_def by (intro keeps_intros keeps_frame; simp)+

lemma new_invoice_fields [simp]:
  "i_customerId (new_invoice cx ident numbers invo t adv) = ie_customerId invo"
  "i_tenantId (new_invoice cx ident numbers invo t adv) = ie_tenantId invo"
  "i_grandTotal (new_invoice cx ident numbers invo t adv) = dec2 cx (tot_grandTotal t)"
  "i_id (new_invoice cx ident numbers invo t adv) = ident"
  by (simp_all add: new_invoice_def Let_def)

lemma new_invoice_active:
  "ie_status invo \<noteq> I_CANCELLED \<Longrightarrow> i_status (new_invoice cx ident numbers invo t adv) \<noteq> I_CANCELLED"
  by (simp add: new_invoice_def Let_def initial_status_def)

lemma wp_createWithCariMovement:
  assumes inv: "ledger_inv d e s" and dec: "rounds_to_cents (dec2 cx)"
    and active: "ie_status invo \<noteq> I_CANCELLED"
  shows "wp (createWithCariMovement cx invo offset)
     (\<lambda>_. ledger_inv d e) (\<lambda>_. ledger_inv d e) s"
proof -
  have finish: "wp (bindM (post_debit cx (ie_tenantId invo) a (dec2 cx (tot_grandTotal t)) number) (\<lambda>newBalance.
      thenM (case or_null (ie_workOrderId invo) of None \<Rightarrow> ret () | Some w \<Rightarrow> complete_order cx w)
      (bindM (find_many invoice_items P) (\<lambda>items. ret (r newBalance items)))))
      (\<lambda>_. ledger_inv d e) (\<lambda>_ _. True) s'"
    if "acct_inv (shift (ie_customerId invo) (- dec2 cx (tot_grandTotal t)) d) e a s'"
      "ca_customerId a = ie_customerId invo" for t a number P r s'
    unfolding wp_bindM [of "post_debit _ _ _ _ _"]
    by (rule wp_post_debit [OF that(1)], rule keeps_wp [where I = "ledger_inv d e"])
      (auto intro!: keeps_intros keeps_complete_order simp: that(2))
  have writing: "wp (bindM (insert_invoice (new_invoice cx ident numbers invo t adv)) (\<lambda>created.
      thenM (modifyM (invoice_items_update (f created)))
      (thenM (whenM (adv > 0) (add_advance_payment cx invo (i_id created) adv))
      (bindM (post_debit cx (ie_tenantId invo) a (dec2 cx (tot_grandTotal t)) (fst numbers))
        (\<lambda>newBalance.
      thenM (case or_null (ie_workOrderId invo) of None \<Rightarrow> ret () | Some w \<Rightarrow> complete_order cx w)
      (bindM (find_many invoice_items (P created)) (\<lambda>items. ret (r created newBalance items))))))))
      (\<lambda>_. ledger_inv d e) (\<lambda>_ _. True) s'"
    if a: "acct_inv d e a s'" "ca_customerId a = ie_customerId invo" "ca_tenantId a = ie_tenantId invo"
      and t: "0 \<le> tot_grandTotal t" for ident numbers t adv f a P r s'
  proof (subst wp_bindM, rule wp_insert_invoice [OF a(1)])
    show "0 \<le> i_grandTotal (new_invoice cx ident numbers invo t adv)"
      using rounds_to_cents_nonneg [OF dec t] by simp
  next
    fix s'' assume "acct_inv (shift (i_customerId (new_invoice cx ident numbers invo t adv))
      (- i_grandTotal (new_invoice cx ident numbers invo t adv)) d) e a s''"
    then show "wp (thenM (modifyM (invoice_items_update (f (new_invoice cx ident numbers invo t adv))))
      (thenM (whenM (adv > 0) (add_advance_payment cx invo (i_id (new_invoice cx ident numbers invo t adv)) adv))
      (bindM (post_debit cx (ie_tenantId invo) a (dec2 cx (tot_grandTotal t)) (fst numbers))
        (\<lambda>newBalance.
      thenM (case or_null (ie_workOrderId invo) of None \<Rightarrow> ret () | Some w \<Rightarrow> complete_order cx w)
      (bindM (find_many invoice_items (P (new_invoice cx ident numbers invo t adv))) (\<lambda>items.
        ret (r (new_invoice cx ident numbers invo t adv) newBalance items)))))))
      (\<lambda>_. ledger_inv d e) (\<lambda>_ _. True) s''"
      by (auto simp: wp_thenM [of "modifyM _"] wp_modifyM wp_thenM [of "whenM _ _"] wp_whenM
          intro!: wp_add_advance_payment finish [OF _ a(2)])
  qed (use a active new_invoice_active in auto)
  have numbered: "wp (bindM (invoice_numbers cx invo) k) (\<lambda>_. ledger_inv d e) (\<lambda>_ _. True) s'"
    if "ledger_inv d e s'" "a \<in> set (current_accounts s')" "\<And>n s'. acct_inv d e a s' \<Longrightarrow> wp (k n) (\<lambda>_. ledger_inv d e) (\<lambda>_ _. True) s'"
    for k a s'
    unfolding wp_bindM
    by (rule keeps_wp [where I = "acct_inv d e a", OF keeps_acct_invoice_numbers])
      (use that in \<open>auto simp: acct_inv_def\<close>)
  show ?thesis
    unfolding createWithCariMovement_def
    apply (rule wp_transaction_inv [where I = "ledger_inv d e", OF inv])
    apply (subst wp_bindM, rule keeps_wp [where I = "ledger_inv d e"], rule keeps_ledger_invoice_customer, rule inv, simp)
    apply (subst wp_bindM, rule keeps_wp [where I = "ledger_inv d e"], rule keeps_ledger_invoice_order, assumption, simp)
    apply (simp only: Let_def wp_bindM [of "lift_sum _"] wp_lift_sum)
    apply (split sum.split, intro conjI allI impI, simp)
    apply (subst wp_bindM, rule wp_open_account, assumption, simp)
    apply (subst wp_thenM, simp only: wp_ensure, split if_split, intro conjI impI)
     apply (rule numbered, assumption, assumption)
     apply (simp only: wp_bindM [of "fresh_id _"] wp_fresh_id)
     apply (rule writing)
        apply (auto simp: acct_inv_def dest!: agreed_totals_Inr totals_nonneg)
    done
qed

section \<open>Payments keep the books\<close>

definition active_total :: "invoice \<Rightarrow> int" where
  "active_total i = (if i_status i \<noteq> I_CANCELLED then i_grandTotal i else 0)"

lemma ledger_inv_update_invoice:
  assumes inv: "ledger_inv d e s" and row: "lookup_row i_id k (invoices s) = Some i"
    and frame: "\<And>i. i_id (f i) = i_id i" "\<And>i. i_customerId (f i) = i_customerId i"
      "\<And>i. i_tenantId (f i) = i_tenantId i" "\<And>i. i_grandTotal (f i) = i_grandTotal i"
  shows "ledger_inv (shift (i_customerId i) (active_total i - active_total (f i)) d) e
    (s\<lparr>invoices := update_row i_id k f (invoices s)\<rparr>)" (is "ledger_inv ?d e ?s'")
proof -
  have unique: "unique_rows i_id (invoices s)"
    using inv by (simp add: ledger_inv_def ledger_wf_def)
  have "ledger_wf ?s'"
    using inv unique_update_row [OF unique, of f k] frame
    by (auto simp: ledger_inv_def ledger_wf_def list_all_iff set_update_row)
  moreover have "invoiced ?s' c = invoiced s c - (if i_customerId i = c
      then active_total i - active_total (f i) else 0)" for c
    by (simp add: invoiced_def total_update_row [OF unique row] active_total_def frame)
  ultimately show ?thesis
    using inv by (simp add: ledger_inv_def account_sum_def [abs_def] collected_def [abs_def]
        fun_eq_iff shift_def)
qed

lemma find_row:
  assumes "unique_rows key rows" and "find (\<lambda>r. key r = k \<and> P r) rows = Some r"
  shows "lookup_row key k rows = Some r" and "P r"
proof -
  from find_SomeD [OF assms(2)] have r: "key r = k" "P r" "r \<in> set rows"
    by simp_all
  show "P r" by (fact r)
  show "lookup_row key k rows = Some r"
    using lookup_row_unique [OF assms(1) r(3)] r(1) by simp
qed

lemma find_invoice_row:
  assumes "ledger_inv d e s" and "find (\<lambda>i. i_id i = k \<and> i_tenantId i = t) (invoices s) = Some i"
  shows "lookup_row i_id k (invoices s) = Some i"
  by (rule find_row(1) [OF _ assms(2)]) (use assms(1) in \<open>simp add: ledger_inv_def ledger_wf_def\<close>)

definition open_invoice :: "uuid \<Rightarrow> uuid option \<Rightarrow> db \<Rightarrow> bool" where
  "open_invoice tenantId k s \<longleftrightarrow> (case k of None \<Rightarrow> True
     | Some k \<Rightarrow> (case find (\<lambda>i. i_id i = k \<and> i_tenantId i = tenantId) (invoices s) of
         None \<Rightarrow> False | Some i \<Rightarrow> i_status i \<noteq> I_CANCELLED))"

lemma open_invoice_cong:
  "invoices s' = invoices s \<Longrightarrow> open_invoice tenantId k s \<Longrightarrow> open_invoice tenantId k s'"
  by (cases k) (simp_all add: open_invoice_def)

lemma wp_recheck:
  assumes "ledger_inv d e s" and "\<And>x s'. E x s'"
    and "open_invoice tenantId k s \<Longrightarrow> Q () s"
  shows "wp (case k of None \<Rightarrow> ret () | Some i \<Rightarrow> recheck_invoice tenantId amount i) Q E s"
  using assms
  by (auto simp: recheck_invoice_def find_invoice_def wp_simps open_invoice_def
      split: option.splits)

lemma paid_invoice_fields [simp]:
  "i_id (paid_invoice cx amount i j) = i_id j"
  "i_customerId (paid_invoice cx amount i j) = i_customerId j"
  "i_tenantId (paid_invoice cx amount i j) = i_tenantId j"
  "i_grandTotal (paid_invoice cx amount i j) = i_grandTotal j"
  "i_status (paid_invoice cx amount i j) \<noteq> I_CANCELLED"
  by (simp_all add: paid_invoice_def Let_def)

lemma wp_apply_to_invoice:
  assumes inv: "ledger_inv d e s" and opn: "open_invoice tenantId k s" and err: "\<And>x s'. E x s'"
    and ok: "\<And>s'. ledger_inv d e s' \<Longrightarrow> Q () s'"
  shows "wp (case k of None \<Rightarrow> ret () | Some i \<Rightarrow> apply_to_invoice cx tenantId amount i) Q E s"
proof (cases k)
  case None
  then show ?thesis by (simp add: wp_simps ok inv)
next
  case (Some kk)
  with opn obtain i where find: "find (\<lambda>i. i_id i = kk \<and> i_tenantId i = tenantId) (invoices s) = Some i"
    and active: "i_status i \<noteq> I_CANCELLED"
    by (auto simp: open_invoice_def split: option.splits)
  note row = find_invoice_row [OF inv find]
  have "ledger_inv d e (s\<lparr>invoices := update_row i_id kk (paid_invoice cx amount i) (invoices s)\<rparr>)"
    using ledger_inv_update_invoice [OF inv row, of "paid_invoice cx amount i"] active
    by (simp add: active_total_def)
  with Some find row show ?thesis
    by (simp add: apply_to_invoice_def find_invoice_def wp_simps ok)
qed

lemma wp_insert_payment:
  assumes inv: "ledger_inv d e s" and kind: "pay_paymentMethod p \<noteq> ADVANCE_OFFSET"
    and err: "\<And>x s'. E x s'"
    and ok: "\<And>s'. ledger_inv d (shift (pay_customerId p) (- pay_amount p) e) s' \<Longrightarrow>
      invoices s' = invoices s \<Longrightarrow> Q p s'"
  shows "wp (insert_payment p) Q E s"
  using ledger_inv_new_payment [OF inv, of p] kind
  by (auto simp: insert_payment_def wp_simps err intro!: ok)

lemma wp_post_credit:
  assumes inv: "ledger_inv d e s" and a: "a \<in> set (current_accounts s)"
    and ok: "\<And>s'. ledger_inv d (shift (ca_customerId a) amount e) s' \<Longrightarrow> Q () s'"
  shows "wp (post_credit cx tenantId a amount m k) Q E s"
proof -
  have row: "lookup_row ca_id (ca_id a) (current_accounts s) = Some a"
    using inv a by (auto simp: ledger_inv_def ledger_wf_def intro: lookup_row_unique)
  note posting = ledger_inv_posting [OF inv row, where p = 0 and q = amount]
  show ?thesis
    unfolding post_credit_def
    by (simp add: wp_bindM wp_thenM wp_update_by wp_add_row wp_ret row, rule ok)
      (use posting in simp)
qed

lemma wp_record_payment:
  assumes inv: "ledger_inv d e s" and kind: "method_of dto \<noteq> ADVANCE_OFFSET"
  shows "wp (record_payment cx tenantId customerId dto cashierName attemptId)
     (\<lambda>_. ledger_inv d e) (\<lambda>_ _. True) s"
proof -
  let ?amount = "dec2 cx (pd_amount dto)"
  let ?Q = "\<lambda>_. ledger_inv d e" and ?E = "\<lambda>_ _. True"
  have attempt: "wp (thenM (emit f) (thenM (case attemptId of None \<Rightarrow> ret ()
          | Some a \<Rightarrow> thenM (update_by payment_attempts payment_attempts_update pa_id a g) (ret ()))
        (ret p))) ?Q ?E s'" if "ledger_inv d e s'" for f g p s'
    by (rule keeps_wp [where I = "ledger_inv d e"]) (use that in \<open>auto intro!: keeps_intros keeps_frame\<close>)
  have credit: "wp (bindM (open_account cx tenantId customerId) (\<lambda>account.
        thenM (post_credit cx tenantId account ?amount (method_of dto) k)
        (thenM (emit f) (thenM (case attemptId of None \<Rightarrow> ret ()
          | Some a \<Rightarrow> thenM (update_by payment_attempts payment_attempts_update pa_id a g) (ret ()))
        (ret p))))) ?Q ?E s'"
    if "ledger_inv d (shift customerId (- ?amount) e) s'" for k f g p s'
  proof (subst wp_bindM, rule wp_open_account [OF that])
    fix a s'' assume a: "ledger_inv d (shift customerId (- ?amount) e) s''"
      "a \<in> set (current_accounts s'')" "ca_customerId a = customerId"
    show "wp (thenM (post_credit cx tenantId a ?amount (method_of dto) k)
        (thenM (emit f) (thenM (case attemptId of None \<Rightarrow> ret ()
          | Some a \<Rightarrow> thenM (update_by payment_attempts payment_attempts_update pa_id a g) (ret ()))
        (ret p)))) ?Q ?E s''"
      by (subst wp_thenM, rule wp_post_credit [OF a(1,2)], rule attempt) (simp add: a(3))
  qed simp
  have writing: "wp (bindM (insert_payment (new_payment cx ident tenantId customerId dto cashierName attemptId))
      (\<lambda>payment. thenM (case or_null (pd_invoiceId dto) of None \<Rightarrow> ret ()
          | Some i \<Rightarrow> apply_to_invoice cx tenantId (pd_amount dto) i)
        (bindM (open_account cx tenantId customerId) (\<lambda>account.
        thenM (post_credit cx tenantId account ?amount (method_of dto) (pay_id payment))
        (thenM (emit (AuditLog tenantId ''payment.created'' ''Payment'' (pay_id payment)))
        (thenM (case attemptId of None \<Rightarrow> ret ()
          | Some a \<Rightarrow> thenM (update_by payment_attempts payment_attempts_update pa_id a
              (\<lambda>r. r\<lparr>pa_status := ''PAID''\<rparr>)) (ret ()))
        (ret payment))))))) ?Q ?E s'"
    if inv': "ledger_inv d e s'" and opn: "open_invoice tenantId (or_null (pd_invoiceId dto)) s'" for ident s'
    apply (subst wp_bindM, rule wp_insert_payment [OF inv'])
      apply (simp add: new_payment_def kind)
     apply simp
    apply (subst wp_thenM, rule wp_apply_to_invoice, assumption)
      apply (erule open_invoice_cong, rule opn)
     apply simp
    apply (rule credit, simp add: new_payment_def)
    done
  show ?thesis
    unfolding record_payment_def
    apply (subst wp_bindM, rule keeps_wp [where I = "ledger_inv d e"])
       apply (intro keeps_intros, simp add: find_gateway_payment_def keeps_find_first, rule inv, simp)
    apply (split option.split, intro conjI allI impI)
     apply (subst wp_thenM, rule wp_recheck, assumption, simp)
     apply (simp only: wp_bindM [of "fresh_id _"] wp_fresh_id, rule writing)
      apply (simp, erule open_invoice_cong [rotated], simp)
    apply (simp add: wp_ret)
    done
qed

lemma keeps_createPayment:
  assumes "method_of dto \<noteq> ADVANCE_OFFSET"
  shows "keeps (ledger_inv d e) (createPayment cx tenantId dto cashierName attemptId)"
proof -
  have main: "keeps (ledger_inv d e) (transaction (record_payment cx tenantId c dto cashierName a))" for c a
    by (rule keepsI, rule wp_transaction_inv [where I = "ledger_inv d e"], assumption,
        rule wp_record_payment [OF _ assms])
  show ?thesis
    unfolding createPayment_def check_invoice_def find_invoice_def find_gateway_payment_def Let_def
    by - (rule main keeps_intros)+
qed

section \<open>Cancelling keeps the books\<close>

text \<open>Amounts of the size of the columns, for which the code's doubles are exact enough.\<close>

definition ledger_small :: "db \<Rightarrow> bool" where
  "ledger_small s \<longleftrightarrow>
     list_all (\<lambda>a. money (ca_totalDebits a) \<and> money (ca_totalCredits a)) (current_accounts s) \<and>
     list_all (\<lambda>i. money (i_grandTotal i)) (invoices s)"

lemma total_single:
  assumes "unique_rows key rows" and "r \<in> set rows"
  shows "total (\<lambda>x. if key x = key r then w x else 0) rows = w r"
  using assms
proof (induction rows)
  case (Cons x rows)
  then have fresh: "key x \<notin> key ` set rows" and unique: "unique_rows key rows"
    by (auto simp: unique_rows_def)
  show ?case
  proof (cases "key x = key r")
    case True
    with fresh Cons.prems have "x = r"
      by auto
    moreover have "total (\<lambda>x. if key x = key r then w x else 0) rows = 0"
      by (rule total_zero) (metis fresh True image_eqI)
    ultimately show ?thesis by simp
  next
    case False
    with Cons.prems have "r \<in> set rows" by auto
    with False Cons.IH [OF unique] show ?thesis by simp
  qed
qed simp

lemma debits_of_account:
  assumes inv: "ledger_inv d e s" and a: "a \<in> set (current_accounts s)"
  shows "ca_totalDebits a = invoiced s (ca_customerId a) + d (ca_customerId a)"
proof -
  have "account_sum ca_totalDebits s (ca_customerId a) = ca_totalDebits a"
    unfolding account_sum_def
    by (rule total_single) (use inv a in \<open>auto simp: ledger_inv_def ledger_wf_def\<close>)
  then show ?thesis using inv by (simp add: ledger_inv_def)
qed

lemma invoiced_nonneg: "ledger_inv d e s \<Longrightarrow> 0 \<le> invoiced s c"
  unfolding invoiced_def
  by (rule total_nonneg) (auto simp: ledger_inv_def ledger_wf_def list_all_iff)

lemma keeps_ledger_note_transfer: "keeps (ledger_inv d e) (note_transfer i p)"
proof (rule keepsI)
  fix s assume inv: "ledger_inv d e s"
  have "ledger_inv d e (s\<lparr>payments := update_row pay_id k f (payments s)\<rparr>)"
    if "\<And>p. pay_customerId (f p) = pay_customerId p" "\<And>p. pay_paymentMethod (f p) = pay_paymentMethod p"
      "\<And>p. pay_amount (f p) = pay_amount p" for k f
  proof -
    have "total w (update_row pay_id k f ps) = total w ps" if "\<And>p. w (f p) = w p" for w ps
      using that by (induction ps) auto
    then have "collected (s\<lparr>payments := update_row pay_id k f (payments s)\<rparr>) = collected s"
      by (simp add: collected_def [abs_def] that)
    with inv show ?thesis
      by (simp add: ledger_inv_def ledger_wf_def account_sum_def [abs_def] invoiced_def [abs_def])
  qed
  with inv show "wp (note_transfer i p) (\<lambda>_. ledger_inv d e) (\<lambda>_. ledger_inv d e) s"
    by (simp add: note_transfer_def wp_simps split: option.split)
qed

lemma num_sub_near: "money a \<Longrightarrow> money b \<Longrightarrow> near (fsub (num_of_cents a) (num_of_cents b)) (a - b)"
  unfolding fsub_def num_of_cents_def by (rule double.sub_cents_near)

lemma num_near: "money a \<Longrightarrow> near (num_of_cents a) a"
  unfolding num_of_cents_def by (rule double.near_cents)

text \<open>The reversal posts the grand total of the cancelled invoice exactly.\<close>

lemma wp_post_reversal:
  assumes inv: "ledger_inv d e s" and a: "a \<in> set (current_accounts s)"
    and dec: "rounds_to_cents (dec2 cx)" and small: "money (ca_totalDebits a)" "money (ca_totalCredits a)"
      "money (i_grandTotal i)"
    and enough: "i_grandTotal i \<le> ca_totalDebits a"
    and ok: "\<And>s'. ledger_inv (shift (ca_customerId a) (- i_grandTotal i) d) e s' \<Longrightarrow> Q () s'"
  shows "wp (post_reversal cx tenantId a i reason) Q E s"
proof -
  let ?g = "i_grandTotal i"
  let ?d = "max 0 (fsub (num_of_cents (ca_totalDebits a)) (num_of_cents ?g))"
  have row: "lookup_row ca_id (ca_id a) (current_accounts s) = Some a"
    using inv a by (auto simp: ledger_inv_def ledger_wf_def intro: lookup_row_unique)
  have balance: "ca_balance a = ca_totalDebits a - ca_totalCredits a"
    using inv a by (simp add: ledger_inv_def list_all_iff account_ok_def)
  have debits: "dec2 cx ?d = ca_totalDebits a - ?g"
    by (rule rounds_to_centsD [OF dec], unfold fsub_def num_of_cents_def)
      (rule double.sub_max_near [OF small(1,3) enough])
  have newBalance: "dec2 cx (fsub ?d (num_of_cents (ca_totalCredits a))) = ca_balance a - ?g"
    unfolding balance
    by (rule rounds_to_centsD [OF dec], unfold fsub_def num_of_cents_def)
      (use double.sub_sub_near [OF small(1,3,2) enough] in \<open>simp add: algebra_simps\<close>)
  have credit: "dec2 cx (num_of_cents ?g) = ?g"
    by (rule rounds_to_centsD [OF dec num_near [OF small(3)]])
  note posting = ledger_inv_posting [OF inv row, where p = "- ?g" and q = 0]
  show ?thesis
    unfolding post_reversal_def Let_def debits newBalance credit
    by (simp add: wp_thenM wp_update_by wp_add_row wp_ret row, rule ok)
      (use posting in simp)
qed

lemma wp_reverse_account:
  assumes inv: "ledger_inv (shift (i_customerId i) (i_grandTotal i) d) e s"
    and found: "(i_customerId i, tenantId) \<in> (\<lambda>a. (ca_customerId a, ca_tenantId a)) ` set (current_accounts s)"
    and d: "d (i_customerId i) = 0" and g: "0 \<le> i_grandTotal i" "money (i_grandTotal i)"
    and dec: "rounds_to_cents (dec2 cx)" and small: "ledger_small s"
  shows "wp (reverse_account cx tenantId ps i reason) (\<lambda>_. ledger_inv d e) (\<lambda>_ _. True) s"
proof -
  obtain a where a: "find (\<lambda>a. ca_customerId a = i_customerId i \<and> ca_tenantId a = tenantId)
      (current_accounts s) = Some a"
    using found by (fastforce dest: find_NoneD)
  from find_SomeD [OF a] have mem: "a \<in> set (current_accounts s)" and c: "ca_customerId a = i_customerId i"
    by simp_all
  have "i_grandTotal i \<le> ca_totalDebits a"
    using debits_of_account [OF inv mem] invoiced_nonneg [OF inv] d c by (simp add: shift_def)
  moreover have "money (ca_totalDebits a)" "money (ca_totalCredits a)"
    using small mem by (simp_all add: ledger_small_def list_all_iff)
  ultimately have "wp (post_reversal cx tenantId a i reason)
      (\<lambda>_. wp (for_each ps (note_transfer i)) (\<lambda>_. ledger_inv d e) (\<lambda>_ _. True)) (\<lambda>_ _. True) s"
    by (intro wp_post_reversal [OF inv mem dec _ _ g(2)])
      (auto simp: c intro!: keeps_wp [OF keeps_for_each] keeps_ledger_note_transfer)
  then show ?thesis
    by (simp add: reverse_account_def wp_simps a)
qed

lemma wp_cancelWithCariReversal:
  assumes inv: "ledger_inv d e s" and d: "\<And>c. d c = 0"
    and dec: "rounds_to_cents (dec2 cx)" and small: "ledger_small s"
  shows "wp (cancelWithCariReversal cx tenantId ident reason)
     (\<lambda>_. ledger_inv d e) (\<lambda>_. ledger_inv d e) s"
proof -
  have reopen: "wp (thenM m (ret x)) (\<lambda>_. ledger_inv d e) (\<lambda>_ _. True) s'"
    if "ledger_inv d e s'" "keeps (ledger_inv d e) m" for m x s'
    by (rule keeps_wp [where I = "ledger_inv d e"]) (use that in \<open>auto intro!: keeps_intros\<close>)
  let ?f = "\<lambda>i. i\<lparr>i_status := I_CANCELLED, i_remainingAmount := 0, i_workOrderId := None\<rparr>"
  have main: "wp (bindM (update_invoice (i_id i) ?f) (\<lambda>cancelled.
      thenM (reverse_account cx tenantId ps cancelled reason)
      (thenM m (ret (r cancelled)))))
      (\<lambda>_. ledger_inv d e) (\<lambda>_ _. True) s"
    if find: "find (\<lambda>i. i_id i = ident \<and> i_tenantId i = tenantId) (invoices s) = Some i"
      and active: "i_status i \<noteq> I_CANCELLED" and m: "keeps (ledger_inv d e) m" for i ps m r
  proof -
    from find_SomeD [OF find] have mem: "i \<in> set (invoices s)" and i: "i_id i = ident" "i_tenantId i = tenantId"
      by simp_all
    note row = find_invoice_row [OF inv find]
    let ?s' = "s\<lparr>invoices := update_row i_id ident ?f (invoices s)\<rparr>"
    have "ledger_inv (shift (i_customerId i) (i_grandTotal i) d) e ?s'"
      using ledger_inv_update_invoice [OF inv row, of ?f] active by (simp add: active_total_def)
    moreover have "(i_customerId i, tenantId) \<in>
        (\<lambda>a. (ca_customerId a, ca_tenantId a)) ` set (current_accounts s)"
      and "0 \<le> i_grandTotal i" "money (i_grandTotal i)"
      using inv mem i small by (auto simp: ledger_inv_def ledger_wf_def ledger_small_def list_all_iff)
    moreover have "ledger_small ?s'"
      using small by (auto simp: ledger_small_def list_all_iff set_update_row)
    ultimately have "wp (reverse_account cx tenantId ps (?f i) reason)
        (\<lambda>_. ledger_inv d e) (\<lambda>_ _. True) ?s'"
      using d by (intro wp_reverse_account [OF _ _ _ _ _ dec]) auto
    then have "wp (reverse_account cx tenantId ps (?f i) reason)
        (\<lambda>_. wp (thenM m (ret (r (?f i))))
          (\<lambda>_. ledger_inv d e) (\<lambda>_ _. True)) (\<lambda>_ _. True) ?s'"
      by (rule wp_mono) (auto intro: reopen m)
    then show ?thesis
      using row i by (simp add: wp_bindM wp_update_by wp_thenM [of "reverse_account _ _ _ _ _"])
  qed
  show ?thesis
    unfolding cancelWithCariReversal_def
    by (rule wp_transaction_inv [where I = "ledger_inv d e", OF inv])
      (auto simp: wp_bindM [of "find_first _ _"] wp_bindM [of "require _ _"] wp_bindM [of "find_many _ _"]
        find_invoice_def wp_find_first wp_require wp_find_many wp_thenM [of "ensure _ _"] wp_ensure
        split: option.split intro!: main keeps_intros keeps_reopen_order)
qed

section \<open>The use cases keep the books\<close>

lemma keeps_ledger_updateEInvoiceDetails:
  "keeps (ledger_inv d e) (updateEInvoiceDetails tenantId ident dat)"
proof (rule keepsI)
  fix s assume inv: "ledger_inv d e s"
  let ?f = "\<lambda>i. i\<lparr>i_eInvoiceUuid := or_keep (eu_eInvoiceUuid dat) (i_eInvoiceUuid i),
         i_gibInvoiceNumber := or_keep (eu_gibInvoiceNumber dat) (i_gibInvoiceNumber i),
         i_eInvoiceStatus := or_keep (eu_eInvoiceStatus dat) (i_eInvoiceStatus i)\<rparr>"
  have "ledger_inv d e (s\<lparr>invoices := update_row i_id ident ?f (invoices s)\<rparr>)"
    if "lookup_row i_id ident (invoices s) = Some i" for i
    using ledger_inv_update_invoice [OF inv that, of ?f]
    by (simp add: active_total_def cong: if_cong)
  with inv show "wp (updateEInvoiceDetails tenantId ident dat) (\<lambda>_. ledger_inv d e)
      (\<lambda>_. ledger_inv d e) s"
    by (auto simp: updateEInvoiceDetails_def wp_simps find_invoice_def split: option.split)
qed

lemma keeps_ledger_getProvider: "keeps I (getProvider tenantId)"
  unfolding getProvider_def by (intro keeps_intros)

lemma keeps_ledger_provider_createInvoice: "keeps (ledger_inv d e) (provider_createInvoice cx p)"
  unfolding provider_createInvoice_def by (intro keeps_intros)

lemma keeps_ledger_submit_einvoice: "keeps (ledger_inv d e) (submit_einvoice cx tenantId ident x)"
  unfolding submit_einvoice_def
  by (intro keeps_intros keeps_ledger_getProvider keeps_ledger_provider_createInvoice
      keeps_ledger_updateEInvoiceDetails)

lemma keeps_createInvoice:
  assumes "rounds_to_cents (dec2 cx)"
  shows "keeps (ledger_inv d e) (createInvoice cx tenantId dto)"
proof -
  have "keeps (ledger_inv d e) (createWithCariMovement cx (entity_of_input cx tenantId dto) off)" for off
    by (rule keepsI, rule wp_createWithCariMovement [OF _ assms]) (simp_all add: entity_of_input_def)
  then show ?thesis
    unfolding createInvoice_def Let_def
    by (intro keeps_intros keeps_ledger_submit_einvoice)
qed

lemma wp_cancelInvoice:
  assumes "ledger_inv d e s" and "\<And>c. d c = 0" and "rounds_to_cents (dec2 cx)" and "ledger_small s"
  shows "wp (cancelInvoice cx tenantId ident reason) (\<lambda>_. ledger_inv d e) (\<lambda>_. ledger_inv d e) s"
proof -
  have cancel: "wp (bindM (cancelWithCariReversal cx tenantId ident r) (\<lambda>x. thenM (emit f) (ret x)))
      (\<lambda>_. ledger_inv d e) (\<lambda>_. ledger_inv d e) s" for r f
    unfolding wp_bindM
    by (rule wp_mono [OF wp_cancelWithCariReversal [OF assms]]) (auto simp: wp_simps)
  then show ?thesis
    using assms(1)
    by (auto simp: cancelInvoice_def findById_Invoice_def find_invoice_def getProvider_def
        wp_bindM [of "find_first _ _"] wp_bindM [of "bindM _ _"] wp_bindM [of "require _ _"]
        wp_bindM [of "reads _"] wp_bindM [of "find_many _ _"] wp_bindM [of "ret _"] wp_funs(2,3)
        wp_find_first wp_require wp_reads wp_find_many wp_ret wp_thenM wp_ensure wp_whenM
        split: option.split)
qed

lemma keeps_handlePayTrWebhook: "keeps (ledger_inv d e) (handlePayTrWebhook cx pt payload)"
  unfolding handlePayTrWebhook_def Let_def
  by (intro keeps_intros keeps_createPayment) (simp_all add: method_of_def)

lemma keeps_createPayTrPaymentToken:
  "keeps (ledger_inv d e) (createPayTrPaymentToken cx pt baseUrl invoiceId clientIp)"
  unfolding createPayTrPaymentToken_def Let_def
  by (intro keeps_intros keeps_frame) simp_all

lemma keeps_create_Account:
  assumes dec: "rounds_to_cents (dec2 cx)"
    and zero: "ae_totalDebits x = 0" "ae_totalCredits x = 0" "ae_balance x = 0"
  shows "keeps (ledger_inv d e) (create_Account cx x)"
proof (rule keepsI)
  fix s assume inv: "ledger_inv d e s"
  have "near 0 0" by (simp add: near_def)
  then have "dec2 cx 0 = 0" by (rule rounds_to_centsD [OF dec])
  then have "ledger_inv d e (s\<lparr>id_supply := n, current_accounts := current_accounts s @ [a]\<rparr>)"
    if "ca_totalDebits a = dec2 cx 0" "ca_totalCredits a = dec2 cx 0" "ca_balance a = dec2 cx 0"
      "ca_id a \<notin> ca_id ` set (current_accounts s)"
      "\<not> list_ex (\<lambda>x. ca_customerId x = ca_customerId a) (current_accounts s)" for n a
    using ledger_inv_new_account [of d e "s\<lparr>id_supply := n\<rparr>" a] inv that
    by (auto simp: zero_account_def list_ex_key)
  with inv show "wp (create_Account cx x) (\<lambda>_. ledger_inv d e) (\<lambda>_. ledger_inv d e) s"
    by (auto simp: create_Account_def wp_simps zero)
qed

lemma keeps_getCustomerCurrentAccount:
  "rounds_to_cents (dec2 cx) \<Longrightarrow> keeps (ledger_inv d e) (getCustomerCurrentAccount cx tenantId customerId)"
  unfolding getCustomerCurrentAccount_def findByCustomerId_def customerExists_def
  by (intro keeps_intros keeps_create_Account) simp_all

section \<open>Every history of the books\<close>

datatype ledger_request =
    CreateInvoice uuid invoice_input
  | CancelInvoice uuid uuid string
  | CollectPayment uuid payment_dto string
  | PayTrToken uuid string
  | PayTrWebhook webhook_payload
  | ViewAccount uuid uuid

fun handle_ledger :: "ctx \<Rightarrow> paytr \<Rightarrow> string \<Rightarrow> ledger_request \<Rightarrow> unit dbM" where
  "handle_ledger cx pt url (CreateInvoice t dto) = ignore (createInvoice cx t dto)"
| "handle_ledger cx pt url (CancelInvoice t i reason) = ignore (cancelInvoice cx t i reason)"
| "handle_ledger cx pt url (CollectPayment t dto cashier) = ignore (createPayment cx t dto cashier None)"
| "handle_ledger cx pt url (PayTrToken i ip) = ignore (createPayTrPaymentToken cx pt url i ip)"
| "handle_ledger cx pt url (PayTrWebhook payload) = ignore (handlePayTrWebhook cx pt payload)"
| "handle_ledger cx pt url (ViewAccount t c) = ignore (getCustomerCurrentAccount cx t c)"

text \<open>
  The request validation admits only collection methods; a cancellation is exact while
  the amounts in the tables fit their columns.
\<close>

fun ledger_request_ok :: "ledger_request \<Rightarrow> db \<Rightarrow> bool" where
  "ledger_request_ok (CollectPayment t dto cashier) s \<longleftrightarrow> method_of dto \<noteq> ADVANCE_OFFSET"
| "ledger_request_ok (CancelInvoice t i reason) s \<longleftrightarrow> ledger_small s"
| "ledger_request_ok _ s \<longleftrightarrow> True"

lemma ledger_contract:
  assumes "rounds_to_cents (dec2 cx)"
  shows "service_contract (handle_ledger cx pt url) ledger_request_ok ledger_ok"
proof
  fix s q assume inv: "ledger_ok s" and ok: "ledger_request_ok q s"
  have step: "wp (ignore m) (\<lambda>_. ledger_ok) (\<lambda>_. ledger_ok) s"
    if "keeps (ledger_inv (\<lambda>_. 0) (\<lambda>_. 0)) m" for m :: "'a dbM"
    using keeps_ignore [OF that] inv unfolding ledger_ok_def keeps_def by blast
  show "wp (handle_ledger cx pt url q) (\<lambda>_. ledger_ok) (\<lambda>_. ledger_ok) s"
  proof (cases q)
    case (CancelInvoice t i reason)
    with ok inv wp_cancelInvoice [of "\<lambda>_. 0" "\<lambda>_. 0" s cx t i reason] assms show ?thesis
      by (simp add: wp_ignore ledger_ok_def [abs_def])
  qed (use ok assms in \<open>auto intro!: step keeps_createInvoice keeps_createPayment
      keeps_createPayTrPaymentToken keeps_handlePayTrWebhook keeps_getCustomerCurrentAccount\<close>)
qed

text \<open>On the conversion that rounds to the nearest cent, the interface holds outright.\<close>

interpretation ledger_service: service_contract
    "handle_ledger (cx\<lparr>dec2 := nearest_cent\<rparr>) pt url" ledger_request_ok ledger_ok
  for cx pt url
  by (rule ledger_contract) (simp add: nearest_cent_rounds)

end
