(* ===== verification/Links.thy ===== *)
theory Links
  imports Ledger
begin

text \<open>
  References that occur at most once, over every history of the books: one invoice per work
  order (a cancelled invoice gives its order free) and one payment per gateway transaction. The
  services look before they write: what is linked already is answered by them, not by the
  indexes of the tables.
\<close>

section \<open>References that occur once\<close>

text \<open>At most one row has a given value of an optional column (\<open>@unique\<close> with nulls).\<close>

definition once :: "('r \<Rightarrow> 'k option) \<Rightarrow> 'r list \<Rightarrow> bool" where
  "once ref rows \<longleftrightarrow> distinct (filter (\<lambda>x. x \<noteq> None) (map ref rows))"

lemma once_Nil [simp]: "once ref []"
  by (simp add: once_def)

lemma once_append: "once ref rows \<Longrightarrow> ref r = None \<or> ref r \<notin> ref ` set rows \<Longrightarrow> once ref (rows @ [r])"
  by (auto simp: once_def)

lemma once_Cons: "once ref (r # rows) \<longleftrightarrow> (ref r = None \<or> ref r \<notin> ref ` set rows) \<and> once ref rows"
  by (auto simp: once_def)

lemma once_update:
  "once ref rows \<Longrightarrow> (\<And>r. ref (f r) = ref r \<or> ref (f r) = None) \<Longrightarrow> once ref (update_row key k f rows)"
proof (induction rows)
  case (Cons r rows)
  let ?h = "if key r = k then f r else r"
  have sub: "ref ` set (update_row key k f rows) \<subseteq> insert None (ref ` set rows)"
    using Cons.prems(2) by (auto simp: update_row_def)
  have h: "ref ?h = ref r \<or> ref ?h = None"
    using Cons.prems(2) by simp
  have "ref ?h = None \<or> ref ?h \<notin> ref ` set (update_row key k f rows)"
  proof (cases "ref ?h = None")
    case False
    with h have eq: "ref ?h = ref r" by simp
    then have "ref r \<notin> ref ` set rows"
      using False Cons.prems(1) by (simp only: once_Cons) simp
    with False sub show ?thesis
      unfolding eq by blast
  qed simp
  moreover have "update_row key k f (r # rows) = ?h # update_row key k f rows"
    by (simp add: update_row_def)
  ultimately show ?case
    using Cons by (simp add: once_Cons)
qed (simp add: update_row_def)

lemma once_unique:
  "once ref rows \<Longrightarrow> r \<in> set rows \<Longrightarrow> r' \<in> set rows \<Longrightarrow> ref r = Some x \<Longrightarrow> ref r' = Some x \<Longrightarrow> r = r'"
  by (induction rows) (auto simp: once_Cons image_iff)

text \<open>The gateway transaction a payment settles.\<close>

definition gateway_ref :: "payment \<Rightarrow> (uuid \<times> string \<times> string) option" where
  "gateway_ref p = (case (pay_gatewayProvider p, pay_transactionId p) of
     (Some g, Some t) \<Rightarrow> Some (pay_tenantId p, g, t) | _ \<Rightarrow> None)"

lemma gateway_ref_notes [simp]: "gateway_ref (pay_notes_update f p) = gateway_ref p"
  by (simp add: gateway_ref_def split: option.split)

definition links_ok :: "db \<Rightarrow> bool" where
  "links_ok s \<longleftrightarrow> once i_workOrderId (invoices s) \<and> once gateway_ref (payments s) \<and>
     (\<forall>i \<in> set (invoices s). i_status i = I_CANCELLED \<longrightarrow> i_workOrderId i = None)"

lemma links_ok_other [simp]:
  "links_ok (work_orders_update f4 s) = links_ok s"
  "links_ok (invoice_items_update f8 s) = links_ok s"
  "links_ok (payment_attempts_update f9 s) = links_ok s"
  "links_ok (current_accounts_update f5 s) = links_ok s"
  "links_ok (cari_movements_update f6 s) = links_ok s"
  "links_ok (document_sequences_update f10 s) = links_ok s"
  "links_ok (id_supply_update f11 s) = links_ok s"
  "links_ok (outbox_update f12 s) = links_ok s"
  by (simp_all add: links_ok_def)

lemma keeps_modifyM [keeps_intros]: "(\<And>s. I s \<Longrightarrow> I (f s)) \<Longrightarrow> keeps I (modifyM f)"
  by (simp add: keeps_def wp_simps)

lemma keeps_update_link:
  assumes "\<And>i. i_workOrderId (f i) = i_workOrderId i \<or> i_workOrderId (f i) = None"
    and "\<And>i. i_status (f i) = I_CANCELLED \<Longrightarrow> i_workOrderId (f i) = None \<or> i_status i = I_CANCELLED \<and> i_workOrderId (f i) = i_workOrderId i"
  shows "keeps links_ok (update_invoice k f)"
proof (rule keepsI)
  fix s assume inv: "links_ok s"
  have "once i_workOrderId (update_row i_id k f (invoices s))"
    using inv assms(1) by (intro once_update) (simp_all add: links_ok_def)
  moreover have "i_workOrderId x = None" if x: "x \<in> set (update_row i_id k f (invoices s))" and cancelled: "i_status x = I_CANCELLED" for x
  proof -
    obtain i where "i \<in> set (invoices s)" "x = i \<or> x = f i"
      using x by (auto simp: update_row_def split: if_splits)
    then show ?thesis
      using inv cancelled assms(2) [of i] by (auto simp: links_ok_def)
  qed
  ultimately have "links_ok (s\<lparr>invoices := update_row i_id k f (invoices s)\<rparr>)"
    using inv by (simp add: links_ok_def)
  with inv show "wp (update_invoice k f) (\<lambda>_. links_ok) (\<lambda>_. links_ok) s"
    by (auto simp: wp_simps split: option.split)
qed

lemma keeps_update_payment:
  assumes "\<And>p. gateway_ref (f p) = gateway_ref p"
  shows "keeps links_ok (update_by payments payments_update pay_id k f)"
  using assms by (auto simp: keeps_def wp_simps links_ok_def once_update split: option.split)

lemma keeps_insert_invoice: "i_status i \<noteq> I_CANCELLED \<Longrightarrow> keeps links_ok (insert_invoice i)"
  by (auto simp: keeps_def insert_invoice_def wp_simps links_ok_def list_ex_iff intro!: once_append)

lemma keeps_insert_payment: "keeps links_ok (insert_payment p)"
  by (auto simp: keeps_def insert_payment_def wp_simps links_ok_def list_ex_iff gateway_ref_def
      intro!: once_append split: option.splits)

lemma keeps_add_advance: "keeps links_ok (add_advance_payment cx invo i x)"
  by (auto simp: keeps_def add_advance_payment_def wp_simps links_ok_def gateway_ref_def
      intro!: once_append)

lemma keeps_links_next_sequence [keeps_intros]: "keeps links_ok (next_sequence t d y)"
  unfolding next_sequence_def by (intro keeps_intros keeps_frame) simp_all

lemma keeps_links_fresh_id [keeps_intros]: "keeps links_ok (fresh_id cx)"
  and keeps_links_emit [keeps_intros]: "keeps links_ok (emit e)"
  by (auto simp: keeps_def wp_simps)

lemma keeps_links_open_account [keeps_intros]: "keeps links_ok (open_account cx t c)"
  unfolding open_account_def by (intro keeps_intros keeps_frame) simp_all

lemma keeps_links_createWithCariMovement [keeps_intros]:
  "ie_status invo \<noteq> I_CANCELLED \<Longrightarrow> keeps links_ok (createWithCariMovement cx invo off)"
  unfolding createWithCariMovement_def invoice_customer_def invoice_order_def findById_WorkOrder_def
    invoice_numbers_def getNextInvoiceNumber_def post_debit_def complete_order_def Let_def
  by (intro keeps_intros keeps_insert_invoice keeps_add_advance keeps_frame allI impI
      | simp add: new_invoice_def initial_status_def Let_def split: prod.split)+

lemma keeps_links_updateEInvoiceDetails [keeps_intros]: "keeps links_ok (updateEInvoiceDetails t i dat)"
  unfolding updateEInvoiceDetails_def find_invoice_def by (intro keeps_intros keeps_update_link) simp_all

lemma keeps_links_createInvoice: "keeps links_ok (createInvoice cx t dto)"
  unfolding createInvoice_def submit_einvoice_def getProvider_def provider_createInvoice_def Let_def
  by (intro keeps_intros) (simp_all add: entity_of_input_def)

lemma keeps_links_cancelWithCariReversal [keeps_intros]: "keeps links_ok (cancelWithCariReversal cx t i r)"
  unfolding cancelWithCariReversal_def reverse_account_def post_reversal_def note_transfer_def
    reopen_order_def find_invoice_def Let_def
  by (intro keeps_intros keeps_update_link keeps_update_payment keeps_frame) simp_all

lemma keeps_links_cancelInvoice: "keeps links_ok (cancelInvoice cx t i r)"
  unfolding cancelInvoice_def findById_Invoice_def find_invoice_def getProvider_def
  by (intro keeps_intros)

lemma keeps_links_createPayment [keeps_intros]: "keeps links_ok (createPayment cx t dto cashier a)"
  unfolding createPayment_def check_invoice_def find_gateway_payment_def find_invoice_def Let_def
    record_payment_def recheck_invoice_def apply_to_invoice_def post_credit_def
  by (intro keeps_intros keeps_update_link keeps_insert_payment keeps_frame) (auto simp: paid_invoice_def Let_def split: if_splits)

lemma keeps_links_webhook: "keeps links_ok (handlePayTrWebhook cx pt payload)"
  unfolding handlePayTrWebhook_def Let_def by (intro keeps_intros)

lemma keeps_links_token: "keeps links_ok (createPayTrPaymentToken cx pt url i ip)"
  unfolding createPayTrPaymentToken_def Let_def by (intro keeps_intros keeps_frame) simp_all

lemma keeps_links_account: "keeps links_ok (getCustomerCurrentAccount cx t c)"
  unfolding getCustomerCurrentAccount_def findByCustomerId_def customerExists_def create_Account_def
  by (intro keeps_intros keeps_frame) simp_all

interpretation link_service: closed_service "handle_ledger cx pt url" "\<lambda>_ _. True" links_ok
  for cx pt url
proof
  fix s q assume "links_ok s"
  moreover have "keeps links_ok (handle_ledger cx pt url q)"
    by (cases q) (simp_all add: keeps_ignore keeps_links_createInvoice keeps_links_cancelInvoice
      keeps_links_createPayment keeps_links_webhook keeps_links_token keeps_links_account)
  ultimately show "wp (handle_ledger cx pt url q) (\<lambda>_. links_ok) (\<lambda>_. links_ok) s"
    by (simp add: keeps_def)
qed simp

section \<open>What is linked already\<close>

text \<open>The linked order is looked up among the invoices that are not cancelled.\<close>

lemma linked_order_is_billed:
  assumes inv: "links_ok s" and i: "i \<in> set (invoices s)" "i_workOrderId i = Some k" "k \<noteq> []"
    and dto: "in_workOrderId dto = Some k"
  shows "\<exists>m. createInvoice cx (i_tenantId i) dto s = (Inl (BadRequestException m), s)"
proof -
  have "find (\<lambda>j. i_workOrderId j = Some k \<and> i_tenantId j = i_tenantId i \<and> i_status j \<noteq> I_CANCELLED) (invoices s) \<noteq> None"
    using inv i(1,2) by (auto simp: find_None_iff links_ok_def)
  then obtain j where billed: "find (\<lambda>j. i_workOrderId j = Some k \<and> i_tenantId j = i_tenantId i \<and>
      i_status j \<noteq> I_CANCELLED) (invoices s) = Some j"
    by blast
  have invo: "ie_workOrderId (entity_of_input cx (i_tenantId i) dto) = Some k"
    "ie_tenantId (entity_of_input cx (i_tenantId i) dto) = i_tenantId i"
    by (simp_all add: entity_of_input_def dto)
  have refused: "wp (bindM (invoice_customer (entity_of_input cx (i_tenantId i) dto)) (\<lambda>customer.
      bindM (invoice_order (entity_of_input cx (i_tenantId i) dto)) (r customer)))
      (\<lambda>_ _. False) (\<lambda>e _. \<exists>m. e = BadRequestException m) s" for r :: "customer \<Rightarrow> work_order_item list \<Rightarrow> create_result dbM"
    by (auto simp: invoice_customer_def invoice_order_def findById_WorkOrder_def wp_simps invo
      or_null_simps(3) [OF i(3)] billed split: option.split)
  have "wp (createInvoice cx (i_tenantId i) dto) (\<lambda>_ _. False) (\<lambda>e s'. (\<exists>m. e = BadRequestException m) \<and> s' = s) s"
    unfolding createInvoice_def createWithCariMovement_def wp_bindM [of "transaction _"] wp_transaction
    by (rule wp_mono, rule refused) simp_all
  then show ?thesis
    unfolding wp_def by (auto split: prod.splits sum.splits)
qed

text \<open>A transaction of the gateway that is recorded is answered with the payment it has.\<close>

lemma recorded_transaction_is_known:
  assumes inv: "links_ok s" and p: "p \<in> set (payments s)" "pay_gatewayProvider p = Some ''PAYTR''"
      "pay_transactionId p = Some a" "a \<noteq> []"
    and amount: "valid_amount (pd_amount dto)"
  shows "createPayment cx (pay_tenantId p) dto cashier (Some a) s = (Inr p, s)"
proof -
  let ?P = "\<lambda>q. pay_tenantId q = pay_tenantId p \<and> pay_gatewayProvider q = Some ''PAYTR'' \<and> pay_transactionId q = Some a"
  have "find ?P (payments s) \<noteq> None"
    using p by (auto simp: find_None_iff)
  then obtain q where q: "find ?P (payments s) = Some q"
    by blast
  have "q = p"
    using once_unique [of gateway_ref "payments s" q p] inv p find_SomeD [OF q]
    by (auto simp: links_ok_def gateway_ref_def)
  with q amount show ?thesis
    by (intro returns_with)
      (simp add: createPayment_def find_gateway_payment_def wp_simps Let_def or_null_simps(3) [OF p(4)])
qed

end
