(* ===== verification/Idempotency.thy ===== *)
theory Idempotency
  imports Sessions Inventory Links
begin

text \<open>
  Repeated requests: \<open>RequireIdempotencyGuard\<close> demands a key on financial routes, and
  \<open>IdempotencyInterceptor\<close> runs the handler of a key once: it takes a lock in Redis (\<open>SET NX EX 60\<close>),
  stores the answer for 24 hours and frees the lock when the handler throws. The JSON text of an
  answer and the SHA-256 digest of a request are functions of the environment: \<open>ie_encode\<close> writes
  the record of digest and answer, \<open>ie_decode\<close> reads it back (\<open>None\<close> when the text is no JSON).
  Answers are their JSON text; errors of single Redis commands are not modelled.
\<close>

section \<open>Requests\<close>

record http_request =
  hq_method :: string
  hq_url :: string
  hq_body :: string
  hq_key :: "string option"
  hq_tenant :: "string option"
  hq_user :: "string option"

record idem_env =
  ie_hash :: "string \<Rightarrow> string \<Rightarrow> string \<Rightarrow> string"
  ie_encode :: "string \<Rightarrow> string \<Rightarrow> string"
  ie_decode :: "string \<Rightarrow> (string \<times> string) option"

definition requires_key :: "bool \<Rightarrow> http_request \<Rightarrow> unit dbM" where
  "requires_key required req = whenM required
     (ensure (\<not> (\<not> truthy (hq_key req) \<or> js_trim (or_else (hq_key req) []) = [])) (BadRequestException
       ''Kritik finansal islem icin X-Idempotency-Key basligi zorunludur.''))"

definition payload_hash :: "idem_env \<Rightarrow> http_request \<Rightarrow> string" where
  "payload_hash ie req = ie_hash ie (hq_method req) (hq_url req) (hq_body req)"

definition redis_key :: "http_request \<Rightarrow> string \<Rightarrow> string" where
  "redis_key req keyStr = ''idempotency:'' @ or_else (hq_tenant req) ''default'' @ '':'' @
     or_else (hq_user req) ''public'' @ '':'' @ keyStr"

definition is_financial :: "http_request \<Rightarrow> bool" where
  "is_financial req \<longleftrightarrow> contains_at ''/payments'' (hq_url req) \<or> contains_at ''/invoices'' (hq_url req) \<or>
     contains_at ''/current-accounts'' (hq_url req)"

section \<open>The interceptor\<close>

definition entry_live :: "int \<Rightarrow> (string \<times> int) option \<Rightarrow> bool" where
  "entry_live t entry \<longleftrightarrow> (case entry of None \<Rightarrow> False | Some (v, expiry) \<Rightarrow> t < expiry)"

text \<open>\<open>SET key value EX ttl NX\<close>.\<close>

definition redis_set_nx :: "auth_env \<Rightarrow> string \<Rightarrow> string \<Rightarrow> int \<Rightarrow> bool dbM" where
  "redis_set_nx env key v ttl =
     bindM (reads (\<lambda>s. entry_live (en_now env) (redis s key))) (\<lambda>taken.
     if taken then ret False else thenM (redis_set env key v ttl) (ret True))"

definition processing :: "string \<Rightarrow> string" where
  "processing h = ''PROCESSING:'' @ h"

definition is_processing :: "string \<Rightarrow> bool" where
  "is_processing v \<longleftrightarrow> take 11 v = ''PROCESSING:''"

text \<open>What a request with a key that is taken gets.\<close>

definition replay_answer :: "auth_env \<Rightarrow> idem_env \<Rightarrow> string \<Rightarrow> string \<Rightarrow> string dbM" where
  "replay_answer env ie key payloadHash =
     bindM (redis_get env key) (\<lambda>existing.
     case or_null existing of
       None \<Rightarrow> throw (ConflictException ''Islem kilidi dogrulanamadi; ayni anahtarla tekrar deneyiniz.'')
     | Some v \<Rightarrow>
         if is_processing v then throw (ConflictException ''Islem su anda yurutuluyor, lutfen bekleyiniz.'')
         else case ie_decode ie v of
           None \<Rightarrow> throw (ConflictException ''Islem kilidi dogrulanamadi; ayni anahtarla tekrar deneyiniz.'')
         | Some (h, body) \<Rightarrow>
             if h \<noteq> [] \<and> h \<noteq> payloadHash then throw (ConflictException ''Idempotency Payload Mismatch'')
             else ret body)"

definition run_and_store :: "auth_env \<Rightarrow> idem_env \<Rightarrow> string \<Rightarrow> string \<Rightarrow> string dbM \<Rightarrow> string dbM" where
  "run_and_store env ie key payloadHash handler =
     try_catch
       (bindM handler (\<lambda>responseBody.
        thenM (redis_set env key (ie_encode ie payloadHash responseBody) 86400) (ret responseBody)))
       (\<lambda>e. thenM (redis_del env key) (throw e))"

definition intercept :: "auth_env \<Rightarrow> idem_env \<Rightarrow> http_request \<Rightarrow> string dbM \<Rightarrow> string dbM" where
  "intercept env ie req handler =
     (case or_null (hq_key req) of
        None \<Rightarrow> handler
      | Some rawKey \<Rightarrow>
          let keyStr = js_trim rawKey in
          if keyStr = [] then handler
          else let key = redis_key req keyStr; payloadHash = payload_hash ie req in
            if \<not> en_redisUp env
            then if is_financial req
              then throw (ServiceUnavailableException ''Finansal islem guvenligi icin kilit servisi yanit vermiyor.'')
              else handler
            else bindM (redis_set_nx env key (processing payloadHash) 60) (\<lambda>locked.
              if locked then run_and_store env ie key payloadHash handler else replay_answer env ie key payloadHash))"

section \<open>A key runs its handler once\<close>

text \<open>Documented behaviour of the JSON codec: it reads back what it wrote, and writes an object.\<close>

definition json_ok :: "idem_env \<Rightarrow> bool" where
  "json_ok ie \<longleftrightarrow> (\<forall>h b. ie_decode ie (ie_encode ie h b) = Some (h, b) \<and> take 1 (ie_encode ie h b) = ''{'')"

lemma json_not_processing: "json_ok ie \<Longrightarrow> \<not> is_processing (ie_encode ie h b) \<and> ie_encode ie h b \<noteq> []"
proof -
  assume "json_ok ie"
  then have "take 1 (ie_encode ie h b) = ''{''"
    by (simp add: json_ok_def)
  then show ?thesis
    by (cases "ie_encode ie h b") (auto simp: is_processing_def)
qed

text \<open>The key of a request, when it carries one.\<close>

definition request_key :: "http_request \<Rightarrow> string option" where
  "request_key req = (case or_null (hq_key req) of None \<Rightarrow> None
     | Some raw \<Rightarrow> if js_trim raw = [] then None else Some (redis_key req (js_trim raw)))"

lemma intercept_keyed:
  assumes "request_key req = Some key" and "en_redisUp env"
  shows "intercept env ie req handler = bindM (redis_set_nx env key (processing (payload_hash ie req)) 60) (\<lambda>locked.
     if locked then run_and_store env ie key (payload_hash ie req) handler else replay_answer env ie key (payload_hash ie req))"
  using assms by (auto simp: request_key_def intercept_def Let_def split: option.splits if_splits)

text \<open>The answer stored under a key.\<close>

definition answered :: "idem_env \<Rightarrow> string \<Rightarrow> string \<Rightarrow> string \<Rightarrow> int \<Rightarrow> db \<Rightarrow> bool" where
  "answered ie key h body expiry s \<longleftrightarrow> redis s key = Some (ie_encode ie h body, expiry)"

lemma wp_first_run:
  assumes "request_key req = Some key" and "en_redisUp env" and "\<not> entry_live (en_now env) (redis s key)"
  shows "wp (intercept env ie req handler)
     (\<lambda>body. answered ie key (payload_hash ie req) body (en_now env + 86400000)) (\<lambda>_ s'. redis s' key = None) s"
proof -
  have total: "wp m (\<lambda>_ _. True) (\<lambda>_ _. True) s'" for m :: "string dbM" and s'
    by (simp add: wp_def split: prod.split sum.split)
  have "wp (run_and_store env ie key (payload_hash ie req) handler)
      (\<lambda>body. answered ie key (payload_hash ie req) body (en_now env + 86400000)) (\<lambda>_ s'. redis s' key = None) s'" for s'
    unfolding run_and_store_def redis_set_def redis_del_def wp_try_catch wp_bindM
    by (rule wp_mono [OF total]) (simp_all add: wp_simps assms(2) answered_def)
  then show ?thesis
    unfolding intercept_keyed [OF assms(1,2)] redis_set_nx_def redis_set_def
    using assms(2,3) by (simp add: wp_simps)
qed

lemma replay_answered:
  assumes key: "request_key req = Some key" and up: "en_redisUp env" and json: "json_ok ie"
    and s: "answered ie key h body expiry s" and "en_now env < expiry"
  shows "intercept env ie req handler s =
     (if h \<noteq> [] \<and> h \<noteq> payload_hash ie req then Inl (ConflictException ''Idempotency Payload Mismatch'') else Inr body, s)"
proof -
  note j = json_not_processing [OF json, of h body]
  have d: "ie_decode ie (ie_encode ie h body) = Some (h, body)"
    using json by (simp add: json_ok_def)
  show ?thesis
    unfolding intercept_keyed [OF key up] redis_set_nx_def redis_get_def replay_answer_def
    using s j d up assms(5) by (auto simp: monad_defs answered_def entry_live_def or_null_def truthy_def)
qed

text \<open>While the handler runs, another request with the key is refused.\<close>

lemma replay_processing:
  assumes key: "request_key req = Some key" and up: "en_redisUp env" and s: "redis s key = Some (processing h, expiry)"
    and "en_now env < expiry"
  shows "intercept env ie req handler s = (Inl (ConflictException ''Islem su anda yurutuluyor, lutfen bekleyiniz.''), s)"
  unfolding intercept_keyed [OF key up] redis_set_nx_def redis_get_def replay_answer_def
  using s up assms(4) by (auto simp: monad_defs entry_live_def or_null_def truthy_def processing_def is_processing_def)

section \<open>The books do not touch Redis\<close>

lemma keeps_redis_small [keeps_intros]:
  "keeps (\<lambda>s. redis s key = r) (emit e)" "keeps (\<lambda>s. redis s key = r) (fresh_id cx)"
  by (simp_all add: keeps_def wp_simps)

lemma keeps_redis_parts [keeps_intros]:
  "keeps (\<lambda>s. redis s key = r) (next_sequence t d y)" "keeps (\<lambda>s. redis s key = r) (open_account cx t c)"
  "keeps (\<lambda>s. redis s key = r) (insert_payment p)" "keeps (\<lambda>s. redis s key = r) (insert_invoice i)"
  unfolding next_sequence_def open_account_def insert_payment_def insert_invoice_def
  by (rule keeps_intros keeps_frame | simp add: keeps_unique_index)+

lemma keeps_redis_payment [keeps_intros]: "keeps (\<lambda>s. redis s key = r) (createPayment cx t dto cashier a)"
  unfolding createPayment_def check_invoice_def find_gateway_payment_def find_invoice_def Let_def
    record_payment_def recheck_invoice_def apply_to_invoice_def post_credit_def
  by (rule keeps_intros keeps_frame | simp)+

lemma keeps_redis_createInvoice: "keeps (\<lambda>s. redis s key = r) (createInvoice cx t dto)"
  unfolding createInvoice_def submit_einvoice_def getProvider_def provider_createInvoice_def
    createWithCariMovement_def invoice_customer_def invoice_order_def findById_WorkOrder_def
    invoice_numbers_def getNextInvoiceNumber_def post_debit_def complete_order_def updateEInvoiceDetails_def
    add_advance_payment_def find_invoice_def Let_def
  by (rule keeps_intros keeps_frame | rule allI impI | simp split: prod.split)+

lemma keeps_redis_cancelInvoice: "keeps (\<lambda>s. redis s key = r) (cancelInvoice cx t i reason)"
  unfolding cancelInvoice_def findById_Invoice_def find_invoice_def getProvider_def
    cancelWithCariReversal_def reverse_account_def post_reversal_def note_transfer_def reopen_order_def Let_def
  by (rule keeps_intros keeps_frame | simp)+

lemma keeps_redis_gateway:
  "keeps (\<lambda>s. redis s key = r) (createPayTrPaymentToken cx pt url i ip)"
  "keeps (\<lambda>s. redis s key = r) (handlePayTrWebhook cx pt payload)"
  "keeps (\<lambda>s. redis s key = r) (getCustomerCurrentAccount cx t c)"
  unfolding createPayTrPaymentToken_def handlePayTrWebhook_def getCustomerCurrentAccount_def findByCustomerId_def
    customerExists_def create_Account_def find_invoice_def Let_def
  by (rule keeps_intros keeps_frame | simp)+

lemma keeps_redis_ledger: "keeps (\<lambda>s. redis s key = r) (handle_ledger cx pt url q)"
  by (cases q) (simp_all add: keeps_ignore keeps_redis_createInvoice keeps_redis_cancelInvoice keeps_redis_payment
    keeps_redis_gateway)

lemma keeps_answered_ledger: "keeps (answered ie key h body expiry) (handle_ledger cx pt url q)"
  unfolding answered_def [abs_def] by (rule keeps_redis_ledger)

interpretation stored_answers: closed_service "handle_ledger cx pt url" "\<lambda>_ _. True" "answered ie key h body expiry"
    for cx pt url ie key h body expiry
  by unfold_locales (use keeps_answered_ledger in \<open>simp_all add: keeps_def\<close>)

end
