(* ===== verification/StockJournal.thy ===== *)
theory StockJournal
  imports Inventory StockService
begin

text \<open>
  The stock movements are a journal of the stock: replaying the rows that a history of
  requests has written, from the stock at its start, gives the stock at its end. The
  requests are those of the orders (\<open>stock_request\<close>) and those of the warehouse
  (\<open>part_request\<close>).
\<close>

section \<open>Replaying movements\<close>

fun book :: "stock_movement \<Rightarrow> int \<Rightarrow> int" where
  "book m q = (case sm_movementType m of
     IN_PURCHASE \<Rightarrow> q + sm_quantity m
   | RETURN \<Rightarrow> q + sm_quantity m
   | OUT_WORK_ORDER \<Rightarrow> q - sm_quantity m
   | ADJUSTMENT \<Rightarrow> sm_quantity m)"

definition replay :: "stock_movement list \<Rightarrow> uuid \<Rightarrow> int \<Rightarrow> int" where
  "replay ms pid = fold book (filter (\<lambda>m. sm_productId m = pid) ms)"

lemma replay_Nil [simp]: "replay [] pid q = q"
  and replay_snoc [simp]: "replay (ms @ [m]) pid q =
    (if sm_productId m = pid then book m (replay ms pid q) else replay ms pid q)"
  by (simp_all add: replay_def)

section \<open>The invariant\<close>

text \<open>The movements from the \<open>n\<close>-th on explain how the stock \<open>base\<close> became what it is.\<close>

definition journal :: "nat \<Rightarrow> (uuid \<Rightarrow> int) \<Rightarrow> db \<Rightarrow> bool" where
  "journal n base s \<longleftrightarrow> unique_rows p_id (products s) \<and> n \<le> length (stock_movements s) \<and>
     (\<forall>pid. stock_of s pid = replay (drop n (stock_movements s)) pid (base pid))"

lemma journal_frame:
  "products s' = products s \<Longrightarrow> stock_movements s' = stock_movements s \<Longrightarrow> journal n base s' = journal n base s"
  by (simp add: journal_def stock_of_def)

lemma journal_other [simp]:
  "journal n base (appointments_update f4 s) = journal n base s"
  "journal n base (vehicles_update f3 s) = journal n base s"
  "journal n base (work_orders_update f20 s) = journal n base s"
  "journal n base (work_order_items_update f21 s) = journal n base s"
  "journal n base (invoices_update f8 s) = journal n base s"
  "journal n base (invoice_items_update f9 s) = journal n base s"
  "journal n base (payments_update f10 s) = journal n base s"
  "journal n base (current_accounts_update f12 s) = journal n base s"
  "journal n base (cari_movements_update f13 s) = journal n base s"
  "journal n base (document_sequences_update f14 s) = journal n base s"
  "journal n base (id_supply_update f15 s) = journal n base s"
  "journal n base (outbox_update f16 s) = journal n base s"
  by (rule journal_frame; simp)+

lemma stock_of_update:
  assumes "unique_rows p_id (products s)" and "lookup_row p_id pid (products s) = Some r"
    and "products s' = update_row p_id pid f (products s)" and "\<And>r. p_id (f r) = p_id r"
  shows "stock_of s' = (stock_of s)(pid := p_stockQuantity (f r))"
proof -
  have "p_id r = pid"
    using assms(2) by (rule lookup_row_key)
  then show ?thesis
    using total_update_row [OF assms(1,2), of _ f] assms(3,4) stock_of_lookup [OF assms(1)] assms(2)
    by (auto simp: fun_eq_iff stock_of_def)
qed

text \<open>A change of one product's stock together with the row that records it.\<close>

lemma journal_record:
  assumes inv: "journal n base s"
    and rows: "products s' = update_row p_id pid f (products s)" and key: "\<And>r. p_id (f r) = p_id r"
    and found: "lookup_row p_id pid (products s) = Some r"
    and moves: "stock_movements s' = stock_movements s @ [m]"
    and m: "sm_productId m = pid" "book m (p_stockQuantity r) = p_stockQuantity (f r)"
  shows "journal n base s'"
proof -
  have unique: "unique_rows p_id (products s)"
    using inv by (simp add: journal_def)
  have "stock_of s' = (stock_of s)(pid := p_stockQuantity (f r))"
    by (rule stock_of_update [OF unique found rows key])
  moreover have "stock_of s pid = p_stockQuantity r"
    using found by (simp add: stock_of_lookup [OF unique])
  ultimately show ?thesis
    using inv m by (auto simp: journal_def rows moves unique_update_row key simp del: book.simps)
qed

section \<open>Orders write the journal\<close>

lemma wp_take_row:
  assumes unique: "unique_rows p_id (products s)" and none: "Q 0 s"
    and some: "\<And>r. lookup_row p_id pid (products s) = Some r \<Longrightarrow> p_tenantId r = tenantId \<Longrightarrow> q \<le> p_stockQuantity r \<Longrightarrow>
      Q 1 (s\<lparr>products := update_row p_id pid (\<lambda>p. p\<lparr>p_stockQuantity := p_stockQuantity p - q\<rparr>) (products s)\<rparr>)"
  shows "wp (take_stock tenantId pid q) Q E s"
proof -
  let ?C = "\<lambda>p. p_tenantId p = tenantId \<and> q \<le> p_stockQuantity p"
  show ?thesis
    using none some
    by (auto simp: take_stock_def wp_simps map_where_key [OF unique, of pid ?C]
      count_where_key [OF unique, of pid ?C] split: option.split)
qed

lemma keeps_journal_consume:
  assumes "sm_movementType m = OUT_WORK_ORDER" "sm_productId m = pid" "sm_quantity m = q"
    and fail: "\<And>p. \<exists>e. g p = throw e"
  shows "keeps (journal n base) (bindM (take_stock tenantId pid q) (\<lambda>cnt.
    thenM (whenM (cnt = 0) (bindM (find_product tenantId pid) g)) (thenM (add_movement m) (ret ()))))"
proof (rule keepsI)
  fix s assume inv: "journal n base s"
  let ?f = "\<lambda>p. p\<lparr>p_stockQuantity := p_stockQuantity p - q\<rparr>"
  let ?s = "s\<lparr>products := update_row p_id pid ?f (products s)\<rparr>"
  have booked: "journal n base (stock_movements_update (\<lambda>ms. ms @ [m]) ?s)"
    if "lookup_row p_id pid (products s) = Some r" for r
    by (rule journal_record [OF inv, where f = ?f and m = m, OF _ _ that]) (simp_all add: assms(1-3))
  obtain e where g: "g = (\<lambda>p. throw (e p))"
    using fail by metis
  show "wp (bindM (take_stock tenantId pid q) (\<lambda>cnt.
      thenM (whenM (cnt = 0) (bindM (find_product tenantId pid) g)) (thenM (add_movement m) (ret ()))))
    (\<lambda>_. journal n base) (\<lambda>_. journal n base) s"
    unfolding wp_bindM g using inv
    by (intro wp_take_row) (auto simp: journal_def [of n base s] wp_simps find_product_def dest: booked)
qed

lemma keeps_journal_consume_part [keeps_intros]:
  "keeps (journal n base) (consume_part tenantId pid q number orderId author)"
  unfolding consume_part_def
  by (rule keeps_journal_consume) (auto simp: movement_def split: option.split)

lemma keeps_journal_give_back [keeps_intros]:
  "keeps (journal n base) (give_back tenantId pid q remark orderId author)"
proof (rule keepsI)
  fix s assume inv: "journal n base s"
  let ?s = "s\<lparr>products := update_row p_id pid (add_stock q) (products s)\<rparr>"
  have "journal n base (stock_movements_update (\<lambda>ms. ms @ [movement tenantId pid RETURN q orderId remark author]) ?s)"
    if "lookup_row p_id pid (products s) = Some r" for r
    by (rule journal_record [OF inv, where f = "add_stock q" and
        m = "movement tenantId pid RETURN q orderId remark author", OF _ _ that]) (simp_all add: movement_def)
  then show "wp (give_back tenantId pid q remark orderId author) (\<lambda>_. journal n base) (\<lambda>_. journal n base) s"
    using inv by (auto simp: give_back_def wp_simps split: option.split)
qed

lemma keeps_journal_change_part [keeps_intros]:
  "keeps (journal n base) (change_part tenantId pid diff wo author)"
  unfolding change_part_def
  by (auto intro!: keeps_journal_consume keeps_journal_give_back simp: movement_def)

text \<open>Every other step of the order and invoice operations leaves stock and journal alone.\<close>

lemma keeps_journal_simple [keeps_intros]: "keeps (journal n base) (emit e)"
    "keeps (journal n base) (fresh_id cx)"
  by (auto simp: keeps_def wp_simps)

lemma keeps_journal_recalculate [keeps_intros]: "keeps (journal n base) (recalculate cx k)"
  and keeps_journal_insert_item [keeps_intros]: "keeps (journal n base) (insert_item cx k item r)"
  and keeps_journal_take_appointment [keeps_intros]: "keeps (journal n base) (take_appointment tenantId a)"
  and keeps_journal_insert_order [keeps_intros]: "keeps (journal n base) (insert_order w)"
  and keeps_journal_sequence [keeps_intros]: "keeps (journal n base) (next_sequence tenantId docType yr)"
  unfolding recalculate_def insert_item_def take_appointment_def insert_order_def next_sequence_def
  by (intro keeps_intros keeps_frame; simp)+

lemma keeps_journal_order_repo [keeps_intros]:
  "keeps (journal n base) (create_WorkOrder cx tenantId dat)"
  "keeps (journal n base) (addItem cx tenantId k item r author)"
  "keeps (journal n base) (updateItem cx tenantId k i upd author)"
  "keeps (journal n base) (removeItem cx tenantId k i author)"
  "keeps (journal n base) (restoreCancelledStock tenantId k user)"
  "keeps (journal n base) (updateStatus_WorkOrder cx tenantId k st done_at)"
  "keeps (journal n base) (rollbackStatus_WorkOrder cx tenantId k st)"
  "keeps (journal n base) (sync_appointment tenantId wo st)"
  unfolding create_WorkOrder_def insert_line_def addItem_def updateItem_def removeItem_def
    restoreCancelledStock_def return_line_def updateStatus_WorkOrder_def rollbackStatus_WorkOrder_def
    sync_appointment_def syncAppointmentStatus_def findById_WorkOrder_def find_item_def Let_def
  by (intro keeps_intros keeps_frame; simp)+

lemma keeps_journal_invoice [keeps_intros]: "keeps (journal n base) (auto_invoice cx tenantId wo)"
  unfolding auto_invoice_def getTenantAutoInvoiceConfig_def findInvoiceByWorkOrder_def createInvoice_def
    submit_einvoice_def getProvider_def provider_createInvoice_def updateEInvoiceDetails_def find_invoice_def
    createWithCariMovement_def invoice_customer_def invoice_order_def findById_WorkOrder_def Let_def
    open_account_def invoice_numbers_def getNextInvoiceNumber_def insert_invoice_def add_advance_payment_def
    post_debit_def complete_order_def
  by (rule keeps_intros keeps_frame keeps_modify | simp split: prod.split | rule allI impI)+

lemma keeps_journal_orders [keeps_intros]: "keeps (journal n base) (handle_stock cx q)"
  unfolding handle_stock.simps
  by (cases q; simp only: handle_stock.simps createWorkOrder_def findActiveByVehicleId_def
      getNextWorkOrderNumber_def addWorkOrderItem_def updateWorkOrderItem_def removeWorkOrderItem_def
      updateWorkOrderStatus_def rollbackWorkOrder_def previous_status_def audit_and_emit_def
      findById_WorkOrder_def find_item_def Let_def)
    (intro keeps_ignore keeps_intros keeps_frame; auto intro: keeps_intros split: sum.split exn.split)+

end
