(* ===== verification/Warehouse.thy ===== *)
theory Warehouse
  imports StockJournal
begin

text \<open>
  What the inventory module promises, as a small machine: the stock of every known part and
  the journal of movements. Each request of the warehouse is one step of the machine
  (\<open>handle_part_refines\<close>), also when it fails; the invariants over histories that mix
  requests on orders and on parts follow from the machine's steps.
\<close>

section \<open>The machine\<close>

type_synonym shelf = "(uuid \<Rightarrow> int option) \<times> stock_movement list"

definition shelf_of :: "db \<Rightarrow> shelf" where
  "shelf_of s = (\<lambda>pid. map_option p_stockQuantity (lookup_row p_id pid (products s)), stock_movements s)"

text \<open>A movement that may be booked on \<open>q\<close> pieces.\<close>

definition bookable :: "bool \<Rightarrow> stock_movement \<Rightarrow> int \<Rightarrow> bool" where
  "bookable ok m q = (case sm_movementType m of
     OUT_WORK_ORDER \<Rightarrow> 0 < sm_quantity m \<and> sm_quantity m \<le> q
   | ADJUSTMENT \<Rightarrow> (ok \<longrightarrow> 0 \<le> sm_quantity m)
   | _ \<Rightarrow> 0 < sm_quantity m)"

text \<open>
  \<open>silent\<close>: the request may overwrite the stock without a movement; \<open>ok\<close>: it asks for no
  negative quantity.
\<close>

inductive warehouse :: "bool \<Rightarrow> bool \<Rightarrow> shelf \<Rightarrow> shelf \<Rightarrow> bool" for silent ok where
  Idle: "warehouse silent ok (st, j) (st, j)"
| Book: "st pid = Some q \<Longrightarrow> sm_productId m = pid \<Longrightarrow> bookable ok m q \<Longrightarrow>
    warehouse silent ok (st, j) (st(pid \<mapsto> book m q), j @ [m])"
| Open_empty: "st pid = None \<Longrightarrow> q \<le> 0 \<Longrightarrow> (ok \<longrightarrow> q = 0) \<Longrightarrow> warehouse silent ok (st, j) (st(pid \<mapsto> q), j)"
| Open_stocked: "st pid = None \<Longrightarrow> 0 < q \<Longrightarrow> sm_productId m = pid \<Longrightarrow> sm_movementType m = IN_PURCHASE \<Longrightarrow>
    sm_quantity m = q \<Longrightarrow> warehouse silent ok (st, j) (st(pid \<mapsto> q), j @ [m])"
| Correct: "silent \<Longrightarrow> st pid \<noteq> None \<Longrightarrow> (ok \<longrightarrow> 0 \<le> q) \<Longrightarrow> warehouse silent ok (st, j) (st(pid \<mapsto> q), j)"

inductive_cases warehouseE: "warehouse silent ok (st, j) (st', j')"

lemma warehouse_nonneg:
  assumes "warehouse silent True (st, j) (st', j')" and "\<And>pid q. st pid = Some q \<Longrightarrow> 0 \<le> q"
    and "st' pid = Some q"
  shows "0 \<le> q"
  by (rule warehouseE [OF assms(1)]; use assms(2,3) in
    \<open>force simp: bookable_def fun_upd_apply split: if_splits StockMovementType.splits\<close>)

text \<open>Without silent corrections the journal explains the stock.\<close>

definition held_stock :: "(uuid \<Rightarrow> int option) \<Rightarrow> uuid \<Rightarrow> int" where
  "held_stock st pid = (case st pid of None \<Rightarrow> 0 | Some q \<Rightarrow> q)"

lemma warehouse_journal:
  assumes "warehouse False True (st, j) (st', j')" and "n \<le> length j"
    and "\<And>pid. held_stock st pid = replay (drop n j) pid (base pid)"
  shows "n \<le> length j' \<and> held_stock st' pid = replay (drop n j') pid (base pid)"
  by (rule warehouseE [OF assms(1)]; use assms(2) assms(3) [symmetric] in
    \<open>auto simp: held_stock_def split: StockMovementType.split\<close>)

section \<open>Steps of the store\<close>

text \<open>
  The store made the machine's step for tenant \<open>t\<close>: parts of other tenants, orders and items are
  as before, and new movements carry the tenant's identifier.
\<close>

definition foreign :: "uuid \<Rightarrow> db \<Rightarrow> product list" where
  "foreign t s = filter (\<lambda>p. p_tenantId p \<noteq> t) (products s)"

definition appended_by :: "uuid \<Rightarrow> db \<Rightarrow> db \<Rightarrow> bool" where
  "appended_by t s s' \<longleftrightarrow> (\<exists>ms. stock_movements s' = stock_movements s @ ms \<and> list_all (\<lambda>m. sm_tenantId m = t) ms)"

definition part_step :: "uuid \<Rightarrow> bool \<Rightarrow> bool \<Rightarrow> db \<Rightarrow> db \<Rightarrow> bool" where
  "part_step t silent ok s s' \<longleftrightarrow> warehouse silent ok (shelf_of s) (shelf_of s') \<and>
     unique_rows p_id (products s') \<and> set (map p_id (products s)) \<subseteq> set (map p_id (products s')) \<and>
     work_orders s' = work_orders s \<and> work_order_items s' = work_order_items s \<and>
     foreign t s' = foreign t s \<and> appended_by t s s'"

lemma part_step_idle:
  "unique_rows p_id (products s) \<Longrightarrow> products s' = products s \<Longrightarrow> stock_movements s' = stock_movements s \<Longrightarrow>
    work_orders s' = work_orders s \<Longrightarrow> work_order_items s' = work_order_items s \<Longrightarrow> part_step t silent ok s s'"
  by (simp add: part_step_def shelf_of_def warehouse.Idle foreign_def appended_by_def)

lemma shelf_update:
  assumes "lookup_row p_id pid (products s) = Some r" and "\<And>r. p_id (f r) = p_id r"
    and "products s' = update_row p_id pid f (products s)"
  shows "fst (shelf_of s') = (fst (shelf_of s))(pid \<mapsto> p_stockQuantity (f r))"
  using assms by (auto simp: shelf_of_def fun_eq_iff lookup_update_row)

lemma part_step_update:
  assumes unique: "unique_rows p_id (products s)"
    and found: "lookup_row p_id pid (products s) = Some r" and key: "\<And>r. p_id (f r) = p_id r"
    and own: "p_tenantId r = t" "\<And>r. p_tenantId (f r) = p_tenantId r" "list_all (\<lambda>m. sm_tenantId m = t) ms"
    and rows: "products s' = update_row p_id pid f (products s)"
    and rest: "work_orders s' = work_orders s" "work_order_items s' = work_order_items s"
    and moves: "stock_movements s' = stock_movements s @ ms"
    and step: "(ms = [] \<and> p_stockQuantity (f r) = p_stockQuantity r) \<or>
      (ms = [] \<and> silent \<and> (ok \<longrightarrow> 0 \<le> p_stockQuantity (f r))) \<or>
      (\<exists>m. ms = [m] \<and> sm_productId m = pid \<and> bookable ok m (p_stockQuantity r) \<and>
        p_stockQuantity (f r) = book m (p_stockQuantity r))"
  shows "part_step t silent ok s s'"
proof -
  have st: "fst (shelf_of s) pid = Some (p_stockQuantity r)"
    using found by (simp add: shelf_of_def)
  have "shelf_of s' = ((fst (shelf_of s))(pid \<mapsto> p_stockQuantity (f r)), stock_movements s @ ms)"
    using shelf_update [OF found key rows] moves by (simp add: shelf_of_def prod_eq_iff)
  moreover have "shelf_of s = (fst (shelf_of s), stock_movements s)"
    by (simp add: shelf_of_def)
  moreover have "warehouse silent ok (fst (shelf_of s), stock_movements s)
      ((fst (shelf_of s))(pid \<mapsto> p_stockQuantity (f r)), stock_movements s @ ms)"
    using step
  proof (elim disjE exE conjE)
    assume "ms = []" "silent" "ok \<longrightarrow> 0 \<le> p_stockQuantity (f r)"
    with st show ?thesis by (simp add: warehouse.Correct)
  next
    fix m assume "ms = [m]" "sm_productId m = pid" "bookable ok m (p_stockQuantity r)"
      and new: "p_stockQuantity (f r) = book m (p_stockQuantity r)"
    with st show ?thesis
      unfolding new by (simp add: warehouse.Book del: book.simps)
  qed (use st in \<open>simp add: fun_upd_idem warehouse.Idle\<close>)
  moreover have "map p_id (products s') = map p_id (products s)"
    unfolding rows by (rule keys_update_row) (rule key)
  moreover have "foreign t s' = foreign t s"
    unfolding foreign_def rows using unique found own(1,2)
  proof (induction "products s" arbitrary: s)
    case (Cons p ps)
    from Cons.hyps(1) [of "s\<lparr>products := ps\<rparr>"] Cons.prems Cons.hyps(2) [symmetric] show ?case
      by (auto simp: unique_rows_def update_row_absent split: if_splits)
  qed simp
  ultimately show ?thesis
    using unique rest moves own(3) by (simp add: part_step_def unique_rows_def appended_by_def)
qed

lemma part_step_open:
  assumes unique: "unique_rows p_id (products s)" and fresh: "p_id p \<notin> p_id ` set (products s)"
    and own: "p_tenantId p = t" "list_all (\<lambda>m. sm_tenantId m = t) ms"
    and rows: "products s' = products s @ [p]"
    and rest: "work_orders s' = work_orders s" "work_order_items s' = work_order_items s"
    and moves: "stock_movements s' = stock_movements s @ ms"
    and step: "(ms = [] \<and> p_stockQuantity p \<le> 0 \<and> (ok \<longrightarrow> p_stockQuantity p = 0)) \<or>
      (\<exists>m. ms = [m] \<and> 0 < p_stockQuantity p \<and> sm_productId m = p_id p \<and> sm_movementType m = IN_PURCHASE \<and>
        sm_quantity m = p_stockQuantity p)"
  shows "part_step t silent ok s s'"
proof -
  have st: "fst (shelf_of s) (p_id p) = None"
    using fresh by (simp add: shelf_of_def lookup_row_None)
  have "insert_row p_id p (products s) = Some (products s')"
    using fresh rows by (simp add: insert_row_def)
  from lookup_insert_row [OF this] have "fst (shelf_of s') = (fst (shelf_of s))(p_id p \<mapsto> p_stockQuantity p)"
    by (auto simp: shelf_of_def fun_eq_iff)
  then have "shelf_of s' = ((fst (shelf_of s))(p_id p \<mapsto> p_stockQuantity p), stock_movements s @ ms)"
    using moves by (simp add: shelf_of_def prod_eq_iff)
  moreover have "shelf_of s = (fst (shelf_of s), stock_movements s)"
    by (simp add: shelf_of_def)
  moreover have "warehouse silent ok (fst (shelf_of s), stock_movements s)
      ((fst (shelf_of s))(p_id p \<mapsto> p_stockQuantity p), stock_movements s @ ms)"
    using step st by (auto intro: warehouse.intros)
  ultimately show ?thesis
    using unique fresh rest rows own moves by (auto simp: part_step_def unique_rows_def foreign_def appended_by_def)
qed

section \<open>The repository\<close>

lemma stock_item_of_product [simp]:
  "si_id (mapToStockItem p cell) = Some (p_id p)" "si_tenantId (mapToStockItem p cell) = p_tenantId p"
  "si_stockQuantity (mapToStockItem p cell) = p_stockQuantity p"
  by (simp_all add: mapToStockItem_def new_StockItemEntity_def)

lemma saved_product_frame [simp]:
  "p_id (saved_product cx item lo p) = p_id p" "p_tenantId (saved_product cx item lo p) = p_tenantId p"
  "p_stockQuantity (saved_product cx item lo p) = si_stockQuantity item"
  by (simp_all add: saved_product_def)

abbreviation live :: "uuid \<Rightarrow> uuid \<Rightarrow> product \<Rightarrow> bool" where
  "live t k p \<equiv> p_id p = k \<and> p_tenantId p = t \<and> p_deletedAt p = None"

lemma wp_findById_StockItem:
  "wp (findById_StockItem t k) Q E s =
    (case find (live t k) (products s) of
       None \<Rightarrow> Q None s
     | Some p \<Rightarrow> Q (Some (mapToStockItem p (Option.bind (p_shelfCellId p) (\<lambda>c. visible_cell t c s)))) s)"
  by (simp add: findById_StockItem_def cell_of_def wp_simps split: option.split)

lemma found_row:
  "unique_rows p_id (products s) \<Longrightarrow> find P (products s) = Some p \<Longrightarrow>
    lookup_row p_id (p_id p) (products s) = Some p"
  by (intro lookup_row_unique) (auto dest: find_SomeD)

lemma wp_cell_of: "(\<And>c. Q c s) \<Longrightarrow> wp (cell_of t c) Q E s"
  by (simp add: cell_of_def wp_simps split: option.split)

lemma wp_check_product: "Q () s \<Longrightarrow> (\<And>e. E e s) \<Longrightarrow> wp (check_product P t c cell) Q E s"
  by (simp add: check_product_def wp_simps)

text \<open>\<open>save\<close> writes the row it was read from, or fails without effect.\<close>

lemma wp_save_StockItem:
  assumes unique: "unique_rows p_id (products s)"
    and found: "find (live t k) (products s) = Some p" and key: "si_id item = Some k" "si_tenantId item = t"
    and ok: "\<And>x lo. Q x (s\<lparr>products := update_row p_id k (saved_product cx item lo) (products s)\<rparr>)"
    and err: "\<And>e. E e s"
  shows "wp (save_StockItem cx item) Q E s"
proof -
  have k: "p_id p = k" and row: "lookup_row p_id k (products s) = Some p"
    using found_row [OF unique found] find_SomeD [OF found] by auto
  have update: "wp (update_product k (saved_product cx item lo)) Q' E s"
    if "Q' (saved_product cx item lo p) (s\<lparr>products := update_row p_id k (saved_product cx item lo) (products s)\<rparr>)" for lo Q'
    using that by (simp add: wp_update_by row)
  show ?thesis
    unfolding save_StockItem_def key Let_def wp_funs wp_bindM option.inject
    by (simp only: wp_find_first found wp_require option.case k)
      (intro wp_cell_of wp_check_product update ok err)
qed

section \<open>Requests on parts\<close>

datatype part_request =
    OpenPart uuid stock_item_input string
  | ChangePart uuid uuid stock_item_patch
  | DeletePart uuid uuid
  | DecrementPart uuid uuid int string string
  | IncrementPart uuid uuid int string string
  | MovePart uuid uuid movement_input string

fun handle_part :: "ctx \<Rightarrow> part_request \<Rightarrow> unit dbM" where
  "handle_part cx (OpenPart t dto author) = ignore (createStockItem cx t dto author)"
| "handle_part cx (ChangePart t k dto) = ignore (updateStockItem cx t k dto)"
| "handle_part cx (DeletePart t k) = deleteStockItem cx t k"
| "handle_part cx (DecrementPart t k q ref author) = ignore (decrementStock t k q ref author)"
| "handle_part cx (IncrementPart t k q ref author) = ignore (incrementStock t k q ref author)"
| "handle_part cx (MovePart t k input author) = ignore (addStockMovement cx t k input author)"

text \<open>The request overwrites the stock without a movement.\<close>

fun overwrites :: "part_request \<Rightarrow> bool" where
  "overwrites (ChangePart t k dto) = (up_stockQuantity dto \<noteq> None)"
| "overwrites _ = False"

text \<open>What the DTOs validate (\<open>@Min(0)\<close>).\<close>

fun amounts_ok :: "part_request \<Rightarrow> bool" where
  "amounts_ok (OpenPart t dto author) = (0 \<le> ci_stockQuantity dto)"
| "amounts_ok (ChangePart t k dto) = pred_option (\<lambda>q. 0 \<le> q) (up_stockQuantity dto)"
| "amounts_ok (MovePart t k input author) = (0 \<le> mi_quantity input)"
| "amounts_ok _ = True"

lemma wp_create_StockItem:
  assumes unique: "unique_rows p_id (products s)" and ok: "ok \<longrightarrow> 0 \<le> si_stockQuantity item"
    and t: "si_tenantId item = t"
  shows "wp (create_StockItem cx item author) (\<lambda>_. part_step t silent ok s) (\<lambda>_. part_step t silent ok s) s"
proof -
  have idle: "part_step t silent ok s s"
    by (rule part_step_idle [OF unique]) simp_all
  let ?q = "si_stockQuantity item"
  have row: "wp (bindM (create_row products products_update p_id (product_of cx k item lo l)) (\<lambda>created.
      thenM (whenM (?q > 0) (thenM (add_movement (stock_row t (p_id created) IN_PURCHASE ?q None remark author)) (ret ())))
      (ret (mapToStockItem created None)))) (\<lambda>_. part_step t silent ok s) (\<lambda>_ _. True)
      (s\<lparr>id_supply := n\<rparr>)" for k lo l remark n
  proof -
    let ?p = "product_of cx k item lo l"
    let ?m = "stock_row t k IN_PURCHASE ?q None remark author"
    let ?s = "s\<lparr>id_supply := n, products := products s @ [?p]\<rparr>"
    have "part_step t silent ok s ?s" if "\<not> 0 < ?q" "k \<notin> p_id ` set (products s)"
      by (rule part_step_open [OF unique, where p = ?p and ms = "[]"])
        (use that ok t in \<open>auto simp: product_of_def\<close>)
    moreover have "part_step t silent ok s (stock_movements_update (\<lambda>ms. ms @ [?m]) ?s)"
      if "0 < ?q" "k \<notin> p_id ` set (products s)"
      by (rule part_step_open [OF unique, where p = ?p and ms = "[?m]"])
        (use that t in \<open>auto simp: product_of_def stock_row_def\<close>)
    ultimately show ?thesis
      by (auto simp: wp_simps idle product_of_def)
  qed
  show ?thesis
    unfolding create_StockItem_def Let_def t wp_transaction wp_funs wp_bindM
    by (rule wp_cell_of)
      (auto simp: wp_require wp_fresh_id idle split: option.split intro!: wp_check_product row [unfolded wp_funs wp_bindM])
qed

lemma wp_createStockItem:
  assumes unique: "unique_rows p_id (products s)" and ok: "ok \<longrightarrow> 0 \<le> ci_stockQuantity dto"
  shows "wp (createStockItem cx t dto author) (\<lambda>_. part_step t silent ok s) (\<lambda>_. part_step t silent ok s) s"
  unfolding createStockItem_def
  by (rule wp_create_StockItem [OF unique]) (simp_all add: new_StockItemEntity_def ok)

lemma live_found:
  assumes "unique_rows p_id (products s)" and "find (live t k) (products s) = Some p"
  shows "lookup_row p_id k (products s) = Some p" "p_id p = k" "p_tenantId p = t"
  using found_row [OF assms] find_SomeD [OF assms(2)] by auto

lemma wp_updateStockItem:
  assumes unique: "unique_rows p_id (products s)" and silent: "up_stockQuantity dto \<noteq> None \<longrightarrow> silent"
    and ok: "ok \<longrightarrow> pred_option (\<lambda>q. 0 \<le> q) (up_stockQuantity dto)"
  shows "wp (updateStockItem cx t k dto) (\<lambda>_. part_step t silent ok s) (\<lambda>_. part_step t silent ok s) s"
proof -
  have idle: "part_step t silent ok s s"
    by (rule part_step_idle [OF unique]) simp_all
  have "wp (save_StockItem cx (patched_item dto (mapToStockItem p c)))
      (\<lambda>_. part_step t silent ok s) (\<lambda>_. part_step t silent ok s) s"
    if p: "find (live t k) (products s) = Some p" for p c
  proof (rule wp_save_StockItem [OF unique p])
    let ?item = "patched_item dto (mapToStockItem p c)"
    show "part_step t silent ok s (s\<lparr>products := update_row p_id k (saved_product cx ?item lo) (products s)\<rparr>)" for lo
      by (rule part_step_update [OF unique live_found(1) [OF unique p], where ms = "[]" and f = "saved_product cx ?item lo"])
        (use silent ok live_found [OF unique p] in \<open>auto simp: patched_item_def given_def split: option.split\<close>)
  qed (use live_found [OF unique p] idle in \<open>auto simp: patched_item_def\<close>)
  then show ?thesis
    unfolding updateStockItem_def wp_bindM wp_findById_StockItem
    by (auto simp: wp_require idle split: option.split)
qed

lemma wp_deleteStockItem:
  assumes unique: "unique_rows p_id (products s)"
  shows "wp (deleteStockItem cx t k) (\<lambda>_. part_step t silent ok s) (\<lambda>_. part_step t silent ok s) s"
proof -
  let ?f = "\<lambda>p. p\<lparr>p_deletedAt := Some (now cx), p_shelfCellId := None\<rparr>"
  have idle: "part_step t silent ok s s"
    by (rule part_step_idle [OF unique]) simp_all
  have "part_step t silent ok s (s\<lparr>products := update_row p_id k ?f (products s)\<rparr>)"
    if "find (live t k) (products s) = Some p" for p
    by (rule part_step_update [OF unique live_found(1) [OF unique that], where ms = "[]" and f = ?f])
      (use live_found [OF unique that] in auto)
  moreover have "lookup_row p_id k (products s) = Some p" if "find (live t k) (products s) = Some p" for p
    by (rule live_found(1) [OF unique that])
  ultimately show ?thesis
    unfolding deleteStockItem_def wp_bindM wp_findById_StockItem
    by (auto simp: delete_StockItem_def wp_simps idle split: option.split)
qed

text \<open>Sending messages changes nothing the machine sees.\<close>

lemma part_step_outbox [simp]: "part_step t silent ok s (outbox_update f s') = part_step t silent ok s s'"
  by (simp add: part_step_def shelf_of_def foreign_def appended_by_def)

lemma wp_announce:
  assumes "part_step t silent ok s s'"
  shows "wp (low_stock_alarm t x) (\<lambda>_. part_step t silent ok s) E s'"
  using assms by (simp add: low_stock_alarm_def wp_simps)

lemma wp_decrementStock:
  assumes unique: "unique_rows p_id (products s)"
  shows "wp (decrementStock t k q ref author) (\<lambda>_. part_step t silent ok s) (\<lambda>_. part_step t silent ok s) s"
proof -
  let ?f = "\<lambda>p. p\<lparr>p_stockQuantity := p_stockQuantity p - q\<rparr>"
  have idle: "part_step t silent ok s s"
    by (rule part_step_idle [OF unique]) simp_all
  have moved: "part_step (p_tenantId r) silent ok s (stock_movements_update
      (\<lambda>ms. ms @ [stock_row (p_tenantId r) k OUT_WORK_ORDER q (Some ref) remark author])
      (s\<lparr>products := update_row p_id k ?f (products s)\<rparr>))"
    if "0 < q" "q \<le> p_stockQuantity r" "lookup_row p_id k (products s) = Some r" for r remark
    by (rule part_step_update [OF unique that(3), where f = ?f and
          ms = "[stock_row (p_tenantId r) k OUT_WORK_ORDER q (Some ref) remark author]"])
      (use that in \<open>auto simp: stock_row_def bookable_def\<close>)
  have take: "wp (decrementAtomic t k q ref author) (\<lambda>_. part_step t silent ok s) (\<lambda>_. part_step t silent ok s) s"
    if "0 < q"
    unfolding decrementAtomic_def wp_transaction wp_bindM
    by (rule wp_take_row [OF unique])
      (auto simp: wp_simps idle that split: option.split intro: moved)
  show ?thesis
    unfolding decrementStock_def wp_bindM wp_findById_StockItem
    by (auto simp: wp_require wp_funs wp_ensure canDecrement_def idle wp_thenM wp_emit split: option.split
      intro!: wp_mono [OF take] wp_announce)
qed

lemma wp_incrementStock:
  assumes unique: "unique_rows p_id (products s)"
  shows "wp (incrementStock t k q ref author) (\<lambda>_. part_step t silent ok s) (\<lambda>_. part_step t silent ok s) s"
proof -
  let ?f = "\<lambda>p. p\<lparr>p_stockQuantity := p_stockQuantity p + q\<rparr>"
  have idle: "part_step t silent ok s s"
    by (rule part_step_idle [OF unique]) simp_all
  have moved: "part_step (p_tenantId r) silent ok s (stock_movements_update
      (\<lambda>ms. ms @ [stock_row (p_tenantId r) k RETURN q (Some ref) remark author])
      (s\<lparr>products := update_row p_id k ?f (products s)\<rparr>))"
    if "0 < q" "lookup_row p_id k (products s) = Some r" for r remark
    by (rule part_step_update [OF unique that(2), where f = ?f and
          ms = "[stock_row (p_tenantId r) k RETURN q (Some ref) remark author]"])
      (use that in \<open>auto simp: stock_row_def bookable_def\<close>)
  have known: "lookup_row p_id k (products s) = Some r \<and> p_tenantId r = t"
    if "find (live t k) (products s) = Some r" for r
    using live_found [OF unique that] by simp
  show ?thesis
    unfolding incrementStock_def incrementAtomic_def find_product_def wp_thenM wp_ensure wp_bindM wp_findById_StockItem
    by (auto simp: wp_simps idle split: option.split dest!: known intro: moved)
qed

text \<open>The manual movement.\<close>

lemma moved_item_books:
  assumes "moved_item input e = Inr e'" and "sm_movementType m = mi_movementType input"
    and "sm_quantity m = mi_quantity input" and "ok \<longrightarrow> 0 \<le> mi_quantity input"
  shows "si_stockQuantity e' = book m (si_stockQuantity e)" "bookable ok m (si_stockQuantity e)"
    "si_id e' = si_id e" "si_tenantId e' = si_tenantId e"
  using assms
  by (auto simp: moved_item_def bookable_def increment_def decrement_def canDecrement_def
    split: StockMovementType.splits if_splits)

definition booked_row :: "uuid \<Rightarrow> uuid \<Rightarrow> movement_input \<Rightarrow> string \<Rightarrow> stock_movement" where
  "booked_row t k input author = stock_row t k (mi_movementType input) (mi_quantity input)
     (or_null (mi_referenceId input))
     (or_else (mi_note input) (''Stok Hareketi: '' @ movement_name (mi_movementType input))) author"

lemma booked_row_fields [simp]: "sm_productId (booked_row t k input author) = k"
    "sm_movementType (booked_row t k input author) = mi_movementType input"
    "sm_quantity (booked_row t k input author) = mi_quantity input"
    "sm_tenantId (booked_row t k input author) = t"
  by (simp_all add: booked_row_def stock_row_def)

text \<open>What writing a movement does, from any store in which the product is still there.\<close>

lemma wp_write_movement:
  assumes unique: "unique_rows p_id (products s)" and p: "find (live t k) (products s) = Some p"
    and item: "moved_item input e = Inr item" "si_id item = Some k" "si_tenantId item = t"
    and ok: "\<And>x lo f. Q x (outbox_update f (stock_movements_update (\<lambda>ms. ms @ [booked_row t k input author])
        (s\<lparr>products := update_row p_id k (saved_product cx item lo) (products s)\<rparr>)))"
    and err: "\<And>e. E e s"
  shows "wp (write_movement cx t k input author e) Q E s"
proof -
  have known: "find (\<lambda>p. p_id p = k \<and> p_tenantId p = t)
      (update_row p_id k (saved_product cx item lo) (products s)) \<noteq> None" for lo
  proof -
    have "saved_product cx item lo p \<in> set (update_row p_id k (saved_product cx item lo) (products s))"
      using lookup_row_mem [OF live_found(1) [OF unique p]] live_found(2) [OF unique p]
      by (auto simp: set_update_row)
    with live_found(2,3) [OF unique p] show ?thesis
      unfolding find_None_iff by (metis saved_product_frame(1,2))
  qed
  show ?thesis
    unfolding write_movement_def addStockMovement_row_def booked_row_def [symmetric] wp_funs wp_bindM
      wp_lift_sum item(1) sum.case
    by (rule wp_save_StockItem [OF unique p item(2,3)])
      (use known ok err in \<open>simp_all add: find_product_def low_stock_alarm_def wp_simps\<close>)
qed

lemma wp_addStockMovement:
  assumes unique: "unique_rows p_id (products s)" and ok: "ok \<longrightarrow> 0 \<le> mi_quantity input"
  shows "wp (addStockMovement cx t k input author) (\<lambda>_. part_step t silent ok s) (\<lambda>_. part_step t silent ok s) s"
proof -
  have idle: "part_step t silent ok s s"
    by (rule part_step_idle [OF unique]) simp_all
  have "wp (write_movement cx t k input author (mapToStockItem p c))
      (\<lambda>_. part_step t silent ok s) (\<lambda>_. part_step t silent ok s) s"
    if p: "find (live t k) (products s) = Some p" for p c
  proof (cases "moved_item input (mapToStockItem p c)")
    case (Inl e)
    then show ?thesis by (simp add: write_movement_def wp_simps idle)
  next
    case (Inr item)
    let ?m = "booked_row t k input author"
    note row = live_found [OF unique p]
    have books: "si_stockQuantity item = book ?m (p_stockQuantity p)" "bookable ok ?m (p_stockQuantity p)"
        "si_id item = Some k" "si_tenantId item = t"
      using moved_item_books [OF Inr, where m = ?m and ok = ok] row ok by simp_all
    have step: "part_step t silent ok s (outbox_update f (stock_movements_update (\<lambda>ms. ms @ [?m])
        (s\<lparr>products := update_row p_id k (saved_product cx item lo) (products s)\<rparr>)))" for lo f
      by (rule part_step_update [OF unique row(1), where ms = "[?m]" and f = "saved_product cx item lo"])
        (use books row in \<open>auto simp del: book.simps\<close>)
    show ?thesis
      by (rule wp_write_movement [OF unique p Inr books(3,4)]) (rule step idle)+
  qed
  then show ?thesis
    unfolding addStockMovement_def movement_item_def wp_bindM wp_findById_StockItem
    by (auto simp: wp_require idle split: option.split)
qed

text \<open>
  Two movements at once: both read the part before either of them writes. The second write
  puts back the quantity the first one had not seen yet.
\<close>

lemma interleaved_movements:
  assumes unique: "unique_rows p_id (products s)" and read: "movement_item t k s = (Inr e, s)"
    and first: "moved_item ia e = Inr ea" and second: "moved_item ib e = Inr eb"
    and runs: "write_movement cx t k ia au e s = (Inr xa, s1)" "write_movement cx t k ib bu e s1 = (Inr xb, s2)"
  shows "stock_of s2 k = si_stockQuantity eb \<and>
    stock_movements s2 = stock_movements s @ [booked_row t k ia au, booked_row t k ib bu]"
proof -
  have "wp (movement_item t k) (\<lambda>x _. find (live t k) (products s) \<noteq> None \<and> si_id x = Some k \<and> si_tenantId x = t)
      (\<lambda>_ _. True) s"
    unfolding movement_item_def wp_bindM wp_findById_StockItem
    by (auto simp: wp_require split: option.split dest: find_SomeD)
  from wp_ok [OF this read] obtain p where p: "find (live t k) (products s) = Some p"
    and e: "si_id e = Some k" "si_tenantId e = t"
    by auto
  have ids: "si_id ea = Some k" "si_tenantId ea = t" "si_id eb = Some k" "si_tenantId eb = t"
    using moved_item_books(3,4) [OF first, of "booked_row t k ia au" False]
      moved_item_books(3,4) [OF second, of "booked_row t k ib bu" False] e by simp_all
  let ?after = "\<lambda>s x input author s'. \<exists>lo f. s' = outbox_update f (stock_movements_update
      (\<lambda>ms. ms @ [booked_row t k input author])
      (s\<lparr>products := update_row p_id k (saved_product cx x lo) (products s)\<rparr>))"
  have "wp (write_movement cx t k ia au e) (\<lambda>_. ?after s ea ia au) (\<lambda>_ _. True) s"
    by (rule wp_write_movement [OF unique p first ids(1,2)]) auto
  from wp_ok [OF this runs(1)] obtain lo f where s1: "s1 = outbox_update f (stock_movements_update
      (\<lambda>ms. ms @ [booked_row t k ia au])
      (s\<lparr>products := update_row p_id k (saved_product cx ea lo) (products s)\<rparr>))"
    by blast
  have unique1: "unique_rows p_id (products s1)"
    unfolding s1 using unique by (simp add: unique_update_row)
  have row1: "lookup_row p_id k (products s1) = Some (saved_product cx ea lo p)"
    unfolding s1 using live_found(1) [OF unique p] by (simp add: lookup_update_row)
  have "live t k (saved_product cx ea lo p)"
    using find_SomeD [OF p] by (simp add: saved_product_def)
  then have "find (live t k) (products s1) \<noteq> None"
    using lookup_row_mem [OF row1] unfolding find_None_iff by blast
  then obtain p1 where p1: "find (live t k) (products s1) = Some p1"
    by blast
  have "wp (write_movement cx t k ib bu e) (\<lambda>_. ?after s1 eb ib bu) (\<lambda>_ _. True) s1"
    by (rule wp_write_movement [OF unique1 p1 second ids(3,4)]) auto
  from wp_ok [OF this runs(2)] obtain lo' f' where s2: "s2 = outbox_update f' (stock_movements_update
      (\<lambda>ms. ms @ [booked_row t k ib bu])
      (s1\<lparr>products := update_row p_id k (saved_product cx eb lo') (products s1)\<rparr>))"
    by blast
  have "stock_of s2 = (stock_of s1)(k := si_stockQuantity eb)"
    using stock_of_update [OF unique1 live_found(1) [OF unique1 p1], of s2 "saved_product cx eb lo'"] s2 by simp
  then show ?thesis
    by (simp add: s2 s1)
qed

text \<open>Every request on parts is a step of the machine, whatever it answers.\<close>

fun part_tenant :: "part_request \<Rightarrow> uuid" where
  "part_tenant (OpenPart t dto author) = t"
| "part_tenant (ChangePart t k dto) = t"
| "part_tenant (DeletePart t k) = t"
| "part_tenant (DecrementPart t k q ref author) = t"
| "part_tenant (IncrementPart t k q ref author) = t"
| "part_tenant (MovePart t k input author) = t"

lemma handle_part_step:
  assumes "unique_rows p_id (products s)" and "overwrites q \<longrightarrow> silent" and "ok \<longrightarrow> amounts_ok q"
  shows "part_step (part_tenant q) silent ok s (snd (handle_part cx q s))"
  unfolding wp_any [symmetric] using assms
  by (cases q) (simp_all add: wp_ignore wp_createStockItem wp_updateStockItem wp_deleteStockItem
    wp_decrementStock wp_incrementStock wp_addStockMovement)

section \<open>Orders and parts together\<close>

datatype shop_request = OnOrder stock_request | OnPart part_request

fun handle_shop :: "ctx \<Rightarrow> shop_request \<Rightarrow> unit dbM" where
  "handle_shop cx (OnOrder q) = handle_stock cx q"
| "handle_shop cx (OnPart q) = handle_part cx q"

fun shop_ok :: "shop_request \<Rightarrow> bool" where
  "shop_ok (OnOrder q) = quantities_ok q"
| "shop_ok (OnPart q) = amounts_ok q"

fun shop_silent :: "shop_request \<Rightarrow> bool" where
  "shop_silent (OnOrder q) = False"
| "shop_silent (OnPart q) = overwrites q"

text \<open>No stock and no quantity below zero.\<close>

definition levels :: "db \<Rightarrow> bool" where
  "levels s \<longleftrightarrow> stock_wf s \<and> stock_nonneg s"

lemma levels_shelf:
  assumes "unique_rows p_id (products s)"
  shows "list_all (\<lambda>p. 0 \<le> p_stockQuantity p) (products s) \<longleftrightarrow>
    (\<forall>pid q. fst (shelf_of s) pid = Some q \<longrightarrow> 0 \<le> q)"
  using lookup_row_unique [OF assms] lookup_row_mem [of p_id _ "products s"]
  by (fastforce simp: shelf_of_def list_all_iff)

lemma part_step_levels:
  assumes "levels s" and step: "part_step t silent True s s'"
  shows "levels s'"
proof -
  have unique: "unique_rows p_id (products s)"
    using assms(1) by (simp add: levels_def stock_wf_def)
  have wf: "stock_wf s'"
    using assms by (auto simp: levels_def stock_wf_def part_step_def list_all_iff option.pred_set)
  have "0 \<le> q" if "fst (shelf_of s') pid = Some q" for pid q
    by (rule warehouse_nonneg [of silent "fst (shelf_of s)" "snd (shelf_of s)" "fst (shelf_of s')" "snd (shelf_of s')"])
      (use that step assms(1) levels_shelf [OF unique] in \<open>auto simp: part_step_def levels_def stock_nonneg_def\<close>)
  then have "list_all (\<lambda>p. 0 \<le> p_stockQuantity p) (products s')"
    using step by (auto simp: levels_shelf part_step_def)
  with wf step assms(1) show ?thesis
    by (simp add: levels_def stock_nonneg_def part_step_def)
qed

lemma part_step_journal:
  assumes "journal n base s" and step: "part_step t False True s s'"
  shows "journal n base s'"
proof -
  have held: "held_stock (fst (shelf_of x)) = stock_of x" if "unique_rows p_id (products x)" for x
    by (auto simp: fun_eq_iff held_stock_def shelf_of_def stock_of_lookup [OF that] split: option.split)
  have "unique_rows p_id (products s)" "unique_rows p_id (products s')"
    using assms by (simp_all add: journal_def part_step_def)
  then show ?thesis
    using warehouse_journal [where st = "fst (shelf_of s)" and j = "snd (shelf_of s)" and
        st' = "fst (shelf_of s')" and j' = "snd (shelf_of s')" and n = n and base = base]
      assms by (simp add: held journal_def part_step_def) (simp add: shelf_of_def)
qed

lemma handle_shop_levels:
  assumes "levels s" and "shop_ok q"
  shows "wp (handle_shop cx q) (\<lambda>_. levels) (\<lambda>_. levels) s"
proof (cases q)
  case (OnOrder r)
  have "stock_inv True (committed s) s"
    using assms(1) by (simp add: stock_inv_def levels_def)
  then have "wp (handle_stock cx r) (\<lambda>_. stock_inv True (committed s)) (\<lambda>_. stock_inv True (committed s)) s"
    by (rule handle_stock_wp) (use assms(2) OnOrder in simp)
  then show ?thesis
    unfolding OnOrder handle_shop.simps by (rule wp_mono) (auto simp: stock_inv_def levels_def)
next
  case (OnPart r)
  have "unique_rows p_id (products s)"
    using assms(1) by (simp add: levels_def stock_wf_def)
  from part_step_levels [OF assms(1) handle_part_step [OF this, of r "overwrites r" True cx]] assms(2) OnPart
  show ?thesis by (simp add: wp_any)
qed

lemma handle_shop_journal:
  assumes "journal n base s" and "shop_ok q" and "\<not> shop_silent q"
  shows "wp (handle_shop cx q) (\<lambda>_. journal n base) (\<lambda>_. journal n base) s"
proof (cases q)
  case (OnOrder r)
  then show ?thesis
    using keeps_journal_orders [of n base cx r] assms(1) by (simp add: keeps_def)
next
  case (OnPart r)
  have "unique_rows p_id (products s)"
    using assms(1) by (simp add: journal_def)
  from part_step_journal [OF assms(1) handle_part_step [OF this, of r False True cx]] assms(2,3) OnPart
  show ?thesis by (simp add: wp_any)
qed

interpretation shop_levels: service_contract "handle_shop cx" "\<lambda>q _. shop_ok q" levels for cx
  by unfold_locales (rule handle_shop_levels)

interpretation shop_journal: service_contract "handle_shop cx" "\<lambda>q _. shop_ok q \<and> \<not> shop_silent q" "journal n base"
  for cx n base
  by unfold_locales (simp add: handle_shop_journal)

end
