(* ===== verification/Appointments.thy ===== *)
theory Appointments
  imports Warehouse
begin

text \<open>
  \<open>modules/appointments\<close>: the appointment entity, its Prisma repository (with the exclusion
  constraints of the table, \<open>exclusion\<close> in \<open>WorkOrderRepo\<close>) and the use cases: booking at the
  desk and on the public page, rescheduling, confirming, status changes, missed appointments
  and cancellation. Instants are milliseconds, a \<open>slotDate\<close> is the number of the day; a date of
  a request that does not parse (\<open>Invalid Date\<close>) is \<open>None\<close> where the code looks at it. The
  advisory lock of \<open>create\<close> has no effect on a run that is alone; texts of messages are left out.
\<close>

section \<open>AppointmentEntity\<close>

text \<open>The domain says \<open>IN_PROGRESS\<close> where the column says \<open>IN_SERVICE\<close>.\<close>

record appointment_entity =
  ae_id :: "uuid option"
  ae_tenantId :: uuid
  ae_customerId :: uuid
  ae_vehicleId :: uuid
  ae_serviceId :: "uuid option"
  ae_assignedMechanicId :: "uuid option"
  ae_assignedLift :: "string option"
  ae_slotDate :: int
  ae_slotStartTime :: int
  ae_slotEndTime :: int
  ae_status :: string
  ae_customerNotes :: "string option"
  ae_cancellationReason :: "string option"

definition canCancel_app :: "appointment_entity \<Rightarrow> bool" where
  "canCancel_app a \<longleftrightarrow> ae_status a \<noteq> ''COMPLETED'' \<and> ae_status a \<noteq> ''CANCELLED''"

definition cancel_app :: "string option \<Rightarrow> appointment_entity \<Rightarrow> exn + appointment_entity" where
  "cancel_app reason a =
     (if \<not> canCancel_app a then Inl (DomainError ''Tamamlanmis veya zaten iptal edilmis randevu iptal edilemez.'')
      else Inr (a\<lparr>ae_status := ''CANCELLED'', ae_cancellationReason := reason\<rparr>))"

definition canReschedule :: "appointment_entity \<Rightarrow> bool" where
  "canReschedule a \<longleftrightarrow> ae_status a \<noteq> ''COMPLETED'' \<and> ae_status a \<noteq> ''CANCELLED''"

definition reschedule ::
  "int \<Rightarrow> int \<Rightarrow> int \<Rightarrow> uuid option \<Rightarrow> string option \<Rightarrow> appointment_entity \<Rightarrow> exn + appointment_entity" where
  "reschedule slotDate slotStartTime slotEndTime mechanicId lift a =
     (if \<not> canReschedule a then Inl (DomainError ''Tamamlanmis veya iptal edilmis randevu yeniden planlanamaz.'')
      else Inr (a\<lparr>ae_slotDate := slotDate, ae_slotStartTime := slotStartTime, ae_slotEndTime := slotEndTime,
        ae_assignedMechanicId := or_keep mechanicId (ae_assignedMechanicId a),
        ae_assignedLift := or_keep lift (ae_assignedLift a)\<rparr>))"

definition confirm :: "appointment_entity \<Rightarrow> exn + appointment_entity" where
  "confirm a = (if ae_status a = ''CANCELLED'' then Inl (DomainError ''Iptal edilmis randevu onaylanamaz.'')
     else Inr (a\<lparr>ae_status := ''CONFIRMED''\<rparr>))"

definition markNoShow_entity :: "appointment_entity \<Rightarrow> exn + appointment_entity" where
  "markNoShow_entity a =
     (if ae_status a = ''COMPLETED'' \<or> ae_status a = ''CANCELLED'' then Inl (DomainError ''Gecersiz durum gecisi.'')
      else Inr (a\<lparr>ae_status := ''NO_SHOW''\<rparr>))"

definition hasTimeConflictWith :: "int \<Rightarrow> int \<Rightarrow> appointment_entity \<Rightarrow> bool" where
  "hasTimeConflictWith targetStart targetEnd a =
     (if ae_status a = ''CANCELLED'' \<or> ae_status a = ''NO_SHOW'' then False
      else ae_slotStartTime a < targetEnd \<and> ae_slotEndTime a > targetStart)"

definition isValidSlot :: "appointment_entity \<Rightarrow> bool" where
  "isValidSlot a \<longleftrightarrow> ae_slotStartTime a < ae_slotEndTime a"

section \<open>PrismaAppointmentRepository\<close>

definition domain_status :: "AppointmentStatus \<Rightarrow> string" where
  "domain_status st = (case st of A_PENDING \<Rightarrow> ''PENDING'' | A_CONFIRMED \<Rightarrow> ''CONFIRMED''
     | A_IN_SERVICE \<Rightarrow> ''IN_PROGRESS'' | A_COMPLETED \<Rightarrow> ''COMPLETED'' | A_CANCELLED \<Rightarrow> ''CANCELLED''
     | A_NO_SHOW \<Rightarrow> ''NO_SHOW'')"

text \<open>Prisma rejects a status that is not in the enum (\<open>None\<close>).\<close>

definition mapStatusToPrisma :: "string \<Rightarrow> AppointmentStatus option" where
  "mapStatusToPrisma st =
     (if st = [] then Some A_PENDING
      else if st = ''IN_PROGRESS'' then Some A_IN_SERVICE
      else if st = ''PENDING'' then Some A_PENDING
      else if st = ''CONFIRMED'' then Some A_CONFIRMED
      else if st = ''IN_SERVICE'' then Some A_IN_SERVICE
      else if st = ''COMPLETED'' then Some A_COMPLETED
      else if st = ''CANCELLED'' then Some A_CANCELLED
      else if st = ''NO_SHOW'' then Some A_NO_SHOW
      else None)"

definition mapToAppointment :: "appointment \<Rightarrow> appointment_entity" where
  "mapToAppointment r =
     \<lparr>ae_id = Some (a_id r), ae_tenantId = a_tenantId r, ae_customerId = a_customerId r,
      ae_vehicleId = a_vehicleId r, ae_serviceId = a_serviceId r,
      ae_assignedMechanicId = a_assignedMechanicId r, ae_assignedLift = a_assignedLift r,
      ae_slotDate = a_slotDate r, ae_slotStartTime = a_slotStartTime r, ae_slotEndTime = a_slotEndTime r,
      ae_status = domain_status (a_status r), ae_customerNotes = a_customerNotes r,
      ae_cancellationReason = a_cancellationReason r\<rparr>"

definition findById_Appointment :: "uuid \<Rightarrow> uuid \<Rightarrow> appointment_entity option dbM" where
  "findById_Appointment tenantId ident =
     bindM (find_first appointments (\<lambda>a. a_id a = ident \<and> a_tenantId a = tenantId)) (\<lambda>r.
       ret (map_option mapToAppointment r))"

definition findAll_Appointment :: "uuid \<Rightarrow> int option \<Rightarrow> appointment_entity list dbM" where
  "findAll_Appointment tenantId dateFilter =
     bindM (find_many appointments (\<lambda>a. a_tenantId a = tenantId \<and>
         (case dateFilter of None \<Rightarrow> True | Some d \<Rightarrow> a_slotDate a = d))) (\<lambda>rows.
       ret (map mapToAppointment (order_by (\<lambda>a b. a_slotStartTime a \<le> a_slotStartTime b) rows)))"

text \<open>The query of the conflict checks: a booked appointment that overlaps the slot.\<close>

definition overlapping :: "uuid \<Rightarrow> int \<Rightarrow> int \<Rightarrow> appointment \<Rightarrow> bool" where
  "overlapping tenantId start finish a \<longleftrightarrow> a_tenantId a = tenantId \<and> booked a \<and>
     a_slotStartTime a < finish \<and> a_slotEndTime a > start"

definition checkMechanicConflict :: "uuid \<Rightarrow> uuid \<Rightarrow> int \<Rightarrow> int \<Rightarrow> uuid option \<Rightarrow> bool dbM" where
  "checkMechanicConflict tenantId mechanicId start finish excludeId =
     (if mechanicId = [] then ret False
      else bindM (find_first appointments (\<lambda>a. overlapping tenantId start finish a \<and>
          a_assignedMechanicId a = Some mechanicId \<and>
          (case or_null excludeId of None \<Rightarrow> True | Some x \<Rightarrow> a_id a \<noteq> x))) (\<lambda>conflict.
        ret (conflict \<noteq> None)))"

definition checkMechanicOnLeave :: "uuid \<Rightarrow> uuid \<Rightarrow> int \<Rightarrow> bool dbM" where
  "checkMechanicOnLeave tenantId mechanicId date =
     (if mechanicId = [] then ret False
      else bindM (find_first mechanics (\<lambda>m. m_id m = mechanicId \<and> m_tenantId m = tenantId)) (\<lambda>mechanic.
        case mechanic of
          None \<Rightarrow> ret False
        | Some m \<Rightarrow> if m_userId m = [] then ret False
            else bindM (find_first staff_leaves (\<lambda>l. l_tenantId l = tenantId \<and> l_userId l = m_userId m \<and>
                l_status l \<noteq> L_CANCELLED \<and> l_startDate l \<le> day_of date \<and> day_of date \<le> l_endDate l)) (\<lambda>leave.
              ret (leave \<noteq> None))))"

definition checkLiftConflict :: "uuid \<Rightarrow> string \<Rightarrow> int \<Rightarrow> int \<Rightarrow> uuid option \<Rightarrow> bool dbM" where
  "checkLiftConflict tenantId lift start finish excludeId =
     (if lift = [] \<or> js_trim lift = [] then ret False
      else bindM (find_first appointments (\<lambda>a. overlapping tenantId start finish a \<and>
          a_assignedLift a = Some (js_trim lift) \<and>
          (case or_null excludeId of None \<Rightarrow> True | Some x \<Rightarrow> a_id a \<noteq> x))) (\<lambda>conflict.
        ret (conflict \<noteq> None)))"

text \<open>The \<open>catch\<close> blocks: an exclusion violation becomes a conflict.\<close>

definition as_conflict :: "exn \<Rightarrow> 'a dbM" where
  "as_conflict e = throw
     (if e = DbError (ExclusionViolation ''no_overlapping_mechanic'') then ConflictException
        ''Secilen teknisyenin bu saat araliginda baska bir randevusu bulunmaktadir.''
      else if e = DbError (ExclusionViolation ''no_overlapping_lift'') then ConflictException
        ''Secilen lift icin bu saat araliginda baska bir randevu bulunmaktadir.''
      else e)"

definition insert_appointment :: "appointment \<Rightarrow> appointment dbM" where
  "insert_appointment r = thenM (exclusion r) (create_row appointments appointments_update a_id r)"

definition valid_service :: "uuid \<Rightarrow> uuid option \<Rightarrow> uuid option dbM" where
  "valid_service tenantId serviceId =
     (case or_null serviceId of
        None \<Rightarrow> ret None
      | Some k \<Rightarrow> if \<not> is_uuid k then ret None
          else bindM (find_first services (\<lambda>sv. sv_id sv = k \<and> sv_tenantId sv = tenantId)) (\<lambda>srv.
            ret (map_option sv_id srv)))"

definition check_booking :: "appointment_entity \<Rightarrow> unit dbM" where
  "check_booking a =
     bindM (find_first customers (\<lambda>c. c_id c = ae_customerId a \<and> c_tenantId c = ae_tenantId a \<and>
         c_deletedAt c = None)) (\<lambda>customer.
     bindM (find_first vehicles (\<lambda>v. v_id v = ae_vehicleId a \<and> v_tenantId v = ae_tenantId a \<and>
         v_deletedAt v = None)) (\<lambda>found.
     thenM (ensure (customer \<noteq> None) (BadRequestException ''Musteri bulunamadi veya bu isletmeye ait degil.''))
     (bindM (require (BadRequestException ''Arac bulunamadi veya bu isletmeye ait degil.'') found) (\<lambda>vehicle.
     thenM (ensure (v_customerId vehicle = ae_customerId a) (BadRequestException
       ''Secilen arac belirtilen musteriye ait degil.''))
     (case or_null (ae_assignedMechanicId a) of
        None \<Rightarrow> ret ()
      | Some k \<Rightarrow> bindM (find_first mechanics (\<lambda>m. m_id m = k \<and> m_tenantId m = ae_tenantId a)) (\<lambda>mechanic.
          ensure (mechanic \<noteq> None) (BadRequestException ''Atanan teknisyen bu isletmeye ait degil.'')))))))"

text \<open>The conflict check repeated inside the transaction.\<close>

definition recheck ::
  "(appointment \<Rightarrow> string option) \<Rightarrow> string option \<Rightarrow> string \<Rightarrow> appointment_entity \<Rightarrow> unit dbM" where
  "recheck sel wanted message a =
     (case or_null wanted of
        None \<Rightarrow> ret ()
      | Some k \<Rightarrow> bindM (find_first appointments (\<lambda>r. sel r = Some k \<and>
            overlapping (ae_tenantId a) (ae_slotStartTime a) (ae_slotEndTime a) r)) (\<lambda>conflict.
          ensure (conflict = None) (ConflictException message)))"

definition appointment_row :: "uuid \<Rightarrow> uuid option \<Rightarrow> AppointmentStatus \<Rightarrow> appointment_entity \<Rightarrow> appointment" where
  "appointment_row ident serviceId status a =
     \<lparr>a_id = ident, a_tenantId = ae_tenantId a, a_customerId = ae_customerId a, a_vehicleId = ae_vehicleId a,
      a_serviceId = serviceId, a_assignedMechanicId = or_null (ae_assignedMechanicId a),
      a_assignedLift = or_null (ae_assignedLift a), a_slotDate = ae_slotDate a,
      a_slotStartTime = ae_slotStartTime a, a_slotEndTime = ae_slotEndTime a, a_status = status,
      a_customerNotes = or_null (ae_customerNotes a), a_cancellationReason = None\<rparr>"

definition create_Appointment :: "ctx \<Rightarrow> appointment_entity \<Rightarrow> appointment_entity dbM" where
  "create_Appointment cx a =
     thenM (check_booking a)
     (bindM (valid_service (ae_tenantId a) (ae_serviceId a)) (\<lambda>serviceId.
      transaction
       (thenM (recheck a_assignedMechanicId (ae_assignedMechanicId a)
          ''Secilen teknisyenin bu saat araliginda baska bir randevusu bulunmaktadir.'' a)
        (thenM (recheck a_assignedLift (ae_assignedLift a)
          (or_else (ae_assignedLift a) [] @ '' icin bu saat araliginda baska bir randevu bulunmaktadir.'') a)
        (bindM (require (DbError (MissingArgument ''status'')) (mapStatusToPrisma (ae_status a))) (\<lambda>status.
         bindM (fresh_id cx) (\<lambda>ident.
         bindM (try_catch (insert_appointment (appointment_row ident serviceId status a)) as_conflict) (\<lambda>r.
         ret (mapToAppointment r)))))))))"

definition saved_appointment ::
  "uuid option \<Rightarrow> AppointmentStatus \<Rightarrow> appointment_entity \<Rightarrow> appointment \<Rightarrow> appointment" where
  "saved_appointment serviceId status a r =
     r\<lparr>a_slotDate := ae_slotDate a, a_slotStartTime := ae_slotStartTime a, a_slotEndTime := ae_slotEndTime a,
       a_serviceId := serviceId, a_assignedMechanicId := or_null (ae_assignedMechanicId a),
       a_assignedLift := or_null (ae_assignedLift a), a_status := status,
       a_customerNotes := or_keep (ae_customerNotes a) (a_customerNotes r),
       a_cancellationReason := or_keep (ae_cancellationReason a) (a_cancellationReason r)\<rparr>"

text \<open>The mechanic is only held to exist (the foreign key).\<close>

definition save_Appointment :: "appointment_entity \<Rightarrow> appointment_entity dbM" where
  "save_Appointment a =
     bindM (find_first appointments (\<lambda>r. Some (a_id r) = ae_id a \<and> a_tenantId r = ae_tenantId a)) (\<lambda>found.
     bindM (require (BadRequestException ''Randevu bulunamadi veya bu isletmeye ait degil.'') found) (\<lambda>existing.
     bindM (case ae_serviceId a of
         None \<Rightarrow> ret (a_serviceId existing)
       | Some k \<Rightarrow> valid_service (ae_tenantId a) (Some k)) (\<lambda>serviceId.
     bindM (require (DbError (MissingArgument ''status'')) (mapStatusToPrisma (ae_status a))) (\<lambda>status.
     bindM (reads mechanics) (\<lambda>known.
     thenM (ensure (case or_null (ae_assignedMechanicId a) of None \<Rightarrow> True | Some k \<Rightarrow> k \<in> m_id ` set known)
       (DbError (ForeignKeyViolation ''appointments_assigned_mechanic_id_fkey'')))
     (bindM (try_catch (update_appointment (a_id existing) (saved_appointment serviceId status a)) as_conflict) (\<lambda>r.
     ret (mapToAppointment r))))))))"

definition reason_text :: "string \<Rightarrow> string" where
  "reason_text reason =
     (if reason = ''CUSTOMER_REQUEST'' then ''Musteri randevuyu iptal etti / vazgecti''
      else if reason = ''PARTS_UNAVAILABLE'' then ''Gerekli yedek parca temin edilemedi''
      else if reason = ''CAPACITY_FULL'' then ''Servis atolye lift kapasitesi dolu''
      else if reason = ''PRICE_DISAGREEMENT'' then ''Fiyat konusunda anlasilamadi''
      else if reason = ''NO_SHOW'' then ''Randevuya gelinmedi (No-Show)''
      else if reason = ''OTHER'' then ''Diger gerekce''
      else reason)"

definition cancelAppointmentAndWorkOrder :: "ctx \<Rightarrow> uuid \<Rightarrow> uuid \<Rightarrow> string \<Rightarrow> appointment_entity dbM" where
  "cancelAppointmentAndWorkOrder cx tenantId ident reason = transaction
     (bindM (find_first appointments (\<lambda>a. a_id a = ident \<and> a_tenantId a = tenantId)) (\<lambda>existing.
      thenM (ensure (existing \<noteq> None) (BadRequestException ''Randevu bulunamadi veya bu isletmeye ait degil.''))
      (bindM (update_appointment ident (\<lambda>a. a\<lparr>a_status := A_CANCELLED, a_cancellationReason := Some reason\<rparr>)) (\<lambda>updatedApp.
      bindM (find_first work_orders (\<lambda>w. wo_appointmentId w = Some ident \<and> wo_tenantId w = tenantId)) (\<lambda>workOrder.
      thenM (case workOrder of
          None \<Rightarrow> ret ()
        | Some w \<Rightarrow> whenM (wo_status w \<noteq> CANCELLED)
            (thenM (update_order cx (wo_id w) (\<lambda>w. w\<lparr>wo_status := CANCELLED\<rparr>))
            (bindM (fresh_id cx) (\<lambda>noteId.
             thenM (create_row work_order_notes work_order_notes_update n_id
               \<lparr>n_id = noteId, n_workOrderId = wo_id w, n_authorId = None, n_authorName = ''SISTEM'',
                n_text = ''Bagli randevu iptal edildi. Gerekce: '' @ reason_text reason, n_isInternal = True\<rparr>)
             (ret ())))))
      (ret (mapToAppointment updatedApp)))))))"

definition findTenantBySlug :: "string \<Rightarrow> tenant option dbM" where
  "findTenantBySlug slug = find_first tenants (\<lambda>t. t_slug t = slug \<and> t_isActive t)"

definition findActiveOnlineBays :: "uuid \<Rightarrow> string list dbM" where
  "findActiveOnlineBays tenantId =
     bindM (find_many workshop_bays (\<lambda>b. b_tenantId b = tenantId \<and> b_isActive b \<and> b_isAvailableForOnline b)) (\<lambda>bays.
       ret (map b_name (order_by (\<lambda>a b. b_orderIndex a \<le> b_orderIndex b) bays)))"

text \<open>\<open>s.split(/\s+/)\<close> of a trimmed string: the words; an empty string gives one empty word.\<close>

function split_spaces :: "string \<Rightarrow> string list" where
  "split_spaces s =
     (let word = takeWhile (\<lambda>c. \<not> is_space c) s; rest = dropWhile (\<lambda>c. \<not> is_space c) s
      in if rest = [] then [word] else word # split_spaces (dropWhile is_space rest))"
  by auto
termination
proof (relation "measure length")
  fix s word rest assume "word = takeWhile (\<lambda>c. \<not> is_space c) s"
    and rest: "rest = dropWhile (\<lambda>c. \<not> is_space c) s" "rest \<noteq> []"
  from rest(2) obtain c cs where c: "rest = c # cs"
    by (cases rest) simp_all
  then have "is_space c"
    using rest hd_dropWhile [of "\<lambda>c. \<not> is_space c" s] by simp
  then have "length (dropWhile is_space rest) \<le> length cs"
    using c length_dropWhile_le [of is_space cs] by simp
  also have "length cs < length rest"
    using c by simp
  also have "length rest \<le> length s"
    using rest(1) length_dropWhile_le [of "\<lambda>c. \<not> is_space c" s] by simp
  finally show "(dropWhile is_space rest, s) \<in> measure length"
    by simp
qed simp

declare split_spaces.simps [simp del]

fun join_spaces :: "string list \<Rightarrow> string" where
  "join_spaces [] = []"
| "join_spaces [w] = w"
| "join_spaces (w # v # ws) = w @ '' '' @ join_spaces (v # ws)"

definition findOrCreateCustomerForPublic :: "ctx \<Rightarrow> uuid \<Rightarrow> string \<Rightarrow> string \<Rightarrow> customer dbM" where
  "findOrCreateCustomerForPublic cx tenantId name phone =
     (let nameParts = split_spaces (js_trim name);
          firstName = or_else (Some (hd nameParts)) ''Musteri'';
          lastName = js_trim (join_spaces (tl nameParts));
          cleanPhone = js_trim phone
      in bindM (find_first customers (\<lambda>c. c_tenantId c = tenantId \<and> c_phone c = cleanPhone)) (\<lambda>customer.
         case customer of
           None \<Rightarrow> bindM (fresh_id cx) (\<lambda>ident. create_row customers customers_update c_id
             \<lparr>c_id = ident, c_tenantId = tenantId, c_type = INDIVIDUAL, c_firstName = firstName, c_lastName = lastName,
              c_companyTitle = None, c_phone = cleanPhone, c_email = None, c_taxNumber = Some ''11111111111'',
              c_taxOffice = None, c_address = None, c_city = None, c_district = None, c_creditLimit = 0,
              c_notes = None, c_isAnonymized = False, c_isLead = True, c_deletedAt = None\<rparr>)
         | Some c \<Rightarrow> if c_deletedAt c \<noteq> None
             then update_by customers customers_update c_id (c_id c) (\<lambda>c. c\<lparr>c_deletedAt := None\<rparr>)
             else ret c))"

definition findOrCreateVehicleForPublic :: "ctx \<Rightarrow> uuid \<Rightarrow> uuid \<Rightarrow> string \<Rightarrow> string option \<Rightarrow> vehicle dbM" where
  "findOrCreateVehicleForPublic cx tenantId customerId plate brandModel =
     (let cleanPlate = filter (\<lambda>c. \<not> is_space c) (to_upper plate);
          brandParts = (case or_null brandModel of None \<Rightarrow> [] | Some b \<Rightarrow> split_spaces (js_trim b));
          brand = (case brandParts of [] \<Rightarrow> ''Belirtilmedi'' | b # _ \<Rightarrow> or_else (Some b) ''Belirtilmedi'');
          model = or_else (Some (js_trim (join_spaces (tl brandParts)))) ''Genel Model''
      in bindM (find_first vehicles (\<lambda>v. v_tenantId v = tenantId \<and> v_plate v = cleanPlate)) (\<lambda>vehicle.
         case vehicle of
           None \<Rightarrow> bindM (fresh_id cx) (\<lambda>ident.
             thenM (unique_index vehicles ''vehicles_tenant_id_plate_key''
               (\<lambda>v. v_tenantId v = tenantId \<and> v_plate v = cleanPlate))
             (create_row vehicles vehicles_update v_id
               \<lparr>v_id = ident, v_tenantId = tenantId, v_customerId = customerId, v_plate = cleanPlate,
                v_brand = brand, v_model = model, v_year = int (year cx), v_vin = None, v_engineNo = None,
                v_color = None, v_fuelType = DIESEL, v_transmission = TM_MANUAL, v_currentKm = 0,
                v_deletedAt = None\<rparr>))
         | Some v \<Rightarrow>
             thenM (ensure (v_customerId v = customerId) (BadRequestException
               ''Arac bilgileri servis tarafindan dogrulanmalidir. Lutfen isletmeyle iletisime geciniz.''))
             (if v_deletedAt v \<noteq> None
              then update_by vehicles vehicles_update v_id (v_id v) (\<lambda>v. v\<lparr>v_deletedAt := None\<rparr>)
              else ret v)))"

section \<open>Use cases\<close>

definition grace :: int where
  "grace = 2 * 60 * 1000"

record booking_input =
  bi_customerId :: uuid
  bi_vehicleId :: uuid
  bi_serviceId :: "uuid option"
  bi_assignedMechanicId :: "uuid option"
  bi_assignedLift :: "string option"
  bi_slotDate :: int
  bi_start :: "int option"
  bi_end :: "int option"
  bi_customerNotes :: "string option"

text \<open>A comparison with \<open>Invalid Date\<close> is false.\<close>

definition valid_slot :: "int option \<Rightarrow> int option \<Rightarrow> (int \<times> int) option" where
  "valid_slot start finish = (case (start, finish) of
     (Some st, Some en) \<Rightarrow> if st < en then Some (st, en) else None | _ \<Rightarrow> None)"

definition check_mechanic_free :: "uuid \<Rightarrow> uuid option \<Rightarrow> int \<Rightarrow> int \<Rightarrow> uuid option \<Rightarrow> unit dbM" where
  "check_mechanic_free tenantId mechanicId start finish excludeId =
     (case or_null mechanicId of
        None \<Rightarrow> ret ()
      | Some m \<Rightarrow>
          bindM (checkMechanicOnLeave tenantId m start) (\<lambda>onLeave.
          thenM (ensure (\<not> onLeave) (ConflictException
            ''Secilen teknisyen randevu tarihinde izinli veya raporludur.''))
          (bindM (checkMechanicConflict tenantId m start finish excludeId) (\<lambda>conflict.
          ensure (\<not> conflict) (ConflictException
            ''Secilen teknisyenin bu saat araliginda baska bir randevusu bulunmaktadir.'')))))"

definition check_lift_free :: "uuid \<Rightarrow> string option \<Rightarrow> int \<Rightarrow> int \<Rightarrow> uuid option \<Rightarrow> unit dbM" where
  "check_lift_free tenantId lift start finish excludeId =
     (case or_null lift of
        None \<Rightarrow> ret ()
      | Some l \<Rightarrow>
          bindM (checkLiftConflict tenantId l start finish excludeId) (\<lambda>conflict.
          ensure (\<not> conflict) (ConflictException
            (l @ '' icin bu saat araliginda baska bir randevu bulunmaktadir.''))))"

definition booking_entity :: "uuid \<Rightarrow> booking_input \<Rightarrow> int \<Rightarrow> int \<Rightarrow> appointment_entity" where
  "booking_entity tenantId dto start finish =
     \<lparr>ae_id = None, ae_tenantId = tenantId, ae_customerId = bi_customerId dto, ae_vehicleId = bi_vehicleId dto,
      ae_serviceId = or_null (bi_serviceId dto), ae_assignedMechanicId = or_null (bi_assignedMechanicId dto),
      ae_assignedLift = or_null (bi_assignedLift dto), ae_slotDate = bi_slotDate dto,
      ae_slotStartTime = start, ae_slotEndTime = finish, ae_status = ''CONFIRMED'',
      ae_customerNotes = or_null (bi_customerNotes dto), ae_cancellationReason = None\<rparr>"

definition createAppointment :: "ctx \<Rightarrow> uuid \<Rightarrow> booking_input \<Rightarrow> appointment_entity dbM" where
  "createAppointment cx tenantId dto =
     bindM (require (BadRequestException ''Randevu bitis saati baslangic saatinden sonra olmalidir.'')
       (valid_slot (bi_start dto) (bi_end dto))) (\<lambda>(start, finish).
     thenM (ensure (\<not> start < now cx - grace) (BadRequestException
       ''Gecmis bir tarih veya saate randevu olusturulamaz.''))
     (thenM (check_mechanic_free tenantId (bi_assignedMechanicId dto) start finish None)
     (thenM (check_lift_free tenantId (bi_assignedLift dto) start finish None)
     (bindM (create_Appointment cx (booking_entity tenantId dto start finish)) (\<lambda>created.
     thenM (emit (WsEmit tenantId ''appointment:created'' (the (ae_id created))))
     (thenM (let delay = start - 2 * 60 * 60 * 1000 - now cx
             in whenM (delay > 0 \<and> the (ae_id created) \<noteq> []) (emit (Reminder (the (ae_id created)) delay)))
     (thenM (emit (Notify tenantId ''APPOINTMENT'' ''Yeni Randevu Olusturuldu''))
     (thenM (emit (AuditLog tenantId ''appointment.created'' ''Appointment'' (the (ae_id created))))
     (ret created)))))))))"

record public_booking =
  pb_customerName :: string
  pb_customerPhone :: string
  pb_plate :: string
  pb_brandModel :: "string option"
  pb_serviceId :: "uuid option"
  pb_slotDate :: int
  pb_start :: "int option"
  pb_end :: "int option"
  pb_customerNotes :: "string option"

text \<open>The first bay without a conflict.\<close>

fun free_bay :: "uuid \<Rightarrow> int \<Rightarrow> int \<Rightarrow> string list \<Rightarrow> string option dbM" where
  "free_bay tenantId start finish [] = ret None"
| "free_bay tenantId start finish (bay # bays) =
     bindM (checkLiftConflict tenantId bay start finish None) (\<lambda>conflict.
       if \<not> conflict then ret (Some bay) else free_bay tenantId start finish bays)"

definition default_bays :: "string list" where
  "default_bays = [''Lift 1 (Hizli Kabul)'', ''Lift 2 (Mekanik)'', ''Kabul Alani'']"

definition createPublicAppointment :: "ctx \<Rightarrow> string \<Rightarrow> public_booking \<Rightarrow> appointment_entity dbM" where
  "createPublicAppointment cx slug dto =
     bindM (findTenantBySlug slug) (\<lambda>foundTenant.
     bindM (require (NotFoundException ''Ilgili isletme bulunamadi veya online randevu kapali.'') foundTenant) (\<lambda>tenant.
     bindM (require (BadRequestException ''Gecersiz randevu saat araligi. Bitis saati baslangictan sonra olmalidir.'')
       (valid_slot (pb_start dto) (pb_end dto))) (\<lambda>(start, finish).
     thenM (ensure (\<not> start < now cx - grace) (BadRequestException
       ''Gecmis bir tarih veya saate randevu olusturulamaz.''))
     (bindM (findActiveOnlineBays (t_id tenant)) (\<lambda>onlineBays.
     let bays = (if onlineBays \<noteq> [] then onlineBays else default_bays) in
     bindM (free_bay (t_id tenant) start finish bays) (\<lambda>bay.
     bindM (require (ConflictException ''Secilen saat araliginda tum servis kabul alanlari doludur.'') (or_null bay)) (\<lambda>lift.
     bindM (findOrCreateCustomerForPublic cx (t_id tenant) (pb_customerName dto) (pb_customerPhone dto)) (\<lambda>customer.
     bindM (findOrCreateVehicleForPublic cx (t_id tenant) (c_id customer) (pb_plate dto) (pb_brandModel dto)) (\<lambda>vehicle.
     bindM (create_Appointment cx
       \<lparr>ae_id = None, ae_tenantId = t_id tenant, ae_customerId = c_id customer, ae_vehicleId = v_id vehicle,
        ae_serviceId = or_null (pb_serviceId dto), ae_assignedMechanicId = None, ae_assignedLift = Some lift,
        ae_slotDate = pb_slotDate dto, ae_slotStartTime = start, ae_slotEndTime = finish,
        ae_status = ''PENDING'', ae_customerNotes = or_null (pb_customerNotes dto),
        ae_cancellationReason = None\<rparr>) (\<lambda>created.
     thenM (emit (WsEmit (t_id tenant) ''appointment:public_created'' (the (ae_id created))))
     (thenM (emit (Notify (t_id tenant) ''APPOINTMENT'' ''Yeni Online Musteri Randevusu''))
     (ret created))))))))))))"

record reschedule_input =
  rs_slotDate :: int
  rs_start :: int
  rs_end :: int
  rs_assignedMechanicId :: "uuid option"
  rs_assignedLift :: "string option"

definition rescheduleAppointment :: "ctx \<Rightarrow> uuid \<Rightarrow> uuid \<Rightarrow> reschedule_input \<Rightarrow> appointment_entity dbM" where
  "rescheduleAppointment cx tenantId ident dto =
     bindM (findById_Appointment tenantId ident) (\<lambda>found.
     bindM (require (NotFoundException ''Randevu bulunamadi.'') found) (\<lambda>app.
     thenM (ensure (canReschedule app) (BadRequestException
       ''Tamamlanmis veya iptal edilmis randevular yeniden planlanamaz.''))
     (thenM (ensure (\<not> rs_start dto < now cx - grace) (BadRequestException
       ''Gecmis bir tarih veya saate randevu yeniden planlanamaz.''))
     (thenM (check_mechanic_free tenantId (or_keep (rs_assignedMechanicId dto) (ae_assignedMechanicId app))
       (rs_start dto) (rs_end dto) (Some ident))
     (thenM (check_lift_free tenantId (or_keep (rs_assignedLift dto) (ae_assignedLift app))
       (rs_start dto) (rs_end dto) (Some ident))
     (bindM (lift_sum (reschedule (rs_slotDate dto) (rs_start dto) (rs_end dto) (rs_assignedMechanicId dto)
       (rs_assignedLift dto) app)) (\<lambda>moved.
     bindM (save_Appointment moved) (\<lambda>updated.
     thenM (emit (WsEmit tenantId ''appointment:rescheduled'' ident))
     (thenM (emit (Notify tenantId ''APPOINTMENT'' (if rs_start dto < ae_slotStartTime app
       then ''Randevu Erkene Alindi'' else ''Randevu Yeniden Planlandi'')))
     (thenM (emit (AuditLog tenantId ''appointment.rescheduled'' ''Appointment'' ident))
     (ret updated)))))))))))"

definition approveAppointment :: "uuid \<Rightarrow> uuid \<Rightarrow> appointment_entity dbM" where
  "approveAppointment tenantId ident =
     bindM (findById_Appointment tenantId ident) (\<lambda>found.
     bindM (require (NotFoundException ''Randevu bulunamadi.'') found) (\<lambda>app.
     bindM (lift_sum (confirm app)) (\<lambda>confirmed.
     bindM (save_Appointment confirmed) (\<lambda>updated.
     thenM (emit (WsEmit tenantId ''appointment:approved'' ident))
     (thenM (emit (Notify tenantId ''APPOINTMENT'' ''Randevu Onaylandi''))
     (bindM (find_first customers (\<lambda>c. c_id c = ae_customerId app)) (\<lambda>customer.
     thenM (whenM (truthy (map_option c_phone customer))
       (emit (Notify tenantId ''APPOINTMENT'' ''Randevunuz Onaylandi'')))
     (thenM (emit (AuditLog tenantId ''appointment.approved'' ''Appointment'' ident))
     (ret updated)))))))))"

definition updateAppointmentStatus :: "uuid \<Rightarrow> uuid \<Rightarrow> string \<Rightarrow> string option \<Rightarrow> appointment_entity dbM" where
  "updateAppointmentStatus tenantId ident status cancellationReason =
     bindM (findById_Appointment tenantId ident) (\<lambda>found.
     bindM (require (NotFoundException ''Randevu bulunamadi.'') found) (\<lambda>app.
     bindM (save_Appointment (app\<lparr>ae_status := status,
       ae_cancellationReason := or_keep (or_null cancellationReason) (ae_cancellationReason app)\<rparr>)) (\<lambda>updated.
     thenM (emit (WsEmit tenantId ''appointment:status_changed'' ident))
     (thenM (emit (AuditLog tenantId ''appointment.status_changed'' ''Appointment'' ident))
     (ret updated)))))"

definition markNoShow :: "uuid \<Rightarrow> uuid \<Rightarrow> appointment_entity dbM" where
  "markNoShow tenantId ident =
     bindM (findById_Appointment tenantId ident) (\<lambda>found.
     bindM (require (NotFoundException ''Randevu bulunamadi.'') found) (\<lambda>app.
     bindM (lift_sum (markNoShow_entity app)) (\<lambda>missed.
     bindM (save_Appointment missed) (\<lambda>updated.
     thenM (emit (WsEmit tenantId ''appointment:no_show'' ident))
     (thenM (emit (AuditLog tenantId ''appointment.no_show'' ''Appointment'' ident))
     (ret updated))))))"

definition cancelAppointment :: "ctx \<Rightarrow> uuid \<Rightarrow> uuid \<Rightarrow> string \<Rightarrow> appointment_entity dbM" where
  "cancelAppointment cx tenantId ident reason =
     bindM (findById_Appointment tenantId ident) (\<lambda>found.
     bindM (require (NotFoundException ''Randevu bulunamadi.'') found) (\<lambda>app.
     thenM (ensure (canCancel_app app) (BadRequestException
       ''Tamamlanmis veya zaten iptal edilmis randevular iptal edilemez.''))
     (bindM (cancelAppointmentAndWorkOrder cx tenantId ident reason) (\<lambda>cancelled.
     thenM (emit (WsEmit tenantId ''appointment:cancelled'' ident))
     (thenM (emit (Notify tenantId ''APPOINTMENT'' ''Randevu Iptal Edildi''))
     (thenM (emit (AuditLog tenantId ''appointment.cancelled'' ''Appointment'' ident))
     (ret cancelled)))))))"

definition getAppointmentById :: "uuid \<Rightarrow> string \<Rightarrow> appointment_entity dbM" where
  "getAppointmentById tenantId ident =
     thenM (ensure (is_uuid ident) (NotFoundException ''Gecersiz veya bulunamayan randevu.''))
     (bindM (findById_Appointment tenantId ident) (\<lambda>app.
       require (NotFoundException ''Randevu bulunamadi.'') app))"

end
