(* ===== verification/Vehicles.thy ===== *)
theory Vehicles
  imports Appointments CurrentAccounts
begin

text \<open>
  \<open>modules/vehicles\<close>: the vehicle entity with its domain rules, the Prisma repository and every use
  case. The dates of inspection and insurance are left out (they are only passed on), and of the
  relations an entity carries its owner and the status of its last order. Database texts in
  messages are left out.
\<close>

section \<open>The entity (vehicle.entity.ts)\<close>

record vehicle_entity =
  ve_id :: "uuid option"
  ve_tenantId :: uuid
  ve_customerId :: uuid
  ve_plate :: string
  ve_brand :: string
  ve_model :: string
  ve_year :: int
  ve_vin :: "string option"
  ve_engineNo :: "string option"
  ve_color :: "string option"
  ve_fuelType :: FuelType
  ve_transmission :: TransmissionType
  ve_currentKm :: int
  ve_deletedAt :: "int option"
  ve_customer :: "customer option"
  ve_lastServiceStatus :: "WorkOrderStatus option"

text \<open>\<open>replace(/\s+/g, ' ')\<close>.\<close>

function squeeze :: "string \<Rightarrow> string" where
  "squeeze [] = []"
| "squeeze (c # s) = (if is_space c then CHR '' '' # squeeze (dropWhile is_space s) else c # squeeze s)"
  by pat_completeness auto
termination
  by (relation "measure length") (auto simp: le_imp_less_Suc length_dropWhile_le)

declare squeeze.simps(2) [simp del]

definition normalizePlate :: "string \<Rightarrow> string" where
  "normalizePlate plate = (if plate = [] then [] else squeeze (to_upper (js_trim plate)))"

definition tidy_code :: "string option \<Rightarrow> string option" where
  "tidy_code x = map_option (\<lambda>s. to_upper (js_trim s)) (or_null x)"

definition validateDomainRules :: "ctx \<Rightarrow> vehicle_entity \<Rightarrow> exn + vehicle_entity" where
  "validateDomainRules cx e =
     (if ve_year e < 1950 \<or> ve_year e > int (year cx) + 1
      then Inl (DomainError ''Arac model yili gecersiz.'')
      else if ve_currentKm e < 0 then Inl (DomainError ''Arac kilometresi negatif olamaz.'')
      else if (case or_null (ve_vin e) of None \<Rightarrow> False | Some vin \<Rightarrow> length vin \<noteq> 17)
      then Inl (DomainError ''Sasi numarasi (VIN) 17 karakter olmalidir.'')
      else Inr e)"

definition new_VehicleEntity :: "ctx \<Rightarrow> vehicle_entity \<Rightarrow> exn + vehicle_entity" where
  "new_VehicleEntity cx props = validateDomainRules cx
     (props\<lparr>ve_plate := normalizePlate (ve_plate props), ve_vin := tidy_code (ve_vin props),
       ve_engineNo := tidy_code (ve_engineNo props)\<rparr>)"

definition updateKilometer :: "int \<Rightarrow> vehicle_entity \<Rightarrow> exn + vehicle_entity" where
  "updateKilometer newKm e =
     (if newKm < 0 then Inl (DomainError ''Arac kilometresi negatif olamaz.'') else Inr (e\<lparr>ve_currentKm := newKm\<rparr>))"

record vehicle_update =
  vu_plate :: "string option"
  vu_brand :: "string option"
  vu_model :: "string option"
  vu_year :: "int option"
  vu_vin :: "string option"
  vu_engineNo :: "string option"
  vu_color :: "string option"
  vu_fuelType :: "FuelType option"
  vu_transmission :: "TransmissionType option"
  vu_currentKm :: "int option"

definition updateDetails :: "ctx \<Rightarrow> vehicle_update \<Rightarrow> vehicle_entity \<Rightarrow> exn + vehicle_entity" where
  "updateDetails cx props e =
     (let e1 = e\<lparr>ve_plate := (case or_null (vu_plate props) of None \<Rightarrow> ve_plate e | Some p \<Rightarrow> normalizePlate p),
            ve_brand := or_else (vu_brand props) (ve_brand e), ve_model := or_else (vu_model props) (ve_model e),
            ve_year := (case vu_year props of None \<Rightarrow> ve_year e | Some y \<Rightarrow> y),
            ve_vin := (if vu_vin props = None then ve_vin e else tidy_code (vu_vin props)),
            ve_engineNo := (if vu_engineNo props = None then ve_engineNo e else tidy_code (vu_engineNo props)),
            ve_color := or_keep (vu_color props) (ve_color e),
            ve_fuelType := (case vu_fuelType props of None \<Rightarrow> ve_fuelType e | Some f \<Rightarrow> f),
            ve_transmission := (case vu_transmission props of None \<Rightarrow> ve_transmission e | Some g \<Rightarrow> g)\<rparr>
      in case vu_currentKm props of
           None \<Rightarrow> validateDomainRules cx e1
         | Some km \<Rightarrow> (case updateKilometer km e1 of Inl err \<Rightarrow> Inl err | Inr e2 \<Rightarrow> validateDomainRules cx e2))"

section \<open>The repository (prisma-vehicle.repository.ts)\<close>

text \<open>The orders a query includes: the newest ones (insertion order), or none.\<close>

definition newest_orders :: "nat \<Rightarrow> db \<Rightarrow> vehicle \<Rightarrow> work_order list" where
  "newest_orders n s v = take n (filter (\<lambda>w. wo_vehicleId w = v_id v) (rev (work_orders s)))"

definition entity_of_vehicle :: "nat \<Rightarrow> db \<Rightarrow> vehicle \<Rightarrow> vehicle_entity" where
  "entity_of_vehicle n s v =
     \<lparr>ve_id = Some (v_id v), ve_tenantId = v_tenantId v, ve_customerId = v_customerId v, ve_plate = v_plate v,
      ve_brand = v_brand v, ve_model = v_model v, ve_year = v_year v, ve_vin = v_vin v, ve_engineNo = v_engineNo v,
      ve_color = v_color v, ve_fuelType = v_fuelType v, ve_transmission = v_transmission v,
      ve_currentKm = v_currentKm v, ve_deletedAt = v_deletedAt v,
      ve_customer = find (\<lambda>c. c_id c = v_customerId v) (customers s),
      ve_lastServiceStatus = (case newest_orders n s v of [] \<Rightarrow> None | w # _ \<Rightarrow> Some (wo_status w))\<rparr>"

definition mapToVehicle :: "ctx \<Rightarrow> nat \<Rightarrow> vehicle \<Rightarrow> vehicle_entity dbM" where
  "mapToVehicle cx n v = bindM (reads (\<lambda>s. entity_of_vehicle n s v)) (\<lambda>e. lift_sum (new_VehicleEntity cx e))"

primrec mapToVehicles :: "ctx \<Rightarrow> nat \<Rightarrow> vehicle list \<Rightarrow> vehicle_entity list dbM" where
  "mapToVehicles cx n [] = ret []"
| "mapToVehicles cx n (v # vs) = bindM (mapToVehicle cx n v) (\<lambda>e. bindM (mapToVehicles cx n vs) (\<lambda>es. ret (e # es)))"

definition map_found :: "ctx \<Rightarrow> nat \<Rightarrow> vehicle option \<Rightarrow> vehicle_entity option dbM" where
  "map_found cx n found = (case found of None \<Rightarrow> ret None | Some v \<Rightarrow> bindM (mapToVehicle cx n v) (\<lambda>e. ret (Some e)))"

text \<open>The relation filter \<open>customer: { deletedAt: null }\<close>.\<close>

definition owner_active :: "db \<Rightarrow> vehicle \<Rightarrow> bool" where
  "owner_active s v \<longleftrightarrow> list_ex (\<lambda>c. c_id c = v_customerId v \<and> c_deletedAt c = None) (customers s)"

definition findById_Vehicle :: "ctx \<Rightarrow> uuid \<Rightarrow> uuid \<Rightarrow> vehicle_entity option dbM" where
  "findById_Vehicle cx tenantId ident =
     bindM (reads (\<lambda>s. find (\<lambda>v. v_id v = ident \<and> v_tenantId v = tenantId \<and> v_deletedAt v = None \<and> owner_active s v)
       (vehicles s))) (map_found cx 10)"

definition findByPlate :: "ctx \<Rightarrow> uuid \<Rightarrow> string \<Rightarrow> vehicle_entity option dbM" where
  "findByPlate cx tenantId plate =
     (let cleanPlate = normalizePlate plate in
      bindM (reads (\<lambda>s. find (\<lambda>v. v_tenantId v = tenantId \<and> v_plate v = cleanPlate \<and> v_deletedAt v = None \<and> owner_active s v)
        (vehicles s))) (map_found cx 0))"

definition findByPlateAny :: "ctx \<Rightarrow> uuid \<Rightarrow> string \<Rightarrow> vehicle_entity option dbM" where
  "findByPlateAny cx tenantId plate =
     (let cleanPlate = normalizePlate plate in
      bindM (reads (\<lambda>s. find (\<lambda>v. v_tenantId v = tenantId \<and> v_plate v = cleanPlate) (rev (vehicles s)))) (map_found cx 0))"

text \<open>The search box: \<open>contains\<close> with \<open>mode: 'insensitive'\<close>, for texts without LIKE wildcards.\<close>

definition has_ci :: "string \<Rightarrow> string option \<Rightarrow> bool" where
  "has_ci q x \<longleftrightarrow> (case x of None \<Rightarrow> False | Some s \<Rightarrow> contains_ci q s)"

definition name_matches :: "string \<Rightarrow> customer \<Rightarrow> bool" where
  "name_matches q c \<longleftrightarrow>
     (let parts = split_spaces q in
      length parts \<ge> 2 \<and> contains_ci (hd parts) (c_firstName c) \<and> contains_ci (join_spaces (tl parts)) (c_lastName c))"

definition owner_matches :: "string \<Rightarrow> customer \<Rightarrow> bool" where
  "owner_matches q c \<longleftrightarrow>
     (let cleanQ = filter (\<lambda>x. \<not> is_space x) q in
      contains_ci q (c_firstName c) \<or> contains_ci q (c_lastName c) \<or> has_ci q (c_companyTitle c) \<or>
      contains_at q (c_phone c) \<or> contains_at cleanQ (c_phone c))"

definition vehicle_matches :: "db \<Rightarrow> string option \<Rightarrow> vehicle \<Rightarrow> bool" where
  "vehicle_matches s search v \<longleftrightarrow>
     (case search of None \<Rightarrow> True | Some raw \<Rightarrow>
      let q = js_trim raw; cleanQ = filter (\<lambda>x. \<not> is_space x) q in
      q = [] \<or> contains_ci q (v_plate v) \<or> contains_ci cleanQ (v_plate v) \<or> contains_ci q (v_brand v) \<or>
      contains_ci q (v_model v) \<or> has_ci q (v_vin v) \<or> has_ci q (v_engineNo v) \<or>
      list_ex (\<lambda>c. c_id c = v_customerId v \<and> (owner_matches q c \<or> name_matches q c)) (customers s))"

definition findAll_Vehicle :: "ctx \<Rightarrow> uuid \<Rightarrow> string option \<Rightarrow> uuid option \<Rightarrow> vehicle_entity list dbM" where
  "findAll_Vehicle cx tenantId search customerId =
     bindM (reads (\<lambda>s. filter (\<lambda>v. v_tenantId v = tenantId \<and> v_deletedAt v = None \<and> owner_active s v \<and>
         vehicle_matches s search v \<and> (case or_null customerId of None \<Rightarrow> True | Some k \<Rightarrow> v_customerId v = k))
       (rev (vehicles s)))) (mapToVehicles cx 5)"

definition row_of_vehicle :: "uuid \<Rightarrow> vehicle_entity \<Rightarrow> vehicle" where
  "row_of_vehicle ident e =
     \<lparr>v_id = ident, v_tenantId = ve_tenantId e, v_customerId = ve_customerId e, v_plate = ve_plate e,
      v_brand = ve_brand e, v_model = ve_model e, v_year = ve_year e, v_vin = ve_vin e, v_engineNo = ve_engineNo e,
      v_color = ve_color e, v_fuelType = ve_fuelType e, v_transmission = ve_transmission e,
      v_currentKm = ve_currentKm e, v_deletedAt = None\<rparr>"

text \<open>The unique index on tenant and plate, for a row other than \<open>ident\<close>.\<close>

definition plate_index :: "uuid \<Rightarrow> string \<Rightarrow> uuid option \<Rightarrow> unit dbM" where
  "plate_index tenantId plate ident = unique_index vehicles ''vehicles_tenant_id_plate_key''
     (\<lambda>v. v_tenantId v = tenantId \<and> v_plate v = plate \<and> Some (v_id v) \<noteq> ident)"

definition insert_vehicle :: "vehicle \<Rightarrow> vehicle dbM" where
  "insert_vehicle v = thenM (plate_index (v_tenantId v) (v_plate v) None) (create_row vehicles vehicles_update v_id v)"

definition save_Vehicle :: "ctx \<Rightarrow> vehicle_entity \<Rightarrow> vehicle_entity dbM" where
  "save_Vehicle cx e =
     bindM (find_first customers (live_customer (ve_tenantId e) (ve_customerId e))) (\<lambda>customer.
     thenM (ensure (customer \<noteq> None) (BadRequestException ''Musteri bulunamadi veya bu isletmeye ait degil.''))
     (bindM (fresh_id cx) (\<lambda>ident.
     bindM (insert_vehicle (row_of_vehicle ident e)) (mapToVehicle cx 0))))"

text \<open>Prisma leaves a column alone whose value is \<open>undefined\<close>.\<close>

definition updated_vehicle :: "vehicle_entity \<Rightarrow> vehicle \<Rightarrow> vehicle" where
  "updated_vehicle e v = v\<lparr>v_plate := ve_plate e, v_brand := ve_brand e, v_model := ve_model e, v_year := ve_year e,
     v_vin := or_keep (ve_vin e) (v_vin v), v_engineNo := or_keep (ve_engineNo e) (v_engineNo v),
     v_color := or_keep (ve_color e) (v_color v), v_fuelType := ve_fuelType e, v_transmission := ve_transmission e,
     v_currentKm := ve_currentKm e\<rparr>"

definition update_Vehicle :: "ctx \<Rightarrow> vehicle_entity \<Rightarrow> vehicle_entity dbM" where
  "update_Vehicle cx e =
     bindM (require (DomainError ''Arac guncellemesi icin id gereklidir.'') (or_null (ve_id e))) (\<lambda>ident.
     bindM (find_first vehicles (\<lambda>v. v_id v = ident \<and> v_tenantId v = ve_tenantId e \<and> v_deletedAt v = None)) (\<lambda>found.
     bindM (require (BadRequestException ''Arac bulunamadi veya bu isletmeye ait degil.'') found) (\<lambda>existing.
     thenM (whenM (ve_customerId e \<noteq> [] \<and> ve_customerId e \<noteq> v_customerId existing)
       (bindM (find_first customers (live_customer (ve_tenantId e) (ve_customerId e))) (\<lambda>customer.
        ensure (customer \<noteq> None) (BadRequestException ''Musteri bulunamadi veya bu isletmeye ait degil.''))))
     (thenM (plate_index (ve_tenantId e) (ve_plate e) (Some ident))
     (bindM (update_by vehicles vehicles_update v_id ident (updated_vehicle e)) (mapToVehicle cx 0))))))"

definition softDelete_Vehicle :: "ctx \<Rightarrow> uuid \<Rightarrow> uuid \<Rightarrow> unit dbM" where
  "softDelete_Vehicle cx tenantId ident =
     ignore (update_where vehicles vehicles_update (\<lambda>v. v_id v = ident \<and> v_tenantId v = tenantId)
       (\<lambda>v. v\<lparr>v_deletedAt := Some (now cx)\<rparr>))"

definition transferOwnership :: "ctx \<Rightarrow> uuid \<Rightarrow> uuid \<Rightarrow> uuid \<Rightarrow> vehicle_entity dbM" where
  "transferOwnership cx tenantId vehicleId newCustomerId =
     bindM (find_first customers (live_customer tenantId newCustomerId)) (\<lambda>targetCustomer.
     thenM (ensure (targetCustomer \<noteq> None) (BadRequestException ''Devralacak musteri bulunamadi veya silinmis.''))
     (bindM (find_first vehicles (\<lambda>v. v_id v = vehicleId \<and> v_tenantId v = tenantId)) (\<lambda>vehicle.
     thenM (ensure (vehicle \<noteq> None) (NotFoundException ''Devredilecek arac bulunamadi.''))
     (bindM (update_by vehicles vehicles_update v_id vehicleId
         (\<lambda>v. v\<lparr>v_customerId := newCustomerId, v_deletedAt := None\<rparr>)) (mapToVehicle cx 0)))))"

section \<open>Use cases\<close>

definition message_of :: "exn \<Rightarrow> string" where
  "message_of e = (case e of DomainError m \<Rightarrow> m | BadRequestException m \<Rightarrow> m | NotFoundException m \<Rightarrow> m
     | ConflictException m \<Rightarrow> m | _ \<Rightarrow> ''Veritabani hatasi'')"

text \<open>\<open>catch (err) { throw new BadRequestException(err.message || fallback) }\<close>.\<close>

definition as_bad_request :: "string \<Rightarrow> 'a dbM \<Rightarrow> 'a dbM" where
  "as_bad_request fallback m =
     try_catch m (\<lambda>e. throw (BadRequestException (or_else (Some (message_of e)) fallback)))"

record vehicle_input =
  vi_customerId :: uuid
  vi_plate :: string
  vi_brand :: string
  vi_model :: string
  vi_year :: int
  vi_vin :: "string option"
  vi_engineNo :: "string option"
  vi_color :: "string option"
  vi_fuelType :: "FuelType option"
  vi_transmission :: "TransmissionType option"
  vi_currentKm :: "int option"
  vi_transferIfExists :: bool

definition vehicle_props :: "uuid \<Rightarrow> string \<Rightarrow> vehicle_input \<Rightarrow> vehicle_entity" where
  "vehicle_props tenantId plate dto =
     \<lparr>ve_id = None, ve_tenantId = tenantId, ve_customerId = vi_customerId dto, ve_plate = plate,
      ve_brand = vi_brand dto, ve_model = vi_model dto, ve_year = vi_year dto, ve_vin = vi_vin dto,
      ve_engineNo = vi_engineNo dto, ve_color = vi_color dto,
      ve_fuelType = (case vi_fuelType dto of None \<Rightarrow> DIESEL | Some f \<Rightarrow> f),
      ve_transmission = (case vi_transmission dto of None \<Rightarrow> TM_MANUAL | Some g \<Rightarrow> g),
      ve_currentKm = (case vi_currentKm dto of None \<Rightarrow> 0 | Some km \<Rightarrow> km), ve_deletedAt = None,
      ve_customer = None, ve_lastServiceStatus = None\<rparr>"

definition createVehicle :: "ctx \<Rightarrow> uuid \<Rightarrow> vehicle_input \<Rightarrow> vehicle_entity dbM" where
  "createVehicle cx tenantId dto =
     (let normalizedPlate = normalizePlate (vi_plate dto) in
      thenM (ensure (normalizedPlate \<noteq> []) (BadRequestException ''Arac plakasi zorunludur.''))
      (bindM (findByPlateAny cx tenantId normalizedPlate) (\<lambda>existingAny.
       case existingAny of
         Some e \<Rightarrow> (case (if vi_transferIfExists dto then or_null (ve_id e) else None) of
             Some k \<Rightarrow> transferOwnership cx tenantId k (vi_customerId dto)
           | None \<Rightarrow> throw (ConflictException ''Bu plaka ile kayitli bir arac zaten mevcut.''))
       | None \<Rightarrow> as_bad_request ''Gecersiz arac bilgisi.''
           (bindM (lift_sum (new_VehicleEntity cx (vehicle_props tenantId normalizedPlate dto))) (save_Vehicle cx)))))"

definition getVehicleById :: "ctx \<Rightarrow> uuid \<Rightarrow> uuid \<Rightarrow> vehicle_entity dbM" where
  "getVehicleById cx tenantId ident =
     bindM (findById_Vehicle cx tenantId ident) (require (NotFoundException ''Arac bulunamadi.''))"

definition updateVehicle :: "ctx \<Rightarrow> uuid \<Rightarrow> uuid \<Rightarrow> vehicle_update \<Rightarrow> vehicle_entity dbM" where
  "updateVehicle cx tenantId ident dto =
     bindM (getVehicleById cx tenantId ident) (\<lambda>vehicle.
     thenM (case or_null (vu_plate dto) of None \<Rightarrow> ret ()
       | Some p \<Rightarrow> bindM (findByPlate cx tenantId (normalizePlate p)) (\<lambda>existing.
           case existing of None \<Rightarrow> ret ()
           | Some e \<Rightarrow> ensure (ve_id e = Some ident) (ConflictException ''Bu plaka ile kayitli baska bir arac zaten mevcut.'')))
     (as_bad_request ''Arac guncellenirken gecersiz veri tespit edildi.''
       (bindM (lift_sum (updateDetails cx dto vehicle)) (update_Vehicle cx))))"

definition deleteVehicle :: "ctx \<Rightarrow> uuid \<Rightarrow> uuid \<Rightarrow> unit dbM" where
  "deleteVehicle cx tenantId ident =
     thenM (getVehicleById cx tenantId ident) (softDelete_Vehicle cx tenantId ident)"

definition transferVehicle :: "ctx \<Rightarrow> uuid \<Rightarrow> uuid \<Rightarrow> uuid \<Rightarrow> vehicle_entity dbM" where
  "transferVehicle cx tenantId vehicleId newCustomerId =
     thenM (ensure (vehicleId \<noteq> [] \<and> newCustomerId \<noteq> []) (BadRequestException ''Arac ID ve yeni Musteri ID zorunludur.''))
       (transferOwnership cx tenantId vehicleId newCustomerId)"

text \<open>What the form shows about a plate; \<open>None\<close> is \<open>{ exists: false }\<close>.\<close>

record plate_check =
  pc_vehicleId :: "uuid option"
  pc_plate :: string
  pc_customerId :: uuid
  pc_ownerName :: string
  pc_ownerPhone :: "string option"
  pc_isVehicleDeleted :: bool
  pc_isCustomerDeleted :: bool

definition owner_name :: "customer option \<Rightarrow> string" where
  "owner_name owner = (case owner of None \<Rightarrow> ''Bilinmeyen Musteri''
     | Some c \<Rightarrow> (case or_null (c_companyTitle c) of Some title \<Rightarrow> title
         | None \<Rightarrow> or_else (Some (js_trim (c_firstName c @ '' '' @ c_lastName c))) ''Musteri''))"

definition checkPlate :: "ctx \<Rightarrow> uuid \<Rightarrow> string \<Rightarrow> plate_check option dbM" where
  "checkPlate cx tenantId rawPlate =
     (let plate = normalizePlate rawPlate in
      if plate = [] then ret None
      else bindM (findByPlateAny cx tenantId plate) (\<lambda>vehicle. ret (map_option (\<lambda>e.
        \<lparr>pc_vehicleId = ve_id e, pc_plate = ve_plate e, pc_customerId = ve_customerId e,
         pc_ownerName = owner_name (ve_customer e), pc_ownerPhone = map_option c_phone (ve_customer e),
         pc_isVehicleDeleted = (ve_deletedAt e \<noteq> None),
         pc_isCustomerDeleted = (case ve_customer e of None \<Rightarrow> False | Some c \<Rightarrow> c_deletedAt c \<noteq> None)\<rparr>) vehicle)))"

section \<open>The controller\<close>

datatype vehicle_request =
    OpenVehicle vehicle_input
  | ChangeVehicle uuid vehicle_update
  | HandVehicleOver uuid uuid
  | DropVehicle uuid
  | ListVehicles "string option" "uuid option"
  | ShowVehicle uuid

fun handle_vehicle :: "ctx \<times> uuid \<times> vehicle_request \<Rightarrow> unit dbM" where
  "handle_vehicle (cx, t, OpenVehicle dto) = ignore (createVehicle cx t dto)"
| "handle_vehicle (cx, t, ChangeVehicle k dto) = ignore (updateVehicle cx t k dto)"
| "handle_vehicle (cx, t, HandVehicleOver k c) = ignore (transferVehicle cx t k c)"
| "handle_vehicle (cx, t, DropVehicle k) = deleteVehicle cx t k"
| "handle_vehicle (cx, t, ListVehicles q c) = ignore (findAll_Vehicle cx t q c)"
| "handle_vehicle (cx, t, ShowVehicle k) = ignore (getVehicleById cx t k)"

end
