(* ===== verification/Customers.thy ===== *)
theory Customers
  imports Vehicles
begin

text \<open>
  \<open>modules/customers\<close> without the consents: the customer entity, the Prisma repository (archive,
  restore, quick lead, import, anonymisation with the chained redaction log) and the use cases.
  The rows of an import have strings and numbers where the code converts from \<open>any\<close>; texts are ASCII.
\<close>

section \<open>The entity (customer.entity.ts)\<close>

record customer_entity =
  ce_id :: "uuid option"
  ce_tenantId :: uuid
  ce_type :: CustomerType
  ce_firstName :: string
  ce_lastName :: string
  ce_companyTitle :: "string option"
  ce_phone :: string
  ce_email :: "string option"
  ce_taxNumber :: "string option"
  ce_taxOffice :: "string option"
  ce_address :: "string option"
  ce_city :: "string option"
  ce_district :: "string option"
  ce_creditLimit :: number
  ce_notes :: "string option"
  ce_isLead :: bool
  ce_isAnonymized :: bool
  ce_vehicles :: "(vehicle \<times> WorkOrderStatus option) list"
  ce_currentAccount :: "current_account option"
  ce_appointments :: "appointment list"
  ce_workOrders :: "work_order list"
  ce_invoices :: "invoice list"

definition getDisplayName :: "customer_entity \<Rightarrow> string" where
  "getDisplayName e = (case (if ce_type e = CORPORATE then or_null (ce_companyTitle e) else None) of
     Some title \<Rightarrow> title
   | None \<Rightarrow> or_else (Some (js_trim (ce_firstName e @ '' '' @ ce_lastName e))) ''Musteri'')"

definition updateCreditLimit :: "number \<Rightarrow> customer_entity \<Rightarrow> exn + customer_entity" where
  "updateCreditLimit limit e =
     (if limit < 0 then Inl (DomainError ''Kredi limiti negatif olamaz.'') else Inr (e\<lparr>ce_creditLimit := limit\<rparr>))"

definition anonymize :: "string \<Rightarrow> customer_entity \<Rightarrow> customer_entity" where
  "anonymize legalRef e = e\<lparr>ce_firstName := ''ANONIM'', ce_lastName := ''MUSTERI'', ce_phone := ''0000000000'',
     ce_email := None, ce_companyTitle := None, ce_taxNumber := None, ce_taxOffice := None, ce_isAnonymized := True,
     ce_notes := Some (''KVKK Unutulma Hakki Talebi (Ref: '' @ legalRef @ '')'')\<rparr>"

section \<open>Reading (prisma-customer.repository.ts)\<close>

text \<open>\<open>mapToEntity\<close> of a row whose relations were not included.\<close>

definition entity_of_customer :: "customer \<Rightarrow> customer_entity" where
  "entity_of_customer c =
     \<lparr>ce_id = Some (c_id c), ce_tenantId = c_tenantId c, ce_type = c_type c, ce_firstName = c_firstName c,
      ce_lastName = c_lastName c, ce_companyTitle = c_companyTitle c, ce_phone = c_phone c, ce_email = c_email c,
      ce_taxNumber = c_taxNumber c, ce_taxOffice = c_taxOffice c, ce_address = c_address c, ce_city = c_city c,
      ce_district = c_district c, ce_creditLimit = num_of_cents (c_creditLimit c), ce_notes = c_notes c,
      ce_isLead = c_isLead c, ce_isAnonymized = c_isAnonymized c, ce_vehicles = [], ce_currentAccount = None,
      ce_appointments = [], ce_workOrders = [], ce_invoices = []\<rparr>"

definition account_of :: "db \<Rightarrow> customer \<Rightarrow> current_account option" where
  "account_of s c = find (\<lambda>a. ca_customerId a = c_id c) (current_accounts s)"

definition with_vehicles :: "nat \<Rightarrow> db \<Rightarrow> (vehicle \<Rightarrow> bool) \<Rightarrow> customer \<Rightarrow> customer_entity \<Rightarrow> customer_entity" where
  "with_vehicles n s P c e = e\<lparr>ce_currentAccount := account_of s c,
     ce_vehicles := map (\<lambda>v. (v, case newest_orders n s v of [] \<Rightarrow> None | w # _ \<Rightarrow> Some (wo_status w)))
       (filter (\<lambda>v. v_customerId v = c_id c \<and> P v) (vehicles s))\<rparr>"

definition detailed_customer :: "db \<Rightarrow> customer \<Rightarrow> customer_entity" where
  "detailed_customer s c = with_vehicles 1 s (\<lambda>v. v_deletedAt v = None) c (entity_of_customer c)
     \<lparr>ce_appointments := take 20 (order_by (\<lambda>a b. a_slotDate a \<ge> a_slotDate b)
        (filter (\<lambda>a. a_customerId a = c_id c) (appointments s))),
      ce_workOrders := take 10 (rev (filter (\<lambda>w. wo_customerId w = c_id c) (work_orders s))),
      ce_invoices := take 10 (order_by (\<lambda>a b. i_issueDate a \<ge> i_issueDate b)
        (filter (\<lambda>i. i_customerId i = c_id c) (invoices s)))\<rparr>"

definition findById_Customer :: "uuid \<Rightarrow> uuid \<Rightarrow> customer_entity option dbM" where
  "findById_Customer tenantId ident =
     reads (\<lambda>s. map_option (detailed_customer s) (find (live_customer tenantId ident) (customers s)))"

definition has_phone :: "uuid \<Rightarrow> string \<Rightarrow> customer \<Rightarrow> bool" where
  "has_phone tenantId phone c \<longleftrightarrow> c_tenantId c = tenantId \<and> c_phone c = phone \<and> c_deletedAt c = None"

definition findByPhone :: "uuid \<Rightarrow> string \<Rightarrow> customer_entity option dbM" where
  "findByPhone tenantId phone =
     bindM (find_first customers (has_phone tenantId phone)) (\<lambda>c. ret (map_option entity_of_customer c))"

definition archived_later :: "customer \<Rightarrow> customer \<Rightarrow> bool" where
  "archived_later a b \<longleftrightarrow> (case (c_deletedAt a, c_deletedAt b) of (Some x, Some y) \<Rightarrow> x \<ge> y | _ \<Rightarrow> True)"

definition findDeletedByPhone :: "uuid \<Rightarrow> string \<Rightarrow> customer_entity option dbM" where
  "findDeletedByPhone tenantId phone = reads (\<lambda>s.
     case order_by archived_later
       (filter (\<lambda>c. c_tenantId c = tenantId \<and> c_phone c = phone \<and> c_deletedAt c \<noteq> None) (customers s)) of
       [] \<Rightarrow> None
     | c # _ \<Rightarrow> Some (with_vehicles 0 s (\<lambda>_. True) c (entity_of_customer c)))"

definition customer_matches :: "db \<Rightarrow> string option \<Rightarrow> customer \<Rightarrow> bool" where
  "customer_matches s search c \<longleftrightarrow>
     (case search of None \<Rightarrow> True | Some raw \<Rightarrow>
      let q = js_trim raw; cleanQ = filter (\<lambda>x. \<not> is_space x) q in
      q = [] \<or> owner_matches q c \<or> has_ci q (c_email c) \<or>
      (case c_taxNumber c of None \<Rightarrow> False | Some x \<Rightarrow> contains_at q x) \<or>
      list_ex (\<lambda>v. v_customerId v = c_id c \<and> v_deletedAt v = None \<and>
        (contains_ci q (v_plate v) \<or> contains_ci cleanQ (v_plate v))) (vehicles s) \<or> name_matches q c)"

definition findAll_Customer :: "uuid \<Rightarrow> string option \<Rightarrow> customer_entity list dbM" where
  "findAll_Customer tenantId search = reads (\<lambda>s.
     map (\<lambda>c. with_vehicles 0 s (\<lambda>v. v_deletedAt v = None) c (entity_of_customer c))
       (filter (\<lambda>c. c_tenantId c = tenantId \<and> c_deletedAt c = None \<and> customer_matches s search c) (rev (customers s))))"

section \<open>Writing\<close>

definition default_tax :: string where
  "default_tax = ''11111111111''"

definition row_of_customer :: "ctx \<Rightarrow> uuid \<Rightarrow> customer_entity \<Rightarrow> customer" where
  "row_of_customer cx ident e =
     \<lparr>c_id = ident, c_tenantId = ce_tenantId e, c_type = ce_type e, c_firstName = ce_firstName e,
      c_lastName = ce_lastName e, c_companyTitle = ce_companyTitle e, c_phone = ce_phone e, c_email = ce_email e,
      c_taxNumber = Some (case ce_taxNumber e of None \<Rightarrow> default_tax | Some x \<Rightarrow> x), c_taxOffice = ce_taxOffice e,
      c_address = ce_address e, c_city = ce_city e, c_district = ce_district e,
      c_creditLimit = dec2 cx (ce_creditLimit e), c_notes = ce_notes e, c_isAnonymized = False,
      c_isLead = ce_isLead e, c_deletedAt = None\<rparr>"

definition new_account :: "ctx \<Rightarrow> uuid \<Rightarrow> uuid \<Rightarrow> cents \<Rightarrow> unit dbM" where
  "new_account cx tenantId customerId limit =
     thenM (unique_index current_accounts ''current_accounts_customer_id_key'' (\<lambda>a. ca_customerId a = customerId))
     (bindM (fresh_id cx) (\<lambda>ident.
      ignore (create_row current_accounts current_accounts_update ca_id
        \<lparr>ca_id = ident, ca_tenantId = tenantId, ca_customerId = customerId, ca_totalDebits = 0,
         ca_totalCredits = 0, ca_balance = 0, ca_creditLimit = limit, ca_isBlocked = False\<rparr>)))"

definition add_customer :: "ctx \<Rightarrow> (uuid \<Rightarrow> customer) \<Rightarrow> cents \<Rightarrow> customer dbM" where
  "add_customer cx row limit =
     bindM (fresh_id cx) (\<lambda>ident.
     bindM (create_row customers customers_update c_id (row ident)) (\<lambda>c.
     thenM (new_account cx (c_tenantId c) (c_id c) limit) (ret c)))"

definition create_Customer :: "ctx \<Rightarrow> customer_entity \<Rightarrow> customer_entity dbM" where
  "create_Customer cx e = transaction
     (bindM (add_customer cx (\<lambda>ident. row_of_customer cx ident e) (dec2 cx (ce_creditLimit e))) (\<lambda>c.
      ret (entity_of_customer c)))"

definition updated_customer :: "ctx \<Rightarrow> customer_entity \<Rightarrow> customer \<Rightarrow> customer" where
  "updated_customer cx e c = c\<lparr>c_type := ce_type e, c_firstName := ce_firstName e, c_lastName := ce_lastName e,
     c_companyTitle := or_keep (ce_companyTitle e) (c_companyTitle c), c_phone := ce_phone e,
     c_email := or_keep (ce_email e) (c_email c), c_taxNumber := or_keep (ce_taxNumber e) (c_taxNumber c),
     c_taxOffice := or_keep (ce_taxOffice e) (c_taxOffice c), c_address := or_keep (ce_address e) (c_address c),
     c_city := or_keep (ce_city e) (c_city c), c_district := or_keep (ce_district e) (c_district c),
     c_creditLimit := dec2 cx (ce_creditLimit e), c_notes := or_keep (ce_notes e) (c_notes c),
     c_isLead := ce_isLead e, c_isAnonymized := ce_isAnonymized e\<rparr>"

definition save_Customer :: "ctx \<Rightarrow> customer_entity \<Rightarrow> customer_entity dbM" where
  "save_Customer cx e =
     (case ce_id e of None \<Rightarrow> throw (NotFoundException ''Musteri bulunamadi veya bu isletmeye ait degil.'')
      | Some ident \<Rightarrow>
          bindM (find_first customers (live_customer (ce_tenantId e) ident)) (\<lambda>existing.
          thenM (ensure (existing \<noteq> None) (NotFoundException ''Musteri bulunamadi veya bu isletmeye ait degil.''))
          (bindM (update_by customers customers_update c_id ident (updated_customer cx e)) (\<lambda>c.
           ret (entity_of_customer c)))))"

text \<open>
  Archiving and restoring take the vehicles along. The queries name the customer only; row-level
  security keeps them to the vehicles of the workshop (\<open>v_tenantId v = tenantId\<close>).
\<close>

definition archive_rows :: "int \<Rightarrow> uuid \<Rightarrow> uuid \<Rightarrow> customer dbM" where
  "archive_rows t tenantId ident = transaction
     (bindM (update_by customers customers_update c_id ident (\<lambda>c. c\<lparr>c_deletedAt := Some t\<rparr>)) (\<lambda>cust.
      thenM (ignore (update_where vehicles vehicles_update
         (\<lambda>v. v_customerId v = ident \<and> v_tenantId v = tenantId \<and> v_deletedAt v = None) (\<lambda>v. v\<lparr>v_deletedAt := Some t\<rparr>)))
      (ret cust)))"

definition softDelete_Customer :: "ctx \<Rightarrow> uuid \<Rightarrow> uuid \<Rightarrow> customer_entity dbM" where
  "softDelete_Customer cx tenantId ident =
     bindM (find_first customers (live_customer tenantId ident)) (\<lambda>found.
     bindM (require (NotFoundException ''Musteri bulunamadi veya bu isletmeye ait degil.'') found) (\<lambda>existing.
     bindM (find_many work_orders (\<lambda>w. wo_customerId w = ident \<and> (wo_status w = QUEUE \<or> wo_status w = IN_PROGRESS))) (\<lambda>active.
     thenM (ensure (active = []) (BadRequestException ''Bu musteriye ait aktif is emirleri bulunmaktadir.''))
     (bindM (reads (\<lambda>s. account_of s existing)) (\<lambda>account.
     thenM (ensure (\<not> (case account of None \<Rightarrow> False | Some a \<Rightarrow> ca_balance a > 0)) (BadRequestException
       ''Bu musterinin acik cari hesap borcu bulunmaktadir.''))
     (bindM (archive_rows (now cx) tenantId ident) (\<lambda>updated. ret (entity_of_customer updated))))))))"

definition restore_rows :: "uuid \<Rightarrow> uuid \<Rightarrow> customer dbM" where
  "restore_rows tenantId ident = transaction
     (bindM (update_by customers customers_update c_id ident (\<lambda>c. c\<lparr>c_deletedAt := None\<rparr>)) (\<lambda>cust.
      thenM (ignore (update_where vehicles vehicles_update
         (\<lambda>v. v_customerId v = ident \<and> v_tenantId v = tenantId \<and> v_deletedAt v \<noteq> None) (\<lambda>v. v\<lparr>v_deletedAt := None\<rparr>)))
      (ret cust)))"

definition restore_Customer :: "uuid \<Rightarrow> uuid \<Rightarrow> customer_entity dbM" where
  "restore_Customer tenantId ident =
     bindM (find_first customers (\<lambda>c. c_id c = ident \<and> c_tenantId c = tenantId \<and> c_deletedAt c \<noteq> None)) (\<lambda>existing.
     thenM (ensure (existing \<noteq> None) (NotFoundException ''Arsivlenmis musteri bulunamadi veya bu isletmeye ait degil.''))
     (bindM (restore_rows tenantId ident) (\<lambda>restored.
      bindM (findById_Customer tenantId (c_id restored)) (\<lambda>fullCustomer.
      ret (case fullCustomer of None \<Rightarrow> entity_of_customer restored | Some e \<Rightarrow> e)))))"

record customer_stats =
  st_totalAppointments :: nat
  st_completedAppointments :: nat
  st_cancelledAppointments :: nat
  st_noShowCount :: nat
  st_noShowRate :: int
  st_attendanceScore :: int
  st_riskCategory :: string
  st_balance :: number
  st_totalDebits :: number
  st_totalCredits :: number
  st_creditLimit :: number
  st_limitExceeded :: bool

text \<open>\<open>Math.round((part / whole) * 100)\<close> in doubles.\<close>

definition percentage :: "nat \<Rightarrow> nat \<Rightarrow> int" where
  "percentage part whole = math_round (fmul (fdiv (of_nat part) (of_nat whole)) 100)"

definition attendance :: "nat \<Rightarrow> nat \<Rightarrow> nat \<Rightarrow> int \<times> int \<times> string" where
  "attendance completed noShow evaluated =
     (let attendanceScore = (if evaluated > 0 then percentage completed evaluated else 100);
          noShowRate = (if evaluated > 0 then percentage noShow evaluated else 0)
      in (attendanceScore, noShowRate,
          if noShow \<ge> 2 \<or> attendanceScore < 70 then ''HIGH'' else if attendanceScore < 90 then ''MEDIUM'' else ''LOW''))"

definition getCustomerStats :: "uuid \<Rightarrow> uuid \<Rightarrow> customer_stats dbM" where
  "getCustomerStats tenantId ident =
     bindM (find_first customers (live_customer tenantId ident)) (\<lambda>found.
     bindM (require (NotFoundException ''Musteri bulunamadi.'') found) (\<lambda>customer.
     bindM (reads (\<lambda>s. account_of s customer)) (\<lambda>account.
     bindM (find_many appointments (\<lambda>a. a_tenantId a = tenantId \<and> a_customerId a = ident)) (\<lambda>apps.
     let count = (\<lambda>P. length (filter (\<lambda>a. P (a_status a)) apps));
         completed = count (\<lambda>st. st = A_COMPLETED); noShow = count (\<lambda>st. st = A_NO_SHOW);
         active = count (\<lambda>st. st \<in> {A_PENDING, A_CONFIRMED, A_IN_SERVICE});
         evaluated = length apps - active;
         (attendanceScore, noShowRate, riskCategory) = attendance completed noShow evaluated;
         amount = (\<lambda>f. case account of None \<Rightarrow> 0 | Some a \<Rightarrow> num_of_cents (f a));
         creditLimit = num_of_cents (c_creditLimit customer)
     in ret \<lparr>st_totalAppointments = length apps, st_completedAppointments = completed,
          st_cancelledAppointments = count (\<lambda>st. st = A_CANCELLED), st_noShowCount = noShow, st_noShowRate = noShowRate,
          st_attendanceScore = attendanceScore, st_riskCategory = riskCategory, st_balance = amount ca_balance,
          st_totalDebits = amount ca_totalDebits, st_totalCredits = amount ca_totalCredits,
          st_creditLimit = creditLimit, st_limitExceeded = (creditLimit > 0 \<and> amount ca_balance > creditLimit)\<rparr>))))"

record quick_lead =
  ql_firstName :: string
  ql_lastName :: "string option"
  ql_phone :: string
  ql_plate :: string
  ql_brand :: "string option"
  ql_model :: "string option"
  ql_year :: "int option"

definition lead_row :: "uuid \<Rightarrow> quick_lead \<Rightarrow> uuid \<Rightarrow> customer" where
  "lead_row tenantId dto ident =
     \<lparr>c_id = ident, c_tenantId = tenantId, c_type = INDIVIDUAL, c_firstName = ql_firstName dto,
      c_lastName = or_else (ql_lastName dto) [], c_companyTitle = None, c_phone = ql_phone dto, c_email = None,
      c_taxNumber = Some default_tax, c_taxOffice = None, c_address = None, c_city = None, c_district = None,
      c_creditLimit = 0, c_notes = None, c_isAnonymized = False, c_isLead = True, c_deletedAt = None\<rparr>"

definition or_year :: "ctx \<Rightarrow> int option \<Rightarrow> int" where
  "or_year cx y = (case y of None \<Rightarrow> int (year cx) | Some n \<Rightarrow> if n = 0 then int (year cx) else n)"

definition quickLead_rows :: "ctx \<Rightarrow> uuid \<Rightarrow> quick_lead \<Rightarrow> (customer_entity \<times> vehicle) dbM" where
  "quickLead_rows cx tenantId dto = transaction
     (let cleanPlate = filter (\<lambda>c. \<not> is_space c) (to_upper (ql_plate dto)) in
      bindM (find_first customers (has_phone tenantId (ql_phone dto))) (\<lambda>found.
      bindM (case found of Some c \<Rightarrow> ret c | None \<Rightarrow> add_customer cx (lead_row tenantId dto) 0) (\<lambda>customer.
      bindM (find_first vehicles (\<lambda>v. v_tenantId v = tenantId \<and> v_plate v = cleanPlate \<and> v_deletedAt v = None)) (\<lambda>foundVehicle.
      bindM (case foundVehicle of
          Some v \<Rightarrow> ret v
        | None \<Rightarrow> bindM (fresh_id cx) (\<lambda>ident. insert_vehicle
            \<lparr>v_id = ident, v_tenantId = tenantId, v_customerId = c_id customer, v_plate = cleanPlate,
             v_brand = or_else (ql_brand dto) ''Belirtilmedi'', v_model = or_else (ql_model dto) ''Model Belirtilmedi'',
             v_year = or_year cx (ql_year dto), v_vin = None, v_engineNo = None, v_color = None, v_fuelType = DIESEL,
             v_transmission = TM_MANUAL, v_currentKm = 0, v_deletedAt = None\<rparr>)) (\<lambda>vehicle.
      ret (entity_of_customer customer, vehicle))))))"

section \<open>Use cases\<close>

definition clean_phone :: "string \<Rightarrow> string" where
  "clean_phone = filter (\<lambda>c. \<not> (is_space c \<or> c \<in> {CHR ''('', CHR '')'', CHR ''-''}))"

record customer_input =
  ci_type :: "CustomerType option"
  ci_firstName :: string
  ci_lastName :: string
  ci_companyTitle :: "string option"
  ci_phone :: string
  ci_email :: "string option"
  ci_taxNumber :: "string option"
  ci_taxOffice :: "string option"
  ci_address :: "string option"
  ci_city :: "string option"
  ci_district :: "string option"
  ci_creditLimit :: "number option"
  ci_notes :: "string option"
  ci_isLead :: "bool option"

definition customer_props :: "uuid \<Rightarrow> string \<Rightarrow> customer_input \<Rightarrow> customer_entity" where
  "customer_props tenantId cleanPhone dto =
     \<lparr>ce_id = None, ce_tenantId = tenantId, ce_type = (case ci_type dto of None \<Rightarrow> INDIVIDUAL | Some x \<Rightarrow> x),
      ce_firstName = js_trim (ci_firstName dto), ce_lastName = js_trim (ci_lastName dto),
      ce_companyTitle = map_option js_trim (ci_companyTitle dto), ce_phone = cleanPhone,
      ce_email = map_option js_trim (ci_email dto),
      ce_taxNumber = Some (or_else (map_option js_trim (ci_taxNumber dto)) default_tax),
      ce_taxOffice = map_option js_trim (ci_taxOffice dto), ce_address = map_option js_trim (ci_address dto),
      ce_city = map_option js_trim (ci_city dto), ce_district = map_option js_trim (ci_district dto),
      ce_creditLimit = (case ci_creditLimit dto of None \<Rightarrow> 0 | Some x \<Rightarrow> x),
      ce_notes = map_option js_trim (ci_notes dto),
      ce_isLead = (case ci_isLead dto of None \<Rightarrow> False | Some b \<Rightarrow> b), ce_isAnonymized = False,
      ce_vehicles = [], ce_currentAccount = None, ce_appointments = [], ce_workOrders = [], ce_invoices = []\<rparr>"

definition createCustomer :: "ctx \<Rightarrow> uuid \<Rightarrow> customer_input \<Rightarrow> customer_entity dbM" where
  "createCustomer cx tenantId dto =
     (let cleanPhone = clean_phone (ci_phone dto) in
      bindM (findByPhone tenantId cleanPhone) (\<lambda>existing.
      thenM (ensure (existing = None) (ConflictException ''Bu telefon numarasiyla kayitli bir musteri zaten mevcut.''))
      (create_Customer cx (customer_props tenantId cleanPhone dto))))"

definition getCustomerById :: "uuid \<Rightarrow> uuid \<Rightarrow> customer_entity dbM" where
  "getCustomerById tenantId ident =
     bindM (findById_Customer tenantId ident) (require (NotFoundException ''Musteri bulunamadi.''))"

record customer_update =
  cu_type :: "CustomerType option"
  cu_firstName :: "string option"
  cu_lastName :: "string option"
  cu_companyTitle :: "string option"
  cu_phone :: "string option"
  cu_email :: "string option"
  cu_taxNumber :: "string option"
  cu_taxOffice :: "string option"
  cu_creditLimit :: "number option"
  cu_notes :: "string option"
  cu_isLead :: "bool option"

definition or_set :: "'a option \<Rightarrow> 'a \<Rightarrow> 'a" where
  "or_set new old = (case new of None \<Rightarrow> old | Some x \<Rightarrow> x)"

definition changed_customer :: "customer_update \<Rightarrow> customer_entity \<Rightarrow> exn + customer_entity" where
  "changed_customer dto e =
     (let e1 = e\<lparr>ce_firstName := or_set (map_option js_trim (cu_firstName dto)) (ce_firstName e),
            ce_lastName := or_set (map_option js_trim (cu_lastName dto)) (ce_lastName e),
            ce_type := or_set (cu_type dto) (ce_type e),
            ce_companyTitle := or_keep (map_option js_trim (cu_companyTitle dto)) (ce_companyTitle e),
            ce_email := or_keep (map_option js_trim (cu_email dto)) (ce_email e),
            ce_taxNumber := or_keep (map_option js_trim (cu_taxNumber dto)) (ce_taxNumber e),
            ce_taxOffice := or_keep (map_option js_trim (cu_taxOffice dto)) (ce_taxOffice e)\<rparr>
      in case (case cu_creditLimit dto of None \<Rightarrow> Inr e1 | Some limit \<Rightarrow> updateCreditLimit limit e1) of
           Inl err \<Rightarrow> Inl err
         | Inr e2 \<Rightarrow> Inr (e2\<lparr>ce_notes := or_keep (map_option js_trim (cu_notes dto)) (ce_notes e2),
             ce_isLead := or_set (cu_isLead dto) (ce_isLead e2)\<rparr>))"

definition new_phone :: "uuid \<Rightarrow> uuid \<Rightarrow> customer_update \<Rightarrow> customer_entity \<Rightarrow> customer_entity dbM" where
  "new_phone tenantId ident dto customer =
     (case or_null (cu_phone dto) of None \<Rightarrow> ret customer
      | Some phone \<Rightarrow> let cleanPhone = clean_phone phone in
          bindM (findByPhone tenantId cleanPhone) (\<lambda>existing.
          thenM (ensure (case existing of None \<Rightarrow> True | Some x \<Rightarrow> ce_id x = Some ident) (ConflictException
            ''Bu telefon numarasi baska bir musteri tarafindan kullanilmaktadir.''))
          (ret (customer\<lparr>ce_phone := cleanPhone\<rparr>))))"

definition updateCustomer :: "ctx \<Rightarrow> uuid \<Rightarrow> uuid \<Rightarrow> customer_update \<Rightarrow> customer_entity dbM" where
  "updateCustomer cx tenantId ident dto =
     bindM (getCustomerById tenantId ident) (\<lambda>customer.
     bindM (new_phone tenantId ident dto customer) (\<lambda>customer.
     bindM (lift_sum (changed_customer dto customer)) (save_Customer cx)))"

definition getStats :: "uuid \<Rightarrow> uuid \<Rightarrow> customer_stats dbM" where
  "getStats tenantId ident = thenM (getCustomerById tenantId ident) (getCustomerStats tenantId ident)"

definition softDelete :: "ctx \<Rightarrow> uuid \<Rightarrow> uuid \<Rightarrow> customer_entity dbM" where
  "softDelete cx tenantId ident = thenM (getCustomerById tenantId ident) (softDelete_Customer cx tenantId ident)"

definition restoreCustomer :: "uuid \<Rightarrow> uuid \<Rightarrow> customer_entity dbM" where
  "restoreCustomer tenantId ident = restore_Customer tenantId ident"

text \<open>The answer: active (\<open>False\<close>) or archived (\<open>True\<close>) customer with the number, or none.\<close>

definition checkPhone :: "uuid \<Rightarrow> string \<Rightarrow> (bool \<times> customer_entity) option dbM" where
  "checkPhone tenantId rawPhone =
     (let cleanPhone = clean_phone rawPhone in
      bindM (findByPhone tenantId cleanPhone) (\<lambda>active.
       case active of Some e \<Rightarrow> ret (Some (False, e))
       | None \<Rightarrow> bindM (findDeletedByPhone tenantId cleanPhone) (\<lambda>deleted. ret (map_option (Pair True) deleted))))"

definition quickLead :: "ctx \<Rightarrow> uuid \<Rightarrow> quick_lead \<Rightarrow> (customer_entity \<times> vehicle) dbM" where
  "quickLead cx tenantId dto =
     thenM (ensure (ql_firstName dto \<noteq> [] \<and> ql_phone dto \<noteq> [] \<and> ql_plate dto \<noteq> []) (BadRequestException
       ''Musteri adi, telefon ve arac plakasi zorunludur.''))
     (quickLead_rows cx tenantId (dto\<lparr>ql_plate := filter (\<lambda>c. \<not> is_space c) (to_upper (ql_plate dto)),
        ql_phone := clean_phone (ql_phone dto)\<rparr>))"

end
