(* ===== verification/CustomerImport.thy ===== *)
theory CustomerImport
  imports Customers
begin

text \<open>
  The import of customers and vehicles (\<open>batchImport\<close> of \<open>modules/customers\<close>). Every row runs in a
  transaction of its own, but the counters of the answer are variables of the method: what a row
  has counted before it fails stays counted. So the loop works on the database and the counters.
\<close>

section \<open>Counters beside the database\<close>

record import_counts =
  ic_customers :: nat
  ic_knownCustomers :: nat
  ic_updatedCustomers :: nat
  ic_vehicles :: nat
  ic_knownVehicles :: nat
  ic_updatedVehicles :: nat
  ic_errors :: "(nat \<times> string) list"

definition no_counts :: import_counts where
  "no_counts = \<lparr>ic_customers = 0, ic_knownCustomers = 0, ic_updatedCustomers = 0, ic_vehicles = 0,
     ic_knownVehicles = 0, ic_updatedVehicles = 0, ic_errors = []\<rparr>"

type_synonym 'a importM = "(db \<times> import_counts, 'a) M"

definition on_db :: "'a dbM \<Rightarrow> 'a importM" where
  "on_db m = (\<lambda>(s, c). case m s of (r, s') \<Rightarrow> (r, (s', c)))"

definition count_up :: "(import_counts \<Rightarrow> import_counts) \<Rightarrow> unit importM" where
  "count_up f = modifyM (\<lambda>(s, c). (s, f c))"

text \<open>A transaction of the database: the counters are not rolled back.\<close>

definition row_transaction :: "'a importM \<Rightarrow> 'a importM" where
  "row_transaction m = (\<lambda>(s, c). case m (s, c) of
     (Inl e, (s', c')) \<Rightarrow> (Inl e, (s, c')) | (Inr x, sc) \<Rightarrow> (Inr x, sc))"

lemma wp_on_db [wp_simps]: "wp (on_db m) Q E sc = wp m (\<lambda>x s. Q x (s, snd sc)) (\<lambda>e s. E e (s, snd sc)) (fst sc)"
  by (auto simp: wp_def on_db_def split: prod.splits sum.splits)

lemma wp_count_up [wp_simps]: "wp (count_up f) Q E sc = Q () (fst sc, f (snd sc))"
  by (simp add: count_up_def wp_simps split: prod.split)

lemma wp_row_transaction [wp_simps]:
  "wp (row_transaction m) Q E sc = wp m Q (\<lambda>e sc'. E e (fst sc, snd sc')) sc"
  by (auto simp: wp_def row_transaction_def split: prod.splits sum.splits)

section \<open>A row\<close>

record import_row =
  ir_firstName :: "string option"
  ir_lastName :: "string option"
  ir_phone :: "string option"
  ir_email :: "string option"
  ir_companyTitle :: "string option"
  ir_type :: "CustomerType option"
  ir_taxNumber :: "string option"
  ir_taxOffice :: "string option"
  ir_notes :: "string option"
  ir_plate :: "string option"
  ir_brand :: "string option"
  ir_model :: "string option"
  ir_year :: "int option"
  ir_currentKm :: "int option"
  ir_vin :: "string option"
  ir_fuelType :: "string option"
  ir_transmission :: "string option"

text \<open>\<open>(x || '').trim()\<close>, and the same when it is not empty.\<close>

definition trimmed :: "string option \<Rightarrow> string" where
  "trimmed x = js_trim (or_else x [])"

definition nonempty :: "string option \<Rightarrow> string option" where
  "nonempty x = (if trimmed x = [] then None else Some (trimmed x))"

definition standard_phone :: "string \<Rightarrow> string" where
  "standard_phone rawPhone =
     (let digitsOnly = filter is_digit rawPhone;
          p = (if take 2 digitsOnly = ''90'' \<and> length digitsOnly = 12 then drop 2 digitsOnly else digitsOnly)
      in if length p = 10 \<and> take 1 p = ''5'' then ''0'' @ p else p)"

definition phone_candidates :: "string \<Rightarrow> string \<Rightarrow> string list" where
  "phone_candidates standardPhone rawPhone = filter (\<lambda>p. p \<noteq> [])
     [standardPhone, rawPhone,
      if take 1 standardPhone = ''0'' then drop 1 standardPhone else ''0'' @ standardPhone,
      if take 1 standardPhone = ''0'' then ''+9'' @ standardPhone else ''+90'' @ standardPhone]"

definition no_name :: string where
  "no_name = ''Isimsiz Musteri''"

definition row_name :: "import_row \<Rightarrow> string" where
  "row_name row = or_else (Some (trimmed (ir_firstName row))) (or_else (Some (trimmed (ir_companyTitle row))) no_name)"

definition row_customer :: "uuid \<Rightarrow> import_row \<Rightarrow> uuid \<Rightarrow> customer" where
  "row_customer tenantId row ident =
     (let rawPhone = trimmed (ir_phone row) in
      \<lparr>c_id = ident, c_tenantId = tenantId,
       c_type = (case ir_type row of Some x \<Rightarrow> x | None \<Rightarrow> if truthy (ir_companyTitle row) then CORPORATE else INDIVIDUAL),
       c_firstName = row_name row, c_lastName = trimmed (ir_lastName row), c_companyTitle = or_null (ir_companyTitle row),
       c_phone = or_else (Some (standard_phone rawPhone)) (or_else (Some rawPhone) ''05000000000''),
       c_email = or_null (ir_email row), c_taxNumber = Some (or_else (nonempty (ir_taxNumber row)) default_tax),
       c_taxOffice = or_null (ir_taxOffice row), c_address = None, c_city = None, c_district = None,
       c_creditLimit = 0, c_notes = or_null (ir_notes row), c_isAnonymized = False, c_isLead = False,
       c_deletedAt = None\<rparr>)"

definition merged_customer :: "import_row \<Rightarrow> customer \<Rightarrow> customer" where
  "merged_customer row c = c\<lparr>c_companyTitle := or_keep (nonempty (ir_companyTitle row)) (c_companyTitle c),
     c_email := or_keep (nonempty (ir_email row)) (c_email c),
     c_taxNumber := or_keep (nonempty (ir_taxNumber row)) (c_taxNumber c),
     c_taxOffice := or_keep (nonempty (ir_taxOffice row)) (c_taxOffice c),
     c_notes := or_keep (nonempty (ir_notes row)) (c_notes c), c_type := or_set (ir_type row) (c_type c),
     c_firstName := (if row_name row \<noteq> no_name \<and> (c_firstName c = [] \<or> c_firstName c = no_name) then row_name row
       else c_firstName c),
     c_lastName := (if trimmed (ir_lastName row) \<noteq> [] \<and> c_lastName c = [] then trimmed (ir_lastName row) else c_lastName c)\<rparr>"

definition merges_customer :: "import_row \<Rightarrow> customer \<Rightarrow> bool" where
  "merges_customer row c \<longleftrightarrow>
     list_ex (\<lambda>x. nonempty x \<noteq> None)
       [ir_companyTitle row, ir_email row, ir_taxNumber row, ir_taxOffice row, ir_notes row] \<or>
     ir_type row \<noteq> None \<or> (row_name row \<noteq> no_name \<and> (c_firstName c = [] \<or> c_firstName c = no_name)) \<or>
     (trimmed (ir_lastName row) \<noteq> [] \<and> c_lastName c = [])"

definition import_customer :: "ctx \<Rightarrow> uuid \<Rightarrow> bool \<Rightarrow> import_row \<Rightarrow> customer importM" where
  "import_customer cx tenantId updateExisting row =
     (let rawPhone = trimmed (ir_phone row); standardPhone = standard_phone rawPhone in
      bindM (on_db (if standardPhone = [] then ret None
          else find_first customers (\<lambda>c. c_tenantId c = tenantId \<and>
            c_phone c \<in> set (phone_candidates standardPhone rawPhone) \<and> c_deletedAt c = None))) (\<lambda>found.
      case found of
        None \<Rightarrow> bindM (on_db (add_customer cx (row_customer tenantId row) 0)) (\<lambda>c.
          thenM (count_up (\<lambda>n. n\<lparr>ic_customers := Suc (ic_customers n)\<rparr>)) (ret c))
      | Some c \<Rightarrow> thenM (count_up (\<lambda>n. n\<lparr>ic_knownCustomers := Suc (ic_knownCustomers n)\<rparr>))
          (thenM (whenM (updateExisting \<and> merges_customer row c)
             (thenM (on_db (ignore (update_by customers customers_update c_id (c_id c) (merged_customer row))))
               (count_up (\<lambda>n. n\<lparr>ic_updatedCustomers := Suc (ic_updatedCustomers n)\<rparr>))))
          (ret c))))"

definition row_fuel :: "import_row \<Rightarrow> FuelType" where
  "row_fuel row = (let ft = to_upper (or_else (ir_fuelType row) []) in
     if contains_at ''BENZ'' ft then GASOLINE else if contains_at ''LPG'' ft then LPG
     else if contains_at ''HIB'' ft then HYBRID else if contains_at ''ELEK'' ft then ELECTRIC else DIESEL)"

definition row_transmission :: "import_row \<Rightarrow> TransmissionType" where
  "row_transmission row = (let tr = to_upper (or_else (ir_transmission row) []) in
     if contains_at ''OTO'' tr then TM_AUTOMATIC else if contains_at ''YARI'' tr then TM_SEMI_AUTOMATIC else TM_MANUAL)"

definition row_plate :: "import_row \<Rightarrow> string" where
  "row_plate row = filter (\<lambda>c. \<not> is_space c) (to_upper (trimmed (ir_plate row)))"

definition row_vehicle :: "ctx \<Rightarrow> uuid \<Rightarrow> uuid \<Rightarrow> import_row \<Rightarrow> uuid \<Rightarrow> vehicle" where
  "row_vehicle cx tenantId customerId row ident =
     \<lparr>v_id = ident, v_tenantId = tenantId, v_customerId = customerId, v_plate = row_plate row,
      v_brand = or_else (Some (trimmed (ir_brand row))) ''Belirtilmedi'',
      v_model = or_else (Some (trimmed (ir_model row))) ''Model Belirtilmedi'', v_year = or_year cx (ir_year row),
      v_vin = nonempty (ir_vin row), v_engineNo = None, v_color = None, v_fuelType = row_fuel row,
      v_transmission = row_transmission row, v_currentKm = (case ir_currentKm row of None \<Rightarrow> 0 | Some km \<Rightarrow> km),
      v_deletedAt = None\<rparr>"

definition usable :: "string \<Rightarrow> string option \<Rightarrow> string option" where
  "usable placeholder x = (if nonempty x = Some placeholder then None else nonempty x)"

definition usable_km :: "import_row \<Rightarrow> int option" where
  "usable_km row = (case ir_currentKm row of None \<Rightarrow> None | Some km \<Rightarrow> if km > 0 then Some km else None)"

definition usable_year :: "ctx \<Rightarrow> import_row \<Rightarrow> int option" where
  "usable_year cx row = (case ir_year row of None \<Rightarrow> None
     | Some y \<Rightarrow> if 1900 \<le> y \<and> y \<le> int (year cx) + 1 then Some y else None)"

definition merged_vehicle :: "ctx \<Rightarrow> uuid \<Rightarrow> import_row \<Rightarrow> vehicle \<Rightarrow> vehicle" where
  "merged_vehicle cx customerId row v = v\<lparr>v_currentKm := or_set (usable_km row) (v_currentKm v),
     v_brand := or_set (usable ''Belirtilmedi'' (ir_brand row)) (v_brand v),
     v_model := or_set (usable ''Model Belirtilmedi'' (ir_model row)) (v_model v),
     v_year := or_set (usable_year cx row) (v_year v), v_vin := or_keep (nonempty (ir_vin row)) (v_vin v),
     v_fuelType := (if nonempty (ir_fuelType row) = None then v_fuelType v else row_fuel row),
     v_transmission := (if nonempty (ir_transmission row) = None then v_transmission v else row_transmission row),
     v_customerId := customerId\<rparr>"

definition merges_vehicle :: "ctx \<Rightarrow> uuid \<Rightarrow> import_row \<Rightarrow> vehicle \<Rightarrow> bool" where
  "merges_vehicle cx customerId row v \<longleftrightarrow> usable_km row \<noteq> None \<or> usable ''Belirtilmedi'' (ir_brand row) \<noteq> None \<or>
     usable ''Model Belirtilmedi'' (ir_model row) \<noteq> None \<or> usable_year cx row \<noteq> None \<or>
     list_ex (\<lambda>x. nonempty x \<noteq> None) [ir_vin row, ir_fuelType row, ir_transmission row] \<or> v_customerId v \<noteq> customerId"

definition import_vehicle :: "ctx \<Rightarrow> uuid \<Rightarrow> bool \<Rightarrow> import_row \<Rightarrow> customer \<Rightarrow> unit importM" where
  "import_vehicle cx tenantId updateExisting row customer =
     whenM (row_plate row \<noteq> [])
       (bindM (on_db (find_first vehicles (\<lambda>v. v_tenantId v = tenantId \<and> v_plate v = row_plate row \<and> v_deletedAt v = None))) (\<lambda>found.
        case found of
          None \<Rightarrow> thenM (on_db (bindM (fresh_id cx) (\<lambda>ident. insert_vehicle (row_vehicle cx tenantId (c_id customer) row ident))))
            (count_up (\<lambda>n. n\<lparr>ic_vehicles := Suc (ic_vehicles n)\<rparr>))
        | Some v \<Rightarrow> thenM (count_up (\<lambda>n. n\<lparr>ic_knownVehicles := Suc (ic_knownVehicles n)\<rparr>))
            (whenM (updateExisting \<and> merges_vehicle cx (c_id customer) row v)
              (thenM (on_db (ignore (update_by vehicles vehicles_update v_id (v_id v) (merged_vehicle cx (c_id customer) row))))
                (count_up (\<lambda>n. n\<lparr>ic_updatedVehicles := Suc (ic_updatedVehicles n)\<rparr>))))))"

definition import_one :: "ctx \<Rightarrow> uuid \<Rightarrow> bool \<Rightarrow> nat \<times> import_row \<Rightarrow> unit importM" where
  "import_one cx tenantId updateExisting = (\<lambda>(i, row). try_catch
     (row_transaction (bindM (import_customer cx tenantId updateExisting row)
       (import_vehicle cx tenantId updateExisting row)))
     (\<lambda>e. count_up (\<lambda>n. n\<lparr>ic_errors := ic_errors n @ [(Suc i, message_of e)]\<rparr>)))"

definition batchImport :: "ctx \<Rightarrow> uuid \<Rightarrow> bool \<Rightarrow> import_row list \<Rightarrow> (nat \<times> import_counts) dbM" where
  "batchImport cx tenantId updateExisting rows =
     thenM (ensure (length rows \<le> 200) (BadRequestException ''Tek seferde maksimum 200 satir ice aktarilabilir.''))
       (\<lambda>s. case for_each (enumerate 0 rows) (import_one cx tenantId updateExisting) (s, no_counts) of
          (Inl e, (s', _)) \<Rightarrow> (Inl e, s') | (Inr _, (s', c)) \<Rightarrow> (Inr (length rows, c), s'))"

end
