(* ===== verification/Redaction.thy ===== *)
theory Redaction
  imports CustomerImport
begin

text \<open>
  Consents of customers and the right to be forgotten (\<open>modules/customers\<close>): \<open>manage-consent.use-case.ts\<close>
  with its repository, and \<open>anonymizeCustomer\<close> with the redaction log, whose rows are chained by
  base64 texts. Addresses of callers, texts of messages and the URL of the consent page are left
  out; tokens come from the supply of identifiers.
\<close>

section \<open>Base64 and ISO instants\<close>

definition base64_digit :: "nat \<Rightarrow> char" where
  "base64_digit n = ''ABCDEFGHIJKLMNOPQRSTUVWXYZabcdefghijklmnopqrstuvwxyz0123456789+/'' ! n"

text \<open>\<open>Buffer.toString('base64')\<close>: three bytes in four digits, \<open>=\<close> fills the last group.\<close>

fun base64_bytes :: "nat list \<Rightarrow> string" where
  "base64_bytes [] = []"
| "base64_bytes [a] = [base64_digit (a div 4), base64_digit (a mod 4 * 16), CHR ''='', CHR ''='']"
| "base64_bytes [a, b] =
     [base64_digit (a div 4), base64_digit (a mod 4 * 16 + b div 16), base64_digit (b mod 16 * 4), CHR ''='']"
| "base64_bytes (a # b # c # rest) =
     base64_digit (a div 4) # base64_digit (a mod 4 * 16 + b div 16) #
     base64_digit (b mod 16 * 4 + c div 64) # base64_digit (c mod 64) # base64_bytes rest"

text \<open>\<open>Buffer.from(text)\<close>: an ASCII character is one byte.\<close>

definition base64 :: "string \<Rightarrow> string" where
  "base64 text = base64_bytes (map of_char text)"

text \<open>\<open>Date.prototype.toISOString\<close> for the years 0 to 9999: the civil date of a day number.\<close>

definition civil_date :: "int \<Rightarrow> int \<times> int \<times> int" where
  "civil_date days =
     (let z = days + 719468; era = z div 146097; doe = z mod 146097;
          yoe = (doe - doe div 1460 + doe div 36524 - doe div 146096) div 365;
          doy = doe - (365 * yoe + yoe div 4 - yoe div 100); mp = (5 * doy + 2) div 153;
          d = doy - (153 * mp + 2) div 5 + 1; m = (if mp < 10 then mp + 3 else mp - 9)
      in (yoe + era * 400 + (if m \<le> 2 then 1 else 0), m, d))"

definition padded :: "nat \<Rightarrow> int \<Rightarrow> string" where
  "padded n i = pad_start n (nat_str (nat i))"

definition iso_string :: "int \<Rightarrow> string" where
  "iso_string t =
     (let (y, m, d) = civil_date (t div 86400000); ms = t mod 86400000
      in padded 4 y @ ''-'' @ padded 2 m @ ''-'' @ padded 2 d @ ''T'' @ padded 2 (ms div 3600000) @ '':'' @
        padded 2 (ms div 60000 mod 60) @ '':'' @ padded 2 (ms div 1000 mod 60) @ ''.'' @ padded 3 (ms mod 1000) @ ''Z'')"

section \<open>Anonymisation (prisma-customer.repository.ts)\<close>

definition anonymized_row :: "int \<Rightarrow> customer \<Rightarrow> customer" where
  "anonymized_row t c = c\<lparr>c_firstName := ''ANONIM'', c_lastName := ''MUSTERI_'' @ take 8 (c_id c), c_companyTitle := None,
     c_phone := ''0000000000'', c_email := Some (''anonymized_'' @ take 8 (c_id c) @ ''@worksauto.local''),
     c_taxNumber := None, c_taxOffice := None,
     c_notes := Some ''[KVKK Kapsaminda Kisisel Veriler Anonimlestirildi]'', c_isAnonymized := True,
     c_deletedAt := Some t\<rparr>"

definition about_customer :: "uuid \<Rightarrow> uuid \<Rightarrow> audit_row \<Rightarrow> bool" where
  "about_customer tenantId ident l \<longleftrightarrow> al_tenantId l = tenantId \<and> al_entityName l = ''Customer'' \<and> al_entityId l = ident"

definition masked :: "string list" where
  "masked = [''[MASKED_BY_KVKK]'', ''[MASKED_BY_KVKK]'', ''[MASKED_BY_KVKK]'']"

definition genesis :: string where
  "genesis = ''GENESIS_HASH_WORKSAUTO_KVKK_2026''"

definition last_hash :: "redaction_log list \<Rightarrow> string" where
  "last_hash logs = (if logs = [] then genesis else rl_currentHash (last logs))"

definition link_text :: "ctx \<Rightarrow> string \<Rightarrow> uuid \<Rightarrow> uuid \<Rightarrow> string" where
  "link_text cx previousHash ident userId = previousHash @ ''-'' @ ident @ ''-'' @ userId @ ''-'' @ iso_string (now cx)"

definition anonymize_rows :: "ctx \<Rightarrow> uuid \<Rightarrow> uuid \<Rightarrow> uuid \<Rightarrow> string \<Rightarrow> customer dbM" where
  "anonymize_rows cx tenantId ident userId legalRef = transaction
     (bindM (update_by customers customers_update c_id ident (anonymized_row (now cx))) (\<lambda>anonymized.
      bindM (find_many customer_audits (about_customer tenantId ident)) (\<lambda>affectedLogs.
      thenM (ignore (update_where customer_audits customer_audits_update (about_customer tenantId ident)
        (\<lambda>l. l\<lparr>al_before := masked, al_after := masked\<rparr>)))
      (bindM (reads (\<lambda>s. last_hash (redaction_logs s))) (\<lambda>previousHash.
      thenM (ignore (add_row redaction_logs_update
        \<lparr>rl_redactedCustomerId = ident, rl_authorizedByUserId = userId, rl_legalRequestRef = legalRef,
         rl_affectedAuditLogIds = map al_id affectedLogs, rl_previousHash = previousHash,
         rl_currentHash = base64 (link_text cx previousHash ident userId)\<rparr>))
      (ret anonymized))))))"

definition anonymize_Customer :: "ctx \<Rightarrow> uuid \<Rightarrow> uuid \<Rightarrow> uuid \<Rightarrow> string \<Rightarrow> customer_entity dbM" where
  "anonymize_Customer cx tenantId ident userId legalRef =
     bindM (find_first customers (live_customer tenantId ident)) (\<lambda>customer.
     thenM (ensure (customer \<noteq> None) (NotFoundException ''Musteri bulunamadi.''))
     (bindM (find_first current_accounts (\<lambda>a. ca_customerId a = ident \<and> ca_tenantId a = tenantId)) (\<lambda>account.
      thenM (ensure (\<not> (case account of None \<Rightarrow> False | Some a \<Rightarrow> ca_balance a > 0)) (BadRequestException
        ''Bu musterinin acik borcu bulunmaktadir.''))
      (bindM (find_first invoices (\<lambda>i. i_customerId i = ident \<and> i_tenantId i = tenantId \<and> i_status i \<notin> {PAID, I_CANCELLED}))
        (\<lambda>openInvoice.
      thenM (ensure (openInvoice = None) (BadRequestException ''Bu musteriye ait odenmemis acik bir fatura bulunmaktadir.''))
      (bindM (anonymize_rows cx tenantId ident userId legalRef) (\<lambda>c. ret (entity_of_customer c))))))))"

definition anonymizeCustomer :: "ctx \<Rightarrow> uuid \<Rightarrow> uuid \<Rightarrow> uuid \<Rightarrow> string \<Rightarrow> customer_entity dbM" where
  "anonymizeCustomer cx tenantId ident userId legalRef =
     thenM (getCustomerById tenantId ident) (anonymize_Customer cx tenantId ident userId legalRef)"

section \<open>Consents (prisma-customer-consent.repository.ts)\<close>

definition consent_name :: "customer \<Rightarrow> string" where
  "consent_name c = js_trim (c_firstName c @ '' '' @ c_lastName c)"

definition findCustomerConsents :: "uuid \<Rightarrow> uuid \<Rightarrow> customer_consent list dbM" where
  "findCustomerConsents tenantId customerId = reads (\<lambda>s. order_by (\<lambda>a b. cc_grantedAt a \<ge> cc_grantedAt b)
     (filter (\<lambda>r. cc_tenantId r = tenantId \<and> cc_customerId r = customerId) (customer_consents s)))"

definition findConsentByToken :: "string \<Rightarrow> customer_consent option dbM" where
  "findConsentByToken token = find_first customer_consents (\<lambda>r. cc_verificationToken r = Some token)"

definition insert_consent :: "customer_consent \<Rightarrow> customer_consent dbM" where
  "insert_consent r =
     thenM (case cc_verificationToken r of None \<Rightarrow> ret ()
       | Some tok \<Rightarrow> unique_index customer_consents ''customer_consents_verification_token_key''
           (\<lambda>x. cc_verificationToken x = Some tok))
     (create_row customer_consents customer_consents_update cc_id r)"

definition granted_consent :: "ctx \<Rightarrow> uuid \<Rightarrow> uuid \<Rightarrow> string \<Rightarrow> string \<Rightarrow> string \<Rightarrow> uuid \<Rightarrow> customer_consent" where
  "granted_consent cx tenantId customerId kind channel version ident =
     \<lparr>cc_id = ident, cc_tenantId = tenantId, cc_customerId = customerId, cc_consentType = kind, cc_isGranted = True,
      cc_grantedAt = now cx, cc_revokedAt = None, cc_channel = channel, cc_policyVersion = version,
      cc_verificationToken = None, cc_expiresAt = None\<rparr>"

definition audit_customer :: "ctx \<Rightarrow> uuid \<Rightarrow> string \<Rightarrow> string \<Rightarrow> uuid \<Rightarrow> string list \<Rightarrow> unit dbM" where
  "audit_customer cx tenantId action entityName entityId after =
     bindM (fresh_id cx) (\<lambda>ident. ignore (add_row customer_audits_update
       \<lparr>al_id = ident, al_tenantId = tenantId, al_action = action, al_entityName = entityName,
        al_entityId = entityId, al_before = [], al_after = after\<rparr>))"

definition confirmConsentWithAudit :: "ctx \<Rightarrow> uuid \<Rightarrow> bool \<Rightarrow> string \<Rightarrow> int dbM" where
  "confirmConsentWithAudit cx consentId commercialSms customerName = transaction
     (bindM (update_by customer_consents customer_consents_update cc_id consentId
        (\<lambda>r. r\<lparr>cc_isGranted := True, cc_grantedAt := now cx\<rparr>)) (\<lambda>updated.
      thenM (whenM commercialSms (bindM (fresh_id cx) (\<lambda>ident. ignore (insert_consent
        (granted_consent cx (cc_tenantId updated) (cc_customerId updated) ''COMMERCIAL_SMS'' ''SMS_LINK''
          (cc_policyVersion updated) ident)))))
      (thenM (audit_customer cx (cc_tenantId updated) ''customer.kvkk_consent_granted'' ''CustomerConsent''
        (cc_id updated) [customerName])
      (ret (now cx)))))"

definition recordDirectConsent_rows :: "ctx \<Rightarrow> uuid \<Rightarrow> uuid \<Rightarrow> string \<Rightarrow> string \<Rightarrow> bool \<Rightarrow> customer_consent dbM" where
  "recordDirectConsent_rows cx tenantId customerId channel version commercialSms = transaction
     (bindM (bindM (fresh_id cx) (\<lambda>ident.
        insert_consent (granted_consent cx tenantId customerId ''KVKK_AYDINLATMA'' channel version ident))) (\<lambda>consent.
      thenM (whenM commercialSms (bindM (fresh_id cx) (\<lambda>ident. ignore (insert_consent
        (granted_consent cx tenantId customerId ''COMMERCIAL_SMS'' channel version ident)))))
      (ret consent)))"

section \<open>Consents (manage-consent.use-case.ts)\<close>

definition findCustomerWithTenant :: "uuid \<Rightarrow> uuid \<Rightarrow> customer dbM" where
  "findCustomerWithTenant tenantId customerId =
     bindM (find_first customers (live_customer tenantId customerId)) (require (NotFoundException ''Musteri bulunamadi.''))"

record consent_status =
  cs_isKvkkApproved :: bool
  cs_isCommercialSmsApproved :: bool
  cs_latestConsentDate :: "int option"
  cs_latestChannel :: "string option"
  cs_history :: "customer_consent list"

definition active_consent :: "string \<Rightarrow> customer_consent \<Rightarrow> bool" where
  "active_consent kind r \<longleftrightarrow> cc_consentType r = kind \<and> cc_isGranted r \<and> cc_revokedAt r = None"

definition getConsents :: "uuid \<Rightarrow> uuid \<Rightarrow> consent_status dbM" where
  "getConsents tenantId customerId =
     thenM (findCustomerWithTenant tenantId customerId)
     (bindM (findCustomerConsents tenantId customerId) (\<lambda>records.
      let activeKvkk = find (active_consent ''KVKK_AYDINLATMA'') records in
      ret \<lparr>cs_isKvkkApproved = (activeKvkk \<noteq> None),
        cs_isCommercialSmsApproved = (find (active_consent ''COMMERCIAL_SMS'') records \<noteq> None),
        cs_latestConsentDate = map_option cc_grantedAt activeKvkk, cs_latestChannel = map_option cc_channel activeKvkk,
        cs_history = records\<rparr>))"

definition consent_period :: int where
  "consent_period = 7 * 24 * 60 * 60 * 1000"

definition sendConsentSms :: "ctx \<Rightarrow> uuid \<Rightarrow> uuid \<Rightarrow> string dbM" where
  "sendConsentSms cx tenantId customerId =
     bindM (findCustomerWithTenant tenantId customerId) (\<lambda>customer.
     bindM (fresh_id cx) (\<lambda>token.
     bindM (fresh_id cx) (\<lambda>ident.
     thenM (ignore (insert_consent
       \<lparr>cc_id = ident, cc_tenantId = tenantId, cc_customerId = customerId, cc_consentType = ''KVKK_AYDINLATMA'',
        cc_isGranted = False, cc_grantedAt = now cx, cc_revokedAt = None, cc_channel = ''SMS_LINK'',
        cc_policyVersion = ''1.0'', cc_verificationToken = Some token, cc_expiresAt = Some (now cx + consent_period)\<rparr>))
     (thenM (whenM (c_phone customer \<noteq> []) (emit (SendSms (c_phone customer) token)))
     (thenM (audit_customer cx tenantId ''customer.consent_sms_sent'' ''Customer'' (c_id customer)
       [consent_name customer, c_phone customer, token])
     (ret token))))))"

definition expired_consent :: "ctx \<Rightarrow> customer_consent \<Rightarrow> bool" where
  "expired_consent cx r \<longleftrightarrow> (case cc_expiresAt r of None \<Rightarrow> False | Some t \<Rightarrow> t < now cx)"

definition maskPhone_consent :: "string \<Rightarrow> string" where
  "maskPhone_consent phone = (if length phone \<le> 6 then phone else take 4 phone @ ''****'' @ drop (length phone - 2) phone)"

definition consent_customer :: "customer_consent \<Rightarrow> customer dbM" where
  "consent_customer r = bindM (find_first customers (\<lambda>c. c_id c = cc_customerId r)) (require (DbError RecordNotFound))"

definition open_consent :: "ctx \<Rightarrow> string \<Rightarrow> customer_consent dbM" where
  "open_consent cx token =
     bindM (findConsentByToken token) (\<lambda>found.
     bindM (require (NotFoundException ''Gecersiz onay baglantisi.'') found) (\<lambda>consent.
     thenM (ensure (\<not> expired_consent cx consent) (BadRequestException ''Bu onay baglantisinin suresi dolmustur.''))
     (ret consent)))"

text \<open>The answer: already granted, since when, name and masked phone of the customer.\<close>

definition verifyToken :: "ctx \<Rightarrow> string \<Rightarrow> (bool \<times> int \<times> string \<times> string) dbM" where
  "verifyToken cx token =
     bindM (open_consent cx token) (\<lambda>consent.
     bindM (consent_customer consent) (\<lambda>customer.
     ret (cc_isGranted consent, cc_grantedAt consent, consent_name customer, maskPhone_consent (c_phone customer))))"

definition confirmConsent :: "ctx \<Rightarrow> string \<Rightarrow> bool \<Rightarrow> int dbM" where
  "confirmConsent cx token commercialSms =
     bindM (open_consent cx token) (\<lambda>consent.
     bindM (consent_customer consent) (\<lambda>customer.
     confirmConsentWithAudit cx (cc_id consent) commercialSms (consent_name customer)))"

definition recordDirectConsent :: "ctx \<Rightarrow> uuid \<Rightarrow> uuid \<Rightarrow> string \<Rightarrow> string option \<Rightarrow> bool \<Rightarrow> customer_consent dbM" where
  "recordDirectConsent cx tenantId customerId channel version commercialSms =
     thenM (findCustomerWithTenant tenantId customerId)
       (recordDirectConsent_rows cx tenantId customerId channel (or_else version ''1.0'') commercialSms)"

section \<open>The controllers\<close>

datatype customer_request =
    OpenCustomer customer_input
  | ChangeCustomer uuid customer_update
  | ArchiveCustomer uuid
  | RestoreCustomer uuid
  | TakeLead quick_lead
  | ImportRows bool "import_row list"
  | ForgetCustomer uuid uuid string
  | AskConsent uuid
  | DeskConsent uuid string "string option" bool
  | ConfirmConsent string bool

fun handle_customer :: "ctx \<times> uuid \<times> customer_request \<Rightarrow> unit dbM" where
  "handle_customer (cx, t, OpenCustomer dto) = ignore (createCustomer cx t dto)"
| "handle_customer (cx, t, ChangeCustomer k dto) = ignore (updateCustomer cx t k dto)"
| "handle_customer (cx, t, ArchiveCustomer k) = ignore (softDelete cx t k)"
| "handle_customer (cx, t, RestoreCustomer k) = ignore (restoreCustomer t k)"
| "handle_customer (cx, t, TakeLead dto) = ignore (quickLead cx t dto)"
| "handle_customer (cx, t, ImportRows upd rows) = ignore (batchImport cx t upd rows)"
| "handle_customer (cx, t, ForgetCustomer k u r) = ignore (anonymizeCustomer cx t k u (or_else (Some r) ''KVKK_TALEP_FORMU''))"
| "handle_customer (cx, t, AskConsent k) = ignore (sendConsentSms cx t k)"
| "handle_customer (cx, t, DeskConsent k ch v sms) = ignore (recordDirectConsent cx t k ch v sms)"
| "handle_customer (cx, t, ConfirmConsent tok sms) = ignore (confirmConsent cx tok sms)"

end
