(* ===== verification/VehicleRules.thy ===== *)
theory VehicleRules
  imports Redaction Service
begin

text \<open>
  What the vehicle module keeps: rows it wrote read back as entities (\<open>vehicle_fits\<close>), so the list of
  a workshop never fails; and what happens when another module writes a row that does not.
\<close>

section \<open>Tidy texts\<close>

definition upper_char :: "char \<Rightarrow> char" where
  "upper_char c = (if c \<in> set ''abcdefghijklmnopqrstuvwxyz'' then char_of ((of_char c :: nat) - 32) else c)"

lemma upper_chars: "\<forall>c. is_space (upper_char c) = is_space c \<and> upper_char (upper_char c) = upper_char c"
  by code_simp

lemma to_upper_map: "to_upper = map upper_char"
  by (simp add: to_upper_def upper_char_def fun_eq_iff)

lemma trim_upper: "js_trim (to_upper s) = to_upper (js_trim s)"
proof -
  have "is_space \<circ> upper_char = is_space"
    using upper_chars by (simp add: fun_eq_iff)
  then show ?thesis
    by (simp add: to_upper_map js_trim_def dropWhile_map rev_map)
qed

lemma upper_upper: "to_upper (to_upper s) = to_upper s"
  using upper_chars by (simp add: to_upper_map)

lemma trim_trim: "js_trim (js_trim s) = js_trim s"
proof -
  let ?d = "dropWhile is_space"
  have idem: "?d (?d xs) = ?d xs" for xs
    by (induction xs) auto
  have "?d (rev (?d (rev t))) = rev (?d (rev t))" if "?d t = t" for t
  proof (cases "rev (?d (rev t))")
    case (Cons c cs)
    have "rev t = takeWhile is_space (rev t) @ ?d (rev t)"
      by simp
    then have "t = rev (?d (rev t)) @ rev (takeWhile is_space (rev t))"
      by (metis rev_append rev_rev_ident)
    then have "t = c # cs @ rev (takeWhile is_space (rev t))"
      using Cons by simp
    with that have "\<not> is_space c"
      by (metis dropWhile.simps(2) length_Cons length_dropWhile_le not_less_eq_eq)
    with Cons show ?thesis
      by simp
  next
    case Nil
    then show ?thesis by (simp only: dropWhile.simps rev.simps)
  qed
  from this [of "?d s", OF idem] show ?thesis
    by (simp add: js_trim_def idem)
qed

lemma tidy_tidy: "or_null (tidy_code (tidy_code x)) = or_null (tidy_code x)"
proof (cases "or_null (tidy_code x)")
  case (Some s)
  then obtain r where "s = to_upper (js_trim r)" and "s \<noteq> []" and x: "tidy_code x = Some s"
    by (auto simp: tidy_code_def)
  then have "tidy_code (Some s) = Some s"
    by (simp add: tidy_code_def trim_upper trim_trim upper_upper)
  with x show ?thesis by simp
next
  case None
  then have "tidy_code (tidy_code x) = None"
    by (simp add: tidy_code_def [of "tidy_code x"])
  with None show ?thesis by simp
qed

section \<open>Rows that read back\<close>

definition vin_ok :: "string option \<Rightarrow> bool" where
  "vin_ok vin \<longleftrightarrow> (case or_null (tidy_code vin) of None \<Rightarrow> True | Some s \<Rightarrow> length s = 17)"

definition vehicle_fits :: "nat \<Rightarrow> vehicle \<Rightarrow> bool" where
  "vehicle_fits Y v \<longleftrightarrow> 1950 \<le> v_year v \<and> v_year v \<le> int Y + 1 \<and> 0 \<le> v_currentKm v \<and> vin_ok (v_vin v)"

definition entity_fits :: "nat \<Rightarrow> vehicle_entity \<Rightarrow> bool" where
  "entity_fits Y e \<longleftrightarrow> 1950 \<le> ve_year e \<and> ve_year e \<le> int Y + 1 \<and> 0 \<le> ve_currentKm e \<and> vin_ok (ve_vin e)"

abbreviation fleet_ok :: "nat \<Rightarrow> db \<Rightarrow> bool" where
  "fleet_ok Y s \<equiv> list_all (vehicle_fits Y) (vehicles s)"

lemma fits_later: "vehicle_fits Y v \<Longrightarrow> Y \<le> Z \<Longrightarrow> vehicle_fits Z v"
  by (auto simp: vehicle_fits_def)

lemma vin_ok_tidy: "vin_ok (tidy_code vin) = vin_ok vin"
  by (simp add: vin_ok_def tidy_tidy)

lemma vin_ok_None [simp]: "vin_ok None"
  by (simp add: vin_ok_def tidy_code_def)

lemma validate_ok: "validateDomainRules cx e = Inr e' \<Longrightarrow>
    e' = e \<and> 1950 \<le> ve_year e \<and> ve_year e \<le> int (year cx) + 1 \<and> 0 \<le> ve_currentKm e \<and>
    (case or_null (ve_vin e) of None \<Rightarrow> True | Some vin \<Rightarrow> length vin = 17)"
  by (auto simp: validateDomainRules_def split: if_splits option.splits)

lemma new_entity_ok: "new_VehicleEntity cx e = Inr e' \<Longrightarrow>
    entity_fits (year cx) e' \<and> (\<exists>x. ve_vin e' = tidy_code x) \<and> ve_id e' = ve_id e \<and> ve_tenantId e' = ve_tenantId e \<and>
    ve_customerId e' = ve_customerId e"
  unfolding new_VehicleEntity_def by (auto dest!: validate_ok simp: entity_fits_def vin_ok_def tidy_tidy)

lemma new_entity_fails: "new_VehicleEntity cx e = Inl err \<Longrightarrow> \<not> entity_fits (year cx) e \<and> (\<exists>m. err = DomainError m)"
  by (auto simp: new_VehicleEntity_def validateDomainRules_def entity_fits_def vin_ok_def split: if_splits option.splits)

lemma entity_of_fits: "entity_fits Y (entity_of_vehicle n s v) = vehicle_fits Y v"
  by (simp add: entity_fits_def vehicle_fits_def entity_of_vehicle_def)

lemma wp_mapToVehicle:
  "wp (mapToVehicle cx n v) (\<lambda>e s'. s' = s \<and> vehicle_fits (year cx) v \<and> entity_fits (year cx) e \<and> (\<exists>x. ve_vin e = tidy_code x) \<and>
       ve_id e = Some (v_id v) \<and> ve_tenantId e = v_tenantId v \<and> ve_customerId e = v_customerId v)
     (\<lambda>err s'. s' = s \<and> \<not> vehicle_fits (year cx) v \<and> (\<exists>m. err = DomainError m)) s"
proof (cases "new_VehicleEntity cx (entity_of_vehicle n s v)")
  case (Inl err)
  from new_entity_fails [OF this] Inl show ?thesis
    by (simp add: mapToVehicle_def wp_simps entity_of_fits)
next
  case (Inr e)
  then have "entity_fits (year cx) (entity_of_vehicle n s v)"
    unfolding new_VehicleEntity_def by (auto dest!: validate_ok simp: entity_fits_def vin_ok_def)
  with new_entity_ok [OF Inr] Inr show ?thesis
    by (auto simp: mapToVehicle_def wp_simps entity_of_fits) (simp_all add: entity_of_vehicle_def)
qed

lemmas mapToVehicle_cases = wp_mono [OF wp_mapToVehicle]

section \<open>Every vehicle request keeps them\<close>

lemma keeps_vehicle_reads [keeps_intros]:
  "keeps I (mapToVehicle cx n v)" "keeps I (map_found cx n found)" "keeps I (findById_Vehicle cx t k)"
  "keeps I (findByPlate cx t p)" "keeps I (findByPlateAny cx t p)" "keeps I (getVehicleById cx t k)"
  "keeps I (findAll_Vehicle cx t q c)" "keeps I (plate_index t p kk)"
proof -
  show map: "keeps I (mapToVehicle cx n v)" for n v
    unfolding mapToVehicle_def by (intro keeps_intros)
  show found: "keeps I (map_found cx n found)" for n found
    unfolding map_found_def by (intro keeps_intros map)
  show byId: "keeps I (findById_Vehicle cx t k)"
    unfolding findById_Vehicle_def by (intro keeps_intros found)
  show "keeps I (findByPlate cx t p)" "keeps I (findByPlateAny cx t p)"
    unfolding findByPlate_def findByPlateAny_def Let_def by (intro keeps_intros found)+
  show "keeps I (getVehicleById cx t k)"
    unfolding getVehicleById_def by (intro keeps_intros byId)
  have "keeps I (mapToVehicles cx n vs)" for n vs
    by (induction vs) (auto intro!: keeps_intros map)
  then show "keeps I (findAll_Vehicle cx t q c)"
    unfolding findAll_Vehicle_def by (intro keeps_intros)
  show "keeps I (plate_index t p kk)"
    unfolding plate_index_def by (intro keeps_intros)
qed

lemma row_of_fits: "vehicle_fits Y (row_of_vehicle k e) = entity_fits Y e"
  by (simp add: vehicle_fits_def entity_fits_def row_of_vehicle_def)

lemma updated_fits: "entity_fits Y e \<Longrightarrow> vehicle_fits Y v \<Longrightarrow> vehicle_fits Y (updated_vehicle e v)"
  by (auto simp: vehicle_fits_def entity_fits_def updated_vehicle_def or_keep_def split: option.split)

lemma fits_entity_later: "entity_fits y e \<Longrightarrow> y \<le> Y \<Longrightarrow> entity_fits Y e"
  by (auto simp: entity_fits_def)

lemma keeps_fleet_supply [keeps_intros]: "keeps (fleet_ok Y) (fresh_id cx)"
  by (simp add: keeps_def wp_simps)

lemma keeps_fleet_insert: "vehicle_fits Y v \<Longrightarrow> keeps (fleet_ok Y) (insert_vehicle v)"
  by (auto simp: keeps_def insert_vehicle_def plate_index_def wp_simps)

lemma keeps_fleet_save: "entity_fits Y e \<Longrightarrow> keeps (fleet_ok Y) (save_Vehicle cx e)"
  unfolding save_Vehicle_def by (intro keeps_intros keeps_fleet_insert) (simp add: row_of_fits)

lemma keeps_fleet_rows:
  "(\<And>v. vehicle_fits Y v \<Longrightarrow> vehicle_fits Y (f v)) \<Longrightarrow> keeps (fleet_ok Y) (update_by vehicles vehicles_update v_id k f)"
  by (auto simp: keeps_def wp_simps intro!: list_all_update_rowI split: option.split)

lemma keeps_fleet_update: "entity_fits Y e \<Longrightarrow> keeps (fleet_ok Y) (update_Vehicle cx e)"
  unfolding update_Vehicle_def by (intro keeps_intros keeps_fleet_rows) (simp add: updated_fits)

lemma keeps_fleet_transfer [keeps_intros]: "keeps (fleet_ok Y) (transferOwnership cx t k c)"
  unfolding transferOwnership_def by (intro keeps_intros keeps_fleet_rows) (simp add: vehicle_fits_def)

lemma keeps_fleet_delete [keeps_intros]: "keeps (fleet_ok Y) (softDelete_Vehicle cx t k)"
  unfolding softDelete_Vehicle_def
  by (intro keeps_ignore) (auto simp: keeps_def wp_simps list_all_iff vehicle_fits_def)

lemma keeps_as_bad_request [keeps_intros]: "keeps I m \<Longrightarrow> keeps I (as_bad_request fallback m)"
  unfolding as_bad_request_def by (intro keeps_intros)

lemma keeps_fleet_create:
  assumes "year cx \<le> Y"
  shows "keeps (fleet_ok Y) (createVehicle cx t dto)"
proof -
  define saved where "saved = bindM (lift_sum (new_VehicleEntity cx (vehicle_props t (normalizePlate (vi_plate dto)) dto))) (save_Vehicle cx)"
  have "keeps (fleet_ok Y) saved"
    unfolding saved_def
    by (rule keeps_lift_bind) (blast intro: keeps_fleet_save fits_entity_later [OF _ assms] dest: new_entity_ok)
  then show ?thesis
    unfolding createVehicle_def Let_def saved_def [symmetric] by (intro keeps_intros)
qed

lemma wp_getVehicleById:
  "wp (getVehicleById cx t k) (\<lambda>e s'. s' = s \<and> (\<exists>x. ve_vin e = tidy_code x) \<and> (\<exists>v \<in> set (vehicles s).
       vehicle_fits (year cx) v \<and> v_id v = k \<and> v_tenantId v = t \<and> v_deletedAt v = None \<and> ve_id e = Some k \<and> ve_tenantId e = t))
     (\<lambda>_ s'. s' = s) s"
proof (cases "find (\<lambda>v. v_id v = k \<and> v_tenantId v = t \<and> v_deletedAt v = None \<and> owner_active s v) (vehicles s)")
  case (Some v)
  from find_SomeD [OF Some] show ?thesis
    unfolding getVehicleById_def findById_Vehicle_def map_found_def
    by (simp add: wp_simps Some) (rule wp_mono [OF wp_mapToVehicle], auto simp: wp_simps)
qed (simp add: getVehicleById_def findById_Vehicle_def map_found_def wp_simps)

lemma validated_fits:
  "validateDomainRules cx e = Inr e' \<Longrightarrow> ve_vin e = tidy_code y \<Longrightarrow> entity_fits (year cx) e'"
  by (auto dest!: validate_ok simp: entity_fits_def vin_ok_def tidy_tidy)

lemma details_fit:
  assumes "updateDetails cx dto e = Inr e'" and "ve_vin e = tidy_code x"
  shows "entity_fits (year cx) e'"
proof -
  have "\<exists>y. (if vu_vin dto = None then ve_vin e else tidy_code (vu_vin dto)) = tidy_code y"
    using assms(2) by auto
  then obtain y where y: "(if vu_vin dto = None then ve_vin e else tidy_code (vu_vin dto)) = tidy_code y" ..
  show ?thesis
    using assms(1) unfolding updateDetails_def Let_def y updateKilometer_def
    by (auto split: option.splits if_splits intro: validated_fits)
qed

lemma keeps_fleet_change:
  assumes "year cx \<le> Y"
  shows "keeps (fleet_ok Y) (updateVehicle cx t k dto)"
proof (rule keepsI)
  fix s assume fleet: "fleet_ok Y s"
  define saved where "saved e = bindM (lift_sum (updateDetails cx dto e)) (update_Vehicle cx)" for e
  have saved: "keeps (fleet_ok Y) (saved e)" if "ve_vin e = tidy_code x" for e x
    unfolding saved_def
    by (rule keeps_lift_bind) (rule keeps_fleet_update [OF fits_entity_later [OF details_fit [OF _ that] assms]])
  have "keeps (fleet_ok Y) (thenM (case or_null (vu_plate dto) of None \<Rightarrow> ret ()
       | Some p \<Rightarrow> bindM (findByPlate cx t (normalizePlate p)) (\<lambda>existing.
           case existing of None \<Rightarrow> ret ()
           | Some e \<Rightarrow> ensure (ve_id e = Some k) (ConflictException ''Bu plaka ile kayitli baska bir arac zaten mevcut.'')))
     (as_bad_request ''Arac guncellenirken gecersiz veri tespit edildi.''
       (saved e)))" if "ve_vin e = tidy_code x" for e x
    by (intro keeps_intros saved [OF that])
  then show "wp (updateVehicle cx t k dto) (\<lambda>_. fleet_ok Y) (\<lambda>_. fleet_ok Y) s"
    unfolding updateVehicle_def wp_bindM saved_def [symmetric]
    by (intro wp_mono [OF wp_getVehicleById]) (use fleet in \<open>auto simp: keeps_def\<close>)
qed

definition asked_by :: "nat \<Rightarrow> ctx \<times> uuid \<times> vehicle_request \<Rightarrow> bool" where
  "asked_by Y q \<longleftrightarrow> year (fst q) \<le> Y"

lemma handle_vehicle_fleet: "asked_by Y q \<Longrightarrow> keeps (fleet_ok Y) (handle_vehicle q)"
  by (cases q rule: handle_vehicle.cases)
    (auto simp: asked_by_def deleteVehicle_def transferVehicle_def
      intro!: keeps_ignore keeps_intros keeps_fleet_create keeps_fleet_change)

interpretation fleet: service_contract handle_vehicle "\<lambda>q _. asked_by Y q" "fleet_ok Y"
  by unfold_locales (use handle_vehicle_fleet in \<open>auto simp: keeps_def\<close>)

section \<open>Lists of rows that read back, and of others\<close>

lemma wp_mapToVehicles:
  "list_all (vehicle_fits (year cx)) vs \<Longrightarrow>
   wp (mapToVehicles cx n vs) (\<lambda>es s'. s' = s \<and> map ve_id es = map (\<lambda>v. Some (v_id v)) vs) (\<lambda>_ _. False) s"
proof (induction vs)
  case (Cons v vs)
  then have "wp (mapToVehicles cx n vs) (\<lambda>es s'. s' = s \<and> map ve_id es = map (\<lambda>v. Some (v_id v)) vs) (\<lambda>_ _. False) s"
    by simp
  then have "wp (mapToVehicles cx n vs) (\<lambda>es. wp (ret (e # es)) (\<lambda>es s'. s' = s \<and>
      map ve_id es = map (\<lambda>v. Some (v_id v)) (v # vs)) (\<lambda>_ _. False)) (\<lambda>_ _. False) s" if "ve_id e = Some (v_id v)" for e
    by (rule wp_mono) (simp_all add: wp_ret that)
  then show ?case
    using Cons.prems by (auto simp: wp_bindM intro!: mapToVehicle_cases)
qed (simp add: wp_simps)

lemma mapToVehicles_stuck:
  "v \<in> set vs \<Longrightarrow> \<not> vehicle_fits (year cx) v \<Longrightarrow>
   wp (mapToVehicles cx n vs) (\<lambda>_ _. False) (\<lambda>e s'. s' = s \<and> (\<exists>m. e = DomainError m)) s"
proof (induction vs)
  case (Cons w vs)
  show ?case
  proof (cases "v = w")
    case True
    with Cons.prems show ?thesis
      by (auto simp: wp_bindM intro!: mapToVehicle_cases)
  next
    case False
    with Cons have "wp (mapToVehicles cx n vs) (\<lambda>_ _. False) (\<lambda>e s'. s' = s \<and> (\<exists>m. e = DomainError m)) s"
      by simp
    then have "wp (mapToVehicles cx n vs) (\<lambda>es. wp (ret (e # es)) (\<lambda>_ _. False) (\<lambda>e s'. s' = s \<and> (\<exists>m. e = DomainError m)))
        (\<lambda>e s'. s' = s \<and> (\<exists>m. e = DomainError m)) s" for e
      by (rule wp_mono) simp_all
    then show ?thesis
      by (auto simp: wp_bindM intro!: mapToVehicle_cases)
  qed
qed simp

text \<open>An active vehicle of the workshop with an impossible year.\<close>

definition poisoned :: "uuid \<Rightarrow> uuid \<Rightarrow> db \<Rightarrow> bool" where
  "poisoned t k s \<longleftrightarrow> unique_rows v_id (vehicles s) \<and> (\<exists>v \<in> set (vehicles s). v_id v = k \<and> v_tenantId v = t \<and>
     v_deletedAt v = None \<and> owner_active s v \<and> v_year v < 1950)"

lemma poisoned_lists_nothing:
  "poisoned t k s \<Longrightarrow> wp (findAll_Vehicle cx t None None) (\<lambda>_ _. False) (\<lambda>e s'. s' = s \<and> (\<exists>m. e = DomainError m)) s"
  unfolding findAll_Vehicle_def
  by (auto simp: poisoned_def wp_simps vehicle_matches_def vehicle_fits_def intro!: mapToVehicles_stuck)

lemma poisoned_fit:
  assumes "poisoned t k s" and "v \<in> set (vehicles s)" and "vehicle_fits Y v"
  shows "v_id v \<noteq> k"
proof
  assume k: "v_id v = k"
  obtain w where "w \<in> set (vehicles s)" "v_id w = k" "v_year w < 1950" and unique: "unique_rows v_id (vehicles s)"
    using assms(1) by (auto simp: poisoned_def)
  moreover from this have "v = w"
    using unique_rows_eq [OF unique assms(2), of w] k by simp
  ultimately show False
    using assms(3) by (simp add: vehicle_fits_def)
qed

lemma poisoned_map:
  assumes "poisoned t k s" and "\<And>v. v_id (g v) = v_id v"
    and "\<And>v. v \<in> set (vehicles s) \<Longrightarrow> v_id v = k \<Longrightarrow> v_deletedAt v = None \<Longrightarrow> owner_active s v \<Longrightarrow>
      v_tenantId (g v) = v_tenantId v \<and> v_deletedAt (g v) = None \<and> owner_active s (g v) \<and> v_year (g v) = v_year v"
  shows "poisoned t k (s\<lparr>vehicles := map g (vehicles s)\<rparr>)"
proof -
  obtain v where v: "v \<in> set (vehicles s)" "v_id v = k" "v_tenantId v = t" "v_deletedAt v = None" "owner_active s v" "v_year v < 1950"
    using assms(1) by (auto simp: poisoned_def)
  moreover have "unique_rows v_id (map g (vehicles s))"
    using assms(1) by (simp add: poisoned_def unique_rows_def comp_def assms(2))
  moreover have "owner_active (s\<lparr>vehicles := map g (vehicles s)\<rparr>) = owner_active s"
    by (simp add: owner_active_def fun_eq_iff)
  moreover have "g v \<in> set (map g (vehicles s))"
    using v(1) by simp
  ultimately show ?thesis
    using assms(2) [of v] assms(3) [OF v(1,2,4,5)] unfolding poisoned_def
    by (intro conjI bexI [of _ "g v"]) simp_all
qed

lemmas poisoned_update = poisoned_map [of _ _ _ "\<lambda>v. if v_id v = j then f v else v" for j f, folded update_row_def]

lemma keeps_poisoned_small [keeps_intros]:
  "keeps (poisoned t k) (fresh_id cx)" "keeps (poisoned t k) (insert_vehicle v)"
  by (auto simp: keeps_def poisoned_def owner_active_def insert_vehicle_def plate_index_def wp_simps unique_rows_def)

lemma keeps_poisoned_save [keeps_intros]: "keeps (poisoned t k) (save_Vehicle cx e)"
  unfolding save_Vehicle_def by (intro keeps_intros)

lemma keeps_poisoned_transfer [keeps_intros]: "keeps (poisoned t k) (transferOwnership cx t' j c)"
proof (rule keepsI)
  fix s assume s: "poisoned t k s"
  show "wp (transferOwnership cx t' j c) (\<lambda>_. poisoned t k) (\<lambda>_. poisoned t k) s"
  proof (cases "find (live_customer t' c) (customers s)")
    case (Some owner)
    then have "owner_active s v" if "v_customerId v = c" for v
      using find_SomeD [OF Some] that by (auto simp: owner_active_def list_ex_iff live_customer_def)
    then have "poisoned t k (s\<lparr>vehicles := update_row v_id j (\<lambda>v. v\<lparr>v_customerId := c, v_deletedAt := None\<rparr>) (vehicles s)\<rparr>)"
      by (intro poisoned_update s) simp_all
    then show ?thesis
      using s Some unfolding transferOwnership_def
      by (auto simp: wp_simps keeps_vehicle_reads [unfolded keeps_def] split: option.split)
  qed (use s in \<open>simp add: transferOwnership_def wp_simps\<close>)
qed

lemma keeps_poisoned_create: "keeps (poisoned t k) (createVehicle cx t' dto)"
  unfolding createVehicle_def Let_def by (intro keeps_intros)

lemma keeps_poisoned_rows: "j \<noteq> k \<Longrightarrow> (\<And>v. v_id (f v) = v_id v) \<Longrightarrow>
    keeps (poisoned t k) (update_by vehicles vehicles_update v_id j f)"
  unfolding keeps_def by (auto simp: wp_simps intro!: poisoned_update split: option.split)

lemma poisoned_getVehicleById:
  assumes "poisoned t k s"
    and "\<And>e. j \<noteq> k \<Longrightarrow> ve_id e = Some j \<Longrightarrow> keeps (poisoned t k) (m e)"
  shows "wp (bindM (getVehicleById cx t' j) m) (\<lambda>_. poisoned t k) (\<lambda>_. poisoned t k) s"
  unfolding wp_bindM
proof (rule wp_mono [OF wp_getVehicleById], goal_cases)
  case (1 e s')
  then have "j \<noteq> k"
    using poisoned_fit [OF assms(1)] by blast
  then show ?case
    using 1 assms by (auto simp: keeps_def)
qed (use assms(1) in auto)

lemma keeps_poisoned_delete: "keeps (poisoned t k) (deleteVehicle cx t' j)"
proof (rule keepsI)
  fix s assume s: "poisoned t k s"
  have "keeps (poisoned t k) (softDelete_Vehicle cx t' j)" if "j \<noteq> k"
    using that unfolding softDelete_Vehicle_def
    by (intro keeps_ignore) (auto simp: keeps_def wp_simps intro!: poisoned_map)
  then show "wp (deleteVehicle cx t' j) (\<lambda>_. poisoned t k) (\<lambda>_. poisoned t k) s"
    unfolding deleteVehicle_def thenM_def by (intro poisoned_getVehicleById s)
qed

lemma details_id: "updateDetails cx dto e = Inr e' \<Longrightarrow> ve_id e' = ve_id e"
  by (auto simp: updateDetails_def updateKilometer_def Let_def dest!: validate_ok split: option.splits if_splits)

lemma keeps_poisoned_change: "keeps (poisoned t k) (updateVehicle cx t' j dto)"
proof (rule keepsI)
  fix s assume s: "poisoned t k s"
  define saved where "saved e = bindM (lift_sum (updateDetails cx dto e)) (update_Vehicle cx)" for e
  have "keeps (poisoned t k) (saved e)" if "j \<noteq> k" "ve_id e = Some j" for e
    unfolding saved_def
  proof (rule keeps_lift_bind)
    fix e' assume "updateDetails cx dto e = Inr e'"
    then have "ve_id e' = Some j"
      using that(2) by (simp add: details_id)
    then show "keeps (poisoned t k) (update_Vehicle cx e')"
      unfolding update_Vehicle_def require_def using that(1)
      by (cases "j = []") (auto simp: bind_known updated_vehicle_def intro!: keeps_intros keeps_poisoned_rows)
  qed
  then show "wp (updateVehicle cx t' j dto) (\<lambda>_. poisoned t k) (\<lambda>_. poisoned t k) s"
    unfolding updateVehicle_def saved_def [symmetric] by (intro poisoned_getVehicleById s keeps_intros)
qed

interpretation poisoned_fleet: closed_service handle_vehicle "\<lambda>_ _. True" "poisoned t k"
proof unfold_locales
  fix s q assume "poisoned t k s"
  moreover have "keeps (poisoned t k) (handle_vehicle q)"
    by (cases q rule: handle_vehicle.cases) (auto simp: transferVehicle_def
      intro!: keeps_ignore keeps_intros keeps_poisoned_create keeps_poisoned_change keeps_poisoned_delete)
  ultimately show "wp (handle_vehicle q) (\<lambda>_. poisoned t k) (\<lambda>_. poisoned t k) s"
    by (simp add: keeps_def)
qed simp

end
