(* ===== verification/CustomerRules.thy ===== *)
theory CustomerRules
  imports VehicleRules
begin

text \<open>
  What the customer module keeps: active customers of a workshop have different numbers (as long as
  nobody is restored and imported rows carry a number), a customer who owes money is not erased,
  archiving and restoring is the identity up to vehicles archived before, and the redaction log is a
  chain whose links grow by a third with every row.
\<close>

section \<open>Frames\<close>

lemma keeps_new_account: "(\<And>f s. I (current_accounts_update f s) = I s) \<Longrightarrow> (\<And>f s. I (id_supply_update f s) = I s) \<Longrightarrow>
    keeps I (new_account cx t k limit)"
  unfolding new_account_def fresh_id_def
  by (intro keeps_intros keeps_ignore keeps_create_row) (auto simp: keeps_def wp_simps)

lemma keeps_supply_frame: "(\<And>f s. I (id_supply_update f s) = I s) \<Longrightarrow> keeps I (fresh_id cx)"
  by (simp add: keeps_def fresh_id_def wp_simps)

lemma keeps_customer_reads [keeps_intros]:
  "keeps I (findById_Customer t k)" "keeps I (findByPhone t p)" "keeps I (getCustomerById t k)"
  "keeps I (findCustomerWithTenant t k)" "keeps I (open_consent cx tok)" "keeps I (consent_customer r)"
proof -
  show "keeps I (findById_Customer t k)" for t k
    unfolding findById_Customer_def by (intro keeps_intros)
  then show "keeps I (getCustomerById t k)"
    unfolding getCustomerById_def by (intro keeps_intros)
qed (unfold findByPhone_def findCustomerWithTenant_def open_consent_def findConsentByToken_def consent_customer_def;
    intro keeps_intros)+

text \<open>The consent operations leave customers, accounts, vehicles and the redaction log alone.\<close>

definition consent_frame :: "(db \<Rightarrow> bool) \<Rightarrow> bool" where
  "consent_frame I \<longleftrightarrow> (\<forall>f s. I (customer_consents_update f s) = I s) \<and> (\<forall>f s. I (customer_audits_update f s) = I s) \<and>
     (\<forall>f s. I (id_supply_update f s) = I s) \<and> (\<forall>f s. I (outbox_update f s) = I s)"

lemma keeps_consents:
  assumes "consent_frame I"
  shows "keeps I (sendConsentSms cx t k)" and "keeps I (recordDirectConsent cx t k ch v sms)"
    and "keeps I (confirmConsent cx tok sms)"
proof -
  have ids: "keeps I (fresh_id cx)" for cx
    using assms by (intro keeps_supply_frame) (simp add: consent_frame_def)
  have consent: "keeps I (insert_consent r)" for r
    unfolding insert_consent_def using assms by (intro keeps_intros keeps_create_row) (simp add: consent_frame_def)
  have audit: "keeps I (audit_customer cx t a n k after)" for cx t a n k after
    unfolding audit_customer_def using assms
    by (intro keeps_intros keeps_ignore ids keeps_add_row) (simp add: consent_frame_def)
  have emit: "keeps I (emit e)" for e
    using assms by (simp add: keeps_def wp_simps consent_frame_def)
  show "keeps I (sendConsentSms cx t k)"
    unfolding sendConsentSms_def by (intro keeps_intros keeps_ignore ids consent audit emit)
  show "keeps I (recordDirectConsent cx t k ch v sms)"
    unfolding recordDirectConsent_def recordDirectConsent_rows_def by (intro keeps_intros keeps_ignore ids consent)
  show "keeps I (confirmConsent cx tok sms)"
    unfolding confirmConsent_def confirmConsentWithAudit_def using assms
    by (intro keeps_intros keeps_ignore ids consent audit keeps_update_by) (simp add: consent_frame_def)
qed

text \<open>The loop of the import, from an invariant of the database.\<close>

lemma keeps_on_db: "keeps I m \<Longrightarrow> keeps (\<lambda>sc. I (fst sc)) (on_db m)"
  by (rule keepsI) (simp only: wp_on_db fst_conv keeps_def)

lemma keeps_count_up: "keeps (\<lambda>sc. I (fst sc)) (count_up f)"
  by (rule keepsI) (simp only: wp_count_up fst_conv)

lemma keeps_row_transaction:
  assumes "keeps (\<lambda>sc. I (fst sc)) m"
  shows "keeps (\<lambda>sc. I (fst sc)) (row_transaction m)"
proof (rule keepsI)
  fix sc :: "db \<times> import_counts" assume sc: "I (fst sc)"
  then have "wp m (\<lambda>_ sc. I (fst sc)) (\<lambda>_ sc. I (fst sc)) sc"
    by (rule keeps_step [OF assms])
  then show "wp (row_transaction m) (\<lambda>_ sc. I (fst sc)) (\<lambda>_ sc. I (fst sc)) sc"
    unfolding wp_row_transaction by (rule wp_mono) (use sc in simp_all)
qed

lemma keeps_batchImport:
  assumes "\<And>row. row \<in> set rows \<Longrightarrow> keeps (\<lambda>sc. I (fst sc)) (import_customer cx t upd row)"
    and "\<And>row c. row \<in> set rows \<Longrightarrow> keeps (\<lambda>sc. I (fst sc)) (import_vehicle cx t upd row c)"
  shows "keeps I (batchImport cx t upd rows)"
proof (rule keepsI)
  fix s assume s: "I s"
  have "wp (for_each (enumerate 0 rows) (import_one cx t upd)) (\<lambda>_ sc. I (fst sc)) (\<lambda>_ sc. I (fst sc)) (s, no_counts)"
  proof (rule wp_for_each)
    fix x :: "nat \<times> import_row" and sc :: "db \<times> import_counts"
    assume x: "x \<in> set (enumerate 0 rows)" and sc: "I (fst sc)"
    then have "snd x \<in> set rows"
      by (metis enumerate_eq_zip in_set_zipE prod.collapse)
    then have "keeps (\<lambda>sc. I (fst sc)) (import_one cx t upd x)"
      unfolding import_one_def split_beta
      by (intro keeps_intros keeps_row_transaction keeps_count_up assms)
    with sc show "wp (import_one cx t upd x) (\<lambda>_ sc. I (fst sc)) (\<lambda>_ sc. I (fst sc)) sc"
      by (rule keeps_step [rotated])
  qed (use s in simp)
  then show "wp (batchImport cx t upd rows) (\<lambda>_. I) (\<lambda>_. I) s"
    unfolding batchImport_def wp_thenM wp_ensure using s
    by (auto simp: wp_def wp_simps split: prod.splits sum.splits)
qed

lemma keeps_import_vehicle:
  assumes "\<And>f s. I (vehicles_update f s) = I s" and "\<And>f s. I (id_supply_update f s) = I s"
  shows "keeps (\<lambda>sc. I (fst sc)) (import_vehicle cx t upd row c)"
  unfolding import_vehicle_def insert_vehicle_def
  by (intro keeps_intros keeps_on_db keeps_count_up keeps_ignore keeps_supply_frame keeps_create_row keeps_update_by assms)

section \<open>Active customers have different numbers\<close>

definition rivals :: "customer \<Rightarrow> customer \<Rightarrow> bool" where
  "rivals a b \<longleftrightarrow> c_deletedAt a = None \<and> c_deletedAt b = None \<and> c_tenantId a = c_tenantId b \<and> c_phone a = c_phone b"

definition phones_ok :: "db \<Rightarrow> bool" where
  "phones_ok s \<longleftrightarrow> unique_rows c_id (customers s) \<and>
     (\<forall>a \<in> set (customers s). \<forall>b \<in> set (customers s). rivals a b \<longrightarrow> c_id a = c_id b)"

lemma phones_frames [simp]:
  "phones_ok (id_supply_update f1 s) = phones_ok s" "phones_ok (current_accounts_update f2 s) = phones_ok s"
  "phones_ok (vehicles_update f3 s) = phones_ok s" "phones_ok (redaction_logs_update f4 s) = phones_ok s"
  "phones_ok (customer_audits_update f5 s) = phones_ok s" "phones_ok (customer_consents_update f6 s) = phones_ok s"
  "phones_ok (outbox_update f7 s) = phones_ok s"
  by (simp_all add: phones_ok_def)

lemma rivals_sym: "rivals a b = rivals b a"
  by (auto simp: rivals_def)

lemma phones_append:
  assumes "phones_ok s" and "c_id r \<notin> c_id ` set (customers s)"
    and "find (has_phone (c_tenantId r) (c_phone r)) (customers s) = None"
  shows "phones_ok (s\<lparr>customers := customers s @ [r]\<rparr>)"
proof -
  have "\<not> rivals r c" if "c \<in> set (customers s)" for c
    using find_NoneD [OF assms(3) that] by (auto simp: has_phone_def rivals_def)
  moreover have "\<not> rivals c r" if "c \<in> set (customers s)" for c
    using calculation [OF that] by (simp add: rivals_sym)
  ultimately show ?thesis
    using assms(1,2) unfolding phones_ok_def unique_rows_def by auto
qed

lemma phones_update:
  assumes "phones_ok s" and id: "\<And>c. c_id (f c) = c_id c"
    and "\<And>c d. c \<in> set (customers s) \<Longrightarrow> c_id c = k \<Longrightarrow> d \<in> set (customers s) \<Longrightarrow> c_id d \<noteq> k \<Longrightarrow> \<not> rivals (f c) d"
  shows "phones_ok (s\<lparr>customers := update_row c_id k f (customers s)\<rparr>)"
  unfolding phones_ok_def
proof (intro conjI ballI impI)
  show "unique_rows c_id (customers (s\<lparr>customers := update_row c_id k f (customers s)\<rparr>))"
    using assms(1) by (simp add: phones_ok_def unique_rows_def keys_update_row id)
  fix a b assume ab: "a \<in> set (customers (s\<lparr>customers := update_row c_id k f (customers s)\<rparr>))"
    "b \<in> set (customers (s\<lparr>customers := update_row c_id k f (customers s)\<rparr>))" "rivals a b"
  then obtain c d where c: "c \<in> set (customers s)" "a = (if c_id c = k then f c else c)"
    and d: "d \<in> set (customers s)" "b = (if c_id d = k then f d else d)"
    by (auto simp: set_update_row)
  have "c_id c = c_id d" if "c_id c \<noteq> k" "c_id d \<noteq> k"
    using that c d ab(3) assms(1) by (auto simp: phones_ok_def)
  moreover have "\<not> rivals (f c) d" if "c_id c = k" "c_id d \<noteq> k"
    using assms(3) c(1) d(1) that by blast
  moreover have "\<not> rivals c (f d)" if "c_id d = k" "c_id c \<noteq> k"
    using assms(3) c(1) d(1) that rivals_sym by blast
  ultimately show "c_id a = c_id b"
    using c(2) d(2) ab(3) by (cases "c_id c = k"; cases "c_id d = k") (simp_all add: id)
qed

lemma wp_phones_new:
  assumes "phones_ok s" and "\<And>i. find (has_phone (c_tenantId (row i)) (c_phone (row i))) (customers s) = None"
  shows "wp (add_customer cx row limit) (\<lambda>_. phones_ok) (\<lambda>_. phones_ok) s"
proof -
  have account: "wp (new_account cx t k limit) (\<lambda>_. phones_ok) (\<lambda>_. phones_ok) s'" if "phones_ok s'" for t k s'
    by (rule keeps_step [where I = phones_ok, OF keeps_new_account that]) simp_all
  show ?thesis
    unfolding add_customer_def using assms phones_append [of "s\<lparr>id_supply := Suc (id_supply s)\<rparr>" "row (gen_id cx (id_supply s))"]
    by (auto simp: wp_simps wp_funs intro!: account)
qed

lemmas wp_phones_add = wp_mono [where E' = "\<lambda>_ _. True", OF wp_phones_new _ TrueI]

lemma phones_create: "keeps phones_ok (createCustomer cx t dto)"
proof (rule keepsI)
  fix s assume s: "phones_ok s"
  let ?row = "\<lambda>i. row_of_customer cx i (customer_props t (clean_phone (ci_phone dto)) dto)"
  have "wp (bindM (add_customer cx ?row limit) (\<lambda>c. ret (entity_of_customer c))) (\<lambda>_. phones_ok) (\<lambda>_ _. True) s"
    if "find (has_phone t (clean_phone (ci_phone dto))) (customers s) = None" for limit
    unfolding wp_bindM wp_funs
    by (rule wp_phones_add [OF s]) (simp_all add: that row_of_customer_def customer_props_def)
  then show "wp (createCustomer cx t dto) (\<lambda>_. phones_ok) (\<lambda>_. phones_ok) s"
    unfolding createCustomer_def create_Customer_def findByPhone_def Let_def using s
    by (auto simp: wp_simps intro!: wp_transaction_inv [unfolded wp_transaction])
qed

lemma keeps_phones_rows:
  "(\<And>c. c_id (f c) = c_id c \<and> c_deletedAt (f c) \<noteq> None) \<Longrightarrow> keeps phones_ok (update_by customers customers_update c_id k f)"
  unfolding keeps_def
proof (intro allI impI)
  fix s assume f: "\<And>c. c_id (f c) = c_id c \<and> c_deletedAt (f c) \<noteq> None" and s: "phones_ok s"
  have "phones_ok (s\<lparr>customers := update_row c_id k f (customers s)\<rparr>)"
    by (rule phones_update [OF s]) (simp_all only: rivals_def f simp_thms)
  with s show "wp (update_by customers customers_update c_id k f) (\<lambda>_. phones_ok) (\<lambda>_. phones_ok) s"
    by (simp add: wp_simps split: option.split)
qed

lemma keeps_phones_archive [keeps_intros]:
  "keeps phones_ok (softDelete cx t k)" "keeps phones_ok (anonymizeCustomer cx t k u r)"
  unfolding softDelete_def softDelete_Customer_def archive_rows_def anonymizeCustomer_def anonymize_Customer_def
    anonymize_rows_def
  by (intro keeps_intros keeps_ignore keeps_phones_rows keeps_update_where keeps_add_row; simp add: anonymized_row_def)+

lemma changed_phone_kept: "changed_customer dto e = Inr e' \<Longrightarrow>
    ce_phone e' = ce_phone e \<and> ce_id e' = ce_id e \<and> ce_tenantId e' = ce_tenantId e"
  by (auto simp: changed_customer_def updateCreditLimit_def Let_def split: option.splits if_splits)

lemma wp_save_phone:
  assumes s: "phones_ok s" and c: "find (live_customer t k) (customers s) = Some c"
    and e: "ce_id e = Some k" "ce_tenantId e = t"
    and free: "\<And>d. find (has_phone t (ce_phone e)) (customers s) = Some d \<Longrightarrow> c_id d = k"
  shows "wp (save_Customer cx e) (\<lambda>_. phones_ok) (\<lambda>_. phones_ok) s"
proof -
  have "\<not> rivals (updated_customer cx e a) d"
    if a: "a \<in> set (customers s)" "c_id a = k" "d \<in> set (customers s)" "c_id d \<noteq> k" for a d
  proof
    assume r: "rivals (updated_customer cx e a) d"
    have "a = c"
      using s find_SomeD [OF c] a(1,2) unique_rows_eq [of c_id "customers s" a c] by (simp add: phones_ok_def live_customer_def)
    then have d: "has_phone t (ce_phone e) d"
      using r find_SomeD [OF c] by (auto simp: rivals_def has_phone_def updated_customer_def live_customer_def)
    then obtain d' where d': "find (has_phone t (ce_phone e)) (customers s) = Some d'"
      using a(3) by (cases "find (has_phone t (ce_phone e)) (customers s)") (auto dest: find_NoneD)
    then have "rivals d' d" "d' \<in> set (customers s)"
      using d find_SomeD [OF d'] by (auto simp: rivals_def has_phone_def)
    then have "c_id d' = c_id d"
      using s a(3) by (auto simp: phones_ok_def)
    then show False
      using free [OF d'] a(4) by simp
  qed
  then have "phones_ok (s\<lparr>customers := update_row c_id k (updated_customer cx e) (customers s)\<rparr>)"
    by (intro phones_update s) (simp add: updated_customer_def)
  then show ?thesis
    using s c unfolding save_Customer_def e by (auto simp: wp_simps split: option.split)
qed

lemma phones_change: "keeps phones_ok (updateCustomer cx t k dto)"
proof (rule keepsI)
  fix s assume s: "phones_ok s"
  show "wp (updateCustomer cx t k dto) (\<lambda>_. phones_ok) (\<lambda>_. phones_ok) s"
  proof (cases "find (live_customer t k) (customers s)")
    case None
    then show ?thesis
      using s by (simp add: updateCustomer_def getCustomerById_def findById_Customer_def wp_simps)
  next
    case (Some c)
    let ?e = "detailed_customer s c"
    have ids: "ce_id ?e = Some k" "ce_tenantId ?e = t" "ce_phone ?e = c_phone c"
      using find_SomeD [OF Some]
      by (simp_all add: detailed_customer_def with_vehicles_def entity_of_customer_def live_customer_def)
    have own: "c_id d = k" if "find (has_phone t (c_phone c)) (customers s) = Some d" for d
    proof -
      have "rivals d c" "d \<in> set (customers s)" "c \<in> set (customers s)" "c_id c = k"
        using find_SomeD [OF that] find_SomeD [OF Some] by (auto simp: rivals_def has_phone_def live_customer_def)
      then show ?thesis
        using s by (auto simp: phones_ok_def)
    qed
    have saved: "wp (bindM (lift_sum (changed_customer dto e)) (save_Customer cx)) (\<lambda>_. phones_ok) (\<lambda>_. phones_ok) s"
      if e: "ce_id e = Some k" "ce_tenantId e = t"
        "\<And>d. find (has_phone t (ce_phone e)) (customers s) = Some d \<Longrightarrow> c_id d = k" for e
    proof (cases "changed_customer dto e")
      case (Inr e')
      with changed_phone_kept [OF Inr] show ?thesis
        by (auto simp: wp_bindM wp_lift_sum e intro!: wp_save_phone [OF s Some])
    qed (use s in \<open>simp add: wp_simps\<close>)
    show ?thesis
    proof (cases "or_null (cu_phone dto)")
      case None
      show ?thesis
        unfolding updateCustomer_def getCustomerById_def findById_Customer_def new_phone_def None
        using saved [OF ids(1,2), unfolded ids(3), OF own]
        by (simp add: wp_bindM wp_reads wp_require \<open>find (live_customer t k) (customers s) = Some c\<close> wp_ret)
    next
      case (Some p)
      show ?thesis
        unfolding updateCustomer_def getCustomerById_def findById_Customer_def new_phone_def Some Let_def findByPhone_def
        by (auto simp: wp_bindM wp_reads wp_require \<open>find (live_customer t k) (customers s) = Some c\<close> wp_ret wp_find_first
          wp_thenM wp_ensure ids s entity_of_customer_def split: option.splits intro!: saved [unfolded wp_bindM])
    qed
  qed
qed

lemma phones_lead: "keeps phones_ok (quickLead cx t dto)"
proof -
  have lead: "wp (case find (has_phone t p) (customers s) of Some c \<Rightarrow> ret c | None \<Rightarrow> add_customer cx (lead_row t d) 0)
      (\<lambda>_. phones_ok) (\<lambda>_ _. True) s" if "phones_ok s" "ql_phone d = p" for d p s
    using that by (cases "find (has_phone t p) (customers s)") (auto simp: wp_simps lead_row_def intro!: wp_phones_add)
  have vehicle: "keeps phones_ok (case found of Some v \<Rightarrow> ret v | None \<Rightarrow> bindM (fresh_id cx) (\<lambda>i. insert_vehicle (row i)))" for found row
    unfolding insert_vehicle_def
    by (cases found) (auto intro!: keeps_intros keeps_supply_frame keeps_create_row)
  have "keeps phones_ok (quickLead_rows cx t d)" for d
    unfolding quickLead_rows_def Let_def
  proof (rule keepsI, rule wp_transaction_inv, assumption, unfold wp_bindM wp_find_first, rule wp_mono [OF lead], assumption,
      rule refl, goal_cases)
    case (1 s c s')
    then show ?case
      by (intro wp_mono [OF keeps_step [OF vehicle]]) (auto simp: wp_ret)
  qed simp
  then show ?thesis
    unfolding quickLead_def by (intro keeps_intros)
qed

text \<open>An import whose rows all carry a number.\<close>

lemma keeps_phones_import_customer:
  assumes "standard_phone (trimmed (ir_phone row)) \<noteq> []"
  shows "keeps (\<lambda>sc. phones_ok (fst sc)) (import_customer cx t upd row)"
proof (rule keepsI)
  fix sc :: "db \<times> import_counts" assume sc: "phones_ok (fst sc)"
  let ?p = "standard_phone (trimmed (ir_phone row))"
  let ?candidates = "phone_candidates ?p (trimmed (ir_phone row))"
  let ?known = "\<lambda>c. c_tenantId c = t \<and> c_phone c \<in> set ?candidates \<and> c_deletedAt c = None"
  have found: "?p \<in> set ?candidates"
    using assms by (simp add: phone_candidates_def)
  show "wp (import_customer cx t upd row) (\<lambda>_ sc. phones_ok (fst sc)) (\<lambda>_ sc. phones_ok (fst sc)) sc"
  proof (cases "find ?known (customers (fst sc))")
    case None
    have "find (has_phone t ?p) (customers (fst sc)) = None"
      using None found by (auto simp: find_None_iff has_phone_def)
    then have "wp (add_customer cx (row_customer t row) 0) (\<lambda>_. phones_ok) (\<lambda>_. phones_ok) (fst sc)"
      by (intro wp_phones_new sc) (simp add: row_customer_def Let_def or_else_def assms)
    then show ?thesis
      using assms None by (simp add: import_customer_def Let_def wp_simps)
  next
    case (Some c)
    have "keeps phones_ok (update_by customers customers_update c_id (c_id c) (merged_customer row))"
      unfolding keeps_def
    proof (intro allI impI)
      fix s assume s: "phones_ok s"
      have "phones_ok (s\<lparr>customers := update_row c_id (c_id c) (merged_customer row) (customers s)\<rparr>)"
      proof (rule phones_update [OF s])
        fix a d assume "a \<in> set (customers s)" "c_id a = c_id c" "d \<in> set (customers s)" "c_id d \<noteq> c_id c"
        moreover have "rivals (merged_customer row a) d = rivals a d"
          by (simp add: rivals_def merged_customer_def)
        ultimately show "\<not> rivals (merged_customer row a) d"
          using s by (auto simp: phones_ok_def)
      qed (simp add: merged_customer_def)
      with s show "wp (update_by customers customers_update c_id (c_id c) (merged_customer row))
          (\<lambda>_. phones_ok) (\<lambda>_. phones_ok) s"
        by (simp add: wp_simps split: option.split)
    qed
    then have "keeps (\<lambda>sc. phones_ok (fst sc)) (thenM (count_up f)
        (thenM (whenM b (thenM (on_db (ignore (update_by customers customers_update c_id (c_id c) (merged_customer row))))
          (count_up g))) (ret c)))" for f g b
      by (intro keeps_intros keeps_on_db keeps_count_up keeps_ignore)
    from keeps_step [OF this sc] show ?thesis
      using assms Some by (simp add: import_customer_def Let_def wp_bindM wp_on_db wp_find_first)
  qed
qed

fun numbered :: "ctx \<times> uuid \<times> customer_request \<Rightarrow> bool" where
  "numbered (cx, t, RestoreCustomer k) = False"
| "numbered (cx, t, ImportRows upd rows) = list_all (\<lambda>row. standard_phone (trimmed (ir_phone row)) \<noteq> []) rows"
| "numbered (cx, t, q) = True"

lemma handle_customer_phones: "numbered q \<Longrightarrow> keeps phones_ok (handle_customer q)"
proof (cases q rule: handle_customer.cases)
  case (6 cx t upd rows)
  assume "numbered q"
  with 6 have "keeps (\<lambda>sc. phones_ok (fst sc)) (import_customer cx t upd row)" if "row \<in> set rows" for row
    using that by (intro keeps_phones_import_customer) (simp add: list_all_iff)
  with 6 show ?thesis
    by (auto intro!: keeps_ignore keeps_batchImport keeps_import_vehicle)
qed (auto intro!: keeps_ignore phones_create phones_change phones_lead keeps_phones_archive keeps_consents
    simp: consent_frame_def)

interpretation phone_book: service_contract handle_customer "\<lambda>q _. numbered q" phones_ok
  by unfold_locales (use handle_customer_phones in \<open>auto simp: keeps_def\<close>)

section \<open>Who owes money is not erased\<close>

definition known_customer :: "uuid \<Rightarrow> uuid \<Rightarrow> customer \<Rightarrow> bool" where
  "known_customer t k c \<longleftrightarrow> live_customer t k c \<and> \<not> c_isAnonymized c"

definition debtor :: "uuid \<Rightarrow> uuid \<Rightarrow> db \<Rightarrow> bool" where
  "debtor t k s \<longleftrightarrow> unique_rows c_id (customers s) \<and> list_ex (known_customer t k) (customers s) \<and>
     (case find (\<lambda>a. ca_customerId a = k) (current_accounts s) of
        None \<Rightarrow> False | Some a \<Rightarrow> ca_tenantId a = t \<and> ca_balance a > 0)"

lemma debtor_frames [simp]:
  "debtor t k (id_supply_update f1 s) = debtor t k s" "debtor t k (vehicles_update f2 s) = debtor t k s"
  "debtor t k (redaction_logs_update f3 s) = debtor t k s" "debtor t k (customer_audits_update f4 s) = debtor t k s"
  "debtor t k (customer_consents_update f5 s) = debtor t k s" "debtor t k (outbox_update f6 s) = debtor t k s"
  by (simp_all add: debtor_def)

lemma debtor_row:
  assumes "debtor t k s" and "find (live_customer t' k) (customers s) = Some c"
  shows "t' = t \<and> c_isAnonymized c = False"
proof -
  obtain d where d: "d \<in> set (customers s)" "known_customer t k d" and unique: "unique_rows c_id (customers s)"
    using assms(1) by (auto simp: debtor_def list_ex_iff)
  moreover have "c = d"
    using unique_rows_eq [OF unique, of c d] d find_SomeD [OF assms(2)] by (simp add: known_customer_def live_customer_def)
  ultimately show ?thesis
    using find_SomeD [OF assms(2)] by (simp add: known_customer_def live_customer_def)
qed

lemma debtor_update:
  assumes "debtor t k s" and "\<And>c. c_id (f c) = c_id c"
    and "\<And>c. j = k \<Longrightarrow> c \<in> set (customers s) \<Longrightarrow> known_customer t k c \<Longrightarrow> known_customer t k (f c)"
  shows "debtor t k (s\<lparr>customers := update_row c_id j f (customers s)\<rparr>)"
proof -
  have "unique_rows c_id (update_row c_id j f (customers s))"
    using assms(1) by (simp add: debtor_def unique_rows_def keys_update_row assms(2))
  moreover obtain c where "c \<in> set (customers s)" "known_customer t k c"
    using assms(1) by (auto simp: debtor_def list_ex_iff)
  then have "list_ex (known_customer t k) (update_row c_id j f (customers s))"
    using assms(3) [of c] by (auto simp: list_ex_iff set_update_row known_customer_def live_customer_def)
  ultimately show ?thesis
    using assms(1) by (simp add: debtor_def)
qed

lemma keeps_debtor_rows:
  assumes "\<And>c. c_id (f c) = c_id c" and "\<And>c. j = k \<Longrightarrow> known_customer t k c \<Longrightarrow> known_customer t k (f c)"
  shows "keeps (debtor t k) (update_by customers customers_update c_id j f)"
proof (rule keepsI)
  fix s assume s: "debtor t k s"
  have "debtor t k (s\<lparr>customers := update_row c_id j f (customers s)\<rparr>)"
    using assms by (intro debtor_update s)
  with s show "wp (update_by customers customers_update c_id j f) (\<lambda>_. debtor t k) (\<lambda>_. debtor t k) s"
    by (simp add: wp_simps split: option.split)
qed

lemma keeps_debtor_account: "keeps (debtor t k) (new_account cx t' j limit)"
  unfolding new_account_def
  by (intro keeps_intros keeps_ignore keeps_supply_frame)
    (auto simp: keeps_def wp_simps debtor_def find_append split: option.splits)

lemma keeps_debtor_add: "keeps (debtor t k) (add_customer cx row limit)"
proof -
  have "keeps (debtor t k) (create_row customers customers_update c_id r)" for r
    by (auto simp: keeps_def wp_simps debtor_def unique_rows_def list_ex_iff split: option.splits)
  then show ?thesis
    unfolding add_customer_def by (intro keeps_intros keeps_supply_frame keeps_debtor_account) simp_all
qed

lemma keeps_debtor_create: "keeps (debtor t k) (createCustomer cx t' dto)"
  unfolding createCustomer_def create_Customer_def Let_def by (intro keeps_intros keeps_debtor_add)

lemma keeps_debtor_restore: "keeps (debtor t k) (restoreCustomer t' j)"
  unfolding restoreCustomer_def restore_Customer_def restore_rows_def
  by (intro keeps_intros keeps_ignore keeps_update_where keeps_debtor_rows) (simp_all add: known_customer_def live_customer_def)

lemma keeps_debtor_vehicle: "keeps (debtor t k) (insert_vehicle v)"
  unfolding insert_vehicle_def by (intro keeps_intros keeps_create_row) simp

lemma keeps_debtor_lead: "keeps (debtor t k) (quickLead cx t' dto)"
  unfolding quickLead_def quickLead_rows_def Let_def
  by (intro keeps_intros keeps_debtor_add keeps_debtor_vehicle keeps_supply_frame) simp_all

lemma keeps_debtor_import: "keeps (debtor t k) (batchImport cx t' upd rows)"
proof (rule keeps_batchImport)
  have "keeps (debtor t k) (update_by customers customers_update c_id j (merged_customer row))" for j row
    by (rule keeps_debtor_rows) (simp_all add: known_customer_def live_customer_def merged_customer_def)
  then show "keeps (\<lambda>sc. debtor t k (fst sc)) (import_customer cx t' upd row)" for row
    unfolding import_customer_def Let_def
    by (intro keeps_intros keeps_on_db keeps_count_up keeps_ignore keeps_debtor_add)
qed (intro keeps_import_vehicle; simp)

text \<open>A request on a known debtor that reads the live row first.\<close>

lemma debtor_read:
  assumes "debtor t k s"
    and "\<And>c. find (live_customer t' j) (customers s) = Some c \<Longrightarrow> (j = k \<Longrightarrow> t' = t \<and> c_isAnonymized c = False) \<Longrightarrow>
      wp (m (detailed_customer s c)) (\<lambda>_. debtor t k) (\<lambda>_. debtor t k) s"
  shows "wp (bindM (getCustomerById t' j) m) (\<lambda>_. debtor t k) (\<lambda>_. debtor t k) s"
proof (cases "find (live_customer t' j) (customers s)")
  case (Some c)
  from assms(2) [OF this] debtor_row [OF assms(1), of t' c] Some show ?thesis
    by (auto simp: getCustomerById_def findById_Customer_def wp_simps)
qed (use assms(1) in \<open>simp add: getCustomerById_def findById_Customer_def wp_simps\<close>)

lemma keeps_debtor_archive: "keeps (debtor t k) (softDelete cx t' j)"
proof (rule keepsI)
  fix s assume s: "debtor t k s"
  have rows: "keeps (debtor t k) (archive_rows x t' j)" if "j \<noteq> k" for x
    unfolding archive_rows_def using that
    by (intro keeps_intros keeps_ignore keeps_update_where keeps_debtor_rows) simp_all
  show "wp (softDelete cx t' j) (\<lambda>_. debtor t k) (\<lambda>_. debtor t k) s"
    unfolding softDelete_def thenM_def
  proof (rule debtor_read [OF s])
    fix c assume c: "find (live_customer t' j) (customers s) = Some c" "j = k \<Longrightarrow> t' = t \<and> c_isAnonymized c = False"
    show "wp (softDelete_Customer cx t' j) (\<lambda>_. debtor t k) (\<lambda>_. debtor t k) s"
    proof (cases "j = k")
      case True
      then have "account_of s c = find (\<lambda>a. ca_customerId a = k) (current_accounts s)"
        using find_SomeD [OF c(1)] by (simp add: account_of_def live_customer_def)
      then show ?thesis
        using s c(1) by (auto simp: softDelete_Customer_def wp_simps debtor_def split: option.splits)
    next
      case False
      show ?thesis
        unfolding softDelete_Customer_def by (rule keeps_step [where I = "debtor t k", OF _ s]) (intro keeps_intros rows False)
    qed
  qed
qed

lemma keeps_debtor_forget: "keeps (debtor t k) (anonymizeCustomer cx t' j u r)"
proof (rule keepsI)
  fix s assume s: "debtor t k s"
  have rows: "keeps (debtor t k) (anonymize_rows cx t' j u r)" if "j \<noteq> k"
    unfolding anonymize_rows_def using that
    by (intro keeps_intros keeps_ignore keeps_update_where keeps_add_row keeps_debtor_rows) (simp_all add: anonymized_row_def)
  show "wp (anonymizeCustomer cx t' j u r) (\<lambda>_. debtor t k) (\<lambda>_. debtor t k) s"
    unfolding anonymizeCustomer_def thenM_def
  proof (rule debtor_read [OF s])
    fix c assume c: "find (live_customer t' j) (customers s) = Some c" "j = k \<Longrightarrow> t' = t \<and> c_isAnonymized c = False"
    show "wp (anonymize_Customer cx t' j u r) (\<lambda>_. debtor t k) (\<lambda>_. debtor t k) s"
    proof (cases "j = k")
      case True
      obtain a where a: "find (\<lambda>a. ca_customerId a = k) (current_accounts s) = Some a" "ca_tenantId a = t" "ca_balance a > 0"
        using s by (auto simp: debtor_def split: option.splits)
      then have "find (\<lambda>a. ca_customerId a = j \<and> ca_tenantId a = t') (current_accounts s) = Some a"
        using c(2) True by (simp add: find_and)
      then show ?thesis
        using s c(1) a(3) by (simp add: anonymize_Customer_def wp_simps)
    next
      case False
      show ?thesis
        unfolding anonymize_Customer_def by (rule keeps_step [where I = "debtor t k", OF _ s]) (intro keeps_intros rows False)
    qed
  qed
qed

lemma keeps_debtor_change: "keeps (debtor t k) (updateCustomer cx t' j dto)"
proof (rule keepsI)
  fix s assume s: "debtor t k s"
  have save: "keeps (debtor t k) (save_Customer cx e)" if "ce_id e = Some j" "j = k \<Longrightarrow> \<not> ce_isAnonymized e" for e
    unfolding save_Customer_def using that
    by (auto intro!: keeps_intros keeps_debtor_rows simp: updated_customer_def known_customer_def live_customer_def)
  have saved: "wp (bindM (lift_sum (changed_customer dto e)) (save_Customer cx)) (\<lambda>_. debtor t k) (\<lambda>_. debtor t k) s"
    if "ce_id e = Some j" "j = k \<Longrightarrow> \<not> ce_isAnonymized e" for e
  proof (cases "changed_customer dto e")
    case (Inr e')
    then have "ce_id e' = ce_id e" "ce_isAnonymized e' = ce_isAnonymized e"
      by (auto simp: changed_customer_def updateCreditLimit_def Let_def split: option.splits if_splits)
    with Inr that keeps_step [where I = "debtor t k", OF save [of e'] s] show ?thesis
      by (simp add: wp_bindM wp_lift_sum)
  qed (use s in \<open>simp add: wp_simps\<close>)
  show "wp (updateCustomer cx t' j dto) (\<lambda>_. debtor t k) (\<lambda>_. debtor t k) s"
    unfolding updateCustomer_def
  proof (rule debtor_read [OF s])
    fix c assume c: "find (live_customer t' j) (customers s) = Some c" "j = k \<Longrightarrow> t' = t \<and> c_isAnonymized c = False"
    let ?e = "detailed_customer s c"
    have "ce_id ?e = Some j" "ce_isAnonymized ?e = c_isAnonymized c"
      using find_SomeD [OF c(1)]
      by (simp_all add: detailed_customer_def with_vehicles_def entity_of_customer_def live_customer_def)
    with c(2) show "wp (bindM (new_phone t' j dto ?e) (\<lambda>e. bindM (lift_sum (changed_customer dto e)) (save_Customer cx)))
        (\<lambda>_. debtor t k) (\<lambda>_. debtor t k) s"
      by (cases "or_null (cu_phone dto)")
        (auto simp: new_phone_def Let_def findByPhone_def wp_bindM wp_ret wp_find_first wp_thenM wp_ensure s
          intro!: saved [unfolded wp_bindM])
  qed
qed

lemma handle_customer_debtor: "keeps (debtor t k) (handle_customer q)"
  by (cases q rule: handle_customer.cases)
    (auto intro!: keeps_ignore keeps_debtor_create keeps_debtor_change keeps_debtor_archive keeps_debtor_restore
      keeps_debtor_lead keeps_debtor_import keeps_debtor_forget keeps_consents simp: consent_frame_def)

interpretation debtors: closed_service handle_customer "\<lambda>_ _. True" "debtor t k" for t k
  by unfold_locales (use handle_customer_debtor in \<open>auto simp: keeps_def\<close>)

section \<open>The chain of the redaction log\<close>

text \<open>Every row repeats the link before it and carries the base64 text of that link and its own data.\<close>

fun linked :: "string \<Rightarrow> redaction_log list \<Rightarrow> bool" where
  "linked previous [] \<longleftrightarrow> True"
| "linked previous (r # rs) \<longleftrightarrow> rl_previousHash r = previous \<and>
     (\<exists>instant. rl_currentHash r = base64 (previous @ ''-'' @ rl_redactedCustomerId r @ ''-'' @ rl_authorizedByUserId r @ ''-'' @ instant)) \<and>
     linked (rl_currentHash r) rs"

lemma linked_append: "linked previous (rs @ [r]) \<longleftrightarrow> linked previous rs \<and>
    linked (if rs = [] then previous else rl_currentHash (last rs)) [r]"
  by (induction rs arbitrary: previous) auto

definition chained :: "db \<Rightarrow> bool" where
  "chained s \<longleftrightarrow> linked genesis (redaction_logs s)"

lemma chained_frames [simp]:
  "chained (id_supply_update f1 s) = chained s" "chained (vehicles_update f2 s) = chained s"
  "chained (customers_update f3 s) = chained s" "chained (customer_audits_update f4 s) = chained s"
  "chained (customer_consents_update f5 s) = chained s" "chained (outbox_update f6 s) = chained s"
  "chained (current_accounts_update f7 s) = chained s"
  by (simp_all add: chained_def)

lemma keeps_chained_add: "keeps chained (add_customer cx row limit)"
  unfolding add_customer_def
  by (intro keeps_intros keeps_supply_frame keeps_new_account keeps_create_row) simp_all

lemma keeps_chained_forget: "keeps chained (anonymizeCustomer cx t k u r)"
proof -
  have link: "keeps chained (bindM (reads (\<lambda>s. last_hash (redaction_logs s))) (\<lambda>p.
      thenM (ignore (add_row redaction_logs_update \<lparr>rl_redactedCustomerId = k, rl_authorizedByUserId = u,
        rl_legalRequestRef = r, rl_affectedAuditLogIds = ids, rl_previousHash = p,
        rl_currentHash = base64 (link_text cx p k u)\<rparr>)) (ret c)))" for ids c
    by (auto simp: keeps_def wp_simps ignore_def chained_def linked_append last_hash_def link_text_def)
  show ?thesis
    unfolding anonymizeCustomer_def anonymize_Customer_def anonymize_rows_def
    by (intro keeps_intros keeps_ignore link keeps_update_by keeps_update_where) simp_all
qed

lemma keeps_chained_import: "keeps chained (batchImport cx t upd rows)"
proof (rule keeps_batchImport)
  show "keeps (\<lambda>sc. chained (fst sc)) (import_customer cx t upd row)" for row
    unfolding import_customer_def Let_def
    by (intro keeps_intros keeps_on_db keeps_count_up keeps_ignore keeps_chained_add keeps_update_by) simp_all
qed (intro keeps_import_vehicle; simp)

lemma keeps_chained_desk [keeps_intros]:
  "keeps chained (createCustomer cx t d)" "keeps chained (softDelete cx t k)" "keeps chained (restoreCustomer t k)"
  "keeps chained (save_Customer cx e)" "keeps chained (new_phone t k u e)" "keeps chained (quickLead cx t l)"
proof -
  show "keeps chained (createCustomer cx t d)"
    unfolding createCustomer_def create_Customer_def Let_def by (intro keeps_intros keeps_chained_add)
  show "keeps chained (softDelete cx t k)"
    unfolding softDelete_def softDelete_Customer_def archive_rows_def
    by (intro keeps_intros keeps_ignore keeps_update_by keeps_update_where) simp_all
  show "keeps chained (restoreCustomer t k)"
    unfolding restoreCustomer_def restore_Customer_def restore_rows_def
    by (intro keeps_intros keeps_ignore keeps_update_by keeps_update_where) simp_all
  show "keeps chained (save_Customer cx e)"
    unfolding save_Customer_def by (intro keeps_intros keeps_update_by) simp_all
  show "keeps chained (new_phone t k u e)"
    unfolding new_phone_def Let_def by (intro keeps_intros)
  show "keeps chained (quickLead cx t l)"
    unfolding quickLead_def quickLead_rows_def insert_vehicle_def Let_def
    by (intro keeps_intros keeps_chained_add keeps_supply_frame keeps_create_row) simp_all
qed

lemma keeps_chained_change: "keeps chained (updateCustomer cx t k dto)"
  unfolding updateCustomer_def by (intro keeps_intros)

lemma handle_customer_chained: "keeps chained (handle_customer q)"
  by (cases q rule: handle_customer.cases)
    (auto intro!: keeps_ignore keeps_chained_desk keeps_chained_change keeps_chained_import keeps_chained_forget
      keeps_consents simp: consent_frame_def)

interpretation redactions: closed_service handle_customer "\<lambda>_ _. True" chained
  by unfold_locales (use handle_customer_chained in \<open>auto simp: keeps_def\<close>)

text \<open>A base64 text is a third longer than its source, so links grow with every row.\<close>

lemma length_base64: "4 * length text \<le> 3 * length (base64 text)"
proof -
  have "4 * length bs \<le> 3 * length (base64_bytes bs)" for bs
    by (induction bs rule: base64_bytes.induct) simp_all
  from this [of "map of_char text"] show ?thesis
    by (simp add: base64_def)
qed

lemma linked_growth:
  assumes "linked previous rs"
  shows "length previous * 4 ^ length rs \<le> 3 ^ length rs * length (if rs = [] then previous else rl_currentHash (last rs))"
  using assms
proof (induction rs arbitrary: previous)
  case (Cons r rs)
  obtain rest where "rl_currentHash r = base64 (previous @ rest)"
    using Cons.prems by auto
  then have "4 * length previous \<le> 3 * length (rl_currentHash r)"
    using length_base64 [of "previous @ rest"] by simp
  then have step: "(4 * length previous) * 4 ^ length rs \<le> (3 * length (rl_currentHash r)) * 4 ^ length rs"
    by (rule mult_le_mono1)
  have IH: "length (rl_currentHash r) * 4 ^ length rs \<le>
      3 ^ length rs * length (if rs = [] then rl_currentHash r else rl_currentHash (last rs))"
    using Cons.IH [of "rl_currentHash r"] Cons.prems by simp
  have "length previous * 4 ^ Suc (length rs) \<le> 3 * (length (rl_currentHash r) * 4 ^ length rs)"
    using step by (simp add: mult_ac)
  also have "\<dots> \<le> 3 * (3 ^ length rs * length (if rs = [] then rl_currentHash r else rl_currentHash (last rs)))"
    using IH by (rule mult_le_mono2)
  finally show ?case
    by (cases rs) (simp_all add: mult_ac)
qed simp

lemma chain_growth:
  assumes "chained s"
  shows "32 * 4 ^ length (redaction_logs s) \<le> 3 ^ length (redaction_logs s) * length (last_hash (redaction_logs s))"
  using linked_growth [OF assms [unfolded chained_def]] by (simp add: last_hash_def genesis_def)

section \<open>Archive and restore\<close>

definition revived :: "uuid \<Rightarrow> uuid \<Rightarrow> vehicle \<Rightarrow> vehicle" where
  "revived t k v = (if v_customerId v = k \<and> v_tenantId v = t then v\<lparr>v_deletedAt := None\<rparr> else v)"

definition archived_db :: "int \<Rightarrow> uuid \<Rightarrow> uuid \<Rightarrow> db \<Rightarrow> db" where
  "archived_db at_ms t k s = s\<lparr>customers := update_row c_id k (\<lambda>c. c\<lparr>c_deletedAt := Some at_ms\<rparr>) (customers s),
     vehicles := map (\<lambda>v. if v_customerId v = k \<and> v_tenantId v = t \<and> v_deletedAt v = None then v\<lparr>v_deletedAt := Some at_ms\<rparr> else v)
       (vehicles s)\<rparr>"

lemma wp_softDelete: "wp (softDelete cx t k)
    (\<lambda>_ s1. s1 = archived_db (now cx) t k s \<and> (\<exists>c. find (live_customer t k) (customers s) = Some c)) (\<lambda>_ s1. s1 = s) s"
  by (simp add: softDelete_def getCustomerById_def findById_Customer_def softDelete_Customer_def archive_rows_def
    archived_db_def ignore_def wp_simps split: option.split)

lemma wp_restore_archived:
  assumes unique: "unique_rows c_id (customers s)" and c: "find (live_customer t k) (customers s) = Some c"
  shows "wp (restoreCustomer t k) (\<lambda>_ s2. s2 = s\<lparr>vehicles := map (revived t k) (vehicles s)\<rparr>) (\<lambda>_ _. False)
    (archived_db at_ms t k s)"
proof -
  let ?s1 = "archived_db at_ms t k s"
  have mem: "c \<in> set (customers s)" and live: "c_id c = k" "c_tenantId c = t" "c_deletedAt c = None"
    using find_SomeD [OF c] by (auto simp: live_customer_def)
  let ?P = "\<lambda>x. c_id x = k \<and> c_tenantId x = t \<and> c_deletedAt x \<noteq> None"
  have "c\<lparr>c_deletedAt := Some at_ms\<rparr> \<in> set (customers ?s1)"
    using mem live by (force simp: archived_db_def set_update_row)
  then obtain a where a: "a \<in> set (customers ?s1)" "?P a"
    using live by auto
  then have "find ?P (customers ?s1) \<noteq> None" and "k \<in> c_id ` set (customers ?s1)"
    unfolding find_None_iff by blast+
  then have found: "find ?P (customers ?s1) \<noteq> None" "lookup_row c_id k (customers ?s1) \<noteq> None"
    unfolding lookup_row_None by blast+
  have "update_row c_id k (\<lambda>c. c\<lparr>c_deletedAt := None\<rparr>) (customers ?s1) = customers s"
  proof -
    have "(let d' = (if c_id d = k then d\<lparr>c_deletedAt := Some at_ms\<rparr> else d) in if c_id d' = k then d'\<lparr>c_deletedAt := None\<rparr> else d') = d"
      if "d \<in> set (customers s)" for d
      using unique_rows_eq [OF unique that mem] live by (cases d) auto
    then show ?thesis
      unfolding archived_db_def update_row_def by (simp add: comp_def Let_def map_idI)
  qed
  moreover have "map (\<lambda>v. if v_customerId v = k \<and> v_tenantId v = t \<and> v_deletedAt v \<noteq> None then v\<lparr>v_deletedAt := None\<rparr> else v)
      (vehicles ?s1) = map (revived t k) (vehicles s)"
    by (auto simp: archived_db_def revived_def)
  ultimately show ?thesis
    using found unfolding restoreCustomer_def restore_Customer_def restore_rows_def findById_Customer_def
    by (auto simp: wp_simps ignore_def archived_db_def split: option.splits)
qed

text \<open>Without vehicles archived before, nothing is different afterwards.\<close>

lemma revived_same:
  assumes "list_all (\<lambda>v. v_customerId v = k \<longrightarrow> v_deletedAt v = None) (vehicles s)"
  shows "s\<lparr>vehicles := map (revived t k) (vehicles s)\<rparr> = s"
proof -
  have "map (revived t k) (vehicles s) = vehicles s"
    using assms by (intro map_idI) (auto simp: revived_def list_all_iff)
  then show ?thesis by simp
qed

end
