(* ===== verification/Shelves.thy ===== *)
theory Shelves
  imports Warehouse
begin

text \<open>
  The shelves of \<open>modules/inventory\<close>: \<open>infrastructure/prisma-shelf.repository.ts\<close> and
  \<open>application/use-cases/manage-shelves.use-case.ts\<close>. Queries run in the context of the
  tenant: \<open>PrismaService\<close> adds its identifier to every condition on a table that has the
  column (\<open>updateMany\<close> below), and row level security hides the cells of other tenants.
  Descriptions of shelves and the texts of the answers are left out.
\<close>

section \<open>PrismaShelfRepository\<close>

definition findByCode :: "uuid \<Rightarrow> string \<Rightarrow> warehouse_shelf option dbM" where
  "findByCode tenantId code =
     find_first warehouse_shelves (\<lambda>sh. sh_tenantId sh = tenantId \<and> sh_code sh = code)"

record shelf_input =
  hi_name :: string
  hi_code :: string
  hi_zone :: "string option"
  hi_rows :: nat
  hi_columns :: nat

text \<open>The two nested loops, from 1 to the number of rows and columns.\<close>

definition cell_positions :: "nat \<Rightarrow> nat \<Rightarrow> (nat \<times> nat) list" where
  "cell_positions rows cols =
     concat (map (\<lambda>r. map (\<lambda>c. (r, c)) [1..<Suc cols]) [1..<Suc rows])"

definition cell_code :: "string \<Rightarrow> nat \<times> nat \<Rightarrow> string" where
  "cell_code code rc = code @ ''-K'' @ nat_str (fst rc) @ ''-G'' @ nat_str (snd rc)"

text \<open>One row of \<open>shelfCell.createMany\<close>, with the unique index on (shelf, cell code).\<close>

definition create_cell :: "ctx \<Rightarrow> uuid \<Rightarrow> string \<Rightarrow> nat \<times> nat \<Rightarrow> unit dbM" where
  "create_cell cx shelfId code rc =
     bindM (fresh_id cx) (\<lambda>ident.
     thenM (unique_index shelf_cells ''shelf_cells_shelf_id_cell_code_key''
       (\<lambda>c. sc_shelfId c = shelfId \<and> sc_cellCode c = cell_code code rc))
     (thenM (create_row shelf_cells shelf_cells_update sc_id
       \<lparr>sc_id = ident, sc_shelfId = shelfId, sc_cellCode = cell_code code rc,
        sc_rowNumber = fst rc, sc_colNumber = snd rc\<rparr>) (ret ())))"

definition createShelfWithCells :: "ctx \<Rightarrow> uuid \<Rightarrow> shelf_input \<Rightarrow> (warehouse_shelf \<times> nat) dbM" where
  "createShelfWithCells cx tenantId input = transaction
     (bindM (fresh_id cx) (\<lambda>ident.
      thenM (unique_index warehouse_shelves ''warehouse_shelves_tenant_id_code_key''
        (\<lambda>sh. sh_tenantId sh = tenantId \<and> sh_code sh = hi_code input))
      (bindM (create_row warehouse_shelves warehouse_shelves_update sh_id
        \<lparr>sh_id = ident, sh_tenantId = tenantId, sh_name = hi_name input, sh_code = hi_code input,
         sh_zone = or_null (hi_zone input), sh_rows = hi_rows input, sh_columns = hi_columns input\<rparr>) (\<lambda>shelf.
      let cellsToCreate = cell_positions (hi_rows input) (hi_columns input) in
      thenM (for_each cellsToCreate (create_cell cx (sh_id shelf) (hi_code input)))
      (ret (shelf, length cellsToCreate))))))"

definition cells_of :: "db \<Rightarrow> uuid \<Rightarrow> shelf_cell list" where
  "cells_of s shelfId = filter (\<lambda>c. sc_shelfId c = shelfId) (shelf_cells s)"

text \<open>\<open>_count: { products: { where: { deletedAt: null } } }\<close> of a cell.\<close>

definition parts_in :: "db \<Rightarrow> uuid \<Rightarrow> product list" where
  "parts_in s cellId = filter (\<lambda>p. p_shelfCellId p = Some cellId \<and> p_deletedAt p = None) (products s)"

record shelf_stats =
  ss_shelf :: warehouse_shelf
  ss_totalCells :: nat
  ss_occupiedCells :: nat
  ss_totalProducts :: nat
  ss_occupancyRate :: int

definition shelf_stats_of :: "db \<Rightarrow> warehouse_shelf \<Rightarrow> shelf_stats" where
  "shelf_stats_of s sh =
     (let counts = map (\<lambda>c. length (parts_in s (sc_id c))) (cells_of s (sh_id sh));
          cells = length counts;
          occupiedCellsCount = length (filter (\<lambda>n. n > 0) counts)
      in \<lparr>ss_shelf = sh, ss_totalCells = cells, ss_occupiedCells = occupiedCellsCount,
          ss_totalProducts = sum_list counts,
          ss_occupancyRate = (if cells > 0
            then math_round (fmul (fdiv (num_of_int (int occupiedCellsCount)) (num_of_int (int cells))) 100)
            else 0)\<rparr>)"

definition findAllWithStats :: "(string \<Rightarrow> string \<Rightarrow> bool) \<Rightarrow> uuid \<Rightarrow> shelf_stats list dbM" where
  "findAllWithStats collate tenantId =
     bindM (find_many warehouse_shelves (\<lambda>sh. sh_tenantId sh = tenantId)) (\<lambda>shelves.
       reads (\<lambda>s. map (shelf_stats_of s) (order_by (\<lambda>a b. collate (sh_code a) (sh_code b)) shelves)))"

text \<open>\<open>orderBy: [{ rowNumber }, { colNumber }]\<close>\<close>

definition cell_order :: "shelf_cell \<Rightarrow> shelf_cell \<Rightarrow> bool" where
  "cell_order a b \<longleftrightarrow> sc_rowNumber a < sc_rowNumber b \<or>
     (sc_rowNumber a = sc_rowNumber b \<and> sc_colNumber a \<le> sc_colNumber b)"

definition findByIdWithMatrix ::
  "uuid \<Rightarrow> uuid \<Rightarrow> (warehouse_shelf \<times> (shelf_cell \<times> product list) list) option dbM" where
  "findByIdWithMatrix tenantId shelfId =
     bindM (find_first warehouse_shelves (\<lambda>sh. sh_id sh = shelfId \<and> sh_tenantId sh = tenantId)) (\<lambda>found.
       reads (\<lambda>s. map_option (\<lambda>sh. (sh, map (\<lambda>c. (c, parts_in s (sc_id c)))
         (order_by cell_order (cells_of s (sh_id sh))))) found))"

definition findProduct :: "uuid \<Rightarrow> uuid \<Rightarrow> product option dbM" where
  "findProduct tenantId productId =
     find_first products (\<lambda>p. p_id p = productId \<and> p_tenantId p = tenantId \<and> p_deletedAt p = None)"

definition findCell :: "uuid \<Rightarrow> uuid \<Rightarrow> (shelf_cell \<times> warehouse_shelf) option dbM" where
  "findCell tenantId shelfCellId = reads (visible_cell tenantId shelfCellId)"

text \<open>The location columns \<open>updateProductLocation\<close> and \<open>updateManyProductLocations\<close> write.\<close>

record location_data =
  ld_shelfCellId :: "uuid option"
  ld_shelfId :: "uuid option"
  ld_shelfLocation :: string
  ld_aisle :: "string option"
  ld_rack :: "string option"
  ld_tier :: "string option"
  ld_bin :: "string option"

definition located :: "location_data \<Rightarrow> product \<Rightarrow> product" where
  "located d p = p\<lparr>p_shelfCellId := ld_shelfCellId d, p_shelfId := ld_shelfId d,
     p_shelfLocation := ld_shelfLocation d, p_aisle := ld_aisle d, p_rack := ld_rack d,
     p_tier := ld_tier d, p_bin := ld_bin d\<rparr>"

definition updateProductLocation :: "uuid \<Rightarrow> location_data \<Rightarrow> product dbM" where
  "updateProductLocation productId d = update_product productId (located d)"

definition updateManyProductLocations :: "uuid \<Rightarrow> uuid list \<Rightarrow> location_data \<Rightarrow> nat dbM" where
  "updateManyProductLocations tenantId productIds d =
     update_where products products_update
       (\<lambda>p. p_id p \<in> set productIds \<and> p_tenantId p = tenantId) (located d)"

definition findFirstCellOfShelf :: "uuid \<Rightarrow> uuid \<Rightarrow> (shelf_cell \<times> warehouse_shelf) option dbM" where
  "findFirstCellOfShelf tenantId shelfId =
     reads (\<lambda>s. case order_by cell_order (cells_of s shelfId) of
       [] \<Rightarrow> None | c # _ \<Rightarrow> visible_cell tenantId (sc_id c) s)"

definition findShelfById :: "uuid \<Rightarrow> uuid \<Rightarrow> (warehouse_shelf \<times> nat list) option dbM" where
  "findShelfById tenantId shelfId =
     bindM (find_first warehouse_shelves (\<lambda>sh. sh_id sh = shelfId \<and> sh_tenantId sh = tenantId)) (\<lambda>found.
       reads (\<lambda>s. map_option (\<lambda>sh. (sh, map (\<lambda>c. length (parts_in s (sc_id c))) (cells_of s (sh_id sh)))) found))"

text \<open>The cells go with the shelf (\<open>onDelete: Cascade\<close>), the parts lose their cell (\<open>SetNull\<close>).\<close>

definition deleteShelf_row :: "uuid \<Rightarrow> unit dbM" where
  "deleteShelf_row shelfId =
     bindM (reads (\<lambda>s. sc_id ` set (cells_of s shelfId))) (\<lambda>cells.
     thenM (delete_by warehouse_shelves warehouse_shelves_update sh_id shelfId)
     (thenM (modifyM (\<lambda>s. s\<lparr>shelf_cells := filter (\<lambda>c. sc_shelfId c \<noteq> shelfId) (shelf_cells s)\<rparr>))
     (thenM (update_where products products_update (\<lambda>p. \<exists>c\<in>cells. p_shelfCellId p = Some c)
       (\<lambda>p. p\<lparr>p_shelfCellId := None\<rparr>))
     (ret ()))))"

section \<open>ManageShelvesUseCase\<close>

record shelf_dto =
  hd_name :: string
  hd_code :: string
  hd_zone :: "string option"
  hd_rows :: nat
  hd_columns :: nat

definition createShelf :: "ctx \<Rightarrow> uuid \<Rightarrow> shelf_dto \<Rightarrow> (warehouse_shelf \<times> nat) dbM" where
  "createShelf cx tenantId dto =
     (let code = to_upper (js_trim (hd_code dto)) in
      bindM (findByCode tenantId code) (\<lambda>existing.
      thenM (ensure (existing = None) (BadRequestException
        (code @ '' kodlu raf unitesi zaten mevcut.'')))
      (createShelfWithCells cx tenantId
        \<lparr>hi_name = js_trim (hd_name dto), hi_code = code, hi_zone = or_null (map_option js_trim (hd_zone dto)),
         hi_rows = hd_rows dto, hi_columns = hd_columns dto\<rparr>)))"

definition getShelfWithMatrix :: "uuid \<Rightarrow> uuid \<Rightarrow> (warehouse_shelf \<times> (shelf_cell \<times> product list) list) dbM" where
  "getShelfWithMatrix tenantId shelfId =
     bindM (findByIdWithMatrix tenantId shelfId) (\<lambda>shelf.
       require (NotFoundException ''Raf unitesi bulunamadi.'') shelf)"

definition nowhere :: "string \<Rightarrow> location_data" where
  "nowhere place = \<lparr>ld_shelfCellId = None, ld_shelfId = None, ld_shelfLocation = place, ld_aisle = None,
     ld_rack = None, ld_tier = None, ld_bin = None\<rparr>"

definition at_cell :: "shelf_cell \<times> warehouse_shelf \<Rightarrow> location_data" where
  "at_cell cs = (let (cell, shelf) = cs in
     \<lparr>ld_shelfCellId = Some (sc_id cell), ld_shelfId = Some (sh_id shelf), ld_shelfLocation = sc_cellCode cell,
      ld_aisle = Some (or_else (sh_zone shelf) (sh_name shelf)), ld_rack = Some (sh_code shelf),
      ld_tier = Some (tier_name cell), ld_bin = Some (bin_name cell)\<rparr>)"

definition assignProductToCell :: "uuid \<Rightarrow> uuid \<Rightarrow> uuid option \<Rightarrow> product dbM" where
  "assignProductToCell tenantId productId shelfCellId =
     bindM (findProduct tenantId productId) (\<lambda>product.
     thenM (ensure (product \<noteq> None) (NotFoundException ''Urun bulunamadi.''))
     (case or_null shelfCellId of
        None \<Rightarrow> updateProductLocation productId (nowhere [])
      | Some cellId \<Rightarrow>
          bindM (findCell tenantId cellId) (\<lambda>found.
          bindM (require (BadRequestException ''Secilen raf hucresi bulunamadi veya bu isletmeye ait degil.'')
            (case found of None \<Rightarrow> None | Some (c, sh) \<Rightarrow> if sh_tenantId sh = tenantId then Some (c, sh) else None))
            (\<lambda>cell. updateProductLocation productId (at_cell cell)))))"

definition bulkAssignProductCell :: "uuid \<Rightarrow> uuid list \<Rightarrow> uuid option \<Rightarrow> uuid option \<Rightarrow> nat dbM" where
  "bulkAssignProductCell tenantId productIds shelfCellId targetShelfId =
     (if productIds = [] then ret 0
      else case (or_null shelfCellId, or_null targetShelfId) of
        (None, None) \<Rightarrow> updateManyProductLocations tenantId productIds (nowhere ''Depo'')
      | (Some cellId, _) \<Rightarrow>
          bindM (findCell tenantId cellId) (\<lambda>found.
          bindM (require (NotFoundException ''Hedef raf hucresi bulunamadi.'') found) (\<lambda>cell.
          updateManyProductLocations tenantId productIds (at_cell cell)))
      | (None, Some shelfId) \<Rightarrow>
          bindM (findShelfById tenantId shelfId) (\<lambda>shelf.
          thenM (ensure (shelf \<noteq> None) (NotFoundException ''Hedef raf bulunamadi.''))
          (bindM (findFirstCellOfShelf tenantId shelfId) (\<lambda>firstCell.
             case firstCell of
               None \<Rightarrow> ret 0
             | Some cell \<Rightarrow> updateManyProductLocations tenantId productIds (at_cell cell)))))"

definition deleteShelf :: "uuid \<Rightarrow> uuid \<Rightarrow> unit dbM" where
  "deleteShelf tenantId shelfId =
     bindM (findShelfById tenantId shelfId) (\<lambda>found.
     bindM (require (NotFoundException ''Raf bulunamadi.'') found) (\<lambda>shelf.
     thenM (ensure (sum_list (snd shelf) = 0) (BadRequestException
       ''Bu rafta halihazirda atanmis parca var. Once parcalarin raf atamasini kaldiriniz.''))
     (deleteShelf_row shelfId)))"

end
