(* ===== verification/ShelfLayout.thy ===== *)
theory ShelfLayout
  imports Shelves
begin

text \<open>
  What opening and deleting a shelf do: the cells of a new shelf are the full matrix with
  distinct codes, and a shelf is deleted only when no live part lies on it.
\<close>

section \<open>Cell codes\<close>

lemma split_at_letter:
  assumes "list_all decimal_digit a" "list_all decimal_digit b" "\<not> decimal_digit c" "a @ c # x = b @ c # y"
  shows "a = b \<and> x = y"
proof -
  have "takeWhile decimal_digit (a @ c # x) = a" "takeWhile decimal_digit (b @ c # y) = b"
    using assms(1-3) by (simp_all add: list_all_iff takeWhile_append2)
  with assms(4) show ?thesis by simp
qed

lemma cell_code_inj: "cell_code code p = cell_code code q \<Longrightarrow> p = q"
  using split_at_letter [OF nat_str_digits nat_str_digits, of "CHR ''-''" "fst p" "''G'' @ nat_str (snd p)"
    "fst q" "''G'' @ nat_str (snd q)"]
  by (auto simp: cell_code_def decimal_digit_def prod_eq_iff)

lemma cell_positions_set: "set (cell_positions rows cols) = {1..rows} \<times> {1..cols}"
  by (auto simp: cell_positions_def atLeastLessThanSuc_atLeastAtMost simp del: upt_Suc)

lemma cell_positions_distinct: "distinct (cell_positions rows cols)"
proof -
  have "distinct (concat (map (\<lambda>r. map (\<lambda>c. (r, c)) cs) rs))" if "distinct rs" "distinct cs"
    for rs cs :: "nat list"
    using that by (induction rs) (auto simp: distinct_map inj_on_def)
  then show ?thesis
    unfolding cell_positions_def by (simp del: upt_Suc)
qed

lemma cell_positions_length: "length (cell_positions rows cols) = rows * cols"
proof -
  have "length (concat (map (\<lambda>r. map (\<lambda>c. (r, c)) cs) rs)) = length rs * length cs" for rs cs :: "nat list"
    by (induction rs) simp_all
  then show ?thesis
    unfolding cell_positions_def by (simp del: upt_Suc)
qed

section \<open>Opening a shelf\<close>

definition new_cell :: "uuid \<Rightarrow> string \<Rightarrow> uuid \<Rightarrow> nat \<times> nat \<Rightarrow> shelf_cell" where
  "new_cell k code ident rc = \<lparr>sc_id = ident, sc_shelfId = k, sc_cellCode = cell_code code rc,
     sc_rowNumber = fst rc, sc_colNumber = snd rc\<rparr>"

fun new_cells :: "ctx \<Rightarrow> uuid \<Rightarrow> string \<Rightarrow> nat \<Rightarrow> (nat \<times> nat) list \<Rightarrow> shelf_cell list" where
  "new_cells cx k code n [] = []"
| "new_cells cx k code n (rc # rcs) = new_cell k code (gen_id cx n) rc # new_cells cx k code (Suc n) rcs"

lemma new_cells_fields:
  "map (\<lambda>c. (sc_rowNumber c, sc_colNumber c)) (new_cells cx k code n rcs) = rcs"
  "map sc_cellCode (new_cells cx k code n rcs) = map (cell_code code) rcs"
  "filter (\<lambda>c. sc_shelfId c = k') (new_cells cx k code n rcs) = (if k' = k then new_cells cx k code n rcs else [])"
  by (induction rcs arbitrary: n) (auto simp: new_cell_def)

text \<open>The identifiers still to be drawn are new, and every cell belongs to a shelf.\<close>

definition fresh_ids :: "ctx \<Rightarrow> db \<Rightarrow> bool" where
  "fresh_ids cx s \<longleftrightarrow> inj (gen_id cx) \<and>
     (\<forall>n\<ge>id_supply s. gen_id cx n \<notin> sh_id ` set (warehouse_shelves s) \<union> sc_id ` set (shelf_cells s))"

definition cells_placed :: "db \<Rightarrow> bool" where
  "cells_placed s \<longleftrightarrow> sc_shelfId ` set (shelf_cells s) \<subseteq> sh_id ` set (warehouse_shelves s)"

lemma wp_create_cell:
  "wp (create_cell cx k code rc) Q E s =
    (let s1 = s\<lparr>id_supply := Suc (id_supply s)\<rparr>; c = new_cell k code (gen_id cx (id_supply s)) rc in
     if list_ex (\<lambda>c. sc_shelfId c = k \<and> sc_cellCode c = cell_code code rc) (shelf_cells s)
     then E (DbError (UniqueViolation ''shelf_cells_shelf_id_cell_code_key'')) s1
     else if sc_id c \<in> sc_id ` set (shelf_cells s) then E (DbError (UniqueViolation ''pkey'')) s1
     else Q () (s1\<lparr>shelf_cells := shelf_cells s @ [c]\<rparr>))"
  by (simp add: create_cell_def wp_simps new_cell_def Let_def)

lemma wp_create_cells:
  assumes "inj (gen_id cx)" and "\<forall>n\<ge>id_supply s. gen_id cx n \<notin> sc_id ` set (shelf_cells s)"
    and "distinct rcs"
    and "\<forall>c\<in>set (shelf_cells s). sc_shelfId c = k \<longrightarrow> sc_cellCode c \<notin> cell_code code ` set rcs"
    and "Q () (s\<lparr>id_supply := id_supply s + length rcs,
           shelf_cells := shelf_cells s @ new_cells cx k code (id_supply s) rcs\<rparr>)"
  shows "wp (for_each rcs (create_cell cx k code)) Q E s"
  using assms(2-)
proof (induction rcs arbitrary: s)
  case Nil
  then show ?case by (simp add: wp_simps)
next
  case (Cons rc rcs)
  let ?c = "new_cell k code (gen_id cx (id_supply s)) rc"
  let ?s = "s\<lparr>id_supply := Suc (id_supply s), shelf_cells := shelf_cells s @ [?c]\<rparr>"
  have "wp (for_each rcs (create_cell cx k code)) Q E ?s"
  proof (rule Cons.IH)
    show "\<forall>n\<ge>id_supply ?s. gen_id cx n \<notin> sc_id ` set (shelf_cells ?s)"
      using Cons.prems(1) inj_eq [OF assms(1)] by (auto simp: new_cell_def)
    show "\<forall>c\<in>set (shelf_cells ?s). sc_shelfId c = k \<longrightarrow> sc_cellCode c \<notin> cell_code code ` set rcs"
      using Cons.prems(2,3) by (auto simp: new_cell_def dest: cell_code_inj)
  qed (use Cons.prems in simp_all)
  moreover have "gen_id cx (id_supply s) \<notin> sc_id ` set (shelf_cells s)"
    using Cons.prems(1) by simp
  ultimately show ?case
    using Cons.prems(3) by (auto simp: wp_thenM wp_create_cell list_ex_iff new_cell_def)
qed

lemma wp_createShelf:
  assumes fresh: "fresh_ids cx s" and placed: "cells_placed s"
    and free: "find (\<lambda>sh. sh_tenantId sh = t \<and> sh_code sh = to_upper (js_trim (hd_code dto)))
      (warehouse_shelves s) = None"
  shows "wp (createShelf cx t dto) (\<lambda>(sh, n) s'. n = hd_rows dto * hd_columns dto \<and>
      sh_tenantId sh = t \<and> sh_code sh = to_upper (js_trim (hd_code dto)) \<and>
      warehouse_shelves s' = warehouse_shelves s @ [sh] \<and> products s' = products s \<and>
      shelf_cells s' = shelf_cells s @ new_cells cx (sh_id sh) (sh_code sh) (Suc (id_supply s))
        (cell_positions (hd_rows dto) (hd_columns dto)) \<and>
      sh_id sh \<notin> sc_shelfId ` set (shelf_cells s)) (\<lambda>_ _. False) s"
proof -
  let ?k = "gen_id cx (id_supply s)"
  have k: "?k \<notin> sh_id ` set (warehouse_shelves s)" and cells: "?k \<notin> sc_shelfId ` set (shelf_cells s)"
    using fresh placed by (auto simp: fresh_ids_def cells_placed_def)
  have inj: "inj (gen_id cx)" and ids: "\<forall>n\<ge>Suc (id_supply s). gen_id cx n \<notin> sc_id ` set (shelf_cells s)"
    using fresh by (auto simp: fresh_ids_def)
  have cells': "sc_shelfId c \<noteq> ?k" if "c \<in> set (shelf_cells s)" for c
    using that cells by (metis imageI)
  have no_code: "\<not> list_ex (\<lambda>sh. sh_tenantId sh = t \<and> sh_code sh = to_upper (js_trim (hd_code dto)))
      (warehouse_shelves s)"
    using free by (auto simp: list_ex_iff find_None_iff)
  show ?thesis
    unfolding createShelf_def createShelfWithCells_def findByCode_def Let_def wp_funs wp_bindM wp_transaction
    by (simp add: wp_simps free no_code k)
      (rule wp_create_cells [OF inj]; use ids cells cells' cell_positions_distinct in
        \<open>auto simp: cell_positions_length wp_simps\<close>)
qed

section \<open>Deleting a shelf\<close>

lemma wp_deleteShelf_row:
  assumes "\<And>e. E e s"
    and "Q () (s\<lparr>warehouse_shelves := delete_row sh_id k (warehouse_shelves s),
          shelf_cells := filter (\<lambda>c. sc_shelfId c \<noteq> k) (shelf_cells s),
          products := map (\<lambda>p. if \<exists>c\<in>sc_id ` set (cells_of s k). p_shelfCellId p = Some c
            then p\<lparr>p_shelfCellId := None\<rparr> else p) (products s)\<rparr>)"
  shows "wp (deleteShelf_row k) Q E s"
  using assms by (simp add: deleteShelf_row_def wp_simps split: option.split)

lemma live_parts_stay:
  assumes "concat (map (\<lambda>c. parts_in s (sc_id c)) (cells_of s k)) = []"
  shows "filter (\<lambda>p. p_deletedAt p = None) (map (\<lambda>p. if \<exists>c\<in>sc_id ` set (cells_of s k). p_shelfCellId p = Some c
      then p\<lparr>p_shelfCellId := None\<rparr> else p) (products s)) =
    filter (\<lambda>p. p_deletedAt p = None) (products s)"
proof -
  have "p_deletedAt p \<noteq> None"
    if "p \<in> set (products s)" "c \<in> set (cells_of s k)" "p_shelfCellId p = Some (sc_id c)" for c p
    using assms that by (auto simp: parts_in_def filter_empty_conv)
  then have gone: "p_deletedAt p \<noteq> None"
    if "p \<in> set (products s)" "\<exists>c\<in>sc_id ` set (cells_of s k). p_shelfCellId p = Some c" for p
    using that by blast
  have "filter Z (map (\<lambda>p. if D p then f p else p) rows) = filter Z rows"
    if "\<And>p. p \<in> set rows \<Longrightarrow> D p \<Longrightarrow> \<not> Z p \<and> \<not> Z (f p)" for Z D and f :: "product \<Rightarrow> product" and rows
    using that by (induction rows) auto
  from this [of "products s"] gone show ?thesis
    by simp
qed

lemma no_parts: "sum_list (map (\<lambda>c. length (parts_in s (sc_id c))) cells) = 0 \<longleftrightarrow>
    concat (map (\<lambda>c. parts_in s (sc_id c)) cells) = []"
  by (simp add: sum_list_eq_0_iff)

lemma deleteShelf_result:
  "case deleteShelf t k s of
     (Inl e, s') \<Rightarrow> s' = s
   | (Inr _, s') \<Rightarrow> concat (map (\<lambda>c. parts_in s (sc_id c)) (cells_of s k)) = [] \<and>
       filter (\<lambda>p. p_deletedAt p = None) (products s') = filter (\<lambda>p. p_deletedAt p = None) (products s) \<and>
       cells_of s' k = [] \<and> k \<notin> sh_id ` set (warehouse_shelves s')"
proof -
  let ?Q = "\<lambda>s'. concat (map (\<lambda>c. parts_in s (sc_id c)) (cells_of s k)) = [] \<and>
       filter (\<lambda>p. p_deletedAt p = None) (products s') = filter (\<lambda>p. p_deletedAt p = None) (products s) \<and>
       cells_of s' k = [] \<and> k \<notin> sh_id ` set (warehouse_shelves s')"
  have row: "wp (deleteShelf_row k) (\<lambda>_. ?Q) (\<lambda>_ s'. s' = s) s"
    if "concat (map (\<lambda>c. parts_in s (sc_id c)) (cells_of s k)) = []"
  proof (rule wp_deleteShelf_row)
    show "?Q (s\<lparr>warehouse_shelves := delete_row sh_id k (warehouse_shelves s),
          shelf_cells := filter (\<lambda>c. sc_shelfId c \<noteq> k) (shelf_cells s),
          products := map (\<lambda>p. if \<exists>c\<in>sc_id ` set (cells_of s k). p_shelfCellId p = Some c
            then p\<lparr>p_shelfCellId := None\<rparr> else p) (products s)\<rparr>)"
    proof (intro conjI that)
      show "filter (\<lambda>p. p_deletedAt p = None) (products (s\<lparr>warehouse_shelves := delete_row sh_id k (warehouse_shelves s),
          shelf_cells := filter (\<lambda>c. sc_shelfId c \<noteq> k) (shelf_cells s),
          products := map (\<lambda>p. if \<exists>c\<in>sc_id ` set (cells_of s k). p_shelfCellId p = Some c
            then p\<lparr>p_shelfCellId := None\<rparr> else p) (products s)\<rparr>)) =
        filter (\<lambda>p. p_deletedAt p = None) (products s)"
        using live_parts_stay [OF that] by simp
    qed (auto simp: cells_of_def delete_row_def)
  qed simp
  have "wp (deleteShelf t k) (\<lambda>_. ?Q) (\<lambda>_ s'. s' = s) s"
  proof (cases "find (\<lambda>sh. sh_id sh = k \<and> sh_tenantId sh = t) (warehouse_shelves s)")
    case None
    then show ?thesis
      by (simp add: deleteShelf_def findShelfById_def wp_bindM wp_find_first wp_reads wp_require)
  next
    case (Some sh)
    then have k: "sh_id sh = k"
      by (auto dest: find_SomeD)
    show ?thesis
      unfolding deleteShelf_def findShelfById_def wp_bindM wp_thenM wp_find_first wp_reads Some
        option.map wp_require option.case wp_ensure snd_conv no_parts k
      by (cases "concat (map (\<lambda>c. parts_in s (sc_id c)) (cells_of s k)) = []")
        (rule if_P [THEN iffD2], assumption, erule row, rule if_not_P [THEN iffD2], assumption, rule refl)
  qed
  then show ?thesis
    unfolding wp_def by (auto split: prod.splits sum.splits)
qed

end
