(* ===== verification/Calendar.thy ===== *)
theory Calendar
  imports Appointments
begin

text \<open>
  The calendar over every history of appointment and order requests: no mechanic and no lift
  is booked twice at the same time. The constraint of the table is checked at each write; the
  conflict rules of the entity and of the repository say the same on proper slots. The use
  cases look first: what is taken, or a mechanic on leave, is refused before anything is written,
  and the public page books the first bay that is free.
\<close>

section \<open>One rule, three times\<close>

lemma clash_sym: "clash sel a b \<longleftrightarrow> clash sel b a"
  by (auto simp: clash_def ranges_overlap_def)

lemma booked_entity: "booked a \<longleftrightarrow> ae_status (mapToAppointment a) \<noteq> ''CANCELLED'' \<and>
    ae_status (mapToAppointment a) \<noteq> ''NO_SHOW''"
  by (cases "a_status a") (simp_all add: booked_def mapToAppointment_def domain_status_def)

lemma entity_overlap:
  assumes "a_slotStartTime a < a_slotEndTime a" and "start < finish"
  shows "hasTimeConflictWith start finish (mapToAppointment a) \<longleftrightarrow>
    booked a \<and> ranges_overlap a (b\<lparr>a_slotStartTime := start, a_slotEndTime := finish\<rparr>)"
  using assms booked_entity [of a]
  by (auto simp: hasTimeConflictWith_def ranges_overlap_def mapToAppointment_def)

lemma status_roundtrip: "mapStatusToPrisma (domain_status st) = Some st"
  by (cases st) (simp_all add: mapStatusToPrisma_def domain_status_def)

section \<open>The invariant\<close>

definition slot_ok :: "appointment \<Rightarrow> bool" where
  "slot_ok a \<longleftrightarrow> booked a \<and> (a_assignedMechanicId a \<noteq> None \<or> a_assignedLift a \<noteq> None) \<longrightarrow>
     a_slotStartTime a \<le> a_slotEndTime a"

definition apart :: "appointment \<Rightarrow> appointment \<Rightarrow> bool" where
  "apart a b \<longleftrightarrow> \<not> clash a_assignedMechanicId a b \<and> \<not> clash a_assignedLift a b"

lemma apart_sym: "apart a b \<longleftrightarrow> apart b a"
  by (simp add: apart_def clash_sym [of _ a b])

definition calendar_ok :: "db \<Rightarrow> bool" where
  "calendar_ok s \<longleftrightarrow> unique_rows a_id (appointments s) \<and> list_all slot_ok (appointments s) \<and>
     (\<forall>a\<in>set (appointments s). \<forall>b\<in>set (appointments s). a_id a \<noteq> a_id b \<longrightarrow> apart a b)"

lemma calendar_frame: "appointments s' = appointments s \<Longrightarrow> calendar_ok s' = calendar_ok s"
  by (simp add: calendar_ok_def)

lemma wp_exclusion:
  assumes "\<And>e. E e s"
    and "slot_ok a \<Longrightarrow> \<forall>b\<in>set (appointments s). a_id b \<noteq> a_id a \<longrightarrow> apart a b \<Longrightarrow> Q () s"
  shows "wp (exclusion a) Q E s"
proof -
  have fits: "\<forall>b\<in>set (appointments s). a_id b \<noteq> a_id a \<longrightarrow> apart a b"
    if "\<not> list_ex (\<lambda>b. a_id b \<noteq> a_id a \<and> clash a_assignedMechanicId a b) (appointments s)"
      "\<not> list_ex (\<lambda>b. a_id b \<noteq> a_id a \<and> clash a_assignedLift a b) (appointments s)"
    using that by (auto simp: list_ex_iff apart_def)
  have slot: "slot_ok a"
    if "\<not> (booked a \<and> a_assignedMechanicId a \<noteq> None \<and> a_slotEndTime a < a_slotStartTime a)"
      "\<not> (booked a \<and> a_assignedLift a \<noteq> None \<and> a_slotEndTime a < a_slotStartTime a)"
    using that by (auto simp: slot_ok_def)
  show ?thesis
    unfolding exclusion_def exclude_on_def wp_thenM wp_bindM wp_reads wp_ensure
    using assms(1) assms(2) [OF slot fits] by presburger
qed

text \<open>A row that fits may take the place of the row with its key, or be added.\<close>

lemma calendar_ok_replace:
  assumes inv: "calendar_ok s" and others: "\<And>x. x \<in> set rows \<Longrightarrow> x = a \<or> x \<in> set (appointments s) \<and> a_id x \<noteq> a_id a"
    and unique: "unique_rows a_id rows" and slot: "slot_ok a"
    and fits: "\<forall>b\<in>set (appointments s). a_id b \<noteq> a_id a \<longrightarrow> apart a b"
  shows "calendar_ok (s\<lparr>appointments := rows\<rparr>)"
proof -
  have "apart x y" if x: "x \<in> set rows" and y: "y \<in> set rows" and neq: "a_id x \<noteq> a_id y" for x y
    using others [OF x] others [OF y]
  proof (elim disjE conjE)
    assume "x = a" "y \<in> set (appointments s)" "a_id y \<noteq> a_id a"
    then show ?thesis using fits by simp
  next
    assume "y = a" "x \<in> set (appointments s)" "a_id x \<noteq> a_id a"
    then show ?thesis using fits by (simp add: apart_sym [of x])
  next
    assume "x \<in> set (appointments s)" "y \<in> set (appointments s)"
    then show ?thesis using inv neq by (simp add: calendar_ok_def)
  qed (use neq in simp)
  moreover have "slot_ok x" if "x \<in> set rows" for x
    using others [OF that] slot inv by (auto simp: calendar_ok_def list_all_iff)
  ultimately show ?thesis
    using unique by (simp add: calendar_ok_def list_all_iff)
qed

lemma keeps_calendar_update [keeps_intros]:
  assumes key: "\<And>a. a_id (f a) = a_id a"
  shows "keeps calendar_ok (update_appointment k f)"
proof (rule keepsI)
  fix s assume inv: "calendar_ok s"
  have unique: "unique_rows a_id (appointments s)"
    using inv by (simp add: calendar_ok_def)
  show "wp (update_appointment k f) (\<lambda>_. calendar_ok) (\<lambda>_. calendar_ok) s"
  proof (cases "lookup_row a_id k (appointments s)")
    case None
    then show ?thesis by (simp add: update_appointment_def wp_simps inv)
  next
    case (Some a)
    have new: "a_id a = k" "a_id (f a) = k"
      using lookup_row_key [OF Some] key by simp_all
    have only: "x = a" if "x \<in> set (appointments s)" "a_id x = k" for x
      using lookup_row_unique [OF unique that(1)] that(2) Some by simp
    have rows: "x = f a \<or> x \<in> set (appointments s) \<and> a_id x \<noteq> a_id (f a)"
      if "x \<in> set (update_row a_id k f (appointments s))" for x
      using that only new by (auto simp: set_update_row)
    have "calendar_ok (s\<lparr>appointments := update_row a_id k f (appointments s)\<rparr>)"
      if "slot_ok (f a)" "\<forall>b\<in>set (appointments s). a_id b \<noteq> a_id (f a) \<longrightarrow> apart (f a) b"
      by (rule calendar_ok_replace [OF inv rows unique_update_row [OF unique key] that])
    then show ?thesis
      unfolding update_appointment_def wp_bindM wp_reads wp_require Some option.case wp_thenM
      by (intro wp_exclusion) (simp_all add: inv wp_update_by Some)
  qed
qed

lemma keeps_calendar_insert [keeps_intros]: "keeps calendar_ok (insert_appointment a)"
proof (rule keepsI)
  fix s assume inv: "calendar_ok s"
  have "calendar_ok (s\<lparr>appointments := appointments s @ [a]\<rparr>)"
    if "slot_ok a" "\<forall>b\<in>set (appointments s). a_id b \<noteq> a_id a \<longrightarrow> apart a b"
      "a_id a \<notin> a_id ` set (appointments s)"
    by (rule calendar_ok_replace [OF inv _ _ that(1,2)])
      (use that(3) inv in \<open>auto simp: calendar_ok_def unique_rows_def intro: rev_image_eqI\<close>)
  with inv show "wp (insert_appointment a) (\<lambda>_. calendar_ok) (\<lambda>_. calendar_ok) s"
    unfolding insert_appointment_def wp_thenM
    by (intro wp_exclusion) (simp_all add: inv wp_create_row)
qed

lemma calendar_other [simp]:
  "calendar_ok (customers_update f1 s) = calendar_ok s"
  "calendar_ok (vehicles_update f2 s) = calendar_ok s"
  "calendar_ok (work_orders_update f3 s) = calendar_ok s"
  "calendar_ok (work_order_items_update f4 s) = calendar_ok s"
  "calendar_ok (work_order_notes_update f5 s) = calendar_ok s"
  "calendar_ok (products_update f6 s) = calendar_ok s"
  "calendar_ok (stock_movements_update f7 s) = calendar_ok s"
  "calendar_ok (invoices_update f8 s) = calendar_ok s"
  "calendar_ok (invoice_items_update f9 s) = calendar_ok s"
  "calendar_ok (payments_update f10 s) = calendar_ok s"
  "calendar_ok (current_accounts_update f12 s) = calendar_ok s"
  "calendar_ok (cari_movements_update f13 s) = calendar_ok s"
  "calendar_ok (document_sequences_update f14 s) = calendar_ok s"
  "calendar_ok (id_supply_update f15 s) = calendar_ok s"
  "calendar_ok (outbox_update f16 s) = calendar_ok s"
  by (rule calendar_frame; simp)+

lemma keeps_calendar_simple [keeps_intros]: "keeps calendar_ok (emit e)" "keeps calendar_ok (fresh_id cx)"
  by (auto simp: keeps_def wp_simps)

section \<open>Appointment requests keep it\<close>

lemma keeps_calendar_checks [keeps_intros]:
  "keeps I (check_mechanic_free t m st en x)" "keeps I (check_lift_free t l st en x)"
  "keeps I (check_booking a)" "keeps I (valid_service t sv)" "keeps I (recheck sel w msg a)"
  "keeps I (findById_Appointment t k)" "keeps I (findTenantBySlug slug)" "keeps I (findActiveOnlineBays t)"
  "keeps I (checkLiftConflict t lift st en x)" "keeps I (as_conflict e)"
  unfolding check_mechanic_free_def check_lift_free_def checkMechanicOnLeave_def checkMechanicConflict_def
    checkLiftConflict_def check_booking_def valid_service_def recheck_def findById_Appointment_def
    findTenantBySlug_def findActiveOnlineBays_def as_conflict_def
  by (intro keeps_intros)+

lemma keeps_free_bay [keeps_intros]: "keeps I (free_bay t st en bays)"
  by (induction bays) (auto intro: keeps_intros)

lemma keeps_calendar_create [keeps_intros]: "keeps calendar_ok (create_Appointment cx a)"
  unfolding create_Appointment_def by (intro keeps_intros)

lemma keeps_calendar_save [keeps_intros]: "keeps calendar_ok (save_Appointment a)"
  unfolding save_Appointment_def by (intro keeps_intros) (simp add: saved_appointment_def)

lemma keeps_calendar_people [keeps_intros]:
  "keeps calendar_ok (findOrCreateCustomerForPublic cx t name phone)"
  "keeps calendar_ok (findOrCreateVehicleForPublic cx t c plate brandModel)"
  unfolding findOrCreateCustomerForPublic_def findOrCreateVehicleForPublic_def Let_def
  by (intro keeps_intros keeps_frame; simp)+

datatype calendar_request =
    Book uuid booking_input
  | BookOnline string public_booking
  | Move uuid uuid reschedule_input
  | Approve uuid uuid
  | SetAppointment uuid uuid string "string option"
  | Missed uuid uuid
  | CancelBooking uuid uuid string
  | OrderRequest stock_request

fun handle_calendar :: "ctx \<Rightarrow> calendar_request \<Rightarrow> unit dbM" where
  "handle_calendar cx (Book t dto) = ignore (createAppointment cx t dto)"
| "handle_calendar cx (BookOnline slug dto) = ignore (createPublicAppointment cx slug dto)"
| "handle_calendar cx (Move t k dto) = ignore (rescheduleAppointment cx t k dto)"
| "handle_calendar cx (Approve t k) = ignore (approveAppointment t k)"
| "handle_calendar cx (SetAppointment t k st reason) = ignore (updateAppointmentStatus t k st reason)"
| "handle_calendar cx (Missed t k) = ignore (markNoShow t k)"
| "handle_calendar cx (CancelBooking t k reason) = ignore (cancelAppointment cx t k reason)"
| "handle_calendar cx (OrderRequest q) = handle_stock cx q"

lemma keeps_calendar_desk:
  "keeps calendar_ok (createAppointment cx t dto)"
  "keeps calendar_ok (rescheduleAppointment cx t k rs)"
  "keeps calendar_ok (approveAppointment t k)"
  "keeps calendar_ok (updateAppointmentStatus t k st reason)"
  "keeps calendar_ok (markNoShow t k)"
  unfolding createAppointment_def rescheduleAppointment_def approveAppointment_def
    updateAppointmentStatus_def markNoShow_def Let_def
  by (rule keeps_intros | simp split: prod.split | rule allI impI)+

lemma keeps_calendar_cancel: "keeps calendar_ok (cancelAppointment cx t k reason)"
  unfolding cancelAppointment_def cancelAppointmentAndWorkOrder_def
  by (rule keeps_intros keeps_frame | simp)+

lemma keeps_calendar_online: "keeps calendar_ok (createPublicAppointment cx slug dto)"
  unfolding createPublicAppointment_def Let_def
  by (rule keeps_intros | simp split: prod.split | rule allI impI)+

section \<open>So do order requests\<close>

lemma keeps_calendar_order_parts [keeps_intros]:
  "keeps calendar_ok (recalculate cx k)" "keeps calendar_ok (insert_item cx k item r)"
  "keeps calendar_ok (take_appointment t a)" "keeps calendar_ok (insert_order w)"
  "keeps calendar_ok (next_sequence t docType yr)" "keeps calendar_ok (syncAppointmentStatus t a st)"
  unfolding recalculate_def insert_item_def take_appointment_def insert_order_def next_sequence_def
    syncAppointmentStatus_def
  by (intro keeps_intros keeps_frame; simp)+

lemma keeps_calendar_stock [keeps_intros]:
  "keeps calendar_ok (consume_part t pid q number k author)"
  "keeps calendar_ok (give_back t pid q remark k author)"
  "keeps calendar_ok (change_part t pid diff wo author)"
  unfolding consume_part_def give_back_def change_part_def take_stock_def find_product_def
  by (intro keeps_intros keeps_frame; simp)+

lemma keeps_calendar_order_repo [keeps_intros]:
  "keeps calendar_ok (create_WorkOrder cx t dat)" "keeps calendar_ok (addItem cx t k item r author)"
  "keeps calendar_ok (updateItem cx t k i upd author)" "keeps calendar_ok (removeItem cx t k i author)"
  "keeps calendar_ok (restoreCancelledStock t k user)"
  "keeps calendar_ok (updateStatus_WorkOrder cx t k st done_at)"
  "keeps calendar_ok (rollbackStatus_WorkOrder cx t k st)" "keeps calendar_ok (sync_appointment t wo st)"
  unfolding create_WorkOrder_def insert_line_def addItem_def updateItem_def removeItem_def
    restoreCancelledStock_def return_line_def updateStatus_WorkOrder_def rollbackStatus_WorkOrder_def
    sync_appointment_def findById_WorkOrder_def find_item_def Let_def
  by (intro keeps_intros keeps_frame; simp)+

lemma keeps_calendar_invoice [keeps_intros]: "keeps calendar_ok (auto_invoice cx t wo)"
  unfolding auto_invoice_def getTenantAutoInvoiceConfig_def findInvoiceByWorkOrder_def createInvoice_def
    submit_einvoice_def getProvider_def provider_createInvoice_def updateEInvoiceDetails_def find_invoice_def
    createWithCariMovement_def invoice_customer_def invoice_order_def findById_WorkOrder_def Let_def
    open_account_def invoice_numbers_def getNextInvoiceNumber_def insert_invoice_def add_advance_payment_def
    post_debit_def complete_order_def
  by (rule keeps_intros keeps_frame keeps_modify | simp split: prod.split | rule allI impI)+

lemma keeps_calendar_orders: "keeps calendar_ok (handle_stock cx q)"
  by (cases q; simp only: handle_stock.simps createWorkOrder_def findActiveByVehicleId_def
      getNextWorkOrderNumber_def addWorkOrderItem_def updateWorkOrderItem_def removeWorkOrderItem_def
      updateWorkOrderStatus_def rollbackWorkOrder_def previous_status_def audit_and_emit_def
      findById_WorkOrder_def find_item_def Let_def)
    (intro keeps_ignore keeps_intros keeps_frame; auto intro: keeps_intros split: sum.split exn.split)+

lemma handle_calendar_keeps: "keeps calendar_ok (handle_calendar cx q)"
  by (cases q) (simp_all add: keeps_ignore keeps_calendar_desk keeps_calendar_cancel keeps_calendar_online
    keeps_calendar_orders)

interpretation calendar: closed_service "handle_calendar cx" "\<lambda>_ _. True" calendar_ok for cx
  by unfold_locales (use handle_calendar_keeps in \<open>simp_all add: keeps_def\<close>)

section \<open>What single requests do\<close>

text \<open>A write that leaves the calendar cannot fail on the constraints.\<close>

lemma wp_exclusion_free:
  assumes "\<not> booked a \<or> (a_assignedMechanicId a = None \<and> a_assignedLift a = None)" and "Q () s"
  shows "wp (exclusion a) Q E s"
  using assms by (auto simp: exclusion_def exclude_on_def wp_simps list_ex_iff clash_def)

lemma wp_update_free:
  assumes "unique_rows a_id (appointments s)" and "find (\<lambda>a. a_id a = k \<and> a_tenantId a = t) (appointments s) = Some a"
    and "\<not> booked (f a) \<or> (a_assignedMechanicId (f a) = None \<and> a_assignedLift (f a) = None)"
    and "Q (f a) (s\<lparr>appointments := update_row a_id k f (appointments s)\<rparr>)"
  shows "wp (update_appointment k f) Q E s"
proof -
  have "lookup_row a_id k (appointments s) = Some a"
    using lookup_row_unique [OF assms(1)] find_SomeD [OF assms(2)] by auto
  with assms(3,4) show ?thesis
    unfolding update_appointment_def wp_bindM wp_reads wp_thenM
    by (auto simp: wp_require wp_update_by intro!: wp_exclusion_free)
qed

lemma wp_cancelAppointment:
  assumes wf: "stock_wf s" and ids: "unique_rows a_id (appointments s)"
    and app: "find (\<lambda>a. a_id a = k \<and> a_tenantId a = t) (appointments s) = Some a"
    and active: "a_status a \<noteq> A_COMPLETED" "a_status a \<noteq> A_CANCELLED"
    and order: "find (\<lambda>w. wo_appointmentId w = Some k \<and> wo_tenantId w = t) (work_orders s) = Some w"
    and opn: "wo_status w \<noteq> CANCELLED"
    and fresh: "gen_id cx (id_supply s) \<notin> n_id ` set (work_order_notes s)"
  shows "wp (cancelAppointment cx t k reason) (\<lambda>_ s'. stock_of s' = stock_of s \<and>
      committed s' = (\<lambda>pid. committed s pid - order_parts s (wo_id w) pid)) (\<lambda>_ _. False) s"
proof -
  let ?f = "\<lambda>w. w\<lparr>wo_status := CANCELLED, wo_updatedAt := now cx\<rparr>"
  let ?s = "s\<lparr>work_orders := update_row wo_id (wo_id w) ?f (work_orders s)\<rparr>"
  have row: "lookup_row wo_id (wo_id w) (work_orders s) = Some w"
    using wf lookup_row_unique find_SomeD [OF order] by (auto simp: stock_wf_def)
  have "stock_inv False (committed s) s"
    using wf by (simp add: stock_inv_def)
  then have "stock_inv False (\<lambda>pid. committed s pid - order_parts s (wo_id w) pid) ?s"
    by (rule stock_inv_cancel) (use row opn in \<open>auto simp: open_order_def\<close>)
  then have gone: "committed ?s = (\<lambda>pid. committed s pid - order_parts s (wo_id w) pid)"
    by (simp add: stock_inv_def)
  have same: "committed x = committed ?s" "stock_of x = stock_of s"
    if "products x = products s" "work_orders x = work_orders ?s" "work_order_items x = work_order_items s" for x
    using that by (simp_all add: committed_def [abs_def] held_def stock_of_def fun_eq_iff)
  have status: "domain_status (a_status a) \<noteq> ''COMPLETED''" "domain_status (a_status a) \<noteq> ''CANCELLED''"
    using active by (cases "a_status a"; simp add: domain_status_def)+
  show ?thesis
    unfolding cancelAppointment_def cancelAppointmentAndWorkOrder_def findById_Appointment_def wp_transaction wp_funs wp_bindM
    by (simp add: wp_find_first wp_ret app wp_require canCancel_app_def mapToAppointment_def status wp_ensure)
      (rule wp_update_free [OF ids app];
        simp add: booked_def wp_simps order opn row fresh same gone)
qed

lemma appointment_eqI:
  "a_serviceId a = None \<Longrightarrow> a_assignedMechanicId a = None \<Longrightarrow> a_assignedLift a = None \<Longrightarrow>
    a\<lparr>a_slotDate := d, a_slotStartTime := b, a_slotEndTime := e, a_serviceId := None,
      a_assignedMechanicId := None, a_assignedLift := None,
      a_customerNotes := case a_customerNotes a of None \<Rightarrow> a_customerNotes a | Some x \<Rightarrow> Some x,
      a_cancellationReason := case a_cancellationReason a of None \<Rightarrow> a_cancellationReason a | Some x \<Rightarrow> Some x\<rparr> =
    a\<lparr>a_slotDate := d, a_slotStartTime := b, a_slotEndTime := e\<rparr>"
  by (cases a) (auto split: option.splits)

lemma wp_rescheduleAppointment:
  assumes ids: "unique_rows a_id (appointments s)"
    and app: "find (\<lambda>a. a_id a = k \<and> a_tenantId a = t) (appointments s) = Some a"
    and active: "a_status a \<noteq> A_COMPLETED" "a_status a \<noteq> A_CANCELLED"
    and free: "a_assignedMechanicId a = None" "a_assignedLift a = None" "a_serviceId a = None"
    and dto: "rs_assignedMechanicId dto = None" "rs_assignedLift dto = None" "now cx - grace \<le> rs_start dto"
  shows "wp (rescheduleAppointment cx t k dto) (\<lambda>x s'. lookup_row a_id k (appointments s') =
      Some (a\<lparr>a_slotDate := rs_slotDate dto, a_slotStartTime := rs_start dto, a_slotEndTime := rs_end dto\<rparr>))
      (\<lambda>_ _. False) s"
proof -
  have status: "domain_status (a_status a) \<noteq> ''COMPLETED''" "domain_status (a_status a) \<noteq> ''CANCELLED''"
    using active by (cases "a_status a"; simp add: domain_status_def)+
  have k: "a_id a = k" "a_tenantId a = t" and row: "lookup_row a_id k (appointments s) = Some a"
    using lookup_row_unique [OF ids] find_SomeD [OF app] by auto
  have start: "\<not> rs_start dto < now cx - grace"
    using dto(3) by simp
  show ?thesis
    unfolding rescheduleAppointment_def save_Appointment_def findById_Appointment_def wp_try_catch wp_funs wp_bindM
    by (simp add: wp_simps app k free dto(1,2) start canReschedule_def reschedule_def mapToAppointment_def status
        check_mechanic_free_def check_lift_free_def or_keep_def status_roundtrip)
      (rule conjI impI | rule wp_update_free [OF ids app] |
        simp add: wp_simps free saved_appointment_def lookup_update_row row or_keep_def |
        simp add: appointment_eqI free split: option.split)+
qed

section \<open>Occupied slots\<close>

text \<open>
  When a mechanic or a lift is taken, said without the code's own queries: an appointment of the
  workshop that is pending, confirmed, in service or completed takes its mechanic and its lift
  from its start to its end, and a mechanic on leave is not there on the days of the leave.
\<close>

definition occupies :: "uuid \<Rightarrow> (appointment \<Rightarrow> string option) \<Rightarrow> string \<Rightarrow> int \<Rightarrow> int \<Rightarrow> appointment \<Rightarrow> bool" where
  "occupies t sel k start finish a \<longleftrightarrow> a_tenantId a = t \<and> sel a = Some k \<and>
     a_status a \<in> {A_PENDING, A_CONFIRMED, A_IN_SERVICE, A_COMPLETED} \<and>
     a_slotStartTime a < finish \<and> start < a_slotEndTime a"

definition on_leave :: "db \<Rightarrow> uuid \<Rightarrow> uuid \<Rightarrow> int \<Rightarrow> bool" where
  "on_leave s t k start \<longleftrightarrow> (\<exists>m. find (\<lambda>m. m_id m = k \<and> m_tenantId m = t) (mechanics s) = Some m \<and> m_userId m \<noteq> [] \<and>
     (\<exists>l \<in> set (staff_leaves s). l_tenantId l = t \<and> l_userId l = m_userId m \<and> l_status l \<noteq> L_CANCELLED \<and>
       l_startDate l \<le> start div 86400000 \<and> start div 86400000 \<le> l_endDate l))"

text \<open>\<open>other\<close>: the appointment that is being moved does not stand in its own way.\<close>

definition mechanic_taken :: "db \<Rightarrow> uuid \<Rightarrow> uuid option \<Rightarrow> int \<Rightarrow> int \<Rightarrow> (appointment \<Rightarrow> bool) \<Rightarrow> bool" where
  "mechanic_taken s t mech start finish other \<longleftrightarrow> (\<exists>k. mech = Some k \<and> k \<noteq> [] \<and> (on_leave s t k start \<or>
     (\<exists>a \<in> set (appointments s). occupies t a_assignedMechanicId k start finish a \<and> other a)))"

definition lift_taken :: "db \<Rightarrow> uuid \<Rightarrow> string option \<Rightarrow> int \<Rightarrow> int \<Rightarrow> (appointment \<Rightarrow> bool) \<Rightarrow> bool" where
  "lift_taken s t lift start finish other \<longleftrightarrow> (\<exists>k. lift = Some k \<and> js_trim k \<noteq> [] \<and>
     (\<exists>a \<in> set (appointments s). occupies t a_assignedLift (js_trim k) start finish a \<and> other a))"

lemma occupies_overlapping:
  "occupies t sel k start finish a \<longleftrightarrow> overlapping t start finish a \<and> sel a = Some k"
  by (cases "a_status a") (auto simp: occupies_def overlapping_def booked_def)

text \<open>The conflict checks find what is taken.\<close>

abbreviation conflict :: "db \<Rightarrow> exn \<Rightarrow> db \<Rightarrow> bool" where
  "conflict s e s' \<equiv> (\<exists>m. e = ConflictException m) \<and> s' = s"

lemma conflict_answer: "wp m (\<lambda>_ _. False) (conflict s) s \<Longrightarrow> \<exists>msg. m s = (Inl (ConflictException msg), s)"
  unfolding wp_def by (auto split: prod.splits sum.splits)

lemma wp_mechanic_check:
  assumes "mechanic_taken s t mech start finish other" and "\<And>a. other a \<Longrightarrow> x \<noteq> Some (a_id a)"
  shows "wp (check_mechanic_free t mech start finish x) (\<lambda>_ _. False) (conflict s) s"
proof -
  obtain k where k: "mech = Some k" "k \<noteq> []" and taken: "on_leave s t k start \<or>
      (\<exists>a \<in> set (appointments s). occupies t a_assignedMechanicId k start finish a \<and> other a)"
    using assms(1) by (auto simp: mechanic_taken_def)
  have found: "find (\<lambda>a. overlapping t start finish a \<and> a_assignedMechanicId a = Some k \<and>
      (case or_null x of None \<Rightarrow> True | Some i \<Rightarrow> a_id a \<noteq> i)) (appointments s) \<noteq> None"
    if "\<not> on_leave s t k start"
    using taken that assms(2) by (auto simp: find_None_iff occupies_overlapping or_null_def split: option.splits if_splits)
  have away: "find (\<lambda>l. l_tenantId l = t \<and> l_userId l = m_userId m \<and> l_status l \<noteq> L_CANCELLED \<and>
      l_startDate l \<le> day_of start \<and> day_of start \<le> l_endDate l) (staff_leaves s) = None \<or> m_userId m = []"
    if "\<not> on_leave s t k start" "find (\<lambda>m. m_id m = k \<and> m_tenantId m = t) (mechanics s) = Some m" for m
    using that by (auto simp: on_leave_def find_None_iff day_of_def)
  have there: "m_userId m \<noteq> [] \<and> find (\<lambda>l. l_tenantId l = t \<and> l_userId l = m_userId m \<and> l_status l \<noteq> L_CANCELLED \<and>
      l_startDate l \<le> day_of start \<and> day_of start \<le> l_endDate l) (staff_leaves s) \<noteq> None"
    if "on_leave s t k start" "find (\<lambda>m. m_id m = k \<and> m_tenantId m = t) (mechanics s) = Some m" for m
    using that by (auto simp: on_leave_def find_None_iff day_of_def)
  show ?thesis
  proof (cases "on_leave s t k start")
    case True
    then obtain m where m: "find (\<lambda>m. m_id m = k \<and> m_tenantId m = t) (mechanics s) = Some m"
      by (auto simp: on_leave_def)
    with there [OF True m] k show ?thesis
      by (simp add: check_mechanic_free_def checkMechanicOnLeave_def wp_simps or_null_simps(3))
  next
    case False
    with found [OF False] away [OF False] k show ?thesis
      by (auto simp: check_mechanic_free_def checkMechanicOnLeave_def checkMechanicConflict_def wp_simps
        or_null_simps(3) split: option.split)
  qed
qed

lemma wp_lift_check:
  assumes "lift_taken s t lift start finish other" and "\<And>a. other a \<Longrightarrow> x \<noteq> Some (a_id a)"
  shows "wp (check_lift_free t lift start finish x) (\<lambda>_ _. False) (conflict s) s"
proof -
  obtain k a where k: "lift = Some k" "js_trim k \<noteq> []" and a: "a \<in> set (appointments s)"
      "occupies t a_assignedLift (js_trim k) start finish a" "other a"
    using assms(1) by (auto simp: lift_taken_def)
  then have k2: "k \<noteq> []"
    by (auto simp: js_trim_def)
  have "find (\<lambda>a. overlapping t start finish a \<and> a_assignedLift a = Some (js_trim k) \<and>
      (case or_null x of None \<Rightarrow> True | Some i \<Rightarrow> a_id a \<noteq> i)) (appointments s) \<noteq> None"
    using a assms(2) [OF a(3)] by (auto simp: find_None_iff occupies_overlapping or_null_def split: option.splits if_splits)
  with k k2 show ?thesis
    by (auto simp: check_lift_free_def checkLiftConflict_def wp_simps or_null_simps(3))
qed

lemma wp_mechanic_check_any:
  "wp (check_mechanic_free t mech start finish x) (\<lambda>_ s'. s' = s) (conflict s) s"
  by (simp add: check_mechanic_free_def checkMechanicOnLeave_def checkMechanicConflict_def wp_simps split: option.split)

lemma wp_slot_checks:
  assumes "mechanic_taken s t mech start finish other \<or> lift_taken s t lift start finish other"
    and "\<And>a. other a \<Longrightarrow> x \<noteq> Some (a_id a)"
  shows "wp (thenM (check_mechanic_free t mech start finish x)
    (thenM (check_lift_free t lift start finish x) r)) (\<lambda>_ _. False) (conflict s) s"
  using assms(1)
proof
  assume "mechanic_taken s t mech start finish other"
  then have "wp (check_mechanic_free t mech start finish x) (\<lambda>_ _. False) (conflict s) s"
    using assms(2) by (rule wp_mechanic_check)
  then show ?thesis
    unfolding wp_thenM by (rule wp_mono) simp_all
next
  assume "lift_taken s t lift start finish other"
  then have "wp (check_lift_free t lift start finish x) (\<lambda>_ _. False) (conflict s) s"
    using assms(2) by (rule wp_lift_check)
  then have lift: "wp (thenM (check_lift_free t lift start finish x) r) (\<lambda>_ _. False) (conflict s) s"
    unfolding wp_thenM by (rule wp_mono) simp_all
  show ?thesis
    unfolding wp_thenM [of "check_mechanic_free _ _ _ _ _"]
    by (rule wp_mono [OF wp_mechanic_check_any]) (use lift in auto)
qed

lemma taken_slot_is_not_booked:
  assumes "bi_start dto = Some start" and "bi_end dto = Some finish" and "start < finish" and "now cx - grace \<le> start"
    and "mechanic_taken s t (bi_assignedMechanicId dto) start finish (\<lambda>_. True) \<or>
      lift_taken s t (bi_assignedLift dto) start finish (\<lambda>_. True)"
  shows "\<exists>msg. createAppointment cx t dto s = (Inl (ConflictException msg), s)"
proof (rule conflict_answer)
  have "\<not> start < now cx - grace"
    using assms(4) by simp
  then show "wp (createAppointment cx t dto) (\<lambda>_ _. False) (conflict s) s"
    unfolding createAppointment_def
    by (simp add: valid_slot_def assms(1-3) wp_bindM [of "require _ _"] wp_require wp_thenM [of "ensure _ _"] wp_ensure
      wp_slot_checks [OF assms(5)])
qed

lemma taken_slot_is_not_moved_to:
  assumes "find (\<lambda>a. a_id a = k \<and> a_tenantId a = t) (appointments s) = Some a"
    and "a_status a \<noteq> A_COMPLETED" and "a_status a \<noteq> A_CANCELLED" and "now cx - grace \<le> rs_start dto"
    and "mechanic_taken s t (or_keep (rs_assignedMechanicId dto) (a_assignedMechanicId a)) (rs_start dto) (rs_end dto) (\<lambda>b. a_id b \<noteq> k) \<or>
      lift_taken s t (or_keep (rs_assignedLift dto) (a_assignedLift a)) (rs_start dto) (rs_end dto) (\<lambda>b. a_id b \<noteq> k)"
  shows "\<exists>msg. rescheduleAppointment cx t k dto s = (Inl (ConflictException msg), s)"
proof (rule conflict_answer)
  have status: "domain_status (a_status a) \<noteq> ''COMPLETED''" "domain_status (a_status a) \<noteq> ''CANCELLED''"
    using assms(2,3) by (cases "a_status a"; simp add: domain_status_def)+
  have "\<not> rs_start dto < now cx - grace"
    using assms(4) by simp
  with status show "wp (rescheduleAppointment cx t k dto) (\<lambda>_ _. False) (conflict s) s"
    unfolding rescheduleAppointment_def findById_Appointment_def wp_bindM [of "bindM _ _"] wp_bindM [of "find_first _ _"] wp_find_first assms(1)
    by (simp add: wp_ret wp_bindM [of "require _ _"] wp_require wp_thenM [of "ensure _ _"] wp_ensure canReschedule_def
      mapToAppointment_def wp_slot_checks [OF assms(5)])
qed

text \<open>The public page offers the bays of the workshop, in their order.\<close>

definition bays_of :: "db \<Rightarrow> uuid \<Rightarrow> string list" where
  "bays_of s t = (let online = map b_name (order_by (\<lambda>a b. b_orderIndex a \<le> b_orderIndex b)
       (filter (\<lambda>b. b_tenantId b = t \<and> b_isActive b \<and> b_isAvailableForOnline b) (workshop_bays s)))
     in if online \<noteq> [] then online else default_bays)"

text \<open>The first of them that is free.\<close>

definition first_free :: "db \<Rightarrow> uuid \<Rightarrow> int \<Rightarrow> int \<Rightarrow> string option" where
  "first_free s t start finish = find (\<lambda>b. \<not> lift_taken s t (Some b) start finish (\<lambda>_. True)) (bays_of s t)"

lemma wp_checkLift:
  "wp (checkLiftConflict t b start finish None) Q E s \<longleftrightarrow> Q (lift_taken s t (Some b) start finish (\<lambda>_. True)) s"
proof (cases "js_trim b = []")
  case True
  then show ?thesis
    by (simp add: checkLiftConflict_def lift_taken_def wp_simps)
next
  case False
  then have "b \<noteq> []"
    by (auto simp: js_trim_def)
  have "(find (\<lambda>a. overlapping t start finish a \<and> a_assignedLift a = Some (js_trim b)) (appointments s) \<noteq> None) =
      lift_taken s t (Some b) start finish (\<lambda>_. True)"
    using False by (auto simp: find_None_iff lift_taken_def occupies_overlapping)
  with False \<open>b \<noteq> []\<close> show ?thesis
    by (simp add: checkLiftConflict_def wp_simps)
qed

lemma wp_free_bay:
  "wp (free_bay t start finish bays) Q E s \<longleftrightarrow>
    Q (find (\<lambda>b. \<not> lift_taken s t (Some b) start finish (\<lambda>_. True)) bays) s"
  by (induction bays) (simp_all add: wp_ret wp_bindM wp_checkLift wp_if)

lemma wp_create_lift:
  "wp (create_Appointment cx a) (\<lambda>x _. ae_assignedLift x = or_null (ae_assignedLift a)) (\<lambda>_ _. True) s"
proof -
  have insert: "wp (bindM (try_catch (insert_appointment (appointment_row ident sv st a)) as_conflict)
      (\<lambda>r. ret (mapToAppointment r))) (\<lambda>x _. ae_assignedLift x = or_null (ae_assignedLift a)) (\<lambda>_ _. True) s"
    for ident sv st s
    unfolding wp_bindM wp_try_catch insert_appointment_def as_conflict_def wp_throw wp_ret
    by (rule wp_any_first(2)) (simp add: wp_create_row mapToAppointment_def appointment_row_def)
  show ?thesis
    unfolding create_Appointment_def
    by (rule wp_any_first(2), rule wp_any_first(1), unfold wp_transaction) (intro wp_any_first insert)
qed

text \<open>An online booking gets the first free bay, or there is none and nothing is done.\<close>

lemma wp_online_bays: "wp (findActiveOnlineBays t) Q E s \<longleftrightarrow>
    Q (map b_name (order_by (\<lambda>a b. b_orderIndex a \<le> b_orderIndex b)
      (filter (\<lambda>b. b_tenantId b = t \<and> b_isActive b \<and> b_isAvailableForOnline b) (workshop_bays s)))) s"
  by (simp add: findActiveOnlineBays_def wp_simps)

lemma wp_online_booking:
  assumes "find (\<lambda>w. t_slug w = slug \<and> t_isActive w) (tenants s) = Some w"
    and "pb_start dto = Some start" and "pb_end dto = Some finish" and "start < finish" and "now cx - grace \<le> start"
  shows "wp (createPublicAppointment cx slug dto)
      (\<lambda>x _. first_free s (t_id w) start finish = ae_assignedLift x \<and> ae_assignedLift x \<noteq> None)
      (\<lambda>e s'. first_free s (t_id w) start finish = None \<longrightarrow> conflict s e s') s"
proof (cases "first_free s (t_id w) start finish")
  case None
  have "wp (createPublicAppointment cx slug dto) (\<lambda>_ _. False) (conflict s) s"
    using assms None unfolding createPublicAppointment_def findTenantBySlug_def first_free_def bays_of_def Let_def
    by (simp add: wp_bindM [of "find_first _ _"] wp_find_first wp_bindM [of "require _ _"] wp_require valid_slot_def
      wp_thenM [of "ensure _ _"] wp_ensure wp_bindM [of "findActiveOnlineBays _"] wp_online_bays
      wp_bindM [of "free_bay _ _ _ _"] wp_free_bay)
  then show ?thesis
    by (rule wp_mono) simp_all
next
  case (Some b)
  have tail: "wp (bindM m1 (\<lambda>c. bindM (m2 c) (\<lambda>v. bindM (create_Appointment cx (a c v)) (\<lambda>x.
      thenM (emit (e x)) (thenM (emit e2) (ret x)))))) (\<lambda>x _. Some b = ae_assignedLift x) (\<lambda>_ _. True) s"
    if "b \<noteq> []" "\<And>c v. ae_assignedLift (a c v) = Some b"
    for m1 :: "customer dbM" and m2 :: "customer \<Rightarrow> vehicle dbM" and a e e2
  proof -
    have lift: "wp (create_Appointment cx (a c v)) (\<lambda>x _. Some b = ae_assignedLift x) (\<lambda>_ _. True) s" for c v s
      using wp_create_lift [of cx "a c v" s] or_null_simps(3) [OF that(1)] that(2)
      by (simp add: eq_commute)
    show ?thesis
      by (rule wp_any_first(1), rule wp_any_first(1), subst wp_bindM, rule wp_mono [OF lift]) (simp_all add: wp_thenM wp_emit wp_ret)
  qed
  have "wp (createPublicAppointment cx slug dto) (\<lambda>x _. Some b = ae_assignedLift x) (\<lambda>_ _. True) s"
    using assms Some unfolding createPublicAppointment_def findTenantBySlug_def first_free_def bays_of_def Let_def
    by (simp add: wp_bindM [of "find_first _ _"] wp_find_first wp_bindM [of "require _ _"] wp_require valid_slot_def
      wp_thenM [of "ensure _ _"] wp_ensure wp_bindM [of "findActiveOnlineBays _"] wp_online_bays
      wp_bindM [of "free_bay _ _ _ _"] wp_free_bay tail split: option.split)
  then show ?thesis
    by (rule wp_mono) (auto simp: Some intro: sym)
qed

end
