(* ===== verification/Atomicity.thy ===== *)
theory Atomicity
  imports StockService Ledger
begin

text \<open>
  Use cases that read and check first, run one transaction, and then only notify: a request
  of theirs that fails leaves the store as it was.
\<close>

lemma read_only_find [atomic_intros]: "read_only (find_first sel P)" "read_only (find_many sel P)"
  by (auto simp: read_only_def find_first_def find_many_def monad_defs)

lemma no_fail_emit [atomic_intros]: "no_fail (emit e)"
  unfolding emit_def by (intro atomic_intros)

lemma no_fail_audit [atomic_intros]: "no_fail (audit_and_emit t a e i)"
  unfolding audit_and_emit_def by (intro atomic_intros)

lemma atomic_order_repo [atomic_intros]:
  "atomic (addItem cx t k item r author)" "atomic (updateItem cx t k i dat author)"
  "atomic (removeItem cx t k i author)" "atomic (create_WorkOrder cx t od)"
  "atomic (createWithCariMovement cx invo off)" "atomic (cancelWithCariReversal cx t i reason)"
  unfolding addItem_def updateItem_def removeItem_def create_WorkOrder_def
    createWithCariMovement_def cancelWithCariReversal_def by (rule atomic_transaction)+

lemma atomic_addWorkOrderItem: "atomic (addWorkOrderItem cx t k dto author)"
  unfolding addWorkOrderItem_def findById_WorkOrder_def Let_def
  by (intro atomic_intros atomic_bind_last)

lemma atomic_updateWorkOrderItem: "atomic (updateWorkOrderItem cx t k i dto author role)"
  unfolding updateWorkOrderItem_def findById_WorkOrder_def find_item_def
  by (intro atomic_intros atomic_bind_last)

lemma atomic_removeWorkOrderItem: "atomic (removeWorkOrderItem cx t k i author)"
  unfolding removeWorkOrderItem_def findById_WorkOrder_def find_item_def
  by (intro atomic_intros atomic_bind_last)

lemma atomic_createPayment: "atomic (createPayment cx t dto cashier a)"
  unfolding createPayment_def check_invoice_def find_gateway_payment_def find_invoice_def Let_def
  by (intro atomic_intros atomic_bind_last)

lemma atomic_cancelInvoice: "atomic (cancelInvoice cx t i reason)"
  unfolding cancelInvoice_def findById_Invoice_def find_invoice_def getProvider_def
  by (intro atomic_intros atomic_bind_last)

lemma atomic_webhook: "atomic (handlePayTrWebhook cx pt payload)"
  unfolding handlePayTrWebhook_def Let_def
  by (intro atomic_intros atomic_then_last atomic_createPayment)

end
