(* ===== verification/Amounts.thy ===== *)
theory Amounts
  imports Ledger
begin

text \<open>
  The double arithmetic of the amounts against exact arithmetic on cents: the totals of an
  invoice (\<open>invoice-totals.ts\<close>), the paid and remaining amount after a payment
  (\<open>payments.service.ts\<close>) and the subtotal of a work order. The bounds are those of the
  columns: sums up to \<open>10 ^ 12\<close> cents, and up to 100 lines of an order.
\<close>

section \<open>Invoice totals\<close>

definition ref_line :: "int \<Rightarrow> int \<Rightarrow> int \<Rightarrow> inv_line" where
  "ref_line p q r = \<lparr>il_itemType = None, il_name = None, il_quantity = of_int q,
     il_unitPrice = num_of_cents p, il_kdvRate = Some (of_int r)\<rparr>"

lemma price_cents: "money p \<Longrightarrow> math_round (fmul (num_of_cents p) 100) = p"
  unfolding fmul_def num_of_cents_def
  by (rule double.round_times_100; use double.cents_close [of p] money_rat [of p] in linarith)

lemma round_hundredth:
  assumes "0 \<le> n" and "n < 2 ^ 52"
  shows "math_round (fl (of_int n / 100)) = (n + 50) div 100"
proof -
  consider (half) m where "n = 100 * m + 50" | (other) "n mod 100 \<noteq> 50"
    by (metis mult_div_mod_eq)
  then show ?thesis
  proof cases
    case half
    have two: "(2::rat) powi (- 1) = 1 / 2"
      by (simp add: power_int_minus)
    have eq: "of_int n / 100 = of_int (2 * m + 1) * (2::rat) powi (- 1)"
      unfolding two half by simp
    have "fl (of_int n / 100) = of_int (2 * m + 1) * (2::rat) powi (- 1)"
      unfolding eq by (rule fl_dyadic) (use half assms in auto)
    then have "fl (of_int n / 100) + 1 / 2 = of_int (m + 1)"
      unfolding two by simp
    then have "math_round (fl (of_int n / 100)) = m + 1"
      unfolding math_round_def by (simp only: floor_of_int)
    then show ?thesis
      using half by simp
  next
    case other
    have N: "(of_int n :: rat) < 2 ^ 52" "0 \<le> (of_int n :: rat)"
      using assms by (simp_all add: of_int_less_numeral_power_cancel_iff)
    have err: "\<bar>fl (of_int n / 100) - of_int n / 100\<bar> \<le> (2 ^ 52 / 100) / 9007199254740992"
      by (rule double.rnd_close) (use N in auto)
    let ?q = "(n + 50) div 100" and ?k = "(n + 50) mod 100"
    have n: "n + 50 = 100 * ?q + ?k" and k: "0 \<le> ?k" "?k < 100"
      by simp_all
    have "?k \<noteq> 0"
    proof
      assume "?k = 0"
      with n have "n = 50 + 100 * (?q - 1)" by simp
      then have "n mod 100 = 50" using mod_mult_self2 [of 50 100 "?q - 1"] by simp
      with other show False by simp
    qed
    with n k have "100 * ?q + 1 \<le> n + 50" "n + 50 + 1 \<le> 100 * ?q + 100" by linarith+
    then have "(of_int (100 * ?q + 1) :: rat) \<le> of_int (n + 50)" 
      "(of_int (n + 50 + 1) :: rat) \<le> of_int (100 * ?q + 100)"
      by (simp_all only: of_int_le_iff)
    then have "100 * of_int ?q \<le> 49 + (of_int n :: rat)" "of_int n \<le> 49 + 100 * (of_int ?q :: rat)"
      by simp_all
    then have "\<bar>of_int n / 100 - of_int ?q\<bar> \<le> (49 / 100 :: rat)"
      unfolding abs_le_iff by (intro conjI; linarith)
    moreover have "\<bar>fl (of_int n / 100) - of_int n / 100\<bar> \<le> (1 / 200 :: rat)"
      using err by simp
    ultimately show ?thesis
      by (intro math_round_near) linarith
  qed
qed


text \<open>One line in exact arithmetic: price \<open>p\<close> in cents, quantity \<open>q\<close>, whole percentage \<open>r\<close>.\<close>

lemma line_cents_exact:
  assumes "money p" and "\<bar>p * q\<bar> < 2 ^ 53"
  shows "line_cents (ref_line p q r) = of_int (p * q)"
  using assms fl_of_int [of "p * q"]
  by (simp add: line_cents_def ref_line_def price_cents [unfolded fmul_def] fmul_def)

lemma line_tax_exact:
  assumes "0 \<le> p * q" and "0 \<le> r" and "r \<le> 100" and "p * q \<le> 10 ^ 12"
  shows "math_round (fdiv (fmul (of_int (p * q)) (of_int r)) 100) = (p * q * r + 50) div 100"
proof -
  have "p * q * r \<le> 10 ^ 12 * 100"
    by (rule mult_mono) (use assms in auto)
  then have "fl (of_int (p * q * r)) = of_int (p * q * r)"
    by (intro fl_of_int) (use assms in \<open>simp add: abs_of_nonneg\<close>)
  then show ?thesis
    using round_hundredth [of "p * q * r"] assms \<open>p * q * r \<le> 10 ^ 12 * 100\<close>
    by (simp add: fmul_def fdiv_def)
qed

fun exact_subtotal :: "(int \<times> int \<times> int) list \<Rightarrow> int" where
  "exact_subtotal [] = 0"
| "exact_subtotal ((p, q, r) # ls) = p * q + exact_subtotal ls"

fun exact_tax :: "(int \<times> int \<times> int) list \<Rightarrow> int" where
  "exact_tax [] = 0"
| "exact_tax ((p, q, r) # ls) = (p * q * r + 50) div 100 + exact_tax ls"

definition line_ok :: "int \<times> int \<times> int \<Rightarrow> bool" where
  "line_ok l = (case l of (p, q, r) \<Rightarrow> 0 \<le> p \<and> 1 \<le> q \<and> 0 \<le> r \<and> r \<le> 100)"

lemma exact_bounds: "list_all line_ok ls \<Longrightarrow> 0 \<le> exact_tax ls \<and> exact_tax ls \<le> exact_subtotal ls"
proof -
  assume "list_all line_ok ls"
  then show "0 \<le> exact_tax ls \<and> exact_tax ls \<le> exact_subtotal ls"
  proof (induction ls)
    case (Cons l ls)
    obtain p q r where l: "l = (p, q, r)" by (cases l)
    with Cons.prems have *: "0 \<le> p * q" "0 \<le> r" "r \<le> 100" by (auto simp: line_ok_def)
    then have "p * q * r \<le> p * q * 100" by (intro mult_left_mono) auto
    then have "(p * q * r + 50) div 100 \<le> p * q" and "0 \<le> (p * q * r + 50) div 100"
      using * zdiv_mono1 [of "p * q * r + 50" "p * q * 100 + 50" 100] by (auto intro!: pos_imp_zdiv_nonneg_iff [THEN iffD2] add_nonneg_nonneg)
    with Cons l show ?case by simp
  qed simp
qed


text \<open>The loop computes the exact sums.\<close>

definition lines_of :: "(int \<times> int \<times> int) list \<Rightarrow> inv_line list" where
  "lines_of ls = map (\<lambda>(p, q, r). ref_line p q r) ls"

lemma ref_line_good: "line_ok (p, q, r) \<Longrightarrow> \<not> bad_line (ref_line p q r)"
  by (auto simp: bad_line_def ref_line_def line_ok_def is_integer_def rate_of_def num_of_cents_def
      not_less double.rnd_nonneg)

lemma totals_loop_exact:
  assumes "list_all line_ok ls" and "0 \<le> a" and "0 \<le> b" and "b \<le> a"
    and "a + exact_subtotal ls \<le> 10 ^ 12"
  shows "totals_loop (lines_of ls) (of_int a) (of_int b) =
    Inr (of_int (a + exact_subtotal ls), of_int (b + exact_tax ls))"
  using assms
proof (induction ls arbitrary: a b)
  case Nil
  then show ?case by (simp add: lines_of_def)
next
  case (Cons l ls)
  obtain p q r where l: "l = (p, q, r)" by (cases l)
  have ok: "line_ok (p, q, r)" and rest: "list_all line_ok ls"
    using Cons.prems l by auto
  have r: "0 \<le> p" "1 \<le> q" "0 \<le> r" "r \<le> 100"
    using ok by (auto simp: line_ok_def)
  have pq: "0 \<le> p * q" "p \<le> p * q"
    using r mult_left_mono [of 1 q p] by auto
  have head: "0 \<le> (p * q * r + 50) div 100" "(p * q * r + 50) div 100 \<le> p * q"
    using exact_bounds [of "[(p, q, r)]"] ok by simp_all
  have sum: "a + p * q + exact_subtotal ls \<le> 10 ^ 12" "0 \<le> exact_subtotal ls"
    using Cons.prems(5) l exact_bounds [OF rest] by simp_all
  have cents: "line_cents (ref_line p q r) = of_int (p * q)"
    by (rule line_cents_exact) (use pq r sum Cons.prems(2) in \<open>auto simp: money_def\<close>)
  have tax: "math_round (fdiv (fmul (of_int (p * q)) (of_int r)) 100) = (p * q * r + 50) div 100"
    by (rule line_tax_exact) (use pq r sum Cons.prems(2) in auto)
  have "fadd (of_int a) (of_int (p * q)) = of_int (a + p * q)"
    using fl_of_int [of "a + p * q"] pq sum Cons.prems(2) by (simp add: fadd_def)
  moreover have "fadd (of_int b) (of_int ((p * q * r + 50) div 100)) =
      of_int (b + (p * q * r + 50) div 100)"
    using fl_of_int [of "b + (p * q * r + 50) div 100"] head sum Cons.prems(3,4) by (simp add: fadd_def)
  moreover note Cons.IH [OF rest, of "a + p * q" "b + (p * q * r + 50) div 100"]
  ultimately show ?case
    using l ref_line_good [OF ok] cents tax head pq sum Cons.prems(2-4)
    by (simp add: lines_of_def rate_of_def ref_line_def add.assoc)
qed

lemma calculate_exact:
  assumes "list_all line_ok ls" and "exact_subtotal ls \<le> 10 ^ 12"
  shows "calculateInvoiceTotals (lines_of ls) = Inr
    \<lparr>tot_subtotal = num_of_cents (exact_subtotal ls), tot_kdvAmount = num_of_cents (exact_tax ls),
     tot_grandTotal = num_of_cents (exact_subtotal ls + exact_tax ls)\<rparr>"
proof -
  note b = exact_bounds [OF assms(1)]
  have "fadd (of_int (exact_subtotal ls)) (of_int (exact_tax ls)) = of_int (exact_subtotal ls + exact_tax ls)"
    using fl_of_int [of "exact_subtotal ls + exact_tax ls"] b assms(2) by (simp add: fadd_def)
  with totals_loop_exact [OF assms(1), of 0 0] assms(2) show ?thesis
    by (simp add: calculateInvoiceTotals_def fdiv_def num_of_cents_def)
qed

section \<open>Paying an invoice\<close>

lemma paid_invoice_exact:
  assumes dec: "rounds_to_cents (dec2 cx)" and x: "\<bar>x - of_int m / 100\<bar> \<le> 1 / 100000" "\<bar>x\<bar> \<le> 10000000000"
    and money: "money (i_paidAmount i)" "money m" "money (i_paidAmount i + m)" "money (i_grandTotal i)"
  shows "paid_invoice cx x i j = j\<lparr>i_paidAmount := i_paidAmount i + m,
      i_remainingAmount := max 0 (i_grandTotal i - (i_paidAmount i + m)),
      i_status := (if i_grandTotal i \<le> i_paidAmount i + m then PAID else PARTIALLY_PAID)\<rparr>"
proof -
  let ?p = "i_paidAmount i + m"
  have "math_round (fl (fl (fl (of_int (i_paidAmount i) / 100) + x) * 100)) = ?p"
    by (rule double.round_cents_add [OF money(1) x(2,1)])
  then have paid: "fdiv (of_int (math_round (fmul (fadd (num_of_cents (i_paidAmount i)) x) 100))) 100 = num_of_cents ?p"
    by (simp add: fdiv_def fmul_def fadd_def num_of_cents_def)
  have sign: "fsub (num_of_cents (i_grandTotal i)) (num_of_cents ?p) \<le> 0 \<longleftrightarrow> i_grandTotal i \<le> ?p"
    using double.sub_cents_le_0_iff [OF money(4,3)] by (simp add: fsub_def num_of_cents_def)
  have "near (max 0 (fsub (num_of_cents (i_grandTotal i)) (num_of_cents ?p))) (max 0 (i_grandTotal i - ?p))"
  proof (cases "?p \<le> i_grandTotal i")
    case True
    then show ?thesis
      using double.sub_max_near [OF money(4,3)] by (simp add: fsub_def num_of_cents_def)
  next
    case False
    with sign show ?thesis by (simp add: near_def max_def)
  qed
  then have "dec2 cx (max 0 (fsub (num_of_cents (i_grandTotal i)) (num_of_cents ?p))) = max 0 (i_grandTotal i - ?p)"
    by (rule rounds_to_centsD [OF dec])
  moreover have "dec2 cx (num_of_cents ?p) = ?p"
    by (rule rounds_to_centsD [OF dec num_near [OF money(3)]])
  ultimately show ?thesis
    unfolding paid_invoice_def paid Let_def by (simp add: sign)
qed

section \<open>Order totals\<close>

text \<open>The sum of price times quantity over the lines of an order.\<close>

definition exact_order :: "work_order_item list \<Rightarrow> int" where
  "exact_order its = total (\<lambda>it. woi_unitPrice it * woi_quantity it) its"

definition item_ok :: "work_order_item \<Rightarrow> bool" where
  "item_ok it \<longleftrightarrow> 0 \<le> woi_unitPrice it \<and> 0 \<le> woi_quantity it \<and> woi_quantity it < 2 ^ 53"

lemma item_base_close:
  assumes ok: "0 \<le> p" "0 \<le> q" "q < 2 ^ 53" and small: "p * q \<le> 1000000000000"
  shows "\<bar>fmul (num_of_cents p) (num_of_int q) - of_int (p * q) / 100\<bar> \<le> 1 / 200000"
proof -
  have q: "num_of_int q = of_int q"
    using ok by (simp add: num_of_int_def fl_of_int)
  define P Q :: rat where "P = of_int p" and "Q = of_int q"
  have PQ: "0 \<le> P" "0 \<le> Q" "P * Q \<le> 1000000000000"
    using ok small unfolding P_def Q_def
    by (simp_all only: of_int_0_le_iff of_int_mult [symmetric] of_int_le_numeral_iff)
  have "\<bar>fl (P / 100) - P / 100\<bar> \<le> P / 100 / 9007199254740992"
    by (rule double.rnd_close) (use PQ in simp)
  then have "\<bar>(fl (P / 100) - P / 100) * Q\<bar> \<le> P / 100 / 9007199254740992 * Q"
    unfolding abs_mult using PQ by (intro mult_mono) auto
  then have "\<bar>fl (P / 100) * Q - P * Q / 100\<bar> \<le> P * Q / 100 / 9007199254740992"
    by (simp add: algebra_simps)
  then have 1: "\<bar>fl (P / 100) * Q - P * Q / 100\<bar> \<le> 1 / 800000"
    using PQ(3) by linarith
  have "0 \<le> P * Q" using PQ by simp
  then have "\<bar>fl (P / 100) * Q\<bar> \<le> 20000000000"
    using 1 PQ(3) by linarith
  from double.rnd_close [OF this] have "\<bar>fl (fl (P / 100) * Q) - fl (P / 100) * Q\<bar> \<le> 1 / 400000"
    by linarith
  with 1 have "\<bar>fl (fl (P / 100) * Q) - P * Q / 100\<bar> \<le> 1 / 200000"
    by linarith
  then show ?thesis
    by (simp add: fmul_def num_of_cents_def q P_def Q_def)
qed

lemma item_sums_close:
  assumes "list_all item_ok its" and "0 \<le> c" and "c + exact_order its \<le> 1000000000000"
    and "length its + n \<le> 100" and "\<bar>x - of_int c / 100\<bar> \<le> of_nat n / 100000"
  shows "\<bar>fst (item_sums its x y) - of_int (c + exact_order its) / 100\<bar> \<le> 1 / 1000"
  using assms
proof (induction its arbitrary: c n x y)
  case Nil
  have "(of_nat n :: rat) \<le> of_nat 100" using Nil(4) by (simp only: of_nat_le_iff)
  then show ?case
    using Nil(5) by (simp add: exact_order_def)
next
  case (Cons it its)
  let ?p = "woi_unitPrice it" and ?q = "woi_quantity it"
  let ?b = "fmul (num_of_cents ?p) (num_of_int ?q)"
  have rest: "list_all item_ok its" and pq: "0 \<le> ?p" "0 \<le> ?q" "?q < 2 ^ 53" "0 \<le> ?p * ?q"
    using Cons.prems(1) by (simp_all add: item_ok_def [of it])
  have nonneg: "0 \<le> exact_order its"
    using rest by (induction its) (auto simp: exact_order_def item_ok_def)
  have sum: "c + ?p * ?q + exact_order its \<le> 1000000000000"
    using Cons.prems(3) by (simp add: exact_order_def)
  define C D :: rat where "C = of_int c" and "D = of_int (?p * ?q)"
  have CD: "0 \<le> C" "0 \<le> D" "C + D \<le> 1000000000000"
    using Cons.prems(2) pq sum nonneg unfolding C_def D_def of_int_add [symmetric]
    by (simp_all only: of_int_0_le_iff of_int_le_numeral_iff)
  have b: "\<bar>?b - D / 100\<bar> \<le> 1 / 200000"
    unfolding D_def by (rule item_base_close [OF pq(1-3)]) (use sum Cons.prems(2) nonneg in linarith)
  have "(of_nat n :: rat) \<le> of_nat 100" using Cons.prems(4) by (simp only: of_nat_le_iff)
  then have x: "\<bar>x - C / 100\<bar> \<le> of_nat n / 100000" "(of_nat n :: rat) \<le> 100"
    using Cons.prems(5) by (simp_all add: C_def)
  have "\<bar>x + ?b\<bar> \<le> 20000000000"
    using x b CD by linarith
  from double.rnd_close [OF this] have "\<bar>fl (x + ?b) - (x + ?b)\<bar> \<le> 1 / 400000"
    by linarith
  then have "\<bar>fadd x ?b - (C / 100 + D / 100)\<bar> \<le> of_nat n / 100000 + 1 / 100000"
    unfolding fadd_def abs_le_iff using x(1) b unfolding abs_le_iff by (intro conjI; linarith)
  then have step: "\<bar>fadd x ?b - of_int (c + ?p * ?q) / 100\<bar> \<le> of_nat (Suc n) / 100000"
    by (simp add: C_def D_def add_divide_distrib)
  have "exact_order (it # its) = ?p * ?q + exact_order its"
    by (simp add: exact_order_def)
  with Cons.IH [OF rest _ sum _ step] Cons.prems(2,4) pq show ?case
    by (simp add: Let_def add.assoc)
qed

lemma subtotal_exact:
  assumes "rounds_to_cents (dec2 cx)" and "list_all item_ok its"
    and "exact_order its \<le> 1000000000000" and "length its \<le> 100"
  shows "wo_subtotal (with_totals cx its w) = exact_order its"
proof -
  have "\<bar>fst (item_sums its 0 0) - of_int (exact_order its) / 100\<bar> \<le> 1 / 1000"
    using item_sums_close [OF assms(2), of 0 0 0 0] assms(3,4) by simp
  then have "near (fst (item_sums its 0 0)) (exact_order its)"
    unfolding near_def by linarith
  from rounds_to_centsD [OF assms(1) this] show ?thesis
    by (cases "item_sums its 0 0") (simp add: with_totals_def)
qed

lemma cents_amount:
  "\<bar>m\<bar> \<le> 999999999999 \<Longrightarrow> \<bar>num_of_cents m - of_int m / 100\<bar> \<le> 1 / 100000"
  "\<bar>m\<bar> \<le> 999999999999 \<Longrightarrow> \<bar>num_of_cents m\<bar> \<le> 10000000000"
proof -
  assume m: "\<bar>m\<bar> \<le> 999999999999"
  then have "money m" by (simp add: money_def)
  note c = double.cents_close [OF this]
  show "\<bar>num_of_cents m - of_int m / 100\<bar> \<le> 1 / 100000"
    using c unfolding num_of_cents_def by linarith
  have "\<bar>of_int m :: rat\<bar> \<le> of_int 999999999999"
    using m by (simp only: of_int_abs [symmetric] of_int_le_iff)
  then show "\<bar>num_of_cents m\<bar> \<le> 10000000000"
    using c unfolding num_of_cents_def by linarith
qed

text \<open>The order that \<open>recalculate\<close> answers has the subtotal of the items in the store.\<close>

definition items_of :: "uuid \<Rightarrow> db \<Rightarrow> work_order_item list" where
  "items_of k s = filter (\<lambda>it. woi_workOrderId it = k) (work_order_items s)"

definition subtotal_right :: "uuid \<Rightarrow> work_order \<Rightarrow> db \<Rightarrow> bool" where
  "subtotal_right k w s \<longleftrightarrow> (list_all item_ok (items_of k s) \<longrightarrow> exact_order (items_of k s) \<le> 1000000000000 \<longrightarrow>
     length (items_of k s) \<le> 100 \<longrightarrow> wo_subtotal w = exact_order (items_of k s))"

lemma wp_recalculate_subtotal:
  "rounds_to_cents (dec2 cx) \<Longrightarrow> wp (recalculate cx k) (subtotal_right k) (\<lambda>_ _. True) s"
  using subtotal_exact [of cx "items_of k s"]
  by (auto simp: recalculate_def wp_simps subtotal_right_def items_of_def split: option.split)

lemma wp_item_ops_subtotal:
  assumes "rounds_to_cents (dec2 cx)"
  shows "wp (addItem cx t k item r author) (subtotal_right k) (\<lambda>_ _. True) s"
    and "wp (updateItem cx t k i dat author) (subtotal_right k) (\<lambda>_ _. True) s"
    and "wp (removeItem cx t k i author) (subtotal_right k) (\<lambda>_ _. True) s"
proof -
  have order: "wp (bindM (findById_WorkOrder t k) (\<lambda>found. bindM (require e found) m)) (subtotal_right k) (\<lambda>_ _. True) s"
    if "\<And>w. wo_id w = k \<Longrightarrow> wp (m w) (subtotal_right k) (\<lambda>_ _. True) s" for m e
    using that by (auto simp: findById_WorkOrder_def wp_simps split: option.split dest!: find_SomeD)
  show "wp (addItem cx t k item r author) (subtotal_right k) (\<lambda>_ _. True) s"
    unfolding addItem_def wp_transaction
    by (rule order, (rule wp_any_first)+) (simp add: wp_recalculate_subtotal [OF assms])
  show "wp (updateItem cx t k i dat author) (subtotal_right k) (\<lambda>_ _. True) s"
    unfolding updateItem_def wp_transaction Let_def
    by (rule order, (rule wp_any_first)+) (simp add: wp_recalculate_subtotal [OF assms])
  show "wp (removeItem cx t k i author) (subtotal_right k) (\<lambda>_ _. True) s"
    unfolding removeItem_def wp_transaction
    by (rule order, (rule wp_any_first)+) (simp add: wp_recalculate_subtotal [OF assms])
qed

end
