(* ===== verification/PaymentFlow.thy ===== *)
theory PaymentFlow
  imports Atomicity Amounts
begin

text \<open>
  What a recorded payment does: the online payments PayTR confirms, possibly several times
  (\<open>handlePayTrWebhook\<close>), and a payment at the desk for an invoice (\<open>create\<close>).
\<close>

section \<open>Gateway payments\<close>

definition attempt_known :: "string \<Rightarrow> db \<Rightarrow> bool" where
  "attempt_known a s \<longleftrightarrow> a \<in> pa_id ` set (payment_attempts s)"

definition attempt_paid :: "string \<Rightarrow> db \<Rightarrow> bool" where
  "attempt_paid a s \<longleftrightarrow> (\<exists>r. lookup_row pa_id a (payment_attempts s) = Some r \<and> pa_status r = ''PAID'')"

lemma attempt_paid_other [simp]:
  "attempt_paid a (outbox_update f s) = attempt_paid a s"
  by (simp add: attempt_paid_def)

lemma keeps_attempt_paid_emit [keeps_intros]: "keeps (attempt_paid a) (emit e)"
  by (auto simp: keeps_def wp_simps)

text \<open>The last step of a gateway payment marks the attempt.\<close>

lemma wp_mark_attempt:
  "wp (thenM (update_by payment_attempts payment_attempts_update pa_id a (\<lambda>r. r\<lparr>pa_status := ''PAID''\<rparr>)) (ret ()))
    (\<lambda>_. attempt_paid a) (\<lambda>_ _. True) s"
  by (auto simp: wp_simps attempt_paid_def lookup_update_row split: option.split)

lemma wp_record_gateway:
  assumes none: "find_gateway_payment t a s = (Inr None, s)"
  shows "wp (record_payment cx t c dto cashier (Some a)) (\<lambda>_. attempt_paid a) (\<lambda>_ _. True) s"
proof -
  have mark: "wp (thenM (thenM (update_by payment_attempts payment_attempts_update pa_id a
      (\<lambda>r. r\<lparr>pa_status := ''PAID''\<rparr>)) (ret ())) (ret p)) (\<lambda>_. attempt_paid a) (\<lambda>_ _. True) s'" for p s'
    by (subst wp_thenM, rule wp_mono [OF wp_mark_attempt]) (simp_all add: wp_simps)
  have "wp (find_gateway_payment t a) (\<lambda>x s'. x = None \<and> s' = s) (\<lambda>_ _. False) s"
    using none by (simp add: wp_def)
  then show ?thesis
    unfolding record_payment_def
    by (simp only: option.case, subst wp_bindM, elim wp_mono)
      (auto intro!: wp_any_first mark)
qed

lemma find_gateway_cases: "find_gateway_payment t a s = (Inr (find (\<lambda>p. pay_tenantId p = t \<and>
    pay_gatewayProvider p = Some ''PAYTR'' \<and> pay_transactionId p = Some a) (payments s)), s)"
  by (simp add: find_gateway_payment_def find_first_def monad_defs)

lemma read_only_check_invoice: "read_only (check_invoice t dto i)"
  unfolding check_invoice_def find_invoice_def by (intro atomic_intros)

lemma wp_createPayment_gateway:
  assumes "a \<noteq> []"
  shows "wp (createPayment cx t dto cashier (Some a)) (\<lambda>_ s'. attempt_paid a s' \<or>
      (s' = s \<and> wp (createPayment cx' t dto cashier (Some a)) (\<lambda>_ s''. s'' = s) (\<lambda>_ _. False) s))
    (\<lambda>_ _. True) s"
proof (cases "find (\<lambda>p. pay_tenantId p = t \<and> pay_gatewayProvider p = Some ''PAYTR'' \<and>
    pay_transactionId p = Some a) (payments s)")
  case (Some p)
  have found: "wp (find_gateway_payment t a) Q E s \<longleftrightarrow> Q (Some p) s" for Q E
    by (simp add: wp_def find_gateway_cases Some)
  show ?thesis
    unfolding createPayment_def Let_def or_null_simps(3) [OF assms]
    by (simp add: wp_thenM [of "ensure _ _"] wp_ensure wp_bindM [of "find_gateway_payment t a"] found wp_ret)
next
  case None
  let ?Q = "\<lambda>_. attempt_paid a"
  have tail: "wp (bindM (transaction (record_payment cx t c dto cashier (Some a))) (\<lambda>createdPayment.
          thenM (emit (e1 createdPayment)) (thenM (emit e2) (thenM (emit e3) (ret createdPayment)))))
          ?Q (\<lambda>_ _. True) s" for c e1 e2 e3
    unfolding wp_bindM wp_transaction
    by (rule wp_mono [OF wp_record_gateway]) (auto simp: wp_simps find_gateway_cases None)
  have first: "wp (bindM (find_gateway_payment t a) k) ?Q (\<lambda>_ _. True) s"
    if "wp (k None) ?Q (\<lambda>_ _. True) s" for k :: "payment option \<Rightarrow> payment dbM"
    using that by (simp add: wp_bindM wp_def [of "find_gateway_payment t a"] find_gateway_cases None)
  have "wp (createPayment cx t dto cashier (Some a)) ?Q (\<lambda>_ _. True) s"
    unfolding createPayment_def Let_def
    by (simp only: or_null_simps(3) [OF assms] option.case, intro wp_read_then first atomic_intros,
        simp only: option.case)
      (intro wp_read_bind wp_read_then tail atomic_intros read_only_check_invoice)
  then show ?thesis
    by (rule wp_mono) simp_all
qed

lemma wp_webhook_paid:
  shows "wp (handlePayTrWebhook cx pt payload)
    (\<lambda>_ s'. attempt_paid (wh_merchant_oid payload) s' \<or>
      (s' = s \<and> wp (handlePayTrWebhook cx' pt payload) (\<lambda>r s''. r = ''OK'' \<and> s'' = s) (\<lambda>_ _. False) s))
    (\<lambda>_ _. True) s"
proof -
  let ?oid = "wh_merchant_oid payload"
  show ?thesis
  proof (cases "verifyWebhook pt payload")
    case True
    then have oid: "?oid \<noteq> []"
      by (simp add: verifyWebhook_def)
    with True show ?thesis
      by (cases "find (\<lambda>a. pa_id a = ?oid) (payment_attempts s)")
        (auto simp: handlePayTrWebhook_def wp_thenM [of "ensure _ _"] wp_bindM [of "find_first _ _"]
          wp_bindM [of "require _ _"] wp_ensure wp_find_first wp_require wp_ret wp_funs(2,3) Let_def wp_thenM [of "createPayment _ _ _ _ _"] 
          split: option.split dest!: find_SomeD intro!: wp_createPayment_gateway [OF oid])
  next
    case False
    then show ?thesis
      by (simp add: handlePayTrWebhook_def wp_thenM wp_ensure)
  qed
qed

lemma attempt_paid_webhook:
  assumes "attempt_paid (wh_merchant_oid payload) s" and "verifyWebhook pt payload"
  shows "handlePayTrWebhook cx pt payload s = (Inr ''OK'', s)"
proof -
  have "find (\<lambda>a. pa_id a = wh_merchant_oid payload) (payment_attempts s) =
      lookup_row pa_id (wh_merchant_oid payload) (payment_attempts s)"
    by (simp add: lookup_row_def)
  with assms have "wp (handlePayTrWebhook cx pt payload) (\<lambda>r s'. r = ''OK'' \<and> s' = s) (\<lambda>_ _. False) s"
    by (auto simp: attempt_paid_def handlePayTrWebhook_def wp_simps)
  then show ?thesis
    by (auto simp: wp_def split: prod.splits sum.splits)
qed

lemma webhook_ok_verified: "handlePayTrWebhook cx pt payload s = (Inr r, s') \<Longrightarrow> verifyWebhook pt payload"
  by (auto simp: handlePayTrWebhook_def monad_defs split: if_splits)


text \<open>What is refused, and when the store may change at all.\<close>

lemma webhook_unsigned:
  assumes "wh_hash payload \<noteq> hmac pt (merchantKey pt)
      (wh_merchant_oid payload @ merchantSalt pt @ wh_status payload @ wh_total_amount payload)"
  shows "\<exists>m. handlePayTrWebhook cx pt payload s = (Inl (BadRequestException m), s)"
  using assms by (intro exI fails_with) (simp add: handlePayTrWebhook_def verifyWebhook_def wp_simps)

lemma webhook_mismatch:
  assumes "find (\<lambda>a. pa_id a = wh_merchant_oid payload) (payment_attempts s) = Some a"
    and "pa_status a \<noteq> ''PAID''" and "wh_status payload = ''success''"
    and "fdiv (fl (of_nat (digits_value (wh_total_amount payload)))) 100 \<noteq> num_of_cents (pa_amount a)"
  shows "\<exists>m. handlePayTrWebhook cx pt payload s = (Inl (BadRequestException m), s)"
proof -
  have "wp (handlePayTrWebhook cx pt payload) (\<lambda>_ _. False) (\<lambda>e s'. (\<exists>m. e = BadRequestException m) \<and> s' = s) s"
    using assms by (simp add: handlePayTrWebhook_def wp_simps Let_def split: option.split)
  then show ?thesis
    unfolding wp_def by (auto split: prod.splits sum.splits)
qed

lemma webhook_changes:
  assumes "snd (handlePayTrWebhook cx pt payload s) \<noteq> s"
  shows "wh_hash payload = hmac pt (merchantKey pt)
      (wh_merchant_oid payload @ merchantSalt pt @ wh_status payload @ wh_total_amount payload) \<and>
    wh_status payload = ''success'' \<and>
    (\<exists>a. find (\<lambda>a. pa_id a = wh_merchant_oid payload) (payment_attempts s) = Some a \<and> pa_status a \<noteq> ''PAID'' \<and>
      fdiv (fl (of_nat (digits_value (wh_total_amount payload)))) 100 = num_of_cents (pa_amount a))" (is ?genuine)
proof (rule ccontr)
  assume no: "\<not> ?genuine"
  have "wp (handlePayTrWebhook cx pt payload) (\<lambda>_ s'. s' = s) (\<lambda>_ s'. s' = s) s"
    using no by (auto simp: handlePayTrWebhook_def verifyWebhook_def wp_simps Let_def split: option.split)
  with assms show False
    by (simp add: wp_any)
qed

section \<open>A payment of an invoice\<close>

lemma read_only_recheck: "read_only (recheck_invoice t x i)"
  unfolding recheck_invoice_def find_invoice_def by (intro atomic_intros)

lemma wp_credit_tail:
  "wp (bindM (open_account cx t c) (\<lambda>account.
        thenM (post_credit cx t account x m (pay_id p)) (thenM (emit e) (thenM (ret ()) (ret p)))))
    (\<lambda>p' s'. p' = p \<and> invoices s' = invoices s \<and> payments s' = payments s) (\<lambda>_ _. True) s"
  unfolding open_account_def post_credit_def
  by (auto simp: wp_simps split: option.split)

lemma wp_insert_exact:
  "Q p (s\<lparr>payments := payments s @ [p]\<rparr>) \<Longrightarrow> wp (insert_payment p) Q (\<lambda>_ _. True) s"
  by (auto simp: insert_payment_def wp_simps)

lemma wp_apply_exact:
  "find (\<lambda>i. i_id i = k \<and> i_tenantId i = t) (invoices s) = Some i \<Longrightarrow>
    Q () (s\<lparr>invoices := update_row i_id k (paid_invoice cx x i) (invoices s)\<rparr>) \<Longrightarrow>
    wp (apply_to_invoice cx t x k) Q (\<lambda>_ _. True) s"
  by (auto simp: apply_to_invoice_def find_invoice_def wp_simps split: option.split)

lemma wp_record_collection:
  assumes k: "pd_invoiceId dto = Some k" "k \<noteq> []"
    and i: "find (\<lambda>i. i_id i = k \<and> i_tenantId i = t) (invoices s) = Some i"
  shows "wp (record_payment cx t c dto cashier None)
    (\<lambda>p s'. (\<exists>ident. p = new_payment cx ident t c dto cashier None) \<and> payments s' = payments s @ [p] \<and>
      invoices s' = update_row i_id k (paid_invoice cx (pd_amount dto) i) (invoices s)) (\<lambda>_ _. True) s"
  unfolding record_payment_def k(1) or_null_simps(3) [OF k(2)]
  apply (simp only: option.case wp_bindM [of "ret _"] wp_ret)
  apply (rule wp_read_then [OF read_only_recheck])
  apply (subst wp_bindM, subst wp_fresh_id, subst wp_bindM)
  apply (rule wp_insert_exact, subst wp_thenM, rule wp_apply_exact)
   apply (simp add: i)
  apply (rule wp_mono [OF wp_credit_tail])
   apply auto
  done

lemma wp_check_exact:
  "wp (check_invoice t dto k) (\<lambda>_ s'. s' = s \<and> (\<exists>i. find (\<lambda>i. i_id i = k \<and> i_tenantId i = t) (invoices s) = Some i \<and>
      i_status i \<noteq> I_CANCELLED \<and> i_status i \<noteq> PAID \<and> \<not> pd_amount dto > num_of_cents (i_remainingAmount i)))
    (\<lambda>_ _. True) s"
  by (auto simp: check_invoice_def find_invoice_def wp_simps split: option.split)

lemma wp_collect:
  assumes k: "pd_invoiceId dto = Some k" "k \<noteq> []"
  shows "wp (createPayment cx t dto cashier None)
    (\<lambda>p s'. \<exists>i ident c. find (\<lambda>i. i_id i = k \<and> i_tenantId i = t) (invoices s) = Some i \<and>
      i_status i \<noteq> I_CANCELLED \<and> i_status i \<noteq> PAID \<and> \<not> pd_amount dto > num_of_cents (i_remainingAmount i) \<and>
      p = new_payment cx ident t c dto cashier None \<and> payments s' = payments s @ [p] \<and>
      invoices s' = update_row i_id k (paid_invoice cx (pd_amount dto) i) (invoices s)) (\<lambda>_ _. True) s"
    (is "wp _ ?Q _ _")
proof -
  have tail: "wp (bindM (transaction (record_payment cx t c dto cashier None)) (\<lambda>createdPayment.
          thenM (emit (e1 createdPayment)) (thenM (emit e2) (thenM (emit e3) (ret createdPayment)))))
          ?Q (\<lambda>_ _. True) s"
    if "find (\<lambda>i. i_id i = k \<and> i_tenantId i = t) (invoices s) = Some i" "i_status i \<noteq> I_CANCELLED"
      "i_status i \<noteq> PAID" "\<not> pd_amount dto > num_of_cents (i_remainingAmount i)" for c e1 e2 e3 i
    unfolding wp_bindM wp_transaction
    by (rule wp_mono [OF wp_record_collection [OF k that(1)]]) (auto simp: wp_simps that)
  have check: "wp (bindM (check_invoice t dto k) m) ?Q (\<lambda>_ _. True) s"
    if "\<And>x i. find (\<lambda>i. i_id i = k \<and> i_tenantId i = t) (invoices s) = Some i \<Longrightarrow> i_status i \<noteq> I_CANCELLED \<Longrightarrow>
      i_status i \<noteq> PAID \<Longrightarrow> \<not> pd_amount dto > num_of_cents (i_remainingAmount i) \<Longrightarrow>
      wp (m x) ?Q (\<lambda>_ _. True) s" for m
    unfolding wp_bindM by (rule wp_mono [OF wp_check_exact]) (use that in auto)
  show ?thesis
    unfolding createPayment_def Let_def k(1) or_null_simps(1) or_null_simps(3) [OF k(2)] option.case
    apply (rule wp_read_then, intro atomic_intros)
    apply (simp only: wp_bindM [of "ret None"] wp_ret option.case)
    apply (rule check)
    apply ((rule tail; assumption) | rule wp_read_bind wp_read_then | intro atomic_intros)+
    done
qed

end
