(* ===== verification/Cancellation.thy ===== *)
theory Cancellation
  imports StockService Ledger
begin

text \<open>
  What \<open>cancelWithCariReversal\<close> does to the orders and their parts: the linked order goes
  back to work, whatever its status was.
\<close>

section \<open>An invoice that is cancelled reopens its order\<close>

text \<open>What the order holds comes back to the books when it was cancelled before.\<close>

lemma held_in_reopen:
  assumes "\<not> open_order orders k" and "open_order orders' k"
    and "\<And>x. x \<noteq> k \<Longrightarrow> open_order orders' x = open_order orders x"
  shows "held_in orders' its pid =
    held_in orders its pid + total (part_quantity pid) (filter (\<lambda>it. woi_workOrderId it = k) its)"
  using held_in_cancel [OF assms(2,1)] assms(3) by simp

lemma wp_cancel_orders:
  "wp (cancelWithCariReversal cx t i reason)
    (\<lambda>_ s'. \<exists>row. find (\<lambda>j. i_id j = i \<and> i_tenantId j = t) (invoices s) = Some row \<and> i_status row \<noteq> I_CANCELLED \<and>
       invoices s' = update_row i_id i (\<lambda>j. j\<lparr>i_status := I_CANCELLED, i_remainingAmount := 0, i_workOrderId := None\<rparr>) (invoices s) \<and>
       products s' = products s \<and> work_order_items s' = work_order_items s \<and>
       work_orders s' = (case or_null (i_workOrderId row) of None \<Rightarrow> work_orders s
         | Some w \<Rightarrow> update_row wo_id w (\<lambda>w. w\<lparr>wo_status := IN_PROGRESS, wo_completedAt := None, wo_updatedAt := now cx\<rparr>) (work_orders s)))
    (\<lambda>_ _. True) s"
proof -
  let ?f = "\<lambda>s'. (invoices s', products s', work_order_items s', work_orders s')"
  have frame: "keeps (\<lambda>s'. ?f s' = x) (reverse_account cx t ps c r)" for x ps c r
    unfolding reverse_account_def post_reversal_def note_transfer_def Let_def
    by (intro keeps_intros keeps_frame) simp_all
  have "wp (reverse_account cx t ps c r) (\<lambda>_ s'. ?f s' = ?f s0) (\<lambda>_ _. True) s0" for s0 ps c r
    by (rule keeps_wp [OF frame [of "?f s0"]]) simp_all
  then have rev: "wp (reverse_account cx t ps c r) Q (\<lambda>_ _. True) s0"
    if "\<And>s'. ?f s' = ?f s0 \<Longrightarrow> Q () s'" for s0 ps c r Q
    by (rule wp_mono) (use that in auto)
  have reopen: "wp (thenM (reopen_order cx w) (ret x)) Q (\<lambda>_ _. True) s0"
    if "Q x (s0\<lparr>work_orders := update_row wo_id w (\<lambda>w. w\<lparr>wo_status := IN_PROGRESS, wo_completedAt := None, wo_updatedAt := now cx\<rparr>) (work_orders s0)\<rparr>)"
    for w x Q and s0
    using that by (auto simp: reopen_order_def wp_simps split: option.split)
  show ?thesis
    unfolding cancelWithCariReversal_def wp_transaction find_invoice_def
    by (auto simp: wp_bindM [of "find_first _ _"] wp_find_first wp_thenM [of "ensure _ _"] wp_ensure
      wp_bindM [of "require _ _"] wp_require wp_bindM [of "find_many _ _"] wp_find_many wp_bindM [of "update_by _ _ _ _ _"]
      wp_update_by wp_thenM [of "reverse_account _ _ _ _ _"] wp_thenM [of "ret _"] wp_ret wp_funs(3)
      split: option.split intro!: rev reopen dest!: find_SomeD)
qed


lemma reopen_gains:
  assumes wf: "stock_wf s"
    and inv: "find (\<lambda>j. i_id j = i \<and> i_tenantId j = t) (invoices s) = Some row" "i_workOrderId row = Some k" "k \<noteq> []"
    and w: "lookup_row wo_id k (work_orders s) = Some w" "wo_status w = CANCELLED"
    and run: "cancelWithCariReversal cx t i reason s = (Inr x, s')"
  shows "committed s' pid = committed s pid + order_parts s k pid"
proof -
  let ?f = "\<lambda>w. w\<lparr>wo_status := IN_PROGRESS, wo_completedAt := None, wo_updatedAt := now cx\<rparr>"
  have s': "products s' = products s" "work_order_items s' = work_order_items s"
      "work_orders s' = update_row wo_id k ?f (work_orders s)"
    using wp_ok [OF wp_cancel_orders run] inv by (auto simp: or_null_simps(3))
  have "held s' pid = held s pid + order_parts s k pid"
    unfolding held_def order_parts_def s'
    by (rule held_in_reopen) (use w in \<open>auto simp: open_order_def lookup_update_row split: option.split\<close>)
  moreover have "stock_of s' = stock_of s"
    by (rule stock_of_cong) (rule s'(1))
  ultimately show ?thesis
    by (simp add: committed_def)
qed

end
