(* ===== verification/Documents.thy ===== *)
theory Documents
  imports WorkOrderRepo
begin

text \<open>
  Numbers of documents (\<open>DocumentSequence\<close>) and the pages of the order list.
\<close>

section \<open>Document numbers\<close>

definition counter :: "DocType \<Rightarrow> nat \<Rightarrow> db \<Rightarrow> uuid \<Rightarrow> nat" where
  "counter dt y s t = (case find (is_sequence t dt y) (document_sequences s) of
     None \<Rightarrow> 0 | Some d \<Rightarrow> ds_lastNumber d)"

lemma find_snoc: "find P (xs @ [x]) = (case find P xs of None \<Rightarrow> if P x then Some x else None | Some y \<Rightarrow> Some y)"
  by (induction xs) auto

lemma find_map_where:
  "(\<And>d. P (f d) = P d) \<Longrightarrow> find P (map (\<lambda>d. if Q d then f d else d) xs) =
     map_option (\<lambda>d. if Q d then f d else d) (find P xs)"
  by (induction xs) auto

lemma is_sequence_other: "is_sequence t dt y d \<Longrightarrow> is_sequence t' dt y d \<longleftrightarrow> t' = t"
  by (auto simp: is_sequence_def)

lemma next_sequence_counter:
  "\<exists>s'. next_sequence t dt y s = (Inr (counter dt y s t + 1), s') \<and>
     counter dt y s' = (counter dt y s)(t := counter dt y s t + 1)"
proof (cases "find (is_sequence t dt y) (document_sequences s)")
  case None
  then show ?thesis
    by (auto simp: next_sequence_def counter_def find_first_def add_row_def monad_defs find_snoc fun_eq_iff
      is_sequence_def split: option.split)
next
  case (Some d)
  let ?g = "\<lambda>d. if is_sequence t dt y d then d\<lparr>ds_lastNumber := Suc (ds_lastNumber d)\<rparr> else d"
  let ?s' = "document_sequences_update (\<lambda>_. map ?g (document_sequences s)) s"
  have same: "find (is_sequence t' dt y) (map ?g (document_sequences s)) =
      map_option ?g (find (is_sequence t' dt y) (document_sequences s))" for t'
    by (rule find_map_where) (simp add: is_sequence_def)
  have "counter dt y ?s' t' = (if t' = t then counter dt y s t + 1 else counter dt y s t')" for t'
  proof (cases "find (is_sequence t' dt y) (document_sequences s)")
    case None
    then show ?thesis using Some by (auto simp: counter_def same)
  next
    case found: (Some d')
    then have "is_sequence t dt y d' \<longleftrightarrow> t = t'"
      by (auto dest: find_SomeD is_sequence_other)
    with found show ?thesis by (auto simp: counter_def same)
  qed
  moreover have "next_sequence t dt y s = (Inr (counter dt y s t + 1), ?s')"
    using Some by (simp add: next_sequence_def counter_def find_first_def update_where_def monad_defs)
  ultimately show ?thesis
    by (intro exI [of _ ?s']) (simp add: fun_eq_iff)
qed

text \<open>Numbers drawn one after the other by the workshops of the list.\<close>

fun draw_numbers :: "ctx \<Rightarrow> uuid list \<Rightarrow> db \<Rightarrow> (uuid \<times> string) list" where
  "draw_numbers cx [] s = []"
| "draw_numbers cx (t # ts) s =
     (case getNextWorkOrderNumber cx t s of
        (Inl e, s') \<Rightarrow> draw_numbers cx ts s'
      | (Inr n, s') \<Rightarrow> (t, n) # draw_numbers cx ts s')"

lemma getNext_counter:
  "\<exists>s'. getNextWorkOrderNumber cx t s =
      (Inr (work_order_number (year cx) (counter DOC_WORK_ORDER (year cx) s t + 1)), s') \<and>
     counter DOC_WORK_ORDER (year cx) s' = (counter DOC_WORK_ORDER (year cx) s)
       (t := counter DOC_WORK_ORDER (year cx) s t + 1)"
  using next_sequence_counter [of t DOC_WORK_ORDER "year cx" s]
  by (auto simp: getNextWorkOrderNumber_def bindM_def ret_def)

lemma work_order_number_inj: "work_order_number y m = work_order_number y n \<Longrightarrow> m = n"
  by (auto simp: work_order_number_def dest: pad_start_inj)

lemma drawn_above:
  "(t, n) \<in> set (draw_numbers cx ts s) \<Longrightarrow>
     \<exists>m > counter DOC_WORK_ORDER (year cx) s t. n = work_order_number (year cx) m"
proof (induction ts arbitrary: s)
  case (Cons t' ts)
  obtain s' where s': "getNextWorkOrderNumber cx t' s =
      (Inr (work_order_number (year cx) (counter DOC_WORK_ORDER (year cx) s t' + 1)), s')"
    "counter DOC_WORK_ORDER (year cx) s' = (counter DOC_WORK_ORDER (year cx) s)
       (t' := counter DOC_WORK_ORDER (year cx) s t' + 1)"
    using getNext_counter by blast
  show ?case
  proof (cases "(t, n) \<in> set (draw_numbers cx ts s')")
    case True
    with Cons.IH [of s'] s'(2) show ?thesis
      by (metis Suc_eq_plus1 Suc_lessD fun_upd_apply)
  next
    case False
    with Cons.prems s' show ?thesis by auto
  qed
qed simp

lemma draw_distinct: "distinct (draw_numbers cx ts s)"
proof (induction ts arbitrary: s)
  case (Cons t ts)
  obtain s' where s': "getNextWorkOrderNumber cx t s =
      (Inr (work_order_number (year cx) (counter DOC_WORK_ORDER (year cx) s t + 1)), s')"
    "counter DOC_WORK_ORDER (year cx) s' = (counter DOC_WORK_ORDER (year cx) s)
       (t := counter DOC_WORK_ORDER (year cx) s t + 1)"
    using getNext_counter by blast
  have "(t, work_order_number (year cx) (counter DOC_WORK_ORDER (year cx) s t + 1)) \<notin>
      set (draw_numbers cx ts s')"
    using s'(2) by (auto dest!: drawn_above work_order_number_inj)
  with s' Cons.IH show ?case by simp
qed simp

section \<open>Pages\<close>

lemma concat_pages:
  "concat (map (\<lambda>p. take l (drop (p * l) xs)) [0..<n]) = take (n * l) xs"
  by (induction n) (simp_all add: take_add [symmetric] add.commute)


text \<open>One page of the order list, and all of them.\<close>

definition order_page :: "uuid \<Rightarrow> WorkOrderStatus option \<Rightarrow> int \<Rightarrow> nat \<Rightarrow> db \<Rightarrow> work_order list" where
  "order_page t st l p s = (case fst (findAll_WorkOrder t st (Some (int p + 1)) (Some l) s) of
     Inl e \<Rightarrow> [] | Inr r \<Rightarrow> pr_data r)"

definition matching_orders :: "uuid \<Rightarrow> WorkOrderStatus option \<Rightarrow> db \<Rightarrow> work_order list" where
  "matching_orders t st s = filter (\<lambda>w. wo_tenantId w = t \<and>
     (case st of None \<Rightarrow> True | Some v \<Rightarrow> wo_status w = v)) (work_orders s)"

lemma order_page_slice:
  "1 \<le> l \<Longrightarrow> l \<le> 200 \<Longrightarrow>
    order_page t st l p s = take (nat l) (drop (p * nat l) (rev (matching_orders t st s)))"
  by (simp add: order_page_def matching_orders_def findAll_WorkOrder_def clamp_limit_def clamp_page_def
    find_many_def monad_defs Let_def nat_mult_distrib)

lemma total_pages:
  assumes "1 \<le> l" and "l \<le> 200" and "findAll_WorkOrder t st (Some p) (Some l) s = (Inr r, s')"
  shows "map_option (\<lambda>(_, _, _, n). n) (pr_meta r) = Some (- ((- int (length (matching_orders t st s))) div l))"
  using assms
  by (auto simp: matching_orders_def findAll_WorkOrder_def clamp_limit_def find_many_def monad_defs Let_def)

lemma ceiling_pages: "1 \<le> l \<Longrightarrow> n \<le> nat (- ((- int n) div l)) * nat l"
proof -
  assume l: "1 \<le> l"
  have "l * ((- int n) div l) + (- int n) mod l = - int n" by (rule mult_div_mod_eq)
  moreover have "0 \<le> (- int n) mod l" using l by simp
  ultimately have "int n \<le> - (l * ((- int n) div l))" by linarith
  then have "int n \<le> - ((- int n) div l) * l" by (simp add: mult.commute)
  moreover have "0 \<le> - ((- int n) div l)"
    using l by (simp add: div_nonpos_pos_le0)
  ultimately show ?thesis
    using l by (metis (no_types, lifting) nat_int nat_mono nat_mult_distrib)
qed

lemma all_pages:
  assumes "1 \<le> l" and "l \<le> 200" and "length (matching_orders t st s) \<le> n * nat l"
  shows "concat (map (\<lambda>p. order_page t st l p s) [0..<n]) = rev (matching_orders t st s)"
  using assms by (simp add: order_page_slice concat_pages)

end
