(* ===== verification/Answers.thy ===== *)
theory Answers
  imports Atomicity
begin

text \<open>
  What is left in the store or in the answer by invoicing (the e-invoice number) and by the
  public endpoints of a work order.
\<close>

section \<open>The e-invoice answer\<close>

lemma wp_submit_gib:
  "wp (submit_einvoice cx t i e) (\<lambda>e' _. ie_gibInvoiceNumber e' = Some []) (\<lambda>_ _. True) s"
  by (auto simp: submit_einvoice_def getProvider_def provider_createInvoice_def updateEInvoiceDetails_def
    find_invoice_def wp_simps split: option.split)

lemma wp_create_gib:
  "wp (createInvoice cx t dto) (\<lambda>e _. ie_gibInvoiceNumber e = Some []) (\<lambda>_ _. True) s"
proof -
  have tail: "wp (thenM m1 (thenM m2 (thenM m3 (ret e)))) (\<lambda>e _. ie_gibInvoiceNumber e = Some []) (\<lambda>_ _. True) s'"
    if "ie_gibInvoiceNumber e = Some []" for m1 m2 m3 :: "unit dbM" and e s'
    by (intro wp_any_first(2)) (simp add: wp_ret that)
  have "wp (bindM (submit_einvoice cx t i e) (\<lambda>e. thenM (m1 e) (thenM (m2 e) (thenM (m3 e) (ret e)))))
      (\<lambda>e _. ie_gibInvoiceNumber e = Some []) (\<lambda>_ _. True) s'" for m1 m2 m3 :: "invoice_entity \<Rightarrow> unit dbM" and i e s'
    unfolding wp_bindM by (rule wp_mono [OF wp_submit_gib]) (simp_all add: tail)
  then show ?thesis
    unfolding createInvoice_def Let_def by (rule wp_any_first)
qed

section \<open>Public tracking\<close>

lemma tracked_order_kept:
  "wp (submitCustomerFeedback cx tok r c)
    (\<lambda>_ s'. \<exists>w w'. lookup_row wo_id (uuid_value (js_trim tok)) (work_orders s) = Some w \<and>
      lookup_row wo_id (uuid_value (js_trim tok)) (work_orders s') = Some w' \<and> wo_status w' = wo_status w \<and>
      wo_updatedAt w' = now cx \<and> wo_completedAt w' = wo_completedAt w) (\<lambda>_ _. True) s"
proof -
  have find: "find (\<lambda>w. wo_id w = k) ws = lookup_row wo_id k ws" for k ws
    by (simp add: lookup_row_def)
  show ?thesis
    by (auto simp: submitCustomerFeedback_def findPublicTrackByTokenOrNumber_def updateCustomerFeedback_def
      wp_simps Let_def find lookup_update_row split: option.split dest: lookup_row_key)
qed

lemma read_only_track: "read_only (getPublicWorkOrderTrack cx tok)"
  unfolding getPublicWorkOrderTrack_def findPublicTrackByTokenOrNumber_def Let_def by (intro atomic_intros)

end
