(* ===== verification/Samples.thy ===== *)
theory Samples
  imports LoginCodes PlatformRules Idempotency CustomerRules ShelfLayout Calendar PaymentFlow Links Cancellation Documents Answers
begin

text \<open>
  A concrete store and concrete requests, on which the witnesses apply the properties: one
  workshop with a customer, a car, a part with 10 pieces on the shelf and an order in the
  queue that holds 2 of them.
\<close>

definition sample_ctx :: ctx where
  "sample_ctx = \<lparr>now = 1767225600000, year = 2026, dec2 = nearest_cent, dec1 = (\<lambda>x. math_round (fmul x 10)),
     gen_id = (\<lambda>n. ''id'' @ nat_str n)\<rparr>"

definition sample_product :: product where
  "sample_product = \<lparr>p_id = ''p1'', p_tenantId = ''t1'', p_name = ''Filtre'', p_oemCode = ''OEM-1'',
     p_barcode = None, p_category = ''Genel'', p_brand = ''Bosch'', p_stockQuantity = 10,
     p_minStockLevel = 2, p_shelfLocation = ''A-12'', p_purchasePrice = 5000, p_salePrice = 10000,
     p_kdvRate = 2000, p_deletedAt = None, p_shelfId = None, p_shelfCellId = None, p_aisle = None,
     p_rack = None, p_tier = None, p_bin = None\<rparr>"

definition sample_customer :: customer where
  "sample_customer = \<lparr>c_id = ''c1'', c_tenantId = ''t1'', c_type = INDIVIDUAL,
     c_firstName = ''Ahmet'', c_lastName = ''Yilmaz'', c_companyTitle = None, c_phone = ''05321234567'',
     c_email = Some ''a@b.co'', c_taxNumber = Some ''11111111111'', c_taxOffice = None,
     c_address = Some ''Ankara'', c_city = None, c_district = None, c_creditLimit = 0, c_notes = None,
     c_isAnonymized = False, c_isLead = False, c_deletedAt = None\<rparr>"

definition sample_vehicle :: vehicle where
  "sample_vehicle = \<lparr>v_id = ''v1'', v_tenantId = ''t1'', v_customerId = ''c1'', v_plate = ''06ABC06'',
     v_brand = ''Fiat'', v_model = ''Egea'', v_year = 2020, v_vin = None, v_engineNo = None, v_color = None,
     v_fuelType = DIESEL, v_transmission = TM_MANUAL, v_currentKm = 1000, v_deletedAt = None\<rparr>"

definition order_uuid :: uuid where
  "order_uuid = ''0a1b2c3d-0000-4000-8000-000000000001''"

definition sample_order :: work_order where
  "sample_order = \<lparr>wo_id = order_uuid, wo_tenantId = ''t1'', wo_workOrderNumber = ''WO-2026-00001'',
     wo_appointmentId = None, wo_customerId = ''c1'', wo_vehicleId = ''v1'',
     wo_assignedMechanicId = None, wo_assignedLift = None, wo_status = QUEUE, wo_initialKm = 1200,
     wo_subtotal = 20000, wo_kdvAmount = 4000, wo_grandTotal = 24000, wo_completedAt = None,
     wo_updatedAt = 1767000000000, wo_lastNotifiedAt = None, wo_customerRating = None,
     wo_customerComment = None, wo_customerRatedAt = None\<rparr>"

definition sample_line :: work_order_item where
  "sample_line = \<lparr>woi_id = ''it1'', woi_workOrderId = order_uuid, woi_itemType = PART,
     woi_itemId = Some ''p1'', woi_name = ''Filtre'', woi_quantity = 2, woi_unitPrice = 10000,
     woi_kdvRate = 2000, woi_totalPrice = 20000\<rparr>"

definition sample_db :: db where
  "sample_db = empty_db\<lparr>
     tenants := [\<lparr>t_id = ''t1'', t_slug = ''oto'', t_title = ''Oto Servis'', t_phone = ''905321112233'',
       t_email = ''oto@x.co'', t_isActive = True, t_autoInvoiceOnComplete = True, t_activeLiftCount = 3,
       t_onboardingCompleted = False, t_b2bConsentAccepted = False, t_b2bConsentAcceptedAt = None, t_logoUrl = None\<rparr>],
     customers := [sample_customer], vehicles := [sample_vehicle], work_orders := [sample_order],
     work_order_items := [sample_line], products := [sample_product],
     document_sequences := [\<lparr>ds_tenantId = ''t1'', ds_docType = DOC_WORK_ORDER, ds_year = 2026,
       ds_lastNumber = 1\<rparr>]\<rparr>"

definition sample_part :: add_item_dto where
  "sample_part = \<lparr>ad_itemType = PART, ad_itemId = Some ''p1'', ad_name = ''Filtre'', ad_quantity = 3,
     ad_unitPrice = 100, ad_kdvRate = Some 20\<rparr>"

text \<open>A day at the workshop: a part added, more of the first one, work, completion, invoice.\<close>

definition sample_stock_requests :: "stock_request list" where
  "sample_stock_requests =
     [AddLine ''t1'' order_uuid sample_part ''Usta'',
      UpdateLine ''t1'' order_uuid ''it1'' \<lparr>iu_name = None, iu_unitPrice = None, iu_quantity = Some 4\<rparr>
        ''Usta'' (Some OWNER),
      AddLine ''t1'' order_uuid (sample_part\<lparr>ad_quantity := 100\<rparr>) ''Usta'',
      SetStatus ''t1'' order_uuid ''IN_PROGRESS'' None,
      RemoveLine ''t1'' order_uuid ''id0'' ''Usta'',
      SetStatus ''t1'' order_uuid ''CANCELLED'' None]"

definition sample_invoice_input :: invoice_input where
  "sample_invoice_input = \<lparr>in_workOrderId = Some order_uuid, in_customerId = ''c1'',
     in_dueDate = 1767830400000, in_subtotal = None, in_kdvAmount = None, in_grandTotal = None,
     in_offsetAdvanceAmount = None, in_invoiceNumber = None, in_gibInvoiceNumber = None,
     in_items = None\<rparr>"

definition sample_payment :: payment_dto where
  "sample_payment = \<lparr>pd_invoiceId = None, pd_customerId = Some ''c1'', pd_amount = 50,
     pd_paymentMethod = Some CASH, pd_method = None, pd_posSlipNo = Some ''FIS-1'', pd_notes = None\<rparr>"

definition sample_paytr :: paytr where
  "sample_paytr = \<lparr>merchantId = ''m'', merchantKey = ''k'', merchantSalt = ''s'', isTestMode = True,
     hmac = (\<lambda>k m. k @ m), basket64 = (\<lambda>b. fst b), get_token = (\<lambda>h a. Some ''token'')\<rparr>"

lemmas sample_defs = sample_db_def sample_order_def sample_line_def sample_product_def
  sample_customer_def sample_vehicle_def empty_db_def

lemma sample_stock_wf: "stock_wf sample_db"
  by (simp add: stock_wf_def sample_defs unique_rows_def stock_part_def)

lemma sample_stock_nonneg: "stock_nonneg sample_db"
  by (simp add: stock_nonneg_def sample_defs)

lemma sample_stock: "stock_of sample_db ''p1'' = 10" "committed sample_db ''p1'' = 12"
    "order_parts sample_db order_uuid ''p1'' = 2"
  by code_simp+

lemma sample_order_found: "find (\<lambda>w. wo_id w = order_uuid \<and> wo_tenantId w = ''t1'') (work_orders sample_db) =
    Some sample_order"
  and sample_order_status: "wo_status sample_order = QUEUE"
  by (simp_all add: sample_defs)

text \<open>The same store with another status of the order.\<close>

definition sample_with :: "WorkOrderStatus \<Rightarrow> db" where
  "sample_with v = sample_db\<lparr>work_orders := [sample_order\<lparr>wo_status := v\<rparr>]\<rparr>"

lemma sample_with_found: "find (\<lambda>w. wo_id w = order_uuid \<and> wo_tenantId w = ''t1'')
    (work_orders (sample_with v)) = Some (sample_order\<lparr>wo_status := v\<rparr>)"
  by (simp add: sample_with_def sample_order_def)

text \<open>Books with one open invoice of 240 TL on the customer's account, and an online attempt.\<close>

definition sample_invoice :: invoice where
  "sample_invoice = \<lparr>i_id = ''i1'', i_tenantId = ''t1'', i_workOrderId = Some order_uuid,
     i_customerId = ''c1'', i_invoiceNumber = ''INV-2026-00001'', i_issueDate = 20454,
     i_dueDate = 20461, i_subtotal = 20000, i_kdvAmount = 4000, i_grandTotal = 24000,
     i_paidAmount = 0, i_remainingAmount = 24000, i_status = UNPAID, i_eInvoiceUuid = None,
     i_eInvoiceStatus = Some ''DRAFT'', i_gibInvoiceNumber = None\<rparr>"

definition sample_books :: db where
  "sample_books = sample_db\<lparr>
     invoices := [sample_invoice],
     current_accounts := [\<lparr>ca_id = ''a1'', ca_tenantId = ''t1'', ca_customerId = ''c1'',
       ca_totalDebits = 24000, ca_totalCredits = 0, ca_balance = 24000, ca_creditLimit = 0,
       ca_isBlocked = False\<rparr>],
     cari_movements := [\<lparr>cm_tenantId = ''t1'', cm_currentAccountId = ''a1'',
       cm_description = ''Fatura'', cm_referenceType = CARI_INVOICE, cm_referenceNo = None,
       cm_debit = 24000, cm_credit = 0, cm_balanceAfter = 24000\<rparr>],
     payment_attempts := [\<lparr>pa_id = ''oid1'', pa_tenantId = ''t1'', pa_invoiceId = ''i1'',
       pa_amount = 100, pa_status = ''PENDING''\<rparr>]\<rparr>"

lemma sample_ledger_ok: "ledger_ok sample_books"
  by (auto simp: ledger_ok_def ledger_inv_def ledger_wf_def account_ok_def moved_def sample_books_def
    sample_invoice_def sample_defs unique_rows_def account_sum_def invoiced_def collected_def fun_eq_iff)

lemma sample_links_ok: "links_ok sample_books"
  by (simp add: links_ok_def once_def sample_books_def sample_invoice_def sample_defs)

definition sample_ledger_requests :: "ledger_request list" where
  "sample_ledger_requests =
     [CollectPayment ''t1'' sample_payment ''Kasa'', CreateInvoice ''t1'' sample_invoice_input,
      PayTrToken ''i1'' ''1.2.3.4'', ViewAccount ''t1'' ''c1'']"

definition sample_webhook :: webhook_payload where
  "sample_webhook = \<lparr>wh_merchant_oid = ''oid1'', wh_status = ''success'', wh_total_amount = ''100'',
     wh_hash = ''koid1ssuccess100''\<rparr>"

definition sample_note :: work_order_note where
  "sample_note = \<lparr>n_id = ''n1'', n_workOrderId = order_uuid, n_authorId = Some ''u1'',
     n_authorName = ''Usta Ali'', n_text = ''fren'', n_isInternal = True\<rparr>"

definition sample_author :: note_author where
  "sample_author = \<lparr>na_id = Some ''u2'', na_name = ''Veli'', na_surname = None, na_role = Some TECHNICIAN\<rparr>"

definition sample_notes_db :: db where
  "sample_notes_db = sample_db\<lparr>work_order_notes := [sample_note]\<rparr>"

definition sample_free_line :: inv_line where
  "sample_free_line = \<lparr>il_itemType = Some SERVICE, il_name = Some ''Kontrol'', il_quantity = 1, il_unitPrice = 0,
     il_kdvRate = Some 0\<rparr>"

lemma sample_uuid: "is_uuid order_uuid" "js_trim order_uuid = order_uuid" "uuid_value order_uuid = order_uuid"
  by (simp_all add: is_uuid_def is_hex_def order_uuid_def js_trim_def is_space_def uuid_value_def)

text \<open>Requests on parts and orders mixed, and a shelf of two tiers.\<close>

definition sample_new_part :: stock_item_input where
  "sample_new_part = \<lparr>ci_name = ''Balata'', ci_oemCode = ''fb-1'', ci_barcode = None, ci_category = None,
     ci_brand = ''Bosch'', ci_stockQuantity = 4, ci_minStockLevel = None, ci_shelfLocation = Some ''B-1'',
     ci_purchasePrice = 100, ci_salePrice = 150, ci_kdvRate = None, ci_aisle = None, ci_rack = None,
     ci_tier = None, ci_bin = None, ci_shelfCellId = None\<rparr>"

definition sample_movement :: "StockMovementType \<Rightarrow> int \<Rightarrow> movement_input" where
  "sample_movement kind q = \<lparr>mi_movementType = kind, mi_quantity = q, mi_referenceId = None, mi_note = None\<rparr>"

definition sample_shop_requests :: "shop_request list" where
  "sample_shop_requests =
     [OnPart (OpenPart ''t1'' sample_new_part ''Depo''),
      OnPart (MovePart ''t1'' ''p1'' (sample_movement IN_PURCHASE 5) ''Depo''),
      OnOrder (AddLine ''t1'' order_uuid sample_part ''Usta''),
      OnPart (MovePart ''t1'' ''p1'' (sample_movement ADJUSTMENT 7) ''Depo''),
      OnPart (DecrementPart ''t1'' ''p1'' 100 ''x'' ''Usta'')]"

definition sample_shelf_dto :: shelf_dto where
  "sample_shelf_dto = \<lparr>hd_name = ''Raf'', hd_code = '' a1'', hd_zone = None, hd_rows = 2, hd_columns = 3\<rparr>"

text \<open>A calendar with an appointment of the sample order, and one that needs no mechanic.\<close>

definition sample_appointment :: appointment where
  "sample_appointment = \<lparr>a_id = ''ap1'', a_tenantId = ''t1'', a_customerId = ''c1'', a_vehicleId = ''v1'',
     a_serviceId = None, a_assignedMechanicId = None, a_assignedLift = None, a_slotDate = 20454,
     a_slotStartTime = 1767250800000, a_slotEndTime = 1767254400000, a_status = A_IN_SERVICE,
     a_customerNotes = None, a_cancellationReason = None\<rparr>"

definition sample_calendar :: db where
  "sample_calendar = sample_db\<lparr>
     appointments := [sample_appointment,
       sample_appointment\<lparr>a_id := ''ap2'', a_status := A_CONFIRMED, a_assignedLift := Some ''Lift 1''\<rparr>],
     work_orders := [sample_order\<lparr>wo_appointmentId := Some ''ap1''\<rparr>]\<rparr>"

definition sample_move :: reschedule_input where
  "sample_move = \<lparr>rs_slotDate = 20455, rs_start = 1767340800000, rs_end = 1767337200000,
     rs_assignedMechanicId = None, rs_assignedLift = None\<rparr>"

definition sample_booking :: booking_input where
  "sample_booking = \<lparr>bi_customerId = ''c1'', bi_vehicleId = ''v1'', bi_serviceId = None,
     bi_assignedMechanicId = None, bi_assignedLift = Some ''Lift 1'', bi_slotDate = 20454,
     bi_start = Some 1767252000000, bi_end = Some 1767255600000, bi_customerNotes = None\<rparr>"

definition sample_calendar_requests :: "calendar_request list" where
  "sample_calendar_requests =
     [Book ''t1'' sample_booking,
      Move ''t1'' ''ap2'' sample_move, CancelBooking ''t1'' ''ap1'' ''OTHER'', Missed ''t1'' ''ap2'']"

lemma sample_unique_parts: "unique_rows p_id (products sample_db)"
  by (simp add: sample_defs unique_rows_def)

lemma sample_calendar_ok: "calendar_ok sample_calendar"
  by (auto simp: calendar_ok_def sample_calendar_def sample_appointment_def unique_rows_def slot_ok_def
    booked_def apart_def clash_def)

lemma sample_calendar_wf: "stock_wf sample_calendar"
  by (simp add: stock_wf_def sample_calendar_def sample_defs unique_rows_def stock_part_def)

end
