(* ===== verification/InventoryFacts.thy ===== *)
theory InventoryFacts
  imports Samples
begin

text \<open>
  The properties of the warehouse: parts and their movements (\<open>Inventory\<close>, \<open>StockJournal\<close>,
  \<open>Warehouse\<close>) and the shelves they lie on (\<open>Shelves\<close>, \<open>ShelfLayout\<close>), each with an
  application to the sample store.
\<close>

text \<open>C2. No stock and no booked quantity ever becomes negative: over every history that mixes
  requests on orders and on parts, whatever they answer, as long as none of them asks for a
  negative quantity.\<close>

theorem stock_never_negative:
  assumes "stock_wf s" and "stock_nonneg s" and "list_all shop_ok qs"
  shows "stock_nonneg (run (handle_shop cx) qs s)"
  using shop_levels.run_inv [OF _ admissible_const [OF assms(3)], of s cx] assms(1,2)
  by (simp add: levels_def)

theorem stock_never_negative_witness:
  "stock_nonneg (run (handle_shop sample_ctx) sample_shop_requests sample_db)"
  by (rule stock_never_negative [OF sample_stock_wf sample_stock_nonneg])
    (simp add: sample_shop_requests_def sample_new_part_def sample_movement_def sample_part_def)

text \<open>C14. As long as no \<open>PATCH\<close> overwrites a quantity, the stock movements are a complete journal: over every
  history of requests on orders and on parts without a \<open>PATCH\<close> that carries \<open>stockQuantity\<close> (that one
  writes the stock and no movement) and without a negative quantity (the DTOs refuse them),
  replaying the movements the history has added, from the stock at its start, gives the stock at
  its end. The start is arbitrary, so this holds from each such \<open>PATCH\<close> to the next.\<close>

theorem journal_explains_the_stock:
  assumes "unique_rows p_id (products s)" and "list_all (\<lambda>q. shop_ok q \<and> \<not> shop_silent q) qs"
  shows "stock_of (run (handle_shop cx) qs s) pid =
    replay (drop (length (stock_movements s)) (stock_movements (run (handle_shop cx) qs s))) pid (stock_of s pid)"
proof -
  have "journal (length (stock_movements s)) (stock_of s) s"
    using assms(1) by (simp add: journal_def)
  from shop_journal.run_inv [OF this admissible_const [OF assms(2)]] show ?thesis
    by (simp add: journal_def)
qed

theorem journal_explains_the_stock_witness:
  "stock_of (run (handle_shop sample_ctx) sample_shop_requests sample_db) ''p1'' =
    replay (stock_movements (run (handle_shop sample_ctx) sample_shop_requests sample_db)) ''p1'' 10"
proof -
  have "list_all (\<lambda>q. shop_ok q \<and> \<not> shop_silent q) sample_shop_requests"
    by (simp add: sample_shop_requests_def sample_new_part_def sample_movement_def sample_part_def)
  moreover have "stock_movements sample_db = []"
    by (simp add: sample_db_def empty_db_def)
  ultimately show ?thesis
    using journal_explains_the_stock [OF sample_unique_parts, of sample_shop_requests sample_ctx "''p1''"]
      sample_stock(1) by simp
qed



text \<open>An inventory request of one tenant leaves the parts of every other tenant, all orders and
  all order items alone, and the movements it writes carry its tenant's identifier.\<close>

theorem tenants_do_not_share_parts:
  assumes "unique_rows p_id (products s)"
  shows "(let s' = snd (handle_part cx q s) in foreign (part_tenant q) s' = foreign (part_tenant q) s \<and>
    appended_by (part_tenant q) s s' \<and> work_orders s' = work_orders s \<and> work_order_items s' = work_order_items s)"
  using handle_part_step [OF assms, of q True False cx] by (simp add: part_step_def Let_def)

theorem tenants_do_not_share_parts_witness:
  "foreign ''t2'' (snd (handle_part sample_ctx (DeletePart ''t2'' ''p1'') sample_db)) = foreign ''t2'' sample_db \<and>
    foreign ''t2'' sample_db = [sample_product]"
  using tenants_do_not_share_parts [OF sample_unique_parts, of sample_ctx "DeletePart ''t2'' ''p1''"]
  by (simp add: Let_def foreign_def sample_defs)

text \<open>Two purchases booked at the same time lose one of them: when both requests have read the
  part before either writes, the stock ends with the second quantity only, while the journal
  shows both.\<close>

theorem concurrent_movements_lose_one:
  assumes "unique_rows p_id (products s)" and "movement_item t k s = (Inr e, s)"
    and "mi_movementType ia = IN_PURCHASE" and "mi_movementType ib = IN_PURCHASE"
    and "0 < mi_quantity ia" and "0 < mi_quantity ib"
    and "write_movement cx t k ia au e s = (Inr xa, s1)" and "write_movement cx t k ib bu e s1 = (Inr xb, s2)"
  shows "stock_of s2 k = si_stockQuantity e + mi_quantity ib \<and>
    replay (drop (length (stock_movements s)) (stock_movements s2)) k (si_stockQuantity e) =
      si_stockQuantity e + mi_quantity ia + mi_quantity ib"
proof -
  have "moved_item ia e = Inr (e\<lparr>si_stockQuantity := si_stockQuantity e + mi_quantity ia\<rparr>)"
    and "moved_item ib e = Inr (e\<lparr>si_stockQuantity := si_stockQuantity e + mi_quantity ib\<rparr>)"
    using assms(3-6) by (simp_all add: moved_item_def increment_def)
  from interleaved_movements [OF assms(1,2) this assms(7,8)] assms(3,4) show ?thesis
    by (simp add: replay_def)
qed

theorem concurrent_movements_lose_one_witness:
  "\<exists>e xa s1 xb s2. movement_item ''t1'' ''p1'' sample_db = (Inr e, sample_db) \<and>
    write_movement (sample_ctx\<lparr>year := 6\<rparr>) ''t1'' ''p1'' (sample_movement IN_PURCHASE 5) ''A'' e sample_db = (Inr xa, s1) \<and>
    write_movement (sample_ctx\<lparr>year := 6\<rparr>) ''t1'' ''p1'' (sample_movement IN_PURCHASE 3) ''B'' e s1 = (Inr xb, s2) \<and>
    stock_of s2 ''p1'' = si_stockQuantity e + 3"
proof -
  let ?cx = "sample_ctx\<lparr>year := 6\<rparr>" and ?e = "mapToStockItem sample_product None"
  let ?w = "\<lambda>q author. write_movement ?cx ''t1'' ''p1'' (sample_movement IN_PURCHASE q) author ?e"
  have read: "movement_item ''t1'' ''p1'' sample_db = (Inr ?e, sample_db)"
    by (simp add: movement_item_def findById_StockItem_def find_first_def monad_defs sample_defs cell_of_def)
  have "returns (?w 5 ''A'') sample_db" "returns (?w 3 ''B'') (snd (?w 5 ''A'' sample_db))"
    by code_simp+
  then obtain xa s1 xb s2 where runs: "?w 5 ''A'' sample_db = (Inr xa, s1)" "?w 3 ''B'' s1 = (Inr xb, s2)"
    by (metis returnsE snd_conv)
  from concurrent_movements_lose_one [OF sample_unique_parts read _ _ _ _ runs] read runs show ?thesis
    by (auto simp: sample_movement_def)
qed

text \<open>Opening a shelf whose code is free succeeds with exactly one cell for every tier and
  position, all with different codes, and touches no part.\<close>

theorem shelf_matrix_is_complete:
  assumes "fresh_ids cx s" and "cells_placed s"
    and "find (\<lambda>sh. sh_tenantId sh = t \<and> sh_code sh = to_upper (js_trim (hd_code dto))) (warehouse_shelves s) = None"
  shows "\<exists>sh s'. createShelf cx t dto s = (Inr (sh, hd_rows dto * hd_columns dto), s') \<and>
    (let places = map (\<lambda>c. (sc_rowNumber c, sc_colNumber c)) (cells_of s' (sh_id sh)) in
      set places = {1..hd_rows dto} \<times> {1..hd_columns dto} \<and> distinct places) \<and>
    distinct (map sc_cellCode (cells_of s' (sh_id sh))) \<and> products s' = products s"
proof -
  let ?new = "\<lambda>sh. new_cells cx (sh_id sh) (sh_code sh) (Suc (id_supply s)) (cell_positions (hd_rows dto) (hd_columns dto))"
  obtain r s' where run: "createShelf cx t dto s = (r, s')"
    by fastforce
  with wp_createShelf [OF assms] obtain sh where r: "r = Inr (sh, hd_rows dto * hd_columns dto)"
    and s': "shelf_cells s' = shelf_cells s @ ?new sh" "products s' = products s"
    and new: "sh_id sh \<notin> sc_shelfId ` set (shelf_cells s)"
    unfolding wp_def by (cases r) (simp_all split: prod.splits)
  have old: "filter (\<lambda>c. sc_shelfId c = sh_id sh) (shelf_cells s) = []"
    using new by (simp add: filter_empty_conv) (metis imageI)
  have cells: "cells_of s' (sh_id sh) = ?new sh"
    by (simp add: cells_of_def s' old new_cells_fields)
  have codes: "distinct (map (cell_code (sh_code sh)) (cell_positions (hd_rows dto) (hd_columns dto)))"
    by (simp add: distinct_map cell_positions_distinct inj_on_def) (blast dest: cell_code_inj)
  show ?thesis
    by (intro exI [of _ sh] exI [of _ s'])
      (simp add: run r cells new_cells_fields cell_positions_set cell_positions_distinct codes s' Let_def)
qed

theorem shelf_matrix_is_complete_witness:
  "\<exists>sh s'. createShelf sample_ctx ''t1'' sample_shelf_dto sample_db = (Inr (sh, 6), s') \<and>
    set (map (\<lambda>c. (sc_rowNumber c, sc_colNumber c)) (cells_of s' (sh_id sh))) = {1..2} \<times> {1..3}"
proof -
  have fresh: "fresh_ids sample_ctx sample_db" "cells_placed sample_db"
    by (auto simp: fresh_ids_def cells_placed_def sample_ctx_def sample_db_def empty_db_def inj_on_def)
  have "warehouse_shelves sample_db = []"
    by (simp add: sample_db_def empty_db_def)
  with shelf_matrix_is_complete [OF fresh, of "''t1''" sample_shelf_dto] show ?thesis
    by (auto simp: sample_shelf_dto_def Let_def)
qed

text \<open>Deleting a shelf: a refused request changes nothing, an accepted one found no live part on
  the shelf, removes it with all its cells and keeps every live part as it is.\<close>

theorem shelf_deletion_keeps_parts:
  "case deleteShelf t k s of
     (Inl e, s') \<Rightarrow> s' = s
   | (Inr _, s') \<Rightarrow> concat (map (\<lambda>c. parts_in s (sc_id c)) (cells_of s k)) = [] \<and>
       filter (\<lambda>p. p_deletedAt p = None) (products s') = filter (\<lambda>p. p_deletedAt p = None) (products s) \<and>
       cells_of s' k = [] \<and> k \<notin> sh_id ` set (warehouse_shelves s')"
  by (rule deleteShelf_result)

text \<open>A part without a shelf location and without a cell cannot be created, although the
  request accepts both as optional: the column is required, so the insertion fails and
  nothing is stored.\<close>

theorem parts_need_a_location:
  assumes "ci_shelfLocation dto = None" and "ci_shelfCellId dto = None"
  shows "createStockItem cx t dto author s = (Inl (DbError (MissingArgument ''shelfLocation'')), s)"
  using assms by (simp add: createStockItem_def create_StockItem_def new_StockItemEntity_def given_cell_def
    or_null_def cell_of_def in_cell_def item_location_def transaction_def monad_defs)

theorem parts_need_a_location_witness:
  "createStockItem sample_ctx ''t1'' (sample_new_part\<lparr>ci_shelfLocation := None\<rparr>) ''Depo'' sample_db =
    (Inl (DbError (MissingArgument ''shelfLocation'')), sample_db)"
  by (rule parts_need_a_location) (simp_all add: sample_new_part_def)

end
