(* ===== verification/CalendarFacts.thy ===== *)
theory CalendarFacts
  imports Samples
begin

text \<open>
  The properties of the appointments (\<open>Appointments\<close>, \<open>Calendar\<close>), each with an application
  to the sample calendar.
\<close>

text \<open>C16. Taken slots are refused by the use cases. Booking at the desk and moving an appointment to a
  time when the mechanic or the lift is taken (\<open>occupies\<close>: an appointment of the workshop that is
  pending, confirmed, in service or completed, at an overlapping time), or when the mechanic is on
  leave, is answered with a conflict and changes nothing; for the move the appointment itself
  does not count. The public page books the first bay that is free, and when all bays are taken
  it answers with a conflict and leaves nothing behind, no customer and no vehicle either.\<close>

theorem occupied_slots_are_refused:
  assumes "start < finish" and "now cx - grace \<le> start"
  shows "(\<forall>dto. bi_start dto = Some start \<and> bi_end dto = Some finish \<and>
      (mechanic_taken s t (bi_assignedMechanicId dto) start finish (\<lambda>_. True) \<or>
       lift_taken s t (bi_assignedLift dto) start finish (\<lambda>_. True)) \<longrightarrow>
      (\<exists>msg. createAppointment cx t dto s = (Inl (ConflictException msg), s))) \<and>
    (\<forall>k a dto. find (\<lambda>a. a_id a = k \<and> a_tenantId a = t) (appointments s) = Some a \<and>
      a_status a \<noteq> A_COMPLETED \<and> a_status a \<noteq> A_CANCELLED \<and> rs_start dto = start \<and> rs_end dto = finish \<and>
      (mechanic_taken s t (or_keep (rs_assignedMechanicId dto) (a_assignedMechanicId a)) start finish (\<lambda>b. a_id b \<noteq> k) \<or>
       lift_taken s t (or_keep (rs_assignedLift dto) (a_assignedLift a)) start finish (\<lambda>b. a_id b \<noteq> k)) \<longrightarrow>
      (\<exists>msg. rescheduleAppointment cx t k dto s = (Inl (ConflictException msg), s))) \<and>
    (\<forall>slug w dto r s'. find (\<lambda>w. t_slug w = slug \<and> t_isActive w) (tenants s) = Some w \<and>
      pb_start dto = Some start \<and> pb_end dto = Some finish \<and> createPublicAppointment cx slug dto s = (r, s') \<longrightarrow>
      (case r of Inr x \<Rightarrow> ae_assignedLift x \<noteq> None \<and> ae_assignedLift x = first_free s (t_id w) start finish
       | Inl e \<Rightarrow> first_free s (t_id w) start finish = None \<longrightarrow> (\<exists>msg. e = ConflictException msg) \<and> s' = s))"
proof (intro conjI allI impI; elim conjE)
  fix slug w dto r s' assume "find (\<lambda>w. t_slug w = slug \<and> t_isActive w) (tenants s) = Some w"
    "pb_start dto = Some start" "pb_end dto = Some finish" and run: "createPublicAppointment cx slug dto s = (r, s')"
  from wp_online_booking [OF this(1-3) assms] run show "case r of
      Inr x \<Rightarrow> ae_assignedLift x \<noteq> None \<and> ae_assignedLift x = first_free s (t_id w) start finish
    | Inl e \<Rightarrow> first_free s (t_id w) start finish = None \<longrightarrow> (\<exists>msg. e = ConflictException msg) \<and> s' = s"
    by (simp add: wp_def split: sum.splits)
qed (use assms in \<open>auto intro: taken_slot_is_not_booked taken_slot_is_not_moved_to\<close>)

theorem occupied_slots_are_refused_witness:
  "\<exists>msg. createAppointment sample_ctx ''t1'' sample_booking sample_calendar = (Inl (ConflictException msg), sample_calendar)"
proof -
  have "lift_taken sample_calendar ''t1'' (bi_assignedLift sample_booking) 1767252000000 1767255600000 (\<lambda>_. True)"
    by (simp add: lift_taken_def occupies_def sample_booking_def sample_calendar_def sample_appointment_def js_trim_def is_space_def)
  moreover have "now sample_ctx - grace \<le> 1767252000000"
    by (simp add: sample_ctx_def grace_def)
  ultimately show ?thesis
    using occupied_slots_are_refused [of 1767252000000 1767255600000 sample_ctx sample_calendar "''t1''"]
    by (simp add: sample_booking_def)
qed

text \<open>Over every history of appointment and order requests no two appointments that are neither
  cancelled nor missed have the same mechanic or the same lift at overlapping times: what the
  use cases let pass, the constraint of the table stops.\<close>

theorem no_double_booking:
  assumes "calendar_ok s"
  shows "sorted_wrt (\<lambda>a b. \<not> clash a_assignedMechanicId a b \<and> \<not> clash a_assignedLift a b)
    (appointments (run (handle_calendar cx) qs s))"
proof -
  have "sorted_wrt apart rows"
    if "unique_rows a_id rows" "\<forall>a\<in>set rows. \<forall>b\<in>set rows. a_id a \<noteq> a_id b \<longrightarrow> apart a b" for rows
    using that by (induction rows) (auto simp: unique_rows_def)
  with calendar.run_always [OF assms, of cx qs] show ?thesis
    by (simp add: calendar_ok_def apart_def [abs_def])
qed

theorem no_double_booking_witness:
  "sorted_wrt (\<lambda>a b. \<not> clash a_assignedMechanicId a b \<and> \<not> clash a_assignedLift a b)
    (appointments (run (handle_calendar sample_ctx) sample_calendar_requests sample_calendar))"
  by (rule no_double_booking [OF sample_calendar_ok])

text \<open>The three conflict rules agree on proper slots: the entity's \<open>hasTimeConflictWith\<close>, the
  query of the repository and the overlap of the table's exclusion constraint.\<close>

theorem conflict_rules_agree:
  assumes "a_slotStartTime a < a_slotEndTime a" and "start < finish"
  shows "hasTimeConflictWith start finish (mapToAppointment a) = overlapping (a_tenantId a) start finish a \<and>
    overlapping (a_tenantId a) start finish a =
      (booked a \<and> ranges_overlap a (b\<lparr>a_slotStartTime := start, a_slotEndTime := finish\<rparr>))"
  using entity_overlap [OF assms, of b] by (auto simp: overlapping_def ranges_overlap_def assms)

theorem conflict_rules_agree_witness:
  "hasTimeConflictWith 1767252000000 1767255600000 (mapToAppointment sample_appointment) =
    overlapping ''t1'' 1767252000000 1767255600000 sample_appointment"
  using conflict_rules_agree [of sample_appointment 1767252000000 1767255600000]
  by (simp add: sample_appointment_def)

text \<open>Cancelling an appointment cancels its open order without returning the parts: the shelf
  stock stays, and the parts the order held are accounted for nowhere.\<close>

theorem cancelled_appointment_strands_parts:
  assumes "stock_wf s" and "unique_rows a_id (appointments s)"
    and "find (\<lambda>a. a_id a = k \<and> a_tenantId a = t) (appointments s) = Some a"
    and "a_status a \<noteq> A_COMPLETED" and "a_status a \<noteq> A_CANCELLED"
    and "find (\<lambda>w. wo_appointmentId w = Some k \<and> wo_tenantId w = t) (work_orders s) = Some w"
    and "wo_status w \<noteq> CANCELLED" and "gen_id cx (id_supply s) \<notin> n_id ` set (work_order_notes s)"
  shows "\<exists>x s'. cancelAppointment cx t k reason s = (Inr x, s') \<and> stock_of s' = stock_of s \<and>
    (\<forall>pid. committed s' pid = committed s pid - order_parts s (wo_id w) pid)"
  using wp_cancelAppointment [OF assms, of reason]
  unfolding wp_def by (cases "cancelAppointment cx t k reason s"; cases "fst (cancelAppointment cx t k reason s)") simp_all

theorem cancelled_appointment_strands_parts_witness:
  "\<exists>x s'. cancelAppointment sample_ctx ''t1'' ''ap1'' ''OTHER'' sample_calendar = (Inr x, s') \<and>
    stock_of s' ''p1'' = 10 \<and> committed s' ''p1'' = 10 \<and> committed sample_calendar ''p1'' = 12"
proof -
  let ?w = "sample_order\<lparr>wo_appointmentId := Some ''ap1''\<rparr>"
  have "unique_rows a_id (appointments sample_calendar)"
    using sample_calendar_ok by (simp add: calendar_ok_def)
  moreover have "find (\<lambda>a. a_id a = ''ap1'' \<and> a_tenantId a = ''t1'') (appointments sample_calendar) = Some sample_appointment"
    and "find (\<lambda>w. wo_appointmentId w = Some ''ap1'' \<and> wo_tenantId w = ''t1'') (work_orders sample_calendar) = Some ?w"
    and "work_order_notes sample_calendar = []"
    by (simp_all add: sample_calendar_def sample_appointment_def sample_defs)
  moreover have "stock_of sample_calendar ''p1'' = 10" "committed sample_calendar ''p1'' = 12"
    "order_parts sample_calendar order_uuid ''p1'' = 2"
    by code_simp+
  ultimately show ?thesis
    using cancelled_appointment_strands_parts [OF sample_calendar_wf, of "''ap1''" "''t1''" sample_appointment ?w sample_ctx "''OTHER''"]
    by (auto simp: sample_appointment_def sample_order_def)
qed

text \<open>Rescheduling does not look at the order of the times: an appointment without a mechanic
  and lift is moved to a slot that ends before it starts, which booking at the desk and the
  public page both refuse.\<close>

theorem reschedule_accepts_reversed_slots:
  assumes "unique_rows a_id (appointments s)"
    and "find (\<lambda>a. a_id a = k \<and> a_tenantId a = t) (appointments s) = Some a"
    and "a_status a \<noteq> A_COMPLETED" and "a_status a \<noteq> A_CANCELLED"
    and "a_assignedMechanicId a = None" and "a_assignedLift a = None" and "a_serviceId a = None"
    and "rs_assignedMechanicId dto = None" and "rs_assignedLift dto = None" and "now cx - grace \<le> rs_start dto"
    and "rs_end dto < rs_start dto"
  shows "\<exists>x s' b. rescheduleAppointment cx t k dto s = (Inr x, s') \<and>
    lookup_row a_id k (appointments s') = Some b \<and> \<not> isValidSlot (mapToAppointment b)"
proof -
  obtain r s' where run: "rescheduleAppointment cx t k dto s = (r, s')"
    by fastforce
  with wp_rescheduleAppointment [OF assms(1-10)] show ?thesis
    using assms(11) unfolding wp_def by (cases r) (simp_all add: isValidSlot_def mapToAppointment_def)
qed

theorem reschedule_accepts_reversed_slots_witness:
  "\<exists>x s' b. rescheduleAppointment sample_ctx ''t1'' ''ap1'' sample_move sample_calendar = (Inr x, s') \<and>
    lookup_row a_id ''ap1'' (appointments s') = Some b \<and> \<not> isValidSlot (mapToAppointment b)"
proof (rule reschedule_accepts_reversed_slots)
  show "unique_rows a_id (appointments sample_calendar)"
    using sample_calendar_ok by (simp add: calendar_ok_def)
  show "find (\<lambda>a. a_id a = ''ap1'' \<and> a_tenantId a = ''t1'') (appointments sample_calendar) = Some sample_appointment"
    by (simp add: sample_calendar_def sample_appointment_def)
qed (simp_all add: sample_appointment_def sample_move_def sample_ctx_def grace_def)

end
