(* ===== verification/AccessFacts.thy ===== *)
theory AccessFacts
  imports Samples
begin

text \<open>
  The properties of login, sessions and staff, with the concrete requests of their witnesses: a
  workshop with its owner, a service manager and a technician, one session of the owner, and an
  environment whose tokens are short texts.
\<close>

section \<open>Concrete accounts\<close>

definition sample_user :: "uuid \<Rightarrow> string \<Rightarrow> UserRole \<Rightarrow> user" where
  "sample_user k phone role = \<lparr>u_id = k, u_tenantId = Some ''t1'', u_branchId = None, u_name = ''Ali'', u_surname = ''Usta'',
     u_phone = phone, u_email = None, u_passwordHash = None, u_role = role, u_isActive = True,
     u_annualLeaveDays = 14, u_transferredLeaveDays = 2\<rparr>"

definition sample_claims :: "string \<Rightarrow> claims" where
  "sample_claims kind = \<lparr>cl_sub = ''u1'', cl_phone = ''905321112233'', cl_email = None, cl_role = OWNER,
     cl_tenantId = Some ''t1'', cl_branchId = None, cl_name = ''Ali Usta'', cl_tokenType = kind,
     cl_familyId = Some ''f1'', cl_jti = None\<rparr>"

text \<open>Tokens that start with R are refresh tokens of the session \<open>f1\<close>, the others access tokens.\<close>

definition sample_env :: auth_env where
  "sample_env = \<lparr>en_ctx = sample_ctx\<lparr>year := 6\<rparr>, en_nodeEnv = ''production'', en_devBypass = False, en_redisUp = True,
     en_sign = (\<lambda>c i s. (if cl_tokenType c = ''refresh'' then ''R'' else ''A'') @ or_else (cl_jti c) []),
     en_verify = (\<lambda>i x. Some (sample_claims (if take 1 x = ''R'' then ''refresh'' else ''access''))),
     en_sha256 = (\<lambda>x. ''h'' @ x), en_randomInt = (\<lambda>n. 7 + n), en_sendSms = (\<lambda>p c. True)\<rparr>"

definition sample_leave :: staff_leave where
  "sample_leave = \<lparr>l_id = ''l1'', l_tenantId = ''t1'', l_userId = ''u3'', l_leaveType = ANNUAL, l_startDate = 20460,
     l_endDate = 20461, l_totalDays = 15, l_reason = None, l_status = L_APPROVED, l_approvedById = Some ''u1''\<rparr>"

definition sample_session :: refresh_token where
  "sample_session = \<lparr>rt_id = ''r1'', rt_userId = ''u1'', rt_tokenHash = ''hR1'', rt_familyId = ''f1'',
       rt_isRevoked = False, rt_expiresAt = 1769817600000\<rparr>"

definition sample_staff :: db where
  "sample_staff = sample_db\<lparr>
     users := [sample_user ''u1'' ''905321112233'' OWNER, sample_user ''u2'' ''+905321112244'' SERVICE_MANAGER,
       sample_user ''u3'' ''+905321112255'' TECHNICIAN],
     mechanics := [\<lparr>m_id = ''m3'', m_tenantId = ''t1'', m_userId = ''u3'', m_specialty = ''Motor'', m_assignedLift = None,
       m_dailyCapacityHours = 8\<rparr>],
     staff_leaves := [sample_leave],
     refresh_tokens := [sample_session]\<rparr>"

lemma runs_through: "wp m (\<lambda>_ _. True) (\<lambda>_ _. False) s \<Longrightarrow> \<exists>x. m s = (Inr x, snd (m s))"
  by (auto simp: wp_def split: prod.splits sum.splits)

section \<open>Sessions\<close>

text \<open>
  C22. A refresh token works once: after a successful refresh, whatever requests follow, another
  refresh with the same token fails, and when its signature is still valid it revokes every
  token of the session, so that a stolen token ends the session of thief and owner.
\<close>

theorem refresh_tokens_work_once:
  assumes "refreshToken (at_time env t0) tok s = (Inr x, s1)"
    and "find (\<lambda>r. rt_tokenHash r = en_sha256 env tok) (refresh_tokens s) = Some r"
    and "en_verify env t tok = Some c" and "cl_tokenType c = ''refresh''"
  shows "case refreshToken (at_time env t) tok (run (handle_auth env) qs s1) of
     (Inr _, _) \<Rightarrow> False
   | (Inl _, s2) \<Rightarrow> list_all (\<lambda>r'. rt_familyId r' = rt_familyId r \<longrightarrow> rt_isRevoked r') (refresh_tokens s2)"
proof -
  have "used_up (en_sha256 env tok) (rt_familyId r) s1"
    using wp_ok [OF wp_refresh_uses assms(1), of r] assms(2) by simp
  then have "used_up (en_sha256 (at_time env t) tok) (rt_familyId r) (run (handle_auth env) qs s1)"
    by (simp add: used_tokens.run_always)
  from wp_refresh_used [OF this] show ?thesis
    using assms(3,4) by (auto simp: wp_def split: prod.splits sum.splits)
qed

theorem refresh_tokens_work_once_witness:
  "case refreshToken (at_time sample_env 1767225700000) ''R1'' (run (handle_auth sample_env)
       [(1767225650000, Refresh ''Rid1''), (1767225660000, SendCode ''05321112233'')]
       (snd (refreshToken (at_time sample_env 1767225600000) ''R1'' sample_staff))) of
     (Inr _, _) \<Rightarrow> False
   | (Inl _, s2) \<Rightarrow> list_all (\<lambda>r'. rt_familyId r' = rt_familyId sample_session \<longrightarrow> rt_isRevoked r') (refresh_tokens s2)"
proof -
  have "case fst (refreshToken (at_time sample_env 1767225600000) ''R1'' sample_staff) of Inl _ \<Rightarrow> False | Inr _ \<Rightarrow> True"
    by code_simp
  then obtain x where run: "refreshToken (at_time sample_env 1767225600000) ''R1'' sample_staff =
      (Inr x, snd (refreshToken (at_time sample_env 1767225600000) ''R1'' sample_staff))"
    by (auto simp: prod_eq_iff split: sum.splits)
  show ?thesis
  proof (rule refresh_tokens_work_once [OF run])
    show "find (\<lambda>r. rt_tokenHash r = en_sha256 sample_env ''R1'') (refresh_tokens sample_staff) = Some sample_session"
      by code_simp
    show "en_verify sample_env 1767225700000 ''R1'' = Some (sample_claims ''refresh'')"
      by (simp add: sample_env_def)
  qed (simp add: sample_claims_def)
qed

text \<open>
  C23. A session stays ended: after the logout with one of its refresh tokens, whatever requests
  follow, no access token of the session of an account other than an administrator of the
  platform is accepted, although it has not expired.
\<close>

theorem ended_sessions_stay_ended:
  assumes "find (\<lambda>r. rt_tokenHash r = en_sha256 env tok \<or> rt_tokenHash r = tok) (refresh_tokens s) = Some r"
    and "tok \<noteq> []" and "rt_familyId r \<noteq> []" and "\<forall>n\<ge>id_supply s. gen_id (en_ctx env) n \<noteq> rt_familyId r"
    and "en_verify env t access = Some c" and "cl_familyId c = Some (rt_familyId r)" and "cl_role c \<noteq> SUPER_ADMIN"
    and "s1 = snd (revokeRefreshToken (at_time env t0) (Some tok) s)"
  shows "case authenticate (at_time env t) access (run (handle_auth env) qs s1) of
     (Inr _, _) \<Rightarrow> False | (Inl _, s2) \<Rightarrow> s2 = run (handle_auth env) qs s1"
proof -
  have "ended (gen_id (en_ctx env)) (rt_familyId r) s1"
    unfolding assms(8) by (rule logout_ends) (use assms in simp_all)
  then have "ended (gen_id (en_ctx env)) (rt_familyId r) (run (handle_auth env) qs s1)"
    by (rule ended_sessions.run_always)
  from wp_authenticate_ended [OF this, of "at_time env t" access c] show ?thesis
    using assms(5-7) by (auto simp: wp_def split: prod.splits sum.splits)
qed

theorem ended_sessions_stay_ended_witness:
  "case authenticate (at_time sample_env 1767225700000) ''A'' (run (handle_auth sample_env)
       [(1767225650000, Refresh ''R1''), (1767225660000, VerifyCode ''05321112233'' ''7'')]
       (snd (revokeRefreshToken (at_time sample_env 1767225600000) (Some ''R1'') sample_staff))) of
     (Inr _, _) \<Rightarrow> False
   | (Inl _, s2) \<Rightarrow> s2 = run (handle_auth sample_env)
       [(1767225650000, Refresh ''R1''), (1767225660000, VerifyCode ''05321112233'' ''7'')]
       (snd (revokeRefreshToken (at_time sample_env 1767225600000) (Some ''R1'') sample_staff))"
proof (rule ended_sessions_stay_ended [OF _ _ _ _ _ _ _ refl])
  show "find (\<lambda>r. rt_tokenHash r = en_sha256 sample_env ''R1'' \<or> rt_tokenHash r = ''R1'') (refresh_tokens sample_staff) =
      Some sample_session"
    by code_simp
  show "en_verify sample_env 1767225700000 ''A'' = Some (sample_claims ''access'')"
    by (simp add: sample_env_def)
qed (simp_all add: sample_env_def sample_claims_def sample_ctx_def sample_session_def)

section \<open>Codes\<close>

text \<open>
  C24. In production a login succeeds only with the code that was sent to the number and has not
  expired, and the code is gone afterwards.
\<close>

theorem login_needs_the_code:
  assumes "en_nodeEnv env = ''production''" and "verifyOtp env phone code s = (Inr x, s')"
  shows "en_redisUp env \<and>
    (case redis s (otp_key (normalizePhone phone)) of None \<Rightarrow> False
     | Some (stored, expiry) \<Rightarrow> stored = code \<and> en_now env < expiry) \<and>
    redis s' (otp_key (normalizePhone phone)) = None"
proof -
  have "\<not> master_code env code"
    using assms(1) by (simp add: master_code_def)
  from wp_ok [OF wp_verifyOtp_code [OF this] assms(2)] show ?thesis
    by auto
qed

definition sample_coded :: db where
  "sample_coded = sample_staff\<lparr>redis := [otp_key ''905321112233'' \<mapsto> (''7'', 1767225700000)]\<rparr>"

theorem login_needs_the_code_witness:
  "redis (snd (verifyOtp sample_env ''0532 111 22 33'' ''7'' sample_coded)) (otp_key (normalizePhone ''0532 111 22 33'')) = None"
proof -
  have "case fst (verifyOtp sample_env ''0532 111 22 33'' ''7'' sample_coded) of Inl _ \<Rightarrow> False | Inr _ \<Rightarrow> True"
    by code_simp
  then obtain x where "verifyOtp sample_env ''0532 111 22 33'' ''7'' sample_coded =
      (Inr x, snd (verifyOtp sample_env ''0532 111 22 33'' ''7'' sample_coded))"
    by (auto simp: prod_eq_iff split: sum.splits)
  then show ?thesis
    by (rule login_needs_the_code [THEN conjunct2, THEN conjunct2, rotated]) (simp add: sample_env_def)
qed

text \<open>
  C25. Whoever guesses has five tries per code: in production, with Redis up, after a code went out to a registered number with
  no counted attempts, a sequence of guesses whose first five miss it never logs in, however
  long it is and whenever the guesses come.
\<close>

theorem otp_guesses_are_limited:
  assumes "en_nodeEnv env = ''production''" and "en_redisUp env" and "has_account (normalizePhone phone) s"
    and "redis s (attempt_key (normalizePhone phone)) = None"
    and "sendOtp (at_time env t0) phone s = (Inr x, s1)"
    and "sorted_wrt (\<lambda>g h. fst g \<le> fst h) guesses" and "list_all (\<lambda>g. t0 \<le> fst g) guesses"
    and "sent_code env s \<notin> snd ` set (take 5 guesses)"
  shows "\<not> any_login env phone guesses s1"
proof -
  have "counted (normalizePhone phone) (sent_code env s) (t0 + 180000) 0 s1" and "has_account (normalizePhone phone) s1"
    using wp_ok [OF wp_sendOtp_counted assms(5)] assms(1-4) by (simp_all add: sent_code_def)
  from no_login_counted [OF assms(1,2) _ _ this _ assms(6,7)] show ?thesis
    using assms(8) by (simp add: sent_code_def)
qed

theorem otp_guesses_are_limited_witness:
  "\<not> any_login sample_env ''05321112233'' [(1767225600001, ''1''), (1767225600002, ''2''), (1767225600003, ''3''),
     (1767225600004, ''4''), (1767225600005, ''5''), (1767225600006, ''7'')]
     (snd (sendOtp (at_time sample_env 1767225600000) ''05321112233'' sample_staff))"
proof -
  have "case fst (sendOtp (at_time sample_env 1767225600000) ''05321112233'' sample_staff) of Inl _ \<Rightarrow> False | Inr _ \<Rightarrow> True"
    by code_simp
  then obtain x where run: "sendOtp (at_time sample_env 1767225600000) ''05321112233'' sample_staff =
      (Inr x, snd (sendOtp (at_time sample_env 1767225600000) ''05321112233'' sample_staff))"
    by (auto simp: prod_eq_iff split: sum.splits)
  have code: "sent_code sample_env sample_staff = ''7''" and "has_account (normalizePhone ''05321112233'') sample_staff"
    "redis sample_staff (attempt_key (normalizePhone ''05321112233'')) = None"
    by code_simp+
  then show ?thesis
    by (intro otp_guesses_are_limited [OF _ _ _ _ run]) (simp_all add: sample_env_def code [unfolded sample_env_def])
qed

text \<open>
  The answers of \<open>sendOtp\<close> are made to look the same with and without an account, but the
  cooldown is only started for an account: a second request within the minute is refused for a
  number that has one, and answered as before for a number that has none.
\<close>

theorem cooldown_reveals_accounts:
  assumes "en_nodeEnv env = ''production''" and "en_redisUp env" and "length (normalizePhone phone) \<ge> 10"
    and "redis s (attempt_key (normalizePhone phone)) = None" and "redis s (cooldown_key (normalizePhone phone)) = None"
    and "redis s (hourly_key (normalizePhone phone)) = None"
    and "sendOtp (at_time env t0) phone s = (Inr x, s1)" and "t1 < t0 + 60000"
    and "has_account (normalizePhone phone) s \<or>
      find (\<lambda>u. u_phone u \<in> set (spellings (normalizePhone phone)) \<and> u_isActive u) (users s) = None"
  shows "x = \<lparr>oa_phone = normalizePhone phone, oa_devCode = None\<rparr> \<and>
    sendOtp (at_time env t1) phone s1 =
      (if has_account (normalizePhone phone) s
       then (Inl (BadRequestException ''Lutfen yeni bir SMS kodu istemeden once 60 saniye bekleyiniz.''), s1)
       else (Inr x, s1))"
proof (cases "has_account (normalizePhone phone) s")
  case True
  then have "redis s1 (cooldown_key (normalizePhone phone)) = Some (''1'', t0 + 60000)"
    using wp_ok [OF wp_sendOtp_counted assms(7)] assms(1,2,4) by simp
  moreover have "x = \<lparr>oa_phone = normalizePhone phone, oa_devCode = None\<rparr>"
    using wp_ok [OF wp_sendOtp_answer assms(7)] assms(1) by simp
  ultimately show ?thesis
    using True assms by (simp add: sendOtp_cooling)
next
  case False
  then have none: "find (\<lambda>u. u_phone u \<in> set (spellings (normalizePhone phone)) \<and> u_isActive u) (users s) = None"
    using assms(9) by simp
  show ?thesis
    using False assms(7) sendOtp_unknown [OF assms(3,5,6) none] by simp
qed

theorem cooldown_reveals_accounts_witness:
  "(case sendOtp (at_time sample_env 1767225600000) ''05321112233'' sample_staff of (Inl _, _) \<Rightarrow> False
   | (Inr x, s1) \<Rightarrow> sendOtp (at_time sample_env 1767225610000) ''05321112233'' s1 =
      (Inl (BadRequestException ''Lutfen yeni bir SMS kodu istemeden once 60 saniye bekleyiniz.''), s1)) \<and>
   (case sendOtp (at_time sample_env 1767225600000) ''05321119999'' sample_staff of (Inl _, _) \<Rightarrow> False
   | (Inr x, s1) \<Rightarrow> sendOtp (at_time sample_env 1767225610000) ''05321119999'' s1 = (Inr x, s1))"
proof (rule conjI)
  have ok: "case fst (sendOtp (at_time sample_env 1767225600000) ''05321112233'' sample_staff) of Inl _ \<Rightarrow> False | Inr _ \<Rightarrow> True"
    "case fst (sendOtp (at_time sample_env 1767225600000) ''05321119999'' sample_staff) of Inl _ \<Rightarrow> False | Inr _ \<Rightarrow> True"
    by code_simp+
  have known: "has_account (normalizePhone ''05321112233'') sample_staff" "\<not> has_account (normalizePhone ''05321119999'') sample_staff"
    "find (\<lambda>u. u_phone u \<in> set (spellings (normalizePhone ''05321119999'')) \<and> u_isActive u) (users sample_staff) = None"
    "length (normalizePhone ''05321112233'') \<ge> 10" "length (normalizePhone ''05321119999'') \<ge> 10"
    by code_simp+
  have env: "en_nodeEnv sample_env = ''production''" "en_redisUp sample_env" and empty: "redis sample_staff k = None" for k
    by (simp_all add: sample_env_def sample_staff_def sample_db_def empty_db_def)
  show "case sendOtp (at_time sample_env 1767225600000) ''05321112233'' sample_staff of (Inl _, _) \<Rightarrow> False
   | (Inr x, s1) \<Rightarrow> sendOtp (at_time sample_env 1767225610000) ''05321112233'' s1 =
      (Inl (BadRequestException ''Lutfen yeni bir SMS kodu istemeden once 60 saniye bekleyiniz.''), s1)"
  proof (cases "sendOtp (at_time sample_env 1767225600000) ''05321112233'' sample_staff")
    case (Pair r s1)
    with ok(1) obtain x where run: "sendOtp (at_time sample_env 1767225600000) ''05321112233'' sample_staff = (Inr x, s1)"
      by (cases r) auto
    from cooldown_reveals_accounts [OF env known(4) empty empty empty run, of 1767225610000] show ?thesis
      using known(1) by (simp add: run)
  qed
  show "case sendOtp (at_time sample_env 1767225600000) ''05321119999'' sample_staff of (Inl _, _) \<Rightarrow> False
   | (Inr x, s1) \<Rightarrow> sendOtp (at_time sample_env 1767225610000) ''05321119999'' s1 = (Inr x, s1)"
  proof (cases "sendOtp (at_time sample_env 1767225600000) ''05321119999'' sample_staff")
    case (Pair r s1)
    with ok(2) obtain x where run: "sendOtp (at_time sample_env 1767225600000) ''05321119999'' sample_staff = (Inr x, s1)"
      by (cases r) auto
    from cooldown_reveals_accounts [OF env known(5) empty empty empty run, of 1767225610000] show ?thesis
      using known(2,3) by (simp add: run)
  qed
qed

section \<open>Accounts\<close>

text \<open>
  C26. An account that was deactivated or removed is out at once and for good: whatever login
  requests follow, its access tokens are refused although they have not expired, its refresh
  tokens give no new ones, and no code logs it in.
\<close>

theorem shut_accounts_stay_out:
  assumes "(\<exists>y. remove_staff t k s = (Inr y, s1)) \<or>
      (\<exists>dto role y. ud_isActive dto = Some False \<and> update_staff (en_ctx env) t k dto role s = (Inr y, s1))"
    and "\<forall>n\<ge>id_supply s. gen_id (en_ctx env) n \<noteq> k"
    and "en_verify env i access = Some c" and "cl_sub c = k" and "s2 = run (handle_auth env) qs s1"
  shows "(case authenticate (at_time env i) access s2 of (Inr _, _) \<Rightarrow> False | (Inl _, s3) \<Rightarrow> s3 = s2) \<and>
    (\<forall>r. find (\<lambda>r. rt_tokenHash r = en_sha256 env tok) (refresh_tokens s2) = Some r \<and> rt_userId r = k \<longrightarrow>
      (case refreshToken (at_time env i) tok s2 of (Inr _, _) \<Rightarrow> False | (Inl _, _) \<Rightarrow> True)) \<and>
    (case verifyOtp (at_time env i) phone code s2 of (Inr x, _) \<Rightarrow> u_id (lg_user x) \<noteq> k | (Inl _, _) \<Rightarrow> True)"
proof -
  have "shut (gen_id (en_ctx env)) k s1"
    using assms(1)
  proof (elim disjE exE conjE)
    show "shut (gen_id (en_ctx env)) k s1" if "remove_staff t k s = (Inr y, s1)" for y
      using wp_ok [OF wp_remove_shut that] assms(2) by simp
    show "shut (gen_id (en_ctx env)) k s1"
      if "ud_isActive dto = Some False" "update_staff (en_ctx env) t k dto role s = (Inr y, s1)" for dto role y
      using wp_ok [OF wp_update_shut that(2)] assms(2) that(1) by simp
  qed
  then have s2: "shut (gen_id (en_ctx env)) k s2"
    unfolding assms(5) by (rule shut_accounts.run_always)
  have "wp (authenticate (at_time env i) access) (\<lambda>_ _. False) (\<lambda>_ s3. s3 = s2) s2"
    by (rule wp_authenticate_shut [OF s2 _ assms(4)]) (simp add: assms(3))
  moreover have "wp (refreshToken (at_time env i) tok) (\<lambda>_ _. False) (\<lambda>_ _. True) s2"
    if "find (\<lambda>r. rt_tokenHash r = en_sha256 env tok) (refresh_tokens s2) = Some r" "rt_userId r = k" for r
    by (rule wp_refresh_shut [OF s2 _ that(2)]) (simp add: that(1))
  moreover note wp_verifyOtp_shut [OF s2, of "at_time env i" phone code]
  ultimately show ?thesis
    by (auto simp: wp_def split: prod.splits sum.splits)
qed

theorem shut_accounts_stay_out_witness:
  "case authenticate (at_time sample_env 1767225700000) ''A'' (run (handle_auth sample_env)
       [(1767225650000, Refresh ''R1''), (1767225660000, SendCode ''05321112233'')] (snd (remove_staff ''t1'' ''u1'' sample_staff))) of
     (Inr _, _) \<Rightarrow> False
   | (Inl _, s3) \<Rightarrow> s3 = run (handle_auth sample_env)
       [(1767225650000, Refresh ''R1''), (1767225660000, SendCode ''05321112233'')] (snd (remove_staff ''t1'' ''u1'' sample_staff))"
proof (rule shut_accounts_stay_out [OF _ _ _ _ refl, THEN conjunct1])
  have "\<exists>y. remove_staff ''t1'' ''u1'' sample_staff = (Inr y, snd (remove_staff ''t1'' ''u1'' sample_staff))"
    by (rule runs_through) (simp add: remove_staff_def findOne_staff_def member_row_def mechanic_of_def has_references_def
      delete_user_def delete_user_row_def ignore_def wp_simps sample_staff_def sample_user_def sample_db_def empty_db_def forget_user_def)
  then show "(\<exists>y. remove_staff ''t1'' ''u1'' sample_staff = (Inr y, snd (remove_staff ''t1'' ''u1'' sample_staff))) \<or>
      (\<exists>dto role y. ud_isActive dto = Some False \<and> update_staff (en_ctx sample_env) ''t1'' ''u1'' dto role sample_staff =
        (Inr y, snd (remove_staff ''t1'' ''u1'' sample_staff)))"
    by (rule disjI1)
  show "en_verify sample_env 1767225700000 ''A'' = Some (sample_claims ''access'')"
    by (simp add: sample_env_def)
qed (simp_all add: sample_env_def sample_claims_def sample_ctx_def)

text \<open>
  C27. Only owners deal with owners: over every history of staff requests by service managers and
  other accounts that are not owners, the accounts of the owners stay exactly as they are, and
  nobody becomes an owner, a service manager or an administrator of the platform.
\<close>

theorem managers_cannot_promote:
  assumes "unique_rows u_id (users s)" and "list_all (\<lambda>q. by_role (fst q) \<noteq> OWNER) qs" and "s' = run (handle_staff cx) qs s"
  shows "filter (\<lambda>u. u_role u = OWNER) (users s') = filter (\<lambda>u. u_role u = OWNER) (users s) \<and>
    (\<forall>u \<in> set (users s'). u_role u = SERVICE_MANAGER \<or> u_role u = SUPER_ADMIN \<longrightarrow>
      (\<exists>u0 \<in> set (users s). u_id u0 = u_id u \<and> u_role u0 = u_role u))"
proof -
  let ?ranks = "(\<lambda>u. (u_id u, u_role u)) ` set (users s)"
  have "ranks_kept (filter (\<lambda>u. u_role u = OWNER) (users s)) ?ranks s"
    using assms(1) by (auto simp: ranks_kept_def list_all_iff)
  then have "ranks_kept (filter (\<lambda>u. u_role u = OWNER) (users s)) ?ranks s'"
    unfolding assms(3) by (rule managers.run_inv) (rule admissible_const [OF assms(2)])
  then show ?thesis
    by (fastforce simp: ranks_kept_def list_all_iff)
qed

definition sample_update :: staff_update where
  "sample_update = \<lparr>ud_name = None, ud_surname = None, ud_phone = None, ud_email = None, ud_role = None,
     ud_specialty = None, ud_assignedLift = None, ud_dailyCapacityHours = None, ud_isActive = None,
     ud_annualLeaveDays = None, ud_transferredLeaveDays = None\<rparr>"

definition sample_staff_dto :: staff_dto where
  "sample_staff_dto = \<lparr>sd_name = ''Can'', sd_surname = ''Kaya'', sd_phone = ''0532 111 22 33'', sd_email = None,
     sd_role = TECHNICIAN, sd_specialty = None, sd_assignedLift = Some ''Lift 1'', sd_dailyCapacityHours = None,
     sd_annualLeaveDays = None, sd_transferredLeaveDays = None\<rparr>"

definition sample_leave_dto :: leave_dto where
  "sample_leave_dto = \<lparr>ld_userId = ''u3'', ld_leaveType = ANNUAL, ld_startDate = Some 1767744000000,
     ld_endDate = Some 1767916800000, ld_totalDays = None, ld_reason = None\<rparr>"

definition sample_staff_requests :: "(staff_caller \<times> staff_request) list" where
  "sample_staff_requests =
     map (Pair \<lparr>by_tenant = ''t1'', by_user = ''u2'', by_role = SERVICE_MANAGER\<rparr>)
       [ChangeAccount ''u1'' (sample_update\<lparr>ud_role := Some TECHNICIAN\<rparr>), ChangeAccount ''u3'' (sample_update\<lparr>ud_role := Some OWNER\<rparr>),
        OpenAccount sample_staff_dto, TakeLeave sample_leave_dto, RemoveAccount ''u1'', CancelLeave ''l1'']"

theorem managers_cannot_promote_witness:
  "filter (\<lambda>u. u_role u = OWNER) (users (run (handle_staff sample_ctx) sample_staff_requests sample_staff)) =
     [sample_user ''u1'' ''905321112233'' OWNER]"
proof -
  have "unique_rows u_id (users sample_staff)"
    by (simp add: sample_staff_def sample_user_def unique_rows_def)
  from managers_cannot_promote [OF this _ refl, of sample_staff_requests sample_ctx] show ?thesis
    by (simp add: sample_staff_requests_def) (simp add: sample_staff_def sample_user_def)
qed

text \<open>
  C28. Leaves of an account never overlap: over every history of staff requests two leaves of
  the same account that are not cancelled have no day in common.
\<close>

theorem leaves_never_overlap:
  assumes "leaves_ok s" and "s' = run (handle_staff cx) qs s"
    and "i < j" and "j < length (staff_leaves s')"
    and "a = staff_leaves s' ! i" and "b = staff_leaves s' ! j"
    and "l_tenantId a = l_tenantId b" and "l_userId a = l_userId b"
    and "l_status a \<noteq> L_CANCELLED" and "l_status b \<noteq> L_CANCELLED"
  shows "{l_startDate a .. l_endDate a} \<inter> {l_startDate b .. l_endDate b} = {} \<and> l_startDate a \<le> l_endDate a"
proof -
  have ok: "leaves_ok s'"
    unfolding assms(2) by (rule leave_book.run_always) (rule assms(1))
  then have "leaves_apart a b"
    using assms(3-6) by (auto simp: leaves_ok_def sorted_wrt_iff_nth_less)
  moreover have "l_startDate a \<le> l_endDate a"
    using ok assms(3-5) by (simp add: leaves_ok_def list_all_length)
  ultimately show ?thesis
    using assms(7-10) by (auto simp: leaves_apart_def)
qed

definition sample_leaves :: db where
  "sample_leaves = sample_staff\<lparr>staff_leaves := [sample_leave, sample_leave\<lparr>l_id := ''l2'', l_startDate := 20470, l_endDate := 20471\<rparr>,
     sample_leave\<lparr>l_id := ''l3'', l_startDate := 20472, l_endDate := 20480\<rparr>]\<rparr>"

definition sample_cancel :: "(staff_caller \<times> staff_request) list" where
  "sample_cancel = [(\<lparr>by_tenant = ''t1'', by_user = ''u2'', by_role = SERVICE_MANAGER\<rparr>, CancelLeave ''l1'')]"

theorem leaves_never_overlap_witness:
  "case staff_leaves (run (handle_staff sample_ctx) sample_cancel sample_leaves) of
     [a, b, c] \<Rightarrow> {l_startDate b .. l_endDate b} \<inter> {l_startDate c .. l_endDate c} = {}
   | _ \<Rightarrow> False"
proof -
  let ?s = "run (handle_staff sample_ctx) sample_cancel sample_leaves"
  have leaves: "staff_leaves ?s = [sample_leave\<lparr>l_status := L_CANCELLED\<rparr>,
      sample_leave\<lparr>l_id := ''l2'', l_startDate := 20470, l_endDate := 20471\<rparr>,
      sample_leave\<lparr>l_id := ''l3'', l_startDate := 20472, l_endDate := 20480\<rparr>]"
    by code_simp
  have "leaves_ok sample_leaves"
    by (simp add: leaves_ok_def leaves_apart_def sample_leaves_def sample_leave_def)
  from leaves_never_overlap [OF this refl _ _ refl refl, of 1 2 sample_ctx sample_cancel] show ?thesis
    unfolding leaves by (simp add: sample_leave_def)
qed

text \<open>
  The leave balance of an account, computed in doubles, is exact: the profile, the page of the
  account and the list of the staff, which rounds in another order, show the same numbers, the
  exact sums in tenths of days.
\<close>

theorem leave_balances_are_exact:
  assumes "list_all leave_fits (staff_leaves s)" and "length (staff_leaves s) \<le> 1000"
    and "\<bar>u_annualLeaveDays u + u_transferredLeaveDays u\<bar> \<le> 1000000"
    and "find (\<lambda>x. u_id x = k) (users s) = Some u" and "u_tenantId u = Some t" and "t \<noteq> []"
  shows "(case getProfile env k s of (Inl _, _) \<Rightarrow> True
      | (Inr p, _) \<Rightarrow> pf_leaveBalance p = Some (exact_balance u (filter (approved_annual t k) (staff_leaves s)))) \<and>
    (case findOne_staff t k s of (Inl _, _) \<Rightarrow> False
      | (Inr m, _) \<Rightarrow> mb_leaveBalance m = exact_balance u (filter (approved_annual t k) (staff_leaves s))) \<and>
    (case findAll_staff t s of (Inl _, _) \<Rightarrow> False
      | (Inr ms, _) \<Rightarrow> list_all (\<lambda>m. u_id (mb_user m) = k \<and> mb_user m = u \<longrightarrow>
          mb_leaveBalance m = exact_balance u (filter (approved_annual t k) (staff_leaves s))) ms)"
proof -
  let ?ls = "filter (approved_annual t k) (staff_leaves s)"
  have fits: "list_all leave_fits ?ls"
    using assms(1) by (auto simp: list_all_iff)
  have "length ?ls \<le> length (staff_leaves s)"
    by (rule length_filter_le)
  then have short: "length ?ls \<le> 1000"
    using assms(2) by linarith
  note fits = fits short
  have u: "u_id u = k" "u \<in> set (users s)"
    using find_SomeD [OF assms(4)] by simp_all
  note one = balance_exact [OF fits assms(3)]
  have "find (\<lambda>x. u_id x = k \<and> u_tenantId x = Some t) (users s) = Some u"
    using assms(4,5) by (simp add: find_and)
  then have "wp (findOne_staff t k) (\<lambda>m _. mb_leaveBalance m = exact_balance u ?ls) (\<lambda>_ _. False) s"
    by (simp add: findOne_staff_def member_row_def mechanic_of_def wp_simps one)
  moreover have "wp (getProfile env k) (\<lambda>p _. pf_leaveBalance p = Some (exact_balance u ?ls)) (\<lambda>_ _. True) s"
    using assms(4-6) u(1) by (auto simp: getProfile_def tenant_of_def wp_simps or_null_def truthy_def one Let_def)
  moreover have "wp (findAll_staff t) (\<lambda>ms _. \<forall>m \<in> set ms. mb_user m = u \<longrightarrow> mb_leaveBalance m = exact_balance u ?ls)
      (\<lambda>_ _. False) s"
  proof -
    let ?all = "filter (\<lambda>l. l_tenantId l = t \<and> l_userId l \<in> u_id ` {x \<in> set (users s). u_tenantId x = Some t} \<and>
        l_leaveType l = ANNUAL \<and> l_status l = L_APPROVED) (staff_leaves s)"
    have "filter (\<lambda>l. l_userId l = k) ?all = ?ls"
      using u assms(5) by (auto simp: approved_annual_def intro!: filter_cong)
    then have "used_map ?all (u_id u) = used_days ?ls"
      by (simp add: used_map_days u(1))
    then have "listed_balance (used_map ?all) u = exact_balance u ?ls"
      by (rule listed_exact [OF fits assms(3)])
    then show ?thesis
      by (auto simp: findAll_staff_def wp_simps)
  qed
  ultimately show ?thesis
    by (auto simp: wp_def list_all_iff split: prod.splits sum.splits)
qed

theorem leave_balances_are_exact_witness:
  "case findOne_staff ''t1'' ''u3'' sample_staff of (Inl _, _) \<Rightarrow> False
   | (Inr m, _) \<Rightarrow> mb_leaveBalance m = exact_balance (sample_user ''u3'' ''+905321112255'' TECHNICIAN) [sample_leave]"
proof -
  have leaves: "filter (approved_annual ''t1'' ''u3'') (staff_leaves sample_staff) = [sample_leave]"
    and found: "find (\<lambda>x. u_id x = ''u3'') (users sample_staff) = Some (sample_user ''u3'' ''+905321112255'' TECHNICIAN)"
    and fits: "list_all leave_fits (staff_leaves sample_staff)" "length (staff_leaves sample_staff) \<le> 1000"
    by code_simp+
  show ?thesis
    by (rule leave_balances_are_exact [OF fits _ found, where t = "''t1''", THEN conjunct2, THEN conjunct1, unfolded leaves])
      (simp_all add: sample_user_def)
qed

end
