(* ===== verification/PlatformFacts.thy ===== *)
theory PlatformFacts
  imports AccessFacts
begin

text \<open>
  The properties of the control plane and of the accounts it opens, with their witnesses: the
  store of \<open>AccessFacts\<close> with two administrators of the platform.
\<close>

definition sample_admin :: "uuid \<Rightarrow> string \<Rightarrow> user" where
  "sample_admin k email = (sample_user k (''+90532000'' @ k) SUPER_ADMIN)\<lparr>u_tenantId := None, u_email := Some email,
     u_passwordHash := Some ''hash''\<rparr>"

definition sample_platform :: db where
  "sample_platform = sample_staff\<lparr>users := users sample_staff @ [sample_admin ''0001'' ''a@w.co'', sample_admin ''0002'' ''b@w.co'']\<rparr>"

definition admin_claims :: "uuid \<Rightarrow> claims" where
  "admin_claims k = (sample_claims ''access'')\<lparr>cl_sub := k, cl_role := SUPER_ADMIN, cl_tenantId := None, cl_familyId := None\<rparr>"

definition admin_env :: auth_env where
  "admin_env = sample_env\<lparr>en_verify := (\<lambda>i x. Some (admin_claims x))\<rparr>"

text \<open>
  C29. The platform never loses its last administrator: when no administrator belongs to a workshop
  (\<open>createAdmin\<close> makes none that does), over every history of requests to the control plane, whatever
  tokens come with them and deletions of workshops with their accounts included, at least one
  active administrator remains.
\<close>

theorem platform_keeps_an_admin:
  assumes "\<exists>u \<in> set (users s). u_role u = SUPER_ADMIN \<and> u_isActive u"
    and "\<forall>u \<in> set (users s). u_role u = SUPER_ADMIN \<longrightarrow> u_tenantId u = None"
    and "s' = run (handle_admin env hash) qs s"
  shows "\<exists>u \<in> set (users s'). u_role u = SUPER_ADMIN \<and> u_isActive u"
proof -
  have "admin_present s"
    using assms(1,2) by (simp add: admin_present_def list_ex_iff list_all_iff is_admin_def)
  then have "admin_present s'"
    unfolding assms(3) by (rule administrators.run_always)
  then show ?thesis
    by (simp add: admin_present_def list_ex_iff is_admin_def)
qed

theorem platform_keeps_an_admin_witness:
  "\<exists>u \<in> set (users (run (handle_admin admin_env id)
      [(0, ''0001'', SwitchAdmin ''0001'' False), (0, ''0001'', RemoveAdmin ''0002''), (0, ''0002'', RemoveAdmin ''0001''),
       (0, ''0001'', DropTenant ''t1'')] sample_platform)). u_role u = SUPER_ADMIN \<and> u_isActive u"
  by (rule platform_keeps_an_admin [OF _ _ refl])
    (simp_all add: sample_platform_def sample_staff_def sample_admin_def sample_user_def)

text \<open>A workshop that has signed the contract cannot be deleted: the key from the contract to the account
  that signed it stops the deletion, which the request reports as a failure of the database.\<close>

theorem signed_workshops_cannot_be_deleted:
  assumes "find (\<lambda>x. t_id x = t) (tenants s) = Some x"
    and "c \<in> set (tenant_consents s)" and "u \<in> set (users s)" and "u_id u = tc_signedByUserId c" and "u_tenantId u = Some t"
  shows "deleteTenant t s = (Inl (DbError (ForeignKeyViolation ''tenant_consents_signed_by_user_id_fkey'')), s)"
  by (rule signed_tenant_stays [OF assms])

text \<open>
  C30. A suspended workshop is closed at once: whatever login requests follow the suspension, no
  token of the workshop is accepted.
\<close>

theorem suspended_workshops_are_closed:
  assumes "updateTenantStatus t False s = (Inr y, s1)" and "\<forall>n\<ge>id_supply s. gen_id (en_ctx env) n \<noteq> t"
    and "en_verify env i access = Some c" and "cl_tenantId c = Some t" and "t \<noteq> []"
    and "s2 = run (handle_auth env) qs s1"
  shows "case authenticate (at_time env i) access s2 of (Inr _, _) \<Rightarrow> False | (Inl _, s3) \<Rightarrow> s3 = s2"
proof -
  have "closed_shop (gen_id (en_ctx env)) t s1"
    using wp_ok [OF wp_suspend assms(1)] assms(2) by simp
  then have "closed_shop (gen_id (en_ctx env)) t s2"
    unfolding assms(6) by (rule closed_shops.run_always)
  from wp_authenticate_closed [OF this _ assms(4,5), of "at_time env i" access] show ?thesis
    using assms(3) by (auto simp: wp_def split: prod.splits sum.splits)
qed

theorem suspended_workshops_are_closed_witness:
  "case authenticate (at_time sample_env 1767225700000) ''A'' (run (handle_auth sample_env)
      [(1767225650000, Refresh ''R1''), (1767225660000, SendCode ''05321112233'')] (snd (updateTenantStatus ''t1'' False sample_staff))) of
     (Inr _, _) \<Rightarrow> False
   | (Inl _, s3) \<Rightarrow> s3 = run (handle_auth sample_env)
      [(1767225650000, Refresh ''R1''), (1767225660000, SendCode ''05321112233'')] (snd (updateTenantStatus ''t1'' False sample_staff))"
proof -
  have "returns (updateTenantStatus ''t1'' False) sample_staff"
    by code_simp
  then obtain y s1 where run: "updateTenantStatus ''t1'' False sample_staff = (Inr y, s1)"
    by (rule returnsE)
  show ?thesis
    unfolding run snd_conv
    by (rule suspended_workshops_are_closed [OF run _ _ _ _ refl, of sample_env _ _ "sample_claims ''access''"])
      (simp_all add: sample_env_def sample_claims_def sample_ctx_def)
qed

text \<open>
  C31. A new workshop gets the first free address: when the identifiers drawn are new, \<open>createTenant\<close>
  refuses the owner's number as a bad request and changes nothing exactly when an account has it,
  and otherwise adds the workshop and its owner, whose slug is the base slug when no workshop has
  it, or else the base slug with the least number from 1 that no workshop has.
\<close>

theorem new_workshops_get_a_free_slug:
  assumes "gen_id cx (id_supply s) \<notin> t_id ` set (tenants s)"
    and "gen_id cx (id_supply s + 1) \<notin> br_id ` set (branches s)"
    and "gen_id cx (id_supply s) \<notin> br_tenantId ` set (branches s)"
    and "gen_id cx (id_supply s + 2) \<notin> u_id ` set (users s)"
    and "base = base_slug (now cx) (td_title dto)" and "taken = t_slug ` set (tenants s)"
  shows "case createTenant cx dto s of
     (Inl e, s') \<Rightarrow> tenant_phone (td_phone dto) \<in> u_phone ` set (users s) \<and> (\<exists>m. e = BadRequestException m) \<and> s' = s
   | (Inr (t, owner), s') \<Rightarrow> tenant_phone (td_phone dto) \<notin> u_phone ` set (users s) \<and>
       tenants s' = tenants s @ [t] \<and> users s' = users s @ [owner] \<and> t_slug t \<notin> taken \<and>
       (if base \<notin> taken then t_slug t = base
        else \<exists>k\<ge>1. t_slug t = base @ ''-'' @ nat_str k \<and> (\<forall>j\<in>{1..<k}. base @ ''-'' @ nat_str j \<in> taken))"
proof (cases "tenant_phone (td_phone dto) \<in> u_phone ` set (users s)")
  case True
  then have "find (\<lambda>u. u_phone u = tenant_phone (td_phone dto)) (users s) \<noteq> None"
    by (auto simp: find_None_iff)
  then have "\<exists>m. createTenant cx dto s = (Inl (BadRequestException m), s)"
    by (intro exI fails_with) (auto simp: createTenant_def wp_simps Let_def)
  with True show ?thesis by auto
next
  case False
  define slug where "slug = free_slug (map t_slug (tenants s)) base base 1"
  have free: "slug \<notin> taken"
    using free_slug_free [of "map t_slug (tenants s)" base base 1] by (simp add: assms(6) slug_def)
  have first: "if base \<notin> taken then slug = base
      else \<exists>k\<ge>1. slug = base @ ''-'' @ nat_str k \<and> (\<forall>j\<in>{1..<k}. base @ ''-'' @ nat_str j \<in> taken)"
    using free_slug_first [of base "map t_slug (tenants s)" 1 base] free_slug_base [of base "map t_slug (tenants s)" base 1]
    by (simp add: assms(6) slug_def)
  show ?thesis
  proof (cases "createTenant cx dto s")
    case (Pair r s')
    with wp_createTenant [OF False assms(1-4), folded assms(5), folded slug_def] obtain x
      where r: "r = Inr x" and x: "tenants s' = tenants s @ [fst x]" "users s' = users s @ [snd x]" "t_slug (fst x) = slug"
      by (auto simp: wp_def split: sum.splits)
    show ?thesis
      unfolding Pair r by (cases x) (use x free first False in \<open>auto split: if_splits\<close>)
  qed
qed

definition sample_tenant_dto :: tenant_dto where
  "sample_tenant_dto = \<lparr>td_title = ''  OTO  '', td_ownerName = ''Eda'', td_ownerSurname = ''Ak'', td_phone = ''+90 532 111 99 99'',
     td_email = ''Eda@X.co'', td_isActive = None\<rparr>"

theorem new_workshops_get_a_free_slug_witness:
  "case createTenant sample_ctx sample_tenant_dto sample_staff of
     (Inl _, _) \<Rightarrow> False | (Inr (t, owner), s') \<Rightarrow> t_slug t = ''oto-1''"
proof -
  let ?taken = "t_slug ` set (tenants sample_staff)"
  have phone: "tenant_phone (td_phone sample_tenant_dto) = ''+905321119999''"
    by (simp add: sample_tenant_dto_def tenant_phone_def starts_with_def)
  have base: "base_slug (now sample_ctx) (td_title sample_tenant_dto) = ''oto''"
    by code_simp
  have taken: "?taken = {''oto''}"
    by (simp add: sample_staff_def sample_db_def)
  have "case createTenant sample_ctx sample_tenant_dto sample_staff of
     (Inl e, s') \<Rightarrow> tenant_phone (td_phone sample_tenant_dto) \<in> u_phone ` set (users sample_staff) \<and>
       (\<exists>m. e = BadRequestException m) \<and> s' = sample_staff
   | (Inr (t, owner), s') \<Rightarrow> tenant_phone (td_phone sample_tenant_dto) \<notin> u_phone ` set (users sample_staff) \<and>
       tenants s' = tenants sample_staff @ [t] \<and> users s' = users sample_staff @ [owner] \<and> t_slug t \<notin> {''oto''} \<and>
       (if ''oto'' \<notin> {''oto''} then t_slug t = ''oto''
        else \<exists>k\<ge>1. t_slug t = ''oto'' @ ''-'' @ nat_str k \<and> (\<forall>j\<in>{1..<k}. ''oto'' @ ''-'' @ nat_str j \<in> {''oto''}))"
    by (rule new_workshops_get_a_free_slug [OF _ _ _ _ base [symmetric] taken [symmetric]])
      (auto simp: sample_ctx_def sample_staff_def sample_db_def empty_db_def sample_user_def nat_str.simps)
  moreover have "(\<exists>k\<ge>1. x = ''oto'' @ ''-'' @ nat_str k \<and> (\<forall>j\<in>{1..<k}. ''oto'' @ ''-'' @ nat_str j \<in> {''oto''})) \<longleftrightarrow>
      x = ''oto-1''" for x
  proof -
    have "k = 1" if "1 \<le> k" "\<forall>j\<in>{1..<k}. ''oto'' @ ''-'' @ nat_str j \<in> {''oto''}" for k
      using that by (cases "k = 1") auto
    moreover have "''oto'' @ ''-'' @ nat_str 1 = ''oto-1''"
      by code_simp
    ultimately show ?thesis by fastforce
  qed
  moreover have "tenant_phone (td_phone sample_tenant_dto) \<notin> u_phone ` set (users sample_staff)"
    unfolding phone by (simp add: sample_staff_def sample_db_def sample_user_def)
  ultimately show ?thesis
    by (simp split: prod.splits sum.splits) blast
qed

text \<open>
  A mobile number typed in any of the three usual ways is stored by the staff and the
  administrator forms in a spelling the login finds. The form that opens a workshop keeps the
  leading zero: an owner whose number was typed with it is stored under a number the login never
  looks for.
\<close>

theorem stored_numbers_are_found:
  assumes "mobile d phone"
  shows "staff_normalizePhone phone \<in> set (spellings (normalizePhone phone)) \<and>
    admin_phone phone \<in> set (spellings (normalizePhone phone)) \<and>
    normalizePhone phone \<in> set (spellings (normalizePhone phone)) \<and>
    (tenant_phone phone \<in> set (spellings (normalizePhone phone)) \<longleftrightarrow> typed_digits phone \<noteq> ''05'' @ d)"
proof -
  have "length d = 9"
    using assms by (simp add: mobile_def)
  from mobile_spellings [OF this] show ?thesis
    by (simp add: mobile_normal [OF assms] mobile_stored [OF assms])
qed

theorem stored_numbers_are_found_witness:
  "tenant_phone ''0 (532) 111-22-33'' \<notin> set (spellings (normalizePhone ''0 (532) 111-22-33'')) \<and>
   staff_normalizePhone ''+90 532 111 22 33'' \<in> set (spellings (normalizePhone ''+90 532 111 22 33''))"
proof -
  have "mobile ''321112233'' ''0 (532) 111-22-33''" "mobile ''321112233'' ''+90 532 111 22 33''"
    and "typed_digits ''0 (532) 111-22-33'' = ''05321112233''"
    by (simp_all add: mobile_def typed_digits_def)
  then show ?thesis
    using stored_numbers_are_found [of "''321112233''"] by auto
qed

text \<open>
  The e-mail address is optional in the request to register a workshop, but the table
  requires one: a registration without it always fails, and changes nothing.
\<close>

theorem registration_needs_an_email:
  assumes "rd_email dto = None"
  shows "registerTenant env dto s = (Inl (if rd_slug dto \<in> t_slug ` set (tenants s)
     then ConflictException ''Bu servis URL kodu (slug) zaten kullanimda.'' else DbError (MissingArgument ''email'')), s)"
proof (rule fails_with)
  have "(find (\<lambda>t. t_slug t = rd_slug dto) (tenants s) = None) = (rd_slug dto \<notin> t_slug ` set (tenants s))"
    by (auto simp: find_None_iff image_iff)
  then show "wp (registerTenant env dto) (\<lambda>_ _. False) (\<lambda>x s'. x = (if rd_slug dto \<in> t_slug ` set (tenants s)
     then ConflictException ''Bu servis URL kodu (slug) zaten kullanimda.'' else DbError (MissingArgument ''email'')) \<and> s' = s) s"
    using assms by (simp add: registerTenant_def register_rows_def wp_simps)
qed

theorem registration_needs_an_email_witness:
  "fst (registerTenant sample_env \<lparr>rd_tenantTitle = ''X'', rd_slug = ''x'', rd_phone = ''05321119999'', rd_firstName = ''A'',
      rd_lastName = ''B'', rd_email = None\<rparr> sample_staff) = Inl (DbError (MissingArgument ''email''))"
  by (subst registration_needs_an_email) (simp_all add: sample_staff_def sample_db_def)

end
