(* ===== verification/RequestFacts.thy ===== *)
theory RequestFacts
  imports AccessFacts
begin

text \<open>
  The property of the idempotency interceptor over histories of the books, with its witness: a
  payment of the sample customer whose request comes twice.
\<close>

text \<open>
  C32. A payment whose request is repeated is collected once: when the request with a new key was
  answered, then for 24 hours, whatever requests on the books come in between, the same request
  gets the same answer and changes nothing, and another request with the key is refused.
\<close>

theorem retried_requests_run_once:
  assumes "en_redisUp env" and "json_ok ie" and "request_key req = Some key" and "payload_hash ie req \<noteq> []"
    and "\<not> entry_live t0 (redis s key)"
    and "intercept (at_time env t0) ie req handler s = (Inr body, s1)"
    and "s2 = run (handle_ledger cx pt url) qs s1" and "t1 < t0 + 86400000"
    and "request_key req' = Some key"
  shows "intercept (at_time env t1) ie req' handler' s2 =
    (if payload_hash ie req' = payload_hash ie req then Inr body else Inl (ConflictException ''Idempotency Payload Mismatch''), s2)"
proof -
  have "answered ie key (payload_hash ie req) body (t0 + 86400000) s1"
    using wp_ok [OF wp_first_run assms(6)] assms(1,3,5) by simp
  then have "answered ie key (payload_hash ie req) body (t0 + 86400000) s2"
    unfolding assms(7) by (rule stored_answers.run_always)
  from replay_answered [OF assms(9) _ assms(2) this, of "at_time env t1" handler'] show ?thesis
    using assms(1,4,8) by auto
qed

definition sample_http :: http_request where
  "sample_http = \<lparr>hq_method = ''POST'', hq_url = ''/api/v1/payments'', hq_body = ''50'', hq_key = Some ''k1'',
     hq_tenant = Some ''t1'', hq_user = Some ''u1''\<rparr>"

definition sample_collect :: "string dbM" where
  "sample_collect = bindM (createPayment (sample_ctx\<lparr>year := 6\<rparr>) ''t1'' sample_payment ''Kasa'' None) (\<lambda>p. ret (pay_id p))"

text \<open>A codec that writes the length of the digest in front.\<close>

definition table_idem :: idem_env where
  "table_idem = \<lparr>ie_hash = (\<lambda>a b c. ''H'' @ c), ie_encode = (\<lambda>h b. ''{'' @ nat_str (length h) @ '':'' @ h @ b),
     ie_decode = (\<lambda>v. if take 1 v = ''{''
       then let rest = tl v; n = digits_value (takeWhile (\<lambda>c. c \<noteq> CHR '':'') rest); text = tl (dropWhile (\<lambda>c. c \<noteq> CHR '':'') rest)
         in Some (take n text, drop n text)
       else None)\<rparr>"

lemma table_json: "json_ok table_idem"
proof -
  have digits: "CHR '':'' \<notin> set (nat_str n)" for n
    using nat_str_digits [of n] by (auto simp: list_all_iff decimal_digit_def)
  have "takeWhile (\<lambda>c. c \<noteq> CHR '':'') (ds @ CHR '':'' # xs) = ds"
    "dropWhile (\<lambda>c. c \<noteq> CHR '':'') (ds @ CHR '':'' # xs) = CHR '':'' # xs" if "CHR '':'' \<notin> set ds" for ds xs
    using that by (induction ds) auto
  note this [OF digits]
  then show ?thesis
    by (simp add: json_ok_def table_idem_def Let_def digits_value_nat_str)
qed

theorem retried_requests_run_once_witness:
  "case intercept (at_time sample_env 1767225600000) table_idem sample_http sample_collect sample_db of (Inl _, _) \<Rightarrow> False
   | (Inr body, s1) \<Rightarrow>
      intercept (at_time sample_env 1767225700000) table_idem sample_http sample_collect
        (run (handle_ledger sample_ctx sample_paytr ''u'') sample_ledger_requests s1) =
      (Inr body, run (handle_ledger sample_ctx sample_paytr ''u'') sample_ledger_requests s1)"
proof -
  have "returns (intercept (at_time sample_env 1767225600000) table_idem sample_http sample_collect) sample_db"
    by code_simp
  then obtain body s1 where run: "intercept (at_time sample_env 1767225600000) table_idem sample_http sample_collect sample_db = (Inr body, s1)"
    by (rule returnsE)
  have key: "request_key sample_http = Some ''idempotency:t1:u1:k1''" "payload_hash table_idem sample_http \<noteq> []"
    and up: "en_redisUp sample_env" and new: "\<not> entry_live 1767225600000 (redis sample_db ''idempotency:t1:u1:k1'')"
    by code_simp+
  let ?s2 = "run (handle_ledger sample_ctx sample_paytr ''u'') sample_ledger_requests s1"
  have "intercept (at_time sample_env 1767225700000) table_idem sample_http sample_collect ?s2 =
      (if payload_hash table_idem sample_http = payload_hash table_idem sample_http then Inr body
       else Inl (ConflictException ''Idempotency Payload Mismatch''), ?s2)"
    by (rule retried_requests_run_once [OF up table_json key new run refl _ key(1)]) simp
  then show ?thesis
    by (simp add: run)
qed

end
