(* ===== verification/CustomerFacts.thy ===== *)
theory CustomerFacts
  imports Samples
begin

text \<open>
  The properties of customers and vehicles, with the concrete requests of their witnesses.
\<close>

section \<open>Concrete requests\<close>

definition sample_car :: vehicle_input where
  "sample_car = \<lparr>vi_customerId = ''c1'', vi_plate = ''34 abc 12'', vi_brand = ''Ford'', vi_model = ''Focus'', vi_year = 2015,
     vi_vin = None, vi_engineNo = None, vi_color = None, vi_fuelType = None, vi_transmission = None, vi_currentKm = Some 500,
     vi_transferIfExists = False\<rparr>"

definition sample_vehicle_requests :: "(ctx \<times> uuid \<times> vehicle_request) list" where
  "sample_vehicle_requests =
     [(sample_ctx, ''t1'', OpenVehicle sample_car), (sample_ctx, ''t1'', HandVehicleOver ''v1'' ''c1''),
      (sample_ctx, ''t1'', DropVehicle ''v1''), (sample_ctx, ''t1'', ListVehicles None None)]"

definition sample_lead :: quick_lead where
  "sample_lead = \<lparr>ql_firstName = ''Veli'', ql_lastName = None, ql_phone = ''0532 765 43 21'', ql_plate = ''34 xy 99'',
     ql_brand = None, ql_model = None, ql_year = Some 95\<rparr>"

definition sample_input :: customer_input where
  "sample_input = \<lparr>ci_type = None, ci_firstName = ''Ayse'', ci_lastName = ''Kaya'', ci_companyTitle = None,
     ci_phone = ''(0532) 123-45-67'', ci_email = None, ci_taxNumber = None, ci_taxOffice = None, ci_address = None,
     ci_city = None, ci_district = None, ci_creditLimit = None, ci_notes = None, ci_isLead = None\<rparr>"

definition sample_customer_requests :: "(ctx \<times> uuid \<times> customer_request) list" where
  "sample_customer_requests =
     [(sample_ctx, ''t1'', OpenCustomer sample_input), (sample_ctx, ''t1'', TakeLead sample_lead),
      (sample_ctx, ''t1'', ArchiveCustomer ''c1''), (sample_ctx, ''t1'', ForgetCustomer ''c1'' ''u1'' ''KVKK''),
      (sample_ctx, ''t1'', AskConsent ''c1''), (sample_ctx, ''t1'', ImportRows True [])]"

definition sample_idle :: db where
  "sample_idle = sample_db\<lparr>work_orders := [], work_order_items := []\<rparr>"

section \<open>Vehicles\<close>

text \<open>
  C18. Vehicles written by the vehicle module read back: requests of the years up to \<open>Y\<close> keep every
  row within the rules of the vehicle entity, so listing the vehicles of a workshop returns all of
  its active vehicles in that year and in every later one.
\<close>

theorem vehicles_stay_readable:
  assumes "list_all (asked_by Y) qs" and "fleet_ok Y s" and "Y \<le> year cx"
  shows "let s1 = run handle_vehicle qs s in
    list_all (\<lambda>v. 1950 \<le> v_year v \<and> v_year v \<le> int Y + 1 \<and> 0 \<le> v_currentKm v \<and> vin_ok (v_vin v)) (vehicles s1) \<and>
    (case findAll_Vehicle cx t None None s1 of (Inl _, _) \<Rightarrow> False
     | (Inr es, s2) \<Rightarrow> s2 = s1 \<and> map ve_id es = map (\<lambda>v. Some (v_id v))
         (filter (\<lambda>v. v_tenantId v = t \<and> v_deletedAt v = None \<and> owner_active s1 v) (rev (vehicles s1))))"
proof -
  let ?s1 = "run handle_vehicle qs s"
  have fleet: "fleet_ok Y ?s1"
    by (rule fleet.run_inv [OF assms(2) admissible_const [OF assms(1)]])
  have "list_all (vehicle_fits (year cx)) (filter P (rev (vehicles ?s1)))" for P
    using fleet assms(3) by (auto simp: list_all_iff intro: fits_later)
  from wp_mapToVehicles [OF this] have "wp (findAll_Vehicle cx t None None) (\<lambda>es s2. s2 = ?s1 \<and>
      map ve_id es = map (\<lambda>v. Some (v_id v))
        (filter (\<lambda>v. v_tenantId v = t \<and> v_deletedAt v = None \<and> owner_active ?s1 v) (rev (vehicles ?s1)))) (\<lambda>_ _. False) ?s1"
    by (simp add: findAll_Vehicle_def wp_simps vehicle_matches_def or_null_def)
  with fleet show ?thesis
    by (auto simp: Let_def wp_def vehicle_fits_def [abs_def] split: prod.splits sum.splits)
qed

theorem vehicles_stay_readable_witness:
  "let s1 = run handle_vehicle sample_vehicle_requests sample_db in
    list_all (\<lambda>v. 1950 \<le> v_year v \<and> v_year v \<le> int 2026 + 1 \<and> 0 \<le> v_currentKm v \<and> vin_ok (v_vin v)) (vehicles s1) \<and>
    (case findAll_Vehicle (sample_ctx\<lparr>year := 2030\<rparr>) ''t1'' None None s1 of (Inl _, _) \<Rightarrow> False
     | (Inr es, s2) \<Rightarrow> s2 = s1 \<and> map ve_id es = map (\<lambda>v. Some (v_id v))
         (filter (\<lambda>v. v_tenantId v = ''t1'' \<and> v_deletedAt v = None \<and> owner_active s1 v) (rev (vehicles s1))))"
  by (rule vehicles_stay_readable)
    (simp_all add: sample_vehicle_requests_def asked_by_def sample_ctx_def vehicle_fits_def sample_defs)

text \<open>A lead with an impossible year puts such a vehicle into the fleet.\<close>

lemma lead_poisons:
  assumes unique: "unique_rows v_id (vehicles s)" and y: "ql_year dto = Some y" "y \<noteq> 0" "y < 1950"
    and plate: "list_all (\<lambda>v. v_plate v \<noteq> filter (\<lambda>c. \<not> is_space c) (to_upper (ql_plate dto))) (vehicles s)"
  shows "wp (quickLead cx t dto) (\<lambda>r. poisoned t (v_id (snd r))) (\<lambda>_ _. True) s"
proof -
  have idem: "filter (\<lambda>c. \<not> is_space c) (to_upper (filter (\<lambda>c. \<not> is_space c) (to_upper p))) =
      filter (\<lambda>c. \<not> is_space c) (to_upper p)" for p
    using upper_chars by (simp add: to_upper_map filter_map comp_def)
  have none: "find (\<lambda>v. v_tenantId v = t \<and> v_plate v = filter (\<lambda>c. \<not> is_space c) (to_upper (ql_plate dto)) \<and> v_deletedAt v = None)
      (vehicles s) = None"
    using plate by (auto simp: find_None_iff list_all_iff)
  show ?thesis
    using unique y find_SomeD [of "has_phone t (clean_phone (ql_phone dto))" "customers s"]
    by (auto simp: quickLead_def quickLead_rows_def Let_def idem add_customer_def new_account_def ignore_def wp_simps wp_funs none
      insert_vehicle_def plate_index_def poisoned_def owner_active_def or_year_def lead_row_def has_phone_def unique_rows_def
      list_ex_iff split: option.split)
qed

text \<open>
  The quick lead form writes vehicle rows without asking the vehicle entity. One lead with a year
  before 1950 (say 95 for 1995) and an unknown plate makes the vehicle list of its workshop fail from
  then on, whatever vehicle requests follow: the bad row can neither be read, changed nor deleted.
\<close>

theorem one_bad_year_blocks_the_list:
  assumes "quickLead cx t dto s = (Inr r, s1)" and "ql_year dto = Some y" and "y \<noteq> 0" and "y < 1950"
    and "list_all (\<lambda>v. v_plate v \<noteq> filter (\<lambda>c. \<not> is_space c) (to_upper (ql_plate dto))) (vehicles s)"
    and "unique_rows v_id (vehicles s)"
  shows "case findAll_Vehicle cx' t None None (run handle_vehicle qs s1) of (Inl (DomainError m), s2) \<Rightarrow> True | _ \<Rightarrow> False"
proof -
  have "poisoned t (v_id (snd r)) s1"
    using wp_ok [OF lead_poisons [OF assms(6,2,3,4,5)] assms(1)] by simp
  from poisoned_lists_nothing [OF poisoned_fleet.run_always [OF this, of qs], of cx'] show ?thesis
    by (auto simp: wp_def split: prod.splits sum.splits)
qed

theorem one_bad_year_blocks_the_list_witness:
  "case quickLead sample_ctx ''t1'' sample_lead sample_db of (Inl _, _) \<Rightarrow> False
   | (Inr r, s1) \<Rightarrow> (case findAll_Vehicle sample_ctx ''t1'' None None (run handle_vehicle sample_vehicle_requests s1) of
       (Inl (DomainError m), s2) \<Rightarrow> True | _ \<Rightarrow> False)"
proof -
  have "wp (quickLead sample_ctx ''t1'' sample_lead) (\<lambda>_ _. True) (\<lambda>_ _. False) sample_db"
    by code_simp
  then obtain r s1 where "quickLead sample_ctx ''t1'' sample_lead sample_db = (Inr r, s1)"
    by (auto simp: wp_def split: prod.splits sum.splits)
  moreover have "list_all (\<lambda>v. v_plate v \<noteq> filter (\<lambda>c. \<not> is_space c) (to_upper (ql_plate sample_lead))) (vehicles sample_db)"
    by code_simp
  ultimately show ?thesis
    using one_bad_year_blocks_the_list [where cx' = sample_ctx and qs = sample_vehicle_requests]
    by (simp add: sample_lead_def sample_defs unique_rows_def)
qed

section \<open>Customers\<close>

lemma one_row:
  assumes "distinct (map f xs)" and "\<And>a b. a \<in> set xs \<Longrightarrow> b \<in> set xs \<Longrightarrow> f a = f b"
  shows "length xs \<le> 1"
proof (cases xs rule: remdups_adj.cases)
  case (3 x y zs)
  with assms(1) assms(2) [of x y] show ?thesis by simp
qed simp_all

text \<open>
  C19. Active customers of a workshop have different phone numbers: opening, changing, archiving,
  anonymising and importing customers, quick leads and consents keep it, as long as imported rows
  carry a number and nobody is restored from the archive.
\<close>

theorem active_phones_are_unique:
  assumes "list_all numbered qs" and "phones_ok s"
  shows "length (filter (has_phone t p) (customers (run handle_customer qs s))) \<le> 1"
proof -
  let ?rows = "filter (has_phone t p) (customers (run handle_customer qs s))"
  have ok: "phones_ok (run handle_customer qs s)"
    by (rule phone_book.run_inv [OF assms(2) admissible_const [OF assms(1)]])
  have same: "c_id a = c_id b" if "a \<in> set ?rows" "b \<in> set ?rows" for a b
    using that ok by (auto simp: phones_ok_def rivals_def has_phone_def)
  have "distinct (map c_id ?rows)"
    using ok by (simp add: phones_ok_def unique_rows_def distinct_map_filter)
  from one_row [OF this same] show ?thesis .
qed

theorem active_phones_are_unique_witness:
  "length (filter (has_phone ''t1'' ''05321234567'') (customers (run handle_customer sample_customer_requests sample_db))) \<le> 1"
  by (rule active_phones_are_unique)
    (simp_all add: sample_customer_requests_def phones_ok_def rivals_def sample_defs unique_rows_def)

text \<open>
  C17. Who owes money is not erased: while the account of a customer has a balance to be paid, no
  sequence of customer requests archives or anonymises the customer, and a request to be forgotten is
  refused with a message and without any change.
\<close>

theorem debtors_are_not_erased:
  assumes "debtor t k s"
  shows "let s1 = run handle_customer qs s in
    list_ex (\<lambda>c. c_id c = k \<and> c_tenantId c = t \<and> c_deletedAt c = None \<and> \<not> c_isAnonymized c) (customers s1) \<and>
    (case anonymizeCustomer cx t k u ref s1 of (Inl (BadRequestException m), s2) \<Rightarrow> s2 = s1 | _ \<Rightarrow> False) \<and>
    (case softDelete cx t k s1 of (Inl (BadRequestException m), s2) \<Rightarrow> s2 = s1 | _ \<Rightarrow> False)"
proof -
  let ?s1 = "run handle_customer qs s"
  have debtor: "debtor t k ?s1"
    by (rule debtors.run_always [OF assms])
  then obtain a where a: "find (\<lambda>a. ca_customerId a = k) (current_accounts ?s1) = Some a" "ca_tenantId a = t" "ca_balance a > 0"
    by (auto simp: debtor_def split: option.splits)
  then have own: "find (\<lambda>a. ca_customerId a = k \<and> ca_tenantId a = t) (current_accounts ?s1) = Some a"
    by (simp add: find_and)
  obtain c where c: "find (live_customer t k) (customers ?s1) = Some c"
    using debtor by (cases "find (live_customer t k) (customers ?s1)")
      (auto simp: debtor_def known_customer_def list_ex_iff dest: find_NoneD)
  then have "account_of ?s1 c = Some a"
    using find_SomeD [OF c] a(1) by (simp add: account_of_def live_customer_def)
  with c have "wp (softDelete cx t k) (\<lambda>_ _. False) (\<lambda>e s2. s2 = ?s1 \<and> (\<exists>m. e = BadRequestException m)) ?s1"
    using a(3) by (simp add: softDelete_def softDelete_Customer_def getCustomerById_def findById_Customer_def wp_simps)
  moreover have "wp (anonymizeCustomer cx t k u ref) (\<lambda>_ _. False) (\<lambda>e s2. s2 = ?s1 \<and> (\<exists>m. e = BadRequestException m)) ?s1"
    using c own a(3)
    by (simp add: anonymizeCustomer_def anonymize_Customer_def getCustomerById_def findById_Customer_def wp_simps)
  moreover have "list_ex (\<lambda>c. c_id c = k \<and> c_tenantId c = t \<and> c_deletedAt c = None \<and> \<not> c_isAnonymized c) (customers ?s1)"
    using debtor by (auto simp: debtor_def known_customer_def live_customer_def list_ex_iff)
  ultimately show ?thesis
    by (auto simp: Let_def wp_def split: prod.splits sum.splits)
qed

theorem debtors_are_not_erased_witness:
  "let s1 = run handle_customer sample_customer_requests sample_books in
    list_ex (\<lambda>c. c_id c = ''c1'' \<and> c_tenantId c = ''t1'' \<and> c_deletedAt c = None \<and> \<not> c_isAnonymized c) (customers s1) \<and>
    (case anonymizeCustomer sample_ctx ''t1'' ''c1'' ''u1'' ''KVKK'' s1 of
       (Inl (BadRequestException m), s2) \<Rightarrow> s2 = s1 | _ \<Rightarrow> False) \<and>
    (case softDelete sample_ctx ''t1'' ''c1'' s1 of (Inl (BadRequestException m), s2) \<Rightarrow> s2 = s1 | _ \<Rightarrow> False)"
  by (rule debtors_are_not_erased)
    (simp add: debtor_def known_customer_def live_customer_def sample_books_def sample_defs unique_rows_def)

text \<open>
  C20. Restoring an archived customer undoes the archiving: every table is as before, except that
  vehicles of the customer which had been deleted one by one earlier come back too, and when there was
  none the store is exactly the one before.
\<close>

theorem archive_then_restore:
  assumes "softDelete cx t k s = (Inr e, s1)" and "unique_rows c_id (customers s)"
  shows "case restoreCustomer t k s1 of (Inl _, _) \<Rightarrow> False
   | (Inr e', s2) \<Rightarrow> s2 = s\<lparr>vehicles := map (revived t k) (vehicles s)\<rparr> \<and>
       (list_ex (\<lambda>v. v_customerId v = k \<and> v_deletedAt v \<noteq> None) (vehicles s) \<or> s2 = s)"
proof -
  obtain c where s1: "s1 = archived_db (now cx) t k s" and c: "find (live_customer t k) (customers s) = Some c"
    using wp_ok [OF wp_softDelete assms(1)] by auto
  have "s\<lparr>vehicles := map (revived t k) (vehicles s)\<rparr> = s"
    if "\<not> list_ex (\<lambda>v. v_customerId v = k \<and> v_deletedAt v \<noteq> None) (vehicles s)"
    using that by (intro revived_same) (auto simp: list_ex_iff list_all_iff)
  with wp_restore_archived [OF assms(2) c, of "now cx"] show ?thesis
    by (auto simp: s1 wp_def split: prod.splits sum.splits)
qed

theorem archive_then_restore_witness:
  "case softDelete sample_ctx ''t1'' ''c1'' sample_idle of (Inl _, _) \<Rightarrow> False
   | (Inr e, s1) \<Rightarrow> (case restoreCustomer ''t1'' ''c1'' s1 of (Inl _, _) \<Rightarrow> False
     | (Inr e', s2) \<Rightarrow> s2 = sample_idle\<lparr>vehicles := map (revived ''t1'' ''c1'') (vehicles sample_idle)\<rparr> \<and>
         (list_ex (\<lambda>v. v_customerId v = ''c1'' \<and> v_deletedAt v \<noteq> None) (vehicles sample_idle) \<or> s2 = sample_idle))"
proof -
  have "wp (softDelete sample_ctx ''t1'' ''c1'') (\<lambda>_ _. True) (\<lambda>_ _. False) sample_idle"
    by code_simp
  then obtain e s1 where "softDelete sample_ctx ''t1'' ''c1'' sample_idle = (Inr e, s1)"
    by (auto simp: wp_def split: prod.splits sum.splits)
  moreover have "unique_rows c_id (customers sample_idle)"
    by code_simp
  ultimately show ?thesis
    using archive_then_restore [of sample_ctx "''t1''" "''c1''" sample_idle] by simp
qed

section \<open>The right to be forgotten\<close>

text \<open>
  C21. The redaction log is a chain: after any customer requests every row repeats the link of the row
  before it, starting from the fixed text, and its own link is the base64 text of that link, the
  customer, the user and the instant. A link is an encoding and no digest: it grows by a third with
  every row, so the n-th link has at least 32 times (4/3)^n characters.
\<close>

theorem redaction_log_is_chained:
  assumes "redaction_logs s = []"
  shows "let logs = redaction_logs (run handle_customer qs s) in
    linked genesis logs \<and> 32 * 4 ^ length logs \<le> 3 ^ length logs * length (last_hash logs)"
proof -
  have "chained (run handle_customer qs s)"
    by (rule redactions.run_always) (simp add: chained_def assms)
  from chain_growth [OF this] this show ?thesis
    by (simp add: Let_def chained_def)
qed

theorem redaction_log_is_chained_witness:
  "let logs = redaction_logs (run handle_customer
       [(sample_ctx, ''t1'', ForgetCustomer ''c1'' ''u1'' ''KVKK''), (sample_ctx, ''t1'', TakeLead sample_lead)] sample_db) in
    linked genesis logs \<and> 32 * 4 ^ length logs \<le> 3 ^ length logs * length (last_hash logs)"
  by (rule redaction_log_is_chained) (simp add: sample_db_def empty_db_def)

lemma masking_keeps_subject [simp]:
  "about_customer t k (l\<lparr>al_before := x, al_after := y\<rparr>) = about_customer t k l"
  by (simp add: about_customer_def)

text \<open>
  What being forgotten leaves: names, phone, e-mail, tax data and notes of the customer are
  replaced and the audit rows of the customer masked, but address, city and district stay in the row,
  and so do the vehicles with their plates and every audit row of another entity, among them those of
  the consents, which hold the name of the customer.
\<close>

theorem forgetting_leaves_traces:
  assumes "anonymizeCustomer cx t k u ref s = (Inr e, s1)" and "unique_rows c_id (customers s)"
  shows "case (find (live_customer t k) (customers s), find (\<lambda>c. c_id c = k) (customers s1)) of
     (Some c, Some c') \<Rightarrow> c_firstName c' = ''ANONIM'' \<and> c_phone c' = ''0000000000'' \<and> c_taxNumber c' = None \<and>
       c_isAnonymized c' \<and> c_deletedAt c' = Some (now cx) \<and>
       c_address c' = c_address c \<and> c_city c' = c_city c \<and> c_district c' = c_district c \<and>
       list_all (\<lambda>l. \<not> about_customer t k l \<or> al_before l = masked \<and> al_after l = masked) (customer_audits s1) \<and>
       filter (\<lambda>l. al_entityName l \<noteq> ''Customer'') (customer_audits s1) =
         filter (\<lambda>l. al_entityName l \<noteq> ''Customer'') (customer_audits s) \<and>
       vehicles s1 = vehicles s
   | _ \<Rightarrow> False"
proof -
  let ?mask = "\<lambda>l. if about_customer t k l then l\<lparr>al_before := masked, al_after := masked\<rparr> else l"
  have "wp (anonymizeCustomer cx t k u ref) (\<lambda>_ s1. (\<exists>c. find (live_customer t k) (customers s) = Some c) \<and>
      customers s1 = update_row c_id k (anonymized_row (now cx)) (customers s) \<and>
      customer_audits s1 = map ?mask (customer_audits s) \<and> vehicles s1 = vehicles s) (\<lambda>_ _. True) s"
    by (simp add: anonymizeCustomer_def getCustomerById_def findById_Customer_def anonymize_Customer_def anonymize_rows_def
      ignore_def wp_simps split: option.split)
  from wp_ok [OF this assms(1)] obtain c where c: "find (live_customer t k) (customers s) = Some c"
    and s1: "customers s1 = update_row c_id k (anonymized_row (now cx)) (customers s)"
      "customer_audits s1 = map ?mask (customer_audits s)" "vehicles s1 = vehicles s"
    by auto
  have mem: "c \<in> set (customers s)" "c_id c = k"
    using find_SomeD [OF c] by (simp_all add: live_customer_def)
  have "lookup_row c_id k (customers s) = Some c"
    using lookup_row_unique [OF assms(2) mem(1)] mem(2) by simp
  then have "find (\<lambda>c. c_id c = k) (customers s1) = Some (anonymized_row (now cx) c)"
    using lookup_update_row [of c_id "anonymized_row (now cx)" k k "customers s"]
    by (simp add: s1 lookup_row_def anonymized_row_def)
  moreover have "filter (\<lambda>l. al_entityName l \<noteq> ''Customer'') (map ?mask ls) = filter (\<lambda>l. al_entityName l \<noteq> ''Customer'') ls" for ls
    by (induction ls) (auto simp: about_customer_def [of t k])
  moreover have "list_all (\<lambda>l. \<not> about_customer t k l \<or> al_before l = masked \<and> al_after l = masked) (map ?mask (customer_audits s))"
    by (auto simp: list_all_iff)
  ultimately show ?thesis
    using c by (simp only: s1 option.case prod.case) (simp add: anonymized_row_def)
qed

definition sample_traces :: db where
  "sample_traces = sample_idle\<lparr>customer_audits :=
     [\<lparr>al_id = ''l1'', al_tenantId = ''t1'', al_action = ''customer.consent_sms_sent'', al_entityName = ''Customer'',
        al_entityId = ''c1'', al_before = [], al_after = [''Ahmet Yilmaz'', ''05321234567'', ''tok'']\<rparr>,
      \<lparr>al_id = ''l2'', al_tenantId = ''t1'', al_action = ''customer.kvkk_consent_granted'', al_entityName = ''CustomerConsent'',
        al_entityId = ''k1'', al_before = [], al_after = [''Ahmet Yilmaz'']\<rparr>]\<rparr>"

theorem forgetting_leaves_traces_witness:
  "case anonymizeCustomer sample_ctx ''t1'' ''c1'' ''u1'' ''KVKK'' sample_traces of (Inl _, _) \<Rightarrow> False
   | (Inr e, s1) \<Rightarrow> (case (find (live_customer ''t1'' ''c1'') (customers sample_traces), find (\<lambda>c. c_id c = ''c1'') (customers s1)) of
     (Some c, Some c') \<Rightarrow> c_firstName c' = ''ANONIM'' \<and> c_phone c' = ''0000000000'' \<and> c_taxNumber c' = None \<and>
       c_isAnonymized c' \<and> c_deletedAt c' = Some (now sample_ctx) \<and>
       c_address c' = c_address c \<and> c_city c' = c_city c \<and> c_district c' = c_district c \<and>
       list_all (\<lambda>l. \<not> about_customer ''t1'' ''c1'' l \<or> al_before l = masked \<and> al_after l = masked) (customer_audits s1) \<and>
       filter (\<lambda>l. al_entityName l \<noteq> ''Customer'') (customer_audits s1) =
         filter (\<lambda>l. al_entityName l \<noteq> ''Customer'') (customer_audits sample_traces) \<and>
       vehicles s1 = vehicles sample_traces
   | _ \<Rightarrow> False)"
proof -
  have "wp (anonymizeCustomer sample_ctx ''t1'' ''c1'' ''u1'' ''KVKK'') (\<lambda>_ _. True) (\<lambda>_ _. False) sample_traces"
    by (simp add: anonymizeCustomer_def getCustomerById_def findById_Customer_def anonymize_Customer_def anonymize_rows_def
      ignore_def wp_simps sample_traces_def sample_idle_def sample_defs live_customer_def)
  then obtain e s1 where "anonymizeCustomer sample_ctx ''t1'' ''c1'' ''u1'' ''KVKK'' sample_traces = (Inr e, s1)"
    by (auto simp: wp_def split: prod.splits sum.splits)
  moreover have "unique_rows c_id (customers sample_traces)"
    by code_simp
  ultimately show ?thesis
    using forgetting_leaves_traces [of sample_ctx "''t1''" "''c1''" "''u1''" "''KVKK''" sample_traces] by simp
qed

end
