(* ===== verification/Guards.thy ===== *)
theory Guards
  imports Auth Staff
begin

text \<open>
  What stands before and below every handler: the guards of \<open>app.module.ts\<close> in their order
  (token, contract with the platform, role and permissions), and \<open>PrismaService\<close>, which confines
  every query to the workshop of the caller, above the row level policies of the migrations.
\<close>

section \<open>Permissions (role-permissions.map.ts)\<close>

datatype Permission =
    CUSTOMER_VIEW | CUSTOMER_CREATE | CUSTOMER_UPDATE | CUSTOMER_DELETE
  | VEHICLE_VIEW | VEHICLE_CREATE | VEHICLE_UPDATE | VEHICLE_DELETE
  | APPOINTMENT_VIEW | APPOINTMENT_CREATE | APPOINTMENT_UPDATE | APPOINTMENT_CANCEL | APPOINTMENT_APPROVE
  | WORK_ORDER_VIEW | WORK_ORDER_CREATE | WORK_ORDER_UPDATE | WORK_ORDER_COMPLETE | WORK_ORDER_CANCEL | WORK_ORDER_ROLLBACK
  | INVENTORY_VIEW | INVENTORY_MANAGE
  | INVOICE_VIEW | INVOICE_CREATE | INVOICE_CANCEL
  | PAYMENT_VIEW | PAYMENT_CREATE
  | STAFF_VIEW | STAFF_MANAGE
  | AUDIT_VIEW
  | TENANT_MANAGE

definition all_permissions :: "Permission list" where
  "all_permissions =
     [CUSTOMER_VIEW, CUSTOMER_CREATE, CUSTOMER_UPDATE, CUSTOMER_DELETE,
      VEHICLE_VIEW, VEHICLE_CREATE, VEHICLE_UPDATE, VEHICLE_DELETE,
      APPOINTMENT_VIEW, APPOINTMENT_CREATE, APPOINTMENT_UPDATE, APPOINTMENT_CANCEL, APPOINTMENT_APPROVE,
      WORK_ORDER_VIEW, WORK_ORDER_CREATE, WORK_ORDER_UPDATE, WORK_ORDER_COMPLETE, WORK_ORDER_CANCEL, WORK_ORDER_ROLLBACK,
      INVENTORY_VIEW, INVENTORY_MANAGE, INVOICE_VIEW, INVOICE_CREATE, INVOICE_CANCEL,
      PAYMENT_VIEW, PAYMENT_CREATE, STAFF_VIEW, STAFF_MANAGE, AUDIT_VIEW, TENANT_MANAGE]"

fun role_permissions :: "UserRole \<Rightarrow> Permission list" where
  "role_permissions SUPER_ADMIN = all_permissions"
| "role_permissions OWNER = all_permissions"
| "role_permissions SERVICE_MANAGER =
     [CUSTOMER_VIEW, CUSTOMER_CREATE, CUSTOMER_UPDATE, VEHICLE_VIEW, VEHICLE_CREATE, VEHICLE_UPDATE,
      APPOINTMENT_VIEW, APPOINTMENT_CREATE, APPOINTMENT_UPDATE, APPOINTMENT_CANCEL, APPOINTMENT_APPROVE,
      WORK_ORDER_VIEW, WORK_ORDER_CREATE, WORK_ORDER_UPDATE, WORK_ORDER_COMPLETE, WORK_ORDER_CANCEL, WORK_ORDER_ROLLBACK,
      INVENTORY_VIEW, INVENTORY_MANAGE, INVOICE_VIEW, INVOICE_CREATE, PAYMENT_VIEW, PAYMENT_CREATE, STAFF_VIEW, AUDIT_VIEW]"
| "role_permissions TECHNICIAN =
     [CUSTOMER_VIEW, VEHICLE_VIEW, APPOINTMENT_VIEW, WORK_ORDER_VIEW, WORK_ORDER_UPDATE, WORK_ORDER_COMPLETE, INVENTORY_VIEW]"
| "role_permissions CASHIER =
     [CUSTOMER_VIEW, CUSTOMER_CREATE, VEHICLE_VIEW, VEHICLE_CREATE, APPOINTMENT_VIEW, WORK_ORDER_VIEW,
      INVOICE_VIEW, INVOICE_CREATE, PAYMENT_VIEW, PAYMENT_CREATE]"
| "role_permissions WAREHOUSE_KEEPER = [INVENTORY_VIEW, INVENTORY_MANAGE, WORK_ORDER_VIEW]"

section \<open>The guards of a route\<close>

text \<open>What the decorators of a handler say.\<close>

record route =
  ro_public :: bool
  ro_bypassB2bConsent :: bool
  ro_roles :: "UserRole list"
  ro_permissions :: "Permission list"

definition roles_and_permissions :: "route \<Rightarrow> identity option \<Rightarrow> unit dbM" where
  "roles_and_permissions route who =
     (if ro_roles route = [] \<and> ro_permissions route = [] then ret ()
      else case who of None \<Rightarrow> throw (ForbiddenException ''Kullanici kimligi veya rolu dogrulanamadi.'')
      | Some user \<Rightarrow>
          thenM (whenM (ro_roles route \<noteq> []) (roles_guard (ro_roles route) (id_role user)))
          (ensure (list_all (\<lambda>p. p \<in> set (role_permissions (id_role user))) (ro_permissions route))
             (ForbiddenException ''Bu islem icin gerekli granular yetkiye sahip degilsiniz.'')))"

definition legal_gate :: "route \<Rightarrow> identity option \<Rightarrow> unit dbM" where
  "legal_gate route who =
     (if ro_public route \<or> ro_bypassB2bConsent route then ret ()
      else case who of None \<Rightarrow> ret ()
      | Some user \<Rightarrow> if id_role user = SUPER_ADMIN then ret ()
          else case or_null (id_tenantId user) of None \<Rightarrow> ret ()
          | Some t \<Rightarrow> bindM (find_first tenants (\<lambda>x. t_id x = t)) (\<lambda>tenant.
              ensure (case tenant of None \<Rightarrow> False | Some x \<Rightarrow> t_b2bConsentAccepted x) (ForbiddenException ''LEGAL_CONSENT_REQUIRED'')))"

definition token_guard :: "auth_env \<Rightarrow> route \<Rightarrow> string \<Rightarrow> identity option dbM" where
  "token_guard env route token =
     (if ro_public route then ret None else bindM (authenticate env token) (\<lambda>user. ret (Some user)))"

definition guards :: "auth_env \<Rightarrow> route \<Rightarrow> string \<Rightarrow> identity option dbM" where
  "guards env route token =
     bindM (token_guard env route token) (\<lambda>who.
     thenM (legal_gate route who)
     (thenM (roles_and_permissions route who)
     (ret who)))"

text \<open>A handler behind its guards gets the user of the request.\<close>

definition guarded :: "auth_env \<Rightarrow> route \<Rightarrow> (identity option \<Rightarrow> 'a dbM) \<Rightarrow> string \<Rightarrow> 'a dbM" where
  "guarded env route handler token = bindM (guards env route token) handler"

section \<open>PrismaService\<close>

datatype prisma_call =
    FindUnique | FindUniqueOrThrow | FindFirst | FindFirstOrThrow | FindMany | Count | Aggregate | GroupBy
  | UpdateOne | UpdateMany | DeleteOne | DeleteMany | Upsert | CreateOne | CreateMany

definition filtered_calls :: "prisma_call list" where
  "filtered_calls = [FindUnique, FindUniqueOrThrow, FindFirst, FindFirstOrThrow, FindMany, Count, Aggregate, GroupBy,
     UpdateOne, UpdateMany, DeleteOne, DeleteMany, Upsert]"

text \<open>The \<open>tenantId\<close> of \<open>args.where\<close> and of \<open>args.data\<close>.\<close>

record prisma_args =
  pa_where :: "uuid option"
  pa_data :: "uuid option"

definition foreign_tenant :: "uuid \<Rightarrow> uuid option \<Rightarrow> bool" where
  "foreign_tenant tenantId x \<longleftrightarrow> truthy x \<and> x \<noteq> Some tenantId"

definition scoped_args :: "uuid \<Rightarrow> prisma_call \<Rightarrow> prisma_args \<Rightarrow> exn + prisma_args" where
  "scoped_args tenantId call args =
     (if call \<in> set filtered_calls \<and> foreign_tenant tenantId (pa_where args)
      then Inl (ForbiddenException ''Cross-tenant access is not allowed.'')
      else if call \<in> {UpdateOne, UpdateMany, Upsert, CreateOne} \<and> foreign_tenant tenantId (pa_data args)
      then Inl (ForbiddenException ''Cross-tenant writes are not allowed.'')
      else Inr (args\<lparr>pa_where := (if call \<in> set filtered_calls then Some tenantId else pa_where args),
        pa_data := (if call = CreateOne then Some tenantId else pa_data args)\<rparr>))"

text \<open>
  A model with its primary key, its table, the column \<open>tenantId\<close> if it has one, and the workshop the row level policy
  of the table compares (of the row itself or of the row it belongs to).
\<close>

record 'r prisma_model =
  mo_id :: "'r \<Rightarrow> uuid"
  mo_rows :: "db \<Rightarrow> 'r list"
  mo_update :: "('r list \<Rightarrow> 'r list) \<Rightarrow> db \<Rightarrow> db"
  mo_tenantId :: "('r \<Rightarrow> uuid option) option"
  mo_setTenantId :: "uuid \<Rightarrow> 'r \<Rightarrow> 'r"
  mo_policy :: "db \<Rightarrow> 'r \<Rightarrow> uuid option"

text \<open>
  A query goes through the delegates of the service, or through the client \<open>tx\<close> that a transaction hands
  to its callback: that one is not wrapped, so only the policies confine it.
\<close>

datatype client = ServiceDelegate | TransactionClient

definition scope :: "'r prisma_model \<Rightarrow> client \<Rightarrow> uuid option \<Rightarrow> prisma_call \<Rightarrow> prisma_args \<Rightarrow> prisma_args dbM" where
  "scope m client tenantId call args =
     (case (client, mo_tenantId m, tenantId) of
        (ServiceDelegate, Some c, Some t) \<Rightarrow> lift_sum (scoped_args t call args)
      | _ \<Rightarrow> ret args)"

text \<open>The policy: the session of a caller without a workshop bypasses it.\<close>

definition row_visible :: "'r prisma_model \<Rightarrow> uuid option \<Rightarrow> db \<Rightarrow> 'r \<Rightarrow> bool" where
  "row_visible m tenantId s r \<longleftrightarrow> tenantId = None \<or> mo_policy m s r = tenantId"

definition in_where :: "'r prisma_model \<Rightarrow> prisma_args \<Rightarrow> 'r \<Rightarrow> bool" where
  "in_where m args r \<longleftrightarrow> (case (mo_tenantId m, pa_where args) of (Some c, Some t) \<Rightarrow> c r = Some t | _ \<Rightarrow> True)"

definition selected :: "'r prisma_model \<Rightarrow> uuid option \<Rightarrow> prisma_args \<Rightarrow> ('r \<Rightarrow> bool) \<Rightarrow> db \<Rightarrow> 'r \<Rightarrow> bool" where
  "selected m tenantId args P s r \<longleftrightarrow> row_visible m tenantId s r \<and> in_where m args r \<and> P r"

definition with_check :: "'r prisma_model \<Rightarrow> uuid option \<Rightarrow> 'r list \<Rightarrow> unit dbM" where
  "with_check m tenantId rows = bindM (reads (\<lambda>s. list_all (row_visible m tenantId s) rows)) (\<lambda>ok.
     ensure ok (DbError RowSecurityViolation))"

definition check_keys :: "'r prisma_model \<Rightarrow> 'r list \<Rightarrow> unit dbM" where
  "check_keys m rows = ensure (distinct (map (mo_id m) rows)) (DbError (UniqueViolation ''pkey''))"

text \<open>One row or all rows, in the order of the table.\<close>

definition one_of :: "bool \<Rightarrow> 'r list \<Rightarrow> 'r list" where
  "one_of single rows = (if single then take 1 rows else rows)"

text \<open>What the client asks for: the rest of \<open>where\<close>, the change and the new rows of \<open>data\<close>.\<close>

datatype 'r prisma_request =
    PrismaRead prisma_args "'r \<Rightarrow> bool"
  | PrismaUpdate prisma_args "'r \<Rightarrow> bool" "'r \<Rightarrow> 'r"
  | PrismaDelete prisma_args "'r \<Rightarrow> bool"
  | PrismaUpsert prisma_args "'r \<Rightarrow> bool" "'r \<Rightarrow> 'r" 'r
  | PrismaCreate prisma_args 'r
  | PrismaCreateMany "'r list"

definition insert_rows :: "'r prisma_model \<Rightarrow> uuid option \<Rightarrow> 'r list \<Rightarrow> 'r list dbM" where
  "insert_rows m tenantId new =
     thenM (with_check m tenantId new)
     (bindM (reads (mo_rows m)) (\<lambda>rows.
     thenM (check_keys m (rows @ new))
     (thenM (modifyM (mo_update m (\<lambda>rows. rows @ new)))
     (ret new))))"

definition change_rows :: "'r prisma_model \<Rightarrow> uuid option \<Rightarrow> ('r \<Rightarrow> bool) \<Rightarrow> ('r \<Rightarrow> 'r) \<Rightarrow> 'r list dbM" where
  "change_rows m tenantId P f =
     bindM (reads (mo_rows m)) (\<lambda>rows.
     bindM (ret (map f (filter P rows))) (\<lambda>new.
     thenM (with_check m tenantId new)
     (thenM (check_keys m (map (\<lambda>r. if P r then f r else r) rows))
     (thenM (modifyM (mo_update m (map (\<lambda>r. if P r then f r else r))))
     (ret new)))))"

fun prisma :: "'r prisma_model \<Rightarrow> uuid option \<Rightarrow> client \<times> prisma_call \<times> 'r prisma_request \<Rightarrow> 'r list dbM" where
  "prisma m tenantId (client, call, PrismaRead args P) =
     bindM (scope m client tenantId call args) (\<lambda>a.
     bindM (reads (\<lambda>s. filter (selected m tenantId a P s) (mo_rows m s))) (\<lambda>found.
     thenM (ensure (found \<noteq> [] \<or> call \<notin> {FindUniqueOrThrow, FindFirstOrThrow}) (DbError RecordNotFound))
     (ret (one_of (call \<notin> {FindMany, Count, Aggregate, GroupBy}) found))))"
| "prisma m tenantId (client, call, PrismaUpdate args P f) =
     bindM (scope m client tenantId call args) (\<lambda>a.
     bindM (reads (\<lambda>s. selected m tenantId a P s)) (\<lambda>sel.
     bindM (change_rows m tenantId sel f) (\<lambda>new.
     thenM (ensure (new \<noteq> [] \<or> call \<noteq> UpdateOne) (DbError RecordNotFound))
     (ret new))))"
| "prisma m tenantId (client, call, PrismaDelete args P) =
     bindM (scope m client tenantId call args) (\<lambda>a.
     bindM (reads (\<lambda>s. selected m tenantId a P s)) (\<lambda>sel.
     bindM (reads (\<lambda>s. filter sel (mo_rows m s))) (\<lambda>old.
     thenM (ensure (old \<noteq> [] \<or> call \<noteq> DeleteOne) (DbError RecordNotFound))
     (thenM (modifyM (mo_update m (filter (\<lambda>r. \<not> sel r))))
     (ret old)))))"
| "prisma m tenantId (client, call, PrismaUpsert args P f new) =
     bindM (scope m client tenantId call args) (\<lambda>a.
     bindM (reads (\<lambda>s. selected m tenantId a P s)) (\<lambda>sel.
     bindM (reads (\<lambda>s. filter sel (mo_rows m s))) (\<lambda>old.
     if old = [] then insert_rows m tenantId [new] else change_rows m tenantId sel f)))"
| "prisma m tenantId (client, call, PrismaCreate args new) =
     bindM (scope m client tenantId call args) (\<lambda>a.
     insert_rows m tenantId [case pa_data a of None \<Rightarrow> new | Some t \<Rightarrow> mo_setTenantId m t new])"
| "prisma m tenantId (client, call, PrismaCreateMany new) = insert_rows m tenantId new"

text \<open>The caller's workshop: administrators have none.\<close>

definition prisma_tenant :: "identity option \<Rightarrow> uuid option" where
  "prisma_tenant who = (case who of None \<Rightarrow> None
     | Some user \<Rightarrow> if id_role user = SUPER_ADMIN then None else or_null (id_tenantId user))"

text \<open>
  Every query opens a transaction of its workshop or joins the open one (\<open>active\<close>), which no other
  workshop may.
\<close>

definition in_context :: "uuid option option \<Rightarrow> uuid option \<Rightarrow> (uuid option option \<Rightarrow> 'a dbM) \<Rightarrow> 'a dbM" where
  "in_context active tenantId callback =
     (case active of
        Some t \<Rightarrow> if t \<noteq> tenantId then throw (ForbiddenException ''Cannot change tenant inside a transaction.'') else callback active
      | None \<Rightarrow> transaction (callback (Some tenantId)))"

end
