(* ===== verification/Notices.thy ===== *)
theory Notices
  imports Customers Auth
begin

text \<open>
  \<open>modules/notifications\<close> and \<open>modules/queues\<close>: the inbox of the staff (one row per recipient), the
  WebSocket events and queue jobs a notification causes, with the quiet hours at night, and the
  reminder job of the worker. Metadata and HTML bodies are left out; whether the provider delivers
  a message is a parameter. Rows are in insertion order, so the newest come last.
\<close>

section \<open>Creating a notification (notifications.service.ts)\<close>

record notice =
  nd_tenantId :: "uuid option"
  nd_userId :: "uuid option"
  nd_actorUserId :: "uuid option"
  nd_targetRoles :: "UserRole list"
  nd_type :: "NotificationType option"
  nd_category :: string
  nd_title :: string
  nd_message :: string
  nd_link :: "string option"
  nd_recipientPhone :: "string option"
  nd_recipientEmail :: "string option"
  nd_customerMessage :: "string option"
  nd_sendSms :: bool
  nd_sendWhatsApp :: bool
  nd_sendEmail :: bool

definition recipient :: "notice \<Rightarrow> uuid \<Rightarrow> user \<Rightarrow> bool" where
  "recipient dto tenantId u \<longleftrightarrow> u_tenantId u = Some tenantId \<and> u_isActive u \<and>
     (nd_targetRoles dto = [] \<or> u_role u \<in> set (nd_targetRoles dto)) \<and>
     (case or_null (nd_actorUserId dto) of None \<Rightarrow> True | Some actor \<Rightarrow> u_id u \<noteq> actor)"

definition target_users :: "notice \<Rightarrow> uuid list dbM" where
  "target_users dto =
     (case or_null (nd_userId dto) of Some k \<Rightarrow> ret [k]
      | None \<Rightarrow> (case or_null (nd_tenantId dto) of None \<Rightarrow> ret []
          | Some t \<Rightarrow> bindM (find_many users (recipient dto t)) (\<lambda>us. ret (map u_id us))))"

definition inbox_row :: "notice \<Rightarrow> uuid \<Rightarrow> uuid \<Rightarrow> notification" where
  "inbox_row dto uid ident =
     \<lparr>nt_id = ident, nt_tenantId = nd_tenantId dto, nt_userId = Some uid,
      nt_type = (case nd_type dto of None \<Rightarrow> N_INFO | Some x \<Rightarrow> x), nt_category = nd_category dto,
      nt_title = nd_title dto, nt_message = nd_message dto, nt_link = nd_link dto, nt_isRead = False,
      nt_readAt = None\<rparr>"

definition add_inbox_row :: "ctx \<Rightarrow> notice \<Rightarrow> uuid \<Rightarrow> unit dbM" where
  "add_inbox_row cx dto uid =
     bindM (fresh_id cx) (\<lambda>ident. ignore (add_row notifications_update (inbox_row dto uid ident)))"

definition broadcast :: "notice \<Rightarrow> unit dbM" where
  "broadcast dto =
     (case or_null (nd_userId dto) of
        Some k \<Rightarrow> emit (WsUser k ''notification:new'' (nd_title dto))
      | None \<Rightarrow> (case or_null (nd_tenantId dto) of
            Some t \<Rightarrow> emit (WsStaff t (or_null (nd_actorUserId dto)) (nd_targetRoles dto) ''notification:new'')
          | None \<Rightarrow> emit (WsAdmin ''notification:new'')))"

text \<open>Minutes since midnight in Turkey (UTC+3), and the delay of a message to a customer in
  milliseconds: between 21:30 and 8:30 it waits until 9:00.\<close>

definition local_minutes :: "int \<Rightarrow> int" where
  "local_minutes t = (let localHour = (t div 3600000 mod 24 + 3) mod 24; localMinute = t div 60000 mod 60
     in localHour * 60 + localMinute)"

definition night_delay :: "int \<Rightarrow> int" where
  "night_delay t =
     (let currentTotalMinutes = local_minutes t; nightStartMinutes = 21 * 60 + 30; morningEndMinutes = 8 * 60 + 30 in
      if currentTotalMinutes \<ge> nightStartMinutes \<or> currentTotalMinutes < morningEndMinutes
      then (if currentTotalMinutes \<ge> nightStartMinutes then 24 * 60 - currentTotalMinutes + 9 * 60
        else 9 * 60 - currentTotalMinutes) * 60 * 1000
      else 0)"

definition job_delay :: "ctx \<Rightarrow> notice \<Rightarrow> nat" where
  "job_delay cx dto = (if truthy (nd_customerMessage dto) \<and> truthy (nd_recipientPhone dto) then nat (night_delay (now cx)) else 0)"

definition send_job :: "bool \<Rightarrow> string \<Rightarrow> string option \<Rightarrow> nat \<Rightarrow> unit dbM" where
  "send_job wanted kind recip delay =
     (case or_null recip of None \<Rightarrow> ret () | Some x \<Rightarrow> whenM wanted (emit (QueueJob kind x delay)))"

definition tenant_settings :: "notice \<Rightarrow> notification_setting option dbM" where
  "tenant_settings dto = (case or_null (nd_tenantId dto) of None \<Rightarrow> ret None
     | Some t \<Rightarrow> find_first notification_settings (\<lambda>n. ns_tenantId n = t))"

definition enabled :: "(notification_setting \<Rightarrow> bool) \<Rightarrow> notification_setting option \<Rightarrow> bool" where
  "enabled channel settings = (case settings of None \<Rightarrow> True | Some n \<Rightarrow> channel n)"

text \<open>The answer: the user the first row is for, or none.\<close>

definition createNotification :: "ctx \<Rightarrow> notice \<Rightarrow> uuid option dbM" where
  "createNotification cx dto =
     (if truthy (nd_userId dto) \<and> truthy (nd_actorUserId dto) \<and> nd_userId dto = nd_actorUserId dto then ret None
      else bindM (target_users dto) (\<lambda>targetUserIds.
      thenM (for_each targetUserIds (add_inbox_row cx dto))
      (thenM (broadcast dto)
      (bindM (tenant_settings dto) (\<lambda>settings.
       let delay = job_delay cx dto in
       thenM (send_job (nd_sendSms dto \<and> enabled ns_smsEnabled settings) ''send-sms'' (nd_recipientPhone dto) delay)
       (thenM (send_job (nd_sendWhatsApp dto \<and> enabled ns_whatsappEnabled settings) ''send-whatsapp'' (nd_recipientPhone dto) delay)
       (thenM (send_job (nd_sendEmail dto \<and> enabled ns_emailEnabled settings) ''send-email'' (nd_recipientEmail dto) delay)
       (ret (case targetUserIds of [] \<Rightarrow> None | k # _ \<Rightarrow> Some k)))))))))"

section \<open>The inbox\<close>

record inbox_query =
  iq_tenantId :: "uuid option"
  iq_userId :: "uuid option"
  iq_role :: "UserRole option"
  iq_category :: "string option"
  iq_unreadOnly :: bool
  iq_page :: "int option"
  iq_limit :: "int option"

definition asked_for :: "uuid option \<Rightarrow> uuid option \<Rightarrow> bool" where
  "asked_for wanted x \<longleftrightarrow> (case or_null wanted of None \<Rightarrow> True | Some k \<Rightarrow> x = Some k)"

definition own_rows :: "uuid option \<Rightarrow> uuid option \<Rightarrow> notification \<Rightarrow> bool" where
  "own_rows tenantId userId n \<longleftrightarrow> asked_for tenantId (nt_tenantId n) \<and> asked_for userId (nt_userId n)"

definition no_finance :: "UserRole option \<Rightarrow> bool" where
  "no_finance role \<longleftrightarrow> role \<in> {Some TECHNICIAN, Some WAREHOUSE_KEEPER}"

definition category_filter :: "inbox_query \<Rightarrow> string option" where
  "category_filter q = (case or_null (iq_category q) of None \<Rightarrow> None | Some c \<Rightarrow> if c = ''ALL'' then None else Some c)"

definition in_category :: "inbox_query \<Rightarrow> notification \<Rightarrow> bool" where
  "in_category q n \<longleftrightarrow> (case category_filter q of Some c \<Rightarrow> nt_category n = c
     | None \<Rightarrow> no_finance (iq_role q) \<longrightarrow> nt_category n \<noteq> ''FINANCE'')"

definition inbox_filter :: "inbox_query \<Rightarrow> notification \<Rightarrow> bool" where
  "inbox_filter q n \<longleftrightarrow> own_rows (iq_tenantId q) (iq_userId q) n \<and> (iq_unreadOnly q \<longrightarrow> \<not> nt_isRead n) \<and> in_category q n"

record inbox_page =
  ib_data :: "notification list"
  ib_page :: int
  ib_limit :: int
  ib_total :: nat
  ib_unreadCount :: nat
  ib_totalPages :: int

definition or_number :: "int option \<Rightarrow> int \<Rightarrow> int" where
  "or_number x d = (case x of None \<Rightarrow> d | Some n \<Rightarrow> if n = 0 then d else n)"

definition findAll_notices :: "inbox_query \<Rightarrow> inbox_page dbM" where
  "findAll_notices q =
     (let page = max 1 (or_number (iq_page q) 1); limit = min 50 (max 1 (or_number (iq_limit q) 15)) in
      if no_finance (iq_role q) \<and> category_filter q = Some ''FINANCE''
      then ret \<lparr>ib_data = [], ib_page = page, ib_limit = limit, ib_total = 0, ib_unreadCount = 0, ib_totalPages = 1\<rparr>
      else bindM (find_many notifications (inbox_filter q)) (\<lambda>rows.
       ret \<lparr>ib_data = take (nat limit) (drop (nat ((page - 1) * limit)) (rev rows)), ib_page = page, ib_limit = limit,
         ib_total = length rows, ib_unreadCount = length (filter (\<lambda>n. \<not> nt_isRead n) rows),
         ib_totalPages = max 1 ((int (length rows) + limit - 1) div limit)\<rparr>))"

definition read_event :: "uuid option \<Rightarrow> string \<Rightarrow> string \<Rightarrow> unit dbM" where
  "read_event userId event key = (case or_null userId of None \<Rightarrow> ret () | Some k \<Rightarrow> emit (WsUser k event key))"

definition mark_read :: "int \<Rightarrow> notification \<Rightarrow> notification" where
  "mark_read t n = n\<lparr>nt_isRead := True, nt_readAt := Some t\<rparr>"

definition markAsRead :: "ctx \<Rightarrow> uuid \<Rightarrow> uuid option \<Rightarrow> uuid option \<Rightarrow> unit dbM" where
  "markAsRead cx ident tenantId userId =
     thenM (ignore (update_where notifications notifications_update
       (\<lambda>n. nt_id n = ident \<and> own_rows tenantId userId n) (mark_read (now cx))))
     (read_event userId ''notification:read'' ident)"

definition remove_notice :: "uuid \<Rightarrow> uuid option \<Rightarrow> uuid option \<Rightarrow> unit dbM" where
  "remove_notice ident tenantId userId =
     thenM (modifyM (notifications_update (filter (\<lambda>n. \<not> (nt_id n = ident \<and> own_rows tenantId userId n)))))
     (read_event userId ''notification:deleted'' ident)"

definition markAllAsRead :: "ctx \<Rightarrow> uuid option \<Rightarrow> uuid option \<Rightarrow> unit dbM" where
  "markAllAsRead cx tenantId userId =
     thenM (ignore (update_where notifications notifications_update
       (\<lambda>n. \<not> nt_isRead n \<and> own_rows tenantId userId n) (mark_read (now cx))))
     (read_event userId ''notification:read_all'' [])"

definition getUnreadCount :: "uuid option \<Rightarrow> uuid option \<Rightarrow> UserRole option \<Rightarrow> nat dbM" where
  "getUnreadCount tenantId userId role =
     bindM (find_many notifications (\<lambda>n. \<not> nt_isRead n \<and> own_rows tenantId userId n \<and>
       (no_finance role \<longrightarrow> nt_category n \<noteq> ''FINANCE''))) (\<lambda>rows. ret (length rows))"

section \<open>The worker (notification.worker.ts)\<close>

definition inactive_appointment :: "AppointmentStatus \<Rightarrow> bool" where
  "inactive_appointment st \<longleftrightarrow> st \<in> {A_CANCELLED, A_COMPLETED, A_NO_SHOW}"

definition reminder_row :: "uuid \<Rightarrow> string \<Rightarrow> uuid \<Rightarrow> notification" where
  "reminder_row tenantId plate ident =
     \<lparr>nt_id = ident, nt_tenantId = Some tenantId, nt_userId = None, nt_type = N_INFO, nt_category = ''APPOINTMENT'',
      nt_title = ''Randevu Hatirlatmasi: '' @ plate, nt_message = ''Otomatik hatirlatma iletildi.'',
      nt_link = Some ''/appointments'', nt_isRead = False, nt_readAt = None\<rparr>"

definition handleAppointmentReminder :: "ctx \<Rightarrow> (string \<Rightarrow> bool) \<Rightarrow> uuid \<Rightarrow> unit dbM" where
  "handleAppointmentReminder cx sendSms appointmentId =
     bindM (find_first appointments (\<lambda>a. a_id a = appointmentId)) (\<lambda>appt.
     case appt of None \<Rightarrow> ret ()
     | Some a \<Rightarrow> if inactive_appointment (a_status a) then ret ()
       else bindM (find_first customers (\<lambda>c. c_id c = a_customerId a)) (\<lambda>customer.
         bindM (find_first vehicles (\<lambda>v. v_id v = a_vehicleId a)) (\<lambda>vehicle.
         let phone = or_null (map_option c_phone customer); plate = or_else (map_option v_plate vehicle) [] in
         thenM (case phone of None \<Rightarrow> ret ()
           | Some p \<Rightarrow> thenM (emit (SendSms p ''reminder'')) (ensure (sendSms p) (DomainError ''Reminder delivery failed'')))
         (bindM (fresh_id cx) (\<lambda>ident.
          thenM (ignore (add_row notifications_update (reminder_row (a_tenantId a) plate ident)))
          (thenM (emit (WsEmit (a_tenantId a) ''notification:new'' ident))
           (emit (WsEmit (a_tenantId a) ''appointment:reminder'' (a_id a)))))))))"

section \<open>The controller\<close>

datatype inbox_request =
    ReadNotice uuid
  | ReadAllNotices
  | DropNotice uuid
  | TestNotice
  | ListNotices inbox_query

definition test_notice :: "identity \<Rightarrow> notice" where
  "test_notice who = \<lparr>nd_tenantId = id_tenantId who, nd_userId = Some (id_userId who), nd_actorUserId = None,
     nd_targetRoles = [], nd_type = Some N_SUCCESS, nd_category = ''WORK_ORDER'', nd_title = ''Kisisel Test Bildirimi'',
     nd_message = ''Bu bildirim yalnizca sizin oturumunuza ozeldir.'', nd_link = Some ''/work-orders'',
     nd_recipientPhone = None, nd_recipientEmail = None, nd_customerMessage = None, nd_sendSms = False,
     nd_sendWhatsApp = False, nd_sendEmail = False\<rparr>"

fun handle_inbox :: "ctx \<times> identity \<times> inbox_request \<Rightarrow> unit dbM" where
  "handle_inbox (cx, who, ReadNotice k) = markAsRead cx k (id_tenantId who) (Some (id_userId who))"
| "handle_inbox (cx, who, ReadAllNotices) = markAllAsRead cx (id_tenantId who) (Some (id_userId who))"
| "handle_inbox (cx, who, DropNotice k) = remove_notice k (id_tenantId who) (Some (id_userId who))"
| "handle_inbox (cx, who, TestNotice) = ignore (createNotification cx (test_notice who))"
| "handle_inbox (cx, who, ListNotices q) = ignore (findAll_notices
     (q\<lparr>iq_tenantId := id_tenantId who, iq_userId := Some (id_userId who), iq_role := Some (id_role who)\<rparr>))"

end
