(* ===== verification/Workshop.thy ===== *)
theory Workshop
  imports Notices Staff
begin

text \<open>
  \<open>modules/tenants\<close> and \<open>modules/services\<close>: the profile of a workshop, its bays, the setup wizard,
  the channel settings and the catalogue of services. Columns of the profile no modelled operation
  reads (address, tax, hours, bank, gateway keys) are left out; the order of names in the database's
  collation is a parameter.
\<close>

section \<open>Profile and bays (tenants.service.ts)\<close>

definition getCurrent :: "uuid \<Rightarrow> (tenant \<times> user list) dbM" where
  "getCurrent tenantId =
     bindM (find_first tenants (\<lambda>t. t_id t = tenantId)) (\<lambda>found.
     bindM (require (NotFoundException ''Servis isletmesi bulunamadi.'') found) (\<lambda>tenant.
     bindM (find_many users (\<lambda>u. u_tenantId u = Some tenantId)) (\<lambda>us.
     ret (tenant, us))))"

record tenant_profile =
  tp_title :: "string option"
  tp_phone :: "string option"
  tp_email :: "string option"
  tp_autoInvoiceOnComplete :: "bool option"
  tp_logoUrl :: "string option"

definition updated_tenant :: "tenant_profile \<Rightarrow> tenant \<Rightarrow> tenant" where
  "updated_tenant dto t = t\<lparr>t_title := or_set (tp_title dto) (t_title t), t_phone := or_set (tp_phone dto) (t_phone t),
     t_email := or_set (tp_email dto) (t_email t),
     t_autoInvoiceOnComplete := or_set (tp_autoInvoiceOnComplete dto) (t_autoInvoiceOnComplete t),
     t_logoUrl := or_keep (tp_logoUrl dto) (t_logoUrl t)\<rparr>"

definition updateCurrent :: "uuid \<Rightarrow> tenant_profile \<Rightarrow> tenant dbM" where
  "updateCurrent tenantId dto =
     thenM (getCurrent tenantId) (update_by tenants tenants_update t_id tenantId (updated_tenant dto))"

definition tenant_bays :: "uuid \<Rightarrow> workshop_bay list dbM" where
  "tenant_bays tenantId = bindM (find_many workshop_bays (\<lambda>b. b_tenantId b = tenantId)) (\<lambda>bays.
     ret (order_by (\<lambda>a b. b_orderIndex a \<le> b_orderIndex b) bays))"

definition standard_bays :: "(string \<times> string \<times> string \<times> int \<times> bool) list" where
  "standard_bays =
     [(''Lift 1 (Genel Mekanik)'', ''L-01'', ''TWO_POST_LIFT'', 1, True),
      (''Lift 2 (Hizli Bakim & Yag)'', ''L-02'', ''TWO_POST_LIFT'', 2, True),
      (''Lift 3 (Agir Bakim & Sanziman)'', ''L-03'', ''FOUR_POST_LIFT'', 3, False),
      (''Lift 4 (Rot & Balans)'', ''L-04'', ''ALIGNMENT'', 4, False),
      (''Kabul / Ekspertiz Alani'', ''KB-01'', ''DIAGNOSTIC'', 5, True)]"

definition bay_index :: "uuid \<Rightarrow> string \<Rightarrow> uuid option \<Rightarrow> unit dbM" where
  "bay_index tenantId name ident = unique_index workshop_bays ''workshop_bays_tenant_id_name_key''
     (\<lambda>b. b_tenantId b = tenantId \<and> b_name b = name \<and> Some (b_id b) \<noteq> ident)"

definition insert_bay :: "workshop_bay \<Rightarrow> workshop_bay dbM" where
  "insert_bay b = thenM (bay_index (b_tenantId b) (b_name b) None) (create_row workshop_bays workshop_bays_update b_id b)"

text \<open>A row of \<open>createMany\<close> with \<open>skipDuplicates\<close>.\<close>

definition insert_standard_bay :: "ctx \<Rightarrow> uuid \<Rightarrow> string \<times> string \<times> string \<times> int \<times> bool \<Rightarrow> unit dbM" where
  "insert_standard_bay cx tenantId = (\<lambda>(name, code, category, orderIndex, online).
     bindM (find_first workshop_bays (\<lambda>b. b_tenantId b = tenantId \<and> b_name b = name)) (\<lambda>duplicate.
     whenM (duplicate = None) (bindM (fresh_id cx) (\<lambda>ident. ignore (insert_bay
       \<lparr>b_id = ident, b_tenantId = tenantId, b_name = name, b_code = Some code, b_category = category,
        b_isActive = True, b_isAvailableForOnline = online, b_orderIndex = orderIndex\<rparr>)))))"

definition getBays :: "ctx \<Rightarrow> uuid \<Rightarrow> workshop_bay list dbM" where
  "getBays cx tenantId =
     bindM (tenant_bays tenantId) (\<lambda>bays.
     if bays = [] then thenM (for_each standard_bays (insert_standard_bay cx tenantId)) (tenant_bays tenantId)
     else ret bays)"

record bay_dto =
  bd_name :: "string option"
  bd_code :: "string option"
  bd_category :: "string option"
  bd_isActive :: "bool option"
  bd_isAvailableForOnline :: "bool option"
  bd_orderIndex :: "int option"

definition trimmed_or_null :: "string option \<Rightarrow> string option" where
  "trimmed_or_null x = or_null (map_option js_trim x)"

text \<open>The name is required when a bay is created.\<close>

definition createBay :: "ctx \<Rightarrow> uuid \<Rightarrow> string \<Rightarrow> bay_dto \<Rightarrow> workshop_bay dbM" where
  "createBay cx tenantId name dto =
     bindM (find_first workshop_bays (\<lambda>b. b_tenantId b = tenantId \<and> b_name b = js_trim name)) (\<lambda>existing.
     thenM (ensure (existing = None) (ConflictException ''Bu adda bir istasyon / lift zaten mevcut.''))
     (bindM (fresh_id cx) (\<lambda>ident. insert_bay
       \<lparr>b_id = ident, b_tenantId = tenantId, b_name = js_trim name, b_code = trimmed_or_null (bd_code dto),
        b_category = or_else (bd_category dto) ''GENERAL'', b_isActive = or_set (bd_isActive dto) True,
        b_isAvailableForOnline = or_set (bd_isAvailableForOnline dto) True,
        b_orderIndex = or_set (bd_orderIndex dto) 0\<rparr>)))"

definition updated_bay :: "bay_dto \<Rightarrow> workshop_bay \<Rightarrow> workshop_bay" where
  "updated_bay dto b = b\<lparr>b_name := or_set (map_option js_trim (bd_name dto)) (b_name b),
     b_code := (if bd_code dto = None then b_code b else trimmed_or_null (bd_code dto)),
     b_category := or_set (bd_category dto) (b_category b), b_isActive := or_set (bd_isActive dto) (b_isActive b),
     b_isAvailableForOnline := or_set (bd_isAvailableForOnline dto) (b_isAvailableForOnline b),
     b_orderIndex := or_set (bd_orderIndex dto) (b_orderIndex b)\<rparr>"

definition updateBay :: "uuid \<Rightarrow> uuid \<Rightarrow> bay_dto \<Rightarrow> workshop_bay dbM" where
  "updateBay tenantId ident dto =
     bindM (find_first workshop_bays (\<lambda>b. b_id b = ident \<and> b_tenantId b = tenantId)) (\<lambda>found.
     bindM (require (NotFoundException ''Istasyon / Lift kaydi bulunamadi.'') found) (\<lambda>bay.
     thenM (case or_null (bd_name dto) of None \<Rightarrow> ret ()
       | Some name \<Rightarrow> whenM (js_trim name \<noteq> b_name bay)
           (bindM (find_first workshop_bays (\<lambda>b. b_tenantId b = tenantId \<and> b_name b = js_trim name \<and> b_id b \<noteq> ident)) (\<lambda>duplicate.
            ensure (duplicate = None) (ConflictException ''Bu adda baska bir istasyon / lift zaten mevcut.''))))
     (thenM (bay_index tenantId (b_name (updated_bay dto bay)) (Some ident))
      (update_by workshop_bays workshop_bays_update b_id ident (updated_bay dto)))))"

definition deleteBay :: "uuid \<Rightarrow> uuid \<Rightarrow> workshop_bay dbM" where
  "deleteBay tenantId ident =
     bindM (find_first workshop_bays (\<lambda>b. b_id b = ident \<and> b_tenantId b = tenantId)) (\<lambda>bay.
     thenM (ensure (bay \<noteq> None) (NotFoundException ''Istasyon / Lift kaydi bulunamadi.''))
     (delete_by workshop_bays workshop_bays_update b_id ident))"

definition getBySlugPublic :: "(string \<Rightarrow> string \<Rightarrow> bool) \<Rightarrow> string \<Rightarrow> (tenant \<times> service list \<times> workshop_bay list) dbM" where
  "getBySlugPublic collate slug =
     bindM (find_first tenants (\<lambda>t. t_slug t = slug)) (\<lambda>found.
     bindM (require (NotFoundException ''Aktif bir servis bulunamadi.'') found) (\<lambda>tenant.
     thenM (ensure (t_isActive tenant) (NotFoundException ''Aktif bir servis bulunamadi.''))
     (bindM (find_many services (\<lambda>v. sv_tenantId v = t_id tenant \<and> sv_isActive v)) (\<lambda>svs.
      bindM (find_many workshop_bays (\<lambda>b. b_tenantId b = t_id tenant \<and> b_isActive b \<and> b_isAvailableForOnline b)) (\<lambda>bays.
      ret (tenant, order_by (\<lambda>a b. collate (sv_name a) (sv_name b)) svs,
        order_by (\<lambda>a b. b_orderIndex a \<le> b_orderIndex b) bays))))))"

section \<open>The setup wizard\<close>

record onboarding_service =
  os_name :: string
  os_category :: "string option"
  os_durationMinutes :: int
  os_laborPrice :: number

record onboarding_staff =
  of_name :: string
  of_surname :: "string option"
  of_phone :: string
  of_expertise :: "string option"

record onboarding_dto =
  od_name :: "string option"
  od_activeLiftCount :: "int option"
  od_autoInvoiceOnComplete :: "bool option"
  od_services :: "onboarding_service list"
  od_staff :: "onboarding_staff list"

definition onboarded :: "onboarding_dto \<Rightarrow> tenant \<Rightarrow> tenant" where
  "onboarded dto t = t\<lparr>t_title := or_set (map_option js_trim (or_null (od_name dto))) (t_title t),
     t_activeLiftCount := or_number (od_activeLiftCount dto) (t_activeLiftCount t),
     t_autoInvoiceOnComplete := or_set (od_autoInvoiceOnComplete dto) (t_autoInvoiceOnComplete t),
     t_onboardingCompleted := True\<rparr>"

definition insert_service :: "service \<Rightarrow> service dbM" where
  "insert_service v =
     thenM (unique_index services ''services_tenant_id_code_key'' (\<lambda>x. sv_tenantId x = sv_tenantId v \<and> sv_code x = sv_code v))
     (create_row services services_update sv_id v)"

definition first_services :: "ctx \<Rightarrow> uuid \<Rightarrow> nat \<Rightarrow> onboarding_service \<Rightarrow> uuid \<Rightarrow> service" where
  "first_services cx tenantId srvIndex s ident =
     \<lparr>sv_id = ident, sv_tenantId = tenantId, sv_name = js_trim (os_name s), sv_code = ''SRV-'' @ pad_start 2 (nat_str srvIndex),
      sv_category = or_else (map_option js_trim (os_category s)) ''Periyodik Bakim'',
      sv_defaultDurationMin = (if os_durationMinutes s = 0 then 60 else os_durationMinutes s),
      sv_basePrice = dec2 cx (os_laborPrice s), sv_kdvRate = 2000, sv_isActive = True\<rparr>"

text \<open>The loop over the services; the number of the next code is a variable of the method.\<close>

primrec onboard_services :: "ctx \<Rightarrow> uuid \<Rightarrow> nat \<Rightarrow> onboarding_service list \<Rightarrow> unit dbM" where
  "onboard_services cx tenantId srvIndex [] = ret ()"
| "onboard_services cx tenantId srvIndex (s # ss) =
     (if js_trim (os_name s) = [] then onboard_services cx tenantId srvIndex ss
      else bindM (find_first services (\<lambda>v. sv_tenantId v = tenantId \<and> sv_name v = js_trim (os_name s))) (\<lambda>existing.
       case existing of Some v \<Rightarrow> onboard_services cx tenantId srvIndex ss
       | None \<Rightarrow> bindM (fresh_id cx) (\<lambda>ident.
           thenM (insert_service (first_services cx tenantId srvIndex s ident))
             (onboard_services cx tenantId (Suc srvIndex) ss))))"

definition mobile_digits :: "string \<Rightarrow> string" where
  "mobile_digits rawDigits =
     (let a = (if starts_with ''90'' rawDigits then drop 2 rawDigits else rawDigits)
      in if starts_with ''0'' a then drop 1 a else a)"

text \<open>The row level policy shows the lookup only the users of the workshop; the index knows all of them.\<close>

definition onboard_one :: "ctx \<Rightarrow> uuid \<Rightarrow> uuid option \<Rightarrow> onboarding_staff \<Rightarrow> unit dbM" where
  "onboard_one cx tenantId branchId st =
     (let rawDigits = filter is_digit (of_phone st); clean10 = mobile_digits rawDigits; normalizedPhone = ''+90'' @ clean10 in
      if js_trim (of_name st) = [] \<or> of_phone st = [] \<or> \<not> starts_with ''5'' clean10 \<or> length clean10 \<noteq> 10 then ret ()
      else bindM (find_first users (\<lambda>u. u_tenantId u = Some tenantId \<and> u_phone u \<in> {normalizedPhone, rawDigits, ''+'' @ rawDigits})) (\<lambda>existingUser.
       whenM (existingUser = None)
         (bindM (fresh_id cx) (\<lambda>uid.
          thenM (unique_index users ''users_phone_key'' (\<lambda>u. u_phone u = normalizedPhone))
          (bindM (create_row users users_update u_id
            \<lparr>u_id = uid, u_tenantId = Some tenantId, u_branchId = branchId, u_name = js_trim (of_name st),
             u_surname = or_else (map_option js_trim (of_surname st)) [], u_phone = normalizedPhone, u_email = None,
             u_passwordHash = None, u_role = TECHNICIAN, u_isActive = True, u_annualLeaveDays = 14,
             u_transferredLeaveDays = 0\<rparr>) (\<lambda>user.
          bindM (fresh_id cx) (\<lambda>mid.
          thenM (unique_index mechanics ''mechanics_user_id_key'' (\<lambda>m. m_userId m = u_id user))
          (ignore (create_row mechanics mechanics_update m_id
            \<lparr>m_id = mid, m_tenantId = tenantId, m_userId = u_id user,
             m_specialty = or_else (map_option js_trim (of_expertise st)) ''Genel Mekanik'', m_assignedLift = None,
             m_dailyCapacityHours = 8\<rparr>)))))))))"

definition first_bay :: "uuid \<Rightarrow> nat \<Rightarrow> uuid \<Rightarrow> workshop_bay" where
  "first_bay tenantId i ident =
     \<lparr>b_id = ident, b_tenantId = tenantId, b_name = ''Lift '' @ nat_str i @ '' (Genel Mekanik)'', b_code = Some (''L-0'' @ nat_str i),
      b_category = ''TWO_POST_LIFT'', b_isActive = True, b_isAvailableForOnline = True, b_orderIndex = int i\<rparr>"

definition onboard_bays :: "ctx \<Rightarrow> uuid \<Rightarrow> int option \<Rightarrow> unit dbM" where
  "onboard_bays cx tenantId lifts =
     (let n = nat (or_number lifts 0) in
      whenM (n > 0) (bindM (find_many workshop_bays (\<lambda>b. b_tenantId b = tenantId)) (\<lambda>existing.
        whenM (existing = []) (for_each [1..<Suc n] (\<lambda>i. bindM (fresh_id cx) (\<lambda>ident.
          ignore (insert_bay (first_bay tenantId i ident))))))))"

definition completeOnboarding :: "ctx \<Rightarrow> uuid \<Rightarrow> onboarding_dto \<Rightarrow> tenant dbM" where
  "completeOnboarding cx tenantId dto = transaction
     (bindM (update_by tenants tenants_update t_id tenantId (onboarded dto)) (\<lambda>updatedTenant.
      thenM (onboard_services cx tenantId 1 (od_services dto))
      (bindM (find_first branches (\<lambda>b. br_tenantId b = tenantId)) (\<lambda>branch.
       thenM (for_each (od_staff dto) (onboard_one cx tenantId (map_option br_id branch)))
       (thenM (onboard_bays cx tenantId (od_activeLiftCount dto))
       (ret updatedTenant))))))"

section \<open>Channel settings\<close>

definition default_settings :: "uuid \<Rightarrow> notification_setting" where
  "default_settings tenantId = \<lparr>ns_tenantId = tenantId, ns_strategy = FALLBACK, ns_channelPriority = [CH_WHATSAPP, CH_EMAIL, CH_SMS],
     ns_singleChannel = Some CH_WHATSAPP, ns_whatsappEnabled = True, ns_emailEnabled = True, ns_smsEnabled = False,
     ns_whatsappDeviceId = None\<rparr>"

definition getNotificationSettings :: "uuid \<Rightarrow> notification_setting dbM" where
  "getNotificationSettings tenantId =
     bindM (find_first notification_settings (\<lambda>n. ns_tenantId n = tenantId)) (\<lambda>settings.
     case settings of Some n \<Rightarrow> ret n | None \<Rightarrow> add_row notification_settings_update (default_settings tenantId))"

record channel_dto =
  cd_strategy :: "NotificationStrategy option"
  cd_channelPriority :: "NotificationChannel list option"
  cd_singleChannel :: "NotificationChannel option"
  cd_whatsappEnabled :: "bool option"
  cd_emailEnabled :: "bool option"
  cd_smsEnabled :: "bool option"
  cd_whatsappDeviceId :: "string option"

definition changed_settings :: "channel_dto \<Rightarrow> notification_setting \<Rightarrow> notification_setting" where
  "changed_settings dto n = n\<lparr>ns_strategy := or_set (cd_strategy dto) (ns_strategy n),
     ns_channelPriority := or_set (cd_channelPriority dto) (ns_channelPriority n),
     ns_singleChannel := (if cd_singleChannel dto = None then ns_singleChannel n else cd_singleChannel dto),
     ns_whatsappEnabled := or_set (cd_whatsappEnabled dto) (ns_whatsappEnabled n),
     ns_emailEnabled := or_set (cd_emailEnabled dto) (ns_emailEnabled n),
     ns_smsEnabled := or_set (cd_smsEnabled dto) (ns_smsEnabled n),
     ns_whatsappDeviceId := or_keep (cd_whatsappDeviceId dto) (ns_whatsappDeviceId n)\<rparr>"

definition updateNotificationSettings :: "uuid \<Rightarrow> channel_dto \<Rightarrow> notification_setting dbM" where
  "updateNotificationSettings tenantId dto =
     bindM (find_first notification_settings (\<lambda>n. ns_tenantId n = tenantId)) (\<lambda>settings.
     case settings of None \<Rightarrow> add_row notification_settings_update (changed_settings dto (default_settings tenantId))
     | Some n \<Rightarrow> update_by notification_settings notification_settings_update ns_tenantId tenantId (changed_settings dto))"

section \<open>The catalogue (services.service.ts)\<close>

record service_filter =
  sf_search :: "string option"
  sf_category :: "string option"
  sf_isActive :: "bool option"

definition service_matches :: "service_filter \<Rightarrow> service \<Rightarrow> bool" where
  "service_matches f v \<longleftrightarrow> sv_isActive v = or_set (sf_isActive f) True \<and>
     (case or_null (sf_category f) of None \<Rightarrow> True | Some c \<Rightarrow> sv_category v = c) \<and>
     (case or_null (sf_search f) of None \<Rightarrow> True | Some q \<Rightarrow> contains_ci q (sv_name v) \<or> contains_ci q (sv_code v))"

definition findAll_services :: "(string \<Rightarrow> string \<Rightarrow> bool) \<Rightarrow> uuid \<Rightarrow> service_filter \<Rightarrow> service list dbM" where
  "findAll_services collate tenantId f =
     bindM (find_many services (\<lambda>v. sv_tenantId v = tenantId \<and> service_matches f v)) (\<lambda>svs.
     ret (order_by (\<lambda>a b. collate (sv_name a) (sv_name b)) svs))"

definition findOne_service :: "uuid \<Rightarrow> uuid \<Rightarrow> service dbM" where
  "findOne_service tenantId ident =
     bindM (find_first services (\<lambda>v. sv_id v = ident \<and> sv_tenantId v = tenantId))
       (require (NotFoundException ''Hizmet / iscilik kalemi bulunamadi.''))"

record service_dto =
  se_name :: string
  se_code :: string
  se_category :: string
  se_defaultDurationMin :: "int option"
  se_basePrice :: number
  se_kdvRate :: "number option"
  se_isActive :: "bool option"

definition create_service :: "ctx \<Rightarrow> uuid \<Rightarrow> service_dto \<Rightarrow> service dbM" where
  "create_service cx tenantId dto =
     bindM (find_first services (\<lambda>v. sv_tenantId v = tenantId \<and> sv_code v = se_code dto)) (\<lambda>existing.
     thenM (ensure (existing = None) (ConflictException ''Bu koda sahip bir hizmet zaten mevcut.''))
     (bindM (fresh_id cx) (\<lambda>ident.
      bindM (insert_service
        \<lparr>sv_id = ident, sv_tenantId = tenantId, sv_name = se_name dto, sv_code = to_upper (se_code dto),
         sv_category = to_upper (se_category dto), sv_defaultDurationMin = or_set (se_defaultDurationMin dto) 60,
         sv_basePrice = dec2 cx (se_basePrice dto), sv_kdvRate = dec2 cx (or_set (se_kdvRate dto) 20),
         sv_isActive = or_set (se_isActive dto) True\<rparr>) (\<lambda>service.
      thenM (emit (AuditLog tenantId ''service.created'' ''Service'' (sv_id service)))
      (ret service)))))"

record service_change =
  sg_name :: "string option"
  sg_code :: "string option"
  sg_category :: "string option"
  sg_defaultDurationMin :: "int option"
  sg_basePrice :: "number option"
  sg_kdvRate :: "number option"
  sg_isActive :: "bool option"

definition updated_service :: "ctx \<Rightarrow> service_change \<Rightarrow> service \<Rightarrow> service" where
  "updated_service cx dto v = v\<lparr>sv_name := or_else (sg_name dto) (sv_name v),
     sv_code := (case or_null (sg_code dto) of None \<Rightarrow> sv_code v | Some c \<Rightarrow> to_upper c),
     sv_category := (case or_null (sg_category dto) of None \<Rightarrow> sv_category v | Some c \<Rightarrow> to_upper c),
     sv_defaultDurationMin := or_set (sg_defaultDurationMin dto) (sv_defaultDurationMin v),
     sv_basePrice := or_set (map_option (dec2 cx) (sg_basePrice dto)) (sv_basePrice v),
     sv_kdvRate := or_set (map_option (dec2 cx) (sg_kdvRate dto)) (sv_kdvRate v),
     sv_isActive := or_set (sg_isActive dto) (sv_isActive v)\<rparr>"

definition update_service :: "ctx \<Rightarrow> uuid \<Rightarrow> uuid \<Rightarrow> service_change \<Rightarrow> service dbM" where
  "update_service cx tenantId ident dto =
     bindM (findOne_service tenantId ident) (\<lambda>current.
     thenM (case or_null (sg_code dto) of None \<Rightarrow> ret ()
       | Some code \<Rightarrow> whenM (code \<noteq> sv_code current)
           (bindM (find_first services (\<lambda>v. sv_tenantId v = tenantId \<and> sv_code v = code \<and> sv_id v \<noteq> ident)) (\<lambda>existing.
            ensure (existing = None) (ConflictException ''Bu koda sahip baska bir hizmet zaten mevcut.''))))
     (thenM (unique_index services ''services_tenant_id_code_key''
        (\<lambda>v. sv_tenantId v = tenantId \<and> sv_code v = sv_code (updated_service cx dto current) \<and> sv_id v \<noteq> ident))
     (bindM (update_by services services_update sv_id ident (updated_service cx dto)) (\<lambda>updated.
      thenM (emit (AuditLog tenantId ''service.updated'' ''Service'' ident))
      (ret updated)))))"

text \<open>The answer: only deactivated, because appointments refer to the service.\<close>

definition remove_service :: "uuid \<Rightarrow> uuid \<Rightarrow> bool dbM" where
  "remove_service tenantId ident =
     thenM (findOne_service tenantId ident)
     (bindM (find_many appointments (\<lambda>a. a_serviceId a = Some ident)) (\<lambda>booked.
      let isDeactivated = booked \<noteq> [] in
      thenM (if isDeactivated then ignore (update_by services services_update sv_id ident (\<lambda>v. v\<lparr>sv_isActive := False\<rparr>))
        else ignore (delete_by services services_update sv_id ident))
      (thenM (emit (AuditLog tenantId (if isDeactivated then ''service.deactivated'' else ''service.deleted'') ''Service'' ident))
      (ret isDeactivated))))"

end
