(* ===== verification/Contract.thy ===== *)
theory Contract
  imports Guards Workshop
begin

text \<open>
  \<open>modules/legal\<close>: the contract of a workshop with the platform, its signature and the permission
  for commercial messages. The digest of the contract text is a parameter; addresses and browsers of
  callers and the version of the text (a constant) are left out.
\<close>

definition latest_consent :: "uuid \<Rightarrow> tenant_consent option dbM" where
  "latest_consent tenantId = bindM (find_many tenant_consents (\<lambda>c. tc_tenantId c = tenantId)) (\<lambda>cs.
     ret (case order_by (\<lambda>a b. tc_signedAt b \<le> tc_signedAt a) cs of [] \<Rightarrow> None | c # _ \<Rightarrow> Some c))"

record contract_status =
  cs_isAccepted :: bool
  cs_acceptedAt :: "int option"
  cs_latestConsent :: "tenant_consent option"

definition getTenantConsentStatus :: "uuid \<Rightarrow> contract_status dbM" where
  "getTenantConsentStatus tenantId =
     bindM (find_first tenants (\<lambda>t. t_id t = tenantId)) (\<lambda>found.
     bindM (require (NotFoundException ''Isletme bulunamadi.'') found) (\<lambda>tenant.
     bindM (latest_consent tenantId) (\<lambda>latestConsent.
     ret \<lparr>cs_isAccepted = t_b2bConsentAccepted tenant, cs_acceptedAt = t_b2bConsentAcceptedAt tenant,
       cs_latestConsent = latestConsent\<rparr>)))"

definition create_consent :: "tenant_consent \<Rightarrow> tenant_consent dbM" where
  "create_consent c =
     bindM (find_first tenants (\<lambda>t. t_id t = tc_tenantId c)) (\<lambda>tenant.
     thenM (ensure (tenant \<noteq> None) (DbError (ForeignKeyViolation ''tenant_consents_tenant_id_fkey'')))
     (bindM (find_first users (\<lambda>u. u_id u = tc_signedByUserId c)) (\<lambda>user.
      thenM (ensure (user \<noteq> None) (DbError (ForeignKeyViolation ''tenant_consents_signed_by_user_id_fkey'')))
      (create_row tenant_consents tenant_consents_update tc_id c))))"

definition preference_row :: "ctx \<Rightarrow> uuid \<Rightarrow> uuid \<Rightarrow> bool \<Rightarrow> uuid \<Rightarrow> tenant_consent" where
  "preference_row cx tenantId userId marketingAccepted ident =
     \<lparr>tc_id = ident, tc_tenantId = tenantId, tc_signedByUserId = userId, tc_verifiedVia = ''WEB_SETTINGS_TOGGLE'',
      tc_payloadHash = ''MARKETING_PREFERENCE_UPDATE'', tc_saasTermsAccepted = True, tc_dataProcessingAccepted = True,
      tc_marketingAccepted = marketingAccepted, tc_signedAt = now cx\<rparr>"

definition updateMarketingConsent :: "ctx \<Rightarrow> uuid \<Rightarrow> bool \<Rightarrow> bool dbM" where
  "updateMarketingConsent cx tenantId marketingAccepted =
     bindM (latest_consent tenantId) (\<lambda>latestConsent.
     thenM (case latestConsent of
         Some c \<Rightarrow> ignore (update_by tenant_consents tenant_consents_update tc_id (tc_id c)
           (\<lambda>c. c\<lparr>tc_marketingAccepted := marketingAccepted\<rparr>))
       | None \<Rightarrow> bindM (find_first users (\<lambda>u. u_tenantId u = Some tenantId)) (\<lambda>user.
           case user of None \<Rightarrow> ret ()
           | Some u \<Rightarrow> bindM (fresh_id cx) (\<lambda>ident.
               ignore (create_consent (preference_row cx tenantId (u_id u) marketingAccepted ident)))))
     (ret marketingAccepted))"

definition reached_at :: "string \<Rightarrow> tenant \<Rightarrow> bool" where
  "reached_at cleanId t \<longleftrightarrow> t_phone t = cleanId \<or> t_email t = cleanId"

definition optout_tenant :: "string \<Rightarrow> tenant option dbM" where
  "optout_tenant cleanId =
     bindM (find_first tenants (\<lambda>t. t_id t = cleanId)) (\<lambda>byId.
     case byId of Some t \<Rightarrow> ret (Some t)
     | None \<Rightarrow> bindM (find_first tenants (reached_at cleanId)) (\<lambda>byContact.
         case byContact of Some t \<Rightarrow> ret (Some t)
         | None \<Rightarrow> bindM (find_first users (\<lambda>u. u_phone u = cleanId \<or> u_email u = Some cleanId)) (\<lambda>user.
             case user of None \<Rightarrow> ret None
             | Some u \<Rightarrow> (case or_null (u_tenantId u) of None \<Rightarrow> ret None
                 | Some k \<Rightarrow> find_first tenants (\<lambda>t. t_id t = k)))))"

text \<open>Answered the same whether a workshop was found or not, but for its title.\<close>

definition processPublicOptOut :: "ctx \<Rightarrow> string \<Rightarrow> string option dbM" where
  "processPublicOptOut cx identifier =
     thenM (ensure (js_trim identifier \<noteq> []) (BadRequestException ''Gecersiz ret talebi. Tanimlayici belirtilmedi.''))
     (bindM (optout_tenant (js_trim identifier)) (\<lambda>tenant.
      case tenant of None \<Rightarrow> ret None
      | Some t \<Rightarrow> thenM (ignore (updateMarketingConsent cx (t_id t) False)) (ret (Some (t_title t)))))"

record sign_dto =
  sd_saasTermsAccepted :: bool
  sd_dataProcessingAccepted :: bool
  sd_marketingAccepted :: bool

definition signature :: "ctx \<Rightarrow> string \<Rightarrow> uuid \<Rightarrow> uuid \<Rightarrow> sign_dto \<Rightarrow> uuid \<Rightarrow> tenant_consent" where
  "signature cx textHash tenantId userId dto ident =
     \<lparr>tc_id = ident, tc_tenantId = tenantId, tc_signedByUserId = userId, tc_verifiedVia = ''WEB_DIGITAL_SIGNATURE'',
      tc_payloadHash = textHash, tc_saasTermsAccepted = sd_saasTermsAccepted dto,
      tc_dataProcessingAccepted = sd_dataProcessingAccepted dto, tc_marketingAccepted = sd_marketingAccepted dto,
      tc_signedAt = now cx\<rparr>"

definition accepted_contract :: "ctx \<Rightarrow> tenant \<Rightarrow> tenant" where
  "accepted_contract cx t = t\<lparr>t_b2bConsentAccepted := True, t_b2bConsentAcceptedAt := Some (now cx)\<rparr>"

definition signB2bConsent :: "ctx \<Rightarrow> string \<Rightarrow> uuid \<Rightarrow> uuid \<Rightarrow> sign_dto \<Rightarrow> (tenant \<times> tenant_consent) dbM" where
  "signB2bConsent cx textHash tenantId userId dto =
     thenM (ensure (sd_saasTermsAccepted dto \<and> sd_dataProcessingAccepted dto) (BadRequestException
       ''Sozlesme ve KVKK Veri Isleme Protokolu zorunlu olarak onaylanmalidir.''))
     (transaction
       (bindM (fresh_id cx) (\<lambda>ident.
        bindM (create_consent (signature cx textHash tenantId userId dto ident)) (\<lambda>consentRecord.
        bindM (update_by tenants tenants_update t_id tenantId (accepted_contract cx)) (\<lambda>updatedTenant.
        ret (updatedTenant, consentRecord))))))"

section \<open>The controllers\<close>

datatype contract_request =
    ContractStatus
  | MarketingChoice bool
  | OptOut string
  | SignContract sign_dto

datatype workshop_request =
    ViewWorkshop
  | EditWorkshop tenant_profile
  | Onboard onboarding_dto
  | ListBays
  | AddBay string bay_dto
  | EditBay uuid bay_dto
  | DropBay uuid
  | PublicWorkshop string
  | ViewChannels
  | EditChannels channel_dto

datatype catalogue_request =
    ListServices service_filter
  | ViewService uuid
  | AddService service_dto
  | EditService uuid service_change
  | DropService uuid

end
