(* ===== verification/Api.thy ===== *)
theory Api
  imports Contract Sessions
begin

text \<open>
  The controllers of the workshop settings, the catalogue, the contract and the inbox behind the
  guards of the application: what \<open>tenants.controller.ts\<close>, \<open>services.controller.ts\<close>,
  \<open>legal.controller.ts\<close> and \<open>notifications.controller.ts\<close> declare for each route, and a request as
  it runs from its token to the answer.
\<close>

section \<open>Routes\<close>

definition staff_route :: "UserRole list \<Rightarrow> route" where
  "staff_route roles = \<lparr>ro_public = False, ro_bypassB2bConsent = False, ro_roles = roles, ro_permissions = []\<rparr>"

definition public_route :: route where
  "public_route = \<lparr>ro_public = True, ro_bypassB2bConsent = False, ro_roles = [], ro_permissions = []\<rparr>"

fun contract_route :: "contract_request \<Rightarrow> route" where
  "contract_route ContractStatus = (staff_route [])\<lparr>ro_bypassB2bConsent := True\<rparr>"
| "contract_route (MarketingChoice b) = staff_route [OWNER, SERVICE_MANAGER]"
| "contract_route (OptOut x) = public_route"
| "contract_route (SignContract dto) = (staff_route [OWNER, SERVICE_MANAGER])\<lparr>ro_bypassB2bConsent := True\<rparr>"

fun workshop_route :: "workshop_request \<Rightarrow> route" where
  "workshop_route ViewWorkshop = staff_route [OWNER, SERVICE_MANAGER, CASHIER, TECHNICIAN]"
| "workshop_route (EditWorkshop dto) = staff_route [OWNER]"
| "workshop_route (Onboard dto) = staff_route [OWNER]"
| "workshop_route ListBays = staff_route [OWNER, SERVICE_MANAGER, TECHNICIAN, CASHIER]"
| "workshop_route (AddBay n dto) = staff_route [OWNER, SERVICE_MANAGER]"
| "workshop_route (EditBay k dto) = staff_route [OWNER, SERVICE_MANAGER]"
| "workshop_route (DropBay k) = staff_route [OWNER, SERVICE_MANAGER]"
| "workshop_route (PublicWorkshop slug) = public_route"
| "workshop_route ViewChannels = staff_route [OWNER, SERVICE_MANAGER]"
| "workshop_route (EditChannels dto) = staff_route [OWNER]"

fun catalogue_route :: "catalogue_request \<Rightarrow> route" where
  "catalogue_route (ListServices f) = staff_route [OWNER, SERVICE_MANAGER, TECHNICIAN, CASHIER]"
| "catalogue_route (ViewService k) = staff_route [OWNER, SERVICE_MANAGER, TECHNICIAN, CASHIER]"
| "catalogue_route (AddService dto) = staff_route [OWNER, SERVICE_MANAGER]"
| "catalogue_route (EditService k dto) = staff_route [OWNER, SERVICE_MANAGER]"
| "catalogue_route (DropService k) = staff_route [OWNER, SERVICE_MANAGER]"

section \<open>Handlers\<close>

text \<open>The workshop and the account of the caller (\<open>@CurrentTenant\<close>, \<open>@CurrentUser\<close>).\<close>

definition caller_tenant :: "identity option \<Rightarrow> uuid" where
  "caller_tenant who = (case who of None \<Rightarrow> [] | Some u \<Rightarrow> or_else (id_tenantId u) [])"

definition caller_user :: "identity option \<Rightarrow> uuid" where
  "caller_user who = (case who of None \<Rightarrow> [] | Some u \<Rightarrow> id_userId u)"

fun handle_contract :: "ctx \<Rightarrow> string \<Rightarrow> uuid \<Rightarrow> uuid \<Rightarrow> contract_request \<Rightarrow> unit dbM" where
  "handle_contract cx textHash t u ContractStatus = ignore (getTenantConsentStatus t)"
| "handle_contract cx textHash t u (MarketingChoice b) = ignore (updateMarketingConsent cx t b)"
| "handle_contract cx textHash t u (OptOut x) = ignore (processPublicOptOut cx x)"
| "handle_contract cx textHash t u (SignContract dto) = ignore (signB2bConsent cx textHash t u dto)"

fun handle_workshop :: "ctx \<Rightarrow> (string \<Rightarrow> string \<Rightarrow> bool) \<Rightarrow> uuid \<Rightarrow> workshop_request \<Rightarrow> unit dbM" where
  "handle_workshop cx collate t ViewWorkshop = ignore (getCurrent t)"
| "handle_workshop cx collate t (EditWorkshop dto) = ignore (updateCurrent t dto)"
| "handle_workshop cx collate t (Onboard dto) = ignore (completeOnboarding cx t dto)"
| "handle_workshop cx collate t ListBays = ignore (getBays cx t)"
| "handle_workshop cx collate t (AddBay n dto) = ignore (createBay cx t n dto)"
| "handle_workshop cx collate t (EditBay k dto) = ignore (updateBay t k dto)"
| "handle_workshop cx collate t (DropBay k) = ignore (deleteBay t k)"
| "handle_workshop cx collate t (PublicWorkshop slug) = ignore (getBySlugPublic collate slug)"
| "handle_workshop cx collate t ViewChannels = ignore (getNotificationSettings t)"
| "handle_workshop cx collate t (EditChannels dto) = ignore (updateNotificationSettings t dto)"

fun handle_catalogue :: "ctx \<Rightarrow> (string \<Rightarrow> string \<Rightarrow> bool) \<Rightarrow> uuid \<Rightarrow> catalogue_request \<Rightarrow> unit dbM" where
  "handle_catalogue cx collate t (ListServices f) = ignore (findAll_services collate t f)"
| "handle_catalogue cx collate t (ViewService k) = ignore (findOne_service t k)"
| "handle_catalogue cx collate t (AddService dto) = ignore (create_service cx t dto)"
| "handle_catalogue cx collate t (EditService k dto) = ignore (update_service cx t k dto)"
| "handle_catalogue cx collate t (DropService k) = ignore (remove_service t k)"

section \<open>A request\<close>

datatype api_request =
    ContractApi contract_request
  | WorkshopApi workshop_request
  | CatalogueApi catalogue_request
  | InboxApi inbox_request

fun api_route :: "api_request \<Rightarrow> route" where
  "api_route (ContractApi q) = contract_route q"
| "api_route (WorkshopApi q) = workshop_route q"
| "api_route (CatalogueApi q) = catalogue_route q"
| "api_route (InboxApi q) = staff_route []"

text \<open>What a server is started with: environment, digest of the contract text, order of names.\<close>

record api_server =
  ap_env :: auth_env
  ap_textHash :: string
  ap_collate :: "string \<Rightarrow> string \<Rightarrow> bool"

fun api_handler :: "api_server \<Rightarrow> api_request \<Rightarrow> identity option \<Rightarrow> unit dbM" where
  "api_handler sv (ContractApi q) who =
     handle_contract (en_ctx (ap_env sv)) (ap_textHash sv) (caller_tenant who) (caller_user who) q"
| "api_handler sv (WorkshopApi q) who = handle_workshop (en_ctx (ap_env sv)) (ap_collate sv) (caller_tenant who) q"
| "api_handler sv (CatalogueApi q) who = handle_catalogue (en_ctx (ap_env sv)) (ap_collate sv) (caller_tenant who) q"
| "api_handler sv (InboxApi q) who = (case who of None \<Rightarrow> ret () | Some u \<Rightarrow> handle_inbox (en_ctx (ap_env sv), u, q))"

text \<open>A request: the instant it arrives, its token and what it asks for.\<close>

definition api :: "api_server \<Rightarrow> int \<times> string \<times> api_request \<Rightarrow> unit dbM" where
  "api sv = (\<lambda>(t, token, q). guarded (at_time (ap_env sv) t) (api_route q)
     (api_handler (sv\<lparr>ap_env := at_time (ap_env sv) t\<rparr>) q) token)"

end
