(* ===== verification/GuardRules.thy ===== *)
theory GuardRules
  imports Api
begin

text \<open>
  What the guards and the tenant-scoped database keep: no query of a workshop shows or changes a row
  of another one, on any route and through any call of the client; nothing runs before the contract
  is signed, and nothing but a signature of the management opens the workshop.
\<close>

section \<open>Rows of other workshops\<close>

definition others :: "'r prisma_model \<Rightarrow> uuid \<Rightarrow> db \<Rightarrow> 'r list" where
  "others m t s = filter (\<lambda>r. mo_policy m s r \<noteq> Some t) (mo_rows m s)"

definition owned :: "'r prisma_model \<Rightarrow> uuid \<Rightarrow> db \<Rightarrow> 'r \<Rightarrow> bool" where
  "owned m t s r \<longleftrightarrow> mo_policy m s r = Some t"

definition keys :: "'r prisma_model \<Rightarrow> db \<Rightarrow> uuid list" where
  "keys m s = map (mo_id m) (mo_rows m s)"

text \<open>A call that leaves the primary keys alone: nothing deleted, no key in the data of an update.\<close>

fun keeps_keys :: "'r prisma_model \<Rightarrow> 'r prisma_request \<Rightarrow> bool" where
  "keeps_keys m (PrismaUpdate args P f) \<longleftrightarrow> (\<forall>r. mo_id m (f r) = mo_id m r)"
| "keeps_keys m (PrismaUpsert args P f new) \<longleftrightarrow> (\<forall>r. mo_id m (f r) = mo_id m r)"
| "keeps_keys m (PrismaDelete args P) \<longleftrightarrow> False"
| "keeps_keys m _ \<longleftrightarrow> True"

text \<open>
  What a call of a session of workshop \<open>t\<close> may do to the store: only the table changes, the rows of
  others stay in their order, keys stay distinct, and, for a call that keeps them, present.
\<close>

definition moves :: "'r prisma_model \<Rightarrow> uuid \<Rightarrow> bool \<Rightarrow> db \<Rightarrow> db \<Rightarrow> bool" where
  "moves m t kept s s' \<longleftrightarrow> others m t s' = others m t s \<and> (\<exists>g. s' = mo_update m g s) \<and>
     (distinct (keys m s) \<longrightarrow> distinct (keys m s')) \<and> (kept \<longrightarrow> set (keys m s) \<subseteq> set (keys m s'))"

text \<open>The workshop of a row does not depend on the table of the row itself.\<close>

locale tenant_table =
  fixes m :: "'r prisma_model"
  assumes rows_update: "mo_rows m (mo_update m f s) = f (mo_rows m s)"
    and same_update: "mo_update m (\<lambda>rows. rows) s = s"
    and policy_update: "mo_policy m (mo_update m f s) = mo_policy m s"
begin

lemma moves_refl: "moves m t kept s s"
  unfolding moves_def by (auto intro!: exI [of _ "\<lambda>rows. rows"] simp: same_update)

lemma row_visible_owned: "row_visible m (Some t) s r = owned m t s r"
  by (simp add: row_visible_def owned_def)

lemma selected_owned: "selected m (Some t) a P s r \<Longrightarrow> owned m t s r"
  by (simp add: selected_def row_visible_owned)

lemma moves_insert:
  "list_all (owned m t s) new \<Longrightarrow> distinct (map (mo_id m) (mo_rows m s @ new)) \<Longrightarrow>
    moves m t kept s (mo_update m (\<lambda>rows. rows @ new) s)"
  by (auto simp: moves_def others_def owned_def keys_def rows_update policy_update list_all_iff)

lemma moves_delete: "(\<And>r. P r \<Longrightarrow> owned m t s r) \<Longrightarrow> moves m t False s (mo_update m (filter (\<lambda>r. \<not> P r)) s)"
  by (auto simp: moves_def others_def owned_def keys_def rows_update policy_update distinct_map_filter intro!: filter_cong)

lemma others_change:
  assumes "\<And>r. P r \<Longrightarrow> owned m t s r" and "list_all (owned m t s) (map f (filter P (mo_rows m s)))"
  shows "others m t (mo_update m (map (\<lambda>r. if P r then f r else r)) s) = others m t s"
proof -
  have "filter (\<lambda>r. mo_policy m s r \<noteq> Some t) (map (\<lambda>r. if P r then f r else r) rows) = filter (\<lambda>r. mo_policy m s r \<noteq> Some t) rows"
    if "list_all (owned m t s) (map f (filter P rows))" for rows
    using that assms(1) by (induction rows) (auto simp: owned_def)
  then show ?thesis
    using assms(2) by (simp add: others_def rows_update policy_update)
qed

lemma moves_change:
  assumes "\<And>r. P r \<Longrightarrow> owned m t s r" and "list_all (owned m t s) (map f (filter P (mo_rows m s)))"
    and "distinct (map (mo_id m) (map (\<lambda>r. if P r then f r else r) (mo_rows m s)))"
    and "kept \<Longrightarrow> \<forall>r. mo_id m (f r) = mo_id m r"
  shows "moves m t kept s (mo_update m (map (\<lambda>r. if P r then f r else r)) s)"
proof -
  have "kept \<Longrightarrow> map (mo_id m) (map (\<lambda>r. if P r then f r else r) rows) = map (mo_id m) rows" for rows
    using assms(4) by auto
  then show ?thesis
    using assms(3) others_change [OF assms(1,2)] unfolding moves_def keys_def rows_update
    by (auto simp del: map_map)
qed

text \<open>The answer shows rows of the own workshop, and the store makes a move.\<close>

definition shows_own :: "uuid \<Rightarrow> bool \<Rightarrow> db \<Rightarrow> 'r list \<Rightarrow> db \<Rightarrow> bool" where
  "shows_own t kept s rows s' \<longleftrightarrow> list_all (owned m t s) rows \<and> moves m t kept s s'"

lemma wp_insert_rows: "wp (insert_rows m (Some t) new) (shows_own t kept s) (\<lambda>_ s'. s' = s) s"
  by (auto simp: insert_rows_def with_check_def check_keys_def wp_simps shows_own_def row_visible_owned [abs_def]
      intro: moves_insert)

lemma wp_change_rows:
  assumes "\<And>r. P r \<Longrightarrow> owned m t s r" and "kept \<Longrightarrow> \<forall>r. mo_id m (f r) = mo_id m r"
  shows "wp (change_rows m (Some t) P f) (shows_own t kept s) (\<lambda>_ s'. s' = s) s"
  using moves_change [OF assms(1) _ _ assms(2)]
  by (auto simp: change_rows_def with_check_def check_keys_def wp_simps shows_own_def row_visible_owned [abs_def])

lemma wp_scope: "wp (scope m client tenant call args) (\<lambda>_ s'. s' = s) (\<lambda>_ s'. s' = s) s"
  by (auto simp: scope_def wp_simps split: option.split sum.split client.split)

lemma wp_prisma: "wp (prisma m (Some t) (client, call, req)) (shows_own t (keeps_keys m req) s)
    (\<lambda>_. moves m t (keeps_keys m req) s) s"
proof (cases req)
  case (PrismaRead args P)
  have "shows_own t kept s (one_of b (filter (selected m (Some t) a P s) (mo_rows m s))) s" for b a kept
    by (auto simp: shows_own_def moves_refl one_of_def list_all_iff dest!: in_set_takeD selected_owned)
  with PrismaRead show ?thesis
    by (auto simp: wp_bindM wp_thenM wp_reads wp_ensure wp_ret moves_refl intro!: wp_mono [OF wp_scope])
next
  case (PrismaUpdate args P f)
  have "wp (change_rows m (Some t) (selected m (Some t) a P s) f)
      (\<lambda>x. wp (thenM (ensure (b x) e) (ret x)) (shows_own t (keeps_keys m req) s) (\<lambda>_. moves m t (keeps_keys m req) s))
      (\<lambda>_. moves m t (keeps_keys m req) s) s" for a b e
    by (rule wp_mono [OF wp_change_rows])
      (auto simp: wp_thenM wp_ensure wp_ret PrismaUpdate moves_refl shows_own_def dest: selected_owned)
  with PrismaUpdate show ?thesis
    by (auto simp: wp_bindM wp_reads moves_refl simp del: keeps_keys.simps intro!: wp_mono [OF wp_scope])
next
  case (PrismaDelete args P)
  have "moves m t False s (mo_update m (filter (\<lambda>r. \<not> selected m (Some t) a P s r)) s)" for a
    by (rule moves_delete) (rule selected_owned)
  moreover have "list_all (owned m t s) (filter (selected m (Some t) a P s) (mo_rows m s))" for a
    by (auto simp: list_all_iff dest!: selected_owned)
  ultimately show ?thesis
    using PrismaDelete
    by (auto simp: wp_bindM wp_thenM wp_reads wp_ensure wp_ret wp_modifyM shows_own_def moves_refl intro!: wp_mono [OF wp_scope])
next
  case (PrismaUpsert args P f new)
  have "wp (if b then insert_rows m (Some t) [new] else change_rows m (Some t) (selected m (Some t) a P s) f)
      (shows_own t (keeps_keys m req) s) (\<lambda>_. moves m t (keeps_keys m req) s) s" for a b
    using wp_mono [OF wp_insert_rows [of t "[new]" "keeps_keys m req" s]]
      wp_mono [OF wp_change_rows [of "selected m (Some t) a P s" t s "keeps_keys m req" f]] selected_owned PrismaUpsert
    by (cases b) (auto simp: moves_refl)
  with PrismaUpsert show ?thesis
    by (auto simp: wp_bindM wp_reads moves_refl simp del: keeps_keys.simps intro!: wp_mono [OF wp_scope])
next
  case (PrismaCreate args new)
  have "wp (insert_rows m (Some t) new) (shows_own t kept s) (\<lambda>_. moves m t kept s) s" for new kept
    by (rule wp_mono [OF wp_insert_rows]) (simp_all add: moves_refl)
  with PrismaCreate show ?thesis
    by (auto simp: wp_bindM moves_refl intro!: wp_mono [OF wp_scope])
next
  case (PrismaCreateMany new)
  then show ?thesis
    by (auto simp: moves_refl intro: wp_mono [OF wp_insert_rows])
qed

text \<open>A client of the table: what holds of every move of the table holds after a call.\<close>

lemma prisma_cases:
  assumes "prisma m (Some t) q s = (r, s')"
  shows "moves m t (keeps_keys m (snd (snd q))) s s' \<and> (\<forall>rows. r = Inr rows \<longrightarrow> list_all (owned m t s) rows)"
  using wp_prisma [of t "fst q" "fst (snd q)" "snd (snd q)" s] assms
  by (cases r) (auto simp: wp_def shows_own_def)

end

text \<open>A transaction of one workshop cannot be joined by another; what it had done is undone.\<close>

lemma foreign_context:
  assumes "t \<noteq> t'" and "m s = (Inr x, s1)"
  shows "in_context None t (\<lambda>active. thenM m (in_context active t' callback)) s =
    (Inl (ForbiddenException ''Cannot change tenant inside a transaction.''), s)"
  using assms by (simp add: in_context_def monad_defs)

end
