(* ===== verification/NoticeRules.thy ===== *)
theory NoticeRules
  imports Notices Service
begin

text \<open>
  What the notifications keep: customers are not disturbed at night, a notification reaches exactly
  the staff it is for, nobody changes the inbox of somebody else, and the badge counts the inbox.
\<close>

section \<open>Quiet hours\<close>

lemma local_minutes_flat: "local_minutes t = (t div 60000 + 180) mod 1440"
proof -
  have hours: "t div 3600000 = t div 60000 div 60"
    using zdiv_zmult2_eq [of 60 t 60000] by simp
  have "(x div 60 mod 24 + 3) mod 24 * 60 + x mod 60 = (x + 180) mod 1440" for x :: int
  proof -
    have "(x + 180) mod (60 * 24) = 60 * ((x + 180) div 60 mod 24) + (x + 180) mod 60"
      by (rule zmod_zmult2_eq) simp
    moreover have "(x + 180) div 60 = x div 60 + 3"
      by simp
    moreover have "(x + 180) mod 60 = x mod 60"
      using mod_mult_self1 [of x 3 60] by simp
    ultimately show ?thesis
      by (simp add: mod_add_left_eq)
  qed
  then show ?thesis
    by (simp add: local_minutes_def Let_def hours)
qed

definition awake :: "int \<Rightarrow> bool" where
  "awake t \<longleftrightarrow> 8 * 60 + 30 \<le> local_minutes t \<and> local_minutes t < 21 * 60 + 30"

lemma night_delay_day: "awake t \<Longrightarrow> night_delay t = 0"
  by (simp add: awake_def night_delay_def Let_def)

lemma night_delay_night:
  assumes "\<not> awake t"
  shows "local_minutes (t + night_delay t) = 9 * 60 \<and> 0 < night_delay t \<and> night_delay t < 12 * 60 * 60 * 1000"
proof -
  define x where "x = t div 60000"
  define m where "m = (x + 180) mod 1440"
  define k where "k = (if m \<ge> 1290 then 1980 - m else 540 - m)"
  have range: "0 \<le> m" "m < 1440" and night: "m < 510 \<or> 1290 \<le> m"
    using assms by (auto simp: m_def x_def awake_def local_minutes_flat)
  have k: "night_delay t = k * 60000"
    using night by (auto simp: night_delay_def Let_def local_minutes_flat k_def m_def x_def)
  have "local_minutes (t + night_delay t) = (x + k + 180) mod 1440"
    unfolding local_minutes_flat k x_def by (simp add: algebra_simps)
  also have "x + k + 180 = (x + 180) + k"
    by simp
  also have "((x + 180) + k) mod 1440 = (m + k) mod 1440"
    by (simp only: m_def mod_add_left_eq)
  also have "(m + k) mod 1440 = 540"
    by (simp add: k_def)
  finally show ?thesis
    using range night by (auto simp: k k_def)
qed

text \<open>A delayed job is one at night, and it is due at nine.\<close>

definition job_timed :: "ctx \<Rightarrow> notice \<Rightarrow> effect \<Rightarrow> bool" where
  "job_timed cx dto e \<longleftrightarrow> (case e of
     QueueJob kind recip delay \<Rightarrow>
       if truthy (nd_customerMessage dto) \<and> truthy (nd_recipientPhone dto) \<and> \<not> awake (now cx)
       then local_minutes (now cx + int delay) = 9 * 60 \<and> 0 < delay \<and> delay < 12 * 60 * 60 * 1000
       else delay = 0
   | _ \<Rightarrow> True)"

definition added :: "(effect \<Rightarrow> bool) \<Rightarrow> effect list \<Rightarrow> db \<Rightarrow> bool" where
  "added P before s \<longleftrightarrow> (\<exists>es. outbox s = before @ es \<and> list_all P es)"

lemma keeps_added_emit: "P e \<Longrightarrow> keeps (added P before) (emit e)"
  unfolding keeps_def added_def by (auto simp: wp_simps)

lemma added_frames [simp]:
  "added P before (id_supply_update f1 s) = added P before s" "added P before (notifications_update f2 s) = added P before s"
  by (simp_all add: added_def)

lemma keeps_notice_rows:
  assumes "\<And>f s. I (id_supply_update f s) = I s" and "\<And>f s. I (notifications_update f s) = I s"
  shows "keeps I (add_inbox_row cx dto uid)"
  unfolding add_inbox_row_def fresh_id_def
  by (intro keeps_intros keeps_ignore keeps_add_row assms(2)) (simp add: keeps_def wp_simps assms(1))

lemma keeps_notice_reads [keeps_intros]:
  "keeps I (target_users dto)" "keeps I (tenant_settings dto)" "keeps I (findAll_notices q)"
  unfolding target_users_def tenant_settings_def findAll_notices_def Let_def by (intro keeps_intros)+

lemma keeps_added_notice:
  assumes "\<And>kind recip. P (QueueJob kind recip (job_delay cx dto))"
    and "\<And>k key. P (WsUser k ''notification:new'' key)" and "\<And>t a r. P (WsStaff t a r ''notification:new'')"
    and "P (WsAdmin ''notification:new'')"
  shows "keeps (added P before) (createNotification cx dto)"
proof -
  have send: "keeps (added P before) (send_job wanted kind recip (job_delay cx dto))" for wanted kind recip
    unfolding send_job_def by (intro keeps_intros keeps_added_emit assms(1))
  have "keeps (added P before) (broadcast dto)"
    unfolding broadcast_def by (intro keeps_intros keeps_added_emit assms)
  then show ?thesis
    unfolding createNotification_def Let_def
    by (intro keeps_intros send keeps_notice_rows) simp_all
qed

lemma quiet_hours: "added (job_timed cx dto) (outbox s) (snd (createNotification cx dto s))"
proof (rule keepsD)
  have "job_timed cx dto (QueueJob kind recip (job_delay cx dto))" for kind recip
    using night_delay_night [of "now cx"] night_delay_day [of "now cx"] by (auto simp: job_timed_def job_delay_def)
  then show "keeps (added (job_timed cx dto) (outbox s)) (createNotification cx dto)"
    by (intro keeps_added_notice) (simp_all add: job_timed_def)
  show "added (job_timed cx dto) (outbox s) s"
    by (simp add: added_def)
qed

section \<open>Who gets a row\<close>

lemma wp_fan_out:
  assumes "nd_userId dto = None" and "nd_tenantId dto = Some t" and "t \<noteq> []"
  shows "wp (createNotification cx dto) (\<lambda>_ s'. \<exists>rows. notifications s' = notifications s @ rows \<and>
      list_all2 (\<lambda>n u. \<exists>ident. n = inbox_row dto (u_id u) ident) rows (filter (recipient dto t) (users s)))
    (\<lambda>_ _. False) s"
proof -
  let ?us = "filter (recipient dto t) (users s)"
  let ?added = "\<lambda>ks s'. \<exists>rows. notifications s' = notifications s @ rows \<and>
      list_all2 (\<lambda>n k. \<exists>ident. n = inbox_row dto k ident) rows ks"
  have loop: "wp (for_each ks (add_inbox_row cx dto)) (\<lambda>_. ?added (pre @ ks)) (\<lambda>_ _. False) s'" if "?added pre s'" for pre ks s'
    using that
  proof (induction ks arbitrary: pre s')
    case (Cons k ks)
    then obtain rows where rows: "notifications s' = notifications s @ rows"
        "list_all2 (\<lambda>n k. \<exists>ident. n = inbox_row dto k ident) rows pre"
      by blast
    let ?s1 = "s'\<lparr>id_supply := Suc (id_supply s')\<rparr>"
    let ?row = "inbox_row dto k (gen_id cx (id_supply s'))"
    have "?added (pre @ [k]) (notifications_update (\<lambda>r. r @ [?row]) ?s1)"
      using rows by (auto intro!: exI [of _ "rows @ [?row]"] list_all2_appendI)
    from Cons.IH [OF this] show ?case
      by (simp add: add_inbox_row_def wp_simps ignore_def)
  qed (simp add: wp_simps)
  have frame: "wp (for_each ks (add_inbox_row cx dto)) (\<lambda>_. ?added ks) (\<lambda>_ _. False) s" for ks
    using loop [of s "[]" ks] by simp
  have same: "list_all2 (\<lambda>n k. \<exists>ident. n = inbox_row dto k ident) rows (map u_id ?us) \<Longrightarrow>
      list_all2 (\<lambda>n u. \<exists>ident. n = inbox_row dto (u_id u) ident) rows ?us" for rows
    by (simp add: list_all2_map2)
  have or: "or_null (Some t) = Some t"
    using assms(3) by simp
  have ws: "wp (broadcast dto) (\<lambda>_ s'. notifications s' = ns) (\<lambda>_ _. False) s'" if "notifications s' = ns" for ns s'
    using that assms by (simp add: broadcast_def wp_simps or)
  show ?thesis
    unfolding createNotification_def target_users_def tenant_settings_def Let_def using assms(1,2)
    by (auto simp: wp_simps or truthy_def send_job_def broadcast_def split: option.split
      intro!: wp_mono [OF frame] dest!: same)
qed

section \<open>Nobody changes the inbox of somebody else\<close>

definition inbox_of :: "uuid \<Rightarrow> db \<Rightarrow> notification list" where
  "inbox_of u s = filter (\<lambda>n. nt_userId n = Some u) (notifications s)"

lemma inbox_frames [simp]:
  "inbox_of u (id_supply_update f1 s) = inbox_of u s" "inbox_of u (outbox_update f2 s) = inbox_of u s"
  by (simp_all add: inbox_of_def)

lemma keeps_inbox_emit: "keeps (\<lambda>s. inbox_of u s = R) (emit e)"
  by (simp add: keeps_def wp_simps)

lemma keeps_read_event: "keeps (\<lambda>s. inbox_of u s = R) (read_event w event key)"
  unfolding read_event_def by (intro keeps_intros keeps_inbox_emit)

lemma keeps_inbox_row: "k \<noteq> u \<Longrightarrow> keeps (\<lambda>s. inbox_of u s = R) (add_inbox_row cx dto k)"
  unfolding add_inbox_row_def ignore_def
  by (auto simp: keeps_def wp_simps inbox_of_def inbox_row_def)

lemma others_filter:
  assumes "\<And>n. n \<in> set ns \<Longrightarrow> nt_userId n = Some u \<Longrightarrow> f n = n" and "\<And>n. nt_userId (f n) = nt_userId n"
  shows "filter (\<lambda>n. nt_userId n = Some u) (map f ns) = filter (\<lambda>n. nt_userId n = Some u) ns"
  using assms by (induction ns) auto

lemma not_own: "k \<noteq> [] \<Longrightarrow> k \<noteq> u \<Longrightarrow> nt_userId n = Some u \<Longrightarrow> \<not> own_rows t (Some k) n"
  by (simp add: own_rows_def asked_for_def)

lemma keeps_inbox_update:
  assumes "k \<noteq> []" "k \<noteq> u" and "\<And>n. P n \<Longrightarrow> own_rows t (Some k) n"
  shows "keeps (\<lambda>s. inbox_of u s = R) (update_where notifications notifications_update P (mark_read d))"
proof -
  have "filter (\<lambda>n. nt_userId n = Some u) (map (\<lambda>n. if P n then mark_read d n else n) ns) = filter (\<lambda>n. nt_userId n = Some u) ns" for ns
    using not_own [OF assms(1,2)] assms(3) by (intro others_filter) (auto simp: mark_read_def)
  then show ?thesis
    by (simp add: keeps_def wp_simps inbox_of_def)
qed

lemma keeps_inbox_drop:
  assumes "k \<noteq> []" "k \<noteq> u"
  shows "keeps (\<lambda>s. inbox_of u s = R) (modifyM (notifications_update (filter (\<lambda>n. \<not> (nt_id n = i \<and> own_rows t (Some k) n)))))"
proof -
  have "filter (\<lambda>n. nt_userId n = Some u) (filter (\<lambda>n. \<not> (nt_id n = i \<and> own_rows t (Some k) n)) ns) =
      filter (\<lambda>n. nt_userId n = Some u) ns" for ns
    using not_own [OF assms] by (induction ns) auto
  then show ?thesis
    by (simp add: keeps_def wp_simps inbox_of_def)
qed

definition somebody_else :: "uuid \<Rightarrow> ctx \<times> identity \<times> inbox_request \<Rightarrow> bool" where
  "somebody_else u q \<longleftrightarrow> id_userId (fst (snd q)) \<noteq> u \<and> id_userId (fst (snd q)) \<noteq> []"

lemma handle_inbox_private: "somebody_else u q \<Longrightarrow> keeps (\<lambda>s. inbox_of u s = R) (handle_inbox q)"
proof (cases q rule: handle_inbox.cases)
  case (4 cx who)
  assume "somebody_else u q"
  with 4 have who: "id_userId who \<noteq> u" "id_userId who \<noteq> []"
    by (simp_all add: somebody_else_def)
  have "target_users (test_notice who) = ret [id_userId who]"
    using who by (simp add: target_users_def test_notice_def)
  with 4 who show ?thesis
    by (auto simp: createNotification_def bind_known broadcast_def send_job_def Let_def
      intro!: keeps_ignore keeps_intros keeps_inbox_row keeps_inbox_emit)
next
  case (3 cx who k)
  assume "somebody_else u q"
  with 3 show ?thesis
    by (simp only: handle_inbox.simps remove_notice_def) (intro keeps_intros keeps_read_event keeps_inbox_drop;
      simp add: somebody_else_def)
qed (auto simp: somebody_else_def markAsRead_def markAllAsRead_def
    intro!: keeps_ignore keeps_intros keeps_read_event keeps_inbox_update)

text \<open>All that happens to an inbox from outside: unread notifications come in.\<close>

definition inbox_grows :: "uuid \<Rightarrow> notification list \<Rightarrow> db \<Rightarrow> bool" where
  "inbox_grows u before s \<longleftrightarrow> (\<exists>new. inbox_of u s = before @ new \<and> list_all (\<lambda>n. \<not> nt_isRead n) new)"

lemma inbox_grows_refl: "inbox_grows u (inbox_of u s) s"
  by (simp add: inbox_grows_def)

lemma inbox_grows_frames [simp]:
  "inbox_grows u before (id_supply_update f1 s) = inbox_grows u before s"
  "inbox_grows u before (outbox_update f2 s) = inbox_grows u before s"
  by (simp_all add: inbox_grows_def)

lemma inbox_grows_add:
  "\<not> nt_isRead n \<Longrightarrow> inbox_grows u before s \<Longrightarrow> inbox_grows u before (notifications_update (\<lambda>r. r @ [n]) s)"
  by (fastforce simp: inbox_grows_def inbox_of_def)

lemma keeps_grows_emit: "keeps (inbox_grows u before) (emit e)"
  by (simp add: keeps_def wp_simps)

lemma keeps_grows_row: "keeps (inbox_grows u before) (add_inbox_row cx dto k)"
  unfolding add_inbox_row_def ignore_def
  by (auto simp: keeps_def wp_simps inbox_row_def intro: inbox_grows_add)

lemma keeps_grows_notice: "keeps (inbox_grows u before) (createNotification cx dto)"
  unfolding createNotification_def broadcast_def send_job_def Let_def
  by (intro keeps_intros keeps_grows_row keeps_grows_emit)

lemma keeps_grows_reminder: "keeps (inbox_grows u before) (handleAppointmentReminder cx sendSms k)"
  unfolding handleAppointmentReminder_def Let_def ignore_def
  by (auto simp: keeps_def wp_simps reminder_row_def split: option.splits intro: inbox_grows_add)

datatype notice_event =
    InboxCall "ctx \<times> identity \<times> inbox_request"
  | NoticeCreated ctx notice
  | ReminderDue ctx "string \<Rightarrow> bool" uuid

fun handle_notices :: "notice_event \<Rightarrow> unit dbM" where
  "handle_notices (InboxCall q) = handle_inbox q"
| "handle_notices (NoticeCreated cx dto) = ignore (createNotification cx dto)"
| "handle_notices (ReminderDue cx sendSms k) = handleAppointmentReminder cx sendSms k"

fun not_by :: "uuid \<Rightarrow> notice_event \<Rightarrow> bool" where
  "not_by u (InboxCall q) = somebody_else u q"
| "not_by u _ = True"

lemma handle_notices_grows: "not_by u q \<Longrightarrow> keeps (inbox_grows u before) (handle_notices q)"
proof (cases q)
  case (InboxCall x)
  assume "not_by u q"
  with InboxCall have "keeps (\<lambda>s. inbox_of u s = R) (handle_inbox x)" for R
    by (simp add: handle_inbox_private)
  then have "keeps (inbox_grows u before) (handle_inbox x)"
    by (simp add: keeps_def inbox_grows_def wp_any)
  with InboxCall show ?thesis by simp
qed (simp_all add: keeps_ignore keeps_grows_notice keeps_grows_reminder)

interpretation inbox_growth: service_contract handle_notices "\<lambda>q _. not_by u q" "inbox_grows u before" for u before
  by unfold_locales (use handle_notices_grows in \<open>auto simp: keeps_def\<close>)

section \<open>The badge counts the inbox\<close>

definition whole_inbox :: "uuid option \<Rightarrow> uuid option \<Rightarrow> UserRole option \<Rightarrow> bool \<Rightarrow> int option \<Rightarrow> int option \<Rightarrow> inbox_query" where
  "whole_inbox t u r unread page limit = \<lparr>iq_tenantId = t, iq_userId = u, iq_role = r, iq_category = None,
     iq_unreadOnly = unread, iq_page = page, iq_limit = limit\<rparr>"

lemma wp_badge:
  "wp (findAll_notices (whole_inbox t u r unread page limit))
    (\<lambda>p s'. s' = s \<and> getUnreadCount t u r s = (Inr (ib_unreadCount p), s)) (\<lambda>_ _. False) s"
proof -
  have badge: "wp (getUnreadCount t u r) (\<lambda>n s'. s' = s \<and> n = length (filter (\<lambda>n. \<not> nt_isRead n)
      (filter (inbox_filter (whole_inbox t u r unread page limit)) (notifications s)))) (\<lambda>_ _. False) s"
    by (auto simp: getUnreadCount_def wp_simps inbox_filter_def in_category_def category_filter_def whole_inbox_def
      intro!: arg_cong [where f = length] filter_cong)
  then have "getUnreadCount t u r s = (Inr (length (filter (\<lambda>n. \<not> nt_isRead n)
      (filter (inbox_filter (whole_inbox t u r unread page limit)) (notifications s)))), s)"
    by (intro returns_with) (simp add: conj_commute)
  then show ?thesis
    by (simp add: findAll_notices_def category_filter_def whole_inbox_def Let_def wp_simps)
qed

text \<open>Technicians and warehouse keepers see no financial notification, whatever they ask for.\<close>

lemma wp_no_finance:
  assumes "no_finance (iq_role q)"
  shows "wp (findAll_notices q) (\<lambda>p s'. s' = s \<and> list_all (\<lambda>n. nt_category n \<noteq> ''FINANCE'') (ib_data p)) (\<lambda>_ _. False) s"
proof -
  have "nt_category n \<noteq> ''FINANCE''" if "inbox_filter q n" "category_filter q \<noteq> Some ''FINANCE''" for n
    using that assms by (auto simp: inbox_filter_def in_category_def split: option.splits)
  then show ?thesis
    using assms by (auto simp: findAll_notices_def Let_def wp_simps list_all_iff dest!: in_set_takeD in_set_dropD)
qed

text \<open>A reminder's row names no user, so no inbox lists it.\<close>

lemma reminder_unseen: "truthy (iq_userId q) \<Longrightarrow> \<not> inbox_filter q (reminder_row t plate i)"
  by (auto simp: inbox_filter_def own_rows_def asked_for_def reminder_row_def truthy_def split: option.splits)

end
