(* ===== verification/GateRules.thy ===== *)
theory GateRules
  imports GuardRules NoticeRules
begin

text \<open>
  The contract between a workshop and the platform: until the management signs, the guard refuses
  every request of the workshop; a signature opens it for good, and leaves the evidence.
\<close>

section \<open>What the guards let through\<close>

definition identity_of :: "claims \<Rightarrow> identity" where
  "identity_of c = \<lparr>id_userId = cl_sub c, id_role = cl_role c, id_tenantId = or_null (cl_tenantId c)\<rparr>"

lemma read_only_find_rows [atomic_intros]: "read_only (find_first sel P)" "read_only (find_many sel' P')"
  by (simp_all add: find_first_def find_many_def atomic_intros)

lemma wp_read_only: "read_only m \<Longrightarrow> wp m Q E s \<Longrightarrow> wp m (\<lambda>x s'. s' = s \<and> Q x s) (\<lambda>e s'. s' = s \<and> E e s) s"
  unfolding read_only_def wp_def by (smt (verit) sum.case_eq_if snd_conv prod.case_eq_if)

lemma read_only_authenticate: "read_only (authenticate env tok)"
  unfolding authenticate_def validate_def validateAccessIdentity_def tenant_of_def redis_get_def Let_def
  by (rule atomic_intros | rule allI impI)+

lemma wp_authenticate: "wp (authenticate env tok)
    (\<lambda>w s'. s' = s \<and> (\<exists>c. en_verify env (en_now env) tok = Some c \<and> w = identity_of c)) (\<lambda>_ s'. s' = s) s"
proof -
  have checked: "wp (validateAccessIdentity env c) (\<lambda>_ _. True) (\<lambda>_ _. True) s'" for c s'
    by (simp add: wp_def split: prod.split sum.split)
  have "wp (authenticate env tok) (\<lambda>w _. \<exists>c. en_verify env (en_now env) tok = Some c \<and> w = identity_of c) (\<lambda>_ _. True) s"
    unfolding authenticate_def validate_def wp_bindM wp_require
    by (cases "en_verify env (en_now env) tok")
      (auto simp: wp_simps identity_of_def split: option.split intro!: wp_mono [OF checked])
  from wp_read_only [OF read_only_authenticate this] show ?thesis
    by (rule wp_mono) auto
qed

definition contract_open :: "uuid \<Rightarrow> db \<Rightarrow> bool" where
  "contract_open t s \<longleftrightarrow> (case find (\<lambda>x. t_id x = t) (tenants s) of None \<Rightarrow> False | Some x \<Rightarrow> t_b2bConsentAccepted x)"

text \<open>The claims, the role and the contract of a caller that passes.\<close>

definition passes :: "route \<Rightarrow> claims \<Rightarrow> db \<Rightarrow> bool" where
  "passes route c s \<longleftrightarrow> (ro_roles route \<noteq> [] \<longrightarrow> cl_role c \<in> set (ro_roles route)) \<and>
     (\<not> ro_bypassB2bConsent route \<and> cl_role c \<noteq> SUPER_ADMIN \<and> truthy (cl_tenantId c) \<longrightarrow> contract_open (the (cl_tenantId c)) s)"

lemma wp_guards: "wp (guards env route tok)
    (\<lambda>who s'. s' = s \<and> (if ro_public route then who = None
       else \<exists>c. en_verify env (en_now env) tok = Some c \<and> who = Some (identity_of c) \<and> passes route c s))
    (\<lambda>_ s'. s' = s) s"
proof (cases "ro_public route")
  case True
  then show ?thesis
    by (auto simp: guards_def token_guard_def legal_gate_def roles_and_permissions_def wp_simps)
next
  case False
  have rest: "wp (thenM (legal_gate route (Some (identity_of c))) (thenM (roles_and_permissions route (Some (identity_of c)))
      (ret (Some (identity_of c))))) (\<lambda>who s'. s' = s \<and> who = Some (identity_of c) \<and> passes route c s) (\<lambda>_ s'. s' = s) s" for c
    using False by (auto simp: legal_gate_def roles_and_permissions_def roles_guard_def wp_simps passes_def identity_of_def
      contract_open_def truthy_def or_null_def split: option.split if_splits)
  from False show ?thesis
    by (auto simp: guards_def token_guard_def wp_bindM wp_ret intro!: wp_mono [OF wp_authenticate] wp_mono [OF rest])
qed

section \<open>Requests behind the guards\<close>

text \<open>
  An invariant of the store that looks at the contracts only: it does not read the tables of the
  handlers, and the few steps that write workshops or consents keep it. A signature is left to the
  condition \<open>ok\<close> on requests.
\<close>

lemma keeps_read_only: "read_only m \<Longrightarrow> keeps I m"
  by (simp add: keeps_def wp_any read_only_def)

lemma keeps_fresh: "(\<And>f s. I (id_supply_update f s) = I s) \<Longrightarrow> keeps I (fresh_id cx)"
  by (simp add: keeps_def wp_simps)

lemma keeps_emit: "(\<And>f s. I (outbox_update f s) = I s) \<Longrightarrow> keeps I (emit e)"
  by (simp add: keeps_def wp_simps)

lemma keeps_modify_frame: "(\<And>s. I (f s) = I s) \<Longrightarrow> keeps I (modifyM f)"
  by (simp add: keeps_def wp_simps)

locale api_keeper =
  fixes I :: "db \<Rightarrow> bool" and sv :: api_server and ok :: "int \<times> string \<times> api_request \<Rightarrow> bool"
  assumes frames: "I (users_update f1 s) = I s" "I (mechanics_update f2 s) = I s" "I (services_update f3 s) = I s"
      "I (workshop_bays_update f4 s) = I s" "I (notification_settings_update f5 s) = I s" "I (notifications_update f6 s) = I s"
      "I (id_supply_update f7 s) = I s" "I (outbox_update f8 s) = I s"
    and profile: "keeps I (update_by tenants tenants_update t_id t (updated_tenant p))"
    and wizard: "keeps I (update_by tenants tenants_update t_id t (onboarded d))"
    and choice: "keeps I (update_by tenant_consents tenant_consents_update tc_id i (\<lambda>c. c\<lparr>tc_marketingAccepted := b\<rparr>))"
    and preference: "keeps I (create_consent (preference_row cx t u b i))"
    and signing: "ok (time, tok, ContractApi (SignContract dto)) \<Longrightarrow> keeps I (api sv (time, tok, ContractApi (SignContract dto)))"
begin

lemma small [keeps_intros]: "keeps I (fresh_id cx)" "keeps I (emit e)"
  by (simp_all add: keeps_fresh keeps_emit frames)

lemma marketing: "keeps I (updateMarketingConsent cx t b)"
  unfolding updateMarketingConsent_def latest_consent_def
  by (rule keeps_intros keeps_ignore choice preference | rule allI impI)+

lemma contract: "(\<And>dto. q \<noteq> SignContract dto) \<Longrightarrow> keeps I (handle_contract cx h t u q)"
  by (cases q) (auto simp: getTenantConsentStatus_def latest_consent_def processPublicOptOut_def optout_tenant_def
    intro!: keeps_intros keeps_ignore marketing)

lemma bays [keeps_intros]: "keeps I (insert_bay b)" "keeps I (bay_index t n i)" "keeps I (tenant_bays t)"
  unfolding insert_bay_def bay_index_def tenant_bays_def by (rule keeps_intros keeps_frame frames)+

lemma catalogue_rows [keeps_intros]: "keeps I (insert_service v)" "keeps I (findOne_service t k)"
  unfolding insert_service_def findOne_service_def by (rule keeps_intros keeps_frame frames)+

lemma onboarding: "keeps I (completeOnboarding cx t dto)"
proof -
  have "keeps I (onboard_services cx t n ss)" for n ss
    by (induction ss arbitrary: n) (auto intro!: keeps_intros)
  moreover have "keeps I (onboard_one cx t b st)" for b st
    unfolding onboard_one_def Let_def by (rule keeps_intros keeps_ignore keeps_frame frames | rule allI impI)+
  moreover have "keeps I (onboard_bays cx t n)" for n
    unfolding onboard_bays_def Let_def by (rule keeps_intros keeps_ignore | rule allI impI)+
  ultimately show ?thesis
    unfolding completeOnboarding_def by (intro keeps_intros wizard)
qed

lemma workshop: "keeps I (handle_workshop cx col t q)"
proof -
  have "keeps I (getBays cx t)"
    unfolding getBays_def insert_standard_bay_def by (rule keeps_intros keeps_ignore | simp split: prod.split | rule allI impI)+
  moreover have "keeps I (createBay cx t n d)" "keeps I (updateBay t k d)" "keeps I (deleteBay t k)" for n k d
    unfolding createBay_def updateBay_def deleteBay_def by (rule keeps_intros keeps_frame frames | rule allI impI)+
  moreover have "keeps I (getCurrent t)" "keeps I (getBySlugPublic col slug)" for slug
    unfolding getCurrent_def getBySlugPublic_def by (rule keeps_intros)+
  moreover have "keeps I (getNotificationSettings t)" "keeps I (updateNotificationSettings t d)" for d
    unfolding getNotificationSettings_def updateNotificationSettings_def by (rule keeps_intros keeps_frame frames | rule allI impI)+
  ultimately show ?thesis
    by (cases q) (simp_all add: keeps_ignore onboarding updateCurrent_def keeps_thenM profile)
qed

lemma catalogue: "keeps I (handle_catalogue cx col t q)"
  by (cases q; simp only: handle_catalogue.simps findAll_services_def create_service_def update_service_def remove_service_def Let_def)
    (rule keeps_intros keeps_ignore keeps_frame frames | rule allI impI)+

lemma inbox: "keeps I (handle_inbox q)"
proof -
  have sends: "keeps I (read_event u e k)" for u e k
    unfolding read_event_def by (rule keeps_intros)+
  have "keeps I (createNotification cx n)" for cx n
    unfolding createNotification_def send_job_def broadcast_def Let_def
    by (rule keeps_intros keeps_notice_rows frames | rule allI impI)+
  moreover have "keeps I (remove_notice k t u)" "keeps I (markAsRead cx k t u)" "keeps I (markAllAsRead cx t u)" for cx k t u
    unfolding remove_notice_def markAsRead_def markAllAsRead_def
    by (rule keeps_intros keeps_ignore sends keeps_frame frames keeps_modify_frame)+
  ultimately show ?thesis
    by (cases q rule: handle_inbox.cases) (simp_all add: keeps_ignore keeps_notice_reads)
qed

lemma guards_keep: "keeps I (guards env route tok)"
  unfolding keeps_def by (auto intro: wp_mono [OF wp_guards])

lemma api_keeps: "ok q \<Longrightarrow> keeps I (api sv q)"
proof -
  assume ok: "ok q"
  obtain time tok r where q: "q = (time, tok, r)"
    by (cases q)
  show ?thesis
  proof (cases "\<exists>dto. r = ContractApi (SignContract dto)")
    case True
    with ok show ?thesis
      by (auto simp: q signing)
  next
    case False
    then have "keeps I (api_handler sv' r who)" for sv' who
      by (cases r) (auto simp: contract workshop catalogue inbox intro: keeps_intros split: option.split)
    then show ?thesis
      by (simp add: q api_def guarded_def keeps_bindM guards_keep)
  qed
qed

end

sublocale api_keeper \<subseteq> kept: service_contract "api sv" "\<lambda>q _. ok q" I
  by unfold_locales (use api_keeps in \<open>auto simp: keeps_def\<close>)

section \<open>The contract\<close>

definition contract_shut :: "uuid \<Rightarrow> db \<Rightarrow> bool" where
  "contract_shut t s \<longleftrightarrow> list_all (\<lambda>x. t_id x = t \<longrightarrow> \<not> t_b2bConsentAccepted x) (tenants s)"

text \<open>A request that signs for workshop \<open>t\<close>: the management, with both acceptances.\<close>

fun signs :: "api_server \<Rightarrow> uuid \<Rightarrow> int \<times> string \<times> api_request \<Rightarrow> bool" where
  "signs sv t (time, tok, ContractApi (SignContract dto)) \<longleftrightarrow> sd_saasTermsAccepted dto \<and> sd_dataProcessingAccepted dto \<and>
     (case en_verify (ap_env sv) time tok of None \<Rightarrow> False
      | Some c \<Rightarrow> or_else (cl_tenantId c) [] = t \<and> cl_role c \<in> {OWNER, SERVICE_MANAGER})"
| "signs sv t q \<longleftrightarrow> False"

text \<open>An accepted contract has a row with the signature of the contract text.\<close>

definition evidence_of :: "string \<Rightarrow> uuid \<Rightarrow> tenant_consent \<Rightarrow> bool" where
  "evidence_of textHash t c \<longleftrightarrow> tc_tenantId c = t \<and> tc_verifiedVia c = ''WEB_DIGITAL_SIGNATURE'' \<and> tc_payloadHash c = textHash \<and>
     tc_saasTermsAccepted c \<and> tc_dataProcessingAccepted c"

definition contracts_evident :: "string \<Rightarrow> db \<Rightarrow> bool" where
  "contracts_evident textHash s \<longleftrightarrow>
     list_all (\<lambda>x. t_b2bConsentAccepted x \<longrightarrow> list_ex (evidence_of textHash (t_id x)) (tenant_consents s)) (tenants s)"

lemma contract_frames [simp]:
  "contract_shut t (tenant_consents_update g s) = contract_shut t s" "contract_open t (tenant_consents_update g s) = contract_open t s"
  "contract_shut t (id_supply_update f s) = contract_shut t s" "contract_open t (id_supply_update f s) = contract_open t s"
  "contracts_evident h (id_supply_update f s) = contracts_evident h s"
  by (simp_all add: contract_shut_def contract_open_def contracts_evident_def)

lemma find_update_row:
  "(\<And>x. t_id (f x) = t_id x) \<Longrightarrow> find (\<lambda>x. t_id x = k) (update_row t_id t f rows) =
     (if k = t then map_option f (find (\<lambda>x. t_id x = k) rows) else find (\<lambda>x. t_id x = k) rows)"
  by (induction rows) auto

text \<open>Updates of a workshop that leave its contract alone.\<close>

lemma keeps_contract_update:
  assumes "\<And>x. t_id (f x) = t_id x" and "\<And>x. t_b2bConsentAccepted (f x) = t_b2bConsentAccepted x"
  shows "keeps (contract_shut t) (update_by tenants tenants_update t_id k f)"
    and "keeps (contract_open t) (update_by tenants tenants_update t_id k f)"
    and "keeps (contracts_evident h) (update_by tenants tenants_update t_id k f)"
  using assms by (auto simp: keeps_def wp_simps contract_shut_def contracts_evident_def contract_open_def find_update_row
    intro!: list_all_update_rowI split: option.splits)

lemma keeps_consent_row: "keeps (contracts_evident h) (create_consent c)"
  by (auto simp: keeps_def create_consent_def wp_simps contracts_evident_def list_all_iff)

lemma keeps_consent_rows:
  "keeps (contract_shut t) (create_consent c)" "keeps (contract_open t) (create_consent c)"
  "keeps (contract_shut t) (update_by tenant_consents tenant_consents_update tc_id i g)"
  "keeps (contract_open t) (update_by tenant_consents tenant_consents_update tc_id i g)"
  unfolding create_consent_def by (rule keeps_intros keeps_frame contract_frames)+

lemma keeps_marketing_row:
  "keeps (contracts_evident h) (update_by tenant_consents tenant_consents_update tc_id i (\<lambda>c. c\<lparr>tc_marketingAccepted := b\<rparr>))"
proof -
  have "list_ex (evidence_of h t) (update_row tc_id i (\<lambda>c. c\<lparr>tc_marketingAccepted := b\<rparr>) cs) = list_ex (evidence_of h t) cs" for t cs
    by (induction cs) (auto simp: evidence_of_def)
  then show ?thesis
    by (auto simp: keeps_def wp_simps contracts_evident_def split: option.split)
qed

lemma wp_signB2bConsent: "wp (signB2bConsent cx h t u dto)
    (\<lambda>_ s'. sd_saasTermsAccepted dto \<and> sd_dataProcessingAccepted dto \<and> contract_open t s' \<and>
       tenants s' = update_row t_id t (accepted_contract cx) (tenants s) \<and>
       (\<exists>ident. tenant_consents s' = tenant_consents s @ [signature cx h t u dto ident]))
    (\<lambda>_ s'. s' = s) s"
proof -
  have same: "t_id (accepted_contract cx x) = t_id x" "t_b2bConsentAccepted (accepted_contract cx x)" for x
    by (simp_all add: accepted_contract_def)
  have opened: "case find (\<lambda>x. t_id x = t) (update_row t_id t (accepted_contract cx) rows) of None \<Rightarrow> False
      | Some x \<Rightarrow> t_b2bConsentAccepted x" if "lookup_row t_id t rows = Some r" for rows r
    using that same by (simp add: find_update_row lookup_row_def)
  show ?thesis
    by (auto simp: signB2bConsent_def create_consent_def wp_simps contract_open_def signature_def opened split: option.split)
qed

lemma guarded_sign: "api sv (time, tok, ContractApi (SignContract dto)) =
    bindM (guards (at_time (ap_env sv) time) (contract_route (SignContract dto)) tok)
      (\<lambda>who. ignore (signB2bConsent (en_ctx (at_time (ap_env sv) time)) (ap_textHash sv) (caller_tenant who) (caller_user who) dto))"
proof -
  have "api_handler (sv\<lparr>ap_env := env\<rparr>) (ContractApi (SignContract dto)) =
      (\<lambda>who. ignore (signB2bConsent (en_ctx env) (ap_textHash sv) (caller_tenant who) (caller_user who) dto))" for env
    by (rule ext) simp
  then show ?thesis
    by (simp add: api_def guarded_def)
qed

lemma shut_signing:
  assumes "\<not> signs sv t (time, tok, ContractApi (SignContract dto))"
  shows "keeps (contract_shut t) (api sv (time, tok, ContractApi (SignContract dto)))"
proof (rule keepsI)
  fix s
  assume s: "contract_shut t s"
  have other: "contract_shut t s'" if "tenants s' = update_row t_id k (accepted_contract cx) (tenants s)" "k \<noteq> t" for s' k cx
    using s that by (auto simp: contract_shut_def accepted_contract_def list_all_iff set_update_row)
  have "wp (signB2bConsent cx h (caller_tenant (Some (identity_of c))) u dto) (\<lambda>_. contract_shut t) (\<lambda>_. contract_shut t) s"
    if "en_verify (ap_env sv) time tok = Some c" "cl_role c \<in> {OWNER, SERVICE_MANAGER}" for c cx h u
  proof (rule wp_mono [OF wp_signB2bConsent])
    fix s'
    assume "sd_saasTermsAccepted dto \<and> sd_dataProcessingAccepted dto \<and> contract_open (caller_tenant (Some (identity_of c))) s' \<and>
      tenants s' = update_row t_id (caller_tenant (Some (identity_of c))) (accepted_contract cx) (tenants s) \<and>
      (\<exists>ident. tenant_consents s' = tenant_consents s @ [signature cx h (caller_tenant (Some (identity_of c))) u dto ident])"
    then show "contract_shut t s'"
      using assms that s by (cases "or_else (cl_tenantId c) [] = t")
        (auto intro!: other simp: caller_tenant_def identity_of_def or_else_def or_null_def truthy_def split: option.splits if_splits)
  qed (simp add: s)
  then show "wp (api sv (time, tok, ContractApi (SignContract dto))) (\<lambda>_. contract_shut t) (\<lambda>_. contract_shut t) s"
    using s by (auto simp: guarded_sign wp_bindM wp_ignore staff_route_def passes_def intro!: wp_mono [OF wp_guards])
qed

interpretation shut_gate: api_keeper "contract_shut t" sv "\<lambda>q. \<not> signs sv t q" for t sv
  by unfold_locales (auto simp: contract_shut_def updated_tenant_def onboarded_def
    intro!: shut_signing keeps_contract_update keeps_consent_rows)

lemma open_signing: "keeps (contract_open t) (api sv (time, tok, ContractApi (SignContract dto)))"
proof (rule keepsI)
  fix s
  assume s: "contract_open t s"
  have "contract_open t s'" if "tenants s' = update_row t_id k (accepted_contract cx) (tenants s)" for s' k cx
    using s that by (auto simp: contract_open_def find_update_row accepted_contract_def split: option.splits)
  then have "wp (signB2bConsent cx h k u dto) (\<lambda>_. contract_open t) (\<lambda>_. contract_open t) s" for cx h k u
    by (intro wp_mono [OF wp_signB2bConsent]) (use s in blast)+
  then show "wp (api sv (time, tok, ContractApi (SignContract dto))) (\<lambda>_. contract_open t) (\<lambda>_. contract_open t) s"
    using s by (auto simp: guarded_sign wp_bindM wp_ignore intro!: wp_mono [OF wp_guards])
qed

interpretation open_gate: api_keeper "contract_open t" sv "\<lambda>_. True" for t sv
  by unfold_locales (auto simp: contract_open_def updated_tenant_def onboarded_def
    intro!: open_signing keeps_contract_update keeps_consent_rows)

lemma evident_signing: "keeps (contracts_evident (ap_textHash sv)) (api sv (time, tok, ContractApi (SignContract dto)))"
proof (rule keepsI)
  fix s
  let ?h = "ap_textHash sv"
  assume s: "contracts_evident ?h s"
  have "contracts_evident ?h s'" if acc: "sd_saasTermsAccepted dto" "sd_dataProcessingAccepted dto"
      and rows: "tenants s' = update_row t_id k (accepted_contract cx) (tenants s)"
        "tenant_consents s' = tenant_consents s @ [signature cx ?h k u dto i]" for s' k cx u i
  proof -
    have "evidence_of ?h k (signature cx ?h k u dto i)"
      using acc by (simp add: evidence_of_def signature_def)
    then show ?thesis
      using s by (auto simp: contracts_evident_def rows accepted_contract_def list_all_iff set_update_row)
  qed
  then have "wp (signB2bConsent cx ?h k u dto) (\<lambda>_. contracts_evident ?h) (\<lambda>_. contracts_evident ?h) s" for cx k u
    by (intro wp_mono [OF wp_signB2bConsent]) (use s in blast)+
  then show "wp (api sv (time, tok, ContractApi (SignContract dto))) (\<lambda>_. contracts_evident ?h) (\<lambda>_. contracts_evident ?h) s"
    using s by (auto simp: guarded_sign wp_bindM wp_ignore intro!: wp_mono [OF wp_guards])
qed

interpretation evidence: api_keeper "contracts_evident (ap_textHash sv)" sv "\<lambda>_. True" for sv
  by unfold_locales (auto simp: contracts_evident_def updated_tenant_def onboarded_def
    intro!: evident_signing keeps_contract_update keeps_marketing_row keeps_consent_row)

text \<open>The routes the contract closes.\<close>

definition gated :: "api_request \<Rightarrow> bool" where
  "gated q \<longleftrightarrow> \<not> ro_public (api_route q) \<and> \<not> ro_bypassB2bConsent (api_route q)"

lemma shut_not_open: "contract_shut t s \<Longrightarrow> \<not> contract_open t s"
  by (auto simp: contract_shut_def contract_open_def list_all_iff dest!: find_SomeD split: option.splits)

lemma gate_refuses:
  assumes "contract_shut t s" and "gated q" and "t \<noteq> []"
    and "en_verify (ap_env sv) time tok = Some c" and "cl_tenantId c = Some t" and "cl_role c \<noteq> SUPER_ADMIN"
  shows "\<exists>e. api sv (time, tok, q) s = (Inl e, s)"
proof -
  have "wp (api sv (time, tok, q)) (\<lambda>_ _. False) (\<lambda>_ s'. s' = s) s"
    using assms shut_not_open [OF assms(1)]
    by (auto simp: api_def guarded_def wp_bindM gated_def passes_def truthy_def intro!: wp_mono [OF wp_guards])
  then show ?thesis
    by (auto simp: wp_def split: prod.splits sum.splits)
qed

lemma sign_opens:
  assumes "api sv (time, tok, ContractApi (SignContract dto)) s = (Inr (), s')"
    and "en_verify (ap_env sv) time tok = Some c" and "cl_tenantId c = Some t" and "t \<noteq> []"
  shows "contract_open t s'"
proof -
  have "wp (api sv (time, tok, ContractApi (SignContract dto))) (\<lambda>_ s'. contract_open t s') (\<lambda>_ _. True) s"
    using assms(2-4) by (auto simp: guarded_sign wp_bindM wp_ignore staff_route_def caller_tenant_def identity_of_def or_else_def
      intro!: wp_mono [OF wp_guards] wp_mono [OF wp_signB2bConsent])
  from wp_ok [OF this assms(1)] show ?thesis .
qed

lemma open_gate_passes:
  assumes "contract_open (the (id_tenantId who)) s" and "truthy (id_tenantId who)"
  shows "legal_gate route (Some who) s = (Inr (), s)"
proof (rule returns_with)
  show "wp (legal_gate route (Some who)) (\<lambda>y s'. y = () \<and> s' = s) (\<lambda>_ _. False) s"
    using assms by (auto simp: legal_gate_def wp_simps contract_open_def truthy_def split: option.splits)
qed

text \<open>The link in an advertisement is enough for a row with both acceptances, without a signature.\<close>

lemma opt_out_row:
  assumes "find (\<lambda>x. t_id x = js_trim x0) (tenants s) = Some t" and "js_trim x0 \<noteq> []"
    and "find (\<lambda>u. u_tenantId u = Some (t_id t)) (users s) = Some u" and "unique_rows u_id (users s)"
    and "filter (\<lambda>c. tc_tenantId c = t_id t) (tenant_consents s) = []"
    and "gen_id cx (id_supply s) \<notin> tc_id ` set (tenant_consents s)"
  shows "\<exists>s'. processPublicOptOut cx x0 s = (Inr (Some (t_title t)), s') \<and>
    tenant_consents s' = tenant_consents s @ [preference_row cx (t_id t) (u_id u) False (gen_id cx (id_supply s))]"
proof -
  have same: "t_id t = js_trim x0"
    using find_SomeD [OF assms(1)] by simp
  have signer: "find (\<lambda>y. u_id y = u_id u) (users s) \<noteq> None"
    using find_SomeD [OF assms(3)] by (auto simp: find_None_iff)
  have "wp (processPublicOptOut cx x0) (\<lambda>r s'. r = Some (t_title t) \<and>
    tenant_consents s' = tenant_consents s @ [preference_row cx (t_id t) (u_id u) False (gen_id cx (id_supply s))])
    (\<lambda>_ _. False) s"
    using assms signer by (auto simp: processPublicOptOut_def optout_tenant_def updateMarketingConsent_def latest_consent_def
      order_by_def create_consent_def wp_simps ignore_def preference_row_def same insert_row_def)
  then show ?thesis
    by (auto simp: wp_def split: prod.splits sum.splits)
qed

end
