(* ===== verification/Isolation.thy ===== *)
theory Isolation
  imports GuardRules
begin

text \<open>
  The tables of the workshops behind the client of \<open>PrismaService\<close>, with the row level policies of
  \<open>prisma/migrations/20260911200000_enable_row_level_security\<close>: eight tables with a \<open>tenantId\<close>, and
  the lines, notes and photos of the orders, which have none and are reached through their order.
  Calls of any accounts on any of these tables, in any order, leave the rows of the other workshops.
\<close>

section \<open>The models and their policies\<close>

definition customer_model :: "customer prisma_model" where
  "customer_model = \<lparr>mo_id = c_id, mo_rows = customers, mo_update = customers_update, mo_tenantId = Some (\<lambda>c. Some (c_tenantId c)),
     mo_setTenantId = (\<lambda>t c. c\<lparr>c_tenantId := t\<rparr>), mo_policy = (\<lambda>_ c. Some (c_tenantId c))\<rparr>"

definition vehicle_model :: "vehicle prisma_model" where
  "vehicle_model = \<lparr>mo_id = v_id, mo_rows = vehicles, mo_update = vehicles_update, mo_tenantId = Some (\<lambda>v. Some (v_tenantId v)),
     mo_setTenantId = (\<lambda>t v. v\<lparr>v_tenantId := t\<rparr>), mo_policy = (\<lambda>_ v. Some (v_tenantId v))\<rparr>"

definition appointment_model :: "appointment prisma_model" where
  "appointment_model = \<lparr>mo_id = a_id, mo_rows = appointments, mo_update = appointments_update,
     mo_tenantId = Some (\<lambda>a. Some (a_tenantId a)),
     mo_setTenantId = (\<lambda>t a. a\<lparr>a_tenantId := t\<rparr>), mo_policy = (\<lambda>_ a. Some (a_tenantId a))\<rparr>"

definition product_model :: "product prisma_model" where
  "product_model = \<lparr>mo_id = p_id, mo_rows = products, mo_update = products_update, mo_tenantId = Some (\<lambda>p. Some (p_tenantId p)),
     mo_setTenantId = (\<lambda>t p. p\<lparr>p_tenantId := t\<rparr>), mo_policy = (\<lambda>_ p. Some (p_tenantId p))\<rparr>"

definition invoice_model :: "invoice prisma_model" where
  "invoice_model = \<lparr>mo_id = i_id, mo_rows = invoices, mo_update = invoices_update, mo_tenantId = Some (\<lambda>i. Some (i_tenantId i)),
     mo_setTenantId = (\<lambda>t i. i\<lparr>i_tenantId := t\<rparr>), mo_policy = (\<lambda>_ i. Some (i_tenantId i))\<rparr>"

definition payment_model :: "payment prisma_model" where
  "payment_model = \<lparr>mo_id = pay_id, mo_rows = payments, mo_update = payments_update, mo_tenantId = Some (\<lambda>p. Some (pay_tenantId p)),
     mo_setTenantId = (\<lambda>t p. p\<lparr>pay_tenantId := t\<rparr>), mo_policy = (\<lambda>_ p. Some (pay_tenantId p))\<rparr>"

text \<open>Administrators are accounts without a workshop: no session of a workshop sees them.\<close>

definition user_model :: "user prisma_model" where
  "user_model = \<lparr>mo_id = u_id, mo_rows = users, mo_update = users_update, mo_tenantId = Some u_tenantId,
     mo_setTenantId = (\<lambda>t u. u\<lparr>u_tenantId := Some t\<rparr>), mo_policy = (\<lambda>_. u_tenantId)\<rparr>"

definition order_model :: "work_order prisma_model" where
  "order_model = \<lparr>mo_id = wo_id, mo_rows = work_orders, mo_update = work_orders_update, mo_tenantId = Some (\<lambda>w. Some (wo_tenantId w)),
     mo_setTenantId = (\<lambda>t w. w\<lparr>wo_tenantId := t\<rparr>), mo_policy = (\<lambda>_ w. Some (wo_tenantId w))\<rparr>"

text \<open>Lines, notes and photos have no \<open>tenantId\<close>: only the policy protects them, through the order.\<close>

definition order_tenant :: "db \<Rightarrow> uuid \<Rightarrow> uuid option" where
  "order_tenant s k = map_option wo_tenantId (find (\<lambda>w. wo_id w = k) (work_orders s))"

definition item_model :: "work_order_item prisma_model" where
  "item_model = \<lparr>mo_id = woi_id, mo_rows = work_order_items, mo_update = work_order_items_update, mo_tenantId = None,
     mo_setTenantId = (\<lambda>_ i. i), mo_policy = (\<lambda>s i. order_tenant s (woi_workOrderId i))\<rparr>"

definition note_model :: "work_order_note prisma_model" where
  "note_model = \<lparr>mo_id = n_id, mo_rows = work_order_notes, mo_update = work_order_notes_update, mo_tenantId = None,
     mo_setTenantId = (\<lambda>_ n. n), mo_policy = (\<lambda>s n. order_tenant s (n_workOrderId n))\<rparr>"

definition photo_model :: "work_order_photo prisma_model" where
  "photo_model = \<lparr>mo_id = ph_id, mo_rows = work_order_photos, mo_update = work_order_photos_update, mo_tenantId = None,
     mo_setTenantId = (\<lambda>_ p. p), mo_policy = (\<lambda>s p. order_tenant s (ph_workOrderId p))\<rparr>"

lemmas model_defs = customer_model_def vehicle_model_def appointment_model_def product_model_def invoice_model_def
  payment_model_def user_model_def order_model_def item_model_def note_model_def photo_model_def

interpretation customer_table: tenant_table customer_model
  by unfold_locales (simp_all add: model_defs)

interpretation vehicle_table: tenant_table vehicle_model
  by unfold_locales (simp_all add: model_defs)

interpretation appointment_table: tenant_table appointment_model
  by unfold_locales (simp_all add: model_defs)

interpretation product_table: tenant_table product_model
  by unfold_locales (simp_all add: model_defs)

interpretation invoice_table: tenant_table invoice_model
  by unfold_locales (simp_all add: model_defs)

interpretation payment_table: tenant_table payment_model
  by unfold_locales (simp_all add: model_defs)

interpretation user_table: tenant_table user_model
  by unfold_locales (simp_all add: model_defs)

interpretation order_table: tenant_table order_model
  by unfold_locales (simp_all add: model_defs)

interpretation item_table: tenant_table item_model
  by unfold_locales (simp_all add: model_defs order_tenant_def)

interpretation note_table: tenant_table note_model
  by unfold_locales (simp_all add: model_defs order_tenant_def)

interpretation photo_table: tenant_table photo_model
  by unfold_locales (simp_all add: model_defs order_tenant_def)

section \<open>Calls on any table\<close>

type_synonym 'r table_call = "client \<times> prisma_call \<times> 'r prisma_request"

datatype client_call =
    CustomerCall "customer table_call" | VehicleCall "vehicle table_call" | AppointmentCall "appointment table_call"
  | ProductCall "product table_call" | InvoiceCall "invoice table_call" | PaymentCall "payment table_call"
  | UserCall "user table_call" | OrderCall "work_order table_call" | ItemCall "work_order_item table_call"
  | NoteCall "work_order_note table_call" | PhotoCall "work_order_photo table_call"

datatype client_answer =
    CustomerRows "customer list" | VehicleRows "vehicle list" | AppointmentRows "appointment list"
  | ProductRows "product list" | InvoiceRows "invoice list" | PaymentRows "payment list"
  | UserRows "user list" | OrderRows "work_order list" | ItemRows "work_order_item list"
  | NoteRows "work_order_note list" | PhotoRows "work_order_photo list"

definition on_table :: "'r prisma_model \<Rightarrow> ('r list \<Rightarrow> client_answer) \<Rightarrow> uuid option \<Rightarrow> 'r table_call \<Rightarrow> client_answer dbM" where
  "on_table m answer t q = bindM (prisma m t q) (\<lambda>rows. ret (answer rows))"

fun prisma_client :: "identity \<times> client_call \<Rightarrow> client_answer dbM" where
  "prisma_client (who, CustomerCall q) = on_table customer_model CustomerRows (prisma_tenant (Some who)) q"
| "prisma_client (who, VehicleCall q) = on_table vehicle_model VehicleRows (prisma_tenant (Some who)) q"
| "prisma_client (who, AppointmentCall q) = on_table appointment_model AppointmentRows (prisma_tenant (Some who)) q"
| "prisma_client (who, ProductCall q) = on_table product_model ProductRows (prisma_tenant (Some who)) q"
| "prisma_client (who, InvoiceCall q) = on_table invoice_model InvoiceRows (prisma_tenant (Some who)) q"
| "prisma_client (who, PaymentCall q) = on_table payment_model PaymentRows (prisma_tenant (Some who)) q"
| "prisma_client (who, UserCall q) = on_table user_model UserRows (prisma_tenant (Some who)) q"
| "prisma_client (who, OrderCall q) = on_table order_model OrderRows (prisma_tenant (Some who)) q"
| "prisma_client (who, ItemCall q) = on_table item_model ItemRows (prisma_tenant (Some who)) q"
| "prisma_client (who, NoteCall q) = on_table note_model NoteRows (prisma_tenant (Some who)) q"
| "prisma_client (who, PhotoCall q) = on_table photo_model PhotoRows (prisma_tenant (Some who)) q"

text \<open>
  The calls covered: rows of a table that other tables refer to are not deleted and keep their keys
  (referential actions pass the policies); lines, notes and photos may also be deleted.
\<close>

definition on_parent :: "'r prisma_model \<Rightarrow> 'r table_call \<Rightarrow> bool" where
  "on_parent m q \<longleftrightarrow> keeps_keys m (snd (snd q))"

fun covered :: "client_call \<Rightarrow> bool" where
  "covered (CustomerCall q) = on_parent customer_model q"
| "covered (VehicleCall q) = on_parent vehicle_model q"
| "covered (AppointmentCall q) = on_parent appointment_model q"
| "covered (ProductCall q) = on_parent product_model q"
| "covered (InvoiceCall q) = on_parent invoice_model q"
| "covered (PaymentCall q) = on_parent payment_model q"
| "covered (UserCall q) = on_parent user_model q"
| "covered (OrderCall q) = on_parent order_model q"
| "covered (ItemCall q) = True"
| "covered (NoteCall q) = True"
| "covered (PhotoCall q) = True"

section \<open>What a workshop holds\<close>

definition held :: "'r prisma_model \<Rightarrow> uuid \<Rightarrow> db \<Rightarrow> 'r list" where
  "held m t s = filter (owned m t s) (mo_rows m s)"

text \<open>The rows of workshop \<open>t\<close> in every table are the same in both stores.\<close>

definition untouched :: "uuid \<Rightarrow> db \<Rightarrow> db \<Rightarrow> bool" where
  "untouched t s s' \<longleftrightarrow>
     held customer_model t s' = held customer_model t s \<and> held vehicle_model t s' = held vehicle_model t s \<and>
     held appointment_model t s' = held appointment_model t s \<and> held product_model t s' = held product_model t s \<and>
     held invoice_model t s' = held invoice_model t s \<and> held payment_model t s' = held payment_model t s \<and>
     held user_model t s' = held user_model t s \<and> held order_model t s' = held order_model t s \<and>
     held item_model t s' = held item_model t s \<and> held note_model t s' = held note_model t s \<and>
     held photo_model t s' = held photo_model t s"

text \<open>No row of workshop \<open>t\<close> is among the rows shown.\<close>

fun hidden :: "uuid \<Rightarrow> db \<Rightarrow> client_answer \<Rightarrow> bool" where
  "hidden t s (CustomerRows rows) = list_all (\<lambda>r. \<not> owned customer_model t s r) rows"
| "hidden t s (VehicleRows rows) = list_all (\<lambda>r. \<not> owned vehicle_model t s r) rows"
| "hidden t s (AppointmentRows rows) = list_all (\<lambda>r. \<not> owned appointment_model t s r) rows"
| "hidden t s (ProductRows rows) = list_all (\<lambda>r. \<not> owned product_model t s r) rows"
| "hidden t s (InvoiceRows rows) = list_all (\<lambda>r. \<not> owned invoice_model t s r) rows"
| "hidden t s (PaymentRows rows) = list_all (\<lambda>r. \<not> owned payment_model t s r) rows"
| "hidden t s (UserRows rows) = list_all (\<lambda>r. \<not> owned user_model t s r) rows"
| "hidden t s (OrderRows rows) = list_all (\<lambda>r. \<not> owned order_model t s r) rows"
| "hidden t s (ItemRows rows) = list_all (\<lambda>r. \<not> owned item_model t s r) rows"
| "hidden t s (NoteRows rows) = list_all (\<lambda>r. \<not> owned note_model t s r) rows"
| "hidden t s (PhotoRows rows) = list_all (\<lambda>r. \<not> owned photo_model t s r) rows"

text \<open>What the primary and foreign keys of the orders say.\<close>

definition order_exists :: "db \<Rightarrow> uuid \<Rightarrow> bool" where
  "order_exists s k \<longleftrightarrow> k \<in> set (keys order_model s)"

definition order_keys :: "db \<Rightarrow> bool" where
  "order_keys s \<longleftrightarrow> distinct (keys order_model s) \<and>
     list_all (\<lambda>i. order_exists s (woi_workOrderId i)) (work_order_items s) \<and>
     list_all (\<lambda>n. order_exists s (n_workOrderId n)) (work_order_notes s) \<and>
     list_all (\<lambda>p. order_exists s (ph_workOrderId p)) (work_order_photos s)"

definition other_workshop :: "uuid \<Rightarrow> identity \<Rightarrow> bool" where
  "other_workshop t who \<longleftrightarrow> id_role who \<noteq> SUPER_ADMIN \<and>
     (case id_tenantId who of None \<Rightarrow> False | Some t' \<Rightarrow> t' \<noteq> [] \<and> t' \<noteq> t)"

section \<open>One call\<close>

context tenant_table begin

lemma held_others: "t \<noteq> t' \<Longrightarrow> held m t s = filter (owned m t s) (others m t' s)"
  by (auto simp: held_def others_def owned_def intro!: filter_cong)

lemma held_moves: "moves m t' kept s s' \<Longrightarrow> t \<noteq> t' \<Longrightarrow> held m t s' = held m t s"
  by (auto simp: held_others moves_def owned_def [abs_def] policy_update)

lemma rows_hidden: "list_all (owned m t' s) rows \<Longrightarrow> t \<noteq> t' \<Longrightarrow> list_all (\<lambda>r. \<not> owned m t s r) rows"
  by (auto simp: list_all_iff owned_def)

text \<open>A call keeps every relation that holds between the stores of a move.\<close>

lemma wp_on_table:
  assumes "prisma_tenant (Some who) = Some t'" and "t \<noteq> t'"
    and "\<And>s'. moves m t' (keeps_keys m (snd (snd q))) s s' \<Longrightarrow> R s'"
    and "\<And>rows. hidden t s (answer rows) = list_all (\<lambda>r. \<not> owned m t s r) rows"
  shows "wp (on_table m answer (prisma_tenant (Some who)) q) (\<lambda>a s'. hidden t s a \<and> R s') (\<lambda>_. R) s"
  using wp_prisma [of t' "fst q" "fst (snd q)" "snd (snd q)" s] assms(2-4) rows_hidden [of t' s _ t]
  unfolding on_table_def assms(1) wp_bindM wp_ret prod.collapse
  by (elim wp_mono) (auto simp: shows_own_def)

end

text \<open>A table that is not \<open>work_orders\<close> can be written without touching the others.\<close>

lemma order_exists_iff: "order_exists s k \<longleftrightarrow> order_tenant s k \<noteq> None"
  by (auto simp: order_exists_def order_tenant_def keys_def model_defs find_None_iff)

lemma owned_order_exists:
  "owned item_model t s i \<Longrightarrow> order_exists s (woi_workOrderId i)"
  "owned note_model t s n \<Longrightarrow> order_exists s (n_workOrderId n)"
  "owned photo_model t s p \<Longrightarrow> order_exists s (ph_workOrderId p)"
  by (auto simp: owned_def model_defs order_exists_iff)

definition stays :: "uuid \<Rightarrow> db \<Rightarrow> db \<Rightarrow> bool" where
  "stays t s s' \<longleftrightarrow> order_keys s' \<and> untouched t s s'"

text \<open>The workshop of an order is the same after a move on \<open>work_orders\<close> that keeps the keys.\<close>

lemma find_key_iff:
  "distinct (map wo_id rows) \<Longrightarrow> find (\<lambda>w. wo_id w = k) rows = Some w \<longleftrightarrow> w \<in> set rows \<and> wo_id w = k"
  by (induction rows) (auto simp: image_iff)

lemma order_tenant_some:
  "distinct (keys order_model s) \<Longrightarrow> order_tenant s k = Some x \<longleftrightarrow> (\<exists>w \<in> set (work_orders s). wo_id w = k \<and> wo_tenantId w = x)"
  by (auto simp: order_tenant_def keys_def order_model_def find_key_iff)

lemma order_tenant_moves:
  assumes "moves order_model t' True s s'" and "distinct (keys order_model s)" and "order_exists s k"
  shows "order_tenant s' k = order_tenant s k"
proof -
  have others: "filter (\<lambda>w. wo_tenantId w \<noteq> t') (work_orders s') = filter (\<lambda>w. wo_tenantId w \<noteq> t') (work_orders s)"
    and distinct: "distinct (keys order_model s')" and "set (keys order_model s) \<subseteq> set (keys order_model s')"
    using assms(1,2) by (auto simp: moves_def others_def order_model_def)
  then obtain x' where x': "order_tenant s' k = Some x'"
    using assms(3) order_exists_iff [of s' k] by (auto simp: order_exists_def)
  obtain x where x: "order_tenant s k = Some x"
    using assms(3) by (auto simp: order_exists_iff)
  have same: "w \<in> set (work_orders s') \<longleftrightarrow> w \<in> set (work_orders s)" if "wo_tenantId w \<noteq> t'" for w
    using arg_cong [OF others, of set] that by auto
  have "x' = x" if "x \<noteq> t'"
    using x x' same that unfolding order_tenant_some [OF assms(2)] order_tenant_some [OF distinct]
    by (metis distinct order_tenant_some option.inject x')
  moreover have "x' = t'" if "x = t'"
    using x x' same that unfolding order_tenant_some [OF assms(2)] order_tenant_some [OF distinct]
    by (metis assms(2) order_tenant_some option.inject x)
  ultimately show ?thesis
    using x x' by auto
qed

lemma order_call_stays:
  assumes "moves order_model t' True s s'" and "order_keys s" and "t \<noteq> t'"
  shows "stays t s s'"
proof -
  have keys: "distinct (keys order_model s)"
    using assms(2) by (simp add: order_keys_def)
  note same = order_tenant_moves [OF assms(1) keys]
  obtain g where s': "s' = work_orders_update g s"
    using assms(1) by (auto simp: moves_def order_model_def)
  have exists: "order_exists s k \<Longrightarrow> order_exists s' k" for k
    using assms(1) by (auto simp: moves_def order_exists_def)
  have "order_keys s'"
    using assms(1,2) exists unfolding s' by (auto simp: order_keys_def moves_def list_all_iff)
  moreover have "held order_model t s' = held order_model t s"
    by (rule order_table.held_moves [OF assms(1,3)])
  moreover have "held item_model t s' = held item_model t s" "held note_model t s' = held note_model t s"
    "held photo_model t s' = held photo_model t s"
    using assms(2) same by (auto simp: held_def owned_def item_model_def note_model_def photo_model_def order_keys_def s'
        list_all_iff intro!: filter_cong)
  ultimately show ?thesis
    by (simp add: stays_def untouched_def) (simp add: s' held_def owned_def [abs_def] model_defs)
qed


text \<open>Lines, notes and photos: the new rows belong to orders of the caller, so their orders exist.\<close>

context tenant_table begin

lemma rows_after:
  assumes "moves m t' k s s'" and "r \<in> set (mo_rows m s')"
  shows "owned m t' s' r \<or> r \<in> set (mo_rows m s)"
  using assms by (auto simp: moves_def others_def owned_def dest!: arg_cong [where f = set])

end

lemmas others_stay = held_def owned_def [abs_def] model_defs order_tenant_def order_keys_def order_exists_def keys_def untouched_def

lemma item_call_stays:
  assumes "moves item_model t' k s s'" and "order_keys s" and "t \<noteq> t'"
  shows "stays t s s'"
proof -
  obtain g where s': "s' = work_order_items_update g s"
    using assms(1) by (auto simp: moves_def item_model_def)
  have "order_exists s' (woi_workOrderId i)" if "i \<in> set (work_order_items s')" for i
    using item_table.rows_after [OF assms(1), of i] that owned_order_exists(1) [of t' s' i] assms(2)
    by (auto simp: order_keys_def list_all_iff item_model_def order_exists_def keys_def order_model_def s')
  moreover have "held item_model t s' = held item_model t s"
    by (rule item_table.held_moves [OF assms(1,3)])
  ultimately show ?thesis
    using assms(2) by (simp add: stays_def list_all_iff s' others_stay)
qed

lemma note_call_stays:
  assumes "moves note_model t' k s s'" and "order_keys s" and "t \<noteq> t'"
  shows "stays t s s'"
proof -
  obtain g where s': "s' = work_order_notes_update g s"
    using assms(1) by (auto simp: moves_def note_model_def)
  have "order_exists s' (n_workOrderId i)" if "i \<in> set (work_order_notes s')" for i
    using note_table.rows_after [OF assms(1), of i] that owned_order_exists(2) [of t' s' i] assms(2)
    by (auto simp: order_keys_def list_all_iff note_model_def order_exists_def keys_def order_model_def s')
  moreover have "held note_model t s' = held note_model t s"
    by (rule note_table.held_moves [OF assms(1,3)])
  ultimately show ?thesis
    using assms(2) by (simp add: stays_def list_all_iff s' others_stay)
qed

lemma photo_call_stays:
  assumes "moves photo_model t' k s s'" and "order_keys s" and "t \<noteq> t'"
  shows "stays t s s'"
proof -
  obtain g where s': "s' = work_order_photos_update g s"
    using assms(1) by (auto simp: moves_def photo_model_def)
  have "order_exists s' (ph_workOrderId i)" if "i \<in> set (work_order_photos s')" for i
    using photo_table.rows_after [OF assms(1), of i] that owned_order_exists(3) [of t' s' i] assms(2)
    by (auto simp: order_keys_def list_all_iff photo_model_def order_exists_def keys_def order_model_def s')
  moreover have "held photo_model t s' = held photo_model t s"
    by (rule photo_table.held_moves [OF assms(1,3)])
  ultimately show ?thesis
    using assms(2) by (simp add: stays_def list_all_iff s' others_stay)
qed

text \<open>The other tables.\<close>

lemma moves_update: "moves m t' k s s' \<Longrightarrow> \<exists>g. s' = mo_update m g s"
  by (auto simp: moves_def)

lemma stays_update:
  assumes "order_keys s"
  shows "held customer_model t (mo_update customer_model gcu s) = held customer_model t s \<Longrightarrow> stays t s (mo_update customer_model gcu s)"
    and "held vehicle_model t (mo_update vehicle_model gve s) = held vehicle_model t s \<Longrightarrow> stays t s (mo_update vehicle_model gve s)"
    and "held appointment_model t (mo_update appointment_model gap s) = held appointment_model t s \<Longrightarrow> stays t s (mo_update appointment_model gap s)"
    and "held product_model t (mo_update product_model gpr s) = held product_model t s \<Longrightarrow> stays t s (mo_update product_model gpr s)"
    and "held invoice_model t (mo_update invoice_model gin s) = held invoice_model t s \<Longrightarrow> stays t s (mo_update invoice_model gin s)"
    and "held payment_model t (mo_update payment_model gpa s) = held payment_model t s \<Longrightarrow> stays t s (mo_update payment_model gpa s)"
    and "held user_model t (mo_update user_model gus s) = held user_model t s \<Longrightarrow> stays t s (mo_update user_model gus s)"
  using assms by (simp_all add: stays_def others_stay)

lemma table_call_stays:
  assumes "t \<noteq> t'" and "order_keys s"
  shows "moves customer_model t' k s s' \<Longrightarrow> stays t s s'"
    and "moves vehicle_model t' k s s' \<Longrightarrow> stays t s s'"
    and "moves appointment_model t' k s s' \<Longrightarrow> stays t s s'"
    and "moves product_model t' k s s' \<Longrightarrow> stays t s s'"
    and "moves invoice_model t' k s s' \<Longrightarrow> stays t s s'"
    and "moves payment_model t' k s s' \<Longrightarrow> stays t s s'"
    and "moves user_model t' k s s' \<Longrightarrow> stays t s s'"
    apply (metis moves_update stays_update(1) customer_table.held_moves assms)
    apply (metis moves_update stays_update(2) vehicle_table.held_moves assms)
    apply (metis moves_update stays_update(3) appointment_table.held_moves assms)
    apply (metis moves_update stays_update(4) product_table.held_moves assms)
    apply (metis moves_update stays_update(5) invoice_table.held_moves assms)
    apply (metis moves_update stays_update(6) payment_table.held_moves assms)
    apply (metis moves_update stays_update(7) user_table.held_moves assms)
  done

section \<open>Histories\<close>

text \<open>A covered call of another workshop leaves what \<open>t\<close> holds and shows none of it.\<close>

lemma wp_prisma_client:
  assumes "other_workshop t who" and "covered q" and "order_keys s"
  shows "wp (prisma_client (who, q)) (\<lambda>a s'. hidden t s a \<and> stays t s s') (\<lambda>_. stays t s) s"
proof -
  obtain t' where t': "prisma_tenant (Some who) = Some t'" and other: "t \<noteq> t'"
    using assms(1) by (auto simp: other_workshop_def prisma_tenant_def split: option.splits)
  note stays = table_call_stays [OF other assms(3)] order_call_stays [OF _ assms(3) other]
    item_call_stays [OF _ assms(3) other] note_call_stays [OF _ assms(3) other] photo_call_stays [OF _ assms(3) other]
  show ?thesis
  proof (cases q)
    case (CustomerCall x)
    then show ?thesis by (auto intro: customer_table.wp_on_table [OF t' other] stays)
  next
    case (VehicleCall x)
    then show ?thesis by (auto intro: vehicle_table.wp_on_table [OF t' other] stays)
  next
    case (AppointmentCall x)
    then show ?thesis by (auto intro: appointment_table.wp_on_table [OF t' other] stays)
  next
    case (ProductCall x)
    then show ?thesis by (auto intro: product_table.wp_on_table [OF t' other] stays)
  next
    case (InvoiceCall x)
    then show ?thesis by (auto intro: invoice_table.wp_on_table [OF t' other] stays)
  next
    case (PaymentCall x)
    then show ?thesis by (auto intro: payment_table.wp_on_table [OF t' other] stays)
  next
    case (UserCall x)
    then show ?thesis by (auto intro: user_table.wp_on_table [OF t' other] stays)
  next
    case (OrderCall x)
    with assms(2) have "keeps_keys order_model (snd (snd x))"
      by (simp add: on_parent_def)
    with OrderCall show ?thesis by (auto intro!: order_table.wp_on_table [OF t' other] intro: stays)
  next
    case (ItemCall x)
    then show ?thesis by (auto intro: item_table.wp_on_table [OF t' other] stays)
  next
    case (NoteCall x)
    then show ?thesis by (auto intro: note_table.wp_on_table [OF t' other] stays)
  next
    case (PhotoCall x)
    then show ?thesis by (auto intro: photo_table.wp_on_table [OF t' other] stays)
  qed
qed

lemma stays_trans: "stays t s s1 \<Longrightarrow> stays t s1 s2 \<Longrightarrow> stays t s s2"
  by (simp add: stays_def untouched_def)

definition call_of_others :: "uuid \<Rightarrow> identity \<times> client_call \<Rightarrow> bool" where
  "call_of_others t q \<longleftrightarrow> other_workshop t (fst q) \<and> covered (snd q)"

interpretation isolation: service_contract prisma_client "\<lambda>q _. call_of_others t q" "stays t s0" for t s0
proof
  fix s q
  assume "stays t s0 s" and "call_of_others t q"
  moreover from this have "order_keys s"
    by (simp add: stays_def)
  ultimately show "wp (prisma_client q) (\<lambda>_. stays t s0) (\<lambda>_. stays t s0) s"
    using wp_prisma_client [of t "fst q" "snd q" s]
    by (auto simp: call_of_others_def elim!: wp_mono intro: stays_trans)
qed

end
