(* ===== verification/SetupRules.thy ===== *)
theory SetupRules
  imports Workshop
begin

text \<open>
  The setup wizard of a workshop: running it again with the same answers changes nothing, and its
  numbering of the codes, which starts anew on every run.
\<close>

section \<open>The wizard leaves what it finds\<close>

definition grown :: "db \<Rightarrow> db \<Rightarrow> bool" where
  "grown s s' \<longleftrightarrow> tenants s' = tenants s \<and> set (services s) \<subseteq> set (services s') \<and> set (users s) \<subseteq> set (users s') \<and>
     set (workshop_bays s) \<subseteq> set (workshop_bays s')"

lemma grown_refl [simp]: "grown s s"
  by (simp add: grown_def)

lemma grown_tenants: "grown s s' \<Longrightarrow> tenants s' = tenants s"
  by (simp add: grown_def)

lemma grown_trans: "grown s s' \<Longrightarrow> grown s' s'' \<Longrightarrow> grown s s''"
  by (auto simp: grown_def)

definition known_service :: "uuid \<Rightarrow> db \<Rightarrow> onboarding_service \<Rightarrow> bool" where
  "known_service t s x \<longleftrightarrow> js_trim (os_name x) = [] \<or>
     (\<exists>v\<in>set (services s). sv_tenantId v = t \<and> sv_name v = js_trim (os_name x))"

definition known_staff :: "uuid \<Rightarrow> db \<Rightarrow> onboarding_staff \<Rightarrow> bool" where
  "known_staff t s st \<longleftrightarrow> (let rawDigits = filter is_digit (of_phone st); clean10 = mobile_digits rawDigits in
     js_trim (of_name st) = [] \<or> of_phone st = [] \<or> \<not> starts_with ''5'' clean10 \<or> length clean10 \<noteq> 10 \<or>
     (\<exists>u\<in>set (users s). u_tenantId u = Some t \<and> u_phone u \<in> {''+90'' @ clean10, rawDigits, ''+'' @ rawDigits}))"

definition known_bays :: "uuid \<Rightarrow> int option \<Rightarrow> db \<Rightarrow> bool" where
  "known_bays t lifts s \<longleftrightarrow> nat (or_number lifts 0) = 0 \<or> (\<exists>b\<in>set (workshop_bays s). b_tenantId b = t)"

lemma known_grown:
  "grown s s' \<Longrightarrow> known_service t s x \<Longrightarrow> known_service t s' x"
  "grown s s' \<Longrightarrow> known_staff t s st \<Longrightarrow> known_staff t s' st"
  "grown s s' \<Longrightarrow> known_bays t n s \<Longrightarrow> known_bays t n s'"
  by (auto simp: grown_def known_service_def known_staff_def known_bays_def Let_def)

section \<open>What a run adds\<close>

lemma wp_services: "wp (onboard_services cx t n ss) (\<lambda>_ s'. grown s s' \<and> list_all (known_service t s') ss) (\<lambda>_ _. True) s"
proof (induction ss arbitrary: n s)
  case (Cons x ss)
  have skip: "wp (onboard_services cx t k ss) (\<lambda>_ s'. grown s s' \<and> list_all (known_service t s') (x # ss)) (\<lambda>_ _. True) s1"
    if "grown s s1" "known_service t s1 x" for k s1
    using that by (intro wp_mono [OF Cons.IH]) (auto intro: grown_trans known_grown(1))
  have more: "grown s (s\<lparr>id_supply := i, services := services s @ vs\<rparr>)" for i vs
    by (auto simp: grown_def)
  have new: "known_service t (s\<lparr>id_supply := i, services := services s @ [first_services cx t n x k]\<rparr>) x" for i k
    by (simp add: known_service_def first_services_def)
  show ?case
  proof (cases "js_trim (os_name x) = []")
    case True
    then have "known_service t s x"
      by (simp add: known_service_def)
    with True show ?thesis
      using skip [of s n] by simp
  next
    case named: False
    show ?thesis
    proof (cases "find (\<lambda>v. sv_tenantId v = t \<and> sv_name v = js_trim (os_name x)) (services s)")
      case None
      with named show ?thesis
        using skip [OF more new] by (simp add: wp_bindM wp_thenM wp_fresh_id wp_find_first insert_service_def
          wp_unique_index wp_create_row insert_row_def)
    next
      case (Some v)
      then have "known_service t s x"
        using find_SomeD [OF Some] by (auto simp: known_service_def)
      with named Some show ?thesis
        using skip [of s n] by (simp add: wp_bindM wp_find_first)
    qed
  qed
qed (simp add: wp_simps)

lemma wp_staff_member: "wp (onboard_one cx t b st) (\<lambda>_ s'. grown s s' \<and> known_staff t s' st) (\<lambda>_ _. True) s"
  by (auto simp: onboard_one_def Let_def wp_simps ignore_def insert_row_def grown_def known_staff_def dest!: find_SomeD
    split: option.split)

lemma wp_staff: "wp (for_each sts (onboard_one cx t b)) (\<lambda>_ s'. grown s s' \<and> list_all (known_staff t s') sts) (\<lambda>_ _. True) s"
proof (induction sts arbitrary: s)
  case (Cons st sts)
  have "wp (for_each sts (onboard_one cx t b)) (\<lambda>_ s'. grown s s' \<and> list_all (known_staff t s') (st # sts)) (\<lambda>_ _. True) s1"
    if "grown s s1" "known_staff t s1 st" for s1
    using that by (intro wp_mono [OF Cons.IH]) (auto intro: grown_trans known_grown(2))
  then show ?case
    by (simp only: for_each.simps wp_thenM) (rule wp_mono [OF wp_staff_member], auto)
qed (simp add: wp_simps)

lemma wp_first_bay: "wp (bindM (fresh_id cx) (\<lambda>ident. ignore (insert_bay (first_bay t i ident))))
    (\<lambda>_ s'. grown s s' \<and> (\<exists>b\<in>set (workshop_bays s'). b_tenantId b = t)) (\<lambda>_ _. True) s"
  by (auto simp: wp_simps ignore_def insert_bay_def bay_index_def insert_row_def grown_def first_bay_def split: option.split)

lemma wp_bays: "wp (onboard_bays cx t lifts) (\<lambda>_ s'. grown s s' \<and> known_bays t lifts s') (\<lambda>_ _. True) s"
proof -
  let ?step = "\<lambda>i. bindM (fresh_id cx) (\<lambda>ident. ignore (insert_bay (first_bay t i ident)))"
  have loop: "wp (for_each is ?step) (\<lambda>_ s'. grown s s' \<and> (is \<noteq> [] \<longrightarrow> (\<exists>b\<in>set (workshop_bays s'). b_tenantId b = t))) (\<lambda>_ _. True) s"
    for "is" s
  proof (induction "is" arbitrary: s)
    case (Cons i "is")
    have "wp (for_each is ?step) (\<lambda>_ s'. grown s s' \<and> (i # is \<noteq> [] \<longrightarrow> (\<exists>b\<in>set (workshop_bays s'). b_tenantId b = t))) (\<lambda>_ _. True) s1"
      if "grown s s1 \<and> (\<exists>b\<in>set (workshop_bays s1). b_tenantId b = t)" for s1
      using that by (intro wp_mono [OF Cons.IH]) (auto simp: grown_def)
    then show ?case
      by (simp only: for_each.simps wp_thenM) (rule wp_mono [OF wp_first_bay], auto)
  qed (simp add: wp_simps)
  show ?thesis
    by (auto simp: onboard_bays_def Let_def wp_whenM wp_bindM wp_find_many known_bays_def filter_empty_conv
      intro!: wp_mono [OF loop])
qed

section \<open>A second run\<close>

lemma services_again: "list_all (known_service t s) ss \<Longrightarrow> onboard_services cx t n ss s = (Inr (), s)"
proof (induction ss arbitrary: n)
  case (Cons x ss)
  have "find (\<lambda>v. sv_tenantId v = t \<and> sv_name v = js_trim (os_name x)) (services s) \<noteq> None" if "js_trim (os_name x) \<noteq> []"
    using Cons.prems that by (auto simp: known_service_def find_None_iff)
  with Cons show ?case
    by (auto simp: monad_defs find_first_def split: option.split)
qed (simp add: monad_defs)

lemma staff_again: "list_all (known_staff t s) sts \<Longrightarrow> for_each sts (onboard_one cx t b) s = (Inr (), s)"
proof (induction sts)
  case (Cons st sts)
  have "onboard_one cx t b st s = (Inr (), s)"
    using Cons.prems by (auto simp: onboard_one_def known_staff_def Let_def monad_defs find_first_def find_None_iff split: option.split)
  with Cons show ?case
    by (simp add: monad_defs)
qed (simp add: monad_defs)

lemma bays_again: "known_bays t lifts s \<Longrightarrow> onboard_bays cx t lifts s = (Inr (), s)"
  by (auto simp: known_bays_def onboard_bays_def Let_def monad_defs find_many_def filter_empty_conv)

lemma onboarded_again: "onboarded dto (onboarded dto r) = onboarded dto r"
  by (cases "or_null (od_name dto)"; cases "od_autoInvoiceOnComplete dto"; cases "od_activeLiftCount dto")
    (simp_all add: onboarded_def or_set_def or_number_def)

lemma tenant_again:
  assumes "lookup_row t_id t rows = Some r" and rows: "tenants s = update_row t_id t (onboarded dto) rows"
  shows "update_by tenants tenants_update t_id t (onboarded dto) s = (Inr (onboarded dto r), s)"
proof -
  have "update_row t_id t (onboarded dto) (update_row t_id t (onboarded dto) rows) = update_row t_id t (onboarded dto) rows"
    by (simp add: update_row_def onboarded_again)
  moreover have "lookup_row t_id t (update_row t_id t (onboarded dto) rows) = Some (onboarded dto r)"
    using assms(1) by (subst lookup_update_row) (simp_all add: onboarded_def)
  ultimately show ?thesis
    by (simp add: update_by_def monad_defs rows onboarded_again)
qed

lemma wp_onboarding: "wp (completeOnboarding cx t dto)
    (\<lambda>r s'. (\<exists>x. lookup_row t_id t (tenants s) = Some x \<and> r = onboarded dto x) \<and>
       tenants s' = update_row t_id t (onboarded dto) (tenants s) \<and> list_all (known_service t s') (od_services dto) \<and>
       list_all (known_staff t s') (od_staff dto) \<and> known_bays t (od_activeLiftCount dto) s') (\<lambda>_ s'. s' = s) s"
proof -
  let ?d = "s\<lparr>tenants := update_row t_id t (onboarded dto) (tenants s)\<rparr>"
  have bays: "wp (onboard_bays cx t (od_activeLiftCount dto))
      (\<lambda>_ s'. tenants s' = tenants ?d \<and> list_all (known_service t s') (od_services dto) \<and>
       list_all (known_staff t s') (od_staff dto) \<and> known_bays t (od_activeLiftCount dto) s') (\<lambda>_ _. True) s2"
    if "tenants s2 = tenants ?d" "list_all (known_service t s2) (od_services dto)" "list_all (known_staff t s2) (od_staff dto)" for s2
    using that by (intro wp_mono [OF wp_bays]) (use that in \<open>simp_all add: list_all_iff, metis known_grown grown_tenants\<close>)
  have staff: "wp (for_each (od_staff dto) (onboard_one cx t b))
      (\<lambda>_. wp (onboard_bays cx t (od_activeLiftCount dto))
      (\<lambda>_ s'. tenants s' = tenants ?d \<and> list_all (known_service t s') (od_services dto) \<and>
       list_all (known_staff t s') (od_staff dto) \<and> known_bays t (od_activeLiftCount dto) s') (\<lambda>_ _. True)) (\<lambda>_ _. True) s1"
    if "tenants s1 = tenants ?d" "list_all (known_service t s1) (od_services dto)" for b s1
    using that by (intro wp_mono [OF wp_staff] bays) (use that in \<open>simp_all add: list_all_iff, (metis known_grown grown_tenants)+\<close>)
  show ?thesis
    by (auto simp: completeOnboarding_def wp_transaction wp_bindM wp_thenM wp_ret wp_update_by wp_find_first split: option.split
      intro!: wp_mono [OF wp_services] wp_mono [OF staff] elim!: wp_mono simp: grown_def)
qed

lemma onboarding_again:
  assumes "completeOnboarding cx t dto s = (Inr x, s1)"
  shows "completeOnboarding cx' t dto s1 = (Inr x, s1)"
proof -
  obtain r where r: "lookup_row t_id t (tenants s) = Some r" "x = onboarded dto r"
    and s1: "tenants s1 = update_row t_id t (onboarded dto) (tenants s)" "list_all (known_service t s1) (od_services dto)"
      "list_all (known_staff t s1) (od_staff dto)" "known_bays t (od_activeLiftCount dto) s1"
    using wp_ok [OF wp_onboarding assms] by blast
  show ?thesis
    by (simp add: completeOnboarding_def transaction_def bindM_def thenM_def ret_def find_first_def reads_def
      tenant_again [OF r(1) s1(1)] services_again [OF s1(2)] staff_again [OF s1(3)] bays_again [OF s1(4)] r(2))
qed

section \<open>The numbering of the codes\<close>

text \<open>The counter of the codes starts at 1 on every run, so a later run with a new service collides.\<close>

lemma first_code: "sv_code (first_services cx t 1 x k) = ''SRV-01''"
proof -
  have "nat_str 1 = ''1''"
    by code_simp
  then show ?thesis
    by (simp add: first_services_def pad_start_def)
qed

lemma second_code_collides:
  assumes "lookup_row t_id t (tenants s) = Some r" and "v \<in> set (services s)" and "sv_tenantId v = t" and "sv_code v = ''SRV-01''"
    and "od_services dto = x # xs" and "js_trim (os_name x) \<noteq> []"
    and "find (\<lambda>w. sv_tenantId w = t \<and> sv_name w = js_trim (os_name x)) (services s) = None"
  shows "completeOnboarding cx t dto s = (Inl (DbError (UniqueViolation ''services_tenant_id_code_key'')), s)"
proof (rule fails_with)
  have taken: "list_ex (\<lambda>y. sv_tenantId y = t \<and> sv_code y = ''SRV-01'') (services s)"
    using assms(2-4) by (auto simp: list_ex_iff)
  have tenant: "sv_tenantId (first_services cx t 1 x k) = t" for k
    by (simp add: first_services_def)
  show "wp (completeOnboarding cx t dto) (\<lambda>_ _. False)
      (\<lambda>e s'. e = DbError (UniqueViolation ''services_tenant_id_code_key'') \<and> s' = s) s"
    using assms taken by (simp add: completeOnboarding_def wp_transaction wp_bindM wp_thenM wp_update_by wp_find_first
      insert_service_def wp_unique_index wp_fresh_id first_code [simplified] tenant [simplified])
qed

end
