(* ===== verification/InvoiceSettings.thy ===== *)
theory InvoiceSettings
  imports Invoices Customers Staff
begin

text \<open>
  The e-invoice settings of a workshop: the encryption of the provider's keys, the repository with
  its upsert, the service and the controller. The AES-GCM cipher of node is a parameter, and so is
  what an external provider answers.
\<close>

section \<open>CryptoService\<close>

text \<open>\<open>cr_seal n p\<close> is the text \<open>p\<close> sealed with the \<open>n\<close>-th random nonce: nonce, tag and data in hex.\<close>

record cipher =
  cr_seal :: "nat \<Rightarrow> string \<Rightarrow> string \<times> string \<times> string"
  cr_open :: "string \<times> string \<times> string \<Rightarrow> string option"

definition encrypt :: "cipher \<Rightarrow> string option \<Rightarrow> string option dbM" where
  "encrypt cr plainText =
     (case or_null plainText of None \<Rightarrow> ret None
      | Some p \<Rightarrow> bindM (reads id_supply) (\<lambda>n. thenM (modifyM (id_supply_update (\<lambda>_. Suc n)))
          (ret (case cr_seal cr n p of (iv, authTag, encrypted) \<Rightarrow> Some (iv @ '':'' @ authTag @ '':'' @ encrypted)))))"

definition decrypt :: "cipher \<Rightarrow> string option \<Rightarrow> string option" where
  "decrypt cr cipherText =
     (case or_null cipherText of None \<Rightarrow> None
      | Some c \<Rightarrow> (case split_on (CHR '':'') c of [iv, authTag, encrypted] \<Rightarrow> cr_open cr (iv, authTag, encrypted)
          | _ \<Rightarrow> Some c))"

section \<open>The repository\<close>

definition findByTenantId_settings :: "uuid \<Rightarrow> tenant_invoice_setting option dbM" where
  "findByTenantId_settings tenantId = find_first invoice_settings (\<lambda>t. ts_tenantId t = tenantId)"

text \<open>The update passes \<open>undefined\<close> where the data has \<open>null\<close>, which leaves the column.\<close>

definition settings_merge :: "tenant_invoice_setting \<Rightarrow> tenant_invoice_setting \<Rightarrow> tenant_invoice_setting" where
  "settings_merge d t = t\<lparr>ts_provider := ts_provider d,
     ts_encryptedApiKey := or_keep (ts_encryptedApiKey d) (ts_encryptedApiKey t),
     ts_encryptedApiSecret := or_keep (ts_encryptedApiSecret d) (ts_encryptedApiSecret t),
     ts_encryptedUsername := or_keep (ts_encryptedUsername d) (ts_encryptedUsername t),
     ts_encryptedPassword := or_keep (ts_encryptedPassword d) (ts_encryptedPassword t),
     ts_companyTaxId := or_keep (ts_companyTaxId d) (ts_companyTaxId t),
     ts_taxOffice := or_keep (ts_taxOffice d) (ts_taxOffice t),
     ts_seriesPrefix := or_keep (ts_seriesPrefix d) (ts_seriesPrefix t),
     ts_isTestMode := ts_isTestMode d, ts_autoSendOnCompletion := ts_autoSendOnCompletion d\<rparr>"

definition upsert_settings :: "uuid \<Rightarrow> tenant_invoice_setting \<Rightarrow> tenant_invoice_setting dbM" where
  "upsert_settings tenantId d =
     bindM (findByTenantId_settings tenantId) (\<lambda>existing.
     case existing of
       None \<Rightarrow> add_row invoice_settings_update (d\<lparr>ts_tenantId := tenantId, ts_seriesPrefix := Some (or_set (ts_seriesPrefix d) ''ATW'')\<rparr>)
     | Some t \<Rightarrow> update_by invoice_settings invoice_settings_update ts_tenantId tenantId (settings_merge d))"

section \<open>The service\<close>

definition maskString :: "string option \<Rightarrow> string option" where
  "maskString v = (case or_null v of None \<Rightarrow> None
     | Some s \<Rightarrow> Some (if length s \<le> 4 then ''****'' else ''****'' @ drop (length s - 4) s))"

record settings_view =
  sw_provider :: InvoiceProviderType
  sw_hasApiKey :: bool
  sw_hasApiSecret :: bool
  sw_hasPassword :: bool
  sw_maskedApiKey :: "string option"
  sw_username :: "string option"
  sw_companyTaxId :: "string option"
  sw_taxOffice :: "string option"
  sw_seriesPrefix :: string
  sw_isTestMode :: bool
  sw_autoSendOnCompletion :: bool

definition settings_answer :: "cipher \<Rightarrow> tenant_invoice_setting option \<Rightarrow> settings_view" where
  "settings_answer cr config = (case config of
     None \<Rightarrow> \<lparr>sw_provider = INTERNAL, sw_hasApiKey = False, sw_hasApiSecret = False, sw_hasPassword = False,
       sw_maskedApiKey = None, sw_username = None, sw_companyTaxId = None, sw_taxOffice = None, sw_seriesPrefix = ''ATW'',
       sw_isTestMode = False, sw_autoSendOnCompletion = False\<rparr>
   | Some t \<Rightarrow> \<lparr>sw_provider = ts_provider t, sw_hasApiKey = truthy (ts_encryptedApiKey t),
       sw_hasApiSecret = truthy (ts_encryptedApiSecret t), sw_hasPassword = truthy (ts_encryptedPassword t),
       sw_maskedApiKey = maskString (decrypt cr (ts_encryptedApiKey t)),
       sw_username = or_null (decrypt cr (ts_encryptedUsername t)), sw_companyTaxId = ts_companyTaxId t,
       sw_taxOffice = ts_taxOffice t, sw_seriesPrefix = or_else (ts_seriesPrefix t) ''ATW'',
       sw_isTestMode = ts_isTestMode t, sw_autoSendOnCompletion = ts_autoSendOnCompletion t\<rparr>)"

definition getSettings :: "cipher \<Rightarrow> uuid \<Rightarrow> settings_view dbM" where
  "getSettings cr tenantId = bindM (findByTenantId_settings tenantId) (\<lambda>config. ret (settings_answer cr config))"

record settings_dto =
  st_provider :: InvoiceProviderType
  st_apiKey :: "string option"
  st_apiSecret :: "string option"
  st_username :: "string option"
  st_password :: "string option"
  st_companyTaxId :: "string option"
  st_taxOffice :: "string option"
  st_seriesPrefix :: "string option"
  st_isTestMode :: "bool option"
  st_autoSendOnCompletion :: "bool option"

text \<open>A secret of the form: kept when absent, removed when blank, else encrypted.\<close>

definition new_secret :: "cipher \<Rightarrow> string option \<Rightarrow> string option \<Rightarrow> string option dbM" where
  "new_secret cr old typed = (case typed of None \<Rightarrow> ret old | Some x \<Rightarrow> encrypt cr (Some (js_trim x)))"

definition updateSettings :: "cipher \<Rightarrow> uuid \<Rightarrow> settings_dto \<Rightarrow> settings_view dbM" where
  "updateSettings cr tenantId dto =
     bindM (findByTenantId_settings tenantId) (\<lambda>existing.
     let old = (\<lambda>f. case existing of None \<Rightarrow> None | Some t \<Rightarrow> f t) in
     bindM (new_secret cr (old ts_encryptedApiKey) (st_apiKey dto)) (\<lambda>encryptedApiKey.
     bindM (new_secret cr (old ts_encryptedApiSecret) (st_apiSecret dto)) (\<lambda>encryptedApiSecret.
     bindM (new_secret cr (old ts_encryptedUsername) (st_username dto)) (\<lambda>encryptedUsername.
     bindM (new_secret cr (old ts_encryptedPassword) (st_password dto)) (\<lambda>encryptedPassword.
     thenM (ignore (upsert_settings tenantId
       \<lparr>ts_tenantId = tenantId, ts_provider = st_provider dto, ts_encryptedApiKey = encryptedApiKey,
        ts_encryptedApiSecret = encryptedApiSecret, ts_encryptedUsername = encryptedUsername,
        ts_encryptedPassword = encryptedPassword, ts_companyTaxId = or_null (map_option js_trim (st_companyTaxId dto)),
        ts_taxOffice = or_null (map_option js_trim (st_taxOffice dto)),
        ts_seriesPrefix = Some (or_else (map_option js_trim (st_seriesPrefix dto)) ''ATW''),
        ts_isTestMode = or_set (st_isTestMode dto) False, ts_autoSendOnCompletion = or_set (st_autoSendOnCompletion dto) False\<rparr>))
     (getSettings cr tenantId))))))"

text \<open>The credentials the connection test hands to the provider.\<close>

record credentials =
  ce_apiKey :: "string option"
  ce_apiSecret :: "string option"
  ce_username :: "string option"
  ce_password :: "string option"

definition or_stored :: "cipher \<Rightarrow> string option \<Rightarrow> string option \<Rightarrow> string option" where
  "or_stored cr typed stored = (if truthy typed then typed else or_null (decrypt cr stored))"

definition test_credentials :: "cipher \<Rightarrow> uuid \<Rightarrow> credentials \<Rightarrow> credentials dbM" where
  "test_credentials cr tenantId dto =
     (if truthy (ce_apiKey dto) \<and> truthy (ce_apiSecret dto) then ret dto
      else bindM (findByTenantId_settings tenantId) (\<lambda>existing. ret (case existing of None \<Rightarrow> dto
        | Some t \<Rightarrow> \<lparr>ce_apiKey = or_stored cr (ce_apiKey dto) (ts_encryptedApiKey t),
            ce_apiSecret = or_stored cr (ce_apiSecret dto) (ts_encryptedApiSecret t),
            ce_username = or_stored cr (ce_username dto) (ts_encryptedUsername t),
            ce_password = or_stored cr (ce_password dto) (ts_encryptedPassword t)\<rparr>)))"

definition testConnection :: "(InvoiceProviderType \<Rightarrow> credentials \<Rightarrow> 'r) \<Rightarrow> cipher \<Rightarrow> uuid \<Rightarrow> InvoiceProviderType \<Rightarrow> credentials \<Rightarrow> 'r dbM" where
  "testConnection call cr tenantId provider dto =
     bindM (test_credentials cr tenantId dto) (\<lambda>typed.
     ret (call (if provider \<in> {PARASUT, NILVERA, BIZIMHESAP, KOLAYBI} then provider else INTERNAL) typed))"

definition checkCustomerTaxType :: "(InvoiceProviderType \<Rightarrow> string \<Rightarrow> 'r) \<Rightarrow> uuid \<Rightarrow> string \<Rightarrow> (string \<times> 'r) dbM" where
  "checkCustomerTaxType call tenantId taxNumber =
     bindM (getProvider tenantId) (\<lambda>provider. ret (taxNumber, call provider taxNumber))"

section \<open>Secrets come back as they were given\<close>

text \<open>
  What the settings rely on: opening a sealed text gives the text, and hex digits hold no colon.
\<close>

definition good_cipher :: "cipher \<Rightarrow> bool" where
  "good_cipher cr \<longleftrightarrow> (\<forall>n p iv tag d. cr_seal cr n p = (iv, tag, d) \<longrightarrow>
     CHR '':'' \<notin> set (iv @ tag @ d) \<and> cr_open cr (iv, tag, d) = Some p)"

lemma decrypt_sealed:
  assumes "good_cipher cr" and "cr_seal cr n p = (iv, tag, d)"
  shows "decrypt cr (Some (iv @ '':'' @ tag @ '':'' @ d)) = Some p"
proof -
  have clean: "CHR '':'' \<notin> set iv" "CHR '':'' \<notin> set tag" "CHR '':'' \<notin> set d" and opened: "cr_open cr (iv, tag, d) = Some p"
    using assms by (auto simp: good_cipher_def)
  then show ?thesis
    by (simp add: decrypt_def split_on_one split_on_none)
qed

lemma wp_encrypt:
  assumes "good_cipher cr" and "p \<noteq> []"
  shows "wp (encrypt cr (Some p)) (\<lambda>c s'. decrypt cr c = Some p \<and> truthy c \<and> invoice_settings s' = invoice_settings s) (\<lambda>_ _. False) s"
  using assms(2) by (cases "cr_seal cr (id_supply s) p")
    (auto simp: encrypt_def wp_simps decrypt_sealed [OF assms(1), simplified] truthy_def)

lemma wp_new_secret:
  "wp (new_secret cr old typed) (\<lambda>_ s'. invoice_settings s' = invoice_settings s) (\<lambda>_ _. False) s"
  by (auto simp: new_secret_def encrypt_def wp_simps split: option.split)

lemma wp_given_secret:
  assumes "good_cipher cr" and "js_trim x \<noteq> []"
  shows "wp (new_secret cr old (Some x))
    (\<lambda>c s'. decrypt cr c = Some (js_trim x) \<and> truthy c \<and> invoice_settings s' = invoice_settings s) (\<lambda>_ _. False) s"
  using wp_encrypt [OF assms] by (simp add: new_secret_def)

text \<open>A blank secret means to remove the stored one, which stays.\<close>

lemma wp_blank_secret:
  assumes "js_trim x = []"
  shows "wp (new_secret cr old (Some x)) (\<lambda>c s'. c = None \<and> s' = s) (\<lambda>_ _. False) s"
  using assms by (simp add: new_secret_def encrypt_def wp_simps)

lemma wp_upsert:
  "wp (upsert_settings t d) (\<lambda>_ s'. \<exists>r. lookup_row ts_tenantId t (invoice_settings s') = Some r \<and>
     ts_encryptedApiKey r = or_keep (ts_encryptedApiKey d)
       (case lookup_row ts_tenantId t (invoice_settings s) of None \<Rightarrow> None | Some o' \<Rightarrow> ts_encryptedApiKey o'))
    (\<lambda>_ _. False) s"
proof -
  have key: "ts_tenantId (settings_merge d r) = ts_tenantId r" for r
    by (simp add: settings_merge_def)
  have first: "lookup_row ts_tenantId t (rows @ [d\<lparr>ts_tenantId := t, ts_seriesPrefix := p\<rparr>]) =
      Some (d\<lparr>ts_tenantId := t, ts_seriesPrefix := p\<rparr>)" if "lookup_row ts_tenantId t rows = None" for rows p
    using that by (simp add: lookup_row_def find_append)
  show ?thesis
    by (cases "lookup_row ts_tenantId t (invoice_settings s)")
      (simp_all add: upsert_settings_def findByTenantId_settings_def find_first_def lookup_row_def [symmetric] wp_bindM wp_reads
        wp_add_row wp_update_by first lookup_update_row key settings_merge_def or_keep_def split: option.split)
qed

lemma wp_saved_key:
  assumes "st_apiKey dto = Some x"
    and first: "\<And>old s. wp (new_secret cr old (Some x)) (\<lambda>c s'. R c \<and> invoice_settings s' = invoice_settings s) (\<lambda>_ _. False) s"
  shows "wp (updateSettings cr t dto) (\<lambda>_ s'. \<exists>r c. lookup_row ts_tenantId t (invoice_settings s') = Some r \<and> R c \<and>
     ts_encryptedApiKey r = or_keep c
       (case lookup_row ts_tenantId t (invoice_settings s) of None \<Rightarrow> None | Some o' \<Rightarrow> ts_encryptedApiKey o')) (\<lambda>_ _. False) s"
  unfolding updateSettings_def Let_def assms(1) wp_bindM wp_thenM wp_ignore findByTenantId_settings_def wp_find_first
  by (rule wp_mono [OF first])
    (auto simp: getSettings_def findByTenantId_settings_def wp_bindM wp_find_first wp_ret
      intro!: wp_mono [OF wp_new_secret] wp_mono [OF wp_upsert])

text \<open>What the form stored is what the connection test uses when its fields are blank.\<close>

lemma wp_key_comes_back:
  assumes "good_cipher cr" and "st_apiKey dto = Some k" and "js_trim k \<noteq> []"
  shows "wp (thenM (updateSettings cr t dto) (test_credentials cr t \<lparr>ce_apiKey = None, ce_apiSecret = a, ce_username = b, ce_password = c\<rparr>))
    (\<lambda>creds _. ce_apiKey creds = Some (js_trim k)) (\<lambda>_ _. False) s"
  unfolding wp_thenM
  by (rule wp_mono [OF wp_saved_key [where R = "\<lambda>c. decrypt cr c = Some (js_trim k) \<and> truthy c", OF assms(2)]])
    (use wp_given_secret [OF assms(1,3)] assms(3) in \<open>auto simp: test_credentials_def findByTenantId_settings_def lookup_row_def
      wp_simps or_stored_def or_keep_def truthy_def conj_assoc split: option.splits\<close>)

text \<open>A blanked key is still there, and still used.\<close>

lemma wp_key_stays:
  assumes "lookup_row ts_tenantId t (invoice_settings s) = Some old" and "st_apiKey dto = Some k" and "js_trim k = []"
  shows "wp (updateSettings cr t dto) (\<lambda>_ s'. \<exists>r. lookup_row ts_tenantId t (invoice_settings s') = Some r \<and>
    ts_encryptedApiKey r = ts_encryptedApiKey old) (\<lambda>_ _. False) s"
proof -
  have "wp (new_secret cr o' (Some k)) (\<lambda>c s'. c = None \<and> invoice_settings s' = invoice_settings s1) (\<lambda>_ _. False) s1" for o' s1
    by (rule wp_mono [OF wp_blank_secret [OF assms(3)]]) simp_all
  from wp_saved_key [where R = "\<lambda>c. c = None", OF assms(2) this] show ?thesis
    by (rule wp_mono) (auto simp: assms(1) or_keep_def)
qed

end
