(* ===== verification/Media.thy ===== *)
theory Media
  imports Guards Workshop
begin

text \<open>
  \<open>modules/media\<close>: photos of orders and logos of workshops. The object store is outside: a stored or
  deleted object is an effect with its key, an object that is served is its key, and a presigned
  address is made by a parameter.
\<close>

section \<open>Keys\<close>

definition extension :: "string \<Rightarrow> string \<Rightarrow> string" where
  "extension originalname fallback = or_else (Some (last (split_on (CHR ''.'') originalname))) fallback"

definition backslash :: string where
  "backslash = [CHR 0x5C]"

definition valid_key :: "string \<Rightarrow> bool" where
  "valid_key objectKey \<longleftrightarrow> objectKey \<noteq> [] \<and> \<not> contains_at ''..'' objectKey \<and> \<not> contains_at backslash objectKey"

definition may_read :: "string \<Rightarrow> string \<Rightarrow> bool" where
  "may_read tenantId objectKey \<longleftrightarrow> tenantId = [] \<or> starts_with (tenantId @ ''/'') objectKey \<or> starts_with ''public/'' objectKey"

definition check_key :: "string \<Rightarrow> string \<Rightarrow> unit dbM" where
  "check_key tenantId objectKey =
     thenM (ensure (valid_key objectKey) (BadRequestException ''Gecersiz medya anahtari.''))
     (ensure (may_read tenantId objectKey) (ForbiddenException ''Bu medyaya erisim yetkiniz bulunmamaktadir.''))"

definition getPresignedUrl :: "(string \<Rightarrow> string option) \<Rightarrow> string \<Rightarrow> string \<Rightarrow> string dbM" where
  "getPresignedUrl presign tenantId objectKey =
     thenM (check_key tenantId objectKey) (ret (or_else (presign objectKey) []))"

definition getFileStream :: "(string \<Rightarrow> bool) \<Rightarrow> string \<Rightarrow> string \<Rightarrow> string dbM" where
  "getFileStream stored tenantId objectKey =
     thenM (check_key tenantId objectKey)
     (thenM (ensure (stored objectKey) (NotFoundException ''Medya dosyasi bulunamadi.''))
     (ret objectKey))"

section \<open>Photos and logos\<close>

record media_file =
  mf_originalname :: string
  mf_mimetype :: string
  mf_size :: nat

definition photo_key :: "uuid \<Rightarrow> uuid \<Rightarrow> uuid \<Rightarrow> string \<Rightarrow> string" where
  "photo_key tenantId workOrderId fileId ext = tenantId @ ''/work-orders/'' @ workOrderId @ ''/'' @ fileId @ ''.'' @ ext"

definition photo_types :: "string list" where
  "photo_types = [''image/jpeg'', ''image/png'', ''image/webp'', ''image/heic'']"

definition uploadWorkOrderPhoto :: "ctx \<Rightarrow> (string \<Rightarrow> string option) \<Rightarrow> uuid \<Rightarrow> uuid \<Rightarrow> string \<Rightarrow> media_file option \<Rightarrow> string option \<Rightarrow>
    WorkOrderPhotoType \<Rightarrow> (work_order_photo \<times> string) dbM" where
  "uploadWorkOrderPhoto cx presign tenantId workOrderId userId upload caption photoType =
     bindM (require (BadRequestException ''Dosya yuklenmedi.'') upload) (\<lambda>file.
     bindM (find_first work_orders (\<lambda>w. wo_id w = workOrderId \<and> wo_tenantId w = tenantId)) (\<lambda>workOrder.
     thenM (ensure (workOrder \<noteq> None) (BadRequestException ''Is emri bulunamadi veya bu isletmeye ait degil.''))
     (thenM (ensure (mf_mimetype file \<in> set photo_types) (BadRequestException ''Gecersiz dosya formati.''))
     (bindM (fresh_id cx) (\<lambda>fileId.
      let objectKey = photo_key tenantId workOrderId fileId (extension (mf_originalname file) ''jpg'') in
      thenM (emit (StorePut objectKey))
      (bindM (addPhoto cx workOrderId objectKey (or_else caption (mf_originalname file)) photoType (or_else (Some userId) ''SYSTEM'')) (\<lambda>photo.
      bindM (getPresignedUrl presign tenantId objectKey) (\<lambda>url.
      ret (photo, url)))))))))"

definition uploadTenantLogo :: "uuid \<Rightarrow> media_file option \<Rightarrow> string dbM" where
  "uploadTenantLogo tenantId upload =
     bindM (require (BadRequestException ''Logo dosyasi yuklenmedi.'') upload) (\<lambda>file.
     thenM (ensure (mf_mimetype file \<in> {''image/jpeg'', ''image/png'', ''image/webp'', ''image/svg+xml''})
       (BadRequestException ''Gecersiz dosya formati.''))
     (thenM (ensure (mf_size file \<le> 5 * 1024 * 1024) (BadRequestException ''Logo boyutu en fazla 5MB olabilir.''))
     (let objectKey = ''public/tenants/'' @ tenantId @ ''/logo.'' @ extension (mf_originalname file) ''png'';
          relativeUrl = ''/api/v1/media/files/'' @ objectKey in
      thenM (emit (StorePut objectKey))
      (thenM (ignore (update_by tenants tenants_update t_id tenantId (\<lambda>t. t\<lparr>t_logoUrl := Some relativeUrl\<rparr>)))
      (ret relativeUrl)))))"

text \<open>The photo and the workshop of its order.\<close>

definition photo_of :: "uuid \<Rightarrow> uuid \<Rightarrow> string \<Rightarrow> work_order_photo dbM" where
  "photo_of tenantId photoId message =
     bindM (find_first work_order_photos (\<lambda>p. ph_id p = photoId)) (\<lambda>found.
     bindM (require (BadRequestException ''Fotograf bulunamadi.'') found) (\<lambda>photo.
     bindM (find_first work_orders (\<lambda>w. wo_id w = ph_workOrderId photo)) (\<lambda>workOrder.
     thenM (ensure (map_option wo_tenantId workOrder = Some tenantId) (ForbiddenException message))
     (ret photo))))"

definition deleteWorkOrderPhoto :: "uuid \<Rightarrow> uuid \<Rightarrow> unit dbM" where
  "deleteWorkOrderPhoto tenantId photoId =
     bindM (photo_of tenantId photoId ''Bu fotografi silme yetkiniz bulunmamaktadir.'') (\<lambda>photo.
     thenM (emit (StoreDelete (ph_url photo)))
     (ignore (delete_by work_order_photos work_order_photos_update ph_id photoId)))"

definition updateWorkOrderPhoto :: "uuid \<Rightarrow> uuid \<Rightarrow> string option \<Rightarrow> WorkOrderPhotoType option \<Rightarrow> work_order_photo dbM" where
  "updateWorkOrderPhoto tenantId photoId caption photoType =
     bindM (photo_of tenantId photoId ''Bu fotografi guncelleme yetkiniz bulunmamaktadir.'') (\<lambda>_.
     update_by work_order_photos work_order_photos_update ph_id photoId
       (\<lambda>p. p\<lparr>ph_caption := or_set caption (ph_caption p), ph_photoType := or_set photoType (ph_photoType p)\<rparr>))"

definition verifyWorkOrderPhotoExists :: "string \<Rightarrow> bool dbM" where
  "verifyWorkOrderPhotoExists objectKey =
     bindM (find_first work_order_photos (\<lambda>p. ph_url p = objectKey)) (\<lambda>photo. ret (photo \<noteq> None))"

section \<open>Serving a file (media.controller.ts)\<close>

text \<open>The workshop of a valid token; any failure leaves the empty text.\<close>

definition requesting_tenant :: "auth_env \<Rightarrow> string option \<Rightarrow> string dbM" where
  "requesting_tenant env token =
     (case or_null token of None \<Rightarrow> ret []
      | Some tok \<Rightarrow> (case en_verify env (en_now env) tok of None \<Rightarrow> ret []
          | Some payload \<Rightarrow> try_catch (bindM (validateAccessIdentity env payload) (\<lambda>_. ret (or_else (cl_tenantId payload) [])))
              (\<lambda>_. ret [])))"

definition getFile :: "auth_env \<Rightarrow> (string \<Rightarrow> bool) \<Rightarrow> string option \<Rightarrow> string \<Rightarrow> string dbM" where
  "getFile env stored token objectKey =
     thenM (ensure (valid_key objectKey) (BadRequestException ''Gecersiz medya anahtari.''))
     (if starts_with ''public/'' objectKey then getFileStream stored ''public'' objectKey
      else bindM (requesting_tenant env token) (\<lambda>requestingTenantId.
        let fileTenantId = hd (split_on (CHR ''/'') objectKey) in
        thenM (ensure (requestingTenantId \<noteq> [] \<and> requestingTenantId = fileTenantId)
          (ForbiddenException ''Bu medyaya erisim yetkiniz bulunmamaktadir.''))
        (getFileStream stored fileTenantId objectKey)))"

section \<open>Files stay in their workshop\<close>

text \<open>A served file is public, or belongs to the workshop of a token that is still good.\<close>

lemma wp_getFile:
  "wp (getFile env stored token k) (\<lambda>r _. r = k \<and> valid_key k \<and> stored k \<and> (starts_with ''public/'' k \<or>
     (\<exists>tok c t. token = Some tok \<and> en_verify env (en_now env) tok = Some c \<and> cl_tenantId c = Some t \<and> t \<noteq> [] \<and>
        t = hd (split_on (CHR ''/'') k) \<and> returns (validateAccessIdentity env c) s))) (\<lambda>_ _. True) s"
proof -
  have good: "wp (validateAccessIdentity env c) (\<lambda>_ _. returns (validateAccessIdentity env c) s) (\<lambda>_ _. True) s" for c
    by (auto simp: wp_def returns_def split: prod.split sum.split)
  have who: "wp (requesting_tenant env token) (\<lambda>r _. r \<noteq> [] \<longrightarrow> (\<exists>tok c. token = Some tok \<and> en_verify env (en_now env) tok = Some c \<and>
      cl_tenantId c = Some r \<and> returns (validateAccessIdentity env c) s)) (\<lambda>_ _. True) s"
    by (auto simp: requesting_tenant_def wp_ret wp_try_catch wp_bindM or_else_def split: option.split intro!: wp_mono [OF good])
  show ?thesis
    by (auto simp: getFile_def getFileStream_def check_key_def wp_thenM wp_bindM wp_ensure wp_ret wp_if Let_def intro!: wp_mono [OF who])
qed

text \<open>The key of a photo starts with its workshop, whatever the file is called.\<close>

lemma photo_key_owner: "CHR ''/'' \<notin> set t \<Longrightarrow> hd (split_on (CHR ''/'') (photo_key t w f x)) = t"
  using split_on_first [of "CHR ''/''" t "''work-orders/'' @ w @ ''/'' @ f @ ''.'' @ x"] by (simp add: photo_key_def)

text \<open>
  The last part of a file's name goes into the key unchecked: with a backslash in it the upload ends
  in an error after the object and the row were stored.
\<close>

lemma contains_char: "contains_at [c] s \<longleftrightarrow> c \<in> set s"
  by (induction s) auto

lemma wp_upload_refused:
  assumes "find (\<lambda>w. wo_id w = k \<and> wo_tenantId w = t) (work_orders s) = Some w" and "mf_mimetype file \<in> set photo_types"
    and "CHR 0x5C \<in> set (extension (mf_originalname file) ''jpg'')"
    and "gen_id cx (Suc (id_supply s)) \<notin> ph_id ` set (work_order_photos s)"
  shows "wp (uploadWorkOrderPhoto cx presign t k u (Some file) caption ty) (\<lambda>_ _. False)
    (\<lambda>e s'. e = BadRequestException ''Gecersiz medya anahtari.'' \<and>
       (\<exists>p. work_order_photos s' = work_order_photos s @ [p] \<and> outbox s' = outbox s @ [StorePut (ph_url p)])) s"
proof -
  have "CHR 0x5C \<in> set (photo_key t k i (extension (mf_originalname file) ''jpg''))" for i
    using assms(3) by (simp add: photo_key_def)
  then have bad: "\<not> valid_key (photo_key t k i (extension (mf_originalname file) ''jpg''))" for i
    by (simp add: valid_key_def backslash_def contains_char)
  have order: "find (\<lambda>w. wo_id w = k) (work_orders s) \<noteq> None"
    using find_SomeD [OF assms(1)] by (auto simp: find_None_iff)
  show ?thesis
    using assms(1,2,4) order
    by (auto simp: uploadWorkOrderPhoto_def Let_def addPhoto_def getPresignedUrl_def check_key_def wp_bindM wp_thenM wp_require
      wp_ensure wp_find_first wp_fresh_id wp_emit wp_create_row insert_row_def bad)
qed

end
