(* ===== verification/WorkshopFacts.thy ===== *)
theory WorkshopFacts
  imports AccessFacts GateRules Isolation SetupRules InvoiceSettings Media
begin

text \<open>
  The properties of the tenant-scoped database, the contract gate, the setup wizard, the
  notifications, the e-invoice keys and the media files, with the concrete requests of their
  witnesses.
\<close>

section \<open>Isolation\<close>

text \<open>
  C33. Workshops are isolated in the database. Eleven tables are covered: customers, vehicles, appointments,
  products, invoices, payments, users, work orders, and the lines, notes and photos of the orders.
  Over every history of calls that accounts of other workshops make on these tables, in any mixture,
  through the delegates of the service or inside a transaction, every row of workshop \<open>t\<close> stays as it
  is, and no call that answers shows one. Not covered are deletions and changed primary keys in the
  eight tables that other tables refer to, raw SQL, calls of administrators, and tables without a
  policy, such as \<open>tenants\<close>.
\<close>

theorem tenants_are_isolated:
  assumes "order_keys s" and "list_all (call_of_others t) qs" and "call_of_others t q"
    and "s1 = run prisma_client qs s"
  shows "untouched t s s1 \<and>
    (case prisma_client q s1 of
       (Inl e, s2) \<Rightarrow> untouched t s s2
     | (Inr rows, s2) \<Rightarrow> untouched t s s2 \<and> hidden t s1 rows)"
proof -
  have "stays t s s1"
    unfolding assms(4)
    by (rule isolation.run_inv [OF _ admissible_const [OF assms(2)]]) (simp add: stays_def untouched_def assms(1))
  moreover from this have "wp (prisma_client q) (\<lambda>a s'. hidden t s1 a \<and> stays t s1 s') (\<lambda>_. stays t s1) s1"
    using wp_prisma_client [of t "fst q" "snd q" s1] assms(3) by (simp add: call_of_others_def stays_def)
  ultimately show ?thesis
    by (auto simp: wp_def stays_def untouched_def split: prod.splits sum.splits)
qed

definition other_owner :: identity where
  "other_owner = \<lparr>id_userId = ''u9'', id_role = OWNER, id_tenantId = Some ''t2''\<rparr>"

text \<open>
  The owner of another workshop deletes all lines, puts a line on an order of the workshop, moves all
  orders to his own workshop inside a transaction, and reads all notes.
\<close>

theorem tenants_are_isolated_witness:
  "let s1 = run prisma_client
       [(other_owner, ItemCall (ServiceDelegate, DeleteMany, PrismaDelete \<lparr>pa_where = None, pa_data = None\<rparr> (\<lambda>_. True))),
        (other_owner, ItemCall (ServiceDelegate, CreateMany, PrismaCreateMany [sample_line])),
        (other_owner, OrderCall (TransactionClient, UpdateMany, PrismaUpdate \<lparr>pa_where = None, pa_data = Some ''t2''\<rparr>
           (\<lambda>_. True) (\<lambda>w. w\<lparr>wo_tenantId := ''t2''\<rparr>)))] sample_db;
     q = (other_owner, NoteCall (ServiceDelegate, FindMany, PrismaRead \<lparr>pa_where = None, pa_data = None\<rparr> (\<lambda>_. True))) in
   untouched ''t1'' sample_db s1 \<and>
    (case prisma_client q s1 of
       (Inl e, s2) \<Rightarrow> untouched ''t1'' sample_db s2
     | (Inr rows, s2) \<Rightarrow> untouched ''t1'' sample_db s2 \<and> hidden ''t1'' s1 rows)"
  unfolding Let_def
  by (rule tenants_are_isolated [OF _ _ _ refl])
    (simp_all add: call_of_others_def other_workshop_def on_parent_def other_owner_def order_model_def
      sample_db_def empty_db_def sample_line_def sample_order_def order_keys_def order_exists_def keys_def)

section \<open>The contract\<close>

text \<open>
  C34. Nothing runs without a contract: from a store in which the workshop has not accepted it, over every
  history of requests among which none is a signature of its management with both acceptances, every
  request of an account of the workshop to a route the contract closes is refused and changes
  nothing. Requests are those of the four controllers of \<open>Api\<close>.
\<close>

theorem unsigned_workshops_are_shut:
  assumes "contract_shut t s" and "list_all (\<lambda>q. \<not> signs sv t q) qs" and "gated q" and "t \<noteq> []"
    and "en_verify (ap_env sv) time tok = Some c" and "cl_tenantId c = Some t" and "cl_role c \<noteq> SUPER_ADMIN"
    and "s1 = run (api sv) qs s"
  shows "\<exists>e. api sv (time, tok, q) s1 = (Inl e, s1)"
proof -
  have "contract_shut t s1"
    unfolding assms(8) by (rule shut_gate.kept.run_inv [OF assms(1) admissible_const [OF assms(2)]])
  then show ?thesis
    by (rule gate_refuses) (rule assms)+
qed

definition sample_server :: api_server where
  "sample_server = \<lparr>ap_env = sample_env, ap_textHash = ''5f1d'', ap_collate = (\<lambda>a b. True)\<rparr>"

definition sample_bay :: bay_dto where
  "sample_bay = \<lparr>bd_name = None, bd_code = None, bd_category = None, bd_isActive = None, bd_isAvailableForOnline = None,
     bd_orderIndex = None\<rparr>"

text \<open>A signature without the second acceptance and a call of the advertisement link are not enough.\<close>

lemma unsigned_workshops_are_shut_witness:
  "let s1 = run (api sample_server)
      [(1767225600001, ''A'', ContractApi (SignContract \<lparr>sd_saasTermsAccepted = True, sd_dataProcessingAccepted = False,
          sd_marketingAccepted = True\<rparr>)),
       (1767225600002, '''', ContractApi (OptOut ''t1''))] sample_staff in
   \<exists>e. api sample_server (1767225600003, ''A'', WorkshopApi (AddBay ''Lift 9'' sample_bay)) s1 = (Inl e, s1)"
  unfolding Let_def
proof (rule unsigned_workshops_are_shut [OF _ _ _ _ _ _ _ refl])
  show "contract_shut ''t1'' sample_staff"
    by (simp add: contract_shut_def sample_staff_def sample_db_def)
  show "en_verify (ap_env sample_server) 1767225600003 ''A'' = Some (sample_claims ''access'')"
    by (simp add: sample_server_def sample_env_def)
qed (simp_all add: gated_def staff_route_def sample_claims_def)

text \<open>
  C35. A signature opens the workshop for good: when a request to sign was answered, then over every later
  history of requests (of the four controllers of \<open>Api\<close>) the contract gate lets every account of the workshop pass on every route.
\<close>

theorem signing_opens_the_workshop:
  assumes "api sv (time, tok, ContractApi (SignContract dto)) s = (Inr (), s1)"
    and "en_verify (ap_env sv) time tok = Some c" and "cl_tenantId c = Some t" and "t \<noteq> []"
    and "s2 = run (api sv) qs s1" and "id_tenantId who = Some t"
  shows "legal_gate route (Some who) s2 = (Inr (), s2)"
proof -
  have "contract_open t s2"
    unfolding assms(5) by (rule open_gate.kept.run_inv [OF sign_opens [OF assms(1-4)]])
      (rule admissible_const, simp add: list_all_iff)
  then show ?thesis
    using assms(4,6) by (intro open_gate_passes) (simp_all add: truthy_def)
qed

definition both_accepted :: sign_dto where
  "both_accepted = \<lparr>sd_saasTermsAccepted = True, sd_dataProcessingAccepted = True, sd_marketingAccepted = False\<rparr>"

lemma signing_opens_the_workshop_witness:
  "let q = (1767225600001, ''A'', ContractApi (SignContract both_accepted)); s1 = snd (api sample_server q sample_staff);
     s2 = run (api sample_server) [(1767225600002, ''A'', ContractApi (MarketingChoice False))] s1 in
   legal_gate (staff_route []) (Some \<lparr>id_userId = ''u3'', id_role = TECHNICIAN, id_tenantId = Some ''t1''\<rparr>) s2 = (Inr (), s2)"
  unfolding Let_def
proof (rule signing_opens_the_workshop [OF _ _ _ _ refl])
  have "fst (api sample_server (1767225600001, ''A'', ContractApi (SignContract both_accepted)) sample_staff) = Inr ()"
    by code_simp
  then show "api sample_server (1767225600001, ''A'', ContractApi (SignContract both_accepted)) sample_staff =
      (Inr (), snd (api sample_server (1767225600001, ''A'', ContractApi (SignContract both_accepted)) sample_staff))"
    by (metis prod.collapse)
  show "en_verify (ap_env sample_server) 1767225600001 ''A'' = Some (sample_claims ''access'')"
    by (simp add: sample_server_def sample_env_def)
qed (simp_all add: sample_claims_def)

section \<open>The setup wizard\<close>

text \<open>
  C36. Running the setup wizard twice is running it once: after a successful run, a second one with the
  same answers, at any later time, gives the same answer and leaves the whole store as it is: no
  service, technician or bay is made twice.
\<close>

theorem onboarding_twice_is_once:
  assumes "completeOnboarding cx t dto s = (Inr x, s1)"
  shows "completeOnboarding cx' t dto s1 = (Inr x, s1)"
  by (rule onboarding_again [OF assms])

definition sample_setup :: onboarding_dto where
  "sample_setup = \<lparr>od_name = Some '' Oto '', od_activeLiftCount = Some 2, od_autoInvoiceOnComplete = None,
     od_services = [\<lparr>os_name = ''Yag degisimi'', os_category = None, os_durationMinutes = 0, os_laborPrice = 500\<rparr>,
       \<lparr>os_name = ''Fren'', os_category = Some ''Fren'', os_durationMinutes = 90, os_laborPrice = 800\<rparr>],
     od_staff = [\<lparr>of_name = ''Can'', of_surname = None, of_phone = ''0555 444 33 22'', of_expertise = None\<rparr>]\<rparr>"

lemma onboarding_twice_is_once_witness:
  "\<exists>x s1. completeOnboarding sample_ctx ''t1'' sample_setup sample_staff = (Inr x, s1) \<and>
     completeOnboarding (sample_ctx\<lparr>now := 1767225700000\<rparr>) ''t1'' sample_setup s1 = (Inr x, s1)"
proof -
  have "returns (completeOnboarding sample_ctx ''t1'' sample_setup) sample_staff"
    by code_simp
  then obtain x s1 where "completeOnboarding sample_ctx ''t1'' sample_setup sample_staff = (Inr x, s1)"
    by (auto elim: returnsE)
  from this onboarding_twice_is_once [OF this] show ?thesis
    by blast
qed

section \<open>Notifications\<close>

text \<open>
  C37. Messages to customers wait for the morning. A queue job of a notification with a text for a customer
  and a phone number, created from 21:30 to 8:30 by the clock of Turkey, becomes due the next time
  this clock shows nine; every other job is due at once, also at night: those of a notification
  without a text for the customer or without a number (an e-mail, for example). The reminders of the
  worker do not pass through the queue's delay.
\<close>

theorem night_messages_wait_until_nine:
  "\<exists>es. outbox (snd (createNotification cx dto s)) = outbox s @ es \<and> list_all (\<lambda>e. case e of
     QueueJob kind recip delay \<Rightarrow>
       if truthy (nd_customerMessage dto) \<and> truthy (nd_recipientPhone dto) \<and>
         (21 * 60 + 30 \<le> local_minutes (now cx) \<or> local_minutes (now cx) < 8 * 60 + 30)
       then local_minutes (now cx + int delay) = 9 * 60 \<and> 0 < delay \<and> delay < 12 * 60 * 60 * 1000
       else delay = 0
   | _ \<Rightarrow> True) es"
proof -
  have "\<not> awake (now cx) \<longleftrightarrow> 21 * 60 + 30 \<le> local_minutes (now cx) \<or> local_minutes (now cx) < 8 * 60 + 30"
    by (auto simp: awake_def)
  then show ?thesis
    using quiet_hours [of cx dto s] unfolding added_def job_timed_def by (simp only:)
qed

definition sample_notice :: notice where
  "sample_notice = (test_notice other_owner)\<lparr>nd_recipientPhone := Some ''905321234567'', nd_customerMessage := Some ''Arac hazir'',
     nd_sendSms := True, nd_sendWhatsApp := True\<rparr>"

text \<open>
  C38. Inboxes are private. Over every history of requests of other accounts, of any workshop, to the
  inbox, of notifications that any module creates for anybody, and of appointment reminders, the
  notifications an account has stay as they are, read and unread and in their order; all that
  happens to its inbox is that unread ones come in.
\<close>

theorem inboxes_are_private:
  assumes "list_all (not_by u) qs"
  shows "\<exists>new. inbox_of u (run handle_notices qs s) = inbox_of u s @ new \<and> list_all (\<lambda>n. \<not> nt_isRead n) new"
  using inbox_growth.run_inv [OF inbox_grows_refl admissible_const [OF assms]] by (simp add: inbox_grows_def)

definition sample_inbox :: "notification list" where
  "sample_inbox = [inbox_row sample_notice ''u1'' ''n1'', inbox_row sample_notice ''u3'' ''n2'']"

theorem inboxes_are_private_witness:
  "let qs = [InboxCall (sample_ctx, other_owner, ReadNotice ''n1''), InboxCall (sample_ctx, other_owner, DropNotice ''n1''),
      NoticeCreated sample_ctx (sample_notice\<lparr>nd_userId := Some ''u1''\<rparr>), InboxCall (sample_ctx, other_owner, ReadAllNotices),
      InboxCall (sample_ctx, other_owner, TestNotice)];
     s = sample_db\<lparr>notifications := sample_inbox\<rparr> in
   \<exists>new. inbox_of ''u1'' (run handle_notices qs s) = inbox_of ''u1'' s @ new \<and> list_all (\<lambda>n. \<not> nt_isRead n) new"
  unfolding Let_def by (rule inboxes_are_private) (simp add: somebody_else_def other_owner_def)

section \<open>Keys of the e-invoice provider\<close>

text \<open>
  C39. A key comes back as it was given: saving the settings with a key succeeds, and the connection test
  with blank fields then hands exactly this key, without its outer spaces, to the provider. What the
  cipher does is assumed: opening a sealed text gives the text, and its hex parts hold no colon.
\<close>

theorem provider_keys_come_back:
  assumes "good_cipher cr" and "st_apiKey dto = Some k" and "js_trim k \<noteq> []"
  shows "\<exists>x s1 creds s2. updateSettings cr t dto s = (Inr x, s1) \<and>
    test_credentials cr t \<lparr>ce_apiKey = None, ce_apiSecret = a, ce_username = b, ce_password = c\<rparr> s1 = (Inr creds, s2) \<and>
    ce_apiKey creds = Some (js_trim k)"
  using wp_key_comes_back [OF assms, of t a b c s]
  by (auto simp: wp_def thenM_def bindM_def split: prod.splits sum.splits)

text \<open>A cipher whose data has no colon: it writes one as \<open>bb\<close> and the letter \<open>b\<close> as \<open>ba\<close>.\<close>

definition escape :: "string \<Rightarrow> string" where
  "escape p = concat (map (\<lambda>c. if c = CHR '':'' then ''bb'' else if c = CHR ''b'' then ''ba'' else [c]) p)"

fun unescape :: "string \<Rightarrow> string" where
  "unescape [] = []"
| "unescape [x] = [x]"
| "unescape (x # y # xs) = (if x = CHR ''b'' then (if y = CHR ''b'' then CHR '':'' else CHR ''b'') # unescape xs
     else x # unescape (y # xs))"

definition sample_cipher :: cipher where
  "sample_cipher = \<lparr>cr_seal = (\<lambda>n p. (nat_str n, ''7a'', escape p)), cr_open = (\<lambda>(iv, tag, d). Some (unescape d))\<rparr>"

lemma sample_cipher_good: "good_cipher sample_cipher"
proof -
  have plain: "x \<noteq> CHR ''b'' \<Longrightarrow> unescape (x # xs) = x # unescape xs" for x xs
    by (cases xs) auto
  have opened: "unescape (escape p) = p" for p
  proof (induction p)
    case (Cons x p)
    then show ?case
      by (simp add: escape_def plain)
  qed (simp add: escape_def)
  have "CHR '':'' \<notin> set (escape p)" for p
    by (induction p) (auto simp: escape_def)
  moreover have "CHR '':'' \<notin> set (nat_str n)" for n
    using nat_str_digits [of n] by (auto simp: list_all_iff decimal_digit_def)
  ultimately show ?thesis
    by (auto simp: good_cipher_def sample_cipher_def opened)
qed

definition sample_settings :: settings_dto where
  "sample_settings = \<lparr>st_provider = PARASUT, st_apiKey = Some '' ab:12 '', st_apiSecret = None, st_username = Some ''oto'',
     st_password = None, st_companyTaxId = None, st_taxOffice = None, st_seriesPrefix = None, st_isTestMode = Some True,
     st_autoSendOnCompletion = None\<rparr>"

lemma provider_keys_come_back_witness:
  "\<exists>x s1 creds s2. updateSettings sample_cipher ''t1'' sample_settings sample_db = (Inr x, s1) \<and>
    test_credentials sample_cipher ''t1'' \<lparr>ce_apiKey = None, ce_apiSecret = None, ce_username = None, ce_password = None\<rparr> s1 =
      (Inr creds, s2) \<and> ce_apiKey creds = Some (js_trim '' ab:12 '')"
proof (rule provider_keys_come_back [OF sample_cipher_good])
  show "js_trim '' ab:12 '' \<noteq> []"
    by code_simp
qed (simp add: sample_settings_def)

section \<open>Files\<close>

text \<open>
  C40. Files stay in their workshop: a file that is served is a public one, or the request brought a valid
  token of a session that is still good, of the workshop whose folder the file is in. The key has no
  part that climbs up.
\<close>

theorem files_stay_in_their_workshop:
  assumes "getFile env stored token k s = (Inr r, s1)"
  shows "r = k \<and> valid_key k \<and> (starts_with ''public/'' k \<or>
     (\<exists>tok c t. token = Some tok \<and> en_verify env (en_now env) tok = Some c \<and> cl_tenantId c = Some t \<and> t \<noteq> [] \<and>
        t = hd (split_on (CHR ''/'') k) \<and> returns (validateAccessIdentity env c) s))"
  using wp_ok [OF wp_getFile assms] by auto

definition sample_photo_key :: string where
  "sample_photo_key = photo_key ''t1'' order_uuid ''f1'' ''jpg''"

lemma files_stay_in_their_workshop_witness:
  "sample_photo_key = sample_photo_key \<and> valid_key sample_photo_key \<and> (starts_with ''public/'' sample_photo_key \<or>
     (\<exists>tok c t. Some ''A'' = Some tok \<and> en_verify sample_env (en_now sample_env) tok = Some c \<and> cl_tenantId c = Some t \<and> t \<noteq> [] \<and>
        t = hd (split_on (CHR ''/'') sample_photo_key) \<and> returns (validateAccessIdentity sample_env c) sample_staff))"
proof -
  have "fst (getFile sample_env (\<lambda>_. True) (Some ''A'') sample_photo_key sample_staff) = Inr sample_photo_key"
    by code_simp
  then have "getFile sample_env (\<lambda>_. True) (Some ''A'') sample_photo_key sample_staff =
      (Inr sample_photo_key, snd (getFile sample_env (\<lambda>_. True) (Some ''A'') sample_photo_key sample_staff))"
    by (metis prod.collapse)
  from files_stay_in_their_workshop [OF this] show ?thesis .
qed

end
