(* ===== verification/Spec2Isabelle.thy ===== *)
theory Spec2Isabelle
  imports OrderLife InventoryFacts CalendarFacts PlatformFacts RequestFacts CustomerFacts WorkshopFacts
begin

text \<open>
  A verification development for the WorksAuto API (\<open>src/src\<close>, a NestJS service with a Prisma
  repository per module over PostgreSQL, used by car repair shops: each workshop is a tenant).

  \<^bold>\<open>The program.\<close> A request reaches a controller (guards: JWT strategy, roles, idempotency), a use
  case or service checks it, and repositories read and write the tables; effects leave through
  gateways (WebSocket events, audit rows, notifications, SMS, e-mail). The modules share the
  tables: an appointment becomes a work order, an order takes parts from the stock and ends in an
  invoice, the invoice debits the current account of the customer, and a payment credits it.

  \<^bold>\<open>How it is modelled.\<close>
  \<^item> \<open>Prelude\<close>: a method is a function from a store to an exception or a value and a store
    (\<open>('s, 'a) M\<close>). An exception does not undo what was committed before; only \<open>transaction\<close>
    (Prisma's \<open>$transaction\<close>) does. \<open>wp\<close> is the weakest precondition calculus, \<open>keeps\<close> the
    preservation of an invariant, \<open>atomic\<close> says that a failing request leaves no trace.
  \<^item> \<open>Tables\<close>: a table is a list of rows in insertion order; the operations are the Prisma calls the
    repositories use, with primary keys and unique indexes that raise \<open>DbError\<close>. Locale
    \<open>keyed_store\<close> states what the list promises.
  \<^item> \<open>JsNumber\<close>: a JavaScript number is the rational a finite double denotes, \<open>fl\<close> rounds to 53 bits;
    the exponent is not bounded. Money columns are integers of cents, \<open>dec2\<close> converts a number to
    such a column (assumed to give the nearest cent, \<open>rounds_to_cents\<close>).
  \<^item> \<open>Schema\<close>: the models of \<open>prisma/schema.prisma\<close> as records, the database \<open>db\<close> as the record of its
    tables together with Redis and the \<open>outbox\<close> of effects, and \<open>ctx\<close>: clock, identifiers, Decimal.
  \<^item> \<open>Service\<close>: histories of requests (\<open>run\<close>) and the locales \<open>service_contract\<close> and \<open>closed_service\<close>: who
    proves that every request keeps an invariant gets it for all histories. Each of the
    invariants below is an interpretation of one of them.
\<close>

text \<open>
  \<^bold>\<open>Theories and sources\<close> (paths under \<open>src/src/modules\<close> unless they say otherwise).
  \<^item> \<open>WorkOrderDomain\<close>: \<open>work-orders/domain\<close>, the status value object, and beside it the life
    cycle an order shall follow as relations (\<open>advance\<close>, \<open>undo\<close>). \<open>WorkOrderRepo\<close>: the Prisma repository of the orders, with the exclusion
    constraints of the appointments (\<open>prisma/migrations\<close>). \<open>WorkOrders\<close>: \<open>work-orders/application\<close>.
    Lemmas: \<open>WorkOrderStock\<close> and \<open>StockService\<close> (parts on the shelf and parts in orders that are not
    cancelled add up), \<open>OrderLife\<close> (every request moves the orders along the life cycle or not at all),
    \<open>Documents\<close> (numbers and pages), \<open>Cancellation\<close>, \<open>Answers\<close>.
  \<^item> \<open>Invoices\<close>, \<open>Payments\<close>, \<open>CurrentAccounts\<close>: the modules of the same names. Lemmas: \<open>Ledger\<close> (double
    entry over all histories), \<open>Links\<close> (one invoice per order, one payment per gateway
    transaction, and what the services answer to a second one), \<open>Amounts\<close> (double arithmetic is exact), \<open>PaymentFlow\<close>, \<open>Atomicity\<close>.
  \<^item> \<open>Inventory\<close>, \<open>Shelves\<close>: \<open>inventory\<close>. Lemmas: \<open>StockJournal\<close> (the movements explain the stock),
    \<open>Warehouse\<close> (refinement of an abstract warehouse), \<open>ShelfLayout\<close>.
  \<^item> \<open>Appointments\<close>: \<open>appointments\<close>. Lemmas: \<open>Calendar\<close> (what takes a slot, said without the
    queries of the code; taken slots are refused; no double booking).
  \<^item> \<open>Auth\<close>: \<open>auth\<close> and \<open>shared/security/access-identity.ts\<close>. Lemmas: \<open>Sessions\<close> (refresh tokens and
    sessions), \<open>LoginCodes\<close> (one-time codes).
  \<^item> \<open>Staff\<close>: \<open>staff\<close> behind \<open>shared/guards/roles.guard.ts\<close>. Lemmas: \<open>StaffRules\<close>.
  \<^item> \<open>Platform\<close>: \<open>admin\<close>, the deletion of a workshop with the foreign keys of the migrations included.
    Lemmas: \<open>PlatformRules\<close>.
  \<^item> \<open>Idempotency\<close>: \<open>shared/interceptors/idempotency.interceptor.ts\<close> and its guard.
  \<^item> \<open>Vehicles\<close>: \<open>vehicles\<close>. \<open>Customers\<close>, \<open>CustomerImport\<close>, \<open>Redaction\<close>: \<open>customers\<close> (use cases and
    repository; the import, whose counters survive a row's rollback; consents and anonymisation).
    Lemmas: \<open>VehicleRules\<close> (rows that read back as entities), \<open>CustomerRules\<close> (phone numbers,
    debtors, the chain of the redaction log, archive and restore).
  \<^item> \<open>Guards\<close>: the global guards of \<open>app.module.ts\<close> in their order, the permissions of the roles, and
    \<open>shared/infrastructure/prisma/prisma.service.ts\<close> (scoping proxy, tenant transactions) above the
    row level policies of the migrations. Lemmas: \<open>GuardRules\<close> (one table) and \<open>Isolation\<close> (histories
    over eleven tables, the children of the orders with their parent).
  \<^item> \<open>Workshop\<close>: \<open>tenants\<close> and \<open>services\<close>. Lemmas: \<open>SetupRules\<close> (the setup wizard). \<open>Contract\<close>:
    \<open>legal\<close>. \<open>Notices\<close>: \<open>notifications\<close> (creation, inbox, reminder job). Lemmas: \<open>NoticeRules\<close>
    (quiet hours, private inboxes).
    \<open>Api\<close>: the controllers of these four behind the guards, a request from its token to the answer.
    Lemmas: \<open>GateRules\<close> (what the contract opens and closes).
  \<^item> \<open>InvoiceSettings\<close>: the e-invoice settings of \<open>invoices\<close> and \<open>shared/infrastructure/crypto\<close>.
    \<open>Media\<close>: \<open>media\<close>.
  \<^item> \<open>Samples\<close>: a concrete store for the witnesses. The properties are in this theory and in
    \<open>InventoryFacts\<close>, \<open>CalendarFacts\<close>, \<open>AccessFacts\<close>, \<open>PlatformFacts\<close>, \<open>RequestFacts\<close>, \<open>CustomerFacts\<close>, \<open>WorkshopFacts\<close>, each labelled
    with its number.

  \<^bold>\<open>Conventions.\<close> PrismaService adds the tenant to the where clauses of tenant-scoped models; the
  model writes it out, and row level security is a condition where a query meets it (foreign key
  checks and cascades bypass it). Advisory locks do nothing in a sequence of requests. Audit rows,
  notifications and events never throw. Foreign code is a parameter with the behaviour it
  documents as a hypothesis: token signatures, digests, password hashes, random codes and SMS
  delivery (\<open>auth_env\<close>), AES-GCM (\<open>cipher\<close>), the digest of the contract, PayTR's HMAC (\<open>paytr\<close>), the JSON codec (\<open>idem_env\<close>). Redis holds entries with
  an expiry; when it is down it reads nothing and forgets what is written. Texts of messages are
  ASCII, identifiers are well-formed, \<open>undefined\<close> and \<open>NaN\<close> are \<open>None\<close>, a day is 24 hours.

  \<^bold>\<open>Bounds.\<close> No definition runs on fuel: loops recurse over the rows that are left, and the search for a
  slug (\<open>free_slug\<close>) carries a termination proof. The exactness of the amounts needs totals up to
  \<open>10 ^ 12\<close> cents and quantities and rates as the code checks them, that of the leave balances 1000
  leaves of an account with 9999 tenths of a day each; both stay far below 53 bits.

  \<^bold>\<open>Not modelled.\<close> Overflow of 32-bit columns and of Decimal columns; concurrent requests, except
  where a property interleaves two by hand; PDF, HTML and message texts; the object store and the
  signing of its addresses; delivery of notifications by the providers, dashboards and metrics,
  health checks, the rate limiter, the list of workshops, wildcards in search texts, creation times
  and the wiring of NestJS: they are input and output, read-only aggregation or configuration.
\<close>

section \<open>Parts and orders\<close>

text \<open>C1. Parts are conserved: over every history of order requests, what is on the shelf plus what
  the orders hold that are not cancelled (a completed order keeps the parts it has used) stays the
  same for every part.\<close>

theorem stock_conserved:
  assumes "stock_wf s"
  shows "committed (run (handle_stock cx) qs s) pid = committed s pid"
proof -
  have "stock_inv False (committed s) s"
    using assms by (simp add: stock_inv_def)
  from stock_service.run_always [OF this] show ?thesis
    by (simp add: stock_inv_def)
qed

theorem stock_conserved_witness:
  "committed (run (handle_stock sample_ctx) sample_stock_requests sample_db) ''p1'' = 12"
  using stock_conserved [OF sample_stock_wf] sample_stock(2) by simp

text \<open>C3. Cancelling an open order succeeds and puts every part it holds back on the shelf.\<close>

theorem cancel_restores_stock:
  assumes "stock_wf s"
    and "find (\<lambda>w. wo_id w = k \<and> wo_tenantId w = t) (work_orders s) = Some w"
    and "wo_status w = QUEUE \<or> wo_status w = IN_PROGRESS"
  shows "\<exists>x s'. updateWorkOrderStatus cx t k ''CANCELLED'' user s = (Inr x, s') \<and>
    wo_status x = CANCELLED \<and> (\<forall>pid. stock_of s' pid = stock_of s pid + order_parts s k pid)"
  using wp_cancel_order [OF assms(1,2), of cx user] assms(3)
  by (auto simp: wp_def split: prod.splits sum.splits)

theorem cancel_restores_stock_witness:
  "\<exists>x s'. updateWorkOrderStatus sample_ctx ''t1'' order_uuid ''CANCELLED'' None sample_db = (Inr x, s') \<and>
    stock_of s' ''p1'' = 12"
  using cancel_restores_stock [OF sample_stock_wf sample_order_found, of sample_ctx None]
    sample_order_status sample_stock by fastforce

text \<open>C4. The items of a completed or cancelled order cannot be added to, changed or removed:
  the request is refused and nothing changes.\<close>

theorem closed_orders_keep_their_items:
  assumes "find (\<lambda>w. wo_id w = k \<and> wo_tenantId w = t) (work_orders s) = Some w"
    and "wo_status w = COMPLETED \<or> wo_status w = CANCELLED"
  shows "(\<exists>m. addWorkOrderItem cx t k dto author s = (Inl (BadRequestException m), s)) \<and>
    (\<exists>m. updateWorkOrderItem cx t k i upd author role s = (Inl (BadRequestException m), s)) \<and>
    (\<exists>m. removeWorkOrderItem cx t k i author s = (Inl (BadRequestException m), s))"
proof (intro conjI)
  have c: "closed_status (wo_status w)"
    using assms(2) by (auto simp: closed_status_def status_defs)
  show "\<exists>m. addWorkOrderItem cx t k dto author s = (Inl (BadRequestException m), s)"
    using assms(1) c
    by (intro exI fails_with) (simp add: addWorkOrderItem_def findById_WorkOrder_def wp_simps)
  show "\<exists>m. removeWorkOrderItem cx t k i author s = (Inl (BadRequestException m), s)"
    using assms(1) c
    by (intro exI fails_with) (simp add: removeWorkOrderItem_def findById_WorkOrder_def wp_simps)
  show "\<exists>m. updateWorkOrderItem cx t k i upd author role s = (Inl (BadRequestException m), s)"
    using assms(1) c
    by (cases "role = Some TECHNICIAN \<and> iu_unitPrice upd \<noteq> None"; intro exI fails_with)
      (simp_all add: updateWorkOrderItem_def findById_WorkOrder_def wp_simps)
qed

theorem closed_orders_keep_their_items_witness:
  "\<exists>m. removeWorkOrderItem sample_ctx ''t1'' order_uuid ''it1'' ''Usta'' (sample_with COMPLETED) =
    (Inl (BadRequestException m), sample_with COMPLETED)"
  using closed_orders_keep_their_items [OF sample_with_found, of COMPLETED sample_ctx] by auto

text \<open>An order of another workshop is not found by any request on orders, and nothing
  changes.\<close>

theorem foreign_orders_are_not_found:
  assumes "find (\<lambda>w. wo_id w = k \<and> wo_tenantId w = t) (work_orders s) = None"
    and "status_vo status = Inr v"
  shows "(\<exists>m. addWorkOrderItem cx t k dto author s = (Inl (NotFoundException m), s)) \<and>
    (\<exists>m. removeWorkOrderItem cx t k i author s = (Inl (NotFoundException m), s)) \<and>
    (\<exists>m. updateWorkOrderStatus cx t k status user s = (Inl (NotFoundException m), s)) \<and>
    (\<exists>m. rollbackWorkOrder cx t k s = (Inl (NotFoundException m), s)) \<and>
    (\<exists>m. addWorkOrderNote cx t k body internal u s = (Inl (NotFoundException m), s)) \<and>
    (\<exists>m. addWorkOrderPhoto cx t k url cap pt by s = (Inl (NotFoundException m), s)) \<and>
    (\<exists>m. notifyWorkOrderStatus cx t k chans s = (Inl (NotFoundException m), s))"
  using assms
  by (intro conjI exI fails_with; simp add: addWorkOrderItem_def removeWorkOrderItem_def
    updateWorkOrderStatus_def rollbackWorkOrder_def addWorkOrderNote_def addWorkOrderPhoto_def
    notifyWorkOrderStatus_def findById_WorkOrder_def wp_simps)

theorem foreign_orders_are_not_found_witness:
  "\<exists>m. rollbackWorkOrder sample_ctx ''t2'' order_uuid sample_db = (Inl (NotFoundException m), sample_db)"
  using foreign_orders_are_not_found [of order_uuid "''t2''" sample_db "''QUEUE''" QUEUE sample_ctx]
    status_vo_name [of QUEUE] by (simp add: sample_defs)

text \<open>C5. A request that fails leaves no trace: adding, changing and removing items, taking
  a payment, cancelling an invoice and the payment webhook are all or nothing.\<close>

theorem failed_requests_change_nothing:
  "atomic (addWorkOrderItem cx t k dto author) \<and> atomic (updateWorkOrderItem cx t k i upd author role) \<and>
   atomic (removeWorkOrderItem cx t k i author) \<and> atomic (createPayment cx t pay cashier attempt) \<and>
   atomic (cancelInvoice cx t i reason) \<and> atomic (handlePayTrWebhook cx pt payload)"
  by (intro conjI atomic_addWorkOrderItem atomic_updateWorkOrderItem atomic_removeWorkOrderItem
    atomic_createPayment atomic_cancelInvoice atomic_webhook)

section \<open>The life of an order\<close>

text \<open>C6. Orders follow their life cycle. After any request on orders, returned or failed, each stored
  order has the status the life cycle (\<open>advance\<close>, \<open>undo\<close>: relations of their own, not the code's
  tables) gives it: a status request moves the order it names, and only that one, from queue to
  work, from work to finished, back to the queue or to cancelled, a rollback takes the last step
  back, and every other order, and every request the life cycle has no step for, leaves the status
  as it was. An order that is new is in the queue.\<close>

theorem orders_follow_the_life_cycle:
  assumes "unique_rows wo_id (work_orders s)" and "s' = snd (handle_stock cx q s)"
  shows "\<exists>old new. work_orders s' = old @ new \<and> list_all2 (follows q) (work_orders s) old \<and>
    (\<forall>w \<in> set new. wo_status w = QUEUE)"
  by (rule requests_follow [OF assms])

theorem orders_follow_the_life_cycle_witness:
  "\<exists>w \<in> set (work_orders (snd (handle_stock sample_ctx (SetStatus ''t1'' order_uuid ''IN_PROGRESS'' None) sample_db))).
    wo_id w = order_uuid \<and> wo_status w = IN_PROGRESS"
proof -
  have "unique_rows wo_id (work_orders sample_db)"
    by (simp add: sample_defs unique_rows_def)
  from orders_follow_the_life_cycle [OF this refl, of sample_ctx "SetStatus ''t1'' order_uuid ''IN_PROGRESS'' None"]
  obtain w new where w: "work_orders (snd (handle_stock sample_ctx (SetStatus ''t1'' order_uuid ''IN_PROGRESS'' None) sample_db)) = w # new"
      "follows (SetStatus ''t1'' order_uuid ''IN_PROGRESS'' None) sample_order w"
    by (auto simp: sample_db_def list_all2_Cons1)
  have "wo_id w = order_uuid \<and> wo_status w = IN_PROGRESS"
    using w(2) advance.start by (cases "wo_status w") (auto simp: follows_def sample_order_def)
  with w(1) show ?thesis by simp
qed

text \<open>In the life cycle of forward changes and rollbacks, a cancelled order stays cancelled
  for ever, and every other status is reachable from every status that is not cancelled.\<close>

theorem life_cycle_reachability:
  "{w. status_history v w} = (if v = CANCELLED then {CANCELLED} else UNIV)"
  using cancelled_stays [of v] open_reaches_all [of v] status_history.here [of v] by auto

text \<open>A rollback undoes the last step forward, and only the queue and a cancellation cannot
  be rolled back.\<close>

theorem rollback_undoes_progress:
  "(getPreviousStatus w = Inr v) = (canTransitionTo v w \<and> v \<noteq> w \<and> w \<in> {IN_PROGRESS, COMPLETED})"
  by (cases v; cases w) (simp_all add: status_defs)

text \<open>The names of the statuses read back: the constructor accepts exactly the four names
  and the old name \<open>PENDING\<close> of the queue.\<close>

theorem status_names_read_back:
  "status_vo str = Inr v \<longleftrightarrow> str = status_name v \<or> (str = ''PENDING'' \<and> v = QUEUE)"
  by (rule status_vo_ok)

text \<open>The numbers of work orders that workshops draw one after the other, in any order,
  are all different for the same workshop.\<close>

theorem order_numbers_are_distinct:
  "distinct (draw_numbers cx ts s)"
  by (rule draw_distinct)

text \<open>The pages of the order list, put together, are the matching orders, newest first:
  no order is missing or repeated when the page size is between 1 and 200.\<close>

theorem pages_cover_the_orders:
  assumes "1 \<le> l" and "l \<le> 200"
  shows "concat (map (\<lambda>p. order_page t st l p s)
      [0..<nat (- ((- int (length (matching_orders t st s))) div l))]) = rev (matching_orders t st s)"
  by (rule all_pages [OF assms ceiling_pages [OF assms(1)]])

theorem pages_cover_the_orders_witness:
  "order_page ''t1'' None 1 0 sample_db = [sample_order]"
  using pages_cover_the_orders [of 1 "''t1''" None sample_db]
  by (simp add: matching_orders_def sample_defs)

section \<open>The books\<close>

text \<open>C7. Double entry over every history of the books: for each account the balance is debits
  minus credits and the sum of its movements, the debits are the customer's invoices that are
  not cancelled, the credits the payments collected from the customer.\<close>

theorem books_balance:
  assumes "rounds_to_cents (dec2 cx)" and "ledger_ok s"
    and "admissible (handle_ledger cx pt url) ledger_request_ok qs s"
    and "s' = run (handle_ledger cx pt url) qs s"
  shows "(\<forall>a \<in> set (current_accounts s'). ca_balance a = ca_totalDebits a - ca_totalCredits a \<and>
      ca_balance a = moved (cari_movements s') (ca_id a)) \<and>
    account_sum ca_totalDebits s' = invoiced s' \<and> account_sum ca_totalCredits s' = collected s'"
proof -
  have "ledger_ok s'"
    unfolding assms(4)
    by (rule service_contract.run_inv [OF ledger_contract [OF assms(1)] assms(2,3)])
  then show ?thesis
    by (auto simp: ledger_ok_def ledger_inv_def account_ok_def list_all_iff)
qed

theorem books_balance_witness:
  "account_sum ca_totalDebits (run (handle_ledger sample_ctx sample_paytr []) sample_ledger_requests sample_books) =
   invoiced (run (handle_ledger sample_ctx sample_paytr []) sample_ledger_requests sample_books)"
  by (rule books_balance [OF _ sample_ledger_ok _ refl, THEN conjunct2, THEN conjunct1])
    (simp_all add: sample_ctx_def nearest_cent_rounds sample_ledger_requests_def sample_payment_def method_of_def)

text \<open>C8. One invoice per order, one payment per gateway transaction. Over every history of the books no
  two invoices are linked to the same order and no two payments settle the same transaction
  (\<open>once\<close>: the values that are not null are distinct), and it is the services that see to it: a
  further invoice for an order that is linked is refused as a bad request, and a transaction
  that is recorded is answered with the payment it has; both leave the store as it is.\<close>

theorem links_stay_unique:
  assumes "links_ok s" and "s' = run (handle_ledger cx pt url) qs s"
  shows "once i_workOrderId (invoices s') \<and> once gateway_ref (payments s') \<and>
    (\<forall>i \<in> set (invoices s'). \<forall>k dto. i_workOrderId i = Some k \<and> k \<noteq> [] \<and> in_workOrderId dto = Some k \<longrightarrow>
      (\<exists>m. createInvoice cx' (i_tenantId i) dto s' = (Inl (BadRequestException m), s'))) \<and>
    (\<forall>p \<in> set (payments s'). \<forall>a dto cashier. pay_gatewayProvider p = Some ''PAYTR'' \<and>
        pay_transactionId p = Some a \<and> a \<noteq> [] \<and> valid_amount (pd_amount dto) \<longrightarrow>
      createPayment cx' (pay_tenantId p) dto cashier (Some a) s' = (Inr p, s'))"
proof -
  have "links_ok s'"
    unfolding assms(2) by (rule link_service.run_always [OF assms(1)])
  then show ?thesis
    using linked_order_is_billed recorded_transaction_is_known by (auto simp: links_ok_def)
qed

theorem links_stay_unique_witness:
  "\<exists>m. createInvoice sample_ctx ''t1'' sample_invoice_input
      (run (handle_ledger sample_ctx sample_paytr []) [PayTrWebhook sample_webhook] sample_books) =
    (Inl (BadRequestException m), run (handle_ledger sample_ctx sample_paytr []) [PayTrWebhook sample_webhook] sample_books)"
proof -
  let ?s = "run (handle_ledger sample_ctx sample_paytr []) [PayTrWebhook sample_webhook] sample_books"
  have "list_ex (\<lambda>i. i_tenantId i = ''t1'' \<and> i_workOrderId i = Some order_uuid) (invoices ?s)"
    by code_simp
  moreover have "order_uuid \<noteq> []" "in_workOrderId sample_invoice_input = Some order_uuid"
    by (simp_all add: order_uuid_def sample_invoice_input_def)
  ultimately show ?thesis
    using links_stay_unique [OF sample_links_ok refl, of sample_ctx sample_paytr "[]" "[PayTrWebhook sample_webhook]" sample_ctx]
    by (auto simp: list_ex_iff)
qed



text \<open>C10. A payment for an invoice is taken only when the invoice is open and the amount at most
  what remains; then one payment row is added and, in exact cents, the paid amount grows by the
  payment, the remaining amount is what is left of the grand total, and the invoice is paid
  exactly when nothing is left.\<close>

theorem payment_settles_the_invoice:
  assumes "rounds_to_cents (dec2 cx)" and "createPayment cx t dto cashier None s = (Inr p, s')"
    and "pd_invoiceId dto = Some k" and "k \<noteq> []" and "pd_amount dto = num_of_cents m"
    and "list_all (\<lambda>i. money (i_paidAmount i) \<and> money (i_grandTotal i) \<and> money (i_paidAmount i + m)) (invoices s)"
    and "\<bar>m\<bar> \<le> 999999999999"
  shows "\<exists>i. find (\<lambda>i. i_id i = k \<and> i_tenantId i = t) (invoices s) = Some i \<and>
    i_status i \<noteq> I_CANCELLED \<and> i_status i \<noteq> PAID \<and> payments s' = payments s @ [p] \<and> pay_amount p = m \<and>
    invoices s' = update_row i_id k (\<lambda>j. j\<lparr>i_paidAmount := i_paidAmount i + m,
      i_remainingAmount := max 0 (i_grandTotal i - (i_paidAmount i + m)),
      i_status := (if i_grandTotal i \<le> i_paidAmount i + m then PAID else PARTIALLY_PAID)\<rparr>) (invoices s)"
proof -
  obtain i ident c where i: "find (\<lambda>i. i_id i = k \<and> i_tenantId i = t) (invoices s) = Some i"
      "i_status i \<noteq> I_CANCELLED" "i_status i \<noteq> PAID"
    and p: "p = new_payment cx ident t c dto cashier None" "payments s' = payments s @ [p]"
    and s': "invoices s' = update_row i_id k (paid_invoice cx (pd_amount dto) i) (invoices s)"
    using wp_ok [OF wp_collect [OF assms(3,4)] assms(2)] by blast
  have money: "money (i_paidAmount i)" "money (i_grandTotal i)" "money (i_paidAmount i + m)" "money m"
    using assms(6,7) find_SomeD [OF i(1)] by (auto simp: list_all_iff money_def)
  have "paid_invoice cx (pd_amount dto) i = (\<lambda>j. j\<lparr>i_paidAmount := i_paidAmount i + m,
      i_remainingAmount := max 0 (i_grandTotal i - (i_paidAmount i + m)),
      i_status := (if i_grandTotal i \<le> i_paidAmount i + m then PAID else PARTIALLY_PAID)\<rparr>)"
    unfolding assms(5) by (rule ext, rule paid_invoice_exact [OF assms(1) cents_amount [OF assms(7)] money(1,4,3,2)])
  moreover have "pay_amount p = m"
    using rounds_to_centsD [OF assms(1) num_near [OF money(4)]] by (simp add: p(1) new_payment_def assms(5))
  ultimately show ?thesis
    using i p(2) s' by auto
qed

theorem payment_settles_the_invoice_witness:
  "\<exists>p s'. createPayment sample_ctx ''t1'' (sample_payment\<lparr>pd_invoiceId := Some ''i1''\<rparr>) ''Kasa'' None sample_books =
      (Inr p, s') \<and> pay_amount p = 5000 \<and> map i_remainingAmount (invoices s') = [19000]"
proof -
  let ?dto = "sample_payment\<lparr>pd_invoiceId := Some ''i1''\<rparr>"
  have "returns (createPayment sample_ctx ''t1'' ?dto ''Kasa'' None) sample_books"
    by code_simp
  then obtain p s' where run: "createPayment sample_ctx ''t1'' ?dto ''Kasa'' None sample_books = (Inr p, s')"
    by (rule returnsE)
  have "rounds_to_cents (dec2 sample_ctx)" "pd_amount ?dto = num_of_cents 5000"
    by (simp_all add: sample_ctx_def nearest_cent_rounds sample_payment_def num_of_cents_def fl_of_int [of 50, simplified])
  from payment_settles_the_invoice [OF this(1) run _ _ this(2)] run show ?thesis
    by (auto simp: sample_books_def sample_invoice_def money_def update_row_def)
qed
text \<open>C11. A confirmed payment is recorded once: when the gateway sends the same signed
  confirmation again, at any later time, the answer is OK and nothing changes.\<close>

theorem webhook_replay_changes_nothing:
  assumes "handlePayTrWebhook cx pt payload s = (Inr r, s1)"
  shows "handlePayTrWebhook cx' pt payload s1 = (Inr ''OK'', s1)"
proof -
  have verified: "verifyWebhook pt payload"
    by (rule webhook_ok_verified [OF assms])
  from wp_ok [OF wp_webhook_paid assms, of cx'] show ?thesis
  proof
    assume "attempt_paid (wh_merchant_oid payload) s1"
    then show ?thesis by (rule attempt_paid_webhook [OF _ verified])
  next
    assume "s1 = s \<and> wp (handlePayTrWebhook cx' pt payload) (\<lambda>r s''. r = ''OK'' \<and> s'' = s) (\<lambda>_ _. False) s"
    then show ?thesis by (auto intro: returns_with)
  qed
qed

theorem webhook_replay_changes_nothing_witness:
  "\<exists>r s1. handlePayTrWebhook sample_ctx sample_paytr sample_webhook sample_books = (Inr r, s1) \<and>
    handlePayTrWebhook sample_ctx sample_paytr sample_webhook s1 = (Inr ''OK'', s1)"
proof -
  have "returns (handlePayTrWebhook sample_ctx sample_paytr sample_webhook) sample_books"
    by code_simp
  then obtain r s1 where run: "handlePayTrWebhook sample_ctx sample_paytr sample_webhook sample_books = (Inr r, s1)"
    by (rule returnsE)
  from webhook_replay_changes_nothing [OF this] run show ?thesis by blast
qed

text \<open>C12. Only a genuine confirmation is recorded. A webhook whose hash is not the keyed hash of its
  fields is refused as a bad request, and so is a success for an attempt that is not paid yet with
  another amount than the attempt's. Whatever else the webhook is answered (a confirmation of an
  attempt that is paid already, or a status that is not a success, may be answered OK), it
  changes the store only when the hash is right and it reports the success of a known attempt
  that is not paid, with the attempt's amount.\<close>

theorem forged_webhook_is_refused:
  shows "(wh_hash payload \<noteq> hmac pt (merchantKey pt)
        (wh_merchant_oid payload @ merchantSalt pt @ wh_status payload @ wh_total_amount payload) \<longrightarrow>
      (\<exists>m. handlePayTrWebhook cx pt payload s = (Inl (BadRequestException m), s))) \<and>
    (\<forall>a. find (\<lambda>a. pa_id a = wh_merchant_oid payload) (payment_attempts s) = Some a \<and>
        pa_status a \<noteq> ''PAID'' \<and> wh_status payload = ''success'' \<and>
        fdiv (fl (of_nat (digits_value (wh_total_amount payload)))) 100 \<noteq> num_of_cents (pa_amount a) \<longrightarrow>
      (\<exists>m. handlePayTrWebhook cx pt payload s = (Inl (BadRequestException m), s))) \<and>
    (snd (handlePayTrWebhook cx pt payload s) \<noteq> s \<longrightarrow>
      wh_hash payload = hmac pt (merchantKey pt)
        (wh_merchant_oid payload @ merchantSalt pt @ wh_status payload @ wh_total_amount payload) \<and>
      wh_status payload = ''success'' \<and>
      (\<exists>a. find (\<lambda>a. pa_id a = wh_merchant_oid payload) (payment_attempts s) = Some a \<and> pa_status a \<noteq> ''PAID'' \<and>
        fdiv (fl (of_nat (digits_value (wh_total_amount payload)))) 100 = num_of_cents (pa_amount a)))"
  using webhook_unsigned [of payload pt cx s] webhook_mismatch [of payload s _ cx pt] webhook_changes [of cx pt payload s]
  by blast

theorem forged_webhook_is_refused_witness:
  "\<exists>m. handlePayTrWebhook sample_ctx sample_paytr (sample_webhook\<lparr>wh_total_amount := ''999''\<rparr>) sample_books =
    (Inl (BadRequestException m), sample_books)"
  by (rule forged_webhook_is_refused [THEN conjunct1, THEN mp]) (simp add: sample_webhook_def sample_paytr_def)

text \<open>An invoice that is cancelled already, or whose order was completed (or that was issued)
  more than 48 hours ago, cannot be cancelled, and nothing changes.\<close>

theorem late_cancellation_is_refused:
  assumes "find (\<lambda>j. i_id j = i \<and> i_tenantId j = t) (invoices s) = Some row"
    and "i_status row = I_CANCELLED \<or>
      now cx - lock_reference (work_orders s) (mapToEntity None row) > forty_eight_hours"
  shows "\<exists>m. cancelInvoice cx t i reason s = (Inl (BadRequestException m), s)"
proof -
  have lock: "lock_reference orders (mapToEntity (Some its) row) = lock_reference orders (mapToEntity None row)" for orders its
    by (simp add: lock_reference_def mapToEntity_def split: option.split)
  have can: "canCancel (mapToEntity its row) \<longleftrightarrow> i_status row \<noteq> I_CANCELLED" for its
    by (simp add: canCancel_def mapToEntity_def)
  note simps = cancelInvoice_def findById_Invoice_def find_invoice_def wp_simps lock can assms(1)
  show ?thesis
  proof (cases "5 \<le> length (js_trim reason)")
    case short: False
    then show ?thesis by (intro exI fails_with) (simp add: simps)
  next
    case long: True
    show ?thesis
    proof (cases "i_status row = I_CANCELLED")
      case True
      with long show ?thesis by (intro exI fails_with) (simp add: simps)
    next
      case False
      with assms(2) long show ?thesis by (intro exI fails_with) (simp add: simps)
    qed
  qed
qed

theorem late_cancellation_is_refused_witness:
  "\<exists>m. cancelInvoice (sample_ctx\<lparr>now := 1768000000000\<rparr>) ''t1'' ''i1'' ''yanlis'' sample_books =
    (Inl (BadRequestException m), sample_books)"
  by (rule late_cancellation_is_refused [of _ _ _ sample_invoice])
    (simp_all add: sample_books_def sample_invoice_def sample_defs mapToEntity_def lock_reference_def
      lookup_row_def forty_eight_hours_def day_start_def)

text \<open>A successful cancellation in the books cancels exactly the invoice, unlinks it and
  leaves nothing to pay, touches no part and no item, and sends the linked order, and no other,
  back to work.\<close>

theorem invoice_cancellation_reopens_the_order:
  assumes "cancelWithCariReversal cx t i reason s = (Inr x, s')"
  shows "\<exists>row. find (\<lambda>j. i_id j = i \<and> i_tenantId j = t) (invoices s) = Some row \<and> i_status row \<noteq> I_CANCELLED \<and>
    invoices s' = update_row i_id i
      (\<lambda>j. j\<lparr>i_status := I_CANCELLED, i_remainingAmount := 0, i_workOrderId := None\<rparr>) (invoices s) \<and>
    products s' = products s \<and> work_order_items s' = work_order_items s \<and>
    work_orders s' = (case or_null (i_workOrderId row) of None \<Rightarrow> work_orders s
      | Some w \<Rightarrow> update_row wo_id w (\<lambda>w. w\<lparr>wo_status := IN_PROGRESS, wo_completedAt := None,
          wo_updatedAt := now cx\<rparr>) (work_orders s))"
  using wp_ok [OF wp_cancel_orders assms] .

theorem invoice_cancellation_reopens_the_order_witness:
  "\<exists>x s'. cancelWithCariReversal sample_ctx ''t1'' ''i1'' ''yanlis'' sample_books = (Inr x, s') \<and>
    map wo_status (work_orders s') = [IN_PROGRESS] \<and> map i_status (invoices s') = [I_CANCELLED]"
proof -
  have "returns (cancelWithCariReversal sample_ctx ''t1'' ''i1'' ''yanlis'') sample_books"
    by code_simp
  then obtain x s' where run: "cancelWithCariReversal sample_ctx ''t1'' ''i1'' ''yanlis'' sample_books = (Inr x, s')"
    by (rule returnsE)
  from invoice_cancellation_reopens_the_order [OF this] run show ?thesis
    by (auto simp: sample_books_def sample_invoice_def sample_defs update_row_def order_uuid_def or_null_def truthy_def)
qed

text \<open>C13. After an item is added, changed or removed the subtotal of the order, computed in
  doubles, is exactly the sum of price times quantity of the items in the store (up to 100 items
  and 10 billion lira).\<close>

theorem item_changes_keep_the_subtotal:
  assumes "rounds_to_cents (dec2 cx)"
    and "addItem cx t k item rate author s = (Inr w, s') \<or> updateItem cx t k i upd author s = (Inr w, s') \<or>
      removeItem cx t k i author s = (Inr w, s')"
    and "list_all item_ok (items_of k s')" and "exact_order (items_of k s') \<le> 1000000000000"
    and "length (items_of k s') \<le> 100"
  shows "wo_subtotal w = exact_order (items_of k s')"
proof -
  note ops = wp_item_ops_subtotal [OF assms(1)]
  have "subtotal_right k w s'"
    using assms(2) by (elim disjE) (rule wp_ok [OF ops(1)] wp_ok [OF ops(2)] wp_ok [OF ops(3)], assumption)+
  then show ?thesis
    using assms(3-5) by (simp add: subtotal_right_def)
qed

theorem item_changes_keep_the_subtotal_witness:
  "case updateItem sample_ctx ''t1'' order_uuid ''it1'' \<lparr>iu_name = None, iu_unitPrice = None, iu_quantity = Some 1\<rparr>
      ''Usta'' sample_db of (Inl e, s') \<Rightarrow> False
    | (Inr w, s') \<Rightarrow> wo_subtotal w = exact_order (items_of order_uuid s')"
proof -
  let ?m = "updateItem sample_ctx ''t1'' order_uuid ''it1'' \<lparr>iu_name = None, iu_unitPrice = None, iu_quantity = Some 1\<rparr>
      ''Usta'' sample_db"
  have "case ?m of (Inl e, s') \<Rightarrow> False | (Inr w, s') \<Rightarrow> list_all item_ok (items_of order_uuid s') \<and>
      exact_order (items_of order_uuid s') \<le> 1000000000000 \<and> length (items_of order_uuid s') \<le> 100"
    by code_simp
  moreover have "rounds_to_cents (dec2 sample_ctx)"
    by (simp add: sample_ctx_def nearest_cent_rounds)
  ultimately show ?thesis
    using item_changes_keep_the_subtotal [of sample_ctx "''t1''" order_uuid undefined undefined "''Usta''" sample_db]
    by (auto split: prod.splits sum.splits)
qed

section \<open>Notes and the public page\<close>

text \<open>A note is changed only by its author, and deleted only by its author or a manager.\<close>

theorem notes_belong_to_their_author:
  assumes "find (\<lambda>n. n_id n = noteId \<and> list_ex (\<lambda>w. wo_id w = n_workOrderId n \<and> wo_tenantId w = t)
      (work_orders s)) (work_order_notes s) = Some note"
    and "n_workOrderId note = k" and "\<not> owns_note u note"
  shows "(\<exists>m. updateWorkOrderNote t k noteId body u s = (Inl (ForbiddenException m), s)) \<and>
    (na_role u \<noteq> Some OWNER \<and> na_role u \<noteq> Some SERVICE_MANAGER \<longrightarrow>
      (\<exists>m. deleteWorkOrderNote t k noteId u s = (Inl (ForbiddenException m), s)))"
  using assms
  by (intro conjI impI exI fails_with)
    (simp_all add: updateWorkOrderNote_def deleteWorkOrderNote_def findNoteById_def wp_simps)

theorem notes_belong_to_their_author_witness:
  "\<exists>m. deleteWorkOrderNote ''t1'' order_uuid ''n1'' sample_author sample_notes_db =
    (Inl (ForbiddenException m), sample_notes_db)"
  using notes_belong_to_their_author [of "''n1''" "''t1''" sample_notes_db sample_note order_uuid sample_author]
  by (simp add: sample_notes_db_def sample_note_def sample_author_def sample_defs owns_note_def)

text \<open>The public page and the feedback form know an order only by its full UUID: an order
  number, a prefix or anything else finds nothing and changes nothing.\<close>

theorem tracking_needs_the_uuid:
  assumes "\<not> is_uuid (js_trim tok)"
  shows "(\<exists>m. getPublicWorkOrderTrack cx tok s = (Inl (NotFoundException m), s)) \<and>
    (\<exists>m. submitCustomerFeedback cx tok rating comment s = (Inl (NotFoundException m), s))"
  using assms
  by (intro conjI exI fails_with)
    (simp_all add: getPublicWorkOrderTrack_def submitCustomerFeedback_def findPublicTrackByTokenOrNumber_def
      Let_def wp_simps)

theorem tracking_needs_the_uuid_witness:
  "\<exists>m. getPublicWorkOrderTrack sample_ctx ''WO-2026-00001'' sample_db = (Inl (NotFoundException m), sample_db)"
proof -
  have "\<not> is_uuid (js_trim ''WO-2026-00001'')" by code_simp
  from tracking_needs_the_uuid [OF this] show ?thesis by blast
qed

text \<open>The page never changes the store, and once the link has expired it shows no service,
  part, photo or invoice.\<close>

theorem expired_page_is_empty:
  "snd (getPublicWorkOrderTrack cx tok s) = s \<and>
   (case fst (getPublicWorkOrderTrack cx tok s) of Inl e \<Rightarrow> True
    | Inr page \<Rightarrow> (\<exists>w \<in> set (work_orders s). wo_id w = uuid_value (js_trim tok) \<and>
        tr_expired page = track_expired cx w) \<and>
      (tr_expired page = (tr_expired page \<and> tr_services page = [] \<and> tr_parts page = [] \<and>
        tr_photos page = [] \<and> tr_invoice page = None)))"
proof -
  have "wp (getPublicWorkOrderTrack cx tok) (\<lambda>page _.
      (\<exists>w \<in> set (work_orders s). wo_id w = uuid_value (js_trim tok) \<and> tr_expired page = track_expired cx w) \<and>
      (tr_expired page = (tr_expired page \<and> tr_services page = [] \<and> tr_parts page = [] \<and>
        tr_photos page = [] \<and> tr_invoice page = None))) (\<lambda>_ _. True) s"
    by (auto simp: getPublicWorkOrderTrack_def findPublicTrackByTokenOrNumber_def wp_simps Let_def
      split: option.split dest!: find_SomeD)
  then show ?thesis
    using read_only_track [of cx tok]
    by (auto simp: read_only_def wp_def split: prod.splits sum.splits)
qed

text \<open>The masked name and phone hide what they should: names of the same length with the
  same first two letters have the same mask, and so have phone numbers with the same operator
  digits and the same last two digits.\<close>

theorem masks_hide_the_rest:
  "(length (js_trim a) = length (js_trim b) \<and> 2 < length (js_trim a) \<and>
      take 2 (js_trim a) = take 2 (js_trim b) \<and> a \<noteq> [] \<and> b \<noteq> [] \<longrightarrow> maskName (Some a) = maskName (Some b)) \<and>
   (length (digits_of p) = 11 \<and> length (digits_of q) = 11 \<and>
      take 3 (drop 1 (digits_of p)) = take 3 (drop 1 (digits_of q)) \<and>
      drop 9 (digits_of p) = drop 9 (digits_of q) \<and> p \<noteq> [] \<and> q \<noteq> [] \<longrightarrow> maskPhone (Some p) = maskPhone (Some q))"
  by (auto simp: maskName_def maskPhone_def truthy_def Let_def)

theorem masks_hide_the_rest_witness:
  "maskName (Some ''Ahmet'') = maskName (Some ''Ahsen'') \<and>
   maskPhone (Some ''05321234567'') = maskPhone (Some ''05327777767'')"
  using masks_hide_the_rest [of "''Ahmet''" "''Ahsen''" "''05321234567''" "''05327777767''"]
  by (simp add: js_trim_def is_space_def digits_of_def)

section \<open>Where the code does not do what it means to\<close>

text \<open>Cancelling the invoice of an order that was itself cancelled puts the order back to
  work although its parts were returned: the books now count them twice.\<close>

theorem reopening_counts_parts_twice:
  assumes "stock_wf s"
    and "find (\<lambda>j. i_id j = i \<and> i_tenantId j = t) (invoices s) = Some row"
    and "i_workOrderId row = Some k" and "k \<noteq> []"
    and "lookup_row wo_id k (work_orders s) = Some w" and "wo_status w = CANCELLED"
    and "cancelWithCariReversal cx t i reason s = (Inr x, s')"
  shows "committed s' pid = committed s pid + order_parts s k pid"
  by (rule reopen_gains [OF assms])

theorem reopening_counts_parts_twice_witness:
  "\<exists>x s'. cancelWithCariReversal sample_ctx ''t1'' ''i1'' ''yanlis'' (sample_books\<lparr>work_orders :=
      [sample_order\<lparr>wo_status := CANCELLED\<rparr>]\<rparr>) = (Inr x, s') \<and> committed s' ''p1'' = 12"
proof -
  let ?s = "sample_books\<lparr>work_orders := [sample_order\<lparr>wo_status := CANCELLED\<rparr>]\<rparr>"
  have "returns (cancelWithCariReversal sample_ctx ''t1'' ''i1'' ''yanlis'') ?s"
    by code_simp
  then obtain x s' where run: "cancelWithCariReversal sample_ctx ''t1'' ''i1'' ''yanlis'' ?s = (Inr x, s')"
    by (rule returnsE)
  have wf: "stock_wf ?s"
    by (simp add: stock_wf_def sample_books_def sample_defs unique_rows_def stock_part_def)
  have c: "committed ?s ''p1'' = 10" "order_parts ?s order_uuid ''p1'' = 2" "order_uuid \<noteq> []"
    by code_simp+
  from reopening_counts_parts_twice [OF wf _ _ c(3) _ _ run, of sample_invoice "sample_order\<lparr>wo_status := CANCELLED\<rparr>" "''p1''"]
    run c show ?thesis
    by (simp add: sample_books_def sample_invoice_def sample_order_def lookup_row_def)
qed

text \<open>The feedback form, open to everyone with the link, restarts the retention period of a
  cancelled order: right after it the link is valid again, however long it had expired.\<close>

theorem feedback_revives_the_link:
  assumes "submitCustomerFeedback cx tok rating comment s = (Inr b, s')"
    and "lookup_row wo_id (uuid_value (js_trim tok)) (work_orders s) = Some w" and "wo_status w = CANCELLED"
  shows "\<exists>w'. lookup_row wo_id (uuid_value (js_trim tok)) (work_orders s') = Some w' \<and> \<not> track_expired cx w'"
  using wp_ok [OF tracked_order_kept assms(1)] assms(2,3) by (auto simp: track_expired_def one_day_def)

theorem feedback_revives_the_link_witness:
  "\<exists>b s' w'. submitCustomerFeedback sample_ctx order_uuid 5 None (sample_with CANCELLED) = (Inr b, s') \<and>
    track_expired sample_ctx (sample_order\<lparr>wo_status := CANCELLED\<rparr>) \<and>
    lookup_row wo_id order_uuid (work_orders s') = Some w' \<and> \<not> track_expired sample_ctx w'"
proof -
  have "returns (submitCustomerFeedback sample_ctx order_uuid 5 None) (sample_with CANCELLED)"
    by (simp add: submitCustomerFeedback_def findPublicTrackByTokenOrNumber_def sample_uuid Let_def returns_def
      monad_defs find_first_def updateCustomerFeedback_def update_by_def emit_def sample_with_def
      sample_order_def lookup_row_def)
  then obtain b s' where run: "submitCustomerFeedback sample_ctx order_uuid 5 None (sample_with CANCELLED) = (Inr b, s')"
    by (rule returnsE)
  have "track_expired sample_ctx (sample_order\<lparr>wo_status := CANCELLED\<rparr>)"
    by (simp add: track_expired_def sample_ctx_def sample_order_def one_day_def)
  with feedback_revives_the_link [OF run, unfolded sample_uuid, of "sample_order\<lparr>wo_status := CANCELLED\<rparr>"] run
  show ?thesis
    by (auto simp: sample_with_def lookup_row_def sample_order_def)
qed

text \<open>The electronic number that \<open>createWithCariMovement\<close> draws for an invoice never survives:
  whatever provider is configured, the finished invoice has the empty one.\<close>

theorem electronic_number_is_lost:
  assumes "createInvoice cx t dto s = (Inr e, s')"
  shows "ie_gibInvoiceNumber e = Some []"
  using wp_ok [OF wp_create_gib assms] .

theorem electronic_number_is_lost_witness:
  "\<exists>e s'. createInvoice (sample_ctx\<lparr>year := 6\<rparr>) ''t1'' (sample_invoice_input\<lparr>in_workOrderId := None, in_items := Some [sample_free_line]\<rparr>) sample_db = (Inr e, s') \<and>
    ie_gibInvoiceNumber e = Some []"
proof -
  have "returns (createInvoice (sample_ctx\<lparr>year := 6\<rparr>) ''t1'' (sample_invoice_input\<lparr>in_workOrderId := None, in_items := Some [sample_free_line]\<rparr>)) sample_db"
    by code_simp
  then obtain e s' where run: "createInvoice (sample_ctx\<lparr>year := 6\<rparr>) ''t1'' (sample_invoice_input\<lparr>in_workOrderId := None, in_items := Some [sample_free_line]\<rparr>) sample_db = (Inr e, s')"
    by (rule returnsE)
  from electronic_number_is_lost [OF this] run show ?thesis by blast
qed

end
